(* ===== verification/Prelude.thy ===== *)
theory Prelude
  imports Main "HOL-Library.Word" "HOL-Library.Multiset"
begin

text \<open>
  Shared vocabulary of the development.

  The services of the crate are chains of futures (\<open>and_then\<close>, \<open>map_err\<close>, \<open>then\<close>, \<open>or_else\<close>)
  and of \<open>Result\<close> values with the question mark operator. Both are modelled by one type of
  computations: a function from a state to an error or a value together with the next state.
  The combinators carry the names they have in the code.
\<close>

named_theorems comp_simps \<open>unfolding rules of the computation combinators\<close>
named_theorems success \<open>when a computation returns a value\<close>
named_theorems keeps_intros \<open>a computation keeps a relation between its initial and final state\<close>

section \<open>Computations that may fail\<close>

type_synonym ('s, 'e, 'a) comp = "'s \<Rightarrow> ('e + 'a) \<times> 's"

definition ok :: "'a \<Rightarrow> ('s, 'e, 'a) comp" where
  "ok a = (\<lambda>s. (Inr a, s))"

definition err :: "'e \<Rightarrow> ('s, 'e, 'a) comp" where
  "err e = (\<lambda>s. (Inl e, s))"

definition and_then :: "('s, 'e, 'a) comp \<Rightarrow> ('a \<Rightarrow> ('s, 'e, 'b) comp) \<Rightarrow> ('s, 'e, 'b) comp" where
  "and_then m f = (\<lambda>s. case m s of (Inl e, t) \<Rightarrow> (Inl e, t) | (Inr a, t) \<Rightarrow> f a t)"

definition then_res :: "('s, 'e, 'a) comp \<Rightarrow> ('e + 'a \<Rightarrow> ('s, 'f, 'b) comp) \<Rightarrow> ('s, 'f, 'b) comp" where
  "then_res m f = (\<lambda>s. case m s of (r, t) \<Rightarrow> f r t)"

definition map_ok :: "('a \<Rightarrow> 'b) \<Rightarrow> ('s, 'e, 'a) comp \<Rightarrow> ('s, 'e, 'b) comp" where
  "map_ok g m = (\<lambda>s. case m s of (r, t) \<Rightarrow> (map_sum id g r, t))"

definition map_err :: "('e \<Rightarrow> 'f) \<Rightarrow> ('s, 'e, 'a) comp \<Rightarrow> ('s, 'f, 'a) comp" where
  "map_err g m = (\<lambda>s. case m s of (r, t) \<Rightarrow> (map_sum g id r, t))"

definition or_else :: "('s, 'e, 'a) comp \<Rightarrow> ('e \<Rightarrow> ('s, 'f, 'a) comp) \<Rightarrow> ('s, 'f, 'a) comp" where
  "or_else m f = (\<lambda>s. case m s of (Inl e, t) \<Rightarrow> f e t | (Inr a, t) \<Rightarrow> (Inr a, t))"

definition ok_or :: "'e \<Rightarrow> 'a option \<Rightarrow> ('s, 'e, 'a) comp" where
  "ok_or e x = (case x of None \<Rightarrow> err e | Some a \<Rightarrow> ok a)"

definition of_result :: "'e + 'a \<Rightarrow> ('s, 'e, 'a) comp" where
  "of_result r = (\<lambda>s. (r, s))"

definition get_state :: "('s \<Rightarrow> 'a) \<Rightarrow> ('s, 'e, 'a) comp" where
  "get_state f = (\<lambda>s. (Inr (f s), s))"

definition modify :: "('s \<Rightarrow> 's) \<Rightarrow> ('s, 'e, unit) comp" where
  "modify f = (\<lambda>s. (Inr (), f s))"

text \<open>\<open>collect::<Result<Vec<_>, _>>()\<close> and the sequential streams stop at the first error.\<close>

fun try_map :: "('a \<Rightarrow> ('s, 'e, 'b) comp) \<Rightarrow> 'a list \<Rightarrow> ('s, 'e, 'b list) comp" where
  "try_map f [] = ok []"
| "try_map f (x # xs) = and_then (f x) (\<lambda>y. and_then (try_map f xs) (\<lambda>ys. ok (y # ys)))"

definition for_each :: "('a \<Rightarrow> ('s, 'e, 'b) comp) \<Rightarrow> 'a list \<Rightarrow> ('s, 'e, unit) comp" where
  "for_each f xs = map_ok (\<lambda>_. ()) (try_map f xs)"

text \<open>The same for pure results.\<close>

fun result_map :: "('a \<Rightarrow> 'e + 'b) \<Rightarrow> 'a list \<Rightarrow> 'e + 'b list" where
  "result_map f [] = Inr []"
| "result_map f (x # xs) =
     (case f x of Inl e \<Rightarrow> Inl e
      | Inr y \<Rightarrow> (case result_map f xs of Inl e \<Rightarrow> Inl e | Inr ys \<Rightarrow> Inr (y # ys)))"

fun try_fold :: "('b \<Rightarrow> 'a \<Rightarrow> 'b option) \<Rightarrow> 'b \<Rightarrow> 'a list \<Rightarrow> 'b option" where
  "try_fold f acc [] = Some acc"
| "try_fold f acc (x # xs) = (case f acc x of None \<Rightarrow> None | Some acc' \<Rightarrow> try_fold f acc' xs)"

section \<open>Laws of the combinators\<close>

lemma ok_apply: "ok a s = (Inr a, s)" by (simp add: ok_def)
lemma err_apply: "err e s = (Inl e, s)" by (simp add: err_def)
lemma of_result_apply: "of_result r s = (r, s)" by (simp add: of_result_def)

text \<open>As a rewrite rule the first of these would turn every \<open>ok a\<close> into a partially applied pair.\<close>

lemma ok_simps [simp, success]:
  "ok a s = (r, t) \<longleftrightarrow> r = Inr a \<and> t = s"
  "(r, t) = ok a s \<longleftrightarrow> r = Inr a \<and> t = s"
  "fst (ok a s) = Inr a" "snd (ok a s) = s"
  "case_prod f (ok a s) = f (Inr a) s"
  by (auto simp: ok_def)

lemma err_simps [simp, success]:
  "err e s = (r, t) \<longleftrightarrow> r = Inl e \<and> t = s"
  "(r, t) = err e s \<longleftrightarrow> r = Inl e \<and> t = s"
  "fst (err e s) = Inl e" "snd (err e s) = s"
  "case_prod f (err e s) = f (Inl e) s"
  by (auto simp: err_def)

lemma of_result_simps [simp, success]:
  "of_result q s = (r, t) \<longleftrightarrow> r = q \<and> t = s"
  "fst (of_result q s) = q" "snd (of_result q s) = s"
  "case_prod f (of_result q s) = f q s"
  by (auto simp: of_result_def)

lemma get_state_apply [simp, comp_simps]: "get_state f s = (Inr (f s), s)" by (simp add: get_state_def)
lemma modify_apply [simp, comp_simps]: "modify f s = (Inr (), f s)" by (simp add: modify_def)

lemma ok_or_simps [simp, comp_simps]:
  "ok_or e None = err e" "ok_or e (Some a) = ok a"
  by (simp_all add: ok_or_def)

lemma and_then_ok [simp]: "and_then (ok a) f = f a"
  by (simp add: and_then_def ok_def fun_eq_iff)

lemma and_then_err [simp]: "and_then (err e) f = err e"
  by (simp add: and_then_def fun_eq_iff)

lemma and_then_right_ok [simp]: "and_then m ok = m"
  by (auto simp: and_then_def fun_eq_iff split: prod.splits sum.splits)

lemma and_then_assoc:
  "and_then (and_then m f) g = and_then m (\<lambda>a. and_then (f a) g)"
  by (auto simp: and_then_def fun_eq_iff split: prod.splits sum.splits)

lemma map_ok_as_and_then: "map_ok g m = and_then m (\<lambda>a. ok (g a))"
  by (auto simp: and_then_def map_ok_def fun_eq_iff split: prod.splits sum.splits)

lemma apply_Inr [simp]:
  "m s = (Inr a, t) \<Longrightarrow> and_then m f s = f a t"
  "m s = (Inr a, t) \<Longrightarrow> map_ok g m s = (Inr (g a), t)"
  "m s = (Inr a, t) \<Longrightarrow> map_err h m s = (Inr a, t)"
  "m s = (Inr a, t) \<Longrightarrow> or_else m k s = (Inr a, t)"
  "m s = (Inr a, t) \<Longrightarrow> then_res m l s = l (Inr a) t"
  by (simp_all add: and_then_def map_ok_def map_err_def or_else_def then_res_def)

lemma apply_Inl [simp]:
  "m s = (Inl e, t) \<Longrightarrow> and_then m f s = (Inl e, t)"
  "m s = (Inl e, t) \<Longrightarrow> map_ok g m s = (Inl e, t)"
  "m s = (Inl e, t) \<Longrightarrow> map_err h m s = (Inl (h e), t)"
  "m s = (Inl e, t) \<Longrightarrow> or_else m k s = k e t"
  "m s = (Inl e, t) \<Longrightarrow> then_res m l s = l (Inl e) t"
  by (simp_all add: and_then_def map_ok_def map_err_def or_else_def then_res_def)

lemma and_then_success [success]:
  "and_then m f s = (Inr b, u) \<longleftrightarrow> (\<exists>a t. m s = (Inr a, t) \<and> f a t = (Inr b, u))"
  by (auto simp: and_then_def split: prod.splits sum.splits)

lemma map_ok_success [success]:
  "map_ok g m s = (Inr b, u) \<longleftrightarrow> (\<exists>a. m s = (Inr a, u) \<and> b = g a)"
  by (cases "m s"; cases "fst (m s)") (auto simp: map_ok_def)

lemma map_err_success [success]:
  "map_err g m s = (Inr b, u) \<longleftrightarrow> m s = (Inr b, u)"
  by (cases "m s"; cases "fst (m s)") (auto simp: map_err_def)

lemma or_else_success [success]:
  "or_else m f s = (Inr b, u) \<longleftrightarrow>
     m s = (Inr b, u) \<or> (\<exists>e t. m s = (Inl e, t) \<and> f e t = (Inr b, u))"
  by (auto simp: or_else_def split: prod.splits sum.splits)

lemma ok_or_success [success]: "ok_or e x s = (Inr b, u) \<longleftrightarrow> x = Some b \<and> u = s"
  by (cases x) auto

lemma then_res_success [success]:
  "then_res m f s = (r, u) \<longleftrightarrow> (\<exists>q t. m s = (q, t) \<and> f q t = (r, u))"
  by (auto simp: then_res_def split: prod.splits)

lemma try_map_cong [fundef_cong]:
  "xs = ys \<Longrightarrow> (\<And>x. x \<in> set ys \<Longrightarrow> f x = g x) \<Longrightarrow> try_map f xs = try_map g ys"
proof (induction ys arbitrary: xs)
  case (Cons y ys)
  then show ?case by (cases xs) auto
qed simp

lemma try_map_length:
  "try_map f xs s = (Inr ys, t) \<Longrightarrow> length ys = length xs"
  by (induction xs arbitrary: s ys) (auto simp: success)

lemma result_map_Inr:
  "result_map f xs = Inr ys \<longleftrightarrow> list_all2 (\<lambda>x y. f x = Inr y) xs ys"
proof (induction xs arbitrary: ys)
  case Nil
  then show ?case by auto
next
  case (Cons x xs)
  have "(\<exists>zs. result_map f xs = Inr zs \<and> ys = y # zs) \<longleftrightarrow>
      (\<exists>zs. list_all2 (\<lambda>x y. f x = Inr y) xs zs \<and> ys = y # zs)" for y
    by (simp add: Cons.IH)
  then show ?case
    by (cases "f x"; cases "result_map f xs") (auto simp: list_all2_Cons1)
qed

lemma list_all2_source: "list_all2 R xs ys \<Longrightarrow> y \<in> set ys \<Longrightarrow> \<exists>x\<in>set xs. R x y"
  by (induction rule: list_all2_induct) auto

section \<open>Relations kept by every run of a computation\<close>

text \<open>
  \<open>keeps R m\<close> says that whatever \<open>m\<close> returns, its final state is \<open>R\<close>-related to its initial one.
  Frame conditions (a table is not touched), invariants (\<open>I s \<longrightarrow> I t\<close>) and monotonicity (a log only
  grows) are all of this form. The locale lists what \<open>R\<close> has to satisfy; its lemmas carry the
  property through the combinators.
\<close>

definition keeps :: "('s \<Rightarrow> 's \<Rightarrow> bool) \<Rightarrow> ('s, 'e, 'a) comp \<Rightarrow> bool" where
  "keeps R m \<longleftrightarrow> (\<forall>s. R s (snd (m s)))"

lemma keepsI: "(\<And>s r t. m s = (r, t) \<Longrightarrow> R s t) \<Longrightarrow> keeps R m"
  by (metis keeps_def prod.collapse)

lemma keepsD: "keeps R m \<Longrightarrow> m s = (r, t) \<Longrightarrow> R s t"
  unfolding keeps_def by (metis snd_conv)

locale step_relation =
  fixes R :: "'s \<Rightarrow> 's \<Rightarrow> bool"
  assumes R_refl: "R s s"
    and R_trans: "R s t \<Longrightarrow> R t u \<Longrightarrow> R s u"
begin

lemma keeps_ok [keeps_intros]: "keeps R (ok a)"
  by (simp add: keeps_def R_refl)

lemma keeps_err [keeps_intros]: "keeps R (err e)"
  by (simp add: keeps_def R_refl)

lemma keeps_of_result [keeps_intros]: "keeps R (of_result r)"
  by (simp add: keeps_def R_refl)

lemma keeps_ok_or [keeps_intros]: "keeps R (ok_or e x)"
  by (simp add: keeps_def R_refl ok_or_def split: option.splits)

lemma keeps_get_state [keeps_intros]: "keeps R (get_state f)"
  by (simp add: keeps_def R_refl)

lemma keeps_and_then [keeps_intros]:
  "keeps R m \<Longrightarrow> (\<And>a. keeps R (f a)) \<Longrightarrow> keeps R (and_then m f)"
  unfolding keeps_def and_then_def
  by (auto split: prod.splits sum.splits) (metis R_trans snd_conv)+

lemma keeps_then_res [keeps_intros]:
  "keeps R m \<Longrightarrow> (\<And>r. keeps R (f r)) \<Longrightarrow> keeps R (then_res m f)"
  unfolding keeps_def then_res_def
  by (auto split: prod.splits) (metis R_trans snd_conv)+

lemma keeps_or_else [keeps_intros]:
  "keeps R m \<Longrightarrow> (\<And>e. keeps R (f e)) \<Longrightarrow> keeps R (or_else m f)"
  unfolding keeps_def or_else_def
  by (auto split: prod.splits sum.splits) (metis R_trans snd_conv)+

lemma keeps_map_ok [keeps_intros]: "keeps R m \<Longrightarrow> keeps R (map_ok g m)"
  unfolding keeps_def map_ok_def by (auto split: prod.splits) (metis snd_conv)

lemma keeps_map_err [keeps_intros]: "keeps R m \<Longrightarrow> keeps R (map_err g m)"
  unfolding keeps_def map_err_def by (auto split: prod.splits) (metis snd_conv)

lemma keeps_try_map [keeps_intros]:
  "(\<And>x. keeps R (f x)) \<Longrightarrow> keeps R (try_map f xs)"
  by (induction xs) (auto intro!: keeps_ok keeps_and_then)

lemma keeps_for_each [keeps_intros]:
  "(\<And>x. keeps R (f x)) \<Longrightarrow> keeps R (for_each f xs)"
  unfolding for_each_def by (intro keeps_map_ok keeps_try_map)

lemma keeps_if [keeps_intros]:
  "(b \<Longrightarrow> keeps R m) \<Longrightarrow> (\<not> b \<Longrightarrow> keeps R n) \<Longrightarrow> keeps R (if b then m else n)"
  by simp

lemma keeps_case_option [keeps_intros]:
  "keeps R m \<Longrightarrow> (\<And>x. keeps R (f x)) \<Longrightarrow> keeps R (case v of None \<Rightarrow> m | Some x \<Rightarrow> f x)"
  by (cases v) auto

lemma keeps_case_sum [keeps_intros]:
  "(\<And>x. keeps R (f x)) \<Longrightarrow> (\<And>x. keeps R (g x)) \<Longrightarrow> keeps R (case v of Inl x \<Rightarrow> f x | Inr x \<Rightarrow> g x)"
  by (cases v) auto

lemma keeps_case_prod [keeps_intros]:
  "(\<And>x y. keeps R (f x y)) \<Longrightarrow> keeps R (case v of (x, y) \<Rightarrow> f x y)"
  by (cases v) auto

lemma keeps_let [keeps_intros]: "keeps R (f v) \<Longrightarrow> keeps R (let x = v in f x)"
  by simp

end

end
