(* ===== verification/Currencies.thy ===== *)
theory Currencies
  imports Prelude
begin

text \<open>
  \<open>models/currency.rs\<close>, \<open>models/payment_state.rs\<close> and the status enumerations of the other models:
  the enumerations, their textual forms (\<open>Display\<close>, \<open>FromStr\<close>) and their database forms (\<open>ToSql\<close>,
  \<open>FromSql\<close>). A byte string is a list of characters. The locales state the contract of a
  database enumeration and of one that can also be parsed; each enumeration is an interpretation.
\<close>

section \<open>Strings\<close>

definition to_ascii_lower :: "char \<Rightarrow> char" where
  "to_ascii_lower c =
     (let n = (of_char c :: nat) in if 65 \<le> n \<and> n \<le> 90 then char_of (n + 32) else c)"

definition to_ascii_lowercase :: "string \<Rightarrow> string" where
  "to_ascii_lowercase s = map to_ascii_lower s"

lemma to_ascii_lower_idem [simp]: "to_ascii_lower (to_ascii_lower c) = to_ascii_lower c"
  by (simp add: to_ascii_lower_def Let_def)

lemma to_ascii_lowercase_idem [simp]:
  "to_ascii_lowercase (to_ascii_lowercase s) = to_ascii_lowercase s"
  by (simp add: to_ascii_lowercase_def)

section \<open>Contracts\<close>

datatype sql_error = UnrecognizedVariant string | UnexpectedNull

text \<open>A value written to a \<open>VARCHAR\<close> column is read back, nothing else is read as it, and a null
  is rejected.\<close>

locale sql_enum =
  fixes to_sql :: "'a \<Rightarrow> string" and from_sql :: "string option \<Rightarrow> sql_error + 'a"
  assumes from_to_sql: "from_sql (Some (to_sql x)) = Inr x"
    and from_sql_Inr: "from_sql (Some s) = Inr x \<Longrightarrow> s = to_sql x"
    and from_sql_Inl: "from_sql (Some s) = Inl e \<Longrightarrow> e = UnrecognizedVariant s"
    and from_sql_None: "from_sql None = Inl UnexpectedNull"
begin

lemma to_sql_inject: "to_sql x = to_sql y \<longleftrightarrow> x = y"
  by (metis from_to_sql Inr_inject)

lemma from_sql_iff: "from_sql d = Inr x \<longleftrightarrow> d = Some (to_sql x)"
proof (cases d)
  case None
  then show ?thesis by (simp add: from_sql_None)
next
  case (Some s)
  then show ?thesis using from_sql_Inr from_to_sql by auto
qed

lemma from_sql_unrecognized:
  "from_sql (Some s) = Inl (UnrecognizedVariant s) \<longleftrightarrow> s \<notin> range to_sql"
proof
  assume "s \<notin> range to_sql"
  then have "from_sql (Some s) \<noteq> Inr x" for x using from_sql_Inr by blast
  then show "from_sql (Some s) = Inl (UnrecognizedVariant s)"
    by (cases "from_sql (Some s)") (use from_sql_Inl in auto)
qed (auto simp: from_to_sql)

end

text \<open>Parsing ignores the case of ASCII letters.\<close>

locale parsed_enum = sql_enum to_sql from_sql
  for to_sql :: "'a \<Rightarrow> string" and from_sql :: "string option \<Rightarrow> sql_error + 'a" +
  fixes from_str :: "string \<Rightarrow> 'a option"
  assumes from_str_iff: "from_str s = Some x \<longleftrightarrow> to_ascii_lowercase s = to_sql x"
    and to_sql_lower: "to_ascii_lowercase (to_sql x) = to_sql x"
begin

lemma from_str_display: "from_str (to_sql x) = Some x"
  by (simp add: from_str_iff to_sql_lower)

lemma from_str_case_insensitive:
  "to_ascii_lowercase s = to_ascii_lowercase t \<Longrightarrow> from_str s = from_str t"
proof -
  assume *: "to_ascii_lowercase s = to_ascii_lowercase t"
  have "from_str s = Some x \<longleftrightarrow> from_str t = Some x" for x
    by (simp add: from_str_iff *)
  then show ?thesis by (metis not_None_eq)
qed

lemma from_str_None: "from_str s = None \<longleftrightarrow> to_ascii_lowercase s \<notin> range to_sql"
  using from_str_iff [of s] by (metis not_None_eq range_eqI image_iff)

end

section \<open>Currencies\<close>

datatype currency = Eth | Stq | Btc | Eur | Usd | Rub

datatype ture_currency = TureEth | TureStq | TureBtc

datatype fiat_currency = FiatEur | FiatUsd | FiatRub

datatype currency_choice = Crypto ture_currency | Fiat fiat_currency

text \<open>\<open>stq_static_resources::Currency\<close>, all of whose variants \<open>models/currency.rs\<close> matches on.\<close>

datatype stq_currency = STQ_ETH | STQ_STQ | STQ_BTC | STQ_EUR | STQ_USD | STQ_RUB

fun currency_display :: "currency \<Rightarrow> string" where
  "currency_display Eth = ''eth''"
| "currency_display Stq = ''stq''"
| "currency_display Btc = ''btc''"
| "currency_display Eur = ''eur''"
| "currency_display Usd = ''usd''"
| "currency_display Rub = ''rub''"

fun currency_to_sql :: "currency \<Rightarrow> string" where
  "currency_to_sql Eth = ''eth''"
| "currency_to_sql Stq = ''stq''"
| "currency_to_sql Btc = ''btc''"
| "currency_to_sql Eur = ''eur''"
| "currency_to_sql Usd = ''usd''"
| "currency_to_sql Rub = ''rub''"

definition currency_from_str :: "string \<Rightarrow> currency option" where
  "currency_from_str s =
     (let l = to_ascii_lowercase s in
      if l = ''eth'' then Some Eth
      else if l = ''stq'' then Some Stq
      else if l = ''btc'' then Some Btc
      else if l = ''eur'' then Some Eur
      else if l = ''usd'' then Some Usd
      else if l = ''rub'' then Some Rub
      else None)"

definition currency_from_sql :: "string option \<Rightarrow> sql_error + currency" where
  "currency_from_sql d =
     (case d of None \<Rightarrow> Inl UnexpectedNull
      | Some v \<Rightarrow>
          if v = ''eth'' then Inr Eth
          else if v = ''stq'' then Inr Stq
          else if v = ''btc'' then Inr Btc
          else if v = ''eur'' then Inr Eur
          else if v = ''usd'' then Inr Usd
          else if v = ''rub'' then Inr Rub
          else Inl (UnrecognizedVariant v))"

fun classify :: "currency \<Rightarrow> currency_choice" where
  "classify Eth = Crypto TureEth"
| "classify Stq = Crypto TureStq"
| "classify Btc = Crypto TureBtc"
| "classify Eur = Fiat FiatEur"
| "classify Usd = Fiat FiatUsd"
| "classify Rub = Fiat FiatRub"

definition is_fiat :: "currency \<Rightarrow> bool" where
  "is_fiat c = (case classify c of Crypto _ \<Rightarrow> False | Fiat _ \<Rightarrow> True)"

fun try_from_stq_currency :: "stq_currency \<Rightarrow> unit + currency" where
  "try_from_stq_currency STQ_ETH = Inr Eth"
| "try_from_stq_currency STQ_STQ = Inr Stq"
| "try_from_stq_currency STQ_BTC = Inr Btc"
| "try_from_stq_currency STQ_EUR = Inr Eur"
| "try_from_stq_currency STQ_USD = Inr Usd"
| "try_from_stq_currency STQ_RUB = Inr Rub"

fun into_stq_currency :: "currency \<Rightarrow> stq_currency" where
  "into_stq_currency Eth = STQ_ETH"
| "into_stq_currency Stq = STQ_STQ"
| "into_stq_currency Btc = STQ_BTC"
| "into_stq_currency Eur = STQ_EUR"
| "into_stq_currency Usd = STQ_USD"
| "into_stq_currency Rub = STQ_RUB"

fun from_stq_currency :: "stq_currency \<Rightarrow> currency" where
  "from_stq_currency STQ_ETH = Eth"
| "from_stq_currency STQ_STQ = Stq"
| "from_stq_currency STQ_BTC = Btc"
| "from_stq_currency STQ_EUR = Eur"
| "from_stq_currency STQ_USD = Usd"
| "from_stq_currency STQ_RUB = Rub"

text \<open>Stripe currencies are a third-party enumeration: its \<open>Display\<close> and \<open>FromStr\<close> are parameters.\<close>

definition try_from_stripe_currency :: "('c \<Rightarrow> string) \<Rightarrow> 'c \<Rightarrow> unit + currency" where
  "try_from_stripe_currency stripe_display c =
     (case currency_from_str (stripe_display c) of None \<Rightarrow> Inl () | Some x \<Rightarrow> Inr x)"

definition try_into_stripe_currency :: "(string \<Rightarrow> 'c option) \<Rightarrow> currency \<Rightarrow> unit + 'c" where
  "try_into_stripe_currency stripe_from_str c =
     (case stripe_from_str (currency_display c) of None \<Rightarrow> Inl () | Some x \<Rightarrow> Inr x)"

fun ture_currency_display :: "ture_currency \<Rightarrow> string" where
  "ture_currency_display TureEth = ''eth''"
| "ture_currency_display TureStq = ''stq''"
| "ture_currency_display TureBtc = ''btc''"

fun ture_currency_to_sql :: "ture_currency \<Rightarrow> string" where
  "ture_currency_to_sql TureEth = ''eth''"
| "ture_currency_to_sql TureStq = ''stq''"
| "ture_currency_to_sql TureBtc = ''btc''"

definition ture_currency_from_str :: "string \<Rightarrow> ture_currency option" where
  "ture_currency_from_str s =
     (let l = to_ascii_lowercase s in
      if l = ''eth'' then Some TureEth
      else if l = ''stq'' then Some TureStq
      else if l = ''btc'' then Some TureBtc
      else None)"

definition ture_currency_from_sql :: "string option \<Rightarrow> sql_error + ture_currency" where
  "ture_currency_from_sql d =
     (case d of None \<Rightarrow> Inl UnexpectedNull
      | Some v \<Rightarrow>
          if v = ''eth'' then Inr TureEth
          else if v = ''stq'' then Inr TureStq
          else if v = ''btc'' then Inr TureBtc
          else Inl (UnrecognizedVariant v))"

fun currency_of_ture :: "ture_currency \<Rightarrow> currency" where
  "currency_of_ture TureEth = Eth"
| "currency_of_ture TureStq = Stq"
| "currency_of_ture TureBtc = Btc"

fun try_from_currency :: "currency \<Rightarrow> unit + ture_currency" where
  "try_from_currency Eth = Inr TureEth"
| "try_from_currency Stq = Inr TureStq"
| "try_from_currency Btc = Inr TureBtc"
| "try_from_currency Usd = Inl ()"
| "try_from_currency Eur = Inl ()"
| "try_from_currency Rub = Inl ()"

fun currency_of_fiat :: "fiat_currency \<Rightarrow> currency" where
  "currency_of_fiat FiatUsd = Usd"
| "currency_of_fiat FiatEur = Eur"
| "currency_of_fiat FiatRub = Rub"

section \<open>Payment states and the other statuses\<close>

datatype payment_state =
    Initial | Declined | Captured | RefundNeeded | Refunded | PaidToSeller | PaymentToSellerNeeded

fun payment_state_display :: "payment_state \<Rightarrow> string" where
  "payment_state_display Initial = ''initial''"
| "payment_state_display Declined = ''declined''"
| "payment_state_display Captured = ''captured''"
| "payment_state_display Refunded = ''refunded''"
| "payment_state_display RefundNeeded = ''refund_needed''"
| "payment_state_display PaidToSeller = ''paid_to_seller''"
| "payment_state_display PaymentToSellerNeeded = ''payment_to_seller_needed''"

fun payment_state_to_sql :: "payment_state \<Rightarrow> string" where
  "payment_state_to_sql Initial = ''initial''"
| "payment_state_to_sql Declined = ''declined''"
| "payment_state_to_sql Captured = ''captured''"
| "payment_state_to_sql Refunded = ''refunded''"
| "payment_state_to_sql RefundNeeded = ''refund_needed''"
| "payment_state_to_sql PaidToSeller = ''paid_to_seller''"
| "payment_state_to_sql PaymentToSellerNeeded = ''payment_to_seller_needed''"

definition payment_state_from_str :: "string \<Rightarrow> payment_state option" where
  "payment_state_from_str s =
     (let l = to_ascii_lowercase s in
      if l = ''initial'' then Some Initial
      else if l = ''declined'' then Some Declined
      else if l = ''captured'' then Some Captured
      else if l = ''refunded'' then Some Refunded
      else if l = ''refund_needed'' then Some RefundNeeded
      else if l = ''paid_to_seller'' then Some PaidToSeller
      else if l = ''payment_to_seller_needed'' then Some PaymentToSellerNeeded
      else None)"

definition payment_state_from_sql :: "string option \<Rightarrow> sql_error + payment_state" where
  "payment_state_from_sql d =
     (case d of None \<Rightarrow> Inl UnexpectedNull
      | Some v \<Rightarrow>
          if v = ''initial'' then Inr Initial
          else if v = ''declined'' then Inr Declined
          else if v = ''captured'' then Inr Captured
          else if v = ''refunded'' then Inr Refunded
          else if v = ''refund_needed'' then Inr RefundNeeded
          else if v = ''paid_to_seller'' then Inr PaidToSeller
          else if v = ''payment_to_seller_needed'' then Inr PaymentToSellerNeeded
          else Inl (UnrecognizedVariant v))"

datatype event_status = Pending | InProgress | Completed | Failed

fun event_status_display :: "event_status \<Rightarrow> string" where
  "event_status_display Pending = ''pending''"
| "event_status_display InProgress = ''in_progress''"
| "event_status_display Completed = ''completed''"
| "event_status_display Failed = ''failed''"

text \<open>Unlike the other enumerations, event statuses are parsed exactly.\<close>

definition event_status_from_str :: "string \<Rightarrow> event_status option" where
  "event_status_from_str s =
     (if s = ''pending'' then Some Pending
      else if s = ''in_progress'' then Some InProgress
      else if s = ''completed'' then Some Completed
      else if s = ''failed'' then Some Failed
      else None)"

datatype exchange_rate_status = Active | Expired

fun exchange_rate_status_display :: "exchange_rate_status \<Rightarrow> string" where
  "exchange_rate_status_display Active = ''active''"
| "exchange_rate_status_display Expired = ''expired''"

definition exchange_rate_status_from_str :: "string \<Rightarrow> exchange_rate_status option" where
  "exchange_rate_status_from_str s =
     (let l = to_ascii_lowercase s in
      if l = ''active'' then Some Active else if l = ''expired'' then Some Expired else None)"

datatype fee_status = NotPaid | FeePaid | FeeFail

fun fee_status_display :: "fee_status \<Rightarrow> string" where
  "fee_status_display NotPaid = ''NotPaid''"
| "fee_status_display FeePaid = ''Paid''"
| "fee_status_display FeeFail = ''Fail''"

section \<open>The enumerations meet their contracts\<close>

lemmas lower_simps = to_ascii_lowercase_def to_ascii_lower_def Let_def

interpretation currency: parsed_enum currency_to_sql currency_from_sql currency_from_str
proof unfold_locales
  show "currency_from_sql (Some (currency_to_sql x)) = Inr x" for x
    by (cases x) (simp_all add: currency_from_sql_def)
  show "to_ascii_lowercase (currency_to_sql x) = currency_to_sql x" for x
    by (cases x) (simp_all add: lower_simps)
  show "currency_from_str s = Some x \<longleftrightarrow> to_ascii_lowercase s = currency_to_sql x" for s x
    by (cases x) (auto simp: currency_from_str_def Let_def)
qed (auto simp: currency_from_sql_def split: if_splits)

interpretation ture_currency:
  parsed_enum ture_currency_to_sql ture_currency_from_sql ture_currency_from_str
proof unfold_locales
  show "ture_currency_from_sql (Some (ture_currency_to_sql x)) = Inr x" for x
    by (cases x) (simp_all add: ture_currency_from_sql_def)
  show "to_ascii_lowercase (ture_currency_to_sql x) = ture_currency_to_sql x" for x
    by (cases x) (simp_all add: lower_simps)
  show "ture_currency_from_str s = Some x \<longleftrightarrow> to_ascii_lowercase s = ture_currency_to_sql x" for s x
    by (cases x) (auto simp: ture_currency_from_str_def Let_def)
qed (auto simp: ture_currency_from_sql_def split: if_splits)

interpretation payment_state:
  parsed_enum payment_state_to_sql payment_state_from_sql payment_state_from_str
proof unfold_locales
  show "payment_state_from_sql (Some (payment_state_to_sql x)) = Inr x" for x
    by (cases x) (simp_all add: payment_state_from_sql_def)
  show "to_ascii_lowercase (payment_state_to_sql x) = payment_state_to_sql x" for x
    by (cases x) (simp_all add: lower_simps)
  show "payment_state_from_str s = Some x \<longleftrightarrow> to_ascii_lowercase s = payment_state_to_sql x" for s x
    by (cases x) (auto simp: payment_state_from_str_def Let_def)
qed (auto simp: payment_state_from_sql_def split: if_splits)

lemma event_status_from_display [simp]: "event_status_from_str (event_status_display x) = Some x"
  by (cases x) (simp_all add: event_status_from_str_def)

lemma event_status_from_str_iff: "event_status_from_str s = Some x \<longleftrightarrow> s = event_status_display x"
  by (cases x) (auto simp: event_status_from_str_def)

lemma event_status_display_inject [simp]:
  "event_status_display x = event_status_display y \<longleftrightarrow> x = y"
  by (metis event_status_from_display option.inject)

lemma currency_display_to_sql: "currency_display = currency_to_sql"
proof
  show "currency_display x = currency_to_sql x" for x by (cases x) simp_all
qed

lemma is_fiat_iff: "is_fiat c \<longleftrightarrow> c \<in> {Eur, Usd, Rub}"
  by (cases c) (simp_all add: is_fiat_def)

lemma classify_Crypto: "classify c = Crypto t \<longleftrightarrow> c = currency_of_ture t"
  by (cases c; cases t) simp_all

lemma try_from_currency_iff: "try_from_currency c = Inr t \<longleftrightarrow> c = currency_of_ture t"
  by (cases c; cases t) simp_all

lemma stq_currency_roundtrip [simp]:
  "from_stq_currency (into_stq_currency c) = c"
  "try_from_stq_currency (into_stq_currency c) = Inr c"
  by (cases c; simp)+

section \<open>Properties\<close>

text \<open>The database text of a currency and of a payment state is read back, no other text is read
  as one, and \<open>NULL\<close> and unknown texts are the two errors.\<close>

theorem stored_enums:
  "(currency_from_sql d = Inr c \<longleftrightarrow> d = Some (currency_to_sql c)) \<and>
   (payment_state_from_sql d = Inr s \<longleftrightarrow> d = Some (payment_state_to_sql s)) \<and>
   (currency_from_sql (Some t) = Inl (UnrecognizedVariant t) \<longleftrightarrow> t \<notin> range currency_to_sql) \<and>
   (payment_state_from_sql (Some t) = Inl (UnrecognizedVariant t) \<longleftrightarrow> t \<notin> range payment_state_to_sql) \<and>
   currency_from_sql None = Inl UnexpectedNull \<and> payment_state_from_sql None = Inl UnexpectedNull"
  by (intro conjI currency.from_sql_iff payment_state.from_sql_iff currency.from_sql_unrecognized
      payment_state.from_sql_unrecognized currency.from_sql_None payment_state.from_sql_None)

text \<open>A currency is either a crypto or a fiat currency, as \<open>classify\<close> and \<open>is_fiat\<close> agree; the crypto
  currencies are exactly those that \<open>TureCurrency::try_from_currency\<close> accepts.\<close>

theorem currency_classes:
  "(is_fiat c \<longleftrightarrow> (\<exists>f. classify c = Fiat f \<and> currency_of_fiat f = c)) \<and>
   (\<not> is_fiat c \<longleftrightarrow> (\<exists>t. classify c = Crypto t \<and> currency_of_ture t = c)) \<and>
   (try_from_currency c = Inr t \<longleftrightarrow> classify c = Crypto t)"
proof (intro conjI)
  show "is_fiat c \<longleftrightarrow> (\<exists>f. classify c = Fiat f \<and> currency_of_fiat f = c)"
    by (cases c) (simp_all add: is_fiat_def)
  show "\<not> is_fiat c \<longleftrightarrow> (\<exists>t. classify c = Crypto t \<and> currency_of_ture t = c)"
    by (cases c) (simp_all add: is_fiat_def)
  show "try_from_currency c = Inr t \<longleftrightarrow> classify c = Crypto t"
    by (simp add: try_from_currency_iff classify_Crypto)
qed

end
