(* ===== verification/Amounts.thy ===== *)
theory Amounts
  imports Complex_Main "HOL-Library.Log_Nat" Prelude Currencies
begin

text \<open>
  \<open>models/amount.rs\<close>: amounts of money as 128-bit words, their checked arithmetic, their decimal
  and PostgreSQL representations, and the conversion between the smallest unit of a currency
  (wei, satoshi, cent) and its super unit. Integer overflow follows the release profile, in
  which the unchecked operators wrap. \<open>BigDecimal\<close> is a third-party type: its operations are the
  parameter \<open>D\<close>, what the code relies on is \<open>bigdecimal_laws\<close>.
\<close>

type_synonym u128 = "128 word"
type_synonym i16 = "16 word"
type_synonym i32 = "32 word"

datatype amount = Amount (inner: u128)

definition amount_zero :: amount where "amount_zero = Amount 0"

section \<open>Checked arithmetic\<close>

definition u128_checked_add :: "u128 \<Rightarrow> u128 \<Rightarrow> u128 option" where
  "u128_checked_add a b = (if unat a + unat b < 2 ^ 128 then Some (a + b) else None)"

definition u128_checked_sub :: "u128 \<Rightarrow> u128 \<Rightarrow> u128 option" where
  "u128_checked_sub a b = (if b \<le> a then Some (a - b) else None)"

definition u128_checked_mul :: "u128 \<Rightarrow> u128 \<Rightarrow> u128 option" where
  "u128_checked_mul a b = (if unat a * unat b < 2 ^ 128 then Some (a * b) else None)"

definition u128_checked_div :: "u128 \<Rightarrow> u128 \<Rightarrow> u128 option" where
  "u128_checked_div a b = (if b = 0 then None else Some (a div b))"

definition checked_add :: "amount \<Rightarrow> amount \<Rightarrow> amount option" where
  "checked_add a b = map_option Amount (u128_checked_add (inner a) (inner b))"

definition checked_sub :: "amount \<Rightarrow> amount \<Rightarrow> amount option" where
  "checked_sub a b = map_option Amount (u128_checked_sub (inner a) (inner b))"

definition checked_div :: "amount \<Rightarrow> amount \<Rightarrow> amount option" where
  "checked_div a b = map_option Amount (u128_checked_div (inner a) (inner b))"

definition checked_mul :: "amount \<Rightarrow> amount \<Rightarrow> amount option" where
  "checked_mul a b = map_option Amount (u128_checked_mul (inner a) (inner b))"

definition amount_le :: "amount \<Rightarrow> amount \<Rightarrow> bool" where
  "amount_le a b \<longleftrightarrow> inner a \<le> inner b"

definition amount_into_u64 :: "amount \<Rightarrow> 64 word" where
  "amount_into_u64 a = ucast (inner a)"

definition amount_from_u64 :: "64 word \<Rightarrow> amount" where
  "amount_from_u64 v = Amount (ucast v)"

text \<open>\<open>Quantity\<close> wraps an \<open>i32\<close>; the cast to \<open>u128\<close> extends its sign.\<close>

definition amount_from_quantity :: "i32 \<Rightarrow> amount" where
  "amount_from_quantity q = Amount (scast q)"

lemma u128_less: "unat (v :: u128) < 2 ^ 128"
  using unsigned_less [of v] by simp

lemma unat_of_nat_u128: "n < 2 ^ 128 \<Longrightarrow> unat (of_nat n :: u128) = n"
  by (simp add: unat_of_nat)

lemma u128_checked_add_Some:
  "u128_checked_add a b = Some c \<longleftrightarrow> unat c = unat a + unat b"
proof -
  have "unat (a + b) = unat a + unat b" if "unat a + unat b < 2 ^ 128"
    using that by (simp add: unat_word_ariths)
  moreover have "unat c < 2 ^ 128" by (rule u128_less)
  ultimately show ?thesis
    by (auto simp: u128_checked_add_def) (metis word_unat_eq_iff)
qed

lemma u128_checked_mul_Some:
  "u128_checked_mul a b = Some c \<longleftrightarrow> unat c = unat a * unat b"
proof -
  have "unat (a * b) = unat a * unat b" if "unat a * unat b < 2 ^ 128"
    using that by (simp add: unat_word_ariths)
  moreover have "unat c < 2 ^ 128" by (rule u128_less)
  ultimately show ?thesis
    by (auto simp: u128_checked_mul_def) (metis word_unat_eq_iff)
qed

lemma u128_checked_sub_Some:
  "u128_checked_sub a b = Some c \<longleftrightarrow> unat a = unat b + unat c"
proof
  assume "u128_checked_sub a b = Some c"
  then show "unat a = unat b + unat c"
    by (auto simp: u128_checked_sub_def unat_sub word_le_nat_alt split: if_splits)
next
  assume *: "unat a = unat b + unat c"
  then have "b \<le> a" by (simp add: word_le_nat_alt)
  moreover have "a - b = c" using * \<open>b \<le> a\<close> by (simp add: unat_sub word_unat_eq_iff)
  ultimately show "u128_checked_sub a b = Some c" by (simp add: u128_checked_sub_def)
qed

section \<open>Decimal text\<close>

definition digit_char :: "nat \<Rightarrow> char" where
  "digit_char n = char_of (48 + n)"

fun show_nat :: "nat \<Rightarrow> string" where
  "show_nat n = (if n < 10 then [digit_char n] else show_nat (n div 10) @ [digit_char (n mod 10)])"

declare show_nat.simps [simp del]

definition show_int :: "int \<Rightarrow> string" where
  "show_int i = (if i < 0 then CHR ''-'' # show_nat (nat (- i)) else show_nat (nat i))"

definition u128_to_string :: "u128 \<Rightarrow> string" where
  "u128_to_string v = show_nat (unat v)"

definition amount_display :: "amount \<Rightarrow> string" where
  "amount_display a = u128_to_string (inner a)"

definition char_digit :: "char \<Rightarrow> nat option" where
  "char_digit c = (let n = of_char c in if 48 \<le> n \<and> n \<le> 57 then Some (n - 48) else None)"

text \<open>\<open>u128::from_str\<close>: an optional plus sign, then at least one digit, every step checked.\<close>

fun parse_digits :: "u128 \<Rightarrow> string \<Rightarrow> u128 option" where
  "parse_digits acc [] = Some acc"
| "parse_digits acc (c # cs) =
     (case char_digit c of None \<Rightarrow> None
      | Some d \<Rightarrow>
         (case u128_checked_mul acc 10 of None \<Rightarrow> None
          | Some m \<Rightarrow>
             (case u128_checked_add m (of_nat d) of None \<Rightarrow> None
              | Some a \<Rightarrow> parse_digits a cs)))"

definition u128_from_str :: "string \<Rightarrow> u128 option" where
  "u128_from_str s =
     (let digits = (case s of [] \<Rightarrow> [] | c # cs \<Rightarrow> if c = CHR ''+'' then cs else s) in
      if digits = [] then None else parse_digits 0 digits)"

definition amount_from_str :: "string \<Rightarrow> amount option" where
  "amount_from_str s = map_option Amount (u128_from_str s)"

text \<open>The value that a string of digits denotes, the specification of the parser.\<close>

fun digits_value :: "nat \<Rightarrow> string \<Rightarrow> nat option" where
  "digits_value acc [] = Some acc"
| "digits_value acc (c # cs) =
     (case char_digit c of None \<Rightarrow> None | Some d \<Rightarrow> digits_value (acc * 10 + d) cs)"

lemma char_digit_digit_char [simp]: "n < 10 \<Longrightarrow> char_digit (digit_char n) = Some n"
  by (simp add: char_digit_def digit_char_def Let_def)

lemma char_digit_less: "char_digit c = Some d \<Longrightarrow> d < 10"
  by (auto simp: char_digit_def Let_def split: if_splits)

lemma digits_value_mono: "digits_value acc s = Some n \<Longrightarrow> acc \<le> n"
  by (induction acc s rule: digits_value.induct) (auto split: option.splits)

lemma digits_value_append:
  "digits_value acc (s @ t) = (case digits_value acc s of None \<Rightarrow> None | Some n \<Rightarrow> digits_value n t)"
  by (induction acc s rule: digits_value.induct) (auto split: option.splits)

lemma digits_value_show_nat: "digits_value 0 (show_nat n) = Some n"
proof (induction n rule: show_nat.induct)
  case (1 n)
  show ?case
  proof (cases "n < 10")
    case True
    then show ?thesis by (simp add: show_nat.simps [of n])
  next
    case False
    then have "digits_value 0 (show_nat (n div 10)) = Some (n div 10)" by (rule 1)
    then show ?thesis
      using False by (simp add: show_nat.simps [of n] digits_value_append)
  qed
qed

lemma parse_digits_value:
  "parse_digits acc s = Some r \<longleftrightarrow> digits_value (unat acc) s = Some (unat r)"
proof (induction s arbitrary: acc)
  case Nil
  then show ?case by (auto simp: word_unat_eq_iff)
next
  case (Cons c cs)
  show ?case
  proof (cases "char_digit c")
    case None
    then show ?thesis by simp
  next
    case (Some d)
    then have d: "d < 10" by (rule char_digit_less)
    then have ud: "unat (of_nat d :: u128) = d" by (simp add: unat_of_nat)
    let ?v = "unat acc * 10 + d"
    show ?thesis
    proof (cases "?v < 2 ^ 128")
      case True
      let ?m = "of_nat (unat acc * 10) :: u128" and ?a = "of_nat ?v :: u128"
      have "u128_checked_mul acc 10 = Some ?m"
        using True by (simp only: u128_checked_mul_Some unat_of_nat_u128) simp
      moreover have "u128_checked_add ?m (of_nat d) = Some ?a"
        using True ud by (simp only: u128_checked_add_Some unat_of_nat_u128)
      moreover have "unat ?a = ?v" using True by (rule unat_of_nat_u128)
      ultimately show ?thesis using Some Cons.IH [of ?a] by simp
    next
      case False
      have "digits_value ?v cs \<noteq> Some (unat r)"
        using digits_value_mono [of ?v cs "unat r"] False u128_less [of r] by auto
      moreover have "parse_digits acc (c # cs) = None"
      proof -
        have "u128_checked_add m (of_nat d) = None" if "u128_checked_mul acc 10 = Some m" for m
          using that False ud by (auto simp: u128_checked_mul_Some u128_checked_add_def)
        then show ?thesis using Some by (auto split: option.splits)
      qed
      ultimately show ?thesis using Some by simp
    qed
  qed
qed

lemma show_nat_hd: "\<exists>c cs. show_nat n = c # cs \<and> c \<noteq> CHR ''+'' \<and> c \<noteq> CHR ''-''"
proof (induction n rule: show_nat.induct)
  case (1 n)
  have "digit_char n \<noteq> CHR ''+'' \<and> digit_char n \<noteq> CHR ''-''" if "n < 10"
  proof -
    have "char_digit CHR ''+'' = None" "char_digit CHR ''-'' = None" by (simp_all add: char_digit_def)
    then show ?thesis using char_digit_digit_char [OF that] by auto
  qed
  with 1 show ?case by (cases "n < 10") (auto simp: show_nat.simps [of n])
qed

lemma u128_from_str_show_nat:
  "u128_from_str (show_nat n) = (if n < 2 ^ 128 then Some (of_nat n) else None)"
proof -
  obtain c cs where s: "show_nat n = c # cs" "c \<noteq> CHR ''+''" using show_nat_hd by blast
  then have eq: "u128_from_str (show_nat n) = parse_digits 0 (show_nat n)"
    by (simp add: u128_from_str_def)
  have iff: "parse_digits 0 (show_nat n) = Some r \<longleftrightarrow> n = unat r" for r
    using parse_digits_value [of 0 "show_nat n" r] digits_value_show_nat by simp
  show ?thesis
  proof (cases "n < 2 ^ 128")
    case True
    then have "unat (of_nat n :: u128) = n" by (simp add: unat_of_nat)
    with True show ?thesis by (simp add: eq iff)
  next
    case False
    then have "n \<noteq> unat r" for r :: u128 using u128_less [of r] by auto
    then have "parse_digits 0 (show_nat n) = None" using iff by (metis not_None_eq)
    with False show ?thesis by (simp add: eq)
  qed
qed

lemma u128_from_str_negative: "u128_from_str (CHR ''-'' # s) = None"
  by (simp add: u128_from_str_def char_digit_def)

lemma u128_from_str_show_int:
  "u128_from_str (show_int i) = (if 0 \<le> i \<and> i < 2 ^ 128 then Some (of_int i) else None)"
proof (cases "i < 0")
  case True
  then show ?thesis by (simp add: show_int_def u128_from_str_negative)
next
  case False
  then have "(nat i < 2 ^ 128) \<longleftrightarrow> i < 2 ^ 128" by (simp add: nat_less_iff)
  with False show ?thesis by (simp add: show_int_def u128_from_str_show_nat)
qed

section \<open>PostgreSQL numerics\<close>

text \<open>\<open>diesel::pg::data_types::PgNumeric\<close>: base-10000 digits, most significant first; the weight is
  the exponent of the first one.\<close>

datatype pg_numeric =
    PgPositive (weight: i16) (scale: "16 word") (digits: "i16 list")
  | PgNegative i16 "16 word" "i16 list"
  | PgNaN

datatype pg_decode_error =
    NegativeNotSupported | NaNNotSupported | NonzeroScale | NegativeWeight
  | DigitsOverflow | NegativeCorrectionExp | CorrectionOverflow

text \<open>The iterator \<open>ToBase10000\<close>, collected: least significant digit first.\<close>

function to_base10000 :: "u128 \<Rightarrow> i16 list" where
  "to_base10000 v =
     (let rem = v mod 10000; quot = v div 10000
      in if quot \<noteq> 0 then ucast rem # to_base10000 quot else [ucast rem])"
  by pat_completeness auto
termination
  by (relation "measure unat") (auto simp: unat_div word_gt_0 [symmetric] div_less_dividend unat_gt_0
      intro!: div_less_dividend)

declare to_base10000.simps [simp del]

fun digits_phase :: "u128 \<Rightarrow> i16 list \<Rightarrow> u128 option" where
  "digits_phase result [] = Some result"
| "digits_phase result (digit # ds) =
     (case u128_checked_mul result 10000 of None \<Rightarrow> None
      | Some res \<Rightarrow>
         (case u128_checked_add res (scast digit) of None \<Rightarrow> None
          | Some res' \<Rightarrow> digits_phase res' ds))"

definition correction_exp :: "i16 \<Rightarrow> i16 list \<Rightarrow> i32" where
  "correction_exp w ds = 4 * (scast w - of_nat (length ds) + 1)"

definition pg_decimal_to_u128 :: "pg_numeric \<Rightarrow> pg_decode_error + u128" where
  "pg_decimal_to_u128 numeric =
     (case numeric of
        PgNegative _ _ _ \<Rightarrow> Inl NegativeNotSupported
      | PgNaN \<Rightarrow> Inl NaNNotSupported
      | PgPositive w sc ds \<Rightarrow>
          if sc \<noteq> 0 then Inl NonzeroScale
          else if sint w < 0 then Inl NegativeWeight
          else (case digits_phase 0 ds of
              None \<Rightarrow> Inl DigitsOverflow
            | Some result \<Rightarrow>
                if sint (correction_exp w ds) < 0 then Inl NegativeCorrectionExp
                else (case u128_checked_mul result (10 ^ unat (correction_exp w ds)) of
                    None \<Rightarrow> Inl CorrectionOverflow
                  | Some r \<Rightarrow> Inr r)))"

definition u128_to_pg_decimal :: "u128 \<Rightarrow> pg_numeric" where
  "u128_to_pg_decimal value =
     (let ds = to_base10000 value;
          w = (of_nat (length ds) :: i16) - 1;
          stripped = dropWhile (\<lambda>d. d = 0) ds
      in PgPositive w 0 (rev stripped))"

definition amount_to_sql :: "amount \<Rightarrow> pg_numeric" where
  "amount_to_sql a = u128_to_pg_decimal (inner a)"

definition amount_from_sql :: "pg_numeric \<Rightarrow> pg_decode_error + amount" where
  "amount_from_sql n = map_sum id Amount (pg_decimal_to_u128 n)"

subsection \<open>The value of a list of digits\<close>

text \<open>The specification: what the digits of a numeric mean, most significant first.\<close>

fun horner :: "nat \<Rightarrow> nat list \<Rightarrow> nat" where
  "horner acc [] = acc"
| "horner acc (d # ds) = horner (acc * 10000 + d) ds"

definition pg_digits :: "i16 list \<Rightarrow> nat list" where
  "pg_digits ds = map unat ds"

definition valid_digits :: "i16 list \<Rightarrow> bool" where
  "valid_digits ds \<longleftrightarrow> (\<forall>d\<in>set ds. unat d < 10000)"

lemma horner_append: "horner acc (xs @ ys) = horner (horner acc xs) ys"
  by (induction acc xs rule: horner.induct) simp_all

lemma horner_mono: "acc \<le> horner acc ds"
  by (induction acc ds rule: horner.induct) simp_all

lemma horner_zeros: "horner acc (replicate k 0) = acc * 10000 ^ k"
  by (induction k arbitrary: acc) (simp_all add: algebra_simps)

lemma sint_small_i16: "unat d < 2 ^ 15 \<Longrightarrow> sint (d :: i16) = int (unat d)"
proof -
  have "signed_take_bit 15 (int n) = int n" if "n < 2 ^ 15" for n :: nat
    by (rule signed_take_bit_int_eq_self) (use that in simp_all)
  moreover have "sint d = signed_take_bit 15 (int (unat d))" by (simp add: sint_uint)
  ultimately show "unat d < 2 ^ 15 \<Longrightarrow> sint (d :: i16) = int (unat d)" by metis
qed

lemma scast_digit: "unat d < 10000 \<Longrightarrow> unat (scast d :: u128) = unat (d :: i16)"
proof -
  assume d: "unat d < 10000"
  then have "sint d = int (unat d)" by (intro sint_small_i16) simp
  then have "scast d = (of_nat (unat d) :: u128)" by (simp only: scast_eq of_int_of_nat_eq)
  moreover have "unat d < 2 ^ 128" using d by simp
  ultimately show ?thesis by (simp only: unat_of_nat_u128)
qed

lemma digits_phase_eq:
  assumes "valid_digits ds"
  shows "digits_phase acc ds = (if horner (unat acc) (pg_digits ds) < 2 ^ 128
           then Some (of_nat (horner (unat acc) (pg_digits ds))) else None)"
  using assms
proof (induction ds arbitrary: acc)
  case Nil
  then show ?case using u128_less [of acc] by (simp add: pg_digits_def)
next
  case (Cons d ds)
  have d: "unat (scast d :: u128) = unat d" and ds: "valid_digits ds"
    using Cons.prems by (simp_all add: valid_digits_def scast_digit)
  let ?v = "unat acc * 10000 + unat d"
  show ?case
  proof (cases "?v < 2 ^ 128")
    case True
    obtain a m :: u128 where a: "unat a = ?v" and m: "unat m = unat acc * 10000"
      using True unat_of_nat_u128 [of ?v] unat_of_nat_u128 [of "unat acc * 10000"] by auto
    have "u128_checked_mul acc 10000 = Some m"
      by (simp add: u128_checked_mul_Some m)
    moreover have "u128_checked_add m (scast d) = Some a"
      using a m d by (simp only: u128_checked_add_Some)
    ultimately show ?thesis
      using Cons.IH [OF ds, of a] by (simp add: a pg_digits_def)
  next
    case False
    then have "digits_phase acc (d # ds) = None"
      using d by (auto simp: u128_checked_mul_Some u128_checked_add_def split: option.splits)
    moreover have "\<not> horner ?v (pg_digits ds) < 2 ^ 128"
      using False horner_mono [of ?v "pg_digits ds"] by linarith
    ultimately show ?thesis by (simp add: pg_digits_def)
  qed
qed

subsection \<open>Decoding what was encoded\<close>

lemma to_base10000_valid: "valid_digits (to_base10000 v)"
proof (induction v rule: to_base10000.induct)
  case (1 v)
  have "unat (ucast (v mod 10000) :: i16) < 10000"
    by (simp add: unsigned_ucast_eq unat_mod take_bit_eq_mod)
  then show ?case
    using 1 by (subst to_base10000.simps) (simp add: Let_def valid_digits_def)
qed

lemma unat_low_digit: "unat (ucast (v mod 10000 :: u128) :: i16) = unat v mod 10000"
  by (simp add: unsigned_ucast_eq unat_mod take_bit_eq_mod)

lemma to_base10000_horner: "horner 0 (pg_digits (rev (to_base10000 v))) = unat v"
proof (induction v rule: to_base10000.induct)
  case (1 v)
  show ?case
  proof (cases "v div 10000 = 0")
    case True
    then have "unat v div 10000 = 0" using unat_div [of v 10000] by simp
    then show ?thesis
      using True by (subst to_base10000.simps) (simp add: Let_def pg_digits_def unat_low_digit)
  next
    case False
    then have "horner 0 (pg_digits (rev (to_base10000 (v div 10000)))) = unat v div 10000"
      using 1 by (simp add: unat_div)
    then show ?thesis
      using False
      by (subst to_base10000.simps)
         (simp add: Let_def pg_digits_def rev_map horner_append unat_low_digit)
  qed
qed

lemma to_base10000_length: "unat v < 10000 ^ k \<Longrightarrow> 0 < k \<Longrightarrow> length (to_base10000 v) \<le> k"
proof (induction v arbitrary: k rule: to_base10000.induct)
  case (1 v)
  show ?case
  proof (cases "v div 10000 = 0")
    case True
    then show ?thesis using 1 by (subst to_base10000.simps) (simp add: Let_def)
  next
    case False
    then have "unat v div 10000 \<noteq> 0" by (simp add: unat_div flip: unat_eq_zero)
    then have "10000 \<le> unat v" by simp
    with 1(2,3) obtain j where k: "k = Suc j" "0 < j"
      by (cases k; cases "k - 1") auto
    have "unat (v div 10000) < 10000 ^ j"
      using 1(2) k by (simp add: unat_div less_mult_imp_div_less mult.commute)
    then have "length (to_base10000 (v div 10000)) \<le> j"
      using 1(1) False k by simp
    then show ?thesis
      using False k by (subst to_base10000.simps) (simp add: Let_def)
  qed
qed

lemma dropWhile_zeros:
  "xs = replicate (length xs - length (dropWhile (\<lambda>d. d = z) xs)) z @ dropWhile (\<lambda>d. d = z) xs"
proof -
  have "takeWhile (\<lambda>d. d = z) xs = replicate (length (takeWhile (\<lambda>d. d = z) xs)) z"
    by (induction xs) auto
  moreover have "length (takeWhile (\<lambda>d. d = z) xs) = length xs - length (dropWhile (\<lambda>d. d = z) xs)"
    by (metis add_diff_cancel_right' length_append takeWhile_dropWhile_id)
  ultimately show ?thesis by (metis takeWhile_dropWhile_id)
qed

lemma sint_of_int_i32:
  assumes "- (2 ^ 31) \<le> k" and "k < 2 ^ 31"
  shows "sint (of_int k :: i32) = k"
  using signed_take_bit_int_eq_self [of 31 k] assms by (simp add: sint_sbintrunc')

lemma sint_i16: "- (2 ^ 15) \<le> sint (w :: i16)" "sint (w :: i16) < 2 ^ 15"
  using sint_ge [of w] sint_lt [of w] by simp_all

lemma sint_i32: "- (2 ^ 31) \<le> sint (w :: i32)" "sint (w :: i32) < 2 ^ 31"
  using sint_ge [of w] sint_lt [of w] by simp_all

lemma unat_nonneg_i32:
  assumes "0 \<le> sint (c :: i32)"
  shows "unat c = nat (sint c)"
proof -
  have "sint c mod 2 ^ 32 = sint c" using assms sint_i32 [of c] by simp
  moreover have "uint (word_of_int k :: i32) = k mod 2 ^ 32" for k by (simp add: uint_word_of_int)
  moreover have "word_of_int (sint c) = c" by simp
  ultimately have "uint c = sint c" by metis
  then show ?thesis by (simp only: unat_eq_nat_uint)
qed
lemma sint_correction_exp:
  assumes "length ds \<le> 32768"
  shows "sint (correction_exp w ds) = 4 * (sint w - int (length ds) + 1)"
proof -
  let ?k = "4 * (sint w - int (length ds) + 1)"
  have "correction_exp w ds = of_int ?k"
    by (simp only: correction_exp_def scast_eq of_int_mult of_int_add of_int_diff
        of_int_of_nat_eq of_int_numeral of_int_1)
  moreover have "- 32768 \<le> sint w" "sint w < 32768" using sint_i16 [of w] by simp_all
  then have "- 2147483648 \<le> ?k" and "?k < 2147483648" using assms by simp_all
  then have "- (2 ^ 31) \<le> ?k" "?k < 2 ^ 31" by simp_all
  ultimately show ?thesis by (simp only: sint_of_int_i32)
qed

lemma unat_power_ten_u128: "unat (10 ^ k :: u128) = 10 ^ k mod 2 ^ 128"
  using unat_of_nat [of "10 ^ k", where 'a=128] by simp

lemma pg_decimal_to_u128_cases:
  assumes "valid_digits ds" and "length ds \<le> 32768"
  shows "pg_decimal_to_u128 (PgPositive w sc ds) =
    (let n = horner 0 (pg_digits ds); e = 4 * (sint w - int (length ds) + 1);
         p = 10 ^ nat e mod 2 ^ 128 in
     if sc \<noteq> 0 then Inl NonzeroScale
     else if sint w < 0 then Inl NegativeWeight
     else if 2 ^ 128 \<le> n then Inl DigitsOverflow
     else if e < 0 then Inl NegativeCorrectionExp
     else if n * p < 2 ^ 128 then Inr (of_nat (n * p))
     else Inl CorrectionOverflow)"
proof -
  let ?n = "horner 0 (pg_digits ds)" and ?e = "4 * (sint w - int (length ds) + 1)"
  have c: "sint (correction_exp w ds) = ?e" using assms(2) by (rule sint_correction_exp)
  have phase: "digits_phase 0 ds = (if ?n < 2 ^ 128 then Some (of_nat ?n) else None)"
    using digits_phase_eq [OF assms(1), of 0] by simp
  show ?thesis
  proof (cases "?n < 2 ^ 128 \<and> 0 \<le> ?e")
    case False
    then show ?thesis using c phase by (auto simp: pg_decimal_to_u128_def Let_def)
  next
    case True
    then have u: "unat (correction_exp w ds) = nat ?e" using c by (simp add: unat_nonneg_i32)
    have n: "unat (of_nat ?n :: u128) = ?n" using True by (intro unat_of_nat_u128) simp
    have p: "(of_nat (10 ^ k mod 2 ^ 128) :: u128) = 10 ^ k" for k
      by (simp only: unat_power_ten_u128 [symmetric] of_nat_unat ucast_id)
    show ?thesis using True c phase u
      by (simp add: pg_decimal_to_u128_def u128_checked_mul_def Let_def n unat_power_ten_u128 p [simplified])
  qed
qed

lemma u128_to_pg_decimal_shape:
  obtains w ds k where "u128_to_pg_decimal v = PgPositive w 0 ds" and "valid_digits ds"
    and "0 < length ds + k" and "length ds + k \<le> 10"
    and "k \<le> 9" and "sint w = int (length ds + k) - 1"
    and "unat v = horner 0 (pg_digits ds) * 10000 ^ k"
proof -
  let ?ds = "to_base10000 v"
  define st where "st = dropWhile (\<lambda>d. d = 0) ?ds"
  define k where "k = length ?ds - length st"
  have ds: "?ds = replicate k 0 @ st" unfolding k_def st_def by (rule dropWhile_zeros)
  have "unat v < 10000 ^ 10" using u128_less [of v] by simp
  then have len: "length ?ds \<le> 10" by (rule to_base10000_length) simp
  have pos: "0 < length ?ds" by (subst to_base10000.simps) (simp add: Let_def)
  obtain m where m: "length ?ds = Suc m" using pos by (cases "length ?ds") auto
  have small: "sint (of_nat n :: i16) = int n" if "n < 10" for n
    using that sint_small_i16 [of "of_nat n"] by (simp add: unat_of_nat)
  have w: "sint ((of_nat (length ?ds) :: i16) - 1) = int (length ?ds) - 1"
    using len small [of m] by (simp add: m)
  have "pg_digits (rev ?ds) = pg_digits (rev st) @ replicate k 0"
    by (subst ds) (simp add: pg_digits_def)
  then have val: "unat v = horner 0 (pg_digits (rev st)) * 10000 ^ k"
    using to_base10000_horner [of v] by (simp add: horner_append horner_zeros)
  have "k \<le> 9"
  proof (cases "st = []")
    case True
    then have "v = 0" using val by (simp add: pg_digits_def word_unat_eq_iff)
    then show ?thesis by (simp add: k_def to_base10000.simps)
  next
    case False
    then have "1 \<le> length st" by (cases st) auto
    then show ?thesis using len unfolding k_def by linarith
  qed
  moreover have "valid_digits (rev st)"
    using to_base10000_valid [of v] ds by (metis Un_iff set_append set_rev valid_digits_def)
  moreover have "length ?ds = length (rev st) + k" by (subst ds) simp
  ultimately show ?thesis
    using that [of "of_nat (length ?ds) - 1" "rev st" k] len pos w val
    by (simp add: u128_to_pg_decimal_def Let_def st_def [symmetric])
qed

text \<open>Every amount that is written is read back.\<close>

lemma pg_numeric_decode_encode: "pg_decimal_to_u128 (u128_to_pg_decimal v) = Inr v"
proof -
  obtain w ds k where *: "u128_to_pg_decimal v = PgPositive w 0 ds" "valid_digits ds"
    "0 < length ds + k" "length ds + k \<le> 10" "k \<le> 9" "sint w = int (length ds + k) - 1"
    "unat v = horner 0 (pg_digits ds) * 10000 ^ k"
    by (rule u128_to_pg_decimal_shape)
  let ?n = "horner 0 (pg_digits ds)"
  have ten: "(10 :: nat) ^ nat (int (4 * k)) = 10000 ^ k" by (simp only: nat_int power_mult) simp
  have "?n \<le> unat v" using *(7) by simp
  then have "\<not> 2 ^ 128 \<le> ?n" and "?n * 10000 ^ k < 2 ^ 128"
    using u128_less [of v] by (linarith, simp add: *(7) [symmetric])
  moreover have "of_nat (?n * 10000 ^ k) = v" by (simp add: *(7) [symmetric])
  moreover have "(10000 :: nat) ^ k \<le> 10000 ^ 9" using *(5) by (intro power_increasing) simp_all
  then have "(10000 :: nat) ^ k mod 2 ^ 128 = 10000 ^ k" by simp
  moreover have "pg_decimal_to_u128 (PgPositive w 0 ds) =
    (let p = 10 ^ nat (int (4 * k)) mod 2 ^ 128 in
     if 2 ^ 128 \<le> ?n then Inl DigitsOverflow
     else if int (4 * k) < 0 then Inl NegativeCorrectionExp
     else if ?n * p < 2 ^ 128 then Inr (of_nat (?n * p))
     else Inl CorrectionOverflow)"
    using pg_decimal_to_u128_cases [of ds w 0] * by (simp add: Let_def)
  ultimately show ?thesis unfolding Let_def by (simp only: *(1) ten) simp
qed

section \<open>Super units\<close>

text \<open>The operations of \<open>bigdecimal::BigDecimal\<close> that the crate uses. A finite \<open>f64\<close> is given by its
  significand and binary exponent; its conversion panics (\<open>None\<close>) on the other values.\<close>

datatype f64 = Finite int int | Infinite bool | NotANumber

text \<open>The nearest \<open>f64\<close> of a fraction, ties to even; negative zero is not told apart. The smallest exponent
  is that of the subnormal numbers, above the largest finite number comes infinity.\<close>

definition round_half_even :: "int \<Rightarrow> int \<Rightarrow> int" where
  "round_half_even n d =
     (let q = n div d; r = n mod d in if 2 * r < d \<or> (2 * r = d \<and> even q) then q else q + 1)"

definition f64_of_ratio :: "int \<Rightarrow> int \<Rightarrow> f64" where
  "f64_of_ratio n d =
     (if n = 0 then Finite 0 0
      else
        let a = \<bar>n\<bar>; b = \<bar>d\<bar>; k = bitlen a - bitlen b; negative = ((n < 0) \<noteq> (d < 0));
            reached = (if 0 \<le> k then b * 2 ^ nat k \<le> a else b \<le> a * 2 ^ nat (- k));
            e = max (if reached then k - 52 else k - 53) (- 1074);
            m = round_half_even (a * 2 ^ nat (- e)) (b * 2 ^ nat e)
        in if 971 < e \<or> (e = 971 \<and> 2 ^ 53 \<le> m) then Infinite negative
           else Finite (if negative then - m else m) e)"

record 'd bigdecimal =
  bd_from_int :: "int \<Rightarrow> 'd"
  bd_from_str :: "string \<Rightarrow> 'd option"
  bd_to_string :: "'d \<Rightarrow> string"
  bd_add :: "'d \<Rightarrow> 'd \<Rightarrow> 'd"
  bd_mul :: "'d \<Rightarrow> 'd \<Rightarrow> 'd"
  bd_div :: "'d \<Rightarrow> 'd \<Rightarrow> 'd"
  bd_div_panics :: "'d \<Rightarrow> 'd \<Rightarrow> bool"
  bd_with_scale :: "'d \<Rightarrow> nat \<Rightarrow> 'd"
  bd_from_f64 :: "f64 \<Rightarrow> 'd option"
  bd_to_u64 :: "'d \<Rightarrow> 64 word option"
  bd_to_f64 :: "'d \<Rightarrow> f64 option"
  bd_le :: "'d \<Rightarrow> 'd \<Rightarrow> bool"
  bd_eq :: "'d \<Rightarrow> 'd \<Rightarrow> bool"

text \<open>Truncation to \<open>k\<close> decimal places, towards zero.\<close>

definition trunc_rat :: "rat \<Rightarrow> int" where
  "trunc_rat q = (if 0 \<le> q then \<lfloor>q\<rfloor> else \<lceil>q\<rceil>)"

text \<open>What the crate relies on, for \<open>v\<close> the rational number that a decimal denotes: integers and
  sums and products are exact, so is the division of an integer by a power of ten, \<open>with_scale\<close>
  truncates, a scale of zero prints as an integer, and integers are parsed as printed.\<close>

definition bigdecimal_laws :: "'d bigdecimal \<Rightarrow> ('d \<Rightarrow> rat) \<Rightarrow> bool" where
  "bigdecimal_laws D v \<longleftrightarrow>
     (\<forall>n. v (bd_from_int D n) = of_int n) \<and>
     (\<forall>n. \<exists>d. bd_from_str D (show_nat n) = Some d \<and> v d = of_nat n) \<and>
     (\<forall>a b. v (bd_add D a b) = v a + v b) \<and>
     (\<forall>a b. v (bd_mul D a b) = v a * v b) \<and>
     (\<forall>a b n k. v a = of_nat n \<longrightarrow> v b = 10 ^ k \<longrightarrow> v (bd_div D a b) = v a / v b) \<and>
     (\<forall>a k. v (bd_with_scale D a k) = of_int (trunc_rat (v a * 10 ^ k)) / 10 ^ k) \<and>
     (\<forall>a. bd_to_string D (bd_with_scale D a 0) = show_int (trunc_rat (v a))) \<and>
     (\<forall>a b. bd_le D a b \<longleftrightarrow> v a \<le> v b) \<and>
     (\<forall>a b. bd_eq D a b \<longleftrightarrow> v a = v b)"

definition WEI_IN_ETH :: nat where "WEI_IN_ETH = 18"
definition SATOSHIS_IN_BTC :: nat where "SATOSHIS_IN_BTC = 8"
definition CENTS_IN_DOLLAR :: nat where "CENTS_IN_DOLLAR = 2"
definition MAX_WEI_PRECISION :: nat where "MAX_WEI_PRECISION = 8"
definition MAX_SATOSHIS_PRECISION :: nat where "MAX_SATOSHIS_PRECISION = 8"
definition MAX_FIAT_PRECISION :: nat where "MAX_FIAT_PRECISION = 2"

fun unit_exp :: "currency \<Rightarrow> int" where
  "unit_exp Btc = 10 ^ SATOSHIS_IN_BTC"
| "unit_exp Eth = 10 ^ WEI_IN_ETH"
| "unit_exp Stq = 10 ^ WEI_IN_ETH"
| "unit_exp Usd = 10 ^ CENTS_IN_DOLLAR"
| "unit_exp Eur = 10 ^ CENTS_IN_DOLLAR"
| "unit_exp Rub = 10 ^ CENTS_IN_DOLLAR"

text \<open>The \<open>unwrap\<close> of the parse panics on \<open>None\<close>.\<close>

definition from_super_unit :: "'d bigdecimal \<Rightarrow> currency \<Rightarrow> 'd \<Rightarrow> amount option" where
  "from_super_unit D c value =
     (let decimal = bd_with_scale D (bd_mul D value (bd_from_int D (unit_exp c))) 0
      in map_option Amount (u128_from_str (bd_to_string D decimal)))"

definition amount_to_decimal :: "'d bigdecimal \<Rightarrow> amount \<Rightarrow> 'd" where
  "amount_to_decimal D a = the (bd_from_str D (u128_to_string (inner a)))"

definition to_super_unit :: "'d bigdecimal \<Rightarrow> amount \<Rightarrow> currency \<Rightarrow> 'd" where
  "to_super_unit D a c =
     (let decimal = bd_div D (amount_to_decimal D a) (bd_from_int D (unit_exp c))
      in case c of
           Btc \<Rightarrow> bd_with_scale D decimal MAX_SATOSHIS_PRECISION
         | Eth \<Rightarrow> bd_with_scale D decimal MAX_WEI_PRECISION
         | Stq \<Rightarrow> bd_with_scale D decimal MAX_WEI_PRECISION
         | Usd \<Rightarrow> bd_with_scale D decimal MAX_FIAT_PRECISION
         | Eur \<Rightarrow> bd_with_scale D decimal MAX_FIAT_PRECISION
         | Rub \<Rightarrow> bd_with_scale D decimal MAX_FIAT_PRECISION)"

text \<open>The digits after the decimal point in the smallest unit, and those that are kept.\<close>

fun unit_digits :: "currency \<Rightarrow> nat" where
  "unit_digits Btc = 8" | "unit_digits Eth = 18" | "unit_digits Stq = 18"
| "unit_digits Usd = 2" | "unit_digits Eur = 2" | "unit_digits Rub = 2"

fun kept_digits :: "currency \<Rightarrow> nat" where
  "kept_digits Btc = 8" | "kept_digits Eth = 8" | "kept_digits Stq = 8"
| "kept_digits Usd = 2" | "kept_digits Eur = 2" | "kept_digits Rub = 2"

lemmas unit_consts = WEI_IN_ETH_def SATOSHIS_IN_BTC_def CENTS_IN_DOLLAR_def
  MAX_WEI_PRECISION_def MAX_SATOSHIS_PRECISION_def MAX_FIAT_PRECISION_def

lemma unit_exp_eq: "unit_exp c = 10 ^ unit_digits c"
  by (cases c) (simp_all add: unit_consts)

lemma kept_le_unit: "kept_digits c \<le> unit_digits c"
  by (cases c) simp_all

lemma to_super_unit_scale:
  "to_super_unit D a c =
     bd_with_scale D (bd_div D (amount_to_decimal D a) (bd_from_int D (unit_exp c))) (kept_digits c)"
  by (cases c) (simp_all add: to_super_unit_def unit_consts)

lemma trunc_rat_of_nat_div: "trunc_rat (of_nat m / of_nat n) = int (m div n)"
  by (simp add: trunc_rat_def floor_divide_of_nat_eq)

lemma amount_to_decimal_value:
  assumes "bigdecimal_laws D v"
  shows "v (amount_to_decimal D a) = of_nat (unat (inner a))"
proof -
  have "\<exists>d. bd_from_str D (u128_to_string (inner a)) = Some d \<and> v d = of_nat (unat (inner a))"
    using assms unfolding bigdecimal_laws_def u128_to_string_def by blast
  then show ?thesis by (auto simp: amount_to_decimal_def)
qed

lemma to_super_unit_value:
  assumes "bigdecimal_laws D v"
  shows "v (to_super_unit D a c) =
    of_nat (unat (inner a) div 10 ^ (unit_digits c - kept_digits c)) / 10 ^ kept_digits c"
proof -
  let ?n = "unat (inner a)" and ?u = "unit_digits c" and ?k = "kept_digits c"
  let ?q = "bd_div D (amount_to_decimal D a) (bd_from_int D (unit_exp c))"
  have e: "v (bd_from_int D (unit_exp c)) = 10 ^ ?u"
    using assms by (simp add: bigdecimal_laws_def unit_exp_eq)
  have n: "v (amount_to_decimal D a) = of_nat ?n" using assms by (rule amount_to_decimal_value)
  have "v ?q = v (amount_to_decimal D a) / v (bd_from_int D (unit_exp c))"
    using assms n e unfolding bigdecimal_laws_def by blast
  then have q: "v ?q = of_nat ?n / 10 ^ ?u" by (simp only: n e)
  have "(10 :: rat) ^ ?u = 10 ^ (?u - ?k) * 10 ^ ?k"
    using kept_le_unit [of c] by (simp flip: power_add)
  then have "v ?q * 10 ^ ?k = of_nat ?n / of_nat (10 ^ (?u - ?k))" by (simp add: q)
  then have "trunc_rat (v ?q * 10 ^ ?k) = int (?n div 10 ^ (?u - ?k))"
    by (simp only: trunc_rat_of_nat_div)
  moreover have "v (bd_with_scale D ?q ?k) = of_int (trunc_rat (v ?q * 10 ^ ?k)) / 10 ^ ?k"
    using assms unfolding bigdecimal_laws_def by blast
  ultimately show ?thesis by (simp add: to_super_unit_scale)
qed

lemma from_super_unit_cases:
  assumes "bigdecimal_laws D v"
  shows "from_super_unit D c d =
    (let t = trunc_rat (v d * 10 ^ unit_digits c)
     in if 0 \<le> t \<and> t < 2 ^ 128 then Some (Amount (of_int t)) else None)"
proof -
  let ?p = "bd_mul D d (bd_from_int D (unit_exp c))"
  have "bd_to_string D (bd_with_scale D ?p 0) = show_int (trunc_rat (v ?p))"
    using assms unfolding bigdecimal_laws_def by blast
  moreover have "v ?p = v d * 10 ^ unit_digits c"
    using assms by (simp add: bigdecimal_laws_def unit_exp_eq)
  ultimately show ?thesis
    by (simp add: from_super_unit_def Let_def u128_from_str_show_int)
qed

lemma from_to_super_unit:
  assumes "bigdecimal_laws D v"
  shows "from_super_unit D c (to_super_unit D a c) =
    Some (Amount (of_nat (unat (inner a) div 10 ^ (unit_digits c - kept_digits c)
                            * 10 ^ (unit_digits c - kept_digits c))))"
proof -
  let ?n = "unat (inner a)" and ?u = "unit_digits c" and ?k = "kept_digits c"
  let ?m = "?n div 10 ^ (?u - ?k) * 10 ^ (?u - ?k)"
  have "(10 :: rat) ^ ?u = 10 ^ (?u - ?k) * 10 ^ ?k"
    using kept_le_unit [of c] by (simp flip: power_add)
  then have "v (to_super_unit D a c) * 10 ^ ?u = of_nat ?m / of_nat 1"
    using to_super_unit_value [OF assms, of a c] by simp
  then have t: "trunc_rat (v (to_super_unit D a c) * 10 ^ ?u) = int ?m"
    by (simp only: trunc_rat_of_nat_div) simp
  have "?m \<le> ?n" by (rule div_times_less_eq_dividend)
  then have "?m < 2 ^ 128" using u128_less [of "inner a"] by (rule le_less_trans)
  then have "int ?m < int (2 ^ 128)" by (simp only: of_nat_less_iff)
  then have "int ?m < 2 ^ 128" by simp
  moreover have "0 \<le> int ?m" by (rule of_nat_0_le_iff)
  ultimately show ?thesis
    unfolding from_super_unit_cases [OF assms] t Let_def by (simp only: of_int_of_nat_eq simp_thms if_True)
qed

text \<open>Exact rational arithmetic satisfies the laws.\<close>

definition rat_bigdecimal :: "rat bigdecimal" where
  "rat_bigdecimal = \<lparr>
     bd_from_int = of_int,
     bd_from_str = (\<lambda>s. map_option of_nat (digits_value 0 s)),
     bd_to_string = (\<lambda>q. show_int (trunc_rat q)),
     bd_add = (+), bd_mul = (*), bd_div = (/), bd_div_panics = (\<lambda>_ q. q = 0),
     bd_with_scale = (\<lambda>q k. of_int (trunc_rat (q * 10 ^ k)) / 10 ^ k),
     bd_from_f64 = (\<lambda>x. case x of Finite m e \<Rightarrow> Some (if 0 \<le> e then of_int (m * 2 ^ nat e)
                                            else of_int m / of_int (2 ^ nat (- e)))
                               | _ \<Rightarrow> None),
     bd_to_u64 = (\<lambda>q. let t = trunc_rat q in
                       if 0 \<le> t \<and> t < 2 ^ 64 then Some (of_int t) else None),
     bd_to_f64 = (\<lambda>q. Some (Finite (trunc_rat (q * 2 ^ 30)) (- 30))),
     bd_le = (\<le>), bd_eq = (=) \<rparr>"

lemma trunc_rat_of_int [simp]: "trunc_rat (of_int n) = n"
  by (simp add: trunc_rat_def)

lemma rat_bigdecimal_laws: "bigdecimal_laws rat_bigdecimal id"
  by (simp add: bigdecimal_laws_def rat_bigdecimal_def digits_value_show_nat)

section \<open>Properties\<close>

lemma map_Amount_Some: "map_option Amount x = Some a \<longleftrightarrow> x = Some (inner a)"
  by (cases x; cases a) auto

text \<open>C38: An amount written to a \<open>NUMERIC\<close> column is read back as the same amount.\<close>

theorem amount_sql_roundtrip: "amount_from_sql (amount_to_sql a) = Inr a"
  by (cases a) (simp add: amount_from_sql_def amount_to_sql_def pg_numeric_decode_encode)

text \<open>C37: What is read from a positive \<open>NUMERIC\<close>, whoever wrote it, for every weight and scale and every
  list of up to 32768 digits to the base 10000: a scale other than 0 and a negative weight are errors;
  otherwise it is the number that the digits denote times the power of ten that the weight adds, when
  it fits into 128 bits, and the error of the phase that detects the overflow or the missing digits
  when it does not. The power itself is not checked and wraps around, so from the exponent 39 on another
  number is read.\<close>

theorem amount_from_sql_decodes:
  assumes "valid_digits ds" and "length ds \<le> 32768"
  shows "amount_from_sql (PgPositive w sc ds) =
    (let n = horner 0 (pg_digits ds); e = 4 * (sint w - int (length ds) + 1);
         p = 10 ^ nat e mod 2 ^ 128 in
     if sc \<noteq> 0 then Inl NonzeroScale
     else if sint w < 0 then Inl NegativeWeight
     else if 2 ^ 128 \<le> n then Inl DigitsOverflow
     else if e < 0 then Inl NegativeCorrectionExp
     else if n * p < 2 ^ 128 then Inr (Amount (of_nat (n * p)))
     else Inl CorrectionOverflow)"
  unfolding amount_from_sql_def pg_decimal_to_u128_cases [OF assms] by (simp add: Let_def)

theorem amount_from_sql_decodes_witness:
  "amount_from_sql (PgPositive 1 0 [12, 3456]) = Inr (Amount 123456)"
  using amount_from_sql_decodes [of "[12, 3456]" 1 0]
  by (simp add: valid_digits_def pg_digits_def)

text \<open>The power of the correction phase is not checked: in a release build it wraps, and a large
  number is read as zero.\<close>

theorem amount_from_sql_wraps: "amount_from_sql (PgPositive 32 0 [1]) = Inr (Amount 0)"
  by (simp add: amount_from_sql_def pg_decimal_to_u128_def correction_exp_def u128_checked_mul_def
      u128_checked_add_def)

text \<open>\<open>Amount::from_str\<close> accepts exactly the decimal numerals (with an optional plus sign) whose
  value fits into 128 bits, and the text that an amount is displayed as is parsed back.\<close>

theorem amount_text:
  "(amount_from_str s = Some a \<longleftrightarrow>
     (let digits = (case s of [] \<Rightarrow> [] | c # cs \<Rightarrow> if c = CHR ''+'' then cs else s) in
      digits \<noteq> [] \<and> digits_value 0 digits = Some (unat (inner a)))) \<and>
   amount_from_str (amount_display a) = Some a"
proof
  show "amount_from_str s = Some a \<longleftrightarrow>
     (let digits = (case s of [] \<Rightarrow> [] | c # cs \<Rightarrow> if c = CHR ''+'' then cs else s) in
      digits \<noteq> [] \<and> digits_value 0 digits = Some (unat (inner a)))"
    using parse_digits_value [of 0]
    by (simp add: amount_from_str_def u128_from_str_def Let_def map_Amount_Some del: map_option_eq_Some)
  show "amount_from_str (amount_display a) = Some a"
    using u128_less [of "inner a"]
    by (simp add: amount_from_str_def amount_display_def u128_to_string_def u128_from_str_show_nat)
qed

text \<open>The checked operations never wrap: a result is returned exactly when it is the result over
  the natural numbers, and a division by zero or an overflow gives \<open>None\<close>.\<close>

theorem checked_operations_exact:
  "(checked_add a b = Some c \<longleftrightarrow> unat (inner c) = unat (inner a) + unat (inner b)) \<and>
   (checked_sub a b = Some c \<longleftrightarrow> unat (inner a) = unat (inner b) + unat (inner c)) \<and>
   (checked_mul a b = Some c \<longleftrightarrow> unat (inner c) = unat (inner a) * unat (inner b)) \<and>
   (checked_div a b = Some c \<longleftrightarrow> inner b \<noteq> 0 \<and> unat (inner c) = unat (inner a) div unat (inner b))"
proof -
  have "u128_checked_div x y = Some z \<longleftrightarrow> y \<noteq> 0 \<and> unat z = unat x div unat y" for x y z
    by (auto simp: u128_checked_div_def unat_div word_unat_eq_iff)
  then show ?thesis
    by (simp add: checked_add_def checked_sub_def checked_mul_def checked_div_def map_Amount_Some
        u128_checked_add_Some u128_checked_sub_Some u128_checked_mul_Some del: map_option_eq_Some)
qed

text \<open>Converting an amount to whole currency units and back gives the amount, cut to the number of
  digits that \<open>to_super_unit\<close> keeps: for no currency more than it had, and everything when no digits
  are cut.\<close>

theorem super_unit_roundtrip:
  assumes "bigdecimal_laws D v"
  shows "from_super_unit D c (to_super_unit D a c) =
    Some (Amount (of_nat (unat (inner a) - unat (inner a) mod 10 ^ (unit_digits c - kept_digits c))))"
  using from_to_super_unit [OF assms, of c a] by (simp add: minus_mod_eq_div_mult)

theorem super_unit_roundtrip_witness:
  "from_super_unit rat_bigdecimal Usd (to_super_unit rat_bigdecimal (Amount 12345) Usd) =
     Some (Amount 12345)"
  using super_unit_roundtrip [OF rat_bigdecimal_laws, of Usd "Amount 12345"] by simp

text \<open>The \<open>unwrap\<close> of \<open>from_super_unit\<close> panics exactly when the value in the smallest unit, cut to an
  integer, is negative or needs more than 128 bits; otherwise that integer is the amount.\<close>

theorem from_super_unit_panics:
  assumes "bigdecimal_laws D v"
  shows "from_super_unit D c d =
    (let t = trunc_rat (v d * 10 ^ unit_digits c)
     in if t < 0 \<or> 2 ^ 128 \<le> t then None else Some (Amount (of_int t)))"
  using from_super_unit_cases [OF assms, of c d] by (auto simp: Let_def)

theorem from_super_unit_panics_witness:
  "from_super_unit rat_bigdecimal Btc (- 1) = None \<and>
   from_super_unit rat_bigdecimal Btc 2 = Some (Amount 200000000)"
  using from_super_unit_panics [OF rat_bigdecimal_laws, of Btc "- 1"]
    from_super_unit_panics [OF rat_bigdecimal_laws, of Btc 2]
  by (simp add: trunc_rat_def)

end
