(* ===== verification/Models.thy ===== *)
theory Models
  imports Prelude Currencies Amounts
begin

text \<open>
  The data of \<open>models/\<close>: identifiers, table rows and the payloads that create and change them, with
  the conversions between them. Identifiers are newtypes over their representation; a UUID is a
  128-bit word, a time stamp counts microseconds, JSON metadata is not interpreted. The error kinds
  of the three layers (\<open>repos/error.rs\<close>, \<open>services/error.rs\<close>, \<open>event_handling/error.rs\<close>) and their
  conversions come last.
\<close>

section \<open>Identifiers\<close>

type_synonym uuid = "128 word"
type_synonym timestamp = int

datatype invoice_id = InvoiceId (invoice_uuid: uuid)
datatype order_id = OrderId (order_uuid: uuid)
datatype account_id = AccountId (account_uuid: uuid)
datatype transaction_id = TransactionId (transaction_uuid: uuid)
datatype exchange_id = ExchangeId (exchange_uuid: uuid)
datatype payout_id = PayoutId (payout_uuid: uuid)
datatype event_id = EventId (event_uuid: uuid)
datatype event_entry_id = EventEntryId (event_entry_inner: int)
datatype order_exchange_rate_id = OrderExchangeRateId (rate_inner: int)
datatype fee_id = FeeId (fee_inner: int)
datatype order_payout_id = OrderPayoutId (order_payout_inner: int)
datatype user_id = UserId (user_inner: int)
datatype store_id = StoreId (store_inner: int)
datatype charge_id = ChargeId (charge_inner: string)
datatype customer_id = CustomerId (customer_inner: string)
datatype payment_intent_id = PaymentIntentId (payment_intent_inner: string)
datatype wallet_address = WalletAddress (wallet_inner: string)

text \<open>The user of a request is a \<open>stq_types::UserId\<close>, not the \<open>UserId\<close> of the models.\<close>

type_synonym stq_user_id = int

text \<open>The variants of \<open>stq_static_resources::OrderState\<close> that the crate uses; the others are not
  told apart.\<close>

datatype order_state =
    OsNew | OsPaymentAwaited | OsTransactionPending | OsAmountExpired | OsPaid | OsOther string

section \<open>Orders\<close>

record raw_order =
  ord_id :: order_id
  ord_seller_currency :: currency
  ord_total_amount :: amount
  ord_cashback_amount :: amount
  ord_invoice_id :: invoice_id
  ord_created_at :: timestamp
  ord_updated_at :: timestamp
  ord_store_id :: store_id
  ord_state :: payment_state
  ord_stripe_fee :: "amount option"

datatype order_payment_kind =
    KindCrypto ture_currency
  | KindFiat fiat_currency "amount option"

definition payment_kind :: "raw_order \<Rightarrow> order_payment_kind" where
  "payment_kind r =
     (case classify (ord_seller_currency r) of
        Crypto c \<Rightarrow> KindCrypto c
      | Fiat c \<Rightarrow> KindFiat c (ord_stripe_fee r))"

record new_order =
  no_id :: order_id
  no_seller_currency :: currency
  no_total_amount :: amount
  no_cashback_amount :: amount
  no_invoice_id :: invoice_id
  no_store_id :: store_id

record order_access =
  oa_invoice_id :: invoice_id
  oa_store_id :: store_id

definition access_of_new_order :: "new_order \<Rightarrow> order_access" where
  "access_of_new_order r = \<lparr>oa_invoice_id = no_invoice_id r, oa_store_id = no_store_id r\<rparr>"

definition access_of_order :: "raw_order \<Rightarrow> order_access" where
  "access_of_order r = \<lparr>oa_invoice_id = ord_invoice_id r, oa_store_id = ord_store_id r\<rparr>"

record orders_search =
  os_store_id :: "store_id option"
  os_state :: "payment_state option"
  os_order_id :: "order_id option"
  os_order_ids :: "order_id list option"

definition by_order_ids :: "order_id list \<Rightarrow> orders_search" where
  "by_order_ids ids =
     \<lparr>os_store_id = None, os_state = None, os_order_id = None, os_order_ids = Some ids\<rparr>"

record order_search_results =
  osr_total_count :: int
  osr_orders :: "raw_order list"

section \<open>Exchange rates\<close>

record 'd raw_order_exchange_rate =
  rate_id :: order_exchange_rate_id
  rate_order_id :: order_id
  rate_exchange_id :: "exchange_id option"
  rate_exchange_rate :: 'd
  rate_status :: exchange_rate_status
  rate_created_at :: timestamp
  rate_updated_at :: timestamp

record 'd new_order_exchange_rate =
  nr_order_id :: order_id
  nr_exchange_id :: "exchange_id option"
  nr_exchange_rate :: 'd

record 'd raw_new_order_exchange_rate =
  rnr_order_id :: order_id
  rnr_exchange_id :: "exchange_id option"
  rnr_exchange_rate :: 'd
  rnr_status :: exchange_rate_status

definition raw_new_rate :: "'d new_order_exchange_rate \<Rightarrow> 'd raw_new_order_exchange_rate" where
  "raw_new_rate r =
     \<lparr>rnr_order_id = nr_order_id r, rnr_exchange_id = nr_exchange_id r,
      rnr_exchange_rate = nr_exchange_rate r, rnr_status = Active\<rparr>"

record 'd latest_exchange_rates =
  lr_active_rate :: "'d raw_order_exchange_rate"
  lr_last_expired_rate :: "'d raw_order_exchange_rate option"

section \<open>Invoices\<close>

datatype payment_flow = FlowCrypto | FlowFiat

record raw_invoice =
  inv_id :: invoice_id
  inv_account_id :: "account_id option"
  inv_buyer_currency :: currency
  inv_amount_captured :: amount
  inv_final_amount_paid :: "amount option"
  inv_final_cashback_amount :: "amount option"
  inv_paid_at :: "timestamp option"
  inv_created_at :: timestamp
  inv_updated_at :: timestamp
  inv_buyer_user_id :: user_id
  inv_status :: order_state

definition payment_flow_of :: "raw_invoice \<Rightarrow> payment_flow" where
  "payment_flow_of i = (if is_fiat (inv_buyer_currency i) then FlowFiat else FlowCrypto)"

record raw_amount_received =
  ar_id :: transaction_id
  ar_invoice_id :: invoice_id
  ar_amount_received :: amount
  ar_created_at :: timestamp

record new_amount_received =
  nar_id :: transaction_id
  nar_invoice_id :: invoice_id
  nar_amount_received :: amount

record new_invoice =
  ni_id :: invoice_id
  ni_account_id :: "account_id option"
  ni_buyer_currency :: currency
  ni_amount_captured :: amount
  ni_buyer_user_id :: user_id

record raw_new_invoice =
  rni_id :: invoice_id
  rni_account_id :: "account_id option"
  rni_buyer_currency :: currency
  rni_amount_captured :: amount
  rni_buyer_user_id :: user_id
  rni_status :: order_state

definition raw_new_invoice_of :: "new_invoice \<Rightarrow> raw_new_invoice" where
  "raw_new_invoice_of i =
     \<lparr>rni_id = ni_id i, rni_account_id = ni_account_id i, rni_buyer_currency = ni_buyer_currency i,
      rni_amount_captured = ni_amount_captured i, rni_buyer_user_id = ni_buyer_user_id i,
      rni_status = OsPaymentAwaited\<rparr>"

record invoice_set_amount_paid =
  sap_final_amount_paid :: amount
  sap_final_cashback_amount :: amount
  sap_paid_at :: timestamp

text \<open>The changesets \<open>RawInvoiceSetAmountPaid\<close> and \<open>RawInvoiceSetAmountPaidFiat\<close> and their effect on a row.\<close>

definition set_amount_paid_changes :: "invoice_set_amount_paid \<Rightarrow> raw_invoice \<Rightarrow> raw_invoice" where
  "set_amount_paid_changes p i =
     i\<lparr>inv_final_amount_paid := Some (sap_final_amount_paid p),
       inv_final_cashback_amount := Some (sap_final_cashback_amount p),
       inv_paid_at := Some (sap_paid_at p), inv_status := OsPaid\<rparr>"

definition set_amount_paid_fiat_changes :: "invoice_set_amount_paid \<Rightarrow> raw_invoice \<Rightarrow> raw_invoice" where
  "set_amount_paid_fiat_changes p i =
     i\<lparr>inv_amount_captured := sap_final_amount_paid p,
       inv_final_amount_paid := Some (sap_final_amount_paid p),
       inv_final_cashback_amount := Some (sap_final_cashback_amount p),
       inv_paid_at := Some (sap_paid_at p), inv_status := OsPaid\<rparr>"

section \<open>Accounts\<close>

record account =
  acc_id :: account_id
  acc_currency :: ture_currency
  acc_is_pooled :: bool
  acc_created_at :: timestamp
  acc_wallet_address :: wallet_address

record new_account =
  na_id :: account_id
  na_currency :: ture_currency
  na_is_pooled :: bool
  na_wallet_address :: wallet_address

record account_with_balance =
  awb_account :: account
  awb_balance :: amount

datatype system_account_type = SysMain | SysCashback

record system_account =
  sa_id :: account_id
  sa_currency :: ture_currency
  sa_account_type :: system_account_type

definition system_accounts_get ::
  "system_account list \<Rightarrow> ture_currency \<Rightarrow> system_account_type \<Rightarrow> account_id option" where
  "system_accounts_get accs c t =
     map_option sa_id (find (\<lambda>a. sa_currency a = c \<and> sa_account_type a = t) accs)"

record payments_callback =
  cb_transaction_id :: transaction_id
  cb_amount_captured :: string
  cb_currency :: ture_currency
  cb_address :: wallet_address
  cb_account_id :: "account_id option"

section \<open>Payment intents\<close>

datatype payment_intent_status =
    RequiresSource | RequiresConfirmation | RequiresSourceAction | PiProcessing | RequiresCapture
  | PiCanceled | PiSucceeded | PiOther

fun is_cancellable :: "payment_intent_status \<Rightarrow> bool" where
  "is_cancellable RequiresSource = True"
| "is_cancellable RequiresConfirmation = True"
| "is_cancellable RequiresSourceAction = True"
| "is_cancellable RequiresCapture = True"
| "is_cancellable _ = False"

record payment_intent =
  pi_id :: payment_intent_id
  pi_amount :: amount
  pi_amount_received :: amount
  pi_client_secret :: "string option"
  pi_currency :: currency
  pi_last_payment_error_message :: "string option"
  pi_receipt_email :: "string option"
  pi_charge_id :: "charge_id option"
  pi_status :: payment_intent_status
  pi_created_at :: timestamp
  pi_updated_at :: timestamp

record new_payment_intent =
  npi_id :: payment_intent_id
  npi_amount :: amount
  npi_amount_received :: amount
  npi_client_secret :: "string option"
  npi_currency :: currency
  npi_last_payment_error_message :: "string option"
  npi_receipt_email :: "string option"
  npi_charge_id :: "charge_id option"
  npi_status :: payment_intent_status

text \<open>A changeset writes the fields that are present.\<close>

record update_payment_intent =
  upi_status :: "payment_intent_status option"
  upi_amount :: "amount option"
  upi_amount_received :: "amount option"
  upi_client_secret :: "string option"
  upi_currency :: "currency option"
  upi_last_payment_error_message :: "string option"
  upi_receipt_email :: "string option"
  upi_charge_id :: "charge_id option"

definition default_update_payment_intent :: update_payment_intent where
  "default_update_payment_intent =
     \<lparr>upi_status = None, upi_amount = None, upi_amount_received = None, upi_client_secret = None,
      upi_currency = None, upi_last_payment_error_message = None, upi_receipt_email = None,
      upi_charge_id = None\<rparr>"

definition set_or :: "'a option \<Rightarrow> 'a \<Rightarrow> 'a" where
  "set_or new old = (case new of None \<Rightarrow> old | Some x \<Rightarrow> x)"

definition set_or_opt :: "'a option \<Rightarrow> 'a option \<Rightarrow> 'a option" where
  "set_or_opt new old = (case new of None \<Rightarrow> old | Some x \<Rightarrow> Some x)"

definition update_payment_intent_changes :: "update_payment_intent \<Rightarrow> payment_intent \<Rightarrow> payment_intent" where
  "update_payment_intent_changes u p =
     p\<lparr>pi_status := set_or (upi_status u) (pi_status p),
       pi_amount := set_or (upi_amount u) (pi_amount p),
       pi_amount_received := set_or (upi_amount_received u) (pi_amount_received p),
       pi_client_secret := set_or_opt (upi_client_secret u) (pi_client_secret p),
       pi_currency := set_or (upi_currency u) (pi_currency p),
       pi_last_payment_error_message :=
         set_or_opt (upi_last_payment_error_message u) (pi_last_payment_error_message p),
       pi_receipt_email := set_or_opt (upi_receipt_email u) (pi_receipt_email p),
       pi_charge_id := set_or_opt (upi_charge_id u) (pi_charge_id p)\<rparr>"

record payment_intent_invoice =
  pii_id :: int
  pii_invoice_id :: invoice_id
  pii_payment_intent_id :: payment_intent_id
  pii_created_at :: timestamp
  pii_updated_at :: timestamp

record new_payment_intent_invoice =
  npii_invoice_id :: invoice_id
  npii_payment_intent_id :: payment_intent_id

record payment_intent_fee =
  pif_id :: int
  pif_fee_id :: fee_id
  pif_payment_intent_id :: payment_intent_id
  pif_created_at :: timestamp
  pif_updated_at :: timestamp

record new_payment_intent_fee =
  npif_fee_id :: fee_id
  npif_payment_intent_id :: payment_intent_id

section \<open>Fees\<close>

record fee =
  fee_id :: fee_id
  fee_order_id :: order_id
  fee_amount :: amount
  fee_status :: fee_status
  fee_currency :: currency
  fee_charge_id :: "charge_id option"
  fee_created_at :: timestamp
  fee_updated_at :: timestamp
  fee_crypto_currency :: "currency option"
  fee_crypto_amount :: "amount option"

record new_fee =
  nf_order_id :: order_id
  nf_amount :: amount
  nf_status :: fee_status
  nf_currency :: currency
  nf_charge_id :: "charge_id option"
  nf_crypto_currency :: "currency option"
  nf_crypto_amount :: "amount option"

record update_fee =
  uf_order_id :: "order_id option"
  uf_amount :: "amount option"
  uf_status :: "fee_status option"
  uf_currency :: "currency option"
  uf_charge_id :: "charge_id option"
  uf_crypto_currency :: "currency option"
  uf_crypto_amount :: "amount option"

definition default_update_fee :: update_fee where
  "default_update_fee =
     \<lparr>uf_order_id = None, uf_amount = None, uf_status = None, uf_currency = None,
      uf_charge_id = None, uf_crypto_currency = None, uf_crypto_amount = None\<rparr>"

definition update_fee_changes :: "update_fee \<Rightarrow> fee \<Rightarrow> fee" where
  "update_fee_changes u f =
     f\<lparr>fee_order_id := set_or (uf_order_id u) (fee_order_id f),
       fee_amount := set_or (uf_amount u) (fee_amount f),
       fee_status := set_or (uf_status u) (fee_status f),
       fee_currency := set_or (uf_currency u) (fee_currency f),
       fee_charge_id := set_or_opt (uf_charge_id u) (fee_charge_id f),
       fee_crypto_currency := set_or_opt (uf_crypto_currency u) (fee_crypto_currency f),
       fee_crypto_amount := set_or_opt (uf_crypto_amount u) (fee_crypto_amount f)\<rparr>"

section \<open>Payouts\<close>

datatype payout_status =
    PayoutProcessing timestamp
  | PayoutCompleted timestamp timestamp

record crypto_wallet_payout_target =
  cw_currency :: ture_currency
  cw_wallet_address :: wallet_address
  cw_blockchain_fee :: amount

datatype payout_target = CryptoWallet crypto_wallet_payout_target

record payout =
  po_id :: payout_id
  po_gross_amount :: amount
  po_net_amount :: amount
  po_target :: payout_target
  po_user_id :: user_id
  po_status :: payout_status
  po_order_ids :: "order_id list"

definition payout_currency :: "payout \<Rightarrow> currency" where
  "payout_currency p = (case po_target p of CryptoWallet t \<Rightarrow> currency_of_ture (cw_currency t))"

datatype raw_payout_target_type = CryptoWalletType

record raw_payout =
  rp_id :: payout_id
  rp_currency :: currency
  rp_gross_amount :: amount
  rp_net_amount :: amount
  rp_user_id :: user_id
  rp_initiated_at :: timestamp
  rp_completed_at :: "timestamp option"
  rp_payout_target_type :: raw_payout_target_type
  rp_wallet_address :: "wallet_address option"
  rp_blockchain_fee :: "amount option"

record raw_order_payout =
  rop_id :: order_payout_id
  rop_order_id :: order_id
  rop_payout_id :: payout_id

record raw_new_order_payout =
  rnop_order_id :: order_id
  rnop_payout_id :: payout_id

record raw_payout_records =
  rpr_payout :: raw_payout
  rpr_order_payouts :: "raw_order_payout list"

text \<open>\<open>None\<close> is \<open>RawPayoutRecordsMappingError\<close>.\<close>

definition try_into_domain :: "raw_payout_records \<Rightarrow> payout option" where
  "try_into_domain r =
     (let p = rpr_payout r; ops = rpr_order_payouts r in
      case (classify (rp_currency p), rp_payout_target_type p, rp_wallet_address p, rp_blockchain_fee p) of
        (Crypto c, CryptoWalletType, Some address, Some bfee) \<Rightarrow>
          (let target = CryptoWallet \<lparr>cw_currency = c, cw_wallet_address = address, cw_blockchain_fee = bfee\<rparr>;
               order_ids =
                 (case ops of
                    [] \<Rightarrow> Some []
                  | first # _ \<Rightarrow>
                      if list_all (\<lambda>x. rop_payout_id x = rop_payout_id first) ops
                      then Some (map rop_order_id ops) else None);
               status =
                 (case rp_completed_at p of
                    None \<Rightarrow> PayoutProcessing (rp_initiated_at p)
                  | Some completed \<Rightarrow> PayoutCompleted (rp_initiated_at p) completed)
           in map_option (\<lambda>ids.
                \<lparr>po_id = rp_id p, po_gross_amount = rp_gross_amount p, po_net_amount = rp_net_amount p,
                 po_target = target, po_user_id = rp_user_id p, po_status = status,
                 po_order_ids = ids\<rparr>) order_ids)
      | _ \<Rightarrow> None)"

definition raw_new_payout_records :: "payout \<Rightarrow> raw_payout \<times> raw_new_order_payout list" where
  "raw_new_payout_records p =
     (case po_target p of CryptoWallet t \<Rightarrow>
        (let (initiated, completed) =
               (case po_status p of
                  PayoutProcessing i \<Rightarrow> (i, None)
                | PayoutCompleted i c \<Rightarrow> (i, Some c))
         in (\<lparr>rp_id = po_id p, rp_currency = currency_of_ture (cw_currency t),
              rp_gross_amount = po_gross_amount p, rp_net_amount = po_net_amount p,
              rp_user_id = po_user_id p, rp_initiated_at = initiated, rp_completed_at = completed,
              rp_payout_target_type = CryptoWalletType, rp_wallet_address = Some (cw_wallet_address t),
              rp_blockchain_fee = Some (cw_blockchain_fee t)\<rparr>,
             map (\<lambda>x. \<lparr>rnop_order_id = x, rnop_payout_id = po_id p\<rparr>) (po_order_ids p))))"

record order_for_payout =
  ofp_order_id :: order_id
  ofp_total_amount :: amount

record orders_for_payout =
  ofps_currency :: ture_currency
  ofps_orders :: "order_for_payout list"

text \<open>The hash map of \<open>PayoutsByOrderIds\<close>, as an association list without repeated keys.\<close>

record payouts_by_order_ids =
  pbo_payouts :: "(order_id \<times> payout) list"
  pbo_order_ids_without_payout :: "order_id list"

section \<open>Customers and roles\<close>

record db_customer =
  cust_id :: customer_id
  cust_user_id :: stq_user_id
  cust_email :: "string option"
  cust_created_at :: timestamp
  cust_updated_at :: timestamp

datatype billing_role = Superuser | User | StoreManager | FinancialManager

text \<open>The data of a role is JSON; the crate only compares it with a number.\<close>

datatype role_data = RoleNumber int | RoleOther string

record user_role =
  role_id :: uuid
  role_user_id :: stq_user_id
  role_name :: billing_role
  role_data :: "role_data option"

section \<open>Stripe objects\<close>

text \<open>The fields of the third-party objects that the crate reads. The currency of a payment intent
  is given by its \<open>Display\<close> form.\<close>

datatype capture_method = CaptureAutomatic | CaptureManual

record stripe_charge =
  sc_id :: string
  sc_paid :: bool
  sc_balance_transaction :: "string option"

record stripe_payment_intent =
  spi_id :: string
  spi_amount :: "64 word"
  spi_amount_capturable :: "64 word"
  spi_amount_received :: "64 word"
  spi_capture_method :: capture_method
  spi_charges :: "stripe_charge list"
  spi_client_secret :: "string option"
  spi_currency :: string
  spi_last_payment_error :: "string option"
  spi_receipt_email :: "string option"
  spi_status :: payment_intent_status

record stripe_balance_transaction =
  sbt_amount :: int
  sbt_fee :: int

section \<open>Events\<close>

datatype event_payload =
    NoOp
  | InvoicePaid invoice_id
  | PaymentIntentPaymentFailed stripe_payment_intent
  | PaymentIntentAmountCapturableUpdated stripe_payment_intent
  | PaymentIntentSucceeded stripe_payment_intent
  | PaymentIntentCapture order_id
  | PaymentExpired invoice_id
  | PayoutInitiated payout_id

record event =
  ev_id :: event_id
  ev_payload :: event_payload

text \<open>A stored JSON value either deserializes to an event or does not.\<close>

datatype event_json = EventJson event | BadJson string

record event_entry =
  ee_id :: event_entry_id
  ee_event :: event
  ee_status :: event_status
  ee_attempt_count :: i32
  ee_created_at :: timestamp
  ee_status_updated_at :: timestamp
  ee_scheduled_on :: "timestamp option"

record raw_event_entry =
  re_id :: event_entry_id
  re_event :: event_json
  re_status :: string
  re_attempt_count :: i32
  re_created_at :: timestamp
  re_status_updated_at :: timestamp
  re_scheduled_on :: "timestamp option"

datatype raw_event_entry_error = InvalidEventJson | InvalidStatus

text \<open>The cast of the attempt count to \<open>u32\<close> keeps its bits.\<close>

definition try_into_event_entry :: "raw_event_entry \<Rightarrow> raw_event_entry_error + event_entry" where
  "try_into_event_entry r =
     (case re_event r of
        BadJson _ \<Rightarrow> Inl InvalidEventJson
      | EventJson ev \<Rightarrow>
          (case event_status_from_str (re_status r) of
             None \<Rightarrow> Inl InvalidStatus
           | Some status \<Rightarrow>
               Inr \<lparr>ee_id = re_id r, ee_event = ev, ee_status = status,
                    ee_attempt_count = re_attempt_count r, ee_created_at = re_created_at r,
                    ee_status_updated_at = re_status_updated_at r,
                    ee_scheduled_on = re_scheduled_on r\<rparr>))"

record raw_new_event_entry =
  rne_event :: event_json
  rne_status :: string
  rne_attempt_count :: i32
  rne_scheduled_on :: "timestamp option"

definition try_from_event :: "event \<Rightarrow> raw_new_event_entry" where
  "try_from_event e =
     \<lparr>rne_event = EventJson e, rne_status = event_status_display Pending, rne_attempt_count = 0,
      rne_scheduled_on = None\<rparr>"

definition try_from_event_scheduled_on :: "event \<Rightarrow> timestamp \<Rightarrow> raw_new_event_entry" where
  "try_from_event_scheduled_on e t =
     \<lparr>rne_event = EventJson e, rne_status = event_status_display Pending, rne_attempt_count = 0,
      rne_scheduled_on = Some t\<rparr>"

section \<open>Errors\<close>

text \<open>Validation errors: the field and the code of each; messages and parameters are left out.\<close>

type_synonym validation = "(string \<times> string) list"

datatype diesel_error = UniqueViolation | DieselNotFound | OtherDieselError

datatype repo_error = RConstraints validation | RInternal | RForbidden | RNotFound

definition repo_error_of_diesel :: "diesel_error \<Rightarrow> repo_error" where
  "repo_error_of_diesel e =
     (case e of
        UniqueViolation \<Rightarrow> RConstraints [(''repo'', ''not unique'')]
      | DieselNotFound \<Rightarrow> RNotFound
      | OtherDieselError \<Rightarrow> RInternal)"

text \<open>The four error kinds that the payments, Stripe, stores and saga clients share.\<close>

datatype client_error = CMalformedInput | CUnauthorized | CInternal | CValidation validation

text \<open>\<open>SPanic\<close> stands for an \<open>unwrap\<close> that panics.\<close>

datatype service_error = SInternal | SForbidden | SNotFound | SValidation validation | SPanic

definition service_error_of_repo :: "repo_error \<Rightarrow> service_error" where
  "service_error_of_repo e =
     (case e of
        RConstraints errors \<Rightarrow> SValidation errors
      | RForbidden \<Rightarrow> SForbidden
      | RInternal \<Rightarrow> SInternal
      | RNotFound \<Rightarrow> SInternal)"

definition service_error_of_client :: "client_error \<Rightarrow> service_error" where
  "service_error_of_client e =
     (case e of
        CInternal \<Rightarrow> SInternal
      | CMalformedInput \<Rightarrow> SInternal
      | CUnauthorized \<Rightarrow> SInternal
      | CValidation v \<Rightarrow> SValidation v)"

definition service_error_of_diesel :: "diesel_error \<Rightarrow> service_error" where
  "service_error_of_diesel e = SInternal"

datatype handler_error = HInternal | HCurrencyConversion | HAlreadyDone | HPanic

definition handler_error_of_repo :: "repo_error \<Rightarrow> handler_error" where
  "handler_error_of_repo e = HInternal"

definition handler_error_of_client :: "client_error \<Rightarrow> handler_error" where
  "handler_error_of_client e = HInternal"

text \<open>\<open>ectx!(ErrorKind::Internal)\<close> over a service error; a panic is not an error value and goes
  through.\<close>

definition handler_error_of_service :: "service_error \<Rightarrow> handler_error" where
  "handler_error_of_service e = (if e = SPanic then HPanic else HInternal)"

section \<open>Laws of the conversions\<close>

text \<open>The rows that a payout is written to are read back as the same payout.\<close>

definition stored_order_payouts :: "(nat \<Rightarrow> int) \<Rightarrow> raw_new_order_payout list \<Rightarrow> raw_order_payout list" where
  "stored_order_payouts ids rows =
     map (\<lambda>(i, r). \<lparr>rop_id = OrderPayoutId (ids i), rop_order_id = rnop_order_id r,
                    rop_payout_id = rnop_payout_id r\<rparr>) (enumerate 0 rows)"

lemma try_into_event_entry_Inr:
  "try_into_event_entry r = Inr e \<Longrightarrow>
     re_event r = EventJson (ee_event e) \<and> re_status r = event_status_display (ee_status e) \<and>
     re_id r = ee_id e \<and> re_attempt_count r = ee_attempt_count e"
  by (auto simp: try_into_event_entry_def event_status_from_str_iff
      split: event_json.splits option.splits)

lemma try_into_event_entry_valid:
  "re_event r = EventJson ev \<Longrightarrow> re_status r = event_status_display st \<Longrightarrow>
   try_into_event_entry r =
     Inr \<lparr>ee_id = re_id r, ee_event = ev, ee_status = st, ee_attempt_count = re_attempt_count r,
          ee_created_at = re_created_at r, ee_status_updated_at = re_status_updated_at r,
          ee_scheduled_on = re_scheduled_on r\<rparr>"
  by (simp add: try_into_event_entry_def)

section \<open>Properties\<close>

lemma stored_order_payouts_read:
  defines "rows ids p xs \<equiv> stored_order_payouts ids (map (\<lambda>x. \<lparr>rnop_order_id = x, rnop_payout_id = p\<rparr>) xs)"
  shows "(case rows ids p xs of
      [] \<Rightarrow> Some []
    | first # _ \<Rightarrow>
        if list_all (\<lambda>x. rop_payout_id x = rop_payout_id first) (rows ids p xs)
        then Some (map rop_order_id (rows ids p xs)) else None) = Some xs"
proof -
  have ids: "map rop_order_id (rows ids p xs) = xs"
    by (auto simp: rows_def stored_order_payouts_def enumerate_eq_zip intro!: nth_equalityI)
  have p: "\<forall>r\<in>set (rows ids p xs). rop_payout_id r = p"
    by (auto simp: rows_def stored_order_payouts_def set_zip enumerate_eq_zip)
  show ?thesis
  proof (cases "rows ids p xs")
    case Nil
    with ids show ?thesis by simp
  next
    case (Cons q qs)
    with p have "list_all (\<lambda>x. rop_payout_id x = rop_payout_id q) (rows ids p xs)"
      by (simp add: list_all_iff)
    with Cons ids show ?thesis by simp
  qed
qed

text \<open>The rows that a payout is written to, with whatever serial numbers, are read back as the same
  payout.\<close>

theorem payout_records_roundtrip:
  "try_into_domain \<lparr>rpr_payout = fst (raw_new_payout_records p),
     rpr_order_payouts = stored_order_payouts ids (snd (raw_new_payout_records p))\<rparr> = Some p"
proof -
  obtain t where t: "po_target p = CryptoWallet t" by (cases "po_target p")
  have c: "classify (currency_of_ture x) = Crypto x" for x by (simp add: classify_Crypto)
  show ?thesis
    using t
    by (cases p; cases t; cases "po_status p")
       (simp_all add: try_into_domain_def raw_new_payout_records_def c stored_order_payouts_read)
qed

end
