(* ===== verification/LegacyModels.thy ===== *)
theory LegacyModels
  imports Prelude Currencies Amounts Models
begin

text \<open>
  The data of the first version of the billing: \<open>models/invoice.rs\<close> (invoices, and what the external
  billing service sends), \<open>models/order_info.rs\<close> and \<open>models/merchant.rs\<close>. Prices are floating point
  numbers; the external service sends them as text.
\<close>

section \<open>Numbers as text\<close>

fun take_digits :: "string \<Rightarrow> string \<times> string" where
  "take_digits [] = ([], [])"
| "take_digits (c # cs) =
     (if char_digit c = None then ([], c # cs)
      else (let (digits, rest) = take_digits cs in (c # digits, rest)))"

definition take_sign :: "string \<Rightarrow> bool \<times> string" where
  "take_sign s =
     (case s of
        c # cs \<Rightarrow> if c = CHR ''-'' then (True, cs) else if c = CHR ''+'' then (False, cs) else (False, s)
      | [] \<Rightarrow> (False, []))"

text \<open>The exponent after \<open>e\<close> or \<open>E\<close>; no exponent is zero.\<close>

definition take_exponent :: "string \<Rightarrow> int option" where
  "take_exponent s =
     (case s of
        [] \<Rightarrow> Some 0
      | c # cs \<Rightarrow>
          if c \<noteq> CHR ''e'' \<and> c \<noteq> CHR ''E'' then None
          else (let (negative, digits) = take_sign cs in
            if digits = [] then None
            else map_option (\<lambda>n. if negative then - int n else int n) (digits_value 0 digits)))"

text \<open>\<open>f64::from_str\<close>: a sign, digits with an optional point and at least one digit, an exponent.\<close>

definition unsigned_f64_from_str :: "string \<Rightarrow> f64 option" where
  "unsigned_f64_from_str s =
     (if s = ''inf'' then Some (Infinite False)
      else if s = ''NaN'' then Some NotANumber
      else
        let (whole, rest) = take_digits s;
            (fraction, tail) = (case rest of c # cs \<Rightarrow> if c = CHR ''.'' then take_digits cs else ([], rest)
                                | [] \<Rightarrow> ([], []))
        in if whole @ fraction = [] then None
           else Option.bind (digits_value 0 (whole @ fraction)) (\<lambda>n.
             map_option (\<lambda>x. let e = x - int (length fraction)
                 in f64_of_ratio (int n * 10 ^ nat e) (10 ^ nat (- e)))
               (take_exponent tail)))"

fun f64_neg :: "f64 \<Rightarrow> f64" where
  "f64_neg (Finite m e) = Finite (- m) e"
| "f64_neg (Infinite b) = Infinite (\<not> b)"
| "f64_neg NotANumber = NotANumber"

definition f64_from_str :: "string \<Rightarrow> f64 option" where
  "f64_from_str s =
     (let (negative, rest) = take_sign s
      in map_option (\<lambda>x. if negative then f64_neg x else x) (unsigned_f64_from_str rest))"

text \<open>\<open>unwrap_or_default\<close>.\<close>

definition price_from_str :: "string \<Rightarrow> f64" where
  "price_from_str s = (case f64_from_str s of None \<Rightarrow> Finite 0 0 | Some x \<Rightarrow> x)"

section \<open>Invoices\<close>

text \<open>\<open>None\<close> is \<open>null\<close>, the JSON of a number that is not finite.\<close>

record legacy_transaction =
  ltx_id :: string
  ltx_amount_captured :: "f64 option"

record invoice_v1 =
  iv1_id :: uuid
  iv1_invoice_id :: uuid
  iv1_amount :: f64
  iv1_price_reserved :: timestamp
  iv1_state :: order_state
  iv1_wallet :: "string option"
  iv1_created_at :: timestamp
  iv1_updated_at :: timestamp
  iv1_transactions :: "legacy_transaction list"
  iv1_amount_captured :: f64
  iv1_currency :: stq_currency

record update_invoice_v1 =
  ui1_transactions :: "legacy_transaction list"
  ui1_amount :: f64
  ui1_currency :: stq_currency
  ui1_price_reserved :: timestamp
  ui1_state :: order_state
  ui1_wallet :: "string option"
  ui1_amount_captured :: f64

datatype external_billing_status = EbNew | EbWallet | EbWaiting | EbTimeout | EbDone

fun order_state_of_external :: "external_billing_status \<Rightarrow> order_state" where
  "order_state_of_external EbNew = OsNew"
| "order_state_of_external EbWallet = OsPaymentAwaited"
| "order_state_of_external EbWaiting = OsTransactionPending"
| "order_state_of_external EbTimeout = OsAmountExpired"
| "order_state_of_external EbDone = OsPaid"

record external_billing_transaction =
  ebt_txid :: string
  ebt_amount_captured :: string

record external_billing_invoice =
  ebi_id :: uuid
  ebi_amount_captured :: string
  ebi_transactions :: "external_billing_transaction list option"
  ebi_wallet :: "string option"
  ebi_amount :: string
  ebi_currency :: stq_currency
  ebi_status :: external_billing_status
  ebi_expired :: timestamp

definition legacy_transaction_of :: "external_billing_transaction \<Rightarrow> legacy_transaction" where
  "legacy_transaction_of t =
     \<lparr>ltx_id = ebt_txid t,
      ltx_amount_captured =
        (case price_from_str (ebt_amount_captured t) of Finite m e \<Rightarrow> Some (Finite m e) | _ \<Rightarrow> None)\<rparr>"

definition transactions_of :: "external_billing_invoice \<Rightarrow> legacy_transaction list" where
  "transactions_of x =
     map legacy_transaction_of (case ebi_transactions x of None \<Rightarrow> [] | Some ts \<Rightarrow> ts)"

definition update_of_external :: "external_billing_invoice \<Rightarrow> update_invoice_v1" where
  "update_of_external x =
     \<lparr>ui1_transactions = transactions_of x, ui1_amount = price_from_str (ebi_amount x),
      ui1_currency = ebi_currency x, ui1_price_reserved = ebi_expired x,
      ui1_state = order_state_of_external (ebi_status x), ui1_wallet = ebi_wallet x,
      ui1_amount_captured = price_from_str (ebi_amount_captured x)\<rparr>"

definition new_invoice_v1 :: "timestamp \<Rightarrow> timestamp \<Rightarrow> uuid \<Rightarrow> external_billing_invoice \<Rightarrow> invoice_v1" where
  "new_invoice_v1 created updated u x =
     \<lparr>iv1_id = u, iv1_invoice_id = ebi_id x, iv1_amount = price_from_str (ebi_amount x),
      iv1_price_reserved = ebi_expired x, iv1_state = order_state_of_external (ebi_status x),
      iv1_wallet = ebi_wallet x, iv1_created_at = created, iv1_updated_at = updated,
      iv1_transactions = transactions_of x,
      iv1_amount_captured = price_from_str (ebi_amount_captured x), iv1_currency = ebi_currency x\<rparr>"

section \<open>Orders\<close>

record order_info =
  oi_id :: uuid
  oi_order_id :: uuid
  oi_status :: order_state
  oi_created_at :: timestamp
  oi_updated_at :: timestamp
  oi_customer_id :: stq_user_id
  oi_store_id :: int
  oi_saga_id :: uuid
  oi_total_amount :: f64

record new_order_info =
  noi_order_id :: uuid
  noi_customer_id :: stq_user_id
  noi_store_id :: int
  noi_saga_id :: uuid
  noi_total_amount :: f64

section \<open>Merchants\<close>

datatype merchant_type = MerchantUser | MerchantStore

record merchant =
  mer_merchant_id :: uuid
  mer_user_id :: "stq_user_id option"
  mer_store_id :: "int option"
  mer_created_at :: timestamp
  mer_updated_at :: timestamp
  mer_merchant_type :: merchant_type

datatype merchant_balance_status = MerchantActive | MerchantBlocked

record merchant_balance =
  mb_amount :: f64
  mb_currency :: string
  mb_status :: merchant_balance_status

end
