(* ===== verification/Clients.thy ===== *)
theory Clients
  imports Prelude Currencies Amounts Models LegacyModels
begin

text \<open>
  The messages of the external services (\<open>client/*/types.rs\<close>): the payments gateway, Stripe, the saga
  and the stores service. The services themselves are not part of the crate: \<open>env\<close> holds the
  response of each to a request, which may depend on the calls made before.
\<close>

section \<open>Payments gateway\<close>

record create_account =
  ca_id :: uuid
  ca_currency :: ture_currency
  ca_name :: string
  ca_callback_url :: string

record payments_account =
  pa_id :: uuid
  pa_balance :: amount
  pa_currency :: ture_currency
  pa_name :: string
  pa_account_address :: wallet_address

record account_response =
  arsp_id :: uuid
  arsp_balance :: string
  arsp_currency :: string
  arsp_account_address :: string
  arsp_name :: string

definition try_into_account :: "account_response \<Rightarrow> client_error + payments_account" where
  "try_into_account r =
     (case amount_from_str (arsp_balance r) of
        None \<Rightarrow> Inl CInternal
      | Some balance \<Rightarrow>
          (case ture_currency_from_str (arsp_currency r) of
             None \<Rightarrow> Inl CInternal
           | Some c \<Rightarrow>
               Inr \<lparr>pa_id = arsp_id r, pa_balance = balance, pa_currency = c, pa_name = arsp_name r,
                    pa_account_address = WalletAddress (arsp_account_address r)\<rparr>))"

record get_rate_request =
  gr_id :: uuid
  gr_from :: ture_currency
  gr_to :: ture_currency
  gr_amount_currency :: ture_currency
  gr_amount :: amount

record get_rate_response =
  grr_id :: uuid
  grr_from :: ture_currency
  grr_to :: ture_currency
  grr_amount :: amount
  grr_rate :: f64
  grr_expiration :: timestamp
  grr_created_at :: timestamp
  grr_updated_at :: timestamp

record 'd pc_rate =
  rt_id :: uuid
  rt_from :: ture_currency
  rt_to :: ture_currency
  rt_amount :: amount
  rt_rate :: 'd
  rt_expiration :: timestamp
  rt_created_at :: timestamp
  rt_updated_at :: timestamp

definition rate_of_response :: "'d bigdecimal \<Rightarrow> get_rate_response \<Rightarrow> 'd pc_rate option" where
  "rate_of_response D r =
     map_option (\<lambda>rate.
       \<lparr>rt_id = grr_id r, rt_from = grr_from r, rt_to = grr_to r, rt_amount = grr_amount r,
        rt_rate = rate, rt_expiration = grr_expiration r, rt_created_at = grr_created_at r,
        rt_updated_at = grr_updated_at r\<rparr>) (bd_from_f64 D (grr_rate r))"

record 'd rate_refresh =
  rr_rate :: "'d pc_rate"
  rr_is_new_rate :: bool

record get_fees_request =
  gf_currency :: ture_currency
  gf_account_address :: string

record 'd payments_fee =
  pf_value :: 'd
  pf_estimated_time :: "64 word"

record create_external_transaction =
  cet_id :: uuid
  cet_from :: uuid
  cet_to :: wallet_address
  cet_amount :: amount
  cet_currency :: ture_currency
  cet_fee :: amount

record create_internal_transaction =
  cit_id :: uuid
  cit_from :: uuid
  cit_to :: uuid
  cit_amount :: amount

record create_transaction_request_body =
  ctr_id :: uuid
  ctr_user_id :: i32
  ctr_from :: uuid
  ctr_to :: string
  ctr_to_type :: string
  ctr_to_currency :: ture_currency
  ctr_value :: string
  ctr_value_currency :: ture_currency
  ctr_fee :: string

text \<open>The textual form of a UUID is a function of the \<open>uuid\<close> crate, the parameter \<open>hyphenated\<close>.\<close>

definition new_internal ::
  "(uuid \<Rightarrow> string) \<Rightarrow> create_internal_transaction \<Rightarrow> ture_currency \<Rightarrow> i32 \<Rightarrow> create_transaction_request_body" where
  "new_internal hyphenated tx c uid =
     \<lparr>ctr_id = cit_id tx, ctr_user_id = uid, ctr_from = cit_from tx, ctr_to = hyphenated (cit_to tx),
      ctr_to_type = ''account'', ctr_to_currency = c, ctr_value = amount_display (cit_amount tx),
      ctr_value_currency = c, ctr_fee = amount_display (Amount 0)\<rparr>"

definition new_external ::
  "create_external_transaction \<Rightarrow> i32 \<Rightarrow> create_transaction_request_body" where
  "new_external tx uid =
     \<lparr>ctr_id = cet_id tx, ctr_user_id = uid, ctr_from = cet_from tx,
      ctr_to = wallet_inner (cet_to tx), ctr_to_type = ''address'',
      ctr_to_currency = cet_currency tx, ctr_value = amount_display (cet_amount tx),
      ctr_value_currency = cet_currency tx, ctr_fee = amount_display (cet_fee tx)\<rparr>"

record transaction_address_info =
  tai_account_id :: "uuid option"
  tai_owner_name :: "string option"
  tai_blockchain_address :: string

record transactions_response =
  tr_id :: uuid
  tr_from :: "transaction_address_info list"
  tr_to :: transaction_address_info
  tr_from_value :: string
  tr_from_currency :: ture_currency
  tr_to_value :: string
  tr_to_currency :: ture_currency
  tr_fee :: string
  tr_status :: string

section \<open>Saga and stores\<close>

record order_state_update =
  osu_order_id :: order_id
  osu_store_id :: store_id
  osu_customer_id :: user_id
  osu_status :: order_state

text \<open>Hash maps are association lists; a request lists \<open>stq_static_resources\<close> currencies.\<close>

record currency_exchange_info_request =
  ceir_id :: uuid
  ceir_data :: "(stq_currency \<times> (stq_currency \<times> f64) list) list"

record currency_exchange_info =
  cei_id :: uuid
  cei_data :: "(currency \<times> (currency \<times> f64) list) list"

definition try_exchange_rates_from_request ::
  "(stq_currency \<times> f64) list \<Rightarrow> unit + (currency \<times> f64) list" where
  "try_exchange_rates_from_request other =
     result_map (\<lambda>(c, r). map_sum id (\<lambda>c'. (c', r)) (try_from_stq_currency c)) other"

definition try_from_request :: "currency_exchange_info_request \<Rightarrow> unit + currency_exchange_info" where
  "try_from_request other =
     (case result_map (\<lambda>(c, rates).
         (case try_from_stq_currency c of
            Inl e \<Rightarrow> Inl e
          | Inr c' \<Rightarrow> map_sum id (\<lambda>rs. (c', rs)) (try_exchange_rates_from_request rates)))
         (ceir_data other) of
        Inl e \<Rightarrow> Inl e
      | Inr data \<Rightarrow> Inr \<lparr>cei_id = ceir_id other, cei_data = data\<rparr>)"

section \<open>Stripe\<close>

record stripe_new_payment_intent =
  snpi_amount :: "64 word"
  snpi_currency :: string
  snpi_capture_method :: "capture_method option"

record new_charge =
  nc_customer_id :: customer_id
  nc_amount :: amount
  nc_currency :: currency
  nc_capture :: bool

text \<open>\<open>Currency::convert\<close> of \<open>client/stripe/types.rs\<close>: only fiat currencies can be charged.\<close>

fun stripe_convert :: "currency \<Rightarrow> client_error + string" where
  "stripe_convert Eur = Inr ''eur''"
| "stripe_convert Usd = Inr ''usd''"
| "stripe_convert Rub = Inr ''rub''"
| "stripe_convert _ = Inl CMalformedInput"

text \<open>A customer of Stripe with the sources of payment; the fields of a card are not interpreted.\<close>

datatype payment_source = CardSource string | BankAccountSource | OtherSource

record stripe_customer =
  scu_id :: string
  scu_email :: "string option"
  scu_sources :: "payment_source list"

record new_customer_with_source =
  ncs_email :: "string option"
  ncs_token :: string

record stripe_update_customer =
  suc_email :: "string option"
  suc_token :: "string option"

section \<open>The services\<close>

datatype ext_call =
    PaymentsGetAccount uuid
  | PaymentsCreateAccount create_account
  | PaymentsDeleteAccount uuid
  | PaymentsGetRate get_rate_request
  | PaymentsRefreshRate exchange_id
  | PaymentsGetFees get_fees_request
  | PaymentsGetTransaction uuid
  | PaymentsCreateExternalTransaction create_external_transaction
  | PaymentsCreateInternalTransaction create_internal_transaction
  | SagaUpdateOrderStates "order_state_update list"
  | StoresGetCurrencyExchange
  | StripeCreatePaymentIntent stripe_new_payment_intent
  | StripeGetPaymentIntent payment_intent_id
  | StripeCancelPaymentIntent payment_intent_id
  | StripeGetCharge charge_id
  | StripeRetrieveBalanceTransaction string
  | StripeRefund charge_id amount order_id
  | StripeCreateCharge new_charge "(string \<times> string) list option"
  | StripeCreateCustomer new_customer_with_source
  | StripeGetCustomer customer_id
  | StripeDeleteCustomer customer_id
  | StripeUpdateCustomer customer_id stripe_update_customer
  | ExternalBillingLogin
  | ExternalBillingRecalc string uuid
  | SagaUpdateOrderInfos "order_info list"

type_synonym ('q, 'r) service = "ext_call list \<Rightarrow> 'q \<Rightarrow> client_error + 'r"

record 'd env =
  payments_get_account :: "(uuid, payments_account) service"
  payments_create_account :: "(create_account, payments_account) service"
  payments_delete_account :: "(uuid, unit) service"
  payments_get_rate :: "(get_rate_request, 'd pc_rate) service"
  payments_refresh_rate :: "(exchange_id, 'd rate_refresh) service"
  payments_get_fees :: "(get_fees_request, 'd payments_fee list) service"
  payments_get_transaction :: "(uuid, transactions_response option) service"
  payments_create_external_transaction :: "(create_external_transaction, unit) service"
  payments_create_internal_transaction :: "(create_internal_transaction, unit) service"
  saga_update_order_states :: "(order_state_update list, unit) service"
  stores_get_currency_exchange :: "(unit, currency_exchange_info_request) service"
  stripe_create_payment_intent :: "(stripe_new_payment_intent, stripe_payment_intent) service"
  stripe_get_payment_intent :: "(payment_intent_id, stripe_payment_intent) service"
  stripe_cancel_payment_intent :: "(payment_intent_id, stripe_payment_intent) service"
  stripe_get_charge :: "(charge_id, stripe_charge) service"
  stripe_retrieve_balance_transaction :: "(string, stripe_balance_transaction) service"
  stripe_refund :: "(charge_id \<times> amount \<times> order_id, unit) service"
  stripe_create_charge :: "(new_charge \<times> (string \<times> string) list option, stripe_charge) service"
  stripe_currency_from_str :: "string \<Rightarrow> string option"
  stripe_create_customer_with_source :: "(new_customer_with_source, stripe_customer) service"
  stripe_get_customer :: "(customer_id, stripe_customer) service"
  stripe_delete_customer :: "(customer_id, bool) service"
  stripe_update_customer :: "(customer_id \<times> stripe_update_customer, stripe_customer) service"
  card_token_from_str :: "string \<Rightarrow> string option"

section \<open>External billing\<close>

text \<open>The HTTP services of version 1: the login of the external billing returns a token, with which an
  invoice can be recalculated; the saga takes the orders of version 1.\<close>

record legacy_env =
  external_billing_login :: "(unit, string) service"
  external_billing_recalc :: "(string \<times> uuid, external_billing_invoice) service"
  saga_update_order_infos :: "(order_info list, unit) service"

end
