(* ===== verification/SubscriptionModels.thy ===== *)
theory SubscriptionModels
  imports Prelude Currencies Amounts Models
begin

text \<open>
  \<open>models/subscription.rs\<close>: the subscriptions of stores (one row per day with the number of published
  products), the terms on which a store pays for them, and the payments. Identifiers of stores are
  those of \<open>stq_types\<close>, plain integers.
\<close>

section \<open>Status columns\<close>

datatype store_subscription_status = SsTrial | SsPaid | SsFree

fun store_subscription_status_to_sql :: "store_subscription_status \<Rightarrow> string" where
  "store_subscription_status_to_sql SsTrial = ''trial''"
| "store_subscription_status_to_sql SsPaid = ''paid''"
| "store_subscription_status_to_sql SsFree = ''free''"

definition store_subscription_status_from_sql :: "string option \<Rightarrow> sql_error + store_subscription_status" where
  "store_subscription_status_from_sql data =
     (case data of
        None \<Rightarrow> Inl UnexpectedNull
      | Some v \<Rightarrow>
          if v = ''trial'' then Inr SsTrial
          else if v = ''paid'' then Inr SsPaid
          else if v = ''free'' then Inr SsFree
          else Inl (UnrecognizedVariant v))"

datatype subscription_payment_status = SpPaid | SpFailed

fun subscription_payment_status_to_sql :: "subscription_payment_status \<Rightarrow> string" where
  "subscription_payment_status_to_sql SpPaid = ''paid''"
| "subscription_payment_status_to_sql SpFailed = ''failed''"

definition subscription_payment_status_from_sql :: "string option \<Rightarrow> sql_error + subscription_payment_status" where
  "subscription_payment_status_from_sql data =
     (case data of
        None \<Rightarrow> Inl UnexpectedNull
      | Some v \<Rightarrow>
          if v = ''paid'' then Inr SpPaid
          else if v = ''failed'' then Inr SpFailed
          else Inl (UnrecognizedVariant v))"

section \<open>Rows\<close>

record subscription =
  sub_id :: int
  sub_store_id :: int
  sub_quantity :: i32
  sub_payment_id :: "int option"
  sub_created_at :: timestamp

record new_subscription =
  nsub_store_id :: int
  nsub_quantity :: i32

record update_subscription =
  usub_payment_id :: int

record store_subscription =
  ss_store_id :: int
  ss_currency :: currency
  ss_value :: amount
  ss_wallet_address :: "wallet_address option"
  ss_trial_start_date :: "timestamp option"
  ss_created_at :: timestamp
  ss_updated_at :: timestamp
  ss_status :: store_subscription_status

record new_store_subscription =
  nss_store_id :: int
  nss_currency :: currency
  nss_value :: amount
  nss_wallet_address :: "wallet_address option"
  nss_trial_start_date :: "timestamp option"

record update_store_subscription =
  uss_currency :: "currency option"
  uss_value :: "amount option"
  uss_wallet_address :: "wallet_address option"
  uss_trial_start_date :: "timestamp option"
  uss_status :: "store_subscription_status option"

definition default_update_store_subscription :: update_store_subscription where
  "default_update_store_subscription =
     \<lparr>uss_currency = None, uss_value = None, uss_wallet_address = None, uss_trial_start_date = None,
      uss_status = None\<rparr>"

text \<open>A changeset writes the fields that are present; without any of them there is no statement.\<close>

definition update_store_subscription_changes ::
  "update_store_subscription \<Rightarrow> store_subscription \<Rightarrow> store_subscription" where
  "update_store_subscription_changes u s =
     s\<lparr>ss_currency := set_or (uss_currency u) (ss_currency s),
       ss_value := set_or (uss_value u) (ss_value s),
       ss_wallet_address := set_or_opt (uss_wallet_address u) (ss_wallet_address s),
       ss_trial_start_date := set_or_opt (uss_trial_start_date u) (ss_trial_start_date s),
       ss_status := set_or (uss_status u) (ss_status s)\<rparr>"

record subscription_payment =
  spay_id :: int
  spay_store_id :: int
  spay_amount :: amount
  spay_currency :: currency
  spay_charge_id :: "charge_id option"
  spay_transaction_id :: "transaction_id option"
  spay_status :: subscription_payment_status
  spay_created_at :: timestamp

record new_subscription_payment =
  nspay_store_id :: int
  nspay_amount :: amount
  nspay_currency :: currency
  nspay_charge_id :: "charge_id option"
  nspay_transaction_id :: "transaction_id option"
  nspay_status :: subscription_payment_status

section \<open>Searches\<close>

record subscription_search =
  subs_id :: "int option"
  subs_store_id :: "int option"
  subs_paid :: "bool option"
  subs_payment_id :: "int option"

definition default_subscription_search :: subscription_search where
  "default_subscription_search = \<lparr>subs_id = None, subs_store_id = None, subs_paid = None, subs_payment_id = None\<rparr>"

definition subscription_by_id :: "int \<Rightarrow> subscription_search" where
  "subscription_by_id i = default_subscription_search\<lparr>subs_id := Some i\<rparr>"

definition by_subscription_payment_id :: "int \<Rightarrow> subscription_search" where
  "by_subscription_payment_id i = default_subscription_search\<lparr>subs_payment_id := Some i\<rparr>"

record store_subscription_search =
  sss_store_id :: "int option"

definition store_subscription_by_store_id :: "int \<Rightarrow> store_subscription_search" where
  "store_subscription_by_store_id sid = \<lparr>sss_store_id = Some sid\<rparr>"

record subscription_payment_search =
  sps_id :: "int option"
  sps_store_id :: "int option"
  sps_status :: "subscription_payment_status option"

record subscription_payment_search_results =
  spsr_total_count :: int
  spsr_subscription_payments :: "subscription_payment list"

text \<open>The two status columns are read as they were written.\<close>

interpretation store_subscription_status:
  sql_enum store_subscription_status_to_sql store_subscription_status_from_sql
proof unfold_locales
  show "store_subscription_status_from_sql (Some (store_subscription_status_to_sql x)) = Inr x" for x
    by (cases x) (simp_all add: store_subscription_status_from_sql_def)
qed (auto simp: store_subscription_status_from_sql_def split: if_splits)

interpretation subscription_payment_status:
  sql_enum subscription_payment_status_to_sql subscription_payment_status_from_sql
proof unfold_locales
  show "subscription_payment_status_from_sql (Some (subscription_payment_status_to_sql x)) = Inr x" for x
    by (cases x) (simp_all add: subscription_payment_status_from_sql_def)
qed (auto simp: subscription_payment_status_from_sql_def split: if_splits)

end
