(* ===== verification/BillingModels.thy ===== *)
theory BillingModels
  imports Prelude Currencies Models
begin

text \<open>
  \<open>models/store_billing_type.rs\<close>, \<open>models/international_billing_info.rs\<close>,
  \<open>models/russia_billing_info.rs\<close>, \<open>models/proxy_companies_billing_info.rs\<close> and
  \<open>models/user_wallet.rs\<close>: the bank details of stores and proxy companies, and the wallets of users.
\<close>

section \<open>The billing type of a store\<close>

text \<open>The two variants of \<open>stq_types::BillingType\<close>.\<close>

datatype billing_type = BtInternational | BtRussia

record store_billing_type =
  sbt_id :: int
  sbt_store_id :: int
  sbt_billing_type :: billing_type

record new_store_billing_type =
  nsbt_store_id :: int
  nsbt_billing_type :: billing_type

record update_store_billing_type =
  usbt_store_id :: "int option"
  usbt_billing_type :: "billing_type option"

definition update_store_billing_type_changes ::
  "update_store_billing_type \<Rightarrow> store_billing_type \<Rightarrow> store_billing_type" where
  "update_store_billing_type_changes u s =
     s\<lparr>sbt_store_id := set_or (usbt_store_id u) (sbt_store_id s),
       sbt_billing_type := set_or (usbt_billing_type u) (sbt_billing_type s)\<rparr>"

record store_billing_type_search =
  sbts_id :: "int option"
  sbts_store_id :: "int option"
  sbts_store_ids :: "int list option"
  sbts_billing_type :: "billing_type option"

definition billing_type_by_store_id :: "int \<Rightarrow> store_billing_type_search" where
  "billing_type_by_store_id sid =
     \<lparr>sbts_id = None, sbts_store_id = Some sid, sbts_store_ids = None, sbts_billing_type = None\<rparr>"

definition billing_type_by_store_ids :: "int list \<Rightarrow> store_billing_type_search" where
  "billing_type_by_store_ids sids =
     \<lparr>sbts_id = None, sbts_store_id = None, sbts_store_ids = Some sids, sbts_billing_type = None\<rparr>"

definition country_to_billing_type :: "string \<Rightarrow> billing_type" where
  "country_to_billing_type alpha3 = (if alpha3 = ''RUS'' then BtRussia else BtInternational)"

section \<open>Bank details\<close>

record international_billing_info =
  ibi_id :: int
  ibi_store_id :: int
  ibi_account :: string
  ibi_currency :: stq_currency
  ibi_name :: string
  ibi_bank :: string
  ibi_swift :: string
  ibi_bank_address :: string
  ibi_country :: string
  ibi_city :: string
  ibi_recipient_address :: string

record new_international_billing_info =
  nibi_store_id :: int
  nibi_account :: string
  nibi_currency :: stq_currency
  nibi_name :: string
  nibi_bank :: string
  nibi_swift :: string
  nibi_bank_address :: string
  nibi_country :: string
  nibi_city :: string
  nibi_recipient_address :: string

record update_international_billing_info =
  uibi_account :: "string option"
  uibi_currency :: "stq_currency option"
  uibi_name :: "string option"
  uibi_bank :: "string option"
  uibi_swift :: "string option"
  uibi_bank_address :: "string option"
  uibi_country :: "string option"
  uibi_city :: "string option"
  uibi_recipient_address :: "string option"

definition uibi_is_empty :: "update_international_billing_info \<Rightarrow> bool" where
  "uibi_is_empty u \<longleftrightarrow> u = \<lparr>uibi_account = None, uibi_currency = None, uibi_name = None, uibi_bank = None,
     uibi_swift = None, uibi_bank_address = None, uibi_country = None, uibi_city = None,
     uibi_recipient_address = None\<rparr>"

definition update_international_billing_info_changes ::
  "update_international_billing_info \<Rightarrow> international_billing_info \<Rightarrow> international_billing_info" where
  "update_international_billing_info_changes u i =
     i\<lparr>ibi_account := set_or (uibi_account u) (ibi_account i),
       ibi_currency := set_or (uibi_currency u) (ibi_currency i),
       ibi_name := set_or (uibi_name u) (ibi_name i),
       ibi_bank := set_or (uibi_bank u) (ibi_bank i),
       ibi_swift := set_or (uibi_swift u) (ibi_swift i),
       ibi_bank_address := set_or (uibi_bank_address u) (ibi_bank_address i),
       ibi_country := set_or (uibi_country u) (ibi_country i),
       ibi_city := set_or (uibi_city u) (ibi_city i),
       ibi_recipient_address := set_or (uibi_recipient_address u) (ibi_recipient_address i)\<rparr>"

record international_billing_info_search =
  ibis_id :: "int option"
  ibis_store_id :: "int option"
  ibis_swift :: "string option"
  ibis_store_ids :: "int list option"

definition international_by_id :: "int \<Rightarrow> international_billing_info_search" where
  "international_by_id i = \<lparr>ibis_id = Some i, ibis_store_id = None, ibis_swift = None, ibis_store_ids = None\<rparr>"

definition international_by_store_id :: "int \<Rightarrow> international_billing_info_search" where
  "international_by_store_id i = \<lparr>ibis_id = None, ibis_store_id = Some i, ibis_swift = None, ibis_store_ids = None\<rparr>"

definition international_by_store_ids :: "int list \<Rightarrow> international_billing_info_search" where
  "international_by_store_ids is = \<lparr>ibis_id = None, ibis_store_id = None, ibis_swift = None, ibis_store_ids = Some is\<rparr>"

record russia_billing_info =
  rbi_id :: int
  rbi_store_id :: int
  rbi_bank_name :: string
  rbi_branch_name :: "string option"
  rbi_swift_bic :: string
  rbi_tax_id :: string
  rbi_correspondent_account :: string
  rbi_current_account :: string
  rbi_personal_account :: "string option"
  rbi_beneficiary_full_name :: string

record new_russia_billing_info =
  nrbi_store_id :: int
  nrbi_bank_name :: string
  nrbi_branch_name :: "string option"
  nrbi_swift_bic :: string
  nrbi_tax_id :: string
  nrbi_correspondent_account :: string
  nrbi_current_account :: string
  nrbi_personal_account :: "string option"
  nrbi_beneficiary_full_name :: string

record update_russia_billing_info =
  urbi_branch_name :: "string option"
  urbi_personal_account :: "string option"
  urbi_bank_name :: "string option"
  urbi_swift_bic :: "string option"
  urbi_tax_id :: "string option"
  urbi_correspondent_account :: "string option"
  urbi_current_account :: "string option"
  urbi_beneficiary_full_name :: "string option"

definition urbi_is_empty :: "update_russia_billing_info \<Rightarrow> bool" where
  "urbi_is_empty u \<longleftrightarrow> u = \<lparr>urbi_branch_name = None, urbi_personal_account = None, urbi_bank_name = None,
     urbi_swift_bic = None, urbi_tax_id = None, urbi_correspondent_account = None,
     urbi_current_account = None, urbi_beneficiary_full_name = None\<rparr>"

definition update_russia_billing_info_changes ::
  "update_russia_billing_info \<Rightarrow> russia_billing_info \<Rightarrow> russia_billing_info" where
  "update_russia_billing_info_changes u r =
     r\<lparr>rbi_branch_name := set_or_opt (urbi_branch_name u) (rbi_branch_name r),
       rbi_personal_account := set_or_opt (urbi_personal_account u) (rbi_personal_account r),
       rbi_bank_name := set_or (urbi_bank_name u) (rbi_bank_name r),
       rbi_swift_bic := set_or (urbi_swift_bic u) (rbi_swift_bic r),
       rbi_tax_id := set_or (urbi_tax_id u) (rbi_tax_id r),
       rbi_correspondent_account := set_or (urbi_correspondent_account u) (rbi_correspondent_account r),
       rbi_current_account := set_or (urbi_current_account u) (rbi_current_account r),
       rbi_beneficiary_full_name := set_or (urbi_beneficiary_full_name u) (rbi_beneficiary_full_name r)\<rparr>"

record russia_billing_info_search =
  rbis_id :: "int option"
  rbis_store_id :: "int option"
  rbis_store_ids :: "int list option"

definition russia_by_id :: "int \<Rightarrow> russia_billing_info_search" where
  "russia_by_id i = \<lparr>rbis_id = Some i, rbis_store_id = None, rbis_store_ids = None\<rparr>"

definition russia_by_store_id :: "int \<Rightarrow> russia_billing_info_search" where
  "russia_by_store_id i = \<lparr>rbis_id = None, rbis_store_id = Some i, rbis_store_ids = None\<rparr>"

definition russia_by_store_ids :: "int list \<Rightarrow> russia_billing_info_search" where
  "russia_by_store_ids is = \<lparr>rbis_id = None, rbis_store_id = None, rbis_store_ids = Some is\<rparr>"

record proxy_company_billing_info =
  pbi_id :: int
  pbi_country_alpha3 :: string
  pbi_account :: string
  pbi_currency :: stq_currency
  pbi_name :: string
  pbi_bank :: string
  pbi_swift :: string
  pbi_bank_address :: string
  pbi_country :: string
  pbi_city :: string
  pbi_recipient_address :: string

record new_proxy_company_billing_info =
  npbi_country_alpha3 :: string
  npbi_account :: string
  npbi_currency :: stq_currency
  npbi_name :: string
  npbi_bank :: string
  npbi_swift :: string
  npbi_bank_address :: string
  npbi_country :: string
  npbi_city :: string
  npbi_recipient_address :: string

record update_proxy_company_billing_info =
  upbi_country_alpha3 :: "string option"
  upbi_account :: "string option"
  upbi_currency :: "stq_currency option"
  upbi_name :: "string option"
  upbi_bank :: "string option"
  upbi_swift :: "string option"
  upbi_bank_address :: "string option"
  upbi_country :: "string option"
  upbi_city :: "string option"
  upbi_recipient_address :: "string option"

definition upbi_is_empty :: "update_proxy_company_billing_info \<Rightarrow> bool" where
  "upbi_is_empty u \<longleftrightarrow> u = \<lparr>upbi_country_alpha3 = None, upbi_account = None, upbi_currency = None,
     upbi_name = None, upbi_bank = None, upbi_swift = None, upbi_bank_address = None,
     upbi_country = None, upbi_city = None, upbi_recipient_address = None\<rparr>"

definition update_proxy_company_billing_info_changes ::
  "update_proxy_company_billing_info \<Rightarrow> proxy_company_billing_info \<Rightarrow> proxy_company_billing_info" where
  "update_proxy_company_billing_info_changes u p =
     p\<lparr>pbi_country_alpha3 := set_or (upbi_country_alpha3 u) (pbi_country_alpha3 p),
       pbi_account := set_or (upbi_account u) (pbi_account p),
       pbi_currency := set_or (upbi_currency u) (pbi_currency p),
       pbi_name := set_or (upbi_name u) (pbi_name p),
       pbi_bank := set_or (upbi_bank u) (pbi_bank p),
       pbi_swift := set_or (upbi_swift u) (pbi_swift p),
       pbi_bank_address := set_or (upbi_bank_address u) (pbi_bank_address p),
       pbi_country := set_or (upbi_country u) (pbi_country p),
       pbi_city := set_or (upbi_city u) (pbi_city p),
       pbi_recipient_address := set_or (upbi_recipient_address u) (pbi_recipient_address p)\<rparr>"

record proxy_company_billing_info_search =
  pbis_id :: "int option"
  pbis_country_alpha3 :: "string option"

definition by_country_alpha3 :: "string \<Rightarrow> proxy_company_billing_info_search" where
  "by_country_alpha3 c = \<lparr>pbis_id = None, pbis_country_alpha3 = Some c\<rparr>"

section \<open>Wallets\<close>

datatype user_wallet_id = UserWalletId (user_wallet_uuid: uuid)

record user_wallet =
  uw_id :: user_wallet_id
  uw_address :: wallet_address
  uw_currency :: ture_currency
  uw_user_id :: user_id
  uw_created_at :: timestamp
  uw_is_active :: bool

record new_active_user_wallet =
  nuw_id :: user_wallet_id
  nuw_address :: wallet_address
  nuw_currency :: ture_currency
  nuw_user_id :: user_id

record insert_user_wallet =
  iuw_id :: user_wallet_id
  iuw_address :: wallet_address
  iuw_currency :: ture_currency
  iuw_user_id :: user_id
  iuw_is_active :: bool

definition insert_user_wallet_of :: "new_active_user_wallet \<Rightarrow> insert_user_wallet" where
  "insert_user_wallet_of w =
     \<lparr>iuw_id = nuw_id w, iuw_address = nuw_address w, iuw_currency = nuw_currency w,
      iuw_user_id = nuw_user_id w, iuw_is_active = True\<rparr>"

end
