(* ===== verification/World.thy ===== *)
theory World
  imports Prelude Currencies Amounts Models LegacyModels SubscriptionModels BillingModels Clients
begin

text \<open>
  The environment of the services: the PostgreSQL database, the clock, the generator of UUIDs, the
  cache of user roles and the log of the calls to the external services. A statement reads or writes the tables, or fails;
  \<open>w_faults\<close> decides, statement by statement, which ones fail for reasons outside the program.
  Transactions follow \<open>diesel\<close>: an error rolls the tables back, inside a transaction a failed
  statement aborts it, and committing an aborted transaction rolls it back. Sequences of serial
  columns are not rolled back. A query without an order returns the rows in the order of the table.
\<close>

section \<open>State\<close>

record 'd db =
  invoices_v2 :: "raw_invoice list"
  amounts_received :: "raw_amount_received list"
  orders :: "raw_order list"
  order_exchange_rates :: "'d raw_order_exchange_rate list"
  accounts :: "account list"
  payment_intents :: "payment_intent list"
  payment_intents_invoices :: "payment_intent_invoice list"
  payment_intents_fees :: "payment_intent_fee list"
  fees :: "fee list"
  payouts :: "raw_payout list"
  order_payouts :: "raw_order_payout list"
  event_store :: "raw_event_entry list"
  roles :: "user_role list"
  customers :: "db_customer list"
  subscriptions :: "subscription list"
  store_subscriptions :: "store_subscription list"
  subscription_payments :: "subscription_payment list"
  store_billing_types :: "store_billing_type list"
  international_billing_infos :: "international_billing_info list"
  russia_billing_infos :: "russia_billing_info list"
  proxy_companies_billing_infos :: "proxy_company_billing_info list"
  user_wallets :: "user_wallet list"
  invoices_v1 :: "invoice_v1 list"
  orders_info :: "order_info list"

definition empty_db :: "'d db" where
  "empty_db = \<lparr>invoices_v2 = [], amounts_received = [], orders = [], order_exchange_rates = [],
     accounts = [], payment_intents = [], payment_intents_invoices = [], payment_intents_fees = [],
     fees = [], payouts = [], order_payouts = [], event_store = [], roles = [], customers = [],
     subscriptions = [], store_subscriptions = [], subscription_payments = [], store_billing_types = [],
     international_billing_infos = [], russia_billing_infos = [], proxy_companies_billing_infos = [],
     user_wallets = [], invoices_v1 = [], orders_info = []\<rparr>"

datatype serial =
    SeqOrderExchangeRates | SeqPaymentIntentsInvoices | SeqPaymentIntentsFees | SeqFees
  | SeqOrderPayouts | SeqEventStore
  | SeqSubscriptions | SeqSubscriptionPayments | SeqStoreBillingTypes | SeqInternationalBillingInfos
  | SeqRussiaBillingInfos | SeqProxyCompaniesBillingInfos

record 'd world =
  w_db :: "'d db"
  w_faults :: "nat \<Rightarrow> bool"
  w_depth :: nat
  w_aborted :: bool
  w_clock :: "nat \<Rightarrow> timestamp"
  w_uuids :: "nat \<Rightarrow> uuid"
  w_seqs :: "serial \<Rightarrow> int"
  w_calls :: "ext_call list"
  w_roles_cache :: "stq_user_id \<Rightarrow> billing_role list option"
  w_cache_up :: bool

text \<open>A world in which no statement fails for outside reasons.\<close>

definition quiet :: "'d world \<Rightarrow> bool" where
  "quiet w \<longleftrightarrow> w_faults w = (\<lambda>_. False) \<and> \<not> w_aborted w"

definition initial_world :: "'d db \<Rightarrow> 'd world" where
  "initial_world d = \<lparr>w_db = d, w_faults = (\<lambda>_. False), w_depth = 0, w_aborted = False,
     w_clock = (\<lambda>_. 0), w_uuids = of_nat, w_seqs = (\<lambda>_. 1), w_calls = [], w_roles_cache = (\<lambda>_. None),
     w_cache_up = True\<rparr>"

section \<open>Statements and transactions\<close>

definition next_fault :: "'d world \<Rightarrow> 'd world" where
  "next_fault w = w\<lparr>w_faults := (\<lambda>n. w_faults w (Suc n))\<rparr>"

definition stmt_failed :: "'d world \<Rightarrow> 'd world" where
  "stmt_failed w = w\<lparr>w_aborted := (0 < w_depth w)\<rparr>"

definition execute ::
  "(timestamp \<Rightarrow> 'd db \<Rightarrow> diesel_error + ('a \<times> 'd db)) \<Rightarrow> ('d world, diesel_error, 'a) comp" where
  "execute f = (\<lambda>w.
     let w1 = next_fault w in
     if w_faults w 0 \<or> w_aborted w then (Inl OtherDieselError, stmt_failed w1)
     else (case f (w_clock w 0) (w_db w) of
             Inl e \<Rightarrow> (Inl e, stmt_failed w1)
           | Inr (a, d) \<Rightarrow> (Inr a, w1\<lparr>w_db := d\<rparr>)))"

definition execute_serial ::
  "serial \<Rightarrow> (int \<Rightarrow> timestamp \<Rightarrow> 'd db \<Rightarrow> diesel_error + ('a \<times> 'd db)) \<Rightarrow> ('d world, diesel_error, 'a) comp"
  where
  "execute_serial t f = (\<lambda>w.
     let w1 = next_fault w in
     if w_faults w 0 \<or> w_aborted w then (Inl OtherDieselError, stmt_failed w1)
     else (let n = w_seqs w t; w2 = w1\<lparr>w_seqs := (w_seqs w)(t := n + 1)\<rparr> in
           case f n (w_clock w 0) (w_db w) of
             Inl e \<Rightarrow> (Inl e, stmt_failed w2)
           | Inr (a, d) \<Rightarrow> (Inr a, w2\<lparr>w_db := d\<rparr>)))"

definition select :: "('d db \<Rightarrow> 'a list) \<Rightarrow> ('d world, diesel_error, 'a list) comp" where
  "select q = execute (\<lambda>_ d. Inr (q d, d))"

definition get_result :: "('d world, diesel_error, 'a list) comp \<Rightarrow> ('d world, diesel_error, 'a) comp" where
  "get_result m = and_then m (\<lambda>rows. case rows of [] \<Rightarrow> err DieselNotFound | r # _ \<Rightarrow> ok r)"

definition optional :: "('d world, diesel_error, 'a) comp \<Rightarrow> ('d world, diesel_error, 'a option) comp" where
  "optional m = or_else (map_ok Some m) (\<lambda>e. if e = DieselNotFound then ok None else err e)"

text \<open>Statements that change the rows of a table; they return the new rows, a deletion the old ones.\<close>

definition update_rows :: "('a \<Rightarrow> bool) \<Rightarrow> ('a \<Rightarrow> 'a) \<Rightarrow> 'a list \<Rightarrow> 'a list \<times> 'a list" where
  "update_rows p g rows = (map g (filter p rows), map (\<lambda>r. if p r then g r else r) rows)"

definition delete_rows :: "('a \<Rightarrow> bool) \<Rightarrow> 'a list \<Rightarrow> 'a list \<times> 'a list" where
  "delete_rows p rows = (filter p rows, filter (\<lambda>r. \<not> p r) rows)"

text \<open>\<open>Connection::transaction\<close>; \<open>conv\<close> is the conversion of \<open>diesel\<close> errors. The first and the
  last statement (begin, and commit or rollback, of the transaction or of a savepoint) can fail
  as well; the tables are rolled back then.\<close>

definition abandon :: "'d db \<Rightarrow> nat \<Rightarrow> 'd world \<Rightarrow> 'd world" where
  "abandon d depth w = w\<lparr>w_db := d, w_depth := depth, w_aborted := (0 < depth)\<rparr>"

definition transaction ::
  "(diesel_error \<Rightarrow> 'e) \<Rightarrow> ('d world, 'e, 'a) comp \<Rightarrow> ('d world, 'e, 'a) comp" where
  "transaction conv m = (\<lambda>w.
     let w1 = next_fault w; depth = w_depth w in
     if w_faults w 0 \<or> w_aborted w then (Inl (conv OtherDieselError), stmt_failed w1)
     else (case m (w1\<lparr>w_depth := Suc depth\<rparr>) of
             (Inr a, t) \<Rightarrow>
               if w_faults t 0 \<or> (w_aborted t \<and> 0 < depth)
               then (Inl (conv OtherDieselError), abandon (w_db w) depth (next_fault t))
               else if w_aborted t
               then (Inr a, (next_fault t)\<lparr>w_db := w_db w, w_depth := depth, w_aborted := False\<rparr>)
               else (Inr a, (next_fault t)\<lparr>w_depth := depth\<rparr>)
           | (Inl e, t) \<Rightarrow>
               if w_faults t 0
               then (Inl (conv OtherDieselError), abandon (w_db w) depth (next_fault t))
               else (Inl e, (next_fault t)\<lparr>w_db := w_db w, w_depth := depth, w_aborted := False\<rparr>)))"

section \<open>Connections, clock, identifiers, external calls\<close>

text \<open>\<open>spawn_on_pool\<close> fails with \<open>e\<close> when the pool has no connection.\<close>

definition spawn_on_pool :: "'e \<Rightarrow> ('d world, 'e, 'a) comp \<Rightarrow> ('d world, 'e, 'a) comp" where
  "spawn_on_pool e m = (\<lambda>w. if w_faults w 0 then (Inl e, next_fault w) else m (next_fault w))"

definition utc_now :: "('d world, 'e, timestamp) comp" where
  "utc_now = (\<lambda>w. (Inr (w_clock w 0), w\<lparr>w_clock := (\<lambda>n. w_clock w (Suc n))\<rparr>))"

definition new_v4 :: "('d world, 'e, uuid) comp" where
  "new_v4 = (\<lambda>w. (Inr (w_uuids w 0), w\<lparr>w_uuids := (\<lambda>n. w_uuids w (Suc n))\<rparr>))"

definition call_client ::
  "('q, 'r) service \<Rightarrow> ext_call \<Rightarrow> 'q \<Rightarrow> ('d world, client_error, 'r) comp" where
  "call_client f c q = (\<lambda>w. (f (w_calls w) q, w\<lparr>w_calls := w_calls w @ [c]\<rparr>))"

definition new_event :: "event_payload \<Rightarrow> ('d world, 'e, event) comp" where
  "new_event payload = map_ok (\<lambda>u. \<lparr>ev_id = EventId u, ev_payload = payload\<rparr>) new_v4"

section \<open>Runs without faults\<close>

lemma quiet_simps [simp]:
  "quiet (w\<lparr>w_db := d\<rparr>) = quiet w"
  "quiet (w\<lparr>w_depth := n\<rparr>) = quiet w"
  "quiet (w\<lparr>w_clock := c\<rparr>) = quiet w"
  "quiet (w\<lparr>w_uuids := u\<rparr>) = quiet w"
  "quiet (w\<lparr>w_seqs := s\<rparr>) = quiet w"
  "quiet (w\<lparr>w_calls := cs\<rparr>) = quiet w"
  "quiet (w\<lparr>w_roles_cache := rc\<rparr>) = quiet w"
  "quiet (w\<lparr>w_cache_up := up\<rparr>) = quiet w"
  by (simp_all add: quiet_def)

lemma quiet_next [simp]: "quiet w \<Longrightarrow> next_fault w = w"
proof -
  assume "quiet w"
  then have "w_faults w = (\<lambda>_. False)" by (simp add: quiet_def)
  then show ?thesis by (cases w) (simp add: next_fault_def)
qed

lemma quiet_faults [simp]: "quiet w \<Longrightarrow> \<not> w_faults w n"
  by (simp add: quiet_def)

lemma quiet_not_aborted [simp]: "quiet w \<Longrightarrow> \<not> w_aborted w"
  by (simp add: quiet_def)

lemma quiet_initial_world [simp]: "quiet (initial_world d)"
  by (simp add: quiet_def initial_world_def)

lemma execute_quiet:
  "quiet w \<Longrightarrow> execute f w =
     (case f (w_clock w 0) (w_db w) of
        Inl e \<Rightarrow> (Inl e, stmt_failed w) | Inr (a, d) \<Rightarrow> (Inr a, w\<lparr>w_db := d\<rparr>))"
  by (simp add: execute_def Let_def split: sum.split prod.split)

lemma execute_serial_quiet:
  "quiet w \<Longrightarrow> execute_serial t f w =
     (let n = w_seqs w t; w2 = w\<lparr>w_seqs := (w_seqs w)(t := n + 1)\<rparr> in
      case f n (w_clock w 0) (w_db w) of
        Inl e \<Rightarrow> (Inl e, stmt_failed w2) | Inr (a, d) \<Rightarrow> (Inr a, w2\<lparr>w_db := d\<rparr>))"
  by (simp add: execute_serial_def Let_def split: sum.split prod.split)

lemma select_quiet [simp]: "quiet w \<Longrightarrow> select q w = (Inr (q (w_db w)), w)"
  by (simp add: select_def execute_quiet)

lemma transaction_quiet_Inr:
  "quiet w \<Longrightarrow> m (w\<lparr>w_depth := Suc (w_depth w)\<rparr>) = (Inr a, t) \<Longrightarrow> quiet t \<Longrightarrow>
   transaction conv m w = (Inr a, t\<lparr>w_depth := w_depth w\<rparr>)"
  by (simp add: transaction_def Let_def)

lemma transaction_quiet_Inl:
  "quiet w \<Longrightarrow> m (w\<lparr>w_depth := Suc (w_depth w)\<rparr>) = (Inl e, t) \<Longrightarrow> w_faults t = (\<lambda>_. False) \<Longrightarrow>
   transaction conv m w = (Inl e, t\<lparr>w_db := w_db w, w_depth := w_depth w, w_aborted := False\<rparr>)"
proof -
  assume *: "quiet w" "m (w\<lparr>w_depth := Suc (w_depth w)\<rparr>) = (Inl e, t)" "w_faults t = (\<lambda>_. False)"
  then have "next_fault t = t" by (cases t) (simp add: next_fault_def)
  with * show ?thesis by (simp add: transaction_def Let_def)
qed

lemma spawn_on_pool_quiet [simp]: "quiet w \<Longrightarrow> spawn_on_pool e m w = m w"
  by (simp add: spawn_on_pool_def)

text \<open>The result and the tables after a transaction, from a run of its body.\<close>

lemma transaction_run:
  assumes "quiet w" and "m (w\<lparr>w_depth := Suc (w_depth w)\<rparr>) = (r, t)"
    and "w_faults t = (\<lambda>_. False)" and "\<not> isl r \<Longrightarrow> \<not> w_aborted t"
  shows "fst (transaction conv m w) = r"
    and "w_db (snd (transaction conv m w)) = (if isl r then w_db w else w_db t)"
  using assms by (cases r; simp add: transaction_quiet_Inl transaction_quiet_Inr quiet_def)+

text \<open>The world of the witnesses.\<close>

definition empty_world :: "rat world" where
  "empty_world = initial_world empty_db"

lemma empty_world_simps [simp]:
  "quiet empty_world" "w_db empty_world = empty_db" "w_seqs empty_world n = 1"
  "w_clock empty_world k = 0" "w_calls empty_world = []" "w_depth empty_world = 0"
  "w_cache_up empty_world"
  by (simp_all add: empty_world_def) (simp_all add: initial_world_def)

section \<open>What an error or a crash of the database cannot do\<close>

text \<open>A transaction that returns an error leaves the tables as they were.\<close>

lemma transaction_error_db:
  "transaction conv m w = (Inl e, t) \<Longrightarrow> w_db t = w_db w"
  by (auto simp: transaction_def Let_def next_fault_def stmt_failed_def abandon_def
      split: prod.splits sum.splits if_splits)

text \<open>A transaction that returns a value has executed its body, and has kept the effects of the
  body or (after an error that the body swallowed) none.\<close>

lemma transaction_success:
  assumes "transaction conv m w = (Inr a, t)"
  obtains u where "m ((next_fault w)\<lparr>w_depth := Suc (w_depth w)\<rparr>) = (Inr a, u)"
    and "w_db t = w_db u \<and> \<not> w_aborted u \<or> w_db t = w_db w \<and> w_aborted u"
    and "w_calls t = w_calls u"
  using assms
  by (auto simp: transaction_def Let_def next_fault_def stmt_failed_def abandon_def
      split: prod.splits sum.splits if_splits)

section \<open>Relations between the states before and after\<close>

text \<open>A reflexive and transitive relation on worlds that depends on the tables and on the calls only,
  and that allows a rollback, is kept by every service whose statements keep it, whichever
  statements fail.\<close>

locale world_relation =
  fixes R :: "'d world \<Rightarrow> 'd world \<Rightarrow> bool"
  assumes R_same: "w_db t = w_db s \<Longrightarrow> w_calls t = w_calls s \<Longrightarrow> R s t"
    and R_comp: "R s t \<Longrightarrow> R t u \<Longrightarrow> R s u"
    and R_rollback: "R s t \<Longrightarrow> R s (t\<lparr>w_db := w_db s\<rparr>)"

sublocale world_relation \<subseteq> step_relation R
  by unfold_locales (auto intro: R_same R_comp)

context world_relation
begin

lemma R_follows: "R s t \<Longrightarrow> w_db u = w_db t \<Longrightarrow> w_calls u = w_calls t \<Longrightarrow> R s u"
  by (rule R_comp) (auto intro: R_same)

lemma R_undone: "R s t \<Longrightarrow> w_db u = w_db s \<Longrightarrow> w_calls u = w_calls t \<Longrightarrow> R s u"
  by (rule R_follows [OF R_rollback]) simp_all

lemma keeps_execute_world:
  assumes "\<And>now w a e. f now (w_db w) = Inr (a, e) \<Longrightarrow> R w (w\<lparr>w_db := e\<rparr>)"
  shows "keeps R (execute f)"
  by (rule keepsI)
     (auto simp: execute_def Let_def next_fault_def stmt_failed_def split: if_splits sum.splits
       intro: R_same R_follows [OF assms])

lemma keeps_execute_serial_world:
  assumes "\<And>n now w a e. f n now (w_db w) = Inr (a, e) \<Longrightarrow> R w (w\<lparr>w_db := e\<rparr>)"
  shows "keeps R (execute_serial u f)"
  by (rule keepsI)
     (auto simp: execute_serial_def Let_def next_fault_def stmt_failed_def split: if_splits sum.splits
       intro: R_same R_follows [OF assms])

lemma keeps_select [keeps_intros]: "keeps R (select q)"
  unfolding select_def by (rule keeps_execute_world) (auto intro: R_same)

lemma keeps_transaction [keeps_intros]:
  assumes "keeps R m"
  shows "keeps R (transaction conv m)"
proof (rule keepsI)
  fix s r t
  assume run: "transaction conv m s = (r, t)"
  let ?s = "(next_fault s)\<lparr>w_depth := Suc (w_depth s)\<rparr>"
  obtain q u where u: "m ?s = (q, u)" by fastforce
  have "R s ?s" by (rule R_same) (simp_all add: next_fault_def)
  then have su: "R s u" using keepsD [OF assms u] by (rule R_comp)
  consider "w_db t = w_db s" "w_calls t = w_calls s" | "w_db t = w_db s" "w_calls t = w_calls u"
    | "w_db t = w_db u" "w_calls t = w_calls u"
    using run u
    by (auto simp: transaction_def Let_def next_fault_def stmt_failed_def abandon_def
        split: prod.splits sum.splits if_splits)
  then show "R s t"
    by cases (auto intro: R_same R_undone [OF su] R_follows [OF su])
qed

lemma keeps_spawn_on_pool [keeps_intros]:
  assumes "keeps R m"
  shows "keeps R (spawn_on_pool e m)"
proof (rule keepsI)
  fix s r t
  assume "spawn_on_pool e m s = (r, t)"
  then consider "t = next_fault s" | "m (next_fault s) = (r, t)"
    by (cases "w_faults s 0") (simp_all add: spawn_on_pool_def)
  moreover have "R s (next_fault s)" by (rule R_same) (simp_all add: next_fault_def)
  ultimately show "R s t" by cases (auto intro: R_comp keepsD [OF assms])
qed

lemma keeps_utc_now [keeps_intros]: "keeps R utc_now"
  by (rule keepsI) (auto simp: utc_now_def intro: R_same)

lemma keeps_new_v4 [keeps_intros]: "keeps R new_v4"
  by (rule keepsI) (auto simp: new_v4_def intro: R_same)

end

text \<open>The relations on the tables alone.\<close>

locale db_relation =
  fixes P :: "'d db \<Rightarrow> 'd db \<Rightarrow> bool"
  assumes P_refl: "P d d"
    and P_trans: "P d e \<Longrightarrow> P e f \<Longrightarrow> P d f"

sublocale db_relation \<subseteq> world_relation "\<lambda>s t. P (w_db s) (w_db t)"
  by unfold_locales (auto intro: P_refl P_trans)

context db_relation
begin

lemma keeps_execute:
  "(\<And>now d a e. f now d = Inr (a, e) \<Longrightarrow> P d e) \<Longrightarrow> keeps (\<lambda>s t. P (w_db s) (w_db t)) (execute f)"
  by (rule keeps_execute_world) simp

lemma keeps_execute_serial:
  "(\<And>n now d a e. f n now d = Inr (a, e) \<Longrightarrow> P d e) \<Longrightarrow>
   keeps (\<lambda>s t. P (w_db s) (w_db t)) (execute_serial u f)"
  by (rule keeps_execute_serial_world) simp

lemma keeps_call_client [keeps_intros]: "keeps (\<lambda>s t. P (w_db s) (w_db t)) (call_client f c q)"
  by (simp add: keeps_def call_client_def P_refl)

end

text \<open>Statements make no calls.\<close>

interpretation silent: world_relation "\<lambda>s t. w_calls t = w_calls s"
  by unfold_locales simp_all

end
