(* ===== verification/Authorization.thy ===== *)
theory Authorization
  imports Prelude Models World
begin

text \<open>
  Access control: \<open>models/authorization\<close>, \<open>repos/acl\<close> (the permission tables and \<open>check\<close>),
  \<open>repos/user_roles.rs\<close> and \<open>get_acl\<close> of \<open>repos/repo_factory.rs\<close>. A scope checker may query the
  database, so a check is a computation.
\<close>

section \<open>Resources, actions, scopes\<close>

datatype resource =
    ResAccount | ResBillingInfo | ResOrderInfo | ResUserRoles | ResInvoice | ResOrderExchangeRate
  | ResPaymentIntent | ResProxyCompanyBillingInfo | ResStoreBillingType | ResSubscription
  | ResStoreSubscription | ResStoreSubscriptionStatus | ResSubscriptionPayment | ResCustomer
  | ResFee | ResPaymentIntentInvoice | ResPaymentIntentFee | ResUserWallet | ResPayout

datatype action = ActAll | ActRead | ActWrite

datatype scope = ScopeAll | ScopeOwned

record permission =
  p_resource :: resource
  p_action :: action
  p_scope :: scope

definition permission1 :: "resource \<Rightarrow> permission" where
  "permission1 r = \<lparr>p_resource = r, p_action = ActAll, p_scope = ScopeAll\<rparr>"

definition permission2 :: "resource \<Rightarrow> action \<Rightarrow> permission" where
  "permission2 r a = \<lparr>p_resource = r, p_action = a, p_scope = ScopeAll\<rparr>"

definition permission3 :: "resource \<Rightarrow> action \<Rightarrow> scope \<Rightarrow> permission" where
  "permission3 r a s = \<lparr>p_resource = r, p_action = a, p_scope = s\<rparr>"

fun acls :: "billing_role \<Rightarrow> permission list" where
  "acls Superuser =
     [permission1 ResOrderInfo,
      permission1 ResUserRoles,
      permission1 ResInvoice,
      permission1 ResAccount,
      permission1 ResOrderExchangeRate,
      permission1 ResPaymentIntent,
      permission1 ResPaymentIntentFee,
      permission1 ResPaymentIntentInvoice,
      permission1 ResCustomer,
      permission1 ResFee,
      permission1 ResStoreBillingType,
      permission1 ResBillingInfo,
      permission1 ResProxyCompanyBillingInfo,
      permission1 ResUserWallet,
      permission1 ResPayout,
      permission1 ResSubscription,
      permission1 ResStoreSubscription,
      permission1 ResStoreSubscriptionStatus,
      permission1 ResSubscriptionPayment]"
| "acls User =
     [permission3 ResUserRoles ActRead ScopeOwned,
      permission3 ResInvoice ActRead ScopeOwned,
      permission3 ResInvoice ActWrite ScopeOwned,
      permission3 ResOrderInfo ActWrite ScopeOwned,
      permission3 ResOrderInfo ActRead ScopeOwned,
      permission3 ResOrderExchangeRate ActRead ScopeOwned,
      permission3 ResOrderExchangeRate ActWrite ScopeOwned,
      permission2 ResPaymentIntent ActRead,
      permission2 ResPaymentIntent ActWrite,
      permission3 ResPaymentIntentFee ActRead ScopeOwned,
      permission3 ResPaymentIntentInvoice ActRead ScopeOwned,
      permission3 ResCustomer ActRead ScopeOwned,
      permission3 ResCustomer ActWrite ScopeOwned,
      permission3 ResUserWallet ActRead ScopeOwned,
      permission3 ResUserWallet ActWrite ScopeOwned,
      permission3 ResPayout ActRead ScopeOwned,
      permission3 ResPayout ActWrite ScopeOwned]"
| "acls StoreManager =
     [permission3 ResOrderInfo ActRead ScopeOwned,
      permission3 ResUserRoles ActRead ScopeOwned,
      permission3 ResOrderExchangeRate ActRead ScopeOwned,
      permission3 ResOrderExchangeRate ActWrite ScopeOwned,
      permission3 ResBillingInfo ActRead ScopeOwned,
      permission3 ResBillingInfo ActWrite ScopeOwned,
      permission3 ResStoreBillingType ActRead ScopeOwned,
      permission3 ResStoreBillingType ActWrite ScopeOwned,
      permission2 ResPaymentIntent ActRead,
      permission2 ResPaymentIntent ActWrite,
      permission3 ResPaymentIntentFee ActRead ScopeOwned,
      permission3 ResPaymentIntentInvoice ActRead ScopeOwned,
      permission3 ResFee ActRead ScopeOwned,
      permission3 ResFee ActWrite ScopeOwned,
      permission3 ResUserWallet ActRead ScopeOwned,
      permission3 ResUserWallet ActWrite ScopeOwned,
      permission3 ResPayout ActRead ScopeOwned,
      permission3 ResPayout ActWrite ScopeOwned,
      permission3 ResStoreSubscription ActRead ScopeOwned,
      permission3 ResStoreSubscription ActWrite ScopeOwned]"
| "acls FinancialManager =
     [permission2 ResOrderInfo ActRead,
      permission2 ResStoreBillingType ActRead,
      permission2 ResBillingInfo ActRead,
      permission2 ResFee ActRead,
      permission2 ResFee ActWrite,
      permission2 ResProxyCompanyBillingInfo ActRead,
      permission2 ResPaymentIntentFee ActRead,
      permission2 ResPaymentIntentInvoice ActRead,
      permission2 ResPaymentIntent ActRead,
      permission2 ResCustomer ActRead,
      permission2 ResUserWallet ActRead,
      permission2 ResPayout ActRead,
      permission2 ResPayout ActWrite,
      permission2 ResSubscription ActRead,
      permission2 ResStoreSubscription ActRead,
      permission2 ResStoreSubscription ActWrite,
      permission2 ResStoreSubscriptionStatus ActRead,
      permission2 ResStoreSubscriptionStatus ActWrite,
      permission2 ResSubscriptionPayment ActRead]"

declare acls.simps [simp del]

section \<open>Checks\<close>

datatype acl =
    SystemACL
  | UnauthorizedACL
  | ApplicationAcl "billing_role list" stq_user_id

type_synonym ('d, 't) scope_checker =
  "stq_user_id \<Rightarrow> scope \<Rightarrow> 't option \<Rightarrow> ('d world, repo_error, bool) comp"

definition matching_permissions :: "billing_role list \<Rightarrow> resource \<Rightarrow> action \<Rightarrow> permission list" where
  "matching_permissions rs res act =
     filter (\<lambda>p. p_resource p = res \<and> (p_action p = act \<or> p_action p = ActAll)) (concat (map acls rs))"

text \<open>The filters are lazy, but \<open>count\<close> runs them to the end: every matching permission is checked.\<close>

definition allows ::
  "acl \<Rightarrow> resource \<Rightarrow> action \<Rightarrow> ('d, 't) scope_checker \<Rightarrow> 't option \<Rightarrow> ('d world, repo_error, bool) comp"
  where
  "allows acl res act checker obj =
     (case acl of
        SystemACL \<Rightarrow> ok True
      | UnauthorizedACL \<Rightarrow> ok False
      | ApplicationAcl rs uid \<Rightarrow>
          map_ok (\<lambda>bs. 0 < length (filter id bs))
            (try_map (\<lambda>p. checker uid (p_scope p) obj) (matching_permissions rs res act)))"

definition check ::
  "acl \<Rightarrow> resource \<Rightarrow> action \<Rightarrow> ('d, 't) scope_checker \<Rightarrow> 't option \<Rightarrow> ('d world, repo_error, unit) comp"
  where
  "check acl res act checker obj =
     and_then (allows acl res act checker obj) (\<lambda>allowed. if allowed then ok () else err RForbidden)"

section \<open>User roles\<close>

text \<open>Repositories convert the errors of their statements.\<close>

definition repo :: "('d world, diesel_error, 'a) comp \<Rightarrow> ('d world, repo_error, 'a) comp" where
  "repo m = map_err repo_error_of_diesel m"

definition role_data_is :: "user_role \<Rightarrow> int \<Rightarrow> bool" where
  "role_data_is r n = (case role_data r of Some (RoleNumber k) \<Rightarrow> k = n | _ \<Rightarrow> False)"

definition roles_in_scope :: "('d, user_role) scope_checker" where
  "roles_in_scope uid s obj =
     (case s of
        ScopeAll \<Rightarrow> ok True
      | ScopeOwned \<Rightarrow> ok (case obj of Some r \<Rightarrow> role_user_id r = uid | None \<Rightarrow> False))"

text \<open>The cache swallows its errors: when it does not answer, nothing is found in it and nothing is changed.\<close>

definition cached_roles :: "stq_user_id \<Rightarrow> 'd world \<Rightarrow> billing_role list option" where
  "cached_roles uid w = (if w_cache_up w then w_roles_cache w uid else None)"

definition cache_set :: "stq_user_id \<Rightarrow> billing_role list option \<Rightarrow> ('d world, 'e, unit) comp" where
  "cache_set uid v = modify (\<lambda>w. w\<lparr>w_roles_cache :=
     if w_cache_up w then (w_roles_cache w)(uid := v) else w_roles_cache w\<rparr>)"

definition get_by_store_id :: "int \<Rightarrow> ('d world, repo_error, user_role option) comp" where
  "get_by_store_id sid = repo (optional (get_result (select (\<lambda>d. filter (\<lambda>r. role_data_is r sid) (roles d)))))"

definition list_for_user :: "stq_user_id \<Rightarrow> ('d world, repo_error, billing_role list) comp" where
  "list_for_user uid =
     and_then (get_state (cached_roles uid)) (\<lambda>cached.
       case cached of
         Some rs \<Rightarrow> ok rs
       | None \<Rightarrow>
           and_then (repo (select (\<lambda>d. filter (\<lambda>r. role_user_id r = uid) (roles d)))) (\<lambda>rows.
             let rs = map role_name rows in
             and_then (if rs \<noteq> [] then cache_set uid (Some rs) else ok ()) (\<lambda>_. ok rs)))"

definition insert_role :: "user_role \<Rightarrow> timestamp \<Rightarrow> 'd db \<Rightarrow> diesel_error + (user_role \<times> 'd db)" where
  "insert_role r now d =
     (if \<exists>q\<in>set (roles d). role_id q = role_id r then Inl UniqueViolation
      else if role_data r \<noteq> None \<and>
              (\<exists>q\<in>set (roles d). role_user_id q = role_user_id r \<and> role_name q = role_name r \<and>
                                 role_data q = role_data r) then Inl UniqueViolation
      else Inr (r, d\<lparr>roles := roles d @ [r]\<rparr>))"

definition create_role :: "acl \<Rightarrow> user_role \<Rightarrow> ('d world, repo_error, user_role) comp" where
  "create_role acl payload =
     and_then (check acl ResUserRoles ActWrite roles_in_scope None) (\<lambda>_.
     and_then (cache_set (role_user_id payload) None) (\<lambda>_.
     repo (execute (insert_role payload))))"

definition delete_roles :: "(user_role \<Rightarrow> bool) \<Rightarrow> ('d world, diesel_error, user_role list) comp" where
  "delete_roles p =
     execute (\<lambda>_ d. let (old, rest) = delete_rows p (roles d) in Inr (old, d\<lparr>roles := rest\<rparr>))"

definition delete_role :: "acl \<Rightarrow> stq_user_id \<Rightarrow> billing_role \<Rightarrow> ('d world, repo_error, user_role) comp" where
  "delete_role acl uid nm =
     and_then (cache_set uid None) (\<lambda>_.
     and_then (repo (get_result (delete_roles (\<lambda>r. role_user_id r = uid \<and> role_name r = nm)))) (\<lambda>deleted.
     and_then (check acl ResUserRoles ActWrite roles_in_scope (Some deleted)) (\<lambda>_.
     ok deleted)))"

definition delete_roles_by_user_id :: "stq_user_id \<Rightarrow> ('d world, repo_error, user_role list) comp" where
  "delete_roles_by_user_id uid =
     and_then (cache_set uid None) (\<lambda>_. repo (delete_roles (\<lambda>r. role_user_id r = uid)))"

definition delete_role_by_id :: "uuid \<Rightarrow> ('d world, repo_error, user_role) comp" where
  "delete_role_by_id rid =
     and_then (repo (get_result (delete_roles (\<lambda>r. role_id r = rid)))) (\<lambda>r.
     and_then (cache_set (role_user_id r) None) (\<lambda>_. ok r))"

text \<open>A failed query counts as not being a manager.\<close>

definition user_is_store_manager :: "stq_user_id \<Rightarrow> store_id \<Rightarrow> ('d world, 'e, bool) comp" where
  "user_is_store_manager uid sid =
     then_res (select (\<lambda>d. filter (\<lambda>r. role_user_id r = uid) (roles d))) (\<lambda>res.
       ok (case res of Inl _ \<Rightarrow> False
           | Inr rows \<Rightarrow> list_ex (\<lambda>r. role_data_is r (store_inner sid)) rows))"

definition get_roles :: "stq_user_id \<Rightarrow> ('d world, 'e, billing_role list) comp" where
  "get_roles uid =
     then_res (list_for_user uid) (\<lambda>res. ok (case res of Inl _ \<Rightarrow> [] | Inr rs \<Rightarrow> rs))"

definition get_acl :: "stq_user_id option \<Rightarrow> ('d world, 'e, acl) comp" where
  "get_acl user =
     (case user of
        None \<Rightarrow> ok UnauthorizedACL
      | Some uid \<Rightarrow> map_ok (\<lambda>rs. ApplicationAcl rs uid) (get_roles uid))"

section \<open>Laws\<close>

lemma check_system [simp]: "check SystemACL res act checker obj = ok ()"
  by (simp add: check_def allows_def)

lemma check_unauthorized [simp]: "check UnauthorizedACL res act checker obj = err RForbidden"
  by (simp add: check_def allows_def)

lemma repo_ok [simp]: "repo (ok a) = ok a"
  by (simp add: repo_def map_err_def fun_eq_iff)

lemma repo_success [success]: "repo m w = (Inr a, t) \<longleftrightarrow> m w = (Inr a, t)"
  by (simp add: repo_def success)

text \<open>Scope checkers never fail on the scope that covers everything.\<close>

definition total_on_all :: "('d, 't) scope_checker \<Rightarrow> bool" where
  "total_on_all checker \<longleftrightarrow> (\<forall>uid obj. checker uid ScopeAll obj = ok True)"

lemma roles_in_scope_all [simp]: "roles_in_scope uid ScopeAll obj = ok True"
  by (simp add: roles_in_scope_def)

lemma superuser_has_permission:
  "\<exists>p\<in>set (acls Superuser). p_resource p = res \<and> p_action p = ActAll \<and> p_scope p = ScopeAll"
  by (cases res) (simp_all add: permission1_def acls.simps)

lemma superuser_scopes: "p \<in> set (acls Superuser) \<Longrightarrow> p_scope p = ScopeAll"
  by (auto simp: permission1_def acls.simps)

lemma try_map_all_true:
  "(\<And>x. x \<in> set xs \<Longrightarrow> f x = ok True) \<Longrightarrow> try_map f xs = ok (replicate (length xs) True)"
  by (induction xs) simp_all

lemma check_superuser:
  assumes "total_on_all checker"
  shows "check (ApplicationAcl [Superuser] uid) res act checker obj = ok ()"
proof -
  let ?ps = "matching_permissions [Superuser] res act"
  obtain p where "p \<in> set (acls Superuser)" "p_resource p = res" "p_action p = ActAll"
    using superuser_has_permission by blast
  then have "p \<in> set ?ps" by (simp add: matching_permissions_def)
  then have "?ps \<noteq> []" by auto
  moreover have "try_map (\<lambda>p. checker uid (p_scope p) obj) ?ps = ok (replicate (length ?ps) True)"
    using assms superuser_scopes
    by (intro try_map_all_true) (auto simp: matching_permissions_def total_on_all_def)
  ultimately show ?thesis
    by (simp add: check_def allows_def map_ok_as_and_then)
qed

text \<open>Without a role nothing is allowed, whatever the scope checker says.\<close>

lemma check_no_roles: "check (ApplicationAcl [] uid) res act checker obj = err RForbidden"
  by (simp add: check_def allows_def matching_permissions_def map_ok_as_and_then)

text \<open>The decision of a checker that does not consult the database.\<close>

lemma try_map_pure: "(\<And>x. x \<in> set xs \<Longrightarrow> f x = ok (g x)) \<Longrightarrow> try_map f xs = ok (map g xs)"
  by (induction xs) simp_all

lemma filter_id_empty: "filter id bs = [] \<longleftrightarrow> True \<notin> set bs"
  by (induction bs) auto

lemma check_pure:
  assumes "\<And>s. checker uid s obj = ok (in_scope s)"
  shows "check (ApplicationAcl rs uid) res act checker obj =
    (if \<exists>role\<in>set rs. \<exists>p\<in>set (acls role). p_resource p = res \<and>
          (p_action p = act \<or> p_action p = ActAll) \<and> in_scope (p_scope p)
     then ok () else err RForbidden)"
proof -
  let ?ps = "matching_permissions rs res act"
  have "try_map (\<lambda>p. checker uid (p_scope p) obj) ?ps = ok (map (\<lambda>p. in_scope (p_scope p)) ?ps)"
    by (rule try_map_pure) (rule assms)
  moreover have "True \<in> set (map (\<lambda>p. in_scope (p_scope p)) ?ps) \<longleftrightarrow>
      (\<exists>role\<in>set rs. \<exists>p\<in>set (acls role). p_resource p = res \<and>
          (p_action p = act \<or> p_action p = ActAll) \<and> in_scope (p_scope p))"
    by (auto simp: matching_permissions_def image_iff)
  ultimately show ?thesis
    by (simp add: check_def allows_def map_ok_as_and_then filter_id_empty del: set_map)
qed

section \<open>Properties\<close>

text \<open>\<open>check\<close> lets a user through exactly when one of the user's roles has a permission for the
  resource and for the action (or for all actions) whose scope covers the object.\<close>

theorem check_decision:
  assumes "\<And>s. checker uid s obj = ok (in_scope s)"
  shows "check (ApplicationAcl rs uid) res act checker obj =
    (if \<exists>role\<in>set rs. \<exists>p\<in>set (acls role). p_resource p = res \<and>
          (p_action p = act \<or> p_action p = ActAll) \<and> in_scope (p_scope p)
     then ok () else err RForbidden)"
  by (rule check_pure) (rule assms)

theorem check_decision_witness:
  "check (ApplicationAcl [User] 7) ResUserRoles ActRead roles_in_scope
      (Some \<lparr>role_id = 0, role_user_id = 7, role_name = User, role_data = None\<rparr>) = ok ()"
  by (subst check_decision [where in_scope = "\<lambda>_. True"])
     (auto simp: roles_in_scope_def acls.simps permission3_def split: scope.split)

text \<open>The superuser may do anything with any resource; a user without roles, an unauthorized
  request and nobody else than the system acting without a user may do nothing.\<close>

theorem check_extremes:
  assumes "total_on_all checker"
  shows "check (ApplicationAcl [Superuser] uid) res act checker obj = ok () \<and>
    check (ApplicationAcl [] uid) res act checker obj = err RForbidden \<and>
    check UnauthorizedACL res act checker obj = err RForbidden \<and>
    check SystemACL res act checker obj = ok ()"
  using check_superuser [OF assms] by (simp add: check_no_roles)

theorem check_extremes_witness:
  "check (ApplicationAcl [Superuser] 1) ResPayout ActWrite roles_in_scope None = ok ()"
  by (rule check_extremes [THEN conjunct1]) (simp add: total_on_all_def)

end
