(* ===== verification/Tables.thy ===== *)
theory Tables
  imports Prelude Models World Authorization
begin

text \<open>
  The statements of the repositories, written once for every table: a table is a field of the
  database given by its reader \<open>rows\<close> and its writer \<open>put\<close>. The locale \<open>table\<close> adds a key column
  and proves what the repositories rely on: a query by key finds the row, updates keep the keys,
  and no statement makes two rows share a key.
\<close>

definition select_where :: "('d db \<Rightarrow> 'r list) \<Rightarrow> ('r \<Rightarrow> bool) \<Rightarrow> ('d world, diesel_error, 'r list) comp" where
  "select_where rows p = select (\<lambda>d. filter p (rows d))"

definition update_where ::
  "('d db \<Rightarrow> 'r list) \<Rightarrow> ('r list \<Rightarrow> 'd db \<Rightarrow> 'd db) \<Rightarrow> ('r \<Rightarrow> bool) \<Rightarrow> (timestamp \<Rightarrow> 'r \<Rightarrow> 'r) \<Rightarrow>
   ('d world, diesel_error, 'r list) comp" where
  "update_where rows put p g =
     execute (\<lambda>now d. let (new, all) = update_rows p (g now) (rows d) in Inr (new, put all d))"

definition delete_where ::
  "('d db \<Rightarrow> 'r list) \<Rightarrow> ('r list \<Rightarrow> 'd db \<Rightarrow> 'd db) \<Rightarrow> ('r \<Rightarrow> bool) \<Rightarrow>
   ('d world, diesel_error, 'r list) comp" where
  "delete_where rows put p =
     execute (\<lambda>_ d. let (old, rest) = delete_rows p (rows d) in Inr (old, put rest d))"

section \<open>Runs without faults\<close>

lemma select_where_quiet [simp]:
  "quiet w \<Longrightarrow> select_where rows p w = (Inr (filter p (rows (w_db w))), w)"
  by (simp add: select_where_def)

lemma update_where_quiet:
  "quiet w \<Longrightarrow> update_where rows put p g w =
     (Inr (map (g (w_clock w 0)) (filter p (rows (w_db w)))),
      w\<lparr>w_db := put (map (\<lambda>r. if p r then g (w_clock w 0) r else r) (rows (w_db w))) (w_db w)\<rparr>)"
  by (simp add: update_where_def execute_quiet update_rows_def)

lemma delete_where_quiet:
  "quiet w \<Longrightarrow> delete_where rows put p w =
     (Inr (filter p (rows (w_db w))), w\<lparr>w_db := put (filter (\<lambda>r. \<not> p r) (rows (w_db w))) (w_db w)\<rparr>)"
  by (simp add: delete_where_def execute_quiet delete_rows_def)

lemmas run_defs = get_result_def optional_def repo_def and_then_def map_err_def map_ok_def or_else_def

text \<open>The first row with a key, as \<open>get_result\<close> and \<open>optional\<close> see it.\<close>

definition row_by :: "('r \<Rightarrow> bool) \<Rightarrow> 'r list \<Rightarrow> 'r option" where
  "row_by p rows = (case filter p rows of [] \<Rightarrow> None | r # _ \<Rightarrow> Some r)"

lemma row_by_simps [simp]:
  "row_by p [] = None"
  "row_by p (r # rs) = (if p r then Some r else row_by p rs)"
  by (simp_all add: row_by_def)

lemma row_by_None: "row_by p rows = None \<longleftrightarrow> (\<forall>r\<in>set rows. \<not> p r)"
  by (induction rows) auto

lemma row_by_Some: "row_by p rows = Some r \<Longrightarrow> r \<in> set rows \<and> p r"
  by (induction rows) (auto split: if_splits)

lemma row_by_find: "row_by p rows = find p rows"
  by (induction rows) auto

lemma repo_first_row [simp]:
  "quiet w \<Longrightarrow> repo (optional (get_result (select_where rows p))) w = (Inr (row_by p (rows (w_db w))), w)"
  by (cases "filter p (rows (w_db w))") (simp_all add: run_defs row_by_def)

lemma repo_get_row:
  "quiet w \<Longrightarrow> repo (get_result (select_where rows p)) w =
     (case row_by p (rows (w_db w)) of None \<Rightarrow> (Inl RNotFound, w) | Some r \<Rightarrow> (Inr r, w))"
  by (cases "filter p (rows (w_db w))")
     (simp_all add: run_defs row_by_def repo_error_of_diesel_def)

lemma repo_select_where [simp]:
  "quiet w \<Longrightarrow> repo (select_where rows p) w = (Inr (filter p (rows (w_db w))), w)"
  by (simp add: run_defs)

lemma repo_update_row:
  "quiet w \<Longrightarrow> repo (get_result (update_where rows put p g)) w =
     (case row_by p (rows (w_db w)) of None \<Rightarrow> Inl RNotFound | Some r \<Rightarrow> Inr (g (w_clock w 0) r),
      w\<lparr>w_db := put (map (\<lambda>r. if p r then g (w_clock w 0) r else r) (rows (w_db w))) (w_db w)\<rparr>)"
  by (cases "filter p (rows (w_db w))")
     (simp_all add: run_defs row_by_def repo_error_of_diesel_def update_where_quiet)

text \<open>What a statement can do to the database, whatever fails.\<close>

lemma select_where_db: "select_where rows p w = (res, t) \<Longrightarrow> w_db t = w_db w"
  by (auto simp: select_where_def select_def execute_def Let_def next_fault_def stmt_failed_def
      split: if_splits)

lemma select_row_success:
  "repo (get_result (select_where rows p)) w = (Inr r, t) \<Longrightarrow>
     row_by p (rows (w_db w)) = Some r \<and> w_db t = w_db w"
  by (auto simp: run_defs row_by_def select_where_def select_def execute_def Let_def next_fault_def
      stmt_failed_def split: if_splits list.splits sum.splits prod.splits)

lemma first_row_success:
  "repo (optional (get_result (select_where rows p))) w = (Inr res, t) \<Longrightarrow>
     row_by p (rows (w_db w)) = res \<and> w_db t = w_db w"
  by (auto simp: run_defs row_by_def select_where_def select_def execute_def Let_def next_fault_def
      stmt_failed_def split: if_splits list.splits sum.splits prod.splits)

lemma select_where_success:
  "repo (select_where rows p) w = (Inr rs, t) \<Longrightarrow> rs = filter p (rows (w_db w)) \<and> w_db t = w_db w"
  by (auto simp: run_defs select_where_def select_def execute_def Let_def next_fault_def
      stmt_failed_def split: if_splits)

lemma update_where_db:
  "update_where rows put p g w = (res, t) \<Longrightarrow>
     w_db t = w_db w \<or>
     w_db t = put (map (\<lambda>r. if p r then g (w_clock w 0) r else r) (rows (w_db w))) (w_db w)"
  by (auto simp: update_where_def execute_def Let_def next_fault_def stmt_failed_def update_rows_def
      split: if_splits)

lemma repo_state: "snd (repo m w) = snd (m w)"
  by (simp add: repo_def map_err_def split: prod.split)

lemma get_result_state: "snd (get_result m w) = snd (m w)"
  by (auto simp: get_result_def and_then_def split: prod.split sum.split list.split)

lemma optional_state: "snd (optional m w) = snd (m w)"
  by (auto simp: optional_def or_else_def map_ok_def split: prod.split sum.split)

lemma update_row_db:
  "repo (get_result (update_where rows put p g)) w = (res, t) \<Longrightarrow>
     w_db t = w_db w \<or>
     w_db t = put (map (\<lambda>r. if p r then g (w_clock w 0) r else r) (rows (w_db w))) (w_db w)"
proof -
  assume run: "repo (get_result (update_where rows put p g)) w = (res, t)"
  obtain q u where u: "update_where rows put p g w = (q, u)" by fastforce
  have "snd (repo (get_result (update_where rows put p g)) w) = u"
    by (simp only: repo_state get_result_state u snd_conv)
  then have "t = u" by (simp add: run)
  then show ?thesis using update_where_db [OF u] by simp
qed

lemma map_err_Inl: "map_err g m w = (Inl e, t) \<longleftrightarrow> (\<exists>e'. m w = (Inl e', t) \<and> e = g e')"
  by (cases "m w"; cases "fst (m w)") (auto simp: map_err_def)

lemma repo_Inl: "repo m w = (Inl e, t) \<longleftrightarrow> (\<exists>e'. m w = (Inl e', t) \<and> e = repo_error_of_diesel e')"
  by (simp add: repo_def map_err_Inl)

lemma execute_success:
  "execute f w = (Inr a, t) \<Longrightarrow> f (w_clock w 0) (w_db w) = Inr (a, w_db t)"
  unfolding execute_def Let_def
  by (auto simp: next_fault_def split: if_splits sum.splits)

lemma execute_serial_success:
  "execute_serial u f w = (Inr a, t) \<Longrightarrow> f (w_seqs w u) (w_clock w 0) (w_db w) = Inr (a, w_db t)"
  unfolding execute_serial_def Let_def
  by (auto simp: next_fault_def split: if_splits sum.splits)

text \<open>A statement that succeeds has not been executed in an aborted transaction.\<close>

lemma execute_success_alive: "execute f w = (Inr a, t) \<Longrightarrow> \<not> w_aborted t"
  unfolding execute_def Let_def
  by (auto simp: next_fault_def split: if_splits sum.splits)

lemma execute_serial_success_alive: "execute_serial u f w = (Inr a, t) \<Longrightarrow> \<not> w_aborted t"
  unfolding execute_serial_def Let_def
  by (auto simp: next_fault_def split: if_splits sum.splits)

lemma update_where_success:
  assumes "update_where rows put p g w = (Inr rs, t)"
  shows "rs = map (g (w_clock w 0)) (filter p (rows (w_db w))) \<and>
    w_db t = put (map (\<lambda>r. if p r then g (w_clock w 0) r else r) (rows (w_db w))) (w_db w) \<and>
    \<not> w_aborted t"
  using execute_success [OF assms [unfolded update_where_def]]
    execute_success_alive [OF assms [unfolded update_where_def]]
  by (auto simp: update_rows_def)

lemma get_result_success [success]:
  "get_result m w = (Inr r, t) \<longleftrightarrow> (\<exists>rs. m w = (Inr (r # rs), t))"
proof
  assume "get_result m w = (Inr r, t)"
  then obtain rs u where m: "m w = (Inr rs, u)"
    and "(case rs of [] \<Rightarrow> err DieselNotFound | r # _ \<Rightarrow> ok r) u = (Inr r, t)"
    by (auto simp: get_result_def success)
  then show "\<exists>rs. m w = (Inr (r # rs), t)" by (cases rs) auto
qed (auto simp: get_result_def)

lemma optional_success [success]:
  "optional m w = (Inr x, t) \<longleftrightarrow>
     (\<exists>r. m w = (Inr r, t) \<and> x = Some r) \<or> m w = (Inl DieselNotFound, t) \<and> x = None"
proof -
  have "map_ok Some m w = (Inl e, t) \<longleftrightarrow> m w = (Inl e, t)" for e
    by (cases "m w"; cases "fst (m w)") (auto simp: map_ok_def)
  then show ?thesis by (auto simp: optional_def success)
qed

text \<open>The world in which the body of a transaction starts.\<close>

definition inner_world :: "'d world \<Rightarrow> 'd world" where
  "inner_world w = (next_fault w)\<lparr>w_depth := Suc (w_depth w)\<rparr>"

lemma inner_world_simps [simp]:
  "w_db (inner_world w) = w_db w" "w_clock (inner_world w) = w_clock w"
  "w_uuids (inner_world w) = w_uuids w" "w_seqs (inner_world w) = w_seqs w"
  "w_calls (inner_world w) = w_calls w"
  by (simp_all add: inner_world_def next_fault_def)

lemma transaction_inner:
  assumes "transaction conv m w = (Inr a, t)"
  shows "\<exists>u. m (inner_world w) = (Inr a, u) \<and>
    (w_db t = w_db u \<and> \<not> w_aborted u \<or> w_db t = w_db w \<and> w_aborted u)"
proof (rule transaction_success [OF assms])
  fix u
  assume "m ((next_fault w)\<lparr>w_depth := Suc (w_depth w)\<rparr>) = (Inr a, u)"
    and "w_db t = w_db u \<and> \<not> w_aborted u \<or> w_db t = w_db w \<and> w_aborted u"
  then show ?thesis by (auto simp: inner_world_def)
qed

lemma utc_now_run [simp]: "utc_now w = (Inr (w_clock w 0), w\<lparr>w_clock := (\<lambda>n. w_clock w (Suc n))\<rparr>)"
  by (simp add: utc_now_def)

lemma new_v4_run [simp]: "new_v4 w = (Inr (w_uuids w 0), w\<lparr>w_uuids := (\<lambda>n. w_uuids w (Suc n))\<rparr>)"
  by (simp add: new_v4_def)

lemma unique_filter:
  "distinct (map key rs) \<Longrightarrow> r \<in> set rs \<Longrightarrow> filter (\<lambda>x. key x = key r) rs = [r]"
proof (induction rs)
  case (Cons a rs)
  then show ?case by (cases "a = r") (auto simp: filter_empty_conv image_iff)
qed simp

lemma unique_row_by:
  "distinct (map key rs) \<Longrightarrow> r \<in> set rs \<Longrightarrow> row_by (\<lambda>x. key x = key r) rs = Some r"
  by (simp add: row_by_def unique_filter)

section \<open>Frames\<close>

context world_relation
begin

lemma keeps_get_result [keeps_intros]:
  "keeps R m \<Longrightarrow> keeps R (get_result m)"
  unfolding get_result_def by (auto intro!: keeps_and_then keeps_ok keeps_err split: list.splits)

lemma keeps_optional [keeps_intros]:
  "keeps R m \<Longrightarrow> keeps R (optional m)"
  unfolding optional_def by (auto intro!: keeps_or_else keeps_map_ok keeps_ok keeps_err)

lemma keeps_repo [keeps_intros]:
  "keeps R m \<Longrightarrow> keeps R (repo m)"
  unfolding repo_def by (rule keeps_map_err)

lemma keeps_select_where [keeps_intros]: "keeps R (select_where rows p)"
  unfolding select_where_def by (rule keeps_select)

lemma keeps_update_where_world:
  "(\<And>now w. R w (w\<lparr>w_db := put (map (\<lambda>r. if p r then g now r else r) (rows (w_db w))) (w_db w)\<rparr>)) \<Longrightarrow>
   keeps R (update_where rows put p g)"
  unfolding update_where_def by (rule keeps_execute_world) (auto simp: update_rows_def)

lemma keeps_delete_where_world:
  "(\<And>w. R w (w\<lparr>w_db := put (filter (\<lambda>r. \<not> p r) (rows (w_db w))) (w_db w)\<rparr>)) \<Longrightarrow>
   keeps R (delete_where rows put p)"
  unfolding delete_where_def by (rule keeps_execute_world) (auto simp: delete_rows_def)

lemma keeps_new_event [keeps_intros]: "keeps R (new_event payload)"
  unfolding new_event_def by (intro keeps_map_ok keeps_new_v4)

lemma keeps_cache_set [keeps_intros]: "keeps R (cache_set uid v)"
  by (simp add: cache_set_def keeps_def R_same)

lemma keeps_list_for_user [keeps_intros]: "keeps R (list_for_user uid)"
  unfolding list_for_user_def Let_def
  by (intro keeps_and_then keeps_get_state keeps_case_option keeps_ok keeps_repo keeps_select
      keeps_if keeps_cache_set)

lemma keeps_get_acl [keeps_intros]: "keeps R (get_acl user)"
  unfolding get_acl_def get_roles_def
  by (intro keeps_case_option keeps_ok keeps_map_ok keeps_then_res keeps_list_for_user)

lemma keeps_check:
  "(\<And>uid s. keeps R (checker uid s obj)) \<Longrightarrow>
   keeps R (check acl res act checker obj)"
  unfolding check_def allows_def
  by (cases acl) (auto intro!: keeps_and_then keeps_ok keeps_err keeps_map_ok keeps_try_map)

lemma keeps_user_is_store_manager [keeps_intros]:
  "keeps R (user_is_store_manager uid sid)"
  unfolding user_is_store_manager_def by (intro keeps_then_res keeps_select keeps_ok)

end

context db_relation
begin

lemma keeps_update_where:
  "(\<And>now d. P d (put (map (\<lambda>r. if p r then g now r else r) (rows d)) d)) \<Longrightarrow>
   keeps (\<lambda>s t. P (w_db s) (w_db t)) (update_where rows put p g)"
  by (rule keeps_update_where_world) simp

lemma keeps_delete_where:
  "(\<And>d. P d (put (filter (\<lambda>r. \<not> p r) (rows d)) d)) \<Longrightarrow>
   keeps (\<lambda>s t. P (w_db s) (w_db t)) (delete_where rows put p)"
  by (rule keeps_delete_where_world) simp

end

section \<open>Tables with a key\<close>

locale table =
  fixes rows :: "'d db \<Rightarrow> 'r list" and put :: "'r list \<Rightarrow> 'd db \<Rightarrow> 'd db" and key :: "'r \<Rightarrow> 'k"
  assumes rows_put: "rows (put rs d) = rs"
    and put_rows: "put (rows d) d = d"
    and put_put: "put rs (put qs d) = put rs d"
begin

lemma distinct_update:
  assumes "\<And>r. key (g r) = key r"
  shows "distinct (map key (rows (put (map (\<lambda>r. if p r then g r else r) (rows d)) d))) =
    distinct (map key (rows d))"
proof -
  have "map (key \<circ> (\<lambda>r. if p r then g r else r)) (rows d) = map key (rows d)"
    by (intro map_cong) (auto simp: assms)
  then show ?thesis by (simp only: rows_put map_map)
qed

lemma distinct_delete:
  "distinct (map key (rows d)) \<Longrightarrow> distinct (map key (rows (put (filter p (rows d)) d)))"
  by (simp add: rows_put distinct_map_filter)

lemma find_by_key:
  assumes "quiet w" and "distinct (map key (rows (w_db w)))" and "r \<in> set (rows (w_db w))"
  shows "repo (get_result (select_where rows (\<lambda>x. key x = key r))) w = (Inr r, w)"
  using assms by (simp add: repo_get_row unique_row_by)

text \<open>The row that a query by key finds after an update by the same key is the updated one.\<close>

lemma find_after_update:
  assumes "distinct (map key (rows d))" and "r \<in> set (rows d)" and "\<And>x. key (g x) = key x"
  shows "row_by (\<lambda>x. key x = key r)
           (rows (put (map (\<lambda>x. if key x = key r then g x else x) (rows d)) d)) = Some (g r)"
proof -
  let ?rs = "map (\<lambda>x. if key x = key r then g x else x) (rows d)"
  have "distinct (map key ?rs)"
    using distinct_update [of g "\<lambda>x. key x = key r" d] assms by (simp add: rows_put)
  moreover have "g r \<in> set ?rs" using assms(2) by force
  ultimately have "row_by (\<lambda>x. key x = key (g r)) ?rs = Some (g r)" by (rule unique_row_by)
  then show ?thesis by (simp add: rows_put assms(3))
qed

end

text \<open>Rows with pairwise different keys stay that way.\<close>

sublocale table \<subseteq> unique_keys: db_relation
  "\<lambda>d e. distinct (map key (rows d)) \<longrightarrow> distinct (map key (rows e))"
  by unfold_locales auto

section \<open>The tables\<close>

abbreviation set_invoices :: "raw_invoice list \<Rightarrow> 'd db \<Rightarrow> 'd db" where
  "set_invoices rs d \<equiv> d\<lparr>invoices_v2 := rs\<rparr>"

abbreviation set_orders :: "raw_order list \<Rightarrow> 'd db \<Rightarrow> 'd db" where
  "set_orders rs d \<equiv> d\<lparr>orders := rs\<rparr>"

abbreviation set_rates :: "'d raw_order_exchange_rate list \<Rightarrow> 'd db \<Rightarrow> 'd db" where
  "set_rates rs d \<equiv> d\<lparr>order_exchange_rates := rs\<rparr>"

abbreviation set_accounts :: "account list \<Rightarrow> 'd db \<Rightarrow> 'd db" where
  "set_accounts rs d \<equiv> d\<lparr>accounts := rs\<rparr>"

abbreviation set_payment_intents :: "payment_intent list \<Rightarrow> 'd db \<Rightarrow> 'd db" where
  "set_payment_intents rs d \<equiv> d\<lparr>payment_intents := rs\<rparr>"

abbreviation set_payment_intents_invoices :: "payment_intent_invoice list \<Rightarrow> 'd db \<Rightarrow> 'd db" where
  "set_payment_intents_invoices rs d \<equiv> d\<lparr>payment_intents_invoices := rs\<rparr>"

abbreviation set_payment_intents_fees :: "payment_intent_fee list \<Rightarrow> 'd db \<Rightarrow> 'd db" where
  "set_payment_intents_fees rs d \<equiv> d\<lparr>payment_intents_fees := rs\<rparr>"

abbreviation set_fees :: "fee list \<Rightarrow> 'd db \<Rightarrow> 'd db" where
  "set_fees rs d \<equiv> d\<lparr>fees := rs\<rparr>"

abbreviation set_payouts :: "raw_payout list \<Rightarrow> 'd db \<Rightarrow> 'd db" where
  "set_payouts rs d \<equiv> d\<lparr>payouts := rs\<rparr>"

abbreviation set_events :: "raw_event_entry list \<Rightarrow> 'd db \<Rightarrow> 'd db" where
  "set_events rs d \<equiv> d\<lparr>event_store := rs\<rparr>"

interpretation invoices_table: table invoices_v2 set_invoices inv_id
  by unfold_locales simp_all

interpretation orders_table: table orders set_orders ord_id
  by unfold_locales simp_all

interpretation rates_table: table order_exchange_rates set_rates rate_id
  by unfold_locales simp_all

interpretation fees_table: table fees set_fees fee_id
  by unfold_locales simp_all

interpretation payouts_table: table payouts set_payouts rp_id
  by unfold_locales simp_all

interpretation events_table: table event_store set_events re_id
  by unfold_locales simp_all

text \<open>The finest relation: the tables are not changed.\<close>

definition same_db :: "'d db \<Rightarrow> 'd db \<Rightarrow> bool" where
  "same_db d e \<longleftrightarrow> e = d"

interpretation reading: db_relation same_db
  by unfold_locales (auto simp: same_db_def)

lemma same_dbD: "keeps (\<lambda>s t. same_db (w_db s) (w_db t)) m \<Longrightarrow> m w = (res, t) \<Longrightarrow> w_db t = w_db w"
  using keepsD [of _ m w res t] unfolding same_db_def by blast

end
