(* ===== verification/Constraints.thy ===== *)
theory Constraints
  imports Prelude Models World Tables
begin

text \<open>
  What the schema (\<open>migrations/\<close>) adds to the statements: the triggers that set \<open>updated_at\<close> when a
  row changes, and the foreign keys. A deletion cascades from invoices to orders and received
  amounts, and from orders to exchange rates, fees and payout entries; a payment intent entry
  that still refers to the invoice or the fee makes the statement fail. Deleting an account unlinks
  its invoice.
\<close>

section \<open>Triggers\<close>

definition touch_invoice :: "(raw_invoice \<Rightarrow> raw_invoice) \<Rightarrow> timestamp \<Rightarrow> raw_invoice \<Rightarrow> raw_invoice" where
  "touch_invoice g now r = (if g r = r then r else (g r)\<lparr>inv_updated_at := now\<rparr>)"

definition touch_order :: "(raw_order \<Rightarrow> raw_order) \<Rightarrow> timestamp \<Rightarrow> raw_order \<Rightarrow> raw_order" where
  "touch_order g now r = (if g r = r then r else (g r)\<lparr>ord_updated_at := now\<rparr>)"

definition touch_rate ::
  "('d raw_order_exchange_rate \<Rightarrow> 'd raw_order_exchange_rate) \<Rightarrow> timestamp \<Rightarrow>
   'd raw_order_exchange_rate \<Rightarrow> 'd raw_order_exchange_rate" where
  "touch_rate g now r = (if g r = r then r else (g r)\<lparr>rate_updated_at := now\<rparr>)"

section \<open>Cascades\<close>

definition delete_orders_where ::
  "(raw_order \<Rightarrow> bool) \<Rightarrow> timestamp \<Rightarrow> 'd db \<Rightarrow> diesel_error + (raw_order list \<times> 'd db)" where
  "delete_orders_where p _ d =
     (let (gone, rest) = delete_rows p (orders d);
          ids = map ord_id gone;
          (gone_fees, kept_fees) = delete_rows (\<lambda>f. fee_order_id f \<in> set ids) (fees d)
      in if \<exists>x\<in>set (payment_intents_fees d). pif_fee_id x \<in> set (map fee_id gone_fees)
         then Inl OtherDieselError
         else Inr (gone,
           d\<lparr>orders := rest, fees := kept_fees,
             order_exchange_rates := filter (\<lambda>r. rate_order_id r \<notin> set ids) (order_exchange_rates d),
             order_payouts := filter (\<lambda>r. rop_order_id r \<notin> set ids) (order_payouts d)\<rparr>))"

definition delete_invoices_where ::
  "(raw_invoice \<Rightarrow> bool) \<Rightarrow> timestamp \<Rightarrow> 'd db \<Rightarrow> diesel_error + (raw_invoice list \<times> 'd db)" where
  "delete_invoices_where p now d =
     (let (gone, rest) = delete_rows p (invoices_v2 d); ids = map inv_id gone
      in if \<exists>x\<in>set (payment_intents_invoices d). pii_invoice_id x \<in> set ids
         then Inl OtherDieselError
         else (case delete_orders_where (\<lambda>r. ord_invoice_id r \<in> set ids) now d of
                 Inl e \<Rightarrow> Inl e
               | Inr (_, e) \<Rightarrow>
                   Inr (gone, e\<lparr>invoices_v2 := rest,
                     amounts_received := filter (\<lambda>r. ar_invoice_id r \<notin> set ids) (amounts_received d)\<rparr>)))"

definition delete_accounts_where ::
  "(account \<Rightarrow> bool) \<Rightarrow> timestamp \<Rightarrow> 'd db \<Rightarrow> diesel_error + (account list \<times> 'd db)" where
  "delete_accounts_where p now d =
     (let (gone, rest) = delete_rows p (accounts d);
          unlink = (\<lambda>i. if \<exists>a\<in>set gone. inv_account_id i = Some (acc_id a)
                         then i\<lparr>inv_account_id := None\<rparr> else i)
      in Inr (gone, d\<lparr>accounts := rest, invoices_v2 := map (touch_invoice unlink now) (invoices_v2 d)\<rparr>))"

section \<open>Laws\<close>

text \<open>A trigger changes no other column.\<close>

lemma touch_invoice_simps [simp]:
  "inv_id (touch_invoice g now r) = inv_id (g r)"
  "inv_account_id (touch_invoice g now r) = inv_account_id (g r)"
  "inv_buyer_currency (touch_invoice g now r) = inv_buyer_currency (g r)"
  "inv_amount_captured (touch_invoice g now r) = inv_amount_captured (g r)"
  "inv_final_amount_paid (touch_invoice g now r) = inv_final_amount_paid (g r)"
  "inv_final_cashback_amount (touch_invoice g now r) = inv_final_cashback_amount (g r)"
  "inv_paid_at (touch_invoice g now r) = inv_paid_at (g r)"
  "inv_created_at (touch_invoice g now r) = inv_created_at (g r)"
  "inv_buyer_user_id (touch_invoice g now r) = inv_buyer_user_id (g r)"
  "inv_status (touch_invoice g now r) = inv_status (g r)"
  by (simp_all add: touch_invoice_def)

lemma touch_order_simps [simp]:
  "ord_id (touch_order g now r) = ord_id (g r)"
  "ord_seller_currency (touch_order g now r) = ord_seller_currency (g r)"
  "ord_total_amount (touch_order g now r) = ord_total_amount (g r)"
  "ord_cashback_amount (touch_order g now r) = ord_cashback_amount (g r)"
  "ord_invoice_id (touch_order g now r) = ord_invoice_id (g r)"
  "ord_created_at (touch_order g now r) = ord_created_at (g r)"
  "ord_store_id (touch_order g now r) = ord_store_id (g r)"
  "ord_state (touch_order g now r) = ord_state (g r)"
  "ord_stripe_fee (touch_order g now r) = ord_stripe_fee (g r)"
  by (simp_all add: touch_order_def)

lemma touch_rate_simps [simp]:
  "rate_id (touch_rate g now r) = rate_id (g r)"
  "rate_order_id (touch_rate g now r) = rate_order_id (g r)"
  "rate_exchange_id (touch_rate g now r) = rate_exchange_id (g r)"
  "rate_exchange_rate (touch_rate g now r) = rate_exchange_rate (g r)"
  "rate_status (touch_rate g now r) = rate_status (g r)"
  "rate_created_at (touch_rate g now r) = rate_created_at (g r)"
  by (simp_all add: touch_rate_def)

text \<open>What a deletion of orders leaves of the other tables.\<close>

lemma delete_orders_where_frame:
  "delete_orders_where p now d = Inr (gone, e) \<Longrightarrow>
     gone = filter p (orders d) \<and> orders e = filter (\<lambda>r. \<not> p r) (orders d) \<and>
     invoices_v2 e = invoices_v2 d \<and> amounts_received e = amounts_received d \<and>
     event_store e = event_store d \<and> payouts e = payouts d \<and> accounts e = accounts d \<and>
     payment_intents e = payment_intents d \<and>
     payment_intents_invoices e = payment_intents_invoices d \<and>
     payment_intents_fees e = payment_intents_fees d \<and>
     set (order_exchange_rates e) \<subseteq> set (order_exchange_rates d) \<and> set (fees e) \<subseteq> set (fees d) \<and>
     set (order_payouts e) \<subseteq> set (order_payouts d)"
  by (auto simp: delete_orders_where_def delete_rows_def Let_def split: if_splits)

lemma delete_invoices_where_frame:
  assumes "delete_invoices_where p now d = Inr (gone, e)"
  shows "gone = filter p (invoices_v2 d) \<and> invoices_v2 e = filter (\<lambda>r. \<not> p r) (invoices_v2 d) \<and>
     amounts_received e = filter (\<lambda>r. \<not> (\<exists>i\<in>set gone. ar_invoice_id r = inv_id i)) (amounts_received d) \<and>
     orders e = filter (\<lambda>r. \<not> (\<exists>i\<in>set gone. ord_invoice_id r = inv_id i)) (orders d) \<and>
     event_store e = event_store d"
proof -
  let ?gone = "filter p (invoices_v2 d)"
  obtain x d' where *: "delete_orders_where (\<lambda>r. ord_invoice_id r \<in> set (map inv_id ?gone)) now d = Inr (x, d')"
    "gone = ?gone" "e = d'\<lparr>invoices_v2 := filter (\<lambda>r. \<not> p r) (invoices_v2 d),
       amounts_received := filter (\<lambda>r. ar_invoice_id r \<notin> set (map inv_id ?gone)) (amounts_received d)\<rparr>"
    using assms
    by (auto simp: delete_invoices_where_def delete_rows_def Let_def split: if_splits sum.splits prod.splits)
  have "(\<exists>i\<in>set ?gone. a = inv_id i) \<longleftrightarrow> a \<in> set (map inv_id ?gone)" for a by auto
  then show ?thesis
    using delete_orders_where_frame [OF *(1)] *(2,3) by simp
qed

end
