(* ===== verification/EventStore.thy ===== *)
theory EventStore
  imports Prelude Models World Authorization Tables
begin

text \<open>
  \<open>repos/event_store.rs\<close>: the queue of events. An event is pending, is claimed for processing (which
  counts an attempt), and is completed or failed; a failed attempt makes it pending again until
  the attempts are used up, and so does being stuck in processing for too long.
\<close>

record event_store_config =
  max_processing_attempts :: i32
  stuck_threshold_sec :: i32

definition entry_result :: "raw_event_entry \<Rightarrow> ('d world, repo_error, event_entry) comp" where
  "entry_result r = (case try_into_event_entry r of Inl _ \<Rightarrow> err RInternal | Inr e \<Rightarrow> ok e)"

definition insert_event ::
  "raw_new_event_entry \<Rightarrow> int \<Rightarrow> timestamp \<Rightarrow> 'd db \<Rightarrow> diesel_error + (raw_event_entry \<times> 'd db)" where
  "insert_event e n now d =
     (let r = \<lparr>re_id = EventEntryId n, re_event = rne_event e, re_status = rne_status e,
               re_attempt_count = rne_attempt_count e, re_created_at = now,
               re_status_updated_at = now, re_scheduled_on = rne_scheduled_on e\<rparr>
      in if \<exists>q\<in>set (event_store d). re_id q = re_id r then Inl UniqueViolation
         else Inr (r, d\<lparr>event_store := event_store d @ [r]\<rparr>))"

definition add_event :: "event \<Rightarrow> ('d world, repo_error, event_entry) comp" where
  "add_event e =
     and_then (repo (execute_serial SeqEventStore (insert_event (try_from_event e)))) entry_result"

definition add_scheduled_event :: "event \<Rightarrow> timestamp \<Rightarrow> ('d world, repo_error, event_entry) comp" where
  "add_scheduled_event e scheduled_on =
     and_then
       (repo (execute_serial SeqEventStore (insert_event (try_from_event_scheduled_on e scheduled_on))))
       entry_result"

text \<open>The rows that \<open>get_events_for_processing\<close> claims: pending and due, the smallest ids first.\<close>

definition due :: "timestamp \<Rightarrow> raw_event_entry \<Rightarrow> bool" where
  "due now r \<longleftrightarrow> re_status r = event_status_display Pending \<and>
     (case re_scheduled_on r of None \<Rightarrow> True | Some t \<Rightarrow> t \<le> now)"

definition claimed_ids :: "i32 \<Rightarrow> timestamp \<Rightarrow> raw_event_entry list \<Rightarrow> int list" where
  "claimed_ids limit now rows =
     take (unat limit) (sort (map (event_entry_inner \<circ> re_id) (filter (due now) rows)))"

definition claim :: "timestamp \<Rightarrow> raw_event_entry \<Rightarrow> raw_event_entry" where
  "claim now r = r\<lparr>re_attempt_count := re_attempt_count r + 1,
     re_status := event_status_display InProgress, re_status_updated_at := now\<rparr>"

text \<open>An \<open>integer\<close> column does not wrap: the statement fails.\<close>

definition claim_events ::
  "i32 \<Rightarrow> timestamp \<Rightarrow> timestamp \<Rightarrow> 'd db \<Rightarrow> diesel_error + (raw_event_entry list \<times> 'd db)" where
  "claim_events limit now _ d =
     (let ids = claimed_ids limit now (event_store d);
          p = (\<lambda>r. event_entry_inner (re_id r) \<in> set ids)
      in if \<exists>r\<in>set (event_store d). p r \<and> sint (re_attempt_count r) = 2 ^ 31 - 1
         then Inl OtherDieselError
         else (let (new, all) = update_rows p (claim now) (event_store d)
               in Inr (new, d\<lparr>event_store := all\<rparr>)))"

definition get_events_for_processing :: "i32 \<Rightarrow> ('d world, repo_error, event_entry list) comp" where
  "get_events_for_processing limit =
     and_then utc_now (\<lambda>now.
     and_then (repo (execute (claim_events limit now))) (\<lambda>rows.
     try_map entry_result rows))"

definition attempts_exhausted :: "event_store_config \<Rightarrow> raw_event_entry \<Rightarrow> bool" where
  "attempts_exhausted es r \<longleftrightarrow> sint (max_processing_attempts es) \<le> sint (re_attempt_count r)"

definition stuck :: "int \<Rightarrow> timestamp \<Rightarrow> raw_event_entry \<Rightarrow> bool" where
  "stuck threshold now r \<longleftrightarrow> re_status r = event_status_display InProgress \<and>
     re_status_updated_at r + threshold < now"

definition unstick :: "event_store_config \<Rightarrow> timestamp \<Rightarrow> raw_event_entry \<Rightarrow> raw_event_entry" where
  "unstick es now r =
     r\<lparr>re_status := event_status_display (if attempts_exhausted es r then Failed else Pending),
       re_status_updated_at := now\<rparr>"

definition microseconds :: "i32 \<Rightarrow> int" where
  "microseconds sec = 1000000 * uint sec"

text \<open>\<open>NaiveTime::from_num_seconds_from_midnight_opt\<close> rejects a day or more.\<close>

definition reset_stuck_events :: "event_store_config \<Rightarrow> ('d world, repo_error, event_entry list) comp" where
  "reset_stuck_events es =
     (if 86400 \<le> unat (stuck_threshold_sec es) then err RInternal
      else and_then utc_now (\<lambda>now.
           and_then (repo (update_where event_store set_events
               (stuck (microseconds (stuck_threshold_sec es)) now) (\<lambda>_. unstick es now))) (\<lambda>rows.
           try_map entry_result rows)))"

definition set_status :: "event_status \<Rightarrow> timestamp \<Rightarrow> raw_event_entry \<Rightarrow> raw_event_entry" where
  "set_status st now r = r\<lparr>re_status := event_status_display st, re_status_updated_at := now\<rparr>"

definition update_status ::
  "event_entry_id \<Rightarrow> event_status \<Rightarrow> timestamp \<Rightarrow> ('d world, repo_error, event_entry) comp" where
  "update_status eid st now =
     and_then (repo (get_result (update_where event_store set_events (\<lambda>r. re_id r = eid)
                                   (\<lambda>_. set_status st now)))) entry_result"

definition complete_event :: "event_entry_id \<Rightarrow> ('d world, repo_error, event_entry) comp" where
  "complete_event eid =
     transaction repo_error_of_diesel
       (and_then (repo (get_result (select_where event_store (\<lambda>r. re_id r = eid)))) (\<lambda>r.
        case event_status_from_str (re_status r) of
          None \<Rightarrow> err RInternal
        | Some st \<Rightarrow>
            if st \<noteq> InProgress then err RInternal
            else and_then utc_now (\<lambda>now. update_status eid Completed now)))"

definition fail_event ::
  "event_store_config \<Rightarrow> event_entry_id \<Rightarrow> ('d world, repo_error, event_entry) comp" where
  "fail_event es eid =
     transaction repo_error_of_diesel
       (and_then (repo (get_result (select_where event_store (\<lambda>r. re_id r = eid)))) (\<lambda>r.
        case event_status_from_str (re_status r) of
          None \<Rightarrow> err RInternal
        | Some st \<Rightarrow>
            let new_status = (if attempts_exhausted es r then Failed else Pending) in
            if st \<noteq> InProgress then err RInternal
            else and_then utc_now (\<lambda>now. update_status eid new_status now)))"

section \<open>The life of an event\<close>

text \<open>The abstract machine: the transitions that one row can make.\<close>

inductive event_step :: "event_store_config \<Rightarrow> raw_event_entry \<Rightarrow> raw_event_entry \<Rightarrow> bool"
  for es :: event_store_config where
  claiming: "re_status r = event_status_display Pending \<Longrightarrow> sint (re_attempt_count r) < 2 ^ 31 - 1 \<Longrightarrow>
     event_step es r (r\<lparr>re_attempt_count := re_attempt_count r + 1,
       re_status := event_status_display InProgress, re_status_updated_at := now\<rparr>)"
| completing: "re_status r = event_status_display InProgress \<Longrightarrow>
     event_step es r (r\<lparr>re_status := event_status_display Completed, re_status_updated_at := now\<rparr>)"
| releasing: "re_status r = event_status_display InProgress \<Longrightarrow>
     sint (re_attempt_count r) < sint (max_processing_attempts es) \<Longrightarrow>
     event_step es r (r\<lparr>re_status := event_status_display Pending, re_status_updated_at := now\<rparr>)"
| giving_up: "re_status r = event_status_display InProgress \<Longrightarrow>
     sint (max_processing_attempts es) \<le> sint (re_attempt_count r) \<Longrightarrow>
     event_step es r (r\<lparr>re_status := event_status_display Failed, re_status_updated_at := now\<rparr>)"

text \<open>The writes of the operations are such transitions.\<close>

lemma claimed: "re_status r = event_status_display Pending \<Longrightarrow> sint (re_attempt_count r) < 2 ^ 31 - 1 \<Longrightarrow>
    event_step es r (claim now r)"
  unfolding claim_def by (rule event_step.claiming)

lemma completed: "re_status r = event_status_display InProgress \<Longrightarrow> event_step es r (set_status Completed now r)"
  unfolding set_status_def by (rule event_step.completing)

lemma released: "re_status r = event_status_display InProgress \<Longrightarrow> \<not> attempts_exhausted es r \<Longrightarrow>
    event_step es r (set_status Pending now r)"
  unfolding set_status_def attempts_exhausted_def by (rule event_step.releasing) simp_all

lemma given_up: "re_status r = event_status_display InProgress \<Longrightarrow> attempts_exhausted es r \<Longrightarrow>
    event_step es r (set_status Failed now r)"
  unfolding set_status_def attempts_exhausted_def by (rule event_step.giving_up)

inductive_cases event_step_E: "event_step es r r'"

text \<open>How a table of events evolves: rows make steps, new rows are appended, none is deleted.\<close>

definition fresh :: "raw_event_entry \<Rightarrow> bool" where
  "fresh r \<longleftrightarrow> re_status r = event_status_display Pending \<and> re_attempt_count r = 0"

definition events_evolve :: "event_store_config \<Rightarrow> raw_event_entry list \<Rightarrow> raw_event_entry list \<Rightarrow> bool" where
  "events_evolve es rows rows' \<longleftrightarrow>
     (\<exists>old new. rows' = old @ new \<and> list_all2 (event_step es)\<^sup>*\<^sup>* rows old \<and>
        (\<forall>r\<in>set new. \<exists>r0. fresh r0 \<and> (event_step es)\<^sup>*\<^sup>* r0 r))"

lemma events_evolve_refl: "events_evolve es rows rows"
  unfolding events_evolve_def by (intro exI [of _ rows] exI [of _ "[]"]) (simp add: list_all2_refl)

lemma rtranclp_trans_list_all2:
  "list_all2 R\<^sup>*\<^sup>* xs ys \<Longrightarrow> list_all2 R\<^sup>*\<^sup>* ys zs \<Longrightarrow> list_all2 R\<^sup>*\<^sup>* xs zs"
  by (rule list_all2_trans) (auto intro: rtranclp_trans)

lemma events_evolve_trans:
  assumes "events_evolve es a b" and "events_evolve es b c"
  shows "events_evolve es a c"
proof -
  obtain old new where b: "b = old @ new" "list_all2 (event_step es)\<^sup>*\<^sup>* a old"
    and fresh_b: "\<forall>r\<in>set new. \<exists>r0. fresh r0 \<and> (event_step es)\<^sup>*\<^sup>* r0 r"
    using assms(1) by (auto simp: events_evolve_def)
  obtain old' new' where c: "c = old' @ new'" "list_all2 (event_step es)\<^sup>*\<^sup>* b old'"
    and fresh_c: "\<forall>r\<in>set new'. \<exists>r0. fresh r0 \<and> (event_step es)\<^sup>*\<^sup>* r0 r"
    using assms(2) by (auto simp: events_evolve_def)
  obtain u v where uv: "old' = u @ v" "list_all2 (event_step es)\<^sup>*\<^sup>* old u"
      "list_all2 (event_step es)\<^sup>*\<^sup>* new v"
    using c(2) unfolding b(1) by (auto simp: list_all2_append1)
  have "\<exists>r0. fresh r0 \<and> (event_step es)\<^sup>*\<^sup>* r0 r" if "r \<in> set v" for r
  proof -
    obtain q where "q \<in> set new" "(event_step es)\<^sup>*\<^sup>* q r"
      using list_all2_source [OF uv(3) \<open>r \<in> set v\<close>] by blast
    then show ?thesis using fresh_b by (meson rtranclp_trans)
  qed
  then show ?thesis
    unfolding events_evolve_def
    using rtranclp_trans_list_all2 [OF b(2) uv(2)] c(1) uv(1) fresh_c
    by (intro exI [of _ u] exI [of _ "v @ new'"]) auto
qed

lemma events_evolve_update:
  assumes "\<And>r. r \<in> set rows \<Longrightarrow> p r \<Longrightarrow> event_step es r (g r)"
  shows "events_evolve es rows (map (\<lambda>r. if p r then g r else r) rows)"
  unfolding events_evolve_def
  using assms by (intro exI [of _ "map (\<lambda>r. if p r then g r else r) rows"] exI [of _ "[]"])
    (auto simp: list_all2_conv_all_nth)

lemma events_evolve_append: "fresh r \<Longrightarrow> events_evolve es rows (rows @ [r])"
  unfolding events_evolve_def
  by (intro exI [of _ rows] exI [of _ "[r]"]) (auto simp: list_all2_refl)

definition event_ids_distinct :: "'d db \<Rightarrow> bool" where
  "event_ids_distinct d \<longleftrightarrow> distinct (map re_id (event_store d))"

definition event_store_evolves :: "event_store_config \<Rightarrow> 'd db \<Rightarrow> 'd db \<Rightarrow> bool" where
  "event_store_evolves es d e \<longleftrightarrow>
     (event_ids_distinct d \<longrightarrow>
        event_ids_distinct e \<and> events_evolve es (event_store d) (event_store e))"

interpretation events: db_relation "event_store_evolves es" for es
  by unfold_locales
     (auto simp: event_store_evolves_def intro: events_evolve_refl events_evolve_trans)

lemma event_store_evolves_same: "event_store e = event_store d \<Longrightarrow> event_store_evolves es d e"
  by (simp add: event_store_evolves_def event_ids_distinct_def events_evolve_refl)

lemma event_store_evolves_update:
  assumes "event_ids_distinct d \<Longrightarrow> \<forall>r\<in>set (event_store d). p r \<longrightarrow> event_step es r (g r)"
    and "\<And>r. re_id (g r) = re_id r"
  shows "event_store_evolves es d (d\<lparr>event_store := map (\<lambda>r. if p r then g r else r) (event_store d)\<rparr>)"
  unfolding event_store_evolves_def
proof (intro impI conjI)
  assume d: "event_ids_distinct d"
  then show "event_ids_distinct (d\<lparr>event_store := map (\<lambda>r. if p r then g r else r) (event_store d)\<rparr>)"
    using events_table.distinct_update [of g p d] assms(2) by (simp add: event_ids_distinct_def)
  show "events_evolve es (event_store d)
      (event_store (d\<lparr>event_store := map (\<lambda>r. if p r then g r else r) (event_store d)\<rparr>))"
    using events_evolve_update [of "event_store d" p es g] assms(1) d by simp
qed

section \<open>Every operation of the queue follows the machine\<close>

lemma claim_id [simp]: "re_id (claim now r) = re_id r"
  by (simp add: claim_def)

lemma set_status_id [simp]: "re_id (set_status st now r) = re_id r"
  by (simp add: set_status_def)

lemma unstick_eq: "unstick es now r = set_status (if attempts_exhausted es r then Failed else Pending) now r"
  by (simp add: unstick_def set_status_def)

lemma evolves_entry_result: "keeps (\<lambda>s t. event_store_evolves es (w_db s) (w_db t)) (entry_result r)"
  unfolding entry_result_def by (intro events.keeps_case_sum events.keeps_ok events.keeps_err)

lemma evolves_insert_event:
  "rne_status e = event_status_display Pending \<Longrightarrow> rne_attempt_count e = 0 \<Longrightarrow>
   keeps (\<lambda>s t. event_store_evolves es (w_db s) (w_db t)) (execute_serial u (insert_event e))"
proof (rule events.keeps_execute_serial)
  fix n now r and d d' :: "'a db"
  assume new: "rne_status e = event_status_display Pending" "rne_attempt_count e = 0"
    and "insert_event e n now d = Inr (r, d')"
  then have "event_store d' = event_store d @ [r]" and "re_id r \<notin> re_id ` set (event_store d)"
    and "fresh r"
    by (auto simp: insert_event_def fresh_def Let_def split: if_splits)
  then show "event_store_evolves es d d'"
    by (auto simp: event_store_evolves_def event_ids_distinct_def events_evolve_append)
qed

lemma evolves_add_event [keeps_intros]:
  "keeps (\<lambda>s t. event_store_evolves es (w_db s) (w_db t)) (add_event e)"
  unfolding add_event_def
  by (intro events.keeps_and_then events.keeps_repo evolves_insert_event evolves_entry_result)
     (simp_all add: try_from_event_def try_from_event_scheduled_on_def)

lemma evolves_add_scheduled_event [keeps_intros]:
  "keeps (\<lambda>s t. event_store_evolves es (w_db s) (w_db t)) (add_scheduled_event e t0)"
  unfolding add_scheduled_event_def
  by (intro events.keeps_and_then events.keeps_repo evolves_insert_event evolves_entry_result)
     (simp_all add: try_from_event_def try_from_event_scheduled_on_def)

lemma claimed_ids_due:
  "n \<in> set (claimed_ids limit now rows) \<Longrightarrow> \<exists>r\<in>set rows. event_entry_inner (re_id r) = n \<and> due now r"
  unfolding claimed_ids_def by (auto dest!: in_set_takeD)

lemma claimed_row_due:
  assumes "distinct (map re_id rows)" and "r \<in> set rows"
    and "event_entry_inner (re_id r) \<in> set (claimed_ids limit now rows)"
  shows "due now r"
proof -
  obtain q where q: "q \<in> set rows" "event_entry_inner (re_id q) = event_entry_inner (re_id r)" "due now q"
    using claimed_ids_due [OF assms(3)] by blast
  then have "re_id q = re_id r" by (simp add: event_entry_id.expand)
  then have "q = r" using assms(1,2) q(1) by (metis distinct_map inj_onD)
  then show ?thesis using q(3) by simp
qed

lemma claim_evolves:
  assumes "claim_events limit now t d = Inr (rows, d')"
  shows "event_store_evolves es d d'"
proof -
  let ?p = "\<lambda>r. event_entry_inner (re_id r) \<in> set (claimed_ids limit now (event_store d))"
  have d': "d' = d\<lparr>event_store := map (\<lambda>r. if ?p r then claim now r else r) (event_store d)\<rparr>"
    and small: "\<forall>r\<in>set (event_store d). ?p r \<longrightarrow> sint (re_attempt_count r) \<noteq> 2 ^ 31 - 1"
    using assms by (auto simp: claim_events_def Let_def update_rows_def split: if_splits)
  show ?thesis
    unfolding d'
  proof (rule event_store_evolves_update)
    assume d: "event_ids_distinct d"
    show "\<forall>r\<in>set (event_store d). ?p r \<longrightarrow> event_step es r (claim now r)"
    proof (intro ballI impI claimed)
      fix r assume r: "r \<in> set (event_store d)" "?p r"
      show "re_status r = event_status_display Pending"
        using claimed_row_due [OF _ r] d by (simp add: event_ids_distinct_def due_def)
      have "sint (re_attempt_count r) \<noteq> 2 ^ 31 - 1" using small r by blast
      then show "sint (re_attempt_count r) < 2 ^ 31 - 1"
        using sint_i32 [of "re_attempt_count r"] by linarith
    qed
  qed simp
qed

lemma keeps_get_events [keeps_intros]:
  "keeps (\<lambda>s t. event_store_evolves es (w_db s) (w_db t)) (get_events_for_processing limit)"
  unfolding get_events_for_processing_def
  by (intro events.keeps_and_then events.keeps_utc_now events.keeps_repo events.keeps_try_map
      evolves_entry_result events.keeps_execute) (rule claim_evolves)

lemma unstick_evolves:
  "event_store_evolves es d
     (d\<lparr>event_store := map (\<lambda>r. if stuck th now r then unstick es now r else r) (event_store d)\<rparr>)"
  by (rule event_store_evolves_update)
     (auto simp: unstick_eq stuck_def intro: released given_up)

lemma keeps_reset_stuck_events [keeps_intros]:
  "keeps (\<lambda>s t. event_store_evolves es (w_db s) (w_db t)) (reset_stuck_events es)"
  unfolding reset_stuck_events_def
  by (intro events.keeps_if events.keeps_err events.keeps_and_then events.keeps_utc_now
      events.keeps_repo events.keeps_try_map evolves_entry_result events.keeps_update_where
      unstick_evolves)

text \<open>A row found in processing may be moved on.\<close>

lemma keeps_found_row:
  assumes "\<And>r. re_id r = eid \<Longrightarrow> re_status r = event_status_display InProgress \<Longrightarrow>
      event_step es r (set_status (st r) now r)"
  shows "update_status eid (st r) now w = (res, t) \<Longrightarrow>
    row_by (\<lambda>x. re_id x = eid) (event_store (w_db w)) = Some r \<Longrightarrow>
    re_status r = event_status_display InProgress \<Longrightarrow> event_store_evolves es (w_db w) (w_db t)"
proof -
  assume run: "update_status eid (st r) now w = (res, t)"
    and found: "row_by (\<lambda>x. re_id x = eid) (event_store (w_db w)) = Some r"
    and busy: "re_status r = event_status_display InProgress"
  let ?upd = "repo (get_result (update_where event_store set_events (\<lambda>x. re_id x = eid)
      (\<lambda>_. set_status (st r) now)))"
  obtain u res' where u: "?upd w = (res', u)" by fastforce
  have "w_db t = w_db u"
    using run u unfolding update_status_def
    by (cases res') (auto simp: entry_result_def split: sum.splits)
  moreover have "event_store_evolves es (w_db w)
      ((w_db w)\<lparr>event_store := map (\<lambda>x. if re_id x = eid then set_status (st r) now x else x)
                              (event_store (w_db w))\<rparr>)"
  proof (rule event_store_evolves_update)
    assume d: "event_ids_distinct (w_db w)"
    have "x = r" if "x \<in> set (event_store (w_db w))" "re_id x = eid" for x
      using d that row_by_Some [OF found]
      by (metis event_ids_distinct_def distinct_map inj_onD)
    then show "\<forall>x\<in>set (event_store (w_db w)). re_id x = eid \<longrightarrow> event_step es x (set_status (st r) now x)"
      using assms busy by blast
  qed simp
  ultimately show ?thesis
    using update_row_db [OF u] by (auto intro: event_store_evolves_same)
qed

text \<open>Both ends of an attempt read the row first and write it only when it is in processing.\<close>

lemma keeps_finish:
  assumes run: "and_then (repo (get_result (select_where event_store (\<lambda>r. re_id r = eid)))) (\<lambda>r.
          case event_status_from_str (re_status r) of
            None \<Rightarrow> err RInternal
          | Some s \<Rightarrow> if s \<noteq> InProgress then err RInternal
              else and_then utc_now (\<lambda>now. update_status eid (st r) now)) w = (res, u)"
    and step: "\<And>now r. re_id r = eid \<Longrightarrow> re_status r = event_status_display InProgress \<Longrightarrow>
          event_step es r (set_status (st r) now r)"
  shows "event_store_evolves es (w_db w) (w_db u)"
proof -
  let ?sel = "repo (get_result (select_where event_store (\<lambda>r. re_id r = eid)))"
  obtain q t where sel: "?sel w = (q, t)" by fastforce
  have same: "w_db t = w_db w"
    using select_where_db sel by (metis repo_state get_result_state prod.collapse snd_conv)
  show ?thesis
  proof (cases q)
    case (Inl e)
    then show ?thesis
      using run sel same by (auto simp: and_then_def intro: event_store_evolves_same)
  next
    case (Inr r)
    then have found: "row_by (\<lambda>x. re_id x = eid) (event_store (w_db w)) = Some r"
      using select_row_success [of event_store "\<lambda>r. re_id r = eid" w r t] sel by simp
    show ?thesis
    proof (cases "event_status_from_str (re_status r) = Some InProgress")
      case True
      let ?t = "t\<lparr>w_clock := (\<lambda>n. w_clock t (Suc n))\<rparr>"
      have "update_status eid (st r) (w_clock t 0) ?t = (res, u)"
        using run sel Inr True by (simp add: and_then_def)
      then have "event_store_evolves es (w_db ?t) (w_db u)"
        using True found same step
        by (intro keeps_found_row [where r = r and st = st and eid = eid])
           (auto simp: event_status_from_str_iff)
      then show ?thesis by (simp add: same)
    next
      case False
      then have "u = t"
        using run sel Inr by (auto simp: and_then_def split: option.splits if_splits)
      then show ?thesis using same by (auto intro: event_store_evolves_same)
    qed
  qed
qed

lemma keeps_complete_event [keeps_intros]:
  "keeps (\<lambda>s t. event_store_evolves es (w_db s) (w_db t)) (complete_event eid)"
  unfolding complete_event_def
  by (intro events.keeps_transaction keepsI)
     (erule keeps_finish [where st = "\<lambda>_. Completed"]; blast intro: completed)

lemma keeps_fail_event [keeps_intros]:
  "keeps (\<lambda>s t. event_store_evolves es (w_db s) (w_db t)) (fail_event es eid)"
  unfolding fail_event_def Let_def
  by (intro events.keeps_transaction keepsI)
     (erule keeps_finish [where st = "\<lambda>r. if attempts_exhausted es r then Failed else Pending"];
      auto intro: released given_up)

section \<open>Consequences\<close>

lemma no_step_from_final:
  "re_status r = event_status_display st \<Longrightarrow> st \<in> {Completed, Failed} \<Longrightarrow> \<not> event_step es r r'"
  by (auto elim!: event_step_E)

lemma final_stays:
  assumes "(event_step es)\<^sup>*\<^sup>* r r'" and "re_status r = event_status_display st"
    and "st \<in> {Completed, Failed}"
  shows "r' = r"
  using assms no_step_from_final by (metis converse_rtranclpE)

text \<open>The attempts of an event that is pending have not been used up, and they never exceed the
  limit.\<close>

definition attempts_ok :: "event_store_config \<Rightarrow> raw_event_entry \<Rightarrow> bool" where
  "attempts_ok es r \<longleftrightarrow>
     (let n = sint (re_attempt_count r); m = sint (max_processing_attempts es) in
      0 \<le> n \<and> n \<le> m \<and> (re_status r = event_status_display Pending \<longrightarrow> n < m))"

lemma sint_add_one:
  fixes c :: i32
  assumes "sint c < 2 ^ 31 - 1"
  shows "sint (c + 1) = sint c + 1"
proof -
  have "sint (of_int (sint c + 1) :: i32) = sint c + 1"
    using assms sint_i32 [of c] by (intro sint_of_int_i32) linarith+
  then show ?thesis by simp
qed

lemma attempts_ok_step:
  assumes "event_step es r r'" and "attempts_ok es r"
  shows "attempts_ok es r'"
  using assms(1)
proof (cases rule: event_step.cases)
  case (claiming now)
  then show ?thesis
    using assms(2) sint_add_one [of "re_attempt_count r"]
    by (simp add: attempts_ok_def Let_def)
next
  case (releasing now)
  then show ?thesis
    using assms(2) by (simp add: attempts_ok_def Let_def)
qed (use assms(2) in \<open>simp_all add: attempts_ok_def Let_def\<close>)

lemma attempts_ok_steps: "(event_step es)\<^sup>*\<^sup>* r r' \<Longrightarrow> attempts_ok es r \<Longrightarrow> attempts_ok es r'"
  by (induction rule: rtranclp_induct) (auto intro: attempts_ok_step)

lemma attempts_ok_evolve:
  assumes "events_evolve es rows rows'" and "\<forall>r\<in>set rows. attempts_ok es r"
    and "0 < sint (max_processing_attempts es)"
  shows "\<forall>r\<in>set rows'. attempts_ok es r"
proof -
  obtain old new where *: "rows' = old @ new" "list_all2 (event_step es)\<^sup>*\<^sup>* rows old"
    "\<forall>r\<in>set new. \<exists>r0. fresh r0 \<and> (event_step es)\<^sup>*\<^sup>* r0 r"
    using assms(1) by (auto simp: events_evolve_def)
  have "attempts_ok es r" if "r \<in> set old" for r
  proof -
    obtain q where "q \<in> set rows" "(event_step es)\<^sup>*\<^sup>* q r"
      using list_all2_source [OF *(2) \<open>r \<in> set old\<close>] by blast
    then show ?thesis using assms(2) attempts_ok_steps by blast
  qed
  moreover have "attempts_ok es r0" if "fresh r0" for r0
    using that assms(3) by (simp add: fresh_def attempts_ok_def)
  then have "attempts_ok es r" if "r \<in> set new" for r
    using *(3) that attempts_ok_steps by blast
  ultimately show ?thesis using *(1) by auto
qed

section \<open>Sequences of operations\<close>

text \<open>The operations of the queue, performed one after the other by any number of workers.\<close>

datatype event_op =
    OpAdd event
  | OpAddScheduled event timestamp
  | OpTake i32
  | OpResetStuck
  | OpComplete event_entry_id
  | OpFail event_entry_id

fun perform :: "event_store_config \<Rightarrow> event_op \<Rightarrow> 'd world \<Rightarrow> 'd world" where
  "perform es (OpAdd e) w = snd (add_event e w)"
| "perform es (OpAddScheduled e t) w = snd (add_scheduled_event e t w)"
| "perform es (OpTake limit) w = snd (get_events_for_processing limit w)"
| "perform es OpResetStuck w = snd (reset_stuck_events es w)"
| "perform es (OpComplete eid) w = snd (complete_event eid w)"
| "perform es (OpFail eid) w = snd (fail_event es eid w)"

lemma perform_evolves: "event_store_evolves es (w_db w) (w_db (perform es op w))"
proof (cases op)
qed (simp_all add: evolves_add_event [unfolded keeps_def, rule_format]
      evolves_add_scheduled_event [unfolded keeps_def, rule_format]
      keeps_get_events [unfolded keeps_def, rule_format]
      keeps_reset_stuck_events [unfolded keeps_def, rule_format]
      keeps_complete_event [unfolded keeps_def, rule_format]
      keeps_fail_event [unfolded keeps_def, rule_format])

lemma fold_perform_evolves: "event_store_evolves es (w_db w) (w_db (fold (perform es) ops w))"
proof (induction ops arbitrary: w)
  case (Cons op ops)
  then show ?case
    using events.P_trans [OF perform_evolves [of es w op]] by simp
qed (simp add: events.P_refl)

section \<open>What a claim takes\<close>

lemma sorted_take_drop:
  "sorted xs \<Longrightarrow> x \<in> set (take n xs) \<Longrightarrow> y \<in> set (drop n xs) \<Longrightarrow> x \<le> y"
  by (metis append_take_drop_id sorted_append)

lemma claimed_ids_least:
  assumes "r \<in> set rows" and "due now r"
    and "event_entry_inner (re_id r) \<notin> set (claimed_ids limit now rows)"
    and "n \<in> set (claimed_ids limit now rows)"
  shows "n \<le> event_entry_inner (re_id r)"
proof -
  let ?ids = "sort (map (event_entry_inner \<circ> re_id) (filter (due now) rows))"
  have "event_entry_inner (re_id r) \<in> set ?ids" using assms(1,2) by auto
  moreover have "event_entry_inner (re_id r) \<notin> set (take (unat limit) ?ids)"
    using assms(3) by (simp add: claimed_ids_def)
  ultimately have "event_entry_inner (re_id r) \<in> set (drop (unat limit) ?ids)"
    by (metis Un_iff append_take_drop_id set_append)
  then show ?thesis
    using assms(4) by (intro sorted_take_drop [of ?ids]) (simp_all add: claimed_ids_def)
qed

lemma distinct_inner: "distinct (map re_id rows) \<Longrightarrow> distinct (map (event_entry_inner \<circ> re_id) rows)"
  by (simp add: distinct_map comp_inj_on event_entry_id.expand inj_on_def)

lemma claimed_ids_distinct: "distinct (map re_id rows) \<Longrightarrow> distinct (claimed_ids limit now rows)"
  using distinct_inner [of rows] unfolding claimed_ids_def
  by (simp add: distinct_map inj_on_def)

definition taken :: "i32 \<Rightarrow> timestamp \<Rightarrow> raw_event_entry list \<Rightarrow> raw_event_entry \<Rightarrow> bool" where
  "taken limit now rows r \<longleftrightarrow> event_entry_inner (re_id r) \<in> set (claimed_ids limit now rows)"

lemma claim_events_taken:
  assumes "\<not> (\<exists>r\<in>set (event_store d). taken limit now (event_store d) r \<and>
      sint (re_attempt_count r) = 2 ^ 31 - 1)"
  shows "claim_events limit now t d =
    Inr (map (claim now) (filter (taken limit now (event_store d)) (event_store d)),
         d\<lparr>event_store := map (\<lambda>r. if taken limit now (event_store d) r then claim now r else r)
             (event_store d)\<rparr>)"
  unfolding claim_events_def Let_def if_not_P [OF assms [unfolded taken_def]]
  by (simp add: update_rows_def taken_def [abs_def])

lemma taken_length:
  assumes "distinct (map re_id rows)"
  shows "length (filter (taken limit now rows) rows) = length (claimed_ids limit now rows)"
  unfolding taken_def
proof -
  let ?ids = "claimed_ids limit now rows" and ?key = "\<lambda>r. event_entry_inner (re_id r)"
  have "distinct (map ?key rows)" using distinct_inner [OF assms] by (simp add: comp_def)
  then have "distinct (map ?key (filter (\<lambda>r. ?key r \<in> set ?ids) rows))"
    by (rule distinct_map_filter)
  moreover have "?key ` {r \<in> set rows. ?key r \<in> set ?ids} = set ?ids"
    using claimed_ids_due [of _ limit now rows] by (auto simp: image_iff)
  then have "set (map ?key (filter (\<lambda>r. ?key r \<in> set ?ids) rows)) = set ?ids" by simp
  ultimately have "length (map ?key (filter (\<lambda>r. ?key r \<in> set ?ids) rows)) = length ?ids"
    using claimed_ids_distinct [OF assms, of limit now] by (simp only: distinct_card [symmetric])
  then show "length (filter (\<lambda>r. ?key r \<in> set ?ids) rows) = length ?ids" by simp
qed

text \<open>A decodable row becomes the entry that is returned.\<close>

definition claimed_entry :: "timestamp \<Rightarrow> raw_event_entry \<Rightarrow> event_entry" where
  "claimed_entry now r =
     \<lparr>ee_id = re_id r,
      ee_event = (case re_event r of EventJson e \<Rightarrow> e | BadJson _ \<Rightarrow> \<lparr>ev_id = EventId 0, ev_payload = NoOp\<rparr>),
      ee_status = InProgress, ee_attempt_count = re_attempt_count r + 1,
      ee_created_at = re_created_at r, ee_status_updated_at = now,
      ee_scheduled_on = re_scheduled_on r\<rparr>"

lemma entry_result_claim:
  "re_event r = EventJson e \<Longrightarrow> entry_result (claim now r) = ok (claimed_entry now r)"
  by (simp add: entry_result_def claim_def claimed_entry_def try_into_event_entry_def
      event_status_from_str_def)

lemma try_map_entry_result:
  "(\<And>r. r \<in> set rs \<Longrightarrow> \<exists>e. re_event r = EventJson e) \<Longrightarrow>
   try_map entry_result (map (claim now) rs) = ok (map (claimed_entry now) rs)"
  by (induction rs) (fastforce simp: entry_result_claim)+

lemma get_events_run:
  fixes w :: "'d world" and limit :: i32
  assumes "quiet w" and "\<forall>r\<in>set (event_store (w_db w)). (\<exists>e. re_event r = EventJson e) \<and>
      sint (re_attempt_count r) < 2 ^ 31 - 1"
  defines "p \<equiv> taken limit (w_clock w 0) (event_store (w_db w))"
  shows "get_events_for_processing limit w =
    (Inr (map (claimed_entry (w_clock w 0)) (filter p (event_store (w_db w)))),
     w\<lparr>w_clock := (\<lambda>n. w_clock w (Suc n)),
       w_db := (w_db w)\<lparr>event_store :=
         map (\<lambda>r. if p r then claim (w_clock w 0) r else r) (event_store (w_db w))\<rparr>\<rparr>)"
proof -
  let ?now = "w_clock w 0" and ?rows = "event_store (w_db w)"
  let ?w = "w\<lparr>w_clock := (\<lambda>n. w_clock w (Suc n))\<rparr>"
  have "\<not> (\<exists>r\<in>set ?rows. taken limit ?now ?rows r \<and> sint (re_attempt_count r) = 2 ^ 31 - 1)"
    using assms(2) by force
  from claim_events_taken [OF this] have "repo (execute (claim_events limit ?now)) ?w =
      (Inr (map (claim ?now) (filter p ?rows)),
       ?w\<lparr>w_db := (w_db w)\<lparr>event_store := map (\<lambda>r. if p r then claim ?now r else r) ?rows\<rparr>\<rparr>)"
    using assms(1) by (simp add: run_defs execute_quiet p_def)
  moreover have "try_map entry_result (map (claim ?now) (filter p ?rows)) =
      (ok (map (claimed_entry ?now) (filter p ?rows)) :: ('d world, repo_error, event_entry list) comp)"
    using assms(2) by (intro try_map_entry_result) auto
  ultimately show ?thesis
    by (simp add: get_events_for_processing_def ok_apply)
qed

lemma get_events_success:
  fixes w :: "'d world" and limit :: i32
  assumes "get_events_for_processing limit w = (Inr es, t)"
  defines "p \<equiv> taken limit (w_clock w 0) (event_store (w_db w))"
  shows "event_store (w_db t) = map (\<lambda>r. if p r then claim (w_clock w 0) r else r) (event_store (w_db w))"
    and "ee_id ` set es = re_id ` {r \<in> set (event_store (w_db w)). p r}"
proof -
  obtain rows u where run: "execute (claim_events limit (w_clock w 0))
        (w\<lparr>w_clock := (\<lambda>n. w_clock w (Suc n))\<rparr>) = (Inr rows, u)"
    and entries: "try_map entry_result rows u = (Inr es, t)"
    using assms(1) by (auto simp: get_events_for_processing_def success)
  have u: "event_store (w_db u) = map (\<lambda>r. if p r then claim (w_clock w 0) r else r) (event_store (w_db w))"
    and rows: "rows = map (claim (w_clock w 0)) (filter p (event_store (w_db w)))"
    using run by (auto simp: execute_def claim_events_def update_rows_def Let_def next_fault_def
        p_def taken_def [abs_def] split: if_splits)
  have same: "w_db t = w_db u \<and> map ee_id es = map re_id rows"
    using entries by (induction rows arbitrary: es u)
      (force simp: success entry_result_def dest: try_into_event_entry_Inr split: sum.splits)+
  then have "ee_id ` set es = re_id ` set rows" by (metis set_map)
  then show "event_store (w_db t) =
      map (\<lambda>r. if p r then claim (w_clock w 0) r else r) (event_store (w_db w))"
    and "ee_id ` set es = re_id ` {r \<in> set (event_store (w_db w)). p r}"
    using same u by (force simp: rows image_iff)+
qed

declare event_status_display.simps [simp del]

text \<open>The common shape of \<open>complete_event\<close> and \<open>fail_event\<close>, run without faults.\<close>

definition finish :: "event_entry_id \<Rightarrow> (raw_event_entry \<Rightarrow> event_status) \<Rightarrow> ('d world, repo_error, event_entry) comp" where
  "finish eid st =
     transaction repo_error_of_diesel
       (and_then (repo (get_result (select_where event_store (\<lambda>r. re_id r = eid)))) (\<lambda>r.
        case event_status_from_str (re_status r) of
          None \<Rightarrow> err RInternal
        | Some s \<Rightarrow> if s \<noteq> InProgress then err RInternal
                    else and_then utc_now (\<lambda>now. update_status eid (st r) now)))"

lemma complete_event_finish: "complete_event eid = finish eid (\<lambda>_. Completed)"
  by (simp add: complete_event_def finish_def)

lemma fail_event_finish:
  "fail_event es eid = finish eid (\<lambda>r. if attempts_exhausted es r then Failed else Pending)"
  unfolding fail_event_def finish_def Let_def ..

lemma update_status_quiet:
  assumes "quiet w" and "row_by (\<lambda>r. re_id r = eid) (event_store (w_db w)) = Some r"
  shows "update_status eid st now w =
    (case try_into_event_entry (set_status st now r) of Inl _ \<Rightarrow> Inl RInternal | Inr e \<Rightarrow> Inr e,
     w\<lparr>w_db := (w_db w)\<lparr>event_store :=
       map (\<lambda>r. if re_id r = eid then set_status st now r else r) (event_store (w_db w))\<rparr>\<rparr>)"
  using assms
  by (simp add: update_status_def repo_update_row entry_result_def ok_apply err_apply split: sum.split)

lemma finish_quiet:
  fixes w :: "'d world"
  assumes "quiet w"
  shows "case row_by (\<lambda>r. re_id r = eid) (event_store (w_db w)) of
      None \<Rightarrow> fst (finish eid st w) = Inl RNotFound \<and> w_db (snd (finish eid st w)) = w_db w
    | Some r \<Rightarrow>
        if re_status r = event_status_display InProgress \<and> (\<exists>e. re_event r = EventJson e) then
          (\<exists>e. fst (finish eid st w) = Inr e \<and> ee_status e = st r \<and> ee_id e = eid) \<and>
          event_store (w_db (snd (finish eid st w))) =
            map (\<lambda>q. if re_id q = eid then set_status (st r) (w_clock w 0) q else q) (event_store (w_db w))
        else fst (finish eid st w) = Inl RInternal \<and> w_db (snd (finish eid st w)) = w_db w"
proof (cases "row_by (\<lambda>r. re_id r = eid) (event_store (w_db w))")
  case None
  then show ?thesis
    using assms by (simp add: finish_def transaction_def Let_def repo_get_row)
next
  case (Some r)
  let ?m = "and_then (repo (get_result (select_where event_store (\<lambda>r. re_id r = eid)))) (\<lambda>r.
      case event_status_from_str (re_status r) of
        None \<Rightarrow> err RInternal
      | Some s \<Rightarrow> if s \<noteq> InProgress then err RInternal
                  else and_then utc_now (\<lambda>now. update_status eid (st r) now))"
  let ?w = "w\<lparr>w_depth := Suc (w_depth w)\<rparr>"
  show ?thesis
  proof (cases "re_status r = event_status_display InProgress")
    case False
    then have "?m ?w = (Inl RInternal, ?w)"
      using assms Some by (auto simp: repo_get_row event_status_from_str_iff split: option.split)
    with False Some show ?thesis
      using assms by (simp add: finish_def transaction_run [where m = ?m and r = "Inl RInternal" and t = ?w] quiet_def)
  next
    case True
    let ?t = "?w\<lparr>w_clock := (\<lambda>n. w_clock w (Suc n))\<rparr>"
    have m: "?m ?w = update_status eid (st r) (w_clock w 0) ?t"
      using assms Some True by (simp add: repo_get_row)
    note run = m [unfolded update_status_quiet [of ?t eid r "st r" "w_clock w 0", simplified, OF assms Some]]
    show ?thesis
      using transaction_run [where m = ?m, OF assms run] assms True Some row_by_Some [OF Some]
      by (cases "re_event r") (auto simp: finish_def try_into_event_entry_def set_status_def quiet_def)
  qed
qed

section \<open>Properties\<close>

text \<open>A queue for the witnesses: two events of which one is scheduled for later.\<close>

definition sample_event :: "uuid \<Rightarrow> event" where
  "sample_event n = \<lparr>ev_id = EventId n, ev_payload = NoOp\<rparr>"

definition sample_entry :: "int \<Rightarrow> timestamp option \<Rightarrow> event_status \<Rightarrow> raw_event_entry" where
  "sample_entry n sched st =
     \<lparr>re_id = EventEntryId n, re_event = EventJson (sample_event 0), re_status = event_status_display st,
      re_attempt_count = 0, re_created_at = 0, re_status_updated_at = 0, re_scheduled_on = sched\<rparr>"

definition sample_queue :: "event_status \<Rightarrow> rat world" where
  "sample_queue st = initial_world (empty_db\<lparr>event_store := [sample_entry 1 None st, sample_entry 2 (Some 9) st]\<rparr>)"

lemma sample_queue_simps [simp]:
  "quiet (sample_queue st)"
  "event_store (w_db (sample_queue st)) = [sample_entry 1 None st, sample_entry 2 (Some 9) st]"
  "event_ids_distinct (w_db (sample_queue st))"
  "w_clock (sample_queue st) n = 0"
  by (simp_all add: sample_queue_def event_ids_distinct_def sample_entry_def initial_world_def quiet_def)

text \<open>Whatever statements fail and in whatever order the workers call the operations of the event
  store, the table of events only moves along the machine \<open>event_step\<close>: rows are claimed from
  pending, leave processing as completed, pending or failed (the last two by the number of
  attempts), new rows are appended pending with no attempt, and no two rows share an id.\<close>

theorem event_store_refines_machine:
  assumes "event_ids_distinct (w_db w)"
  shows "event_ids_distinct (w_db (fold (perform es) ops w)) \<and>
    events_evolve es (event_store (w_db w)) (event_store (w_db (fold (perform es) ops w)))"
  using fold_perform_evolves [of es w ops] assms by (simp add: event_store_evolves_def)

theorem event_store_refines_machine_witness:
  "event_ids_distinct (w_db (fold (perform \<lparr>max_processing_attempts = 3, stuck_threshold_sec = 300\<rparr>)
     [OpTake 1, OpComplete (EventEntryId 1), OpResetStuck]
     (sample_queue Pending)))"
  by (rule event_store_refines_machine [THEN conjunct1]) simp

text \<open>C31: Starting from an empty store, no sequence of operations (with any failures of the database)
  gives an event more attempts than \<open>max_processing_attempts\<close>, and an event that is pending has
  attempts left.\<close>

theorem attempts_bounded:
  assumes "event_store (w_db w) = []" and "0 < sint (max_processing_attempts es)"
    and "r \<in> set (event_store (w_db (fold (perform es) ops w)))"
  shows "0 \<le> sint (re_attempt_count r) \<and>
    sint (re_attempt_count r) \<le> sint (max_processing_attempts es) \<and>
    (re_status r = event_status_display Pending \<longrightarrow>
       sint (re_attempt_count r) < sint (max_processing_attempts es))"
proof -
  have "events_evolve es [] (event_store (w_db (fold (perform es) ops w)))"
    using fold_perform_evolves [of es w ops] assms(1)
    by (simp add: event_store_evolves_def event_ids_distinct_def)
  from attempts_ok_evolve [OF this] assms(2,3) have "attempts_ok es r" by simp
  then show ?thesis by (simp add: attempts_ok_def Let_def)
qed

theorem attempts_bounded_witness:
  "sint (re_attempt_count (hd (event_store (w_db
     (fold (perform \<lparr>max_processing_attempts = 3, stuck_threshold_sec = 300\<rparr>) [OpAdd (sample_event 0)]
        empty_world))))) \<le> 3"
proof -
  let ?es = "\<lparr>max_processing_attempts = 3, stuck_threshold_sec = 300\<rparr> :: event_store_config"
  let ?w = "fold (perform ?es) [OpAdd (sample_event 0)] empty_world"
  have "event_store (w_db ?w) \<noteq> []"
    by (simp add: add_event_def run_defs execute_serial_quiet insert_event_def Let_def entry_result_def
        empty_db_def try_from_event_def try_into_event_entry_def
        event_status_from_str_def)
  then have "hd (event_store (w_db ?w)) \<in> set (event_store (w_db ?w))" by (rule hd_in_set)
  then have "sint (re_attempt_count (hd (event_store (w_db ?w)))) \<le> sint (max_processing_attempts ?es)"
    by (intro attempts_bounded [of empty_world ?es _ "[OpAdd (sample_event 0)]",
          THEN conjunct2, THEN conjunct1])
       (simp_all add: empty_db_def)
  then show ?thesis by simp
qed

text \<open>An event that is completed or failed is final: no later sequence of operations changes its row.\<close>

theorem finished_events_stay:
  assumes "event_ids_distinct (w_db w)" and "i < length (event_store (w_db w))"
    and "re_status (event_store (w_db w) ! i) \<in> {event_status_display Completed, event_status_display Failed}"
  shows "event_store (w_db (fold (perform es) ops w)) ! i = event_store (w_db w) ! i"
proof -
  let ?rows = "event_store (w_db w)"
  obtain old new where *: "event_store (w_db (fold (perform es) ops w)) = old @ new"
    "list_all2 (event_step es)\<^sup>*\<^sup>* ?rows old"
    using fold_perform_evolves [of es w ops] assms(1)
    by (auto simp: event_store_evolves_def events_evolve_def)
  then have "(event_step es)\<^sup>*\<^sup>* (?rows ! i) (old ! i)" and "i < length old"
    using assms(2) by (auto simp: list_all2_conv_all_nth)
  then show ?thesis
    using assms(3) *(1) final_stays [of es "?rows ! i" "old ! i"]
    by (auto simp: nth_append simp del: event_status_display.simps)
qed

theorem finished_events_stay_witness:
  "event_store (w_db (fold (perform \<lparr>max_processing_attempts = 3, stuck_threshold_sec = 300\<rparr>)
     [OpTake 2, OpResetStuck, OpFail (EventEntryId 1)] (sample_queue Completed))) ! 0 =
   sample_entry 1 None Completed"
  by (rule trans [OF finished_events_stay]) (simp_all add: sample_entry_def)

text \<open>\<open>get_events_for_processing\<close> takes the pending events that are due, at most \<open>limit\<close> of them and
  those with the smallest ids, counts the attempt, marks them as in processing, changes no other
  row, and returns exactly the rows it has marked.\<close>

theorem get_events_for_processing_takes_due:
  fixes w :: "'d world" and limit :: i32
  assumes "quiet w" and "event_ids_distinct (w_db w)"
    and "\<forall>r\<in>set (event_store (w_db w)). (\<exists>e. re_event r = EventJson e) \<and>
           sint (re_attempt_count r) < 2 ^ 31 - 1"
  defines "rows \<equiv> event_store (w_db w)" and "now \<equiv> w_clock w 0"
  defines "mine \<equiv> taken limit now rows"
  shows "\<exists>t. get_events_for_processing limit w = (Inr (map (claimed_entry now) (filter mine rows)), t) \<and>
      event_store (w_db t) = map (\<lambda>r. if mine r then claim now r else r) rows \<and>
      length (filter mine rows) = min (unat limit) (length (filter (due now) rows)) \<and>
      (\<forall>r\<in>set rows. mine r \<longrightarrow> due now r) \<and>
      (\<forall>r\<in>set rows. \<forall>q\<in>set rows. mine r \<and> due now q \<and> \<not> mine q \<longrightarrow>
         event_entry_inner (re_id r) \<le> event_entry_inner (re_id q))"
proof -
  have d: "distinct (map re_id rows)" using assms(2) by (simp add: event_ids_distinct_def rows_def)
  have "length (filter mine rows) = min (unat limit) (length (filter (due now) rows))"
    using taken_length [OF d, of limit now] by (simp add: mine_def claimed_ids_def)
  moreover have "\<forall>r\<in>set rows. mine r \<longrightarrow> due now r"
    using claimed_row_due [OF d] by (auto simp: mine_def taken_def)
  moreover have "event_entry_inner (re_id r) \<le> event_entry_inner (re_id q)"
    if "q \<in> set rows" "mine r" "due now q" "\<not> mine q" for r q
    using that claimed_ids_least [of q rows now limit] by (simp add: mine_def taken_def)
  ultimately show ?thesis
    using get_events_run [OF assms(1,3), of limit]
    by (simp add: rows_def now_def mine_def)
qed

lemma sample_claimed_ids:
  "claimed_ids limit 0 [sample_entry 1 None Pending, sample_entry 2 (Some 9) Pending] = take (unat limit) [1]"
  by (simp add: claimed_ids_def due_def sample_entry_def)

theorem get_events_for_processing_takes_due_witness:
  "\<exists>t. get_events_for_processing 5 (sample_queue Pending) =
     (Inr [claimed_entry 0 (sample_entry 1 None Pending)], t)"
  using get_events_for_processing_takes_due [of "sample_queue Pending" 5] sample_claimed_ids [of 5]
  by (auto simp: sample_entry_def taken_def)

text \<open>An event that one call of \<open>get_events_for_processing\<close> has taken is not taken again by a later
  call, whatever statements fail.\<close>

theorem event_not_taken_twice:
  assumes "event_ids_distinct (w_db w)"
    and "get_events_for_processing limit w = (Inr es, t)"
    and "get_events_for_processing limit' t = (Inr es', u)"
  shows "ee_id ` set es \<inter> ee_id ` set es' = {}"
proof (rule ccontr)
  let ?p = "\<lambda>l w. taken l (w_clock w 0) (event_store (w_db w))"
  assume "ee_id ` set es \<inter> ee_id ` set es' \<noteq> {}"
  then obtain r q where r: "r \<in> set (event_store (w_db w))" "?p limit w r"
    and q: "q \<in> set (event_store (w_db t))" "?p limit' t q" "re_id q = re_id r"
    unfolding get_events_success(2) [OF assms(2)] get_events_success(2) [OF assms(3)] by (auto dest: sym)
  have d: "distinct (map re_id (event_store (w_db t)))"
    using assms(1) keepsD [OF keeps_get_events assms(2)]
    by (simp add: event_store_evolves_def event_ids_distinct_def)
  have "claim (w_clock w 0) r \<in> set (event_store (w_db t))"
    using r by (force simp: get_events_success(1) [OF assms(2)])
  then have "q = claim (w_clock w 0) r"
    using d q by (metis claim_id distinct_map inj_onD)
  moreover have "due (w_clock t 0) q"
    using claimed_row_due [OF d q(1)] q(2) by (simp add: taken_def)
  ultimately show False by (simp add: due_def claim_def)
qed

theorem event_not_taken_twice_witness:
  "\<exists>es t es' u. get_events_for_processing 1 (sample_queue Pending) = (Inr es, t) \<and> es \<noteq> [] \<and>
     get_events_for_processing 1 t = (Inr es', u) \<and> ee_id ` set es \<inter> ee_id ` set es' = {}"
proof -
  obtain es t where first: "get_events_for_processing 1 (sample_queue Pending) = (Inr es, t)" "es \<noteq> []"
    and t: "quiet t" "event_store (w_db t) =
      [claim 0 (sample_entry 1 None Pending), sample_entry 2 (Some 9) Pending]"
    using get_events_run [of "sample_queue Pending" 1] sample_claimed_ids [of 1]
    by (auto simp: sample_entry_def taken_def)
  moreover obtain es' u where "get_events_for_processing 1 t = (Inr es', u)"
    using get_events_run [of t 1] t by (auto simp: sample_entry_def claim_def)
  ultimately show ?thesis
    using event_not_taken_twice [OF _ first(1)] by fastforce
qed

text \<open>\<open>complete_event\<close> and \<open>fail_event\<close> change the row of an event only when it is in processing and
  can be decoded; the first makes it completed, the second makes it pending again, or failed when
  its attempts are used up. In every other case they return an error and leave the tables as they
  were.\<close>

theorem finish_event_cases:
  fixes w :: "'d world" and eid :: event_entry_id and es :: event_store_config
  assumes "quiet w"
  defines "row \<equiv> row_by (\<lambda>r. re_id r = eid) (event_store (w_db w))"
    and "finished \<equiv> (\<lambda>st. map (\<lambda>r. if re_id r = eid then set_status st (w_clock w 0) r else r)
           (event_store (w_db w)))"
    and "again \<equiv> (\<lambda>r. if attempts_exhausted es r then Failed else Pending)"
  shows "case row of
      None \<Rightarrow> fst (complete_event eid w) = Inl RNotFound \<and> w_db (snd (complete_event eid w)) = w_db w \<and>
        fst (fail_event es eid w) = Inl RNotFound \<and> w_db (snd (fail_event es eid w)) = w_db w
    | Some r \<Rightarrow>
        if re_status r = event_status_display InProgress \<and> (\<exists>e. re_event r = EventJson e) then
          (\<exists>e. fst (complete_event eid w) = Inr e \<and> ee_status e = Completed \<and> ee_id e = eid) \<and>
          event_store (w_db (snd (complete_event eid w))) = finished Completed \<and>
          (\<exists>e. fst (fail_event es eid w) = Inr e \<and> ee_status e = again r \<and> ee_id e = eid) \<and>
          event_store (w_db (snd (fail_event es eid w))) = finished (again r)
        else
          fst (complete_event eid w) = Inl RInternal \<and> w_db (snd (complete_event eid w)) = w_db w \<and>
          fst (fail_event es eid w) = Inl RInternal \<and> w_db (snd (fail_event es eid w)) = w_db w"
  using finish_quiet [OF assms(1), of eid "\<lambda>_. Completed"] finish_quiet [OF assms(1), of eid again]
  unfolding complete_event_finish fail_event_finish again_def row_def finished_def
  by (auto split: option.splits if_splits)

theorem finish_event_cases_witness:
  "w_db (snd (complete_event (EventEntryId 1) (sample_queue Pending))) = w_db (sample_queue Pending) \<and>
   map re_status (event_store (w_db (snd (complete_event (EventEntryId 1) (sample_queue InProgress))))) =
     [event_status_display Completed, event_status_display InProgress]"
  using finish_event_cases [of "sample_queue Pending" "EventEntryId 1"]
    finish_event_cases [of "sample_queue InProgress" "EventEntryId 1"]
  by (auto simp: sample_entry_def set_status_def)

end
