(* ===== verification/InvoicesRepo.thy ===== *)
theory InvoicesRepo
  imports Prelude Models World Authorization Tables Constraints
begin

text \<open>
  \<open>repos/invoices_v2.rs\<close>: invoices and the ledger of received amounts. The main property is that the
  amount captured by an invoice is the sum of its ledger, whatever statement fails.
\<close>

section \<open>Operations\<close>

definition invoices_in_scope :: "('d, user_id) scope_checker" where
  "invoices_in_scope uid s obj =
     (case s of
        ScopeAll \<Rightarrow> ok True
      | ScopeOwned \<Rightarrow> ok (case obj of Some u \<Rightarrow> user_inner u = uid | None \<Rightarrow> False))"

abbreviation check_invoice :: "acl \<Rightarrow> action \<Rightarrow> raw_invoice \<Rightarrow> ('d world, repo_error, unit) comp" where
  "check_invoice acl act i \<equiv> check acl ResInvoice act invoices_in_scope (Some (inv_buyer_user_id i))"

definition invoices_get :: "acl \<Rightarrow> invoice_id \<Rightarrow> ('d world, repo_error, raw_invoice option) comp" where
  "invoices_get acl iid =
     and_then (repo (optional (get_result (select_where invoices_v2 (\<lambda>i. inv_id i = iid))))) (\<lambda>invoice.
     case invoice of
       None \<Rightarrow> ok None
     | Some i \<Rightarrow> and_then (check_invoice acl ActRead i) (\<lambda>_. ok (Some i)))"

definition invoices_get_by_account_id ::
  "acl \<Rightarrow> account_id \<Rightarrow> ('d world, repo_error, raw_invoice option) comp" where
  "invoices_get_by_account_id acl aid =
     and_then (repo (optional (get_result (select_where invoices_v2 (\<lambda>i. inv_account_id i = Some aid))))) (\<lambda>invoice.
     case invoice of
       None \<Rightarrow> ok None
     | Some i \<Rightarrow> and_then (check_invoice acl ActRead i) (\<lambda>_. ok (Some i)))"

definition insert_invoice ::
  "raw_new_invoice \<Rightarrow> timestamp \<Rightarrow> 'd db \<Rightarrow> diesel_error + (raw_invoice \<times> 'd db)" where
  "insert_invoice p now d =
     (let i = \<lparr>inv_id = rni_id p, inv_account_id = rni_account_id p,
               inv_buyer_currency = rni_buyer_currency p, inv_amount_captured = rni_amount_captured p,
               inv_final_amount_paid = None, inv_final_cashback_amount = None, inv_paid_at = None,
               inv_created_at = now, inv_updated_at = now, inv_buyer_user_id = rni_buyer_user_id p,
               inv_status = rni_status p\<rparr>
      in if \<exists>q\<in>set (invoices_v2 d). inv_id q = inv_id i \<or>
              (inv_account_id i \<noteq> None \<and> inv_account_id q = inv_account_id i)
         then Inl UniqueViolation
         else if \<exists>a. inv_account_id i = Some a \<and> a \<notin> acc_id ` set (accounts d)
         then Inl OtherDieselError
         else Inr (i, d\<lparr>invoices_v2 := invoices_v2 d @ [i]\<rparr>))"

definition invoices_create :: "acl \<Rightarrow> new_invoice \<Rightarrow> ('d world, repo_error, raw_invoice) comp" where
  "invoices_create acl input =
     and_then (check acl ResInvoice ActWrite invoices_in_scope (Some (ni_buyer_user_id input))) (\<lambda>_.
     repo (execute (insert_invoice (raw_new_invoice_of input))))"

definition insert_amount_received ::
  "new_amount_received \<Rightarrow> timestamp \<Rightarrow> 'd db \<Rightarrow> diesel_error + (raw_amount_received \<times> 'd db)" where
  "insert_amount_received p now d =
     (let r = \<lparr>ar_id = nar_id p, ar_invoice_id = nar_invoice_id p,
               ar_amount_received = nar_amount_received p, ar_created_at = now\<rparr>
      in if \<exists>q\<in>set (amounts_received d). ar_id q = ar_id r then Inl UniqueViolation
         else if ar_invoice_id r \<notin> inv_id ` set (invoices_v2 d) then Inl OtherDieselError
         else Inr (r, d\<lparr>amounts_received := amounts_received d @ [r]\<rparr>))"

definition update_invoice ::
  "invoice_id \<Rightarrow> (raw_invoice \<Rightarrow> raw_invoice) \<Rightarrow> ('d world, diesel_error, raw_invoice) comp" where
  "update_invoice iid g =
     get_result (update_where invoices_v2 set_invoices (\<lambda>i. inv_id i = iid) (touch_invoice g))"

text \<open>The two halves of \<open>increase_amount_captured\<close>: what is read and computed before the transaction,
  and the transaction.\<close>

definition increase_read ::
  "acl \<Rightarrow> account_id \<Rightarrow> amount \<Rightarrow> ('d world, repo_error, invoice_id \<times> amount) comp" where
  "increase_read acl aid received =
     and_then (repo (get_result (select_where invoices_v2 (\<lambda>i. inv_account_id i = Some aid)))) (\<lambda>i.
     and_then (check_invoice acl ActWrite i) (\<lambda>_.
     and_then (ok_or RInternal (checked_add (inv_amount_captured i) received)) (\<lambda>captured.
     ok (inv_id i, captured))))"

definition increase_write ::
  "transaction_id \<Rightarrow> amount \<Rightarrow> invoice_id \<times> amount \<Rightarrow> ('d world, repo_error, raw_invoice) comp" where
  "increase_write tx received = (\<lambda>(iid, captured).
     repo (transaction id
       (and_then (execute (insert_amount_received
            \<lparr>nar_id = tx, nar_invoice_id = iid, nar_amount_received = received\<rparr>)) (\<lambda>_.
        update_invoice iid (\<lambda>i. i\<lparr>inv_amount_captured := captured\<rparr>)))))"

definition increase_amount_captured ::
  "acl \<Rightarrow> account_id \<Rightarrow> transaction_id \<Rightarrow> amount \<Rightarrow> ('d world, repo_error, raw_invoice) comp" where
  "increase_amount_captured acl aid tx received =
     and_then (increase_read acl aid received) (increase_write tx received)"

text \<open>The updates by id read the invoice and check it first.\<close>

definition checked_update ::
  "acl \<Rightarrow> invoice_id \<Rightarrow> (raw_invoice \<Rightarrow> raw_invoice) \<Rightarrow> ('d world, repo_error, raw_invoice) comp" where
  "checked_update acl iid g =
     and_then (repo (get_result (select_where invoices_v2 (\<lambda>i. inv_id i = iid)))) (\<lambda>i.
     and_then (check_invoice acl ActWrite i) (\<lambda>_.
     repo (update_invoice iid g)))"

definition set_amount_paid ::
  "acl \<Rightarrow> invoice_id \<Rightarrow> invoice_set_amount_paid \<Rightarrow> ('d world, repo_error, raw_invoice) comp" where
  "set_amount_paid acl iid input = checked_update acl iid (set_amount_paid_changes input)"

definition set_amount_paid_fiat ::
  "acl \<Rightarrow> invoice_id \<Rightarrow> invoice_set_amount_paid \<Rightarrow> ('d world, repo_error, raw_invoice) comp" where
  "set_amount_paid_fiat acl iid input = checked_update acl iid (set_amount_paid_fiat_changes input)"

definition unlink_account :: "acl \<Rightarrow> invoice_id \<Rightarrow> ('d world, repo_error, raw_invoice) comp" where
  "unlink_account acl iid = checked_update acl iid (\<lambda>i. i\<lparr>inv_account_id := None\<rparr>)"

definition invoices_delete :: "acl \<Rightarrow> invoice_id \<Rightarrow> ('d world, repo_error, raw_invoice option) comp" where
  "invoices_delete acl iid =
     and_then (repo (optional (get_result (select_where invoices_v2 (\<lambda>i. inv_id i = iid))))) (\<lambda>invoice.
     case invoice of
       None \<Rightarrow> ok None
     | Some i \<Rightarrow>
         and_then (check_invoice acl ActWrite i) (\<lambda>_.
         repo (optional (get_result (execute (delete_invoices_where (\<lambda>i. inv_id i = iid)))))))"

section \<open>The ledger\<close>

definition received :: "raw_amount_received list \<Rightarrow> invoice_id \<Rightarrow> nat" where
  "received rows iid = (\<Sum>r\<leftarrow>filter (\<lambda>r. ar_invoice_id r = iid) rows. unat (inner (ar_amount_received r)))"

text \<open>Every invoice has captured what its ledger says; ledger entries belong to invoices, and the keys
  of the two tables are unique.\<close>

definition ledger_ok :: "'d db \<Rightarrow> bool" where
  "ledger_ok d \<longleftrightarrow>
     distinct (map inv_id (invoices_v2 d)) \<and> distinct (map ar_id (amounts_received d)) \<and>
     (\<forall>r\<in>set (amounts_received d). ar_invoice_id r \<in> inv_id ` set (invoices_v2 d)) \<and>
     (\<forall>i\<in>set (invoices_v2 d). unat (inner (inv_amount_captured i)) = received (amounts_received d) (inv_id i))"

text \<open>The same, except for the sums of some invoices.\<close>

definition ledger_except :: "invoice_id set \<Rightarrow> 'd db \<Rightarrow> bool" where
  "ledger_except exempt d \<longleftrightarrow>
     distinct (map inv_id (invoices_v2 d)) \<and> distinct (map ar_id (amounts_received d)) \<and>
     (\<forall>r\<in>set (amounts_received d). ar_invoice_id r \<in> inv_id ` set (invoices_v2 d)) \<and>
     (\<forall>i\<in>set (invoices_v2 d).
        inv_id i \<in> exempt \<or> unat (inner (inv_amount_captured i)) = received (amounts_received d) (inv_id i))"

lemma ledger_except_none: "ledger_except {} d \<longleftrightarrow> ledger_ok d"
  by (simp add: ledger_except_def ledger_ok_def)

definition keeps_ledger :: "invoice_id set \<Rightarrow> 'd db \<Rightarrow> 'd db \<Rightarrow> bool" where
  "keeps_ledger exempt d e \<longleftrightarrow> (ledger_except exempt d \<longrightarrow> ledger_except exempt e)"

interpretation ledger: db_relation "keeps_ledger exempt" for exempt
  by unfold_locales (auto simp: keeps_ledger_def)

lemma received_simps [simp]:
  "received [] iid = 0"
  "received (rows @ [r]) iid =
     received rows iid + (if ar_invoice_id r = iid then unat (inner (ar_amount_received r)) else 0)"
  by (simp_all add: received_def)

lemma received_none: "(\<And>r. r \<in> set rows \<Longrightarrow> ar_invoice_id r \<noteq> iid) \<Longrightarrow> received rows iid = 0"
  by (simp add: received_def filter_False)

lemma update_invoice_success:
  assumes "update_invoice iid g w = (Inr i, t)"
  shows "w_db t = (w_db w)\<lparr>invoices_v2 :=
      map (\<lambda>i. if inv_id i = iid then touch_invoice g (w_clock w 0) i else i) (invoices_v2 (w_db w))\<rparr>"
    and "\<not> w_aborted t"
    and "\<exists>j. row_by (\<lambda>i. inv_id i = iid) (invoices_v2 (w_db w)) = Some j \<and>
      i = touch_invoice g (w_clock w 0) j"
proof -
  obtain rs where "update_where invoices_v2 set_invoices (\<lambda>i. inv_id i = iid) (touch_invoice g) w =
      (Inr (i # rs), t)"
    using assms unfolding update_invoice_def get_result_success by blast
  from update_where_success [OF this]
  have rows: "i # rs = map (touch_invoice g (w_clock w 0)) (filter (\<lambda>i. inv_id i = iid) (invoices_v2 (w_db w)))"
    and rest: "w_db t = (w_db w)\<lparr>invoices_v2 :=
      map (\<lambda>i. if inv_id i = iid then touch_invoice g (w_clock w 0) i else i) (invoices_v2 (w_db w))\<rparr>"
      "\<not> w_aborted t"
    by simp_all
  then show "\<exists>j. row_by (\<lambda>i. inv_id i = iid) (invoices_v2 (w_db w)) = Some j \<and>
      i = touch_invoice g (w_clock w 0) j"
    by (auto simp: row_by_def split: list.splits)
  show "w_db t = (w_db w)\<lparr>invoices_v2 :=
      map (\<lambda>i. if inv_id i = iid then touch_invoice g (w_clock w 0) i else i) (invoices_v2 (w_db w))\<rparr>"
    and "\<not> w_aborted t"
    by (rule rest)+
qed

lemma ledger_exceptI:
  assumes "ledger_except X d" and "map inv_id (invoices_v2 e) = map inv_id (invoices_v2 d)"
    and "distinct (map ar_id (amounts_received e))"
    and "\<And>r. r \<in> set (amounts_received e) \<Longrightarrow> ar_invoice_id r \<in> inv_id ` set (invoices_v2 d)"
    and "\<And>i. i \<in> set (invoices_v2 e) \<Longrightarrow>
        inv_id i \<in> X \<or> unat (inner (inv_amount_captured i)) = received (amounts_received e) (inv_id i)"
  shows "ledger_except X e"
proof -
  have "inv_id ` set (invoices_v2 e) = inv_id ` set (invoices_v2 d)"
    using assms(2) by (metis set_map)
  then show ?thesis using assms by (simp add: ledger_except_def)
qed

lemma ledger_unique:
  "ledger_except X d \<Longrightarrow> i \<in> set (invoices_v2 d) \<Longrightarrow> j \<in> set (invoices_v2 d) \<Longrightarrow> inv_id i = inv_id j \<Longrightarrow> i = j"
  by (auto simp: ledger_except_def distinct_map inj_on_def)

lemma ledger_update:
  assumes "\<And>i. inv_id (g i) = inv_id i"
    and "\<And>i. p i \<Longrightarrow> inv_id i \<in> X \<or> inv_amount_captured (g i) = inv_amount_captured i"
  shows "keeps_ledger X d (d\<lparr>invoices_v2 := map (\<lambda>i. if p i then touch_invoice g now i else i) (invoices_v2 d)\<rparr>)"
    (is "keeps_ledger X d ?e")
  unfolding keeps_ledger_def
proof
  assume d: "ledger_except X d"
  let ?f = "\<lambda>i. if p i then touch_invoice g now i else i"
  have f: "inv_id (?f i) = inv_id i" "inv_id i \<in> X \<or> inv_amount_captured (?f i) = inv_amount_captured i" for i
    using assms(2) [of i] by (auto simp: assms(1))
  show "ledger_except X ?e"
  proof (rule ledger_exceptI [OF d])
    show "map inv_id (invoices_v2 ?e) = map inv_id (invoices_v2 d)"
      by (auto simp: assms(1))
    show "inv_id i \<in> X \<or> unat (inner (inv_amount_captured i)) = received (amounts_received ?e) (inv_id i)"
      if i: "i \<in> set (invoices_v2 ?e)" for i
    proof -
      obtain j where j: "j \<in> set (invoices_v2 d)" "i = ?f j" using i by auto
      then have "inv_id j \<in> X \<or> unat (inner (inv_amount_captured j)) = received (amounts_received d) (inv_id j)"
        using d by (simp add: ledger_except_def)
      then show ?thesis using f [of j] unfolding j(2) by auto
    qed
  qed (use d in \<open>auto simp: ledger_except_def\<close>)
qed

lemma ledger_insert_invoice:
  assumes "insert_invoice p now d = Inr (i, e)" and "rni_amount_captured p = Amount 0"
  shows "keeps_ledger X d e"
proof -
  have e: "e = d\<lparr>invoices_v2 := invoices_v2 d @ [i]\<rparr>" "inv_id i \<notin> inv_id ` set (invoices_v2 d)"
    "inv_amount_captured i = Amount 0"
    using assms by (auto simp: insert_invoice_def Let_def split: if_splits)
  show ?thesis
    unfolding keeps_ledger_def
  proof
    assume d: "ledger_except X d"
    then have "ar_invoice_id r \<noteq> inv_id i" if "r \<in> set (amounts_received d)" for r
      using that e(2) by (metis ledger_except_def)
    then have "received (amounts_received d) (inv_id i) = 0" by (rule received_none)
    with d e show "ledger_except X e" by (auto simp: ledger_except_def)
  qed
qed

text \<open>The effect of the transaction of \<open>increase_amount_captured\<close>: a success changes both tables, an
  error none.\<close>

definition credited ::
  "transaction_id \<Rightarrow> amount \<Rightarrow> invoice_id \<Rightarrow> amount \<Rightarrow> 'd db \<Rightarrow> timestamp \<Rightarrow> timestamp \<Rightarrow> 'd db" where
  "credited tx amt iid captured d now later =
     d\<lparr>amounts_received := amounts_received d @
         [\<lparr>ar_id = tx, ar_invoice_id = iid, ar_amount_received = amt, ar_created_at = now\<rparr>],
       invoices_v2 := map (\<lambda>i. if inv_id i = iid
           then touch_invoice (\<lambda>i. i\<lparr>inv_amount_captured := captured\<rparr>) later i else i) (invoices_v2 d)\<rparr>"

lemma increase_write_error:
  "increase_write tx amt p w = (Inl e, t) \<Longrightarrow> w_db t = w_db w"
  unfolding increase_write_def
  by (auto simp: repo_Inl split: prod.splits dest!: transaction_error_db)

lemma increase_write_success:
  assumes "increase_write tx amt (iid, captured) w = (Inr i, t)"
  shows "tx \<notin> ar_id ` set (amounts_received (w_db w)) \<and>
    (\<exists>now later. w_db t = credited tx amt iid captured (w_db w) now later) \<and>
    (\<exists>j later. row_by (\<lambda>j. inv_id j = iid) (invoices_v2 (w_db w)) = Some j \<and>
       i = touch_invoice (\<lambda>i. i\<lparr>inv_amount_captured := captured\<rparr>) later j)"
proof -
  let ?insert = "execute (insert_amount_received
        \<lparr>nar_id = tx, nar_invoice_id = iid, nar_amount_received = amt\<rparr>)"
  let ?update = "update_invoice iid (\<lambda>i. i\<lparr>inv_amount_captured := captured\<rparr>)"
  have tr: "transaction id (and_then ?insert (\<lambda>_. ?update)) w = (Inr i, t)"
    using assms by (simp add: increase_write_def success del: transaction_def)
  from transaction_inner [OF tr]
  obtain u where u: "and_then ?insert (\<lambda>_. ?update) (inner_world w) = (Inr i, u)"
    and t: "w_db t = w_db u \<and> \<not> w_aborted u \<or> w_db t = w_db w \<and> w_aborted u"
    by blast
  obtain row v where row: "?insert (inner_world w) = (Inr row, v)" and upd: "?update v = (Inr i, u)"
    using u unfolding and_then_success by blast
  from execute_success [OF row]
  have *: "row = \<lparr>ar_id = tx, ar_invoice_id = iid, ar_amount_received = amt, ar_created_at = w_clock w 0\<rparr>"
    "tx \<notin> ar_id ` set (amounts_received (w_db w))"
    "w_db v = (w_db w)\<lparr>amounts_received := amounts_received (w_db w) @ [row]\<rparr>"
    by (auto simp: insert_amount_received_def Let_def split: if_splits)
  have "w_db t = w_db u" using t update_invoice_success(2) [OF upd] by blast
  then have "w_db t = credited tx amt iid captured (w_db w) (w_clock w 0) (w_clock v 0)"
    using * update_invoice_success(1) [OF upd] by (simp add: credited_def)
  with * update_invoice_success(3) [OF upd] show ?thesis by auto
qed

lemma ledger_increase:
  assumes d: "ledger_except X d" and i: "i \<in> set (invoices_v2 d)" and tx: "tx \<notin> ar_id ` set (amounts_received d)"
    and c: "checked_add (inv_amount_captured i) amt = Some captured"
  shows "ledger_except X (credited tx amt (inv_id i) captured d now later)"
    (is "ledger_except X ?e")
proof (rule ledger_exceptI [OF d])
  let ?f = "\<lambda>j. if inv_id j = inv_id i
      then touch_invoice (\<lambda>j. j\<lparr>inv_amount_captured := captured\<rparr>) later j else j"
  have sum: "unat (inner captured) = unat (inner (inv_amount_captured i)) + unat (inner amt)"
    using c by (cases captured) (auto simp: checked_add_def u128_checked_add_Some)
  show "map inv_id (invoices_v2 ?e) = map inv_id (invoices_v2 d)"
    by (auto simp: credited_def)
  show "distinct (map ar_id (amounts_received ?e))"
    using d tx by (simp add: ledger_except_def credited_def)
  show "ar_invoice_id r \<in> inv_id ` set (invoices_v2 d)" if "r \<in> set (amounts_received ?e)" for r
    using that d i by (auto simp: ledger_except_def credited_def)
  show "inv_id k \<in> X \<or> unat (inner (inv_amount_captured k)) = received (amounts_received ?e) (inv_id k)"
    if k: "k \<in> set (invoices_v2 ?e)" for k
  proof -
    obtain j where j: "j \<in> set (invoices_v2 d)" "k = ?f j" using k by (auto simp: credited_def)
    have old: "inv_id j \<in> X \<or> unat (inner (inv_amount_captured j)) = received (amounts_received d) (inv_id j)"
      using d j(1) by (simp add: ledger_except_def)
    show ?thesis
    proof (cases "inv_id j = inv_id i")
      case True
      then have "j = i" using ledger_unique [OF d i j(1)] by simp
      with old have "inv_id i \<in> X \<or> unat (inner captured) = received (amounts_received d) (inv_id i) + unat (inner amt)"
        by (simp add: sum)
      with True show ?thesis by (simp add: j(2) credited_def)
    next
      case False
      with old show ?thesis by (simp add: j(2) credited_def)
    qed
  qed
qed

section \<open>Every operation keeps the ledger\<close>

lemma keeps_check_invoice [keeps_intros]:
  "keeps (\<lambda>s t. keeps_ledger X (w_db s) (w_db t)) (check acl res act invoices_in_scope obj)"
  unfolding invoices_in_scope_def
  by (rule ledger.keeps_check) (auto intro!: ledger.keeps_ok split: scope.split)

lemma keeps_ledger_same: "w_db t = w_db s \<Longrightarrow> keeps_ledger X (w_db s) (w_db t)"
  by (simp add: keeps_ledger_def)

lemma reading_check_invoice:
  "keeps (\<lambda>s t. same_db (w_db s) (w_db t)) (check acl res act invoices_in_scope obj)"
  unfolding invoices_in_scope_def
  by (rule reading.keeps_check) (auto intro!: reading.keeps_ok split: scope.split)

lemma reading_increase_read: "keeps (\<lambda>s t. same_db (w_db s) (w_db t)) (increase_read acl aid amt)"
  unfolding increase_read_def
  by (intro keeps_intros reading_check_invoice)


lemma keeps_checked_update:
  assumes "\<And>i. inv_id (g i) = inv_id i" and "\<And>i. iid \<in> X \<or> inv_amount_captured (g i) = inv_amount_captured i"
  shows "keeps (\<lambda>s t. keeps_ledger X (w_db s) (w_db t)) (checked_update acl iid g)"
  unfolding checked_update_def update_invoice_def
  by (intro keeps_intros ledger.keeps_update_where ledger_update) (use assms in auto)

text \<open>The payment of a fiat invoice overwrites what it has captured.\<close>

lemma keeps_set_amount_paid_fiat:
  "iid \<in> X \<Longrightarrow> keeps (\<lambda>s t. keeps_ledger X (w_db s) (w_db t)) (set_amount_paid_fiat acl iid p)"
  unfolding set_amount_paid_fiat_def
  by (rule keeps_checked_update) (simp_all add: set_amount_paid_fiat_changes_def)

lemma keeps_set_amount_paid [keeps_intros]:
  "keeps (\<lambda>s t. keeps_ledger X (w_db s) (w_db t)) (set_amount_paid acl iid p)"
  unfolding set_amount_paid_def
  by (rule keeps_checked_update) (simp_all add: set_amount_paid_changes_def)

lemma keeps_unlink_account [keeps_intros]:
  "keeps (\<lambda>s t. keeps_ledger X (w_db s) (w_db t)) (unlink_account acl iid)"
  unfolding unlink_account_def by (rule keeps_checked_update) simp_all

lemma keeps_invoices_create [keeps_intros]:
  "ni_amount_captured p = Amount 0 \<Longrightarrow>
   keeps (\<lambda>s t. keeps_ledger X (w_db s) (w_db t)) (invoices_create acl p)"
  unfolding invoices_create_def
  by (intro keeps_intros ledger.keeps_execute)
     (erule ledger_insert_invoice, simp add: raw_new_invoice_of_def)

lemma ledger_delete:
  assumes "delete_invoices_where p now d = Inr (gone, e)"
  shows "keeps_ledger X d e"
  unfolding keeps_ledger_def
proof
  assume d: "ledger_except X d"
  note frame = delete_invoices_where_frame [OF assms]
  have in_gone: "(\<exists>j\<in>set gone. x = inv_id j) \<longleftrightarrow> x \<in> inv_id ` set (filter p (invoices_v2 d))" for x
    using frame by auto
  have kept: "x \<in> inv_id ` set (invoices_v2 e)"
    if "x \<in> inv_id ` set (invoices_v2 d)" "\<not> (\<exists>j\<in>set gone. x = inv_id j)" for x
    using that frame by auto
  have "inv_id i \<in> X \<or> unat (inner (inv_amount_captured i)) = received (amounts_received e) (inv_id i)"
    if i: "i \<in> set (invoices_v2 e)" for i
  proof -
    have i': "i \<in> set (invoices_v2 d)" "\<not> p i" using i frame by auto
    have "\<not> (\<exists>j\<in>set gone. inv_id i = inv_id j)"
      using frame i' ledger_unique [OF d i'(1)] by auto
    then have "filter (\<lambda>r. ar_invoice_id r = inv_id i) (amounts_received e) =
        filter (\<lambda>r. ar_invoice_id r = inv_id i) (amounts_received d)"
      using frame by (auto intro!: filter_cong)
    then show ?thesis using d i'(1) by (simp add: received_def ledger_except_def)
  qed
  moreover have "\<forall>r\<in>set (amounts_received e). ar_invoice_id r \<in> inv_id ` set (invoices_v2 e)"
    using d frame kept by (auto simp: ledger_except_def simp del: image_iff)
  moreover have "distinct (map inv_id (invoices_v2 e))" "distinct (map ar_id (amounts_received e))"
    using d frame by (simp_all add: ledger_except_def distinct_map_filter)
  ultimately show "ledger_except X e" unfolding ledger_except_def by blast
qed

lemma keeps_invoices_delete [keeps_intros]:
  "keeps (\<lambda>s t. keeps_ledger X (w_db s) (w_db t)) (invoices_delete acl iid)"
  unfolding invoices_delete_def
  by (intro keeps_intros ledger.keeps_execute) (rule ledger_delete)

text \<open>What a successful read half hands over.\<close>

lemma increase_read_success:
  assumes "increase_read acl aid amt w = (Inr (iid, captured), t)"
  shows "w_db t = w_db w \<and> (\<exists>i\<in>set (invoices_v2 (w_db w)).
    row_by (\<lambda>i. inv_account_id i = Some aid) (invoices_v2 (w_db w)) = Some i \<and>
    inv_id i = iid \<and> checked_add (inv_amount_captured i) amt = Some captured)"
proof
  show "w_db t = w_db w" by (rule same_dbD [OF reading_increase_read assms])
  obtain i u where i: "repo (get_result (select_where invoices_v2 (\<lambda>i. inv_account_id i = Some aid))) w = (Inr i, u)"
    and "inv_id i = iid" "checked_add (inv_amount_captured i) amt = Some captured"
    using assms unfolding increase_read_def and_then_success ok_or_success ok_simps by blast
  then show "\<exists>i\<in>set (invoices_v2 (w_db w)).
      row_by (\<lambda>i. inv_account_id i = Some aid) (invoices_v2 (w_db w)) = Some i \<and>
      inv_id i = iid \<and> checked_add (inv_amount_captured i) amt = Some captured"
    using select_row_success [OF i] row_by_Some [of "\<lambda>i. inv_account_id i = Some aid"] by blast
qed

lemma increase_error:
  assumes "increase_amount_captured acl aid tx amt w = (Inl e, t)"
  shows "w_db t = w_db w"
proof -
  obtain q u where read: "increase_read acl aid amt w = (q, u)" by fastforce
  have same: "w_db u = w_db w" by (rule same_dbD [OF reading_increase_read read])
  show ?thesis
  proof (cases q)
    case (Inl f)
    then show ?thesis using assms read same by (simp add: increase_amount_captured_def)
  next
    case (Inr p)
    then have "increase_write tx amt p u = (Inl e, t)"
      using assms read by (simp add: increase_amount_captured_def)
    then show ?thesis using increase_write_error same by metis
  qed
qed

lemma increase_success:
  assumes "increase_amount_captured acl aid tx amt w = (Inr j, t)"
  obtains i c n1 n2 where "i \<in> set (invoices_v2 (w_db w))"
    and "row_by (\<lambda>i. inv_account_id i = Some aid) (invoices_v2 (w_db w)) = Some i"
    and "checked_add (inv_amount_captured i) amt = Some c"
    and "tx \<notin> ar_id ` set (amounts_received (w_db w))"
    and "w_db t = credited tx amt (inv_id i) c (w_db w) n1 n2"
    and "inv_amount_captured j = c" and "inv_id j = inv_id i"
proof -
  obtain iid captured u where read: "increase_read acl aid amt w = (Inr (iid, captured), u)"
    and wr: "increase_write tx amt (iid, captured) u = (Inr j, t)"
    using assms unfolding increase_amount_captured_def and_then_success by (metis prod.collapse)
  have "inv_amount_captured j = captured \<and> inv_id j = iid"
    using increase_write_success [OF wr] by (auto dest: row_by_Some)
  with increase_read_success [OF read] increase_write_success [OF wr] that show ?thesis by metis
qed

lemma keeps_increase [keeps_intros]:
  "keeps (\<lambda>s t. keeps_ledger X (w_db s) (w_db t)) (increase_amount_captured acl aid tx amt)"
proof (rule keepsI)
  fix w r t
  assume run: "increase_amount_captured acl aid tx amt w = (r, t)"
  show "keeps_ledger X (w_db w) (w_db t)"
  proof (cases r)
    case (Inl e)
    then show ?thesis using increase_error run by (metis keeps_ledger_same)
  next
    case (Inr j)
    with run show ?thesis
      by (auto simp: keeps_ledger_def elim!: increase_success intro: ledger_increase)
  qed
qed

section \<open>Properties\<close>

text \<open>The operations of the repository on crypto invoices. The services create an invoice with nothing
  captured. \<open>set_amount_paid_fiat\<close> is left out: it overwrites the amount captured of a fiat invoice,
  which has no ledger.\<close>

datatype invoice_op =
    OpCreateInvoice new_invoice
  | OpIncrease account_id transaction_id amount
  | OpSetAmountPaid invoice_id invoice_set_amount_paid
  | OpUnlinkAccount invoice_id
  | OpDeleteInvoice invoice_id

fun perform_invoice :: "acl \<times> invoice_op \<Rightarrow> 'd world \<Rightarrow> 'd world" where
  "perform_invoice (acl, OpCreateInvoice p) w = snd (invoices_create acl (p\<lparr>ni_amount_captured := Amount 0\<rparr>) w)"
| "perform_invoice (acl, OpIncrease aid tx amt) w = snd (increase_amount_captured acl aid tx amt w)"
| "perform_invoice (acl, OpSetAmountPaid iid p) w = snd (set_amount_paid acl iid p w)"
| "perform_invoice (acl, OpUnlinkAccount iid) w = snd (unlink_account acl iid w)"
| "perform_invoice (acl, OpDeleteInvoice iid) w = snd (invoices_delete acl iid w)"

lemma perform_invoice_keeps: "keeps_ledger X (w_db w) (w_db (perform_invoice x w))"
proof -
  obtain acl op where x: "x = (acl, op)" by fastforce
  show ?thesis
    unfolding x
    by (cases op)
       (simp_all add: keeps_invoices_create [unfolded keeps_def, rule_format]
         keeps_increase [unfolded keeps_def, rule_format]
         keeps_set_amount_paid [unfolded keeps_def, rule_format]
         keeps_unlink_account [unfolded keeps_def, rule_format]
         keeps_invoices_delete [unfolded keeps_def, rule_format])
qed

definition sample_user_invoice :: "uuid \<Rightarrow> account_id \<Rightarrow> raw_invoice" where
  "sample_user_invoice n a =
     \<lparr>inv_id = InvoiceId n, inv_account_id = Some a, inv_buyer_currency = Btc,
      inv_amount_captured = Amount 0, inv_final_amount_paid = None, inv_final_cashback_amount = None,
      inv_paid_at = None, inv_created_at = 0, inv_updated_at = 0, inv_buyer_user_id = UserId 7,
      inv_status = OsPaymentAwaited\<rparr>"

definition invoice_world :: "rat world" where
  "invoice_world = initial_world (empty_db\<lparr>invoices_v2 := [sample_user_invoice 1 (AccountId 1)]\<rparr>)"

lemma invoice_world_simps [simp]:
  "quiet invoice_world" "invoices_v2 (w_db invoice_world) = [sample_user_invoice 1 (AccountId 1)]"
  "amounts_received (w_db invoice_world) = []" "w_clock invoice_world n = 0"
  "w_depth invoice_world = 0"
  by (simp_all add: invoice_world_def empty_db_def) (simp_all add: initial_world_def)

lemma sample_user_invoice_simps [simp]:
  "inv_id (sample_user_invoice n a) = InvoiceId n" "inv_account_id (sample_user_invoice n a) = Some a"
  "inv_amount_captured (sample_user_invoice n a) = Amount 0"
  by (simp_all add: sample_user_invoice_def)

text \<open>C7: Whatever statement fails and whoever calls, no sequence of operations on crypto invoices
  breaks the ledger: what an invoice has captured is the sum of the amounts received for it, no
  transaction is entered twice, and every entry belongs to an existing invoice.\<close>

theorem ledger_balanced:
  assumes "ledger_ok (w_db w)"
  shows "ledger_ok (w_db (fold perform_invoice ops w))"
  using assms
proof (induction ops arbitrary: w)
  case (Cons x ops)
  then show ?case using perform_invoice_keeps [of "{}" w x] by (simp add: keeps_ledger_def ledger_except_none)
qed simp

theorem ledger_balanced_witness:
  "ledger_ok (w_db (fold perform_invoice [(SystemACL, OpIncrease (AccountId 1) (TransactionId 5) (Amount 30))]
     invoice_world))"
  by (rule ledger_balanced) (simp add: ledger_ok_def)

text \<open>A successful \<open>increase_amount_captured\<close> has entered a new transaction for the invoice of the
  account and has increased what this invoice has captured by exactly the amount, without
  overflow and without touching another invoice; a failed one has changed nothing. In particular a
  repeated transaction is rejected.\<close>

theorem increase_amount_captured_effect:
  assumes "increase_amount_captured acl aid tx amt w = (res, t)"
  shows "case res of
      Inl e \<Rightarrow> w_db t = w_db w
    | Inr j \<Rightarrow>
        tx \<notin> ar_id ` set (amounts_received (w_db w)) \<and>
        (\<exists>i\<in>set (invoices_v2 (w_db w)). inv_account_id i = Some aid \<and> inv_id j = inv_id i \<and>
           unat (inner (inv_amount_captured j)) = unat (inner (inv_amount_captured i)) + unat (inner amt) \<and>
           received (amounts_received (w_db t)) (inv_id i) =
             received (amounts_received (w_db w)) (inv_id i) + unat (inner amt) \<and>
           filter (\<lambda>k. inv_id k \<noteq> inv_id i) (invoices_v2 (w_db t)) =
             filter (\<lambda>k. inv_id k \<noteq> inv_id i) (invoices_v2 (w_db w)))"
proof (cases res)
  case (Inl e)
  then show ?thesis using increase_error assms by simp
next
  case (Inr j)
  have exact: "unat (inner c) = unat (inner a) + unat (inner b)" if "checked_add a b = Some c" for a b c
    using that by (cases c) (auto simp: checked_add_def u128_checked_add_Some)
  have others: "filter (\<lambda>k. inv_id k \<noteq> x) (map (\<lambda>k. if inv_id k = x then g k else k) ks) =
      filter (\<lambda>k. inv_id k \<noteq> x) ks" if "\<And>k. inv_id (g k) = inv_id k" for x g ks
    using that by (induction ks) auto
  show ?thesis
    using assms Inr
    by (auto elim!: increase_success dest!: row_by_Some exact simp: credited_def others)
qed

text \<open>Both halves, run without faults.\<close>

lemma increase_read_quiet:
  assumes "quiet w" and "row_by (\<lambda>i. inv_account_id i = Some aid) (invoices_v2 (w_db w)) = Some i"
    and "checked_add (inv_amount_captured i) amt = Some c"
  shows "increase_read SystemACL aid amt w = (Inr (inv_id i, c), w)"
  using assms by (simp add: increase_read_def repo_get_row ok_apply)

lemma increase_write_quiet:
  assumes "quiet w" and "tx \<notin> ar_id ` set (amounts_received (w_db w))"
    and "row_by (\<lambda>i. inv_id i = iid) (invoices_v2 (w_db w)) = Some i"
  defines "now \<equiv> w_clock w 0"
  shows "increase_write tx amt (iid, c) w =
    (Inr (touch_invoice (\<lambda>i. i\<lparr>inv_amount_captured := c\<rparr>) now i),
     w\<lparr>w_db := credited tx amt iid c (w_db w) now now\<rparr>)"
proof -
  let ?w = "w\<lparr>w_depth := Suc (w_depth w)\<rparr>"
  let ?insert = "execute (insert_amount_received
        \<lparr>nar_id = tx, nar_invoice_id = iid, nar_amount_received = amt\<rparr>)"
  let ?update = "update_invoice iid (\<lambda>i. i\<lparr>inv_amount_captured := c\<rparr>)"
  let ?j = "touch_invoice (\<lambda>i. i\<lparr>inv_amount_captured := c\<rparr>) now i"
  have fresh: "\<not> (\<exists>q\<in>set (amounts_received (w_db w)). ar_id q = tx)" using assms(2) by auto
  have iid: "iid \<in> inv_id ` set (invoices_v2 (w_db w))" using row_by_Some [OF assms(3)] by auto
  obtain js where js: "filter (\<lambda>i. inv_id i = iid) (invoices_v2 (w_db w)) = i # js"
    using assms(3) by (auto simp: row_by_def split: list.splits)
  have "and_then ?insert (\<lambda>_. ?update) ?w =
      (Inr ?j, w\<lparr>w_depth := Suc (w_depth w), w_db := credited tx amt iid c (w_db w) now now\<rparr>)"
    using assms(1) fresh iid js
    by (simp add: execute_quiet insert_amount_received_def update_invoice_def get_result_def
        update_where_quiet Let_def credited_def now_def ok_apply)
  from transaction_quiet_Inr [where m = "and_then ?insert (\<lambda>_. ?update)", OF assms(1) this] assms(1)
  show ?thesis by (simp add: increase_write_def repo_def)
qed

theorem increase_amount_captured_effect_witness:
  "\<exists>t. increase_amount_captured SystemACL (AccountId 1) (TransactionId 5) (Amount 30) invoice_world =
      (Inr ((sample_user_invoice 1 (AccountId 1))\<lparr>inv_amount_captured := Amount 30\<rparr>), t) \<and>
    received (amounts_received (w_db t)) (InvoiceId 1) = 30"
proof -
  have "increase_read SystemACL (AccountId 1) (Amount 30) invoice_world = (Inr (InvoiceId 1, Amount 30), invoice_world)"
    using increase_read_quiet [of invoice_world "AccountId 1"] by (simp add: checked_add_def u128_checked_add_def)
  then obtain t where run: "increase_amount_captured SystemACL (AccountId 1) (TransactionId 5) (Amount 30)
      invoice_world = (Inr ((sample_user_invoice 1 (AccountId 1))\<lparr>inv_amount_captured := Amount 30\<rparr>), t)"
    using increase_write_quiet [of invoice_world "TransactionId 5" "InvoiceId 1"]
    by (simp add: increase_amount_captured_def touch_invoice_def sample_user_invoice_def)
  then show ?thesis using increase_amount_captured_effect [OF run] by simp
qed

text \<open>The amount captured is read before the transaction that writes it. Two callbacks for one account
  whose halves interleave are both accepted and both entered in the ledger, but one of the
  amounts is lost from what the invoice has captured.\<close>

theorem concurrent_callbacks_lose_amount:
  "\<exists>p q i j w1 w2.
     increase_read SystemACL (AccountId 1) (Amount 30) invoice_world = (Inr p, invoice_world) \<and>
     increase_read SystemACL (AccountId 1) (Amount 12) invoice_world = (Inr q, invoice_world) \<and>
     increase_write (TransactionId 5) (Amount 30) p invoice_world = (Inr i, w1) \<and>
     increase_write (TransactionId 6) (Amount 12) q w1 = (Inr j, w2) \<and>
     inv_amount_captured j = Amount 12 \<and> received (amounts_received (w_db w2)) (inv_id j) = 42"
proof -
  let ?i = "sample_user_invoice 1 (AccountId 1)"
  let ?w1 = "invoice_world\<lparr>w_db := credited (TransactionId 5) (Amount 30) (InvoiceId 1) (Amount 30)
      (w_db invoice_world) 0 0\<rparr>"
  have "increase_read SystemACL (AccountId 1) (Amount n) invoice_world = (Inr (InvoiceId 1, Amount n), invoice_world)"
    for n
    using increase_read_quiet [of invoice_world "AccountId 1" ?i "Amount n" "Amount n"]
      u128_less [of n] by (simp add: checked_add_def u128_checked_add_def)
  moreover obtain i where "increase_write (TransactionId 5) (Amount 30) (InvoiceId 1, Amount 30) invoice_world = (Inr i, ?w1)"
    using increase_write_quiet [of invoice_world "TransactionId 5" "InvoiceId 1"] by simp
  moreover obtain j w2 where "increase_write (TransactionId 6) (Amount 12) (InvoiceId 1, Amount 12) ?w1 = (Inr j, w2)"
    and "inv_amount_captured j = Amount 12" "inv_id j = InvoiceId 1"
      "received (amounts_received (w_db w2)) (InvoiceId 1) = 42"
    using increase_write_quiet [of ?w1 "TransactionId 6" "InvoiceId 1"]
    by (simp add: credited_def received_def)
  ultimately show ?thesis by metis
qed

end
