(* ===== verification/OrdersRepo.thy ===== *)
theory OrdersRepo
  imports Prelude Models World Authorization Tables Constraints
begin

text \<open>
  \<open>repos/orders.rs\<close>: the orders of invoices. The scope checker asks the database whether the user is
  the buyer of the invoice or manages the store. The properties are about the filters of the queries
  and about the order in which \<open>delete\<close> deletes and checks.
\<close>

section \<open>Scope\<close>

text \<open>An invoice that does not exist counts as the user's own.\<close>

definition user_is_buyer :: "stq_user_id \<Rightarrow> invoice_id \<Rightarrow> ('d world, 'e, bool) comp" where
  "user_is_buyer uid iid =
     then_res (optional (get_result (select (\<lambda>d. map inv_buyer_user_id (filter (\<lambda>i. inv_id i = iid) (invoices_v2 d))))))
       (\<lambda>res. ok (case res of
           Inr None \<Rightarrow> True
         | Inr (Some u) \<Rightarrow> user_inner u = uid
         | Inl _ \<Rightarrow> False))"

definition orders_in_scope :: "('d, order_access) scope_checker" where
  "orders_in_scope uid s obj =
     (case s of
        ScopeAll \<Rightarrow> ok True
      | ScopeOwned \<Rightarrow>
          (case obj of
             None \<Rightarrow> ok False
           | Some a \<Rightarrow>
               and_then (user_is_buyer uid (oa_invoice_id a)) (\<lambda>buyer.
               if buyer then ok True else user_is_store_manager uid (oa_store_id a))))"

abbreviation check_order :: "acl \<Rightarrow> action \<Rightarrow> order_access option \<Rightarrow> ('d world, repo_error, unit) comp" where
  "check_order acl act a \<equiv> check acl ResOrderInfo act orders_in_scope a"

section \<open>Operations\<close>

definition orders_get :: "acl \<Rightarrow> order_id \<Rightarrow> ('d world, repo_error, raw_order option) comp" where
  "orders_get acl oid =
     and_then (repo (optional (get_result (select_where orders (\<lambda>r. ord_id r = oid))))) (\<lambda>order.
     case order of
       None \<Rightarrow> ok None
     | Some r \<Rightarrow> and_then (check_order acl ActRead (Some (access_of_order r))) (\<lambda>_. ok (Some r)))"

text \<open>The queries for several orders check every row that they return.\<close>

definition checked_orders ::
  "acl \<Rightarrow> ('d world, diesel_error, raw_order list) comp \<Rightarrow> ('d world, repo_error, raw_order list) comp" where
  "checked_orders acl query =
     and_then (repo query) (\<lambda>rows.
     and_then (for_each (\<lambda>r. check_order acl ActRead (Some (access_of_order r))) rows) (\<lambda>_. ok rows))"

definition orders_get_many :: "acl \<Rightarrow> order_id list \<Rightarrow> ('d world, repo_error, raw_order list) comp" where
  "orders_get_many acl ids = checked_orders acl (select_where orders (\<lambda>r. ord_id r \<in> set ids))"

definition get_many_by_invoice_id :: "acl \<Rightarrow> invoice_id \<Rightarrow> ('d world, repo_error, raw_order list) comp" where
  "get_many_by_invoice_id acl iid = checked_orders acl (select_where orders (\<lambda>r. ord_invoice_id r = iid))"

definition get_order_ids_by_store_id :: "acl \<Rightarrow> store_id \<Rightarrow> ('d world, repo_error, order_id list) comp" where
  "get_order_ids_by_store_id acl sid =
     map_ok (map ord_id) (checked_orders acl (select_where orders (\<lambda>r. ord_store_id r = sid)))"

definition get_orders_for_payout ::
  "acl \<Rightarrow> store_id \<Rightarrow> currency option \<Rightarrow> ('d world, repo_error, raw_order list) comp" where
  "get_orders_for_payout acl sid c =
     checked_orders acl (select_where orders (\<lambda>r.
       ord_state r = PaymentToSellerNeeded \<and> ord_store_id r = sid \<and>
       (case c of None \<Rightarrow> True | Some c \<Rightarrow> ord_seller_currency r = c)))"

text \<open>\<open>into_expr\<close>: the conditions that are present, or \<open>true\<close>.\<close>

definition order_matches :: "orders_search \<Rightarrow> raw_order \<Rightarrow> bool" where
  "order_matches s r \<longleftrightarrow>
     (case os_store_id s of None \<Rightarrow> True | Some x \<Rightarrow> ord_store_id r = x) \<and>
     (case os_state s of None \<Rightarrow> True | Some x \<Rightarrow> ord_state r = x) \<and>
     (case os_order_id s of None \<Rightarrow> True | Some x \<Rightarrow> ord_id r = x) \<and>
     (case os_order_ids s of None \<Rightarrow> True | Some xs \<Rightarrow> ord_id r \<in> set xs)"

text \<open>PostgreSQL rejects a negative offset or limit.\<close>

definition search_page ::
  "int \<Rightarrow> int \<Rightarrow> orders_search \<Rightarrow> timestamp \<Rightarrow> 'd db \<Rightarrow> diesel_error + (raw_order list \<times> 'd db)" where
  "search_page skip cnt s _ d =
     (if skip < 0 \<or> cnt < 0 then Inl OtherDieselError
      else Inr (take (nat cnt) (drop (nat skip)
             (sort_key (\<lambda>r. - ord_created_at r) (filter (order_matches s) (orders d)))), d))"

definition search_orders ::
  "acl \<Rightarrow> int \<Rightarrow> int \<Rightarrow> orders_search \<Rightarrow> ('d world, repo_error, order_search_results) comp" where
  "search_orders acl skip cnt s =
     and_then (repo (execute (search_page skip cnt s))) (\<lambda>rows.
     and_then (repo (select_where orders (order_matches s))) (\<lambda>all.
     and_then (for_each (\<lambda>r. check_order acl ActRead (Some (access_of_order r))) rows) (\<lambda>_.
     ok \<lparr>osr_total_count = int (length all), osr_orders = rows\<rparr>)))"

definition insert_order ::
  "new_order \<Rightarrow> timestamp \<Rightarrow> 'd db \<Rightarrow> diesel_error + (raw_order \<times> 'd db)" where
  "insert_order p now d =
     (let r = \<lparr>ord_id = no_id p, ord_seller_currency = no_seller_currency p,
               ord_total_amount = no_total_amount p, ord_cashback_amount = no_cashback_amount p,
               ord_invoice_id = no_invoice_id p, ord_created_at = now, ord_updated_at = now,
               ord_store_id = no_store_id p, ord_state = Initial, ord_stripe_fee = None\<rparr>
      in if \<exists>q\<in>set (orders d). ord_id q = ord_id r then Inl UniqueViolation
         else if ord_invoice_id r \<notin> inv_id ` set (invoices_v2 d) then Inl OtherDieselError
         else Inr (r, d\<lparr>orders := orders d @ [r]\<rparr>))"

definition orders_create :: "acl \<Rightarrow> new_order \<Rightarrow> ('d world, repo_error, raw_order) comp" where
  "orders_create acl payload =
     and_then (check_order acl ActWrite (Some (access_of_new_order payload))) (\<lambda>_.
     repo (execute (insert_order payload)))"

text \<open>The deletions check the rows that they have deleted.\<close>

definition orders_delete :: "acl \<Rightarrow> order_id \<Rightarrow> ('d world, repo_error, raw_order option) comp" where
  "orders_delete acl oid =
     and_then (repo (optional (get_result (select_where orders (\<lambda>r. ord_id r = oid))))) (\<lambda>found.
     case found of
       None \<Rightarrow> ok None
     | Some r \<Rightarrow>
         and_then (repo (optional (get_result (execute (delete_orders_where (\<lambda>r. ord_id r = oid)))))) (\<lambda>deleted.
         case deleted of
           None \<Rightarrow> ok None
         | Some q \<Rightarrow>
             and_then (check_order acl ActWrite
                 (Some \<lparr>oa_invoice_id = ord_invoice_id r, oa_store_id = ord_store_id q\<rparr>)) (\<lambda>_.
             ok (Some q))))"

definition orders_delete_by_invoice_id ::
  "acl \<Rightarrow> invoice_id \<Rightarrow> ('d world, repo_error, raw_order list) comp" where
  "orders_delete_by_invoice_id acl iid =
     and_then (repo (execute (delete_orders_where (\<lambda>r. ord_invoice_id r = iid)))) (\<lambda>deleted.
     and_then (for_each (\<lambda>q. check_order acl ActWrite
         (Some \<lparr>oa_invoice_id = iid, oa_store_id = ord_store_id q\<rparr>)) deleted) (\<lambda>_.
     ok deleted))"

definition update_order ::
  "order_id \<Rightarrow> (raw_order \<Rightarrow> raw_order) \<Rightarrow> ('d world, diesel_error, raw_order) comp" where
  "update_order oid g = get_result (update_where orders set_orders (\<lambda>r. ord_id r = oid) (touch_order g))"

definition update_state :: "acl \<Rightarrow> order_id \<Rightarrow> payment_state \<Rightarrow> ('d world, repo_error, raw_order) comp" where
  "update_state acl oid st =
     and_then (check_order acl ActWrite None) (\<lambda>_. repo (update_order oid (\<lambda>r. r\<lparr>ord_state := st\<rparr>)))"

definition update_stripe_fee :: "acl \<Rightarrow> order_id \<Rightarrow> amount \<Rightarrow> ('d world, repo_error, raw_order) comp" where
  "update_stripe_fee acl oid f =
     and_then (check_order acl ActWrite None) (\<lambda>_. repo (update_order oid (\<lambda>r. r\<lparr>ord_stripe_fee := Some f\<rparr>)))"

section \<open>Laws\<close>

lemma orders_in_scope_all [simp]: "orders_in_scope uid ScopeAll a = ok True"
  by (simp add: orders_in_scope_def)

lemma for_each_ok: "(\<And>x. x \<in> set xs \<Longrightarrow> f x = ok ()) \<Longrightarrow> for_each f xs = ok ()"
proof -
  assume "\<And>x. x \<in> set xs \<Longrightarrow> f x = ok ()"
  then have "try_map f xs = ok (map (\<lambda>_. ()) xs)" by (intro try_map_pure) simp
  then show ?thesis by (simp add: for_each_def map_ok_as_and_then)
qed

lemma checked_orders_system [simp]: "checked_orders SystemACL query = repo query"
  by (simp add: checked_orders_def for_each_ok)

lemma update_order_success:
  assumes "update_order oid g w = (Inr r, t)"
  shows "w_db t = (w_db w)\<lparr>orders :=
      map (\<lambda>r. if ord_id r = oid then touch_order g (w_clock w 0) r else r) (orders (w_db w))\<rparr>"
    and "\<not> w_aborted t"
    and "\<exists>q. row_by (\<lambda>r. ord_id r = oid) (orders (w_db w)) = Some q \<and> r = touch_order g (w_clock w 0) q"
proof -
  obtain rs where "update_where orders set_orders (\<lambda>r. ord_id r = oid) (touch_order g) w = (Inr (r # rs), t)"
    using assms unfolding update_order_def get_result_success by blast
  from update_where_success [OF this]
  have rows: "r # rs = map (touch_order g (w_clock w 0)) (filter (\<lambda>r. ord_id r = oid) (orders (w_db w)))"
    and rest: "w_db t = (w_db w)\<lparr>orders :=
      map (\<lambda>r. if ord_id r = oid then touch_order g (w_clock w 0) r else r) (orders (w_db w))\<rparr>"
      "\<not> w_aborted t"
    by simp_all
  then show "\<exists>q. row_by (\<lambda>r. ord_id r = oid) (orders (w_db w)) = Some q \<and> r = touch_order g (w_clock w 0) q"
    by (auto simp: row_by_def split: list.splits)
  show "w_db t = (w_db w)\<lparr>orders :=
      map (\<lambda>r. if ord_id r = oid then touch_order g (w_clock w 0) r else r) (orders (w_db w))\<rparr>"
    and "\<not> w_aborted t"
    by (rule rest)+
qed

context world_relation
begin

lemma keeps_user_is_buyer [keeps_intros]: "keeps R (user_is_buyer uid iid)"
  unfolding user_is_buyer_def
  by (intro keeps_then_res keeps_optional keeps_get_result keeps_select keeps_ok)

lemma keeps_check_order [keeps_intros]:
  "keeps R (check acl res act orders_in_scope a)"
  unfolding orders_in_scope_def
  by (rule keeps_check)
     (auto intro!: keeps_ok keeps_and_then keeps_user_is_buyer keeps_if keeps_user_is_store_manager
       split: scope.split option.split)

lemma keeps_checked_orders [keeps_intros]:
  "keeps R q \<Longrightarrow> keeps R (checked_orders acl q)"
  unfolding checked_orders_def
  by (intro keeps_and_then keeps_repo keeps_for_each keeps_check_order keeps_ok)

end

end
