(* ===== verification/RatesRepo.thy ===== *)
theory RatesRepo
  imports Prelude Models World Authorization Tables Constraints OrdersRepo
begin

text \<open>
  \<open>repos/order_exchange_rates.rs\<close>: the exchange rates of orders. Every order has at most one active
  rate; \<open>add_new_active_rate\<close> expires it and adds the next one in one transaction.
\<close>

section \<open>Operations\<close>

text \<open>The buyer of the order's invoice; an order that does not exist counts as the user's own.\<close>

definition rates_in_scope :: "('d, order_id) scope_checker" where
  "rates_in_scope uid s obj =
     (case s of
        ScopeAll \<Rightarrow> ok True
      | ScopeOwned \<Rightarrow>
          (case obj of
             None \<Rightarrow> ok False
           | Some oid \<Rightarrow>
               then_res (optional (get_result (select (\<lambda>d.
                   concat (map (\<lambda>r. map inv_buyer_user_id
                             (filter (\<lambda>i. inv_id i = ord_invoice_id r) (invoices_v2 d)))
                     (filter (\<lambda>r. ord_id r = oid) (orders d)))))))
                 (\<lambda>res. ok (case res of
                     Inr None \<Rightarrow> True
                   | Inr (Some u) \<Rightarrow> user_inner u = uid
                   | Inl _ \<Rightarrow> False))))"

abbreviation check_rate :: "acl \<Rightarrow> action \<Rightarrow> order_id \<Rightarrow> ('d world, repo_error, unit) comp" where
  "check_rate acl act oid \<equiv> check acl ResOrderExchangeRate act rates_in_scope (Some oid)"

definition rates_get ::
  "acl \<Rightarrow> order_exchange_rate_id \<Rightarrow> ('d world, repo_error, 'd raw_order_exchange_rate option) comp" where
  "rates_get acl rid =
     and_then (repo (optional (get_result (select_where order_exchange_rates (\<lambda>r. rate_id r = rid))))) (\<lambda>rate.
     case rate of
       None \<Rightarrow> ok None
     | Some r \<Rightarrow> and_then (check_rate acl ActRead (rate_order_id r)) (\<lambda>_. ok (Some r)))"

definition active_for :: "order_id \<Rightarrow> 'd raw_order_exchange_rate \<Rightarrow> bool" where
  "active_for oid r \<longleftrightarrow> rate_order_id r = oid \<and> rate_status r = Active"

definition get_active_rate_for_order ::
  "acl \<Rightarrow> order_id \<Rightarrow> ('d world, repo_error, 'd raw_order_exchange_rate option) comp" where
  "get_active_rate_for_order acl oid =
     and_then (check_rate acl ActRead oid) (\<lambda>_.
     repo (optional (get_result (select_where order_exchange_rates (active_for oid)))))"

definition get_all_rates_for_order ::
  "acl \<Rightarrow> order_id \<Rightarrow> ('d world, repo_error, 'd raw_order_exchange_rate list) comp" where
  "get_all_rates_for_order acl oid =
     and_then (check_rate acl ActRead oid) (\<lambda>_.
     repo (map_ok (sort_key (\<lambda>r. - rate_inner (rate_id r)))
       (select_where order_exchange_rates (\<lambda>r. rate_order_id r = oid))))"

definition expire :: "'d raw_order_exchange_rate \<Rightarrow> 'd raw_order_exchange_rate" where
  "expire r = r\<lparr>rate_status := Expired\<rparr>"

definition insert_rate ::
  "'d raw_new_order_exchange_rate \<Rightarrow> int \<Rightarrow> timestamp \<Rightarrow> 'd db \<Rightarrow>
   diesel_error + ('d raw_order_exchange_rate \<times> 'd db)" where
  "insert_rate p n now d =
     (let r = \<lparr>rate_id = OrderExchangeRateId n, rate_order_id = rnr_order_id p,
               rate_exchange_id = rnr_exchange_id p, rate_exchange_rate = rnr_exchange_rate p,
               rate_status = rnr_status p, rate_created_at = now, rate_updated_at = now\<rparr>
      in if \<exists>q\<in>set (order_exchange_rates d). rate_id q = rate_id r then Inl UniqueViolation
         else if rate_order_id r \<notin> ord_id ` set (orders d) then Inl OtherDieselError
         else Inr (r, d\<lparr>order_exchange_rates := order_exchange_rates d @ [r]\<rparr>))"

definition add_new_active_rate ::
  "acl \<Rightarrow> 'd new_order_exchange_rate \<Rightarrow> ('d world, repo_error, 'd latest_exchange_rates) comp" where
  "add_new_active_rate acl p =
     and_then (check_rate acl ActWrite (nr_order_id p)) (\<lambda>_.
     repo (transaction id
       (and_then (optional (get_result (select_where order_exchange_rates (active_for (nr_order_id p))))) (\<lambda>active.
        and_then (case active of
            None \<Rightarrow> ok None
          | Some a \<Rightarrow> map_ok Some (get_result (update_where order_exchange_rates set_rates
                        (\<lambda>r. rate_id r = rate_id a) (touch_rate expire)))) (\<lambda>expired.
        and_then (execute_serial SeqOrderExchangeRates (insert_rate (raw_new_rate p))) (\<lambda>new.
        ok \<lparr>lr_active_rate = new, lr_last_expired_rate = expired\<rparr>))))))"

definition expire_current_active_rate ::
  "acl \<Rightarrow> order_id \<Rightarrow> ('d world, repo_error, 'd raw_order_exchange_rate option) comp" where
  "expire_current_active_rate acl oid =
     and_then (check_rate acl ActWrite oid) (\<lambda>_.
     repo (optional (get_result (update_where order_exchange_rates set_rates (active_for oid) (touch_rate expire)))))"

definition rates_delete ::
  "acl \<Rightarrow> order_exchange_rate_id \<Rightarrow> ('d world, repo_error, 'd raw_order_exchange_rate option) comp" where
  "rates_delete acl rid =
     and_then (repo (optional (get_result (select_where order_exchange_rates (\<lambda>r. rate_id r = rid))))) (\<lambda>found.
     case found of
       None \<Rightarrow> ok None
     | Some r \<Rightarrow>
         and_then (check_rate acl ActWrite (rate_order_id r)) (\<lambda>_.
         repo (optional (get_result (delete_where order_exchange_rates set_rates (\<lambda>r. rate_id r = rid))))))"

definition delete_by_order_id ::
  "acl \<Rightarrow> order_id \<Rightarrow> ('d world, repo_error, 'd raw_order_exchange_rate list) comp" where
  "delete_by_order_id acl oid =
     and_then (check_rate acl ActWrite oid) (\<lambda>_.
     repo (delete_where order_exchange_rates set_rates (\<lambda>r. rate_order_id r = oid)))"

section \<open>At most one active rate\<close>

definition one_active :: "'d raw_order_exchange_rate list \<Rightarrow> bool" where
  "one_active rows \<longleftrightarrow> distinct (map rate_id rows) \<and>
     (\<forall>r\<in>set rows. \<forall>q\<in>set rows. active_for (rate_order_id r) r \<and> active_for (rate_order_id r) q \<longrightarrow> r = q)"

definition keeps_one_active :: "'d db \<Rightarrow> 'd db \<Rightarrow> bool" where
  "keeps_one_active d e \<longleftrightarrow> (one_active (order_exchange_rates d) \<longrightarrow> one_active (order_exchange_rates e))"

context world_relation
begin

lemma keeps_check_rate [keeps_intros]:
  "keeps R (check acl res act rates_in_scope a)"
  unfolding rates_in_scope_def
  by (rule keeps_check)
     (auto intro!: keeps_ok keeps_then_res keeps_optional keeps_get_result keeps_select
       split: scope.split option.split)

end

interpretation active: db_relation keeps_one_active
  by unfold_locales (auto simp: keeps_one_active_def)

lemma one_active_filter: "one_active rows \<Longrightarrow> one_active (filter p rows)"
  by (simp add: one_active_def distinct_map_filter)

lemma expire_simps [simp]:
  "rate_id (expire r) = rate_id r" "rate_order_id (expire r) = rate_order_id r"
  "rate_status (expire r) = Expired"
  by (simp_all add: expire_def)

lemma one_active_expire:
  assumes "one_active rows"
  shows "one_active (map (\<lambda>r. if p r then touch_rate expire now r else r) rows)"
proof -
  have "map rate_id (map (\<lambda>r. if p r then touch_rate expire now r else r) rows) = map rate_id rows"
    by auto
  then show ?thesis
    using assms by (auto simp: one_active_def active_for_def simp del: map_map)
qed

lemma one_active_append:
  assumes "one_active rows" and "rate_id r \<notin> rate_id ` set rows"
    and "\<forall>q\<in>set rows. \<not> active_for (rate_order_id r) q"
  shows "one_active (rows @ [r])"
  using assms by (auto simp: one_active_def active_for_def)


lemma keeps_expire_current [keeps_intros]:
  "keeps (\<lambda>s t. keeps_one_active (w_db s) (w_db t)) (expire_current_active_rate acl oid)"
  unfolding expire_current_active_rate_def
  by (intro keeps_intros active.keeps_update_where) (simp add: keeps_one_active_def one_active_expire)

lemma keeps_rates_delete [keeps_intros]:
  "keeps (\<lambda>s t. keeps_one_active (w_db s) (w_db t)) (rates_delete acl rid)"
  unfolding rates_delete_def
  by (intro keeps_intros active.keeps_delete_where) (simp add: keeps_one_active_def one_active_filter)

lemma keeps_delete_by_order_id [keeps_intros]:
  "keeps (\<lambda>s t. keeps_one_active (w_db s) (w_db t)) (delete_by_order_id acl oid)"
  unfolding delete_by_order_id_def
  by (intro keeps_intros active.keeps_delete_where) (simp add: keeps_one_active_def one_active_filter)

text \<open>What \<open>add_new_active_rate\<close> has done when it succeeds.\<close>

definition replaced ::
  "'d raw_order_exchange_rate option \<Rightarrow> timestamp \<Rightarrow> 'd raw_order_exchange_rate \<Rightarrow>
   'd raw_order_exchange_rate list \<Rightarrow> 'd raw_order_exchange_rate list" where
  "replaced active now new rows =
     (case active of
        None \<Rightarrow> rows
      | Some a \<Rightarrow> map (\<lambda>r. if rate_id r = rate_id a then touch_rate expire now r else r) rows) @ [new]"

lemma expire_step:
  assumes "(case active of
            None \<Rightarrow> ok None
          | Some a \<Rightarrow> map_ok Some (get_result (update_where order_exchange_rates set_rates
                        (\<lambda>r. rate_id r = rate_id a) (touch_rate expire)))) w = (Inr expired, t)"
  shows "\<exists>now. w_db t = (w_db w)\<lparr>order_exchange_rates := (case active of
        None \<Rightarrow> order_exchange_rates (w_db w)
      | Some a \<Rightarrow> map (\<lambda>r. if rate_id r = rate_id a then touch_rate expire now r else r)
                     (order_exchange_rates (w_db w)))\<rparr> \<and> (expired = None \<longleftrightarrow> active = None)"
proof (cases active)
  case None
  then show ?thesis using assms by simp
next
  case (Some a)
  then obtain r rs where "update_where order_exchange_rates set_rates
      (\<lambda>r. rate_id r = rate_id a) (touch_rate expire) w = (Inr (r # rs), t)" "expired = Some r"
    using assms(1) by (auto simp: map_ok_success get_result_success)
  with update_where_success [OF this(1)] Some show ?thesis by auto
qed

lemma add_new_success:
  assumes "add_new_active_rate acl p w = (Inr l, t)"
  obtains active now where "active = row_by (active_for (nr_order_id p)) (order_exchange_rates (w_db w))"
    and "w_db t = (w_db w)\<lparr>order_exchange_rates :=
           replaced active now (lr_active_rate l) (order_exchange_rates (w_db w))\<rparr>"
    and "rate_order_id (lr_active_rate l) = nr_order_id p" "rate_status (lr_active_rate l) = Active"
    and "rate_exchange_rate (lr_active_rate l) = nr_exchange_rate p"
    and "rate_exchange_id (lr_active_rate l) = nr_exchange_id p"
    and "rate_id (lr_active_rate l) \<notin> rate_id ` set (order_exchange_rates (w_db w))"
    and "lr_last_expired_rate l = None \<longleftrightarrow> active = None"
proof -
  let ?find = "optional (get_result (select_where order_exchange_rates (active_for (nr_order_id p))))"
  let ?expire = "\<lambda>active. case active of
            None \<Rightarrow> ok None
          | Some a \<Rightarrow> map_ok Some (get_result (update_where order_exchange_rates set_rates
                        (\<lambda>r. rate_id r = rate_id a) (touch_rate expire)))"
  let ?insert = "execute_serial SeqOrderExchangeRates (insert_rate (raw_new_rate p))"
  let ?m = "and_then ?find (\<lambda>active. and_then (?expire active) (\<lambda>expired. and_then ?insert (\<lambda>new.
        ok \<lparr>lr_active_rate = new, lr_last_expired_rate = expired\<rparr>)))"
  obtain x v where v: "check acl ResOrderExchangeRate ActWrite rates_in_scope (Some (nr_order_id p)) w = (Inr x, v)"
    and tr: "transaction id ?m v = (Inr l, t)"
    using assms unfolding add_new_active_rate_def and_then_success repo_success by blast
  have same: "w_db v = w_db w" by (rule same_dbD [OF reading.keeps_check_rate v])
  from transaction_inner [OF tr] obtain u where u: "?m (inner_world v) = (Inr l, u)"
    and t: "w_db t = w_db u \<and> \<not> w_aborted u \<or> w_db t = w_db v \<and> w_aborted u"
    by blast
  from u obtain active expired new w1 w2 where find: "?find (inner_world v) = (Inr active, w1)"
    and exp: "?expire active w1 = (Inr expired, w2)" and ins: "?insert w2 = (Inr new, u)"
    and l: "l = \<lparr>lr_active_rate = new, lr_last_expired_rate = expired\<rparr>"
    unfolding and_then_success ok_simps by blast
  have active: "active = row_by (active_for (nr_order_id p)) (order_exchange_rates (w_db w))" "w_db w1 = w_db w"
    using first_row_success [unfolded repo_success, OF find] same by simp_all
  obtain now where w2: "w_db w2 = (w_db w)\<lparr>order_exchange_rates := (case active of
        None \<Rightarrow> order_exchange_rates (w_db w)
      | Some a \<Rightarrow> map (\<lambda>r. if rate_id r = rate_id a then touch_rate expire now r else r)
                     (order_exchange_rates (w_db w)))\<rparr>" and "expired = None \<longleftrightarrow> active = None"
    using expire_step [OF exp, unfolded active(2)] by blast
  moreover have "map rate_id (order_exchange_rates (w_db w2)) = map rate_id (order_exchange_rates (w_db w))"
    by (auto simp: w2 split: option.splits)
  then have "rate_id ` set (order_exchange_rates (w_db w2)) = rate_id ` set (order_exchange_rates (w_db w))"
    by (metis set_map)
  moreover have "w_db t = w_db u" using t execute_serial_success_alive [OF ins] by blast
  moreover have "rate_order_id new = nr_order_id p" "rate_status new = Active"
      "rate_exchange_rate new = nr_exchange_rate p" "rate_exchange_id new = nr_exchange_id p"
      "rate_id new \<notin> rate_id ` set (order_exchange_rates (w_db w2))"
      "w_db u = (w_db w2)\<lparr>order_exchange_rates := order_exchange_rates (w_db w2) @ [new]\<rparr>"
    using execute_serial_success [OF ins]
    by (auto simp: insert_rate_def Let_def raw_new_rate_def split: if_splits)
  ultimately show ?thesis
    by (intro that [OF active(1), of now]) (simp_all add: l replaced_def)
qed

lemma one_active_replaced:
  assumes rows: "one_active rows" and active: "active = row_by (active_for oid) rows"
    and new: "rate_order_id new = oid" "rate_id new \<notin> rate_id ` set rows"
  shows "one_active (replaced active now new rows)"
proof (cases active)
  case None
  then have "\<forall>q\<in>set rows. \<not> active_for oid q" using active by (simp add: row_by_None)
  then show ?thesis using None one_active_append [OF rows] new by (simp add: replaced_def)
next
  case (Some a)
  let ?rows = "map (\<lambda>r. if rate_id r = rate_id a then touch_rate expire now r else r) rows"
  have a: "a \<in> set rows" "active_for oid a" using active Some row_by_Some by fastforce+
  have only: "q = a" if "q \<in> set rows" "active_for oid q" for q
    using that a rows by (auto simp: one_active_def active_for_def)
  have "one_active ?rows" by (rule one_active_expire [OF rows])
  moreover have "map rate_id ?rows = map rate_id rows" by auto
  then have "rate_id new \<notin> rate_id ` set ?rows" using new(2) by (metis set_map)
  moreover have "\<forall>q\<in>set ?rows. \<not> active_for oid q"
    using only by (auto simp: active_for_def)
  ultimately have "one_active (?rows @ [new])" using new(1) by (intro one_active_append) simp_all
  then show ?thesis using Some by (simp add: replaced_def)
qed

lemma add_new_error: "add_new_active_rate acl p w = (Inl e, t) \<Longrightarrow> w_db t = w_db w"
proof -
  assume run: "add_new_active_rate acl p w = (Inl e, t)"
  obtain q v where v: "check acl ResOrderExchangeRate ActWrite rates_in_scope (Some (nr_order_id p)) w = (q, v)"
    by fastforce
  have same: "w_db v = w_db w" by (rule same_dbD [OF reading.keeps_check_rate v])
  show ?thesis
  proof (cases q)
    case (Inl f)
    then show ?thesis using run v same by (simp add: add_new_active_rate_def)
  next
    case (Inr u)
    then show ?thesis
      using run v same transaction_error_db by (fastforce simp: add_new_active_rate_def repo_Inl)
  qed
qed

lemma keeps_add_new_active_rate [keeps_intros]:
  "keeps (\<lambda>s t. keeps_one_active (w_db s) (w_db t)) (add_new_active_rate acl p)"
proof (rule keepsI)
  fix w r t
  assume run: "add_new_active_rate acl p w = (r, t)"
  show "keeps_one_active (w_db w) (w_db t)"
  proof (cases r)
    case (Inl e)
    then show ?thesis using add_new_error run by (fastforce simp: keeps_one_active_def)
  next
    case (Inr l)
    obtain active now where "active = row_by (active_for (nr_order_id p)) (order_exchange_rates (w_db w))"
      and t: "w_db t = (w_db w)\<lparr>order_exchange_rates :=
           replaced active now (lr_active_rate l) (order_exchange_rates (w_db w))\<rparr>"
      and "rate_order_id (lr_active_rate l) = nr_order_id p" "rate_status (lr_active_rate l) = Active"
      and "rate_exchange_rate (lr_active_rate l) = nr_exchange_rate p"
      and "rate_exchange_id (lr_active_rate l) = nr_exchange_id p"
      and "rate_id (lr_active_rate l) \<notin> rate_id ` set (order_exchange_rates (w_db w))"
      and "lr_last_expired_rate l = None \<longleftrightarrow> active = None"
      by (rule add_new_success [OF run [unfolded Inr]])
    then have "one_active (order_exchange_rates (w_db t))" if "one_active (order_exchange_rates (w_db w))"
      using one_active_replaced [OF that] by (simp add: t)
    then show ?thesis by (simp add: keeps_one_active_def)
  qed
qed

section \<open>Properties\<close>

datatype 'd rate_op =
    OpAddRate "'d new_order_exchange_rate"
  | OpExpireRate order_id
  | OpDeleteRate order_exchange_rate_id
  | OpDeleteRates order_id

fun perform_rate :: "acl \<times> 'd rate_op \<Rightarrow> 'd world \<Rightarrow> 'd world" where
  "perform_rate (acl, OpAddRate p) w = snd (add_new_active_rate acl p w)"
| "perform_rate (acl, OpExpireRate oid) w = snd (expire_current_active_rate acl oid w)"
| "perform_rate (acl, OpDeleteRate rid) w = snd (rates_delete acl rid w)"
| "perform_rate (acl, OpDeleteRates oid) w = snd (delete_by_order_id acl oid w)"

lemma perform_rate_keeps: "keeps_one_active (w_db w) (w_db (perform_rate x w))"
proof -
  obtain acl op where x: "x = (acl, op)" by fastforce
  show ?thesis
    unfolding x
    by (cases op)
       (simp_all add: keeps_add_new_active_rate [unfolded keeps_def, rule_format]
         keeps_expire_current [unfolded keeps_def, rule_format]
         keeps_rates_delete [unfolded keeps_def, rule_format]
         keeps_delete_by_order_id [unfolded keeps_def, rule_format])
qed

text \<open>Whatever statements fail, no sequence of operations on exchange rates gives an order two active
  rates or two rates one id.\<close>

theorem at_most_one_active_rate:
  assumes "one_active (order_exchange_rates (w_db w))"
  shows "one_active (order_exchange_rates (w_db (fold perform_rate ops w)))"
  using assms
proof (induction ops arbitrary: w)
  case (Cons x ops)
  then show ?case using perform_rate_keeps [of w x] by (simp add: keeps_one_active_def)
qed simp

theorem at_most_one_active_rate_witness:
  "one_active (order_exchange_rates (w_db (fold perform_rate
     [(SystemACL, OpAddRate \<lparr>nr_order_id = OrderId 1, nr_exchange_id = None, nr_exchange_rate = 2\<rparr>)]
     empty_world)))"
  by (rule at_most_one_active_rate) (simp add: one_active_def empty_db_def)

text \<open>A successful \<open>add_new_active_rate\<close> makes the new rate the active one of its order and expires the
  rate that was active before, which it returns when there was one; a failed one changes nothing.\<close>

theorem add_new_active_rate_effect:
  assumes "one_active (order_exchange_rates (w_db w))" and "add_new_active_rate acl p w = (res, t)"
  shows "case res of
      Inl e \<Rightarrow> w_db t = w_db w
    | Inr l \<Rightarrow>
        let oid = nr_order_id p in
        filter (active_for oid) (order_exchange_rates (w_db t)) = [lr_active_rate l] \<and>
        rate_exchange_rate (lr_active_rate l) = nr_exchange_rate p \<and>
        rate_exchange_id (lr_active_rate l) = nr_exchange_id p \<and>
        (lr_last_expired_rate l = None \<longleftrightarrow> filter (active_for oid) (order_exchange_rates (w_db w)) = []) \<and>
        map rate_id (order_exchange_rates (w_db t)) =
          map rate_id (order_exchange_rates (w_db w)) @ [rate_id (lr_active_rate l)]"
proof (cases res)
  case (Inl e)
  then show ?thesis using add_new_error assms(2) by simp
next
  case (Inr l)
  let ?rows = "order_exchange_rates (w_db w)" and ?oid = "nr_order_id p"
  obtain active now where active: "active = row_by (active_for ?oid) ?rows"
    and t: "w_db t = (w_db w)\<lparr>order_exchange_rates := replaced active now (lr_active_rate l) ?rows\<rparr>"
    and new: "rate_order_id (lr_active_rate l) = ?oid" "rate_status (lr_active_rate l) = Active"
      "rate_exchange_rate (lr_active_rate l) = nr_exchange_rate p"
      "rate_exchange_id (lr_active_rate l) = nr_exchange_id p"
      "rate_id (lr_active_rate l) \<notin> rate_id ` set ?rows"
    and last: "lr_last_expired_rate l = None \<longleftrightarrow> active = None"
    by (rule add_new_success [OF assms(2) [unfolded Inr]])
  have "one_active (replaced active now (lr_active_rate l) ?rows)"
    by (rule one_active_replaced [OF assms(1) active new(1,5)])
  then have old: "\<not> active_for ?oid q" if "q \<in> set (replaced active now (lr_active_rate l) ?rows)"
      "rate_id q \<noteq> rate_id (lr_active_rate l)" for q
    using that new(1,2) by (fastforce simp: one_active_def active_for_def replaced_def)
  obtain olds where olds: "replaced active now (lr_active_rate l) ?rows = olds @ [lr_active_rate l]"
    and keys: "map rate_id olds = map rate_id ?rows"
    by (auto simp: replaced_def split: option.splits)
  have "rate_id q \<noteq> rate_id (lr_active_rate l)" if "q \<in> set olds" for q
    using that keys new(5) by (metis image_eqI set_map)
  then have "filter (active_for ?oid) olds = []"
    using old olds by (simp add: filter_empty_conv)
  then have "filter (active_for ?oid) (order_exchange_rates (w_db t)) = [lr_active_rate l]"
    using new(1,2) olds by (simp add: t active_for_def)
  moreover have "active = None \<longleftrightarrow> filter (active_for ?oid) ?rows = []"
    by (simp add: active row_by_None filter_empty_conv)
  ultimately show ?thesis
    using Inr new last olds keys by (simp add: t Let_def)
qed

theorem add_new_active_rate_effect_witness:
  "\<exists>res t. add_new_active_rate SystemACL \<lparr>nr_order_id = OrderId 1, nr_exchange_id = None, nr_exchange_rate = 2\<rparr>
      empty_world = (res, t) \<and> (isl res \<longrightarrow> w_db t = empty_db)"
proof -
  let ?p = "\<lparr>nr_order_id = OrderId 1, nr_exchange_id = None, nr_exchange_rate = 2\<rparr>"
  obtain res t where run: "add_new_active_rate SystemACL ?p empty_world = (res, t)" by fastforce
  have "one_active (order_exchange_rates (w_db empty_world))" by (simp add: one_active_def empty_db_def)
  from add_new_active_rate_effect [OF this run] run show ?thesis by (auto split: sum.splits)
qed

end
