(* ===== verification/FeesRepo.thy ===== *)
theory FeesRepo
  imports Prelude Models World Authorization Tables Constraints OrdersRepo
begin

text \<open>
  \<open>repos/fee.rs\<close>: the fees that the platform takes from orders, at most one per order.
\<close>

definition store_of_order :: "order_id \<Rightarrow> ('d world, diesel_error, store_id) comp" where
  "store_of_order oid = get_result (select (\<lambda>d. map ord_store_id (filter (\<lambda>r. ord_id r = oid) (orders d))))"

text \<open>The managers of the store of the order; a failed query counts as no.\<close>

definition fees_in_scope :: "('d, fee) scope_checker" where
  "fees_in_scope uid s obj =
     (case s of
        ScopeAll \<Rightarrow> ok True
      | ScopeOwned \<Rightarrow>
          (case obj of
             None \<Rightarrow> ok False
           | Some f \<Rightarrow>
               then_res (store_of_order (fee_order_id f)) (\<lambda>res.
               case res of
                 Inl _ \<Rightarrow> ok False
               | Inr sid \<Rightarrow> user_is_store_manager uid sid)))"

abbreviation check_fee :: "acl \<Rightarrow> action \<Rightarrow> fee option \<Rightarrow> ('d world, repo_error, unit) comp" where
  "check_fee acl act f \<equiv> check acl ResFee act fees_in_scope f"

datatype search_fee = SearchFeeId fee_id | SearchFeeOrderId order_id

fun fee_matches :: "search_fee \<Rightarrow> fee \<Rightarrow> bool" where
  "fee_matches (SearchFeeId i) f \<longleftrightarrow> fee_id f = i"
| "fee_matches (SearchFeeOrderId oid) f \<longleftrightarrow> fee_order_id f = oid"

definition fees_get :: "acl \<Rightarrow> search_fee \<Rightarrow> ('d world, repo_error, fee option) comp" where
  "fees_get acl s =
     and_then (repo (optional (get_result (select_where fees (fee_matches s))))) (\<lambda>fee.
     case fee of
       None \<Rightarrow> ok None
     | Some f \<Rightarrow> and_then (check_fee acl ActRead (Some f)) (\<lambda>_. ok (Some f)))"

record search_fee_params =
  sfp_id :: "fee_id option"
  sfp_order_ids :: "order_id list option"

definition fees_by_order_ids :: "order_id list \<Rightarrow> search_fee_params" where
  "fees_by_order_ids ids = \<lparr>sfp_id = None, sfp_order_ids = Some ids\<rparr>"

text \<open>\<open>into_expr\<close>: no condition is an error here.\<close>

definition fee_expr :: "search_fee_params \<Rightarrow> (fee \<Rightarrow> bool) option" where
  "fee_expr s =
     (if sfp_id s = None \<and> sfp_order_ids s = None then None
      else Some (\<lambda>f.
        (case sfp_id s of None \<Rightarrow> True | Some i \<Rightarrow> fee_id f = i) \<and>
        (case sfp_order_ids s of None \<Rightarrow> True | Some ids \<Rightarrow> fee_order_id f \<in> set ids)))"

definition fees_search :: "acl \<Rightarrow> search_fee_params \<Rightarrow> ('d world, repo_error, fee list) comp" where
  "fees_search acl s =
     and_then (ok_or RInternal (fee_expr s)) (\<lambda>p.
     and_then (repo (select_where fees p)) (\<lambda>rows.
     and_then (for_each (\<lambda>f. check_fee acl ActRead (Some f)) rows) (\<lambda>_.
     ok rows)))"

definition insert_fee :: "new_fee \<Rightarrow> int \<Rightarrow> timestamp \<Rightarrow> 'd db \<Rightarrow> diesel_error + (fee \<times> 'd db)" where
  "insert_fee p n now d =
     (let f = \<lparr>fee_id = FeeId n, fee_order_id = nf_order_id p, fee_amount = nf_amount p,
               fee_status = nf_status p, fee_currency = nf_currency p, fee_charge_id = nf_charge_id p,
               fee_created_at = now, fee_updated_at = now, fee_crypto_currency = nf_crypto_currency p,
               fee_crypto_amount = nf_crypto_amount p\<rparr>
      in if \<exists>q\<in>set (fees d). fee_id q = fee_id f \<or> fee_order_id q = fee_order_id f
         then Inl UniqueViolation
         else if fee_order_id f \<notin> ord_id ` set (orders d) then Inl OtherDieselError
         else Inr (f, d\<lparr>fees := fees d @ [f]\<rparr>))"

definition fees_create :: "acl \<Rightarrow> new_fee \<Rightarrow> ('d world, repo_error, fee) comp" where
  "fees_create acl payload =
     and_then (check_fee acl ActWrite None) (\<lambda>_. repo (execute_serial SeqFees (insert_fee payload)))"

definition fees_update_row :: "acl \<Rightarrow> fee_id \<Rightarrow> update_fee \<Rightarrow> ('d world, repo_error, fee) comp" where
  "fees_update_row acl fid payload =
     and_then (repo (get_result (select_where fees (\<lambda>f. fee_id f = fid)))) (\<lambda>f.
     and_then (check_fee acl ActWrite (Some f)) (\<lambda>_.
     repo (get_result (update_where fees set_fees (\<lambda>f. fee_id f = fid) (\<lambda>_. update_fee_changes payload)))))"

text \<open>A fee that a payment intent still refers to is not deleted.\<close>

definition delete_fees_where ::
  "(fee \<Rightarrow> bool) \<Rightarrow> timestamp \<Rightarrow> 'd db \<Rightarrow> diesel_error + (fee list \<times> 'd db)" where
  "delete_fees_where p _ d =
     (let (gone, rest) = delete_rows p (fees d)
      in if \<exists>x\<in>set (payment_intents_fees d). pif_fee_id x \<in> set (map fee_id gone)
         then Inl OtherDieselError else Inr (gone, d\<lparr>fees := rest\<rparr>))"

definition fees_delete :: "acl \<Rightarrow> fee_id \<Rightarrow> ('d world, repo_error, unit) comp" where
  "fees_delete acl fid =
     and_then (repo (get_result (select_where fees (\<lambda>f. fee_id f = fid)))) (\<lambda>f.
     and_then (check_fee acl ActWrite (Some f)) (\<lambda>_.
     map_ok (\<lambda>_. ()) (repo (get_result (execute (delete_fees_where (\<lambda>f. fee_id f = fid)))))))"

context world_relation
begin

lemma keeps_check_fee [keeps_intros]:
  "keeps R (check acl res act fees_in_scope f)"
  unfolding fees_in_scope_def store_of_order_def
  by (rule keeps_check)
     (auto intro!: keeps_ok keeps_then_res keeps_get_result keeps_select keeps_user_is_store_manager
       split: scope.split option.split sum.split)

end

end
