(* ===== verification/PaymentIntentsRepo.thy ===== *)
theory PaymentIntentsRepo
  imports Prelude Models World Authorization Tables Constraints OrdersRepo FeesRepo
begin

text \<open>
  \<open>repos/payment_intent.rs\<close>, \<open>repos/payment_intents_invoices.rs\<close> and \<open>repos/payment_intents_fees.rs\<close>:
  the payment intents of Stripe and what they pay, an invoice or a fee.
\<close>

section \<open>Payment intents\<close>

definition payment_intents_in_scope :: "('d, payment_intent) scope_checker" where
  "payment_intents_in_scope uid s obj = (case s of ScopeAll \<Rightarrow> ok True | ScopeOwned \<Rightarrow> ok False)"

definition pis_get :: "acl \<Rightarrow> payment_intent_id \<Rightarrow> ('d world, repo_error, payment_intent option) comp" where
  "pis_get acl pid =
     and_then (repo (optional (get_result (select_where payment_intents (\<lambda>p. pi_id p = pid))))) (\<lambda>found.
     case found of
       None \<Rightarrow> ok None
     | Some p \<Rightarrow>
         and_then (check acl ResPaymentIntent ActRead payment_intents_in_scope (Some p)) (\<lambda>_. ok (Some p)))"

definition insert_payment_intent ::
  "new_payment_intent \<Rightarrow> timestamp \<Rightarrow> 'd db \<Rightarrow> diesel_error + (payment_intent \<times> 'd db)" where
  "insert_payment_intent p now d =
     (let r = \<lparr>pi_id = npi_id p, pi_amount = npi_amount p, pi_amount_received = npi_amount_received p,
               pi_client_secret = npi_client_secret p, pi_currency = npi_currency p,
               pi_last_payment_error_message = npi_last_payment_error_message p,
               pi_receipt_email = npi_receipt_email p, pi_charge_id = npi_charge_id p,
               pi_status = npi_status p, pi_created_at = now, pi_updated_at = now\<rparr>
      in if \<exists>q\<in>set (payment_intents d). pi_id q = pi_id r then Inl UniqueViolation
         else Inr (r, d\<lparr>payment_intents := payment_intents d @ [r]\<rparr>))"

definition pis_create :: "acl \<Rightarrow> new_payment_intent \<Rightarrow> ('d world, repo_error, payment_intent) comp" where
  "pis_create acl payload =
     and_then (check acl ResPaymentIntent ActWrite payment_intents_in_scope None) (\<lambda>_.
     repo (execute (insert_payment_intent payload)))"

definition pis_update ::
  "acl \<Rightarrow> payment_intent_id \<Rightarrow> update_payment_intent \<Rightarrow> ('d world, repo_error, payment_intent) comp" where
  "pis_update acl pid payload =
     and_then (check acl ResPaymentIntent ActWrite payment_intents_in_scope None) (\<lambda>_.
     repo (get_result (update_where payment_intents set_payment_intents (\<lambda>p. pi_id p = pid)
       (\<lambda>_. update_payment_intent_changes payload))))"

text \<open>Both link tables refer to payment intents without a cascade.\<close>

definition delete_payment_intents_where ::
  "(payment_intent \<Rightarrow> bool) \<Rightarrow> timestamp \<Rightarrow> 'd db \<Rightarrow> diesel_error + (payment_intent list \<times> 'd db)" where
  "delete_payment_intents_where p _ d =
     (let (gone, rest) = delete_rows p (payment_intents d); ids = map pi_id gone
      in if (\<exists>x\<in>set (payment_intents_invoices d). pii_payment_intent_id x \<in> set ids) \<or>
            (\<exists>x\<in>set (payment_intents_fees d). pif_payment_intent_id x \<in> set ids)
         then Inl OtherDieselError else Inr (gone, d\<lparr>payment_intents := rest\<rparr>))"

definition pis_delete :: "acl \<Rightarrow> payment_intent_id \<Rightarrow> ('d world, repo_error, payment_intent option) comp" where
  "pis_delete acl pid =
     and_then (check acl ResPaymentIntent ActWrite payment_intents_in_scope None) (\<lambda>_.
     repo (optional (get_result (execute (delete_payment_intents_where (\<lambda>p. pi_id p = pid))))))"

section \<open>Payment intents of invoices\<close>

datatype search_payment_intent_invoice =
    PiiId int
  | PiiInvoiceId invoice_id
  | PiiPaymentIntentId payment_intent_id

fun pii_matches :: "search_payment_intent_invoice \<Rightarrow> payment_intent_invoice \<Rightarrow> bool" where
  "pii_matches (PiiId n) r \<longleftrightarrow> pii_id r = n"
| "pii_matches (PiiInvoiceId iid) r \<longleftrightarrow> pii_invoice_id r = iid"
| "pii_matches (PiiPaymentIntentId pid) r \<longleftrightarrow> pii_payment_intent_id r = pid"

definition piis_in_scope :: "('d, payment_intent_invoice) scope_checker" where
  "piis_in_scope uid s obj =
     (case s of
        ScopeAll \<Rightarrow> ok True
      | ScopeOwned \<Rightarrow>
          (case obj of
             None \<Rightarrow> ok False
           | Some x \<Rightarrow>
               then_res (optional (get_result (select (\<lambda>d.
                   concat (map (\<lambda>r. map inv_buyer_user_id
                             (filter (\<lambda>i. inv_id i = pii_invoice_id r) (invoices_v2 d)))
                     (filter (\<lambda>r. pii_invoice_id r = pii_invoice_id x) (payment_intents_invoices d)))))))
                 (\<lambda>res. ok (case res of
                     Inr None \<Rightarrow> True
                   | Inr (Some u) \<Rightarrow> user_inner u = uid
                   | Inl _ \<Rightarrow> False))))"

definition piis_get ::
  "acl \<Rightarrow> search_payment_intent_invoice \<Rightarrow> ('d world, repo_error, payment_intent_invoice option) comp" where
  "piis_get acl s =
     and_then (repo (optional (get_result (select_where payment_intents_invoices (pii_matches s))))) (\<lambda>found.
     case found of
       None \<Rightarrow> ok None
     | Some r \<Rightarrow>
         and_then (check acl ResPaymentIntentInvoice ActRead piis_in_scope (Some r)) (\<lambda>_. ok (Some r)))"

definition insert_payment_intent_invoice ::
  "new_payment_intent_invoice \<Rightarrow> int \<Rightarrow> timestamp \<Rightarrow> 'd db \<Rightarrow>
   diesel_error + (payment_intent_invoice \<times> 'd db)" where
  "insert_payment_intent_invoice p n now d =
     (let r = \<lparr>pii_id = n, pii_invoice_id = npii_invoice_id p,
               pii_payment_intent_id = npii_payment_intent_id p, pii_created_at = now,
               pii_updated_at = now\<rparr>
      in if \<exists>q\<in>set (payment_intents_invoices d). pii_id q = n \<or>
              (pii_invoice_id q = pii_invoice_id r \<and> pii_payment_intent_id q = pii_payment_intent_id r)
         then Inl UniqueViolation
         else if pii_invoice_id r \<notin> inv_id ` set (invoices_v2 d) \<or>
                 pii_payment_intent_id r \<notin> pi_id ` set (payment_intents d)
         then Inl OtherDieselError
         else Inr (r, d\<lparr>payment_intents_invoices := payment_intents_invoices d @ [r]\<rparr>))"

definition piis_create ::
  "acl \<Rightarrow> new_payment_intent_invoice \<Rightarrow> ('d world, repo_error, payment_intent_invoice) comp" where
  "piis_create acl payload =
     and_then (check acl ResPaymentIntentInvoice ActWrite piis_in_scope None) (\<lambda>_.
     repo (execute_serial SeqPaymentIntentsInvoices (insert_payment_intent_invoice payload)))"

definition piis_delete :: "acl \<Rightarrow> search_payment_intent_invoice \<Rightarrow> ('d world, repo_error, unit) comp" where
  "piis_delete acl s =
     and_then (piis_get acl s) (\<lambda>found.
     and_then (check acl ResPaymentIntentInvoice ActWrite piis_in_scope found) (\<lambda>_.
     map_ok (\<lambda>_. ()) (repo (optional (get_result
       (delete_where payment_intents_invoices set_payment_intents_invoices (pii_matches s)))))))"

section \<open>Payment intents of fees\<close>

datatype search_payment_intent_fee =
    PifId int
  | PifFeeId fee_id
  | PifPaymentIntentId payment_intent_id

fun pif_matches :: "search_payment_intent_fee \<Rightarrow> payment_intent_fee \<Rightarrow> bool" where
  "pif_matches (PifId n) r \<longleftrightarrow> pif_id r = n"
| "pif_matches (PifFeeId fid) r \<longleftrightarrow> pif_fee_id r = fid"
| "pif_matches (PifPaymentIntentId pid) r \<longleftrightarrow> pif_payment_intent_id r = pid"

definition pifs_in_scope :: "('d, fee_id) scope_checker" where
  "pifs_in_scope uid s obj =
     (case s of
        ScopeAll \<Rightarrow> ok True
      | ScopeOwned \<Rightarrow>
          (case obj of
             None \<Rightarrow> ok False
           | Some fid \<Rightarrow>
               then_res (get_result (select (\<lambda>d.
                   concat (map (\<lambda>r. concat (map (\<lambda>f. map ord_store_id
                             (filter (\<lambda>q. ord_id q = fee_order_id f) (orders d)))
                             (filter (\<lambda>f. fee_id f = pif_fee_id r) (fees d))))
                     (filter (\<lambda>r. pif_fee_id r = fid) (payment_intents_fees d))))))
                 (\<lambda>res. case res of Inl _ \<Rightarrow> ok False | Inr sid \<Rightarrow> user_is_store_manager uid sid)))"

definition pifs_get ::
  "acl \<Rightarrow> search_payment_intent_fee \<Rightarrow> ('d world, repo_error, payment_intent_fee option) comp" where
  "pifs_get acl s =
     and_then (repo (optional (get_result (select_where payment_intents_fees (pif_matches s))))) (\<lambda>found.
     case found of
       None \<Rightarrow> ok None
     | Some r \<Rightarrow>
         and_then (check acl ResPaymentIntentFee ActRead pifs_in_scope (Some (pif_fee_id r))) (\<lambda>_. ok (Some r)))"

definition insert_payment_intent_fee ::
  "new_payment_intent_fee \<Rightarrow> int \<Rightarrow> timestamp \<Rightarrow> 'd db \<Rightarrow> diesel_error + (payment_intent_fee \<times> 'd db)" where
  "insert_payment_intent_fee p n now d =
     (let r = \<lparr>pif_id = n, pif_fee_id = npif_fee_id p, pif_payment_intent_id = npif_payment_intent_id p,
               pif_created_at = now, pif_updated_at = now\<rparr>
      in if \<exists>q\<in>set (payment_intents_fees d). pif_id q = n \<or>
              (pif_fee_id q = pif_fee_id r \<and> pif_payment_intent_id q = pif_payment_intent_id r)
         then Inl UniqueViolation
         else if pif_fee_id r \<notin> fee_id ` set (fees d) \<or>
                 pif_payment_intent_id r \<notin> pi_id ` set (payment_intents d)
         then Inl OtherDieselError
         else Inr (r, d\<lparr>payment_intents_fees := payment_intents_fees d @ [r]\<rparr>))"

definition pifs_create ::
  "acl \<Rightarrow> new_payment_intent_fee \<Rightarrow> ('d world, repo_error, payment_intent_fee) comp" where
  "pifs_create acl payload =
     and_then (check acl ResPaymentIntentFee ActWrite pifs_in_scope (Some (npif_fee_id payload))) (\<lambda>_.
     repo (execute_serial SeqPaymentIntentsFees (insert_payment_intent_fee payload)))"

definition pifs_delete :: "acl \<Rightarrow> search_payment_intent_fee \<Rightarrow> ('d world, repo_error, unit) comp" where
  "pifs_delete acl s =
     and_then (pifs_get acl s) (\<lambda>found.
     and_then (check acl ResPaymentIntentFee ActWrite pifs_in_scope (map_option pif_fee_id found)) (\<lambda>_.
     map_ok (\<lambda>_. ()) (repo (optional (get_result
       (delete_where payment_intents_fees set_payment_intents_fees (pif_matches s)))))))"

section \<open>Frames\<close>

context world_relation
begin

lemma keeps_check_payment_intent [keeps_intros]:
  "keeps R (check acl res act payment_intents_in_scope p)"
  unfolding payment_intents_in_scope_def
  by (rule keeps_check) (auto intro!: keeps_ok split: scope.split)

lemma keeps_check_pii [keeps_intros]:
  "keeps R (check acl res act piis_in_scope x)"
  unfolding piis_in_scope_def
  by (rule keeps_check)
     (auto intro!: keeps_ok keeps_then_res keeps_optional keeps_get_result keeps_select
       split: scope.split option.split)

lemma keeps_check_pif [keeps_intros]:
  "keeps R (check acl res act pifs_in_scope x)"
  unfolding pifs_in_scope_def
  by (rule keeps_check)
     (auto intro!: keeps_ok keeps_then_res keeps_get_result keeps_select keeps_user_is_store_manager
       split: scope.split option.split sum.split)

end

end
