(* ===== verification/AccountsRepo.thy ===== *)
theory AccountsRepo
  imports Prelude Models World Authorization Tables Constraints
begin

text \<open>
  \<open>repos/accounts.rs\<close>: the accounts of the payments gateway. A pooled account is free when no
  invoice is linked to it.
\<close>

definition accounts_in_scope :: "('d, account) scope_checker" where
  "accounts_in_scope uid s obj = ok True"

abbreviation check_account :: "acl \<Rightarrow> action \<Rightarrow> ('d world, repo_error, unit) comp" where
  "check_account acl act \<equiv> check acl ResAccount act accounts_in_scope None"

text \<open>The two hash maps of \<open>AccountCount\<close>, which have an entry for every currency.\<close>

record account_count =
  ac_pooled :: "ture_currency \<Rightarrow> nat"
  ac_unpooled :: "ture_currency \<Rightarrow> nat"

definition count_accounts :: "account list \<Rightarrow> account_count" where
  "count_accounts rows =
     fold (\<lambda>a n. if acc_is_pooled a
         then n\<lparr>ac_pooled := (ac_pooled n)(acc_currency a := ac_pooled n (acc_currency a) + 1)\<rparr>
         else n\<lparr>ac_unpooled := (ac_unpooled n)(acc_currency a := ac_unpooled n (acc_currency a) + 1)\<rparr>)
       rows \<lparr>ac_pooled = (\<lambda>_. 0), ac_unpooled = (\<lambda>_. 0)\<rparr>"

definition accounts_count :: "acl \<Rightarrow> ('d world, repo_error, account_count) comp" where
  "accounts_count acl =
     and_then (check_account acl ActRead) (\<lambda>_. map_ok count_accounts (repo (select accounts)))"

definition accounts_get :: "acl \<Rightarrow> account_id \<Rightarrow> ('d world, repo_error, account option) comp" where
  "accounts_get acl aid =
     and_then (check_account acl ActRead) (\<lambda>_.
     repo (optional (get_result (select_where accounts (\<lambda>a. acc_id a = aid)))))"

definition get_by_wallet_address :: "acl \<Rightarrow> wallet_address \<Rightarrow> ('d world, repo_error, account option) comp" where
  "get_by_wallet_address acl addr =
     and_then (check_account acl ActRead) (\<lambda>_.
     repo (optional (get_result (select_where accounts (\<lambda>a. acc_wallet_address a = addr)))))"

definition accounts_get_many :: "acl \<Rightarrow> account_id list \<Rightarrow> ('d world, repo_error, account list) comp" where
  "accounts_get_many acl ids =
     and_then (check_account acl ActRead) (\<lambda>_. repo (select_where accounts (\<lambda>a. acc_id a \<in> set ids)))"

definition is_free :: "'d db \<Rightarrow> ture_currency \<Rightarrow> account \<Rightarrow> bool" where
  "is_free d c a \<longleftrightarrow> acc_currency a = c \<and> acc_is_pooled a \<and>
     (\<forall>i\<in>set (invoices_v2 d). inv_account_id i \<noteq> Some (acc_id a))"

definition repo_get_free_account :: "acl \<Rightarrow> ture_currency \<Rightarrow> ('d world, repo_error, account option) comp" where
  "repo_get_free_account acl c =
     and_then (check_account acl ActRead) (\<lambda>_.
     repo (optional (get_result (select (\<lambda>d. filter (is_free d c) (accounts d))))))"

definition insert_account ::
  "new_account \<Rightarrow> timestamp \<Rightarrow> 'd db \<Rightarrow> diesel_error + (account \<times> 'd db)" where
  "insert_account p now d =
     (let a = \<lparr>acc_id = na_id p, acc_currency = na_currency p, acc_is_pooled = na_is_pooled p,
               acc_created_at = now, acc_wallet_address = na_wallet_address p\<rparr>
      in if \<exists>q\<in>set (accounts d). acc_id q = acc_id a then Inl UniqueViolation
         else Inr (a, d\<lparr>accounts := accounts d @ [a]\<rparr>))"

definition accounts_create :: "acl \<Rightarrow> new_account \<Rightarrow> ('d world, repo_error, account) comp" where
  "accounts_create acl payload =
     and_then (check_account acl ActWrite) (\<lambda>_. repo (execute (insert_account payload)))"

definition accounts_delete :: "acl \<Rightarrow> account_id \<Rightarrow> ('d world, repo_error, account option) comp" where
  "accounts_delete acl aid =
     and_then (check_account acl ActWrite) (\<lambda>_.
     repo (optional (get_result (execute (delete_accounts_where (\<lambda>a. acc_id a = aid))))))"

context world_relation
begin

lemma keeps_check_account [keeps_intros]:
  "keeps R (check acl res act accounts_in_scope x)"
  unfolding accounts_in_scope_def by (rule keeps_check) (rule keeps_ok)

end

end
