(* ===== verification/PayoutsRepo.thy ===== *)
theory PayoutsRepo
  imports Prelude Models World Authorization Tables Constraints "HOL-Library.AList"
begin

text \<open>
  \<open>repos/payouts.rs\<close>: the payouts to sellers and the orders that each of them pays. The hash map of
  \<open>PayoutsByOrderIds\<close> is an association list; \<open>group_by\<close> groups neighbouring rows only.
\<close>

section \<open>Operations\<close>

definition payouts_in_scope :: "('d, user_id) scope_checker" where
  "payouts_in_scope uid s obj =
     (case s of
        ScopeAll \<Rightarrow> ok True
      | ScopeOwned \<Rightarrow> ok (case obj of Some u \<Rightarrow> user_inner u = uid | None \<Rightarrow> False))"

abbreviation check_payout :: "acl \<Rightarrow> action \<Rightarrow> user_id \<Rightarrow> ('d world, repo_error, unit) comp" where
  "check_payout acl act u \<equiv> check acl ResPayout act payouts_in_scope (Some u)"

definition into_domain ::
  "raw_payout_records option \<Rightarrow> ('d world, repo_error, payout option) comp" where
  "into_domain r =
     (case r of
        None \<Rightarrow> ok None
      | Some rs \<Rightarrow> map_ok Some (ok_or RInternal (try_into_domain rs)))"

definition get_payout_by_id :: "payout_id \<Rightarrow> ('d world, repo_error, payout option) comp" where
  "get_payout_by_id pid =
     and_then (repo (transaction id
       (and_then (optional (get_result (select_where payouts (\<lambda>p. rp_id p = pid)))) (\<lambda>p.
        case p of
          None \<Rightarrow> ok None
        | Some raw \<Rightarrow>
            and_then (select_where order_payouts (\<lambda>x. rop_payout_id x = rp_id raw)) (\<lambda>ops.
            ok (Some \<lparr>rpr_payout = raw, rpr_order_payouts = ops\<rparr>))))))
       into_domain"

definition get_payout_by_order_id :: "order_id \<Rightarrow> ('d world, repo_error, payout option) comp" where
  "get_payout_by_order_id oid =
     and_then (repo (transaction id
       (and_then (optional (get_result (map_ok (map rop_payout_id)
            (select_where order_payouts (\<lambda>x. rop_order_id x = oid))))) (\<lambda>pid.
        case pid of
          None \<Rightarrow> ok None
        | Some pid \<Rightarrow>
            and_then (get_result (select_where payouts (\<lambda>p. rp_id p = pid))) (\<lambda>raw.
            and_then (select_where order_payouts (\<lambda>x. rop_payout_id x = pid)) (\<lambda>ops.
            ok (Some \<lparr>rpr_payout = raw, rpr_order_payouts = ops\<rparr>)))))))
       into_domain"

text \<open>\<open>itertools::group_by\<close> on the payout, whose equality compares the ids.\<close>

fun group_records :: "(raw_order_payout \<times> raw_payout) list \<Rightarrow> raw_payout_records list" where
  "group_records [] = []"
| "group_records ((x, p) # rest) =
     (case group_records rest of
        [] \<Rightarrow> [\<lparr>rpr_payout = p, rpr_order_payouts = [x]\<rparr>]
      | g # gs \<Rightarrow>
          if rp_id (rpr_payout g) = rp_id p
          then \<lparr>rpr_payout = p, rpr_order_payouts = x # rpr_order_payouts g\<rparr> # gs
          else \<lparr>rpr_payout = p, rpr_order_payouts = [x]\<rparr> # g # gs)"

definition extend_payouts :: "(order_id \<times> payout) list \<Rightarrow> payout \<Rightarrow> (order_id \<times> payout) list" where
  "extend_payouts acc p = fold (\<lambda>oid m. AList.update oid p m) (po_order_ids p) acc"

definition join_payouts :: "order_id list \<Rightarrow> 'd db \<Rightarrow> (raw_order_payout \<times> raw_payout) list" where
  "join_payouts ids d =
     concat (map (\<lambda>x. map (\<lambda>p. (x, p)) (filter (\<lambda>p. rp_id p = rop_payout_id x) (payouts d)))
       (filter (\<lambda>x. rop_order_id x \<in> set ids) (order_payouts d)))"

definition get_payouts_by_order_ids ::
  "order_id list \<Rightarrow> ('d world, repo_error, payouts_by_order_ids) comp" where
  "get_payouts_by_order_ids ids =
     (if ids = [] then ok \<lparr>pbo_payouts = [], pbo_order_ids_without_payout = []\<rparr>
      else and_then (repo (select (join_payouts ids))) (\<lambda>records.
        map_ok (\<lambda>m. \<lparr>pbo_payouts = m,
            pbo_order_ids_without_payout = filter (\<lambda>oid. \<not> list_ex (\<lambda>(x, _). rop_order_id x = oid) records) ids\<rparr>)
          (ok_or RInternal (try_fold
            (\<lambda>acc g. map_option (extend_payouts acc) (try_into_domain g)) [] (group_records records)))))"

definition insert_payout :: "raw_payout \<Rightarrow> timestamp \<Rightarrow> 'd db \<Rightarrow> diesel_error + (raw_payout \<times> 'd db)" where
  "insert_payout p now d =
     (if \<exists>q\<in>set (payouts d). rp_id q = rp_id p then Inl UniqueViolation
      else Inr (p, d\<lparr>payouts := payouts d @ [p]\<rparr>))"

text \<open>One statement inserts all the entries; the serial numbers follow each other.\<close>

fun insert_order_payouts_from ::
  "raw_new_order_payout list \<Rightarrow> int \<Rightarrow> 'd db \<Rightarrow> diesel_error + (raw_order_payout list \<times> 'd db)" where
  "insert_order_payouts_from [] n d = Inr ([], d)"
| "insert_order_payouts_from (p # ps) n d =
     (let r = \<lparr>rop_id = OrderPayoutId n, rop_order_id = rnop_order_id p, rop_payout_id = rnop_payout_id p\<rparr>
      in if \<exists>q\<in>set (order_payouts d). rop_id q = rop_id r \<or>
              (rop_order_id q = rop_order_id r \<and> rop_payout_id q = rop_payout_id r)
         then Inl UniqueViolation
         else if rop_order_id r \<notin> ord_id ` set (orders d) \<or> rop_payout_id r \<notin> rp_id ` set (payouts d)
         then Inl OtherDieselError
         else (case insert_order_payouts_from ps (n + 1) (d\<lparr>order_payouts := order_payouts d @ [r]\<rparr>) of
                 Inl e \<Rightarrow> Inl e
               | Inr (rs, e) \<Rightarrow> Inr (r # rs, e)))"

definition insert_order_payouts ::
  "raw_new_order_payout list \<Rightarrow> ('d world, diesel_error, raw_order_payout list) comp" where
  "insert_order_payouts ps =
     and_then (get_state (\<lambda>w. w_seqs w SeqOrderPayouts)) (\<lambda>n.
     and_then (modify (\<lambda>w. w\<lparr>w_seqs := (w_seqs w)(SeqOrderPayouts := n + int (length ps))\<rparr>)) (\<lambda>_.
     execute (\<lambda>_. insert_order_payouts_from ps n)))"

definition payouts_create :: "acl \<Rightarrow> payout \<Rightarrow> ('d world, repo_error, payout) comp" where
  "payouts_create acl p =
     and_then (check_payout acl ActWrite (po_user_id p)) (\<lambda>_.
     let (raw, ops) = raw_new_payout_records p in
     and_then (repo (transaction id
       (and_then (execute (insert_payout raw)) (\<lambda>raw'.
        and_then (insert_order_payouts ops) (\<lambda>ops'.
        ok \<lparr>rpr_payout = raw', rpr_order_payouts = ops'\<rparr>))))) (\<lambda>rs.
     ok_or RInternal (try_into_domain rs)))"

definition checked_payout ::
  "acl \<Rightarrow> ('d world, repo_error, payout option) comp \<Rightarrow> ('d world, repo_error, payout option) comp" where
  "checked_payout acl query =
     and_then query (\<lambda>found.
     case found of
       None \<Rightarrow> ok None
     | Some p \<Rightarrow> and_then (check_payout acl ActRead (po_user_id p)) (\<lambda>_. ok (Some p)))"

definition payouts_get :: "acl \<Rightarrow> payout_id \<Rightarrow> ('d world, repo_error, payout option) comp" where
  "payouts_get acl pid = checked_payout acl (get_payout_by_id pid)"

definition payouts_get_by_order_id :: "acl \<Rightarrow> order_id \<Rightarrow> ('d world, repo_error, payout option) comp" where
  "payouts_get_by_order_id acl oid = checked_payout acl (get_payout_by_order_id oid)"

text \<open>The update has no filter: it completes every payout.\<close>

definition complete_payouts :: "timestamp \<Rightarrow> ('d world, diesel_error, raw_payout list) comp" where
  "complete_payouts now =
     update_where payouts set_payouts (\<lambda>_. True) (\<lambda>_ p. p\<lparr>rp_completed_at := Some now\<rparr>)"

definition mark_as_completed :: "acl \<Rightarrow> payout_id \<Rightarrow> ('d world, repo_error, payout) comp" where
  "mark_as_completed acl pid =
     and_then (repo (get_result (map_ok (map rp_user_id) (select_where payouts (\<lambda>p. rp_id p = pid))))) (\<lambda>u.
     and_then (check_payout acl ActWrite u) (\<lambda>_.
     and_then utc_now (\<lambda>now.
     and_then (repo (complete_payouts now)) (\<lambda>_.
     and_then (get_payout_by_id pid) (\<lambda>found.
     ok_or RInternal found)))))"

definition payouts_get_by_order_ids ::
  "acl \<Rightarrow> order_id list \<Rightarrow> ('d world, repo_error, payouts_by_order_ids) comp" where
  "payouts_get_by_order_ids acl ids =
     and_then (get_payouts_by_order_ids ids) (\<lambda>found.
     and_then (for_each (\<lambda>(_, p). check_payout acl ActRead (po_user_id p)) (pbo_payouts found)) (\<lambda>_.
     ok found))"

section \<open>Frames\<close>

context world_relation
begin

lemma keeps_check_payout [keeps_intros]:
  "keeps R (check acl res act payouts_in_scope u)"
  unfolding payouts_in_scope_def
  by (rule keeps_check) (auto intro!: keeps_ok split: scope.split)

lemma keeps_into_domain [keeps_intros]: "keeps R (into_domain r)"
  unfolding into_domain_def by (intro keeps_case_option keeps_ok keeps_map_ok keeps_ok_or)

lemma keeps_get_payout_by_id [keeps_intros]: "keeps R (get_payout_by_id pid)"
  unfolding get_payout_by_id_def
  by (intro keeps_and_then keeps_repo keeps_transaction keeps_optional keeps_get_result
      keeps_select_where keeps_case_option keeps_ok keeps_into_domain)

lemma keeps_get_payouts_by_order_ids [keeps_intros]:
  "keeps R (get_payouts_by_order_ids ids)"
  unfolding get_payouts_by_order_ids_def
  by (intro keeps_and_then keeps_repo keeps_select keeps_if keeps_ok keeps_map_ok keeps_ok_or)

lemma keeps_payouts_get_by_order_ids [keeps_intros]:
  "keeps R (payouts_get_by_order_ids acl ids)"
  unfolding payouts_get_by_order_ids_def
  by (intro keeps_and_then keeps_get_payouts_by_order_ids keeps_for_each keeps_case_prod
      keeps_check_payout keeps_ok)

lemma keeps_payouts_get [keeps_intros]: "keeps R (payouts_get acl pid)"
  unfolding payouts_get_def checked_payout_def
  by (intro keeps_and_then keeps_get_payout_by_id keeps_case_option keeps_check_payout keeps_ok)

end

end
