(* ===== verification/Services.thy ===== *)
theory Services
  imports Prelude Models World Authorization Tables Clients OrdersRepo
begin

text \<open>
  What the services share: the conversions of errors (\<open>ectx!(convert ...)\<close>), the thread pool
  (\<open>services/types.rs\<close>), validation errors and the responses of \<open>controller/responses\<close>.
\<close>

section \<open>Errors and connections\<close>

definition svc :: "('s, repo_error, 'a) comp \<Rightarrow> ('s, service_error, 'a) comp" where
  "svc m = map_err service_error_of_repo m"

definition svc_client :: "('s, client_error, 'a) comp \<Rightarrow> ('s, service_error, 'a) comp" where
  "svc_client m = map_err service_error_of_client m"

abbreviation pool :: "('d world, service_error, 'a) comp \<Rightarrow> ('d world, service_error, 'a) comp" where
  "pool m \<equiv> spawn_on_pool SInternal m"

definition invalid :: "string \<Rightarrow> string \<Rightarrow> service_error" where
  "invalid field code = SValidation [(field, code)]"

definition wrong_state :: "service_error" where
  "wrong_state = invalid ''order'' ''wrong_state''"

text \<open>A conversion that panics ends the thread.\<close>

definition unwrap :: "'a option \<Rightarrow> ('s, service_error, 'a) comp" where
  "unwrap x = ok_or SPanic x"

section \<open>Responses\<close>

record order_response =
  orsp_id :: order_id
  orsp_seller_currency :: stq_currency
  orsp_total_amount :: f64
  orsp_cashback_amount :: f64
  orsp_invoice_id :: invoice_id
  orsp_created_at :: timestamp
  orsp_updated_at :: timestamp
  orsp_store_id :: store_id
  orsp_state :: payment_state
  orsp_stripe_fee :: "f64 option"

text \<open>An amount in super units as an \<open>f64\<close>; the conversion of the decimal may fail.\<close>

definition amount_f64 :: "'d bigdecimal \<Rightarrow> amount \<Rightarrow> currency \<Rightarrow> f64 option" where
  "amount_f64 D a c = bd_to_f64 D (to_super_unit D a c)"

definition try_from_raw_order :: "'d bigdecimal \<Rightarrow> raw_order \<Rightarrow> service_error + order_response" where
  "try_from_raw_order D r =
     (let c = ord_seller_currency r in
      case amount_f64 D (ord_total_amount r) c of
        None \<Rightarrow> Inl SInternal
      | Some tot \<Rightarrow>
          (case amount_f64 D (ord_cashback_amount r) c of
             None \<Rightarrow> Inl SInternal
           | Some cashback \<Rightarrow>
               (case (case ord_stripe_fee r of
                        None \<Rightarrow> Inr None
                      | Some f \<Rightarrow> (case amount_f64 D f c of None \<Rightarrow> Inl SInternal | Some x \<Rightarrow> Inr (Some x))) of
                  Inl e \<Rightarrow> Inl e
                | Inr stripe_fee \<Rightarrow>
                    Inr \<lparr>orsp_id = ord_id r, orsp_seller_currency = into_stq_currency c,
                         orsp_total_amount = tot, orsp_cashback_amount = cashback,
                         orsp_invoice_id = ord_invoice_id r, orsp_created_at = ord_created_at r,
                         orsp_updated_at = ord_updated_at r, orsp_store_id = ord_store_id r,
                         orsp_state = ord_state r, orsp_stripe_fee = stripe_fee\<rparr>)))"

record order_search_results_response =
  osrr_total_count :: int
  osrr_orders :: "order_response list"

record payment_intent_response =
  pirsp_id :: payment_intent_id
  pirsp_amount :: f64
  pirsp_amount_received :: f64
  pirsp_client_secret :: "string option"
  pirsp_currency :: stq_currency
  pirsp_last_payment_error_message :: "string option"
  pirsp_receipt_email :: "string option"
  pirsp_charge_id :: "charge_id option"
  pirsp_status :: payment_intent_status

definition try_from_payment_intent ::
  "'d bigdecimal \<Rightarrow> payment_intent \<Rightarrow> service_error + payment_intent_response" where
  "try_from_payment_intent D p =
     (case (amount_f64 D (pi_amount p) (pi_currency p), amount_f64 D (pi_amount_received p) (pi_currency p)) of
        (Some a, Some received) \<Rightarrow>
          Inr \<lparr>pirsp_id = pi_id p, pirsp_amount = a, pirsp_amount_received = received,
               pirsp_client_secret = pi_client_secret p,
               pirsp_currency = into_stq_currency (pi_currency p),
               pirsp_last_payment_error_message = pi_last_payment_error_message p,
               pirsp_receipt_email = pi_receipt_email p, pirsp_charge_id = pi_charge_id p,
               pirsp_status = pi_status p\<rparr>
      | _ \<Rightarrow> Inl SInternal)"

record fee_response =
  frsp_id :: fee_id
  frsp_order_id :: order_id
  frsp_amount :: f64
  frsp_status :: fee_status
  frsp_currency :: stq_currency
  frsp_charge_id :: "charge_id option"

definition try_from_fee :: "'d bigdecimal \<Rightarrow> fee \<Rightarrow> service_error + fee_response" where
  "try_from_fee D f =
     (case amount_f64 D (fee_amount f) (fee_currency f) of
        None \<Rightarrow> Inl SInternal
      | Some a \<Rightarrow>
          Inr \<lparr>frsp_id = fee_id f, frsp_order_id = fee_order_id f, frsp_amount = a,
               frsp_status = fee_status f, frsp_currency = into_stq_currency (fee_currency f),
               frsp_charge_id = fee_charge_id f\<rparr>)"

text \<open>The hash map of \<open>BalancesResponse\<close>.\<close>

record 'd balances_response =
  br_currencies :: "(stq_currency \<times> 'd) list"

text \<open>The environment of the witnesses: every service is down.\<close>

definition offline_env :: "rat env" where
  "offline_env = \<lparr>
     payments_get_account = (\<lambda>_ _. Inl CInternal), payments_create_account = (\<lambda>_ _. Inl CInternal),
     payments_delete_account = (\<lambda>_ _. Inl CInternal), payments_get_rate = (\<lambda>_ _. Inl CInternal),
     payments_refresh_rate = (\<lambda>_ _. Inl CInternal), payments_get_fees = (\<lambda>_ _. Inl CInternal),
     payments_get_transaction = (\<lambda>_ _. Inl CInternal),
     payments_create_external_transaction = (\<lambda>_ _. Inl CInternal),
     payments_create_internal_transaction = (\<lambda>_ _. Inl CInternal),
     saga_update_order_states = (\<lambda>_ _. Inl CInternal),
     stores_get_currency_exchange = (\<lambda>_ _. Inl CInternal),
     stripe_create_payment_intent = (\<lambda>_ _. Inl CInternal),
     stripe_get_payment_intent = (\<lambda>_ _. Inl CInternal),
     stripe_cancel_payment_intent = (\<lambda>_ _. Inl CInternal),
     stripe_get_charge = (\<lambda>_ _. Inl CInternal),
     stripe_retrieve_balance_transaction = (\<lambda>_ _. Inl CInternal),
     stripe_refund = (\<lambda>_ _. Inl CInternal), stripe_create_charge = (\<lambda>_ _. Inl CInternal),
     stripe_currency_from_str = (\<lambda>_. None),
     stripe_create_customer_with_source = (\<lambda>_ _. Inl CInternal),
     stripe_get_customer = (\<lambda>_ _. Inl CInternal), stripe_delete_customer = (\<lambda>_ _. Inl CInternal),
     stripe_update_customer = (\<lambda>_ _. Inl CInternal), card_token_from_str = (\<lambda>_. None)\<rparr>"

section \<open>Amounts as natural numbers\<close>

abbreviation amount_nat :: "amount \<Rightarrow> nat" where
  "amount_nat a \<equiv> unat (inner a)"

lemma checked_add_nat: "checked_add a b = Some c \<Longrightarrow> amount_nat c = amount_nat a + amount_nat b"
  by (auto simp: checked_add_def u128_checked_add_Some)

lemma checked_sub_nat: "checked_sub a b = Some c \<Longrightarrow> amount_nat a = amount_nat b + amount_nat c"
  by (auto simp: checked_sub_def u128_checked_sub_Some)

lemma sum_amounts: "try_fold checked_add acc xs = Some s \<Longrightarrow> amount_nat s = amount_nat acc + (\<Sum>x\<leftarrow>xs. amount_nat x)"
  by (induction xs arbitrary: acc) (auto split: option.splits dest: checked_add_nat)

lemma checked_mul_nat: "checked_mul a b = Some c \<longleftrightarrow> amount_nat c = amount_nat a * amount_nat b"
  by (cases c) (auto simp: checked_mul_def u128_checked_mul_Some)

lemma checked_mul_None: "checked_mul a b = None \<longleftrightarrow> 2 ^ 128 \<le> amount_nat a * amount_nat b"
  by (simp add: checked_mul_def u128_checked_mul_def not_less)

section \<open>Laws\<close>

lemma svc_success [success]: "svc m w = (Inr a, t) \<longleftrightarrow> m w = (Inr a, t)"
  by (simp add: svc_def success)

lemma svc_client_success [success]: "svc_client m w = (Inr a, t) \<longleftrightarrow> m w = (Inr a, t)"
  by (simp add: svc_client_def success)

lemma svc_ok [simp]: "svc (ok a) = ok a"
  by (simp add: svc_def map_err_def fun_eq_iff)

lemma unwrap_success [success]: "unwrap x w = (Inr a, t) \<longleftrightarrow> x = Some a \<and> t = w"
  by (simp add: unwrap_def success)

lemma spawn_success:
  "spawn_on_pool e m w = (Inr a, t) \<longleftrightarrow> \<not> w_faults w 0 \<and> m (next_fault w) = (Inr a, t)"
  by (cases "w_faults w 0") (simp_all add: spawn_on_pool_def)

lemma next_fault_simps [simp]:
  "w_db (next_fault w) = w_db w" "w_depth (next_fault w) = w_depth w"
  "w_aborted (next_fault w) = w_aborted w" "w_clock (next_fault w) = w_clock w"
  "w_uuids (next_fault w) = w_uuids w" "w_seqs (next_fault w) = w_seqs w"
  "w_calls (next_fault w) = w_calls w" "w_roles_cache (next_fault w) = w_roles_cache w"
  "w_cache_up (next_fault w) = w_cache_up w"
  by (simp_all add: next_fault_def)

text \<open>The state in which a run on the pool ends is the one of the run itself.\<close>

lemma spawn_cases:
  assumes "spawn_on_pool e m w = (r, t)"
  obtains "r = Inl e" "t = next_fault w" | "m (next_fault w) = (r, t)"
  using assms by (cases "w_faults w 0") (simp_all add: spawn_on_pool_def)

context world_relation
begin

lemma keeps_svc [keeps_intros]:
  "keeps R m \<Longrightarrow> keeps R (svc m)"
  unfolding svc_def by (rule keeps_map_err)

lemma keeps_svc_client [keeps_intros]:
  "keeps R m \<Longrightarrow> keeps R (svc_client m)"
  unfolding svc_client_def by (rule keeps_map_err)

lemma keeps_unwrap [keeps_intros]: "keeps R (unwrap x)"
  unfolding unwrap_def by (rule keeps_ok_or)

lemma keeps_orders_get [keeps_intros]: "keeps R (orders_get acl oid)"
  unfolding orders_get_def
  by (intro keeps_and_then keeps_repo keeps_optional keeps_get_result keeps_select_where
      keeps_case_option keeps_ok keeps_check_order)

end

end
