(* ===== verification/Triples.thy ===== *)
theory Triples
  imports Prelude Models World Authorization Tables EventStore OrdersRepo Services
begin

text \<open>
  Weakest preconditions for computations: \<open>ends m w Q\<close> says that the run of \<open>m\<close> from \<open>w\<close> ends
  with a result and a state that satisfy \<open>Q\<close>, whether the result is a value or an error. The rules
  take a service apart step by step; a computation that only reads keeps the tables.
\<close>

named_theorems ends_rules \<open>rules that take a computation apart\<close>

definition ends :: "('s, 'e, 'a) comp \<Rightarrow> 's \<Rightarrow> ('e + 'a \<Rightarrow> 's \<Rightarrow> bool) \<Rightarrow> bool" where
  "ends m w Q = (case m w of (r, t) \<Rightarrow> Q r t)"

lemma map_sum_iffs [simp]:
  "map_sum f id r = Inr a \<longleftrightarrow> r = Inr a"
  "map_sum id g r = Inl e \<longleftrightarrow> r = Inl e"
  by (cases r; auto)+

lemma endsI: "(\<And>r t. m w = (r, t) \<Longrightarrow> Q r t) \<Longrightarrow> ends m w Q"
  by (simp add: ends_def split: prod.split)

lemma endsD: "ends m w Q \<Longrightarrow> m w = (r, t) \<Longrightarrow> Q r t"
  by (simp add: ends_def)

lemma ends_mono: "ends m w Q \<Longrightarrow> (\<And>r t. Q r t \<Longrightarrow> R r t) \<Longrightarrow> ends m w R"
  by (simp add: ends_def split: prod.splits)

lemma ends_ok [ends_rules]: "Q (Inr a) w \<Longrightarrow> ends (ok a) w Q"
  by (simp add: ends_def)

lemma ends_err [ends_rules]: "Q (Inl e) w \<Longrightarrow> ends (err e) w Q"
  by (simp add: ends_def)

lemma ends_of_result [ends_rules]: "Q r w \<Longrightarrow> ends (of_result r) w Q"
  by (simp add: ends_def)

lemma ends_ok_or [ends_rules]:
  "(x = None \<Longrightarrow> Q (Inl e) w) \<Longrightarrow> (\<And>a. x = Some a \<Longrightarrow> Q (Inr a) w) \<Longrightarrow> ends (ok_or e x) w Q"
  by (cases x) (simp_all add: ends_def)

lemma ends_and_then:
  assumes "ends m w (\<lambda>r t. case r of Inl e \<Rightarrow> Q (Inl e) t | Inr a \<Rightarrow> ends (f a) t Q)"
  shows "ends (and_then m f) w Q"
  using assms by (auto simp: ends_def and_then_def split: prod.splits sum.splits)

lemma ends_then_res:
  "ends m w (\<lambda>r t. ends (f r) t Q) \<Longrightarrow> ends (then_res m f) w Q"
  by (simp add: ends_def then_res_def split: prod.splits)

lemma ends_or_else:
  assumes "ends m w (\<lambda>r t. case r of Inl e \<Rightarrow> ends (f e) t Q | Inr a \<Rightarrow> Q (Inr a) t)"
  shows "ends (or_else m f) w Q"
  using assms by (auto simp: ends_def or_else_def split: prod.splits sum.splits)

lemma ends_map_ok: "ends m w (\<lambda>r t. Q (map_sum id g r) t) \<Longrightarrow> ends (map_ok g m) w Q"
  by (simp add: ends_def map_ok_def split: prod.splits)

lemma ends_map_err: "ends m w (\<lambda>r t. Q (map_sum g id r) t) \<Longrightarrow> ends (map_err g m) w Q"
  by (simp add: ends_def map_err_def split: prod.splits)

lemma ends_svc: "ends m w (\<lambda>r t. Q (map_sum service_error_of_repo id r) t) \<Longrightarrow> ends (svc m) w Q"
  unfolding svc_def by (rule ends_map_err)

lemma ends_repo: "ends m w (\<lambda>r t. Q (map_sum repo_error_of_diesel id r) t) \<Longrightarrow> ends (repo m) w Q"
  unfolding repo_def by (rule ends_map_err)

lemma ends_spawn:
  "Q (Inl e) (next_fault w) \<Longrightarrow> ends m (next_fault w) Q \<Longrightarrow> ends (spawn_on_pool e m) w Q"
  by (simp add: ends_def spawn_on_pool_def)

lemma ends_if:
  "(b \<Longrightarrow> ends m w Q) \<Longrightarrow> (\<not> b \<Longrightarrow> ends n w Q) \<Longrightarrow> ends (if b then m else n) w Q"
  by simp

text \<open>A transaction ends with the tables as they were, or with those of its successful body.\<close>

lemma ends_transaction:
  assumes "\<And>r t. w_db t = w_db w \<Longrightarrow> Q r t"
    and "\<And>a u t. m (inner_world w) = (Inr a, u) \<Longrightarrow> w_db t = w_db u \<Longrightarrow> Q (Inr a) t"
  shows "ends (transaction conv m) w Q"
proof (rule endsI)
  fix r t
  assume run: "transaction conv m w = (r, t)"
  show "Q r t"
  proof (cases r)
    case (Inl e)
    with run show ?thesis using assms(1) transaction_error_db by metis
  next
    case (Inr a)
    with transaction_inner [of conv m w a t] run obtain u where "m (inner_world w) = (Inr a, u)"
      and "w_db t = w_db u \<or> w_db t = w_db w" by auto
    with Inr assms show ?thesis by auto
  qed
qed

text \<open>A computation that keeps a relation, and one that only reads.\<close>

lemma ends_keeps: "keeps R m \<Longrightarrow> (\<And>r t. R w t \<Longrightarrow> Q r t) \<Longrightarrow> ends m w Q"
  by (auto simp: keeps_def ends_def split: prod.splits) (metis snd_conv)

abbreviation reads :: "('d world, 'e, 'a) comp \<Rightarrow> bool" where
  "reads m \<equiv> keeps (\<lambda>s t. same_db (w_db s) (w_db t)) m"

lemma ends_reads: "reads m \<Longrightarrow> (\<And>r t. w_db t = w_db w \<Longrightarrow> Q r t) \<Longrightarrow> ends m w Q"
  by (erule ends_keeps) (simp add: same_db_def)

lemma ends_read_then:
  assumes "reads m" and "\<And>e t. w_db t = w_db w \<Longrightarrow> Q (Inl e) t"
    and "\<And>a t. m w = (Inr a, t) \<Longrightarrow> w_db t = w_db w \<Longrightarrow> ends (f a) t Q"
  shows "ends (and_then m f) w Q"
proof (rule ends_and_then, rule endsI)
  fix r t
  assume run: "m w = (r, t)"
  then have "w_db t = w_db w" by (rule same_dbD [OF assms(1)])
  then show "case r of Inl e \<Rightarrow> Q (Inl e) t | Inr a \<Rightarrow> ends (f a) t Q"
    using assms(2,3) run by (cases r) simp_all
qed

lemma ends_keeps_then:
  assumes "keeps R m" and "\<And>e t. R w t \<Longrightarrow> Q (Inl e) t"
    and "\<And>a t. m w = (Inr a, t) \<Longrightarrow> R w t \<Longrightarrow> ends (f a) t Q"
  shows "ends (and_then m f) w Q"
proof (rule ends_and_then, rule endsI)
  fix r t
  assume run: "m w = (r, t)"
  then have "R w t" by (rule keepsD [OF assms(1)])
  then show "case r of Inl e \<Rightarrow> Q (Inl e) t | Inr a \<Rightarrow> ends (f a) t Q"
    using assms(2,3) run by (cases r) simp_all
qed

text \<open>Statements make no calls to other services.\<close>

abbreviation silently :: "('d world, 'e, 'a) comp \<Rightarrow> bool" where
  "silently m \<equiv> keeps (\<lambda>s t. w_calls t = w_calls s) m"

lemma ends_silent: "silently m \<Longrightarrow> ends m w Q \<Longrightarrow> ends m w (\<lambda>r t. w_calls t = w_calls w \<and> Q r t)"
  by (auto simp: keeps_def ends_def split: prod.splits) (metis snd_conv)

lemma silent_statements [keeps_intros]:
  "silently (execute f)" "silently (execute_serial u g)"
  "silently (update_where rows put p h)" "silently (delete_where rows put p)"
  by (rule silent.keeps_execute_world silent.keeps_execute_serial_world
      silent.keeps_update_where_world silent.keeps_delete_where_world; simp)+

lemma silent_update_state [keeps_intros]: "silently (update_state acl oid st)"
  unfolding update_state_def update_order_def by (intro keeps_intros)

text \<open>The queries for one row.\<close>

lemma ends_orders_get:
  assumes "\<And>r t. w_db t = w_db w \<Longrightarrow>
    (\<And>q. r = Inr (Some q) \<Longrightarrow> row_by (\<lambda>x. ord_id x = oid) (orders (w_db w)) = Some q) \<Longrightarrow> Q r t"
  shows "ends (orders_get acl oid) w Q"
proof (rule endsI)
  fix r t
  assume run: "orders_get acl oid w = (r, t)"
  have "reads (orders_get acl oid)" by (rule reading.keeps_orders_get)
  then have db: "w_db t = w_db w" using run by (rule same_dbD)
  show "Q r t"
  proof (rule assms [OF db])
    fix q
    assume "r = Inr (Some q)"
    with run obtain found u where
      found: "repo (optional (get_result (select_where orders (\<lambda>r. ord_id r = oid)))) w = (Inr found, u)"
      and rest: "(case found of
          None \<Rightarrow> ok None
        | Some r \<Rightarrow> and_then (check_order acl ActRead (Some (access_of_order r))) (\<lambda>_. ok (Some r))) u =
          (Inr (Some q), t)"
      by (auto simp: orders_get_def and_then_success)
    then have "found = Some q" by (cases found) (auto simp: success)
    with first_row_success [OF found]
    show "row_by (\<lambda>x. ord_id x = oid) (orders (w_db w)) = Some q" by simp
  qed
qed

text \<open>An update of orders, whatever it returns.\<close>

definition orders_updated ::
  "order_id \<Rightarrow> (raw_order \<Rightarrow> raw_order) \<Rightarrow> 'd db \<Rightarrow> 'd db \<Rightarrow> bool" where
  "orders_updated oid g d e \<longleftrightarrow> e = d \<or>
     (\<exists>now. e = d\<lparr>orders := map (\<lambda>x. if ord_id x = oid then touch_order g now x else x) (orders d)\<rparr>)"

lemma ends_update_order:
  assumes "\<And>r t. orders_updated oid g (w_db w) (w_db t) \<Longrightarrow> Q r t"
  shows "ends (repo (update_order oid g)) w Q"
proof (rule endsI)
  fix r t
  assume "repo (update_order oid g) w = (r, t)"
  from update_row_db [OF this [unfolded update_order_def]]
  have "orders_updated oid g (w_db w) (w_db t)"
    unfolding orders_updated_def by (elim disjE) (rule disjI1, assumption, rule disjI2, rule exI)
  then show "Q r t" by (rule assms)
qed

lemma ends_update_state:
  assumes "\<And>r t. orders_updated oid (\<lambda>r. r\<lparr>ord_state := st\<rparr>) (w_db w) (w_db t) \<Longrightarrow> Q r t"
  shows "ends (update_state acl oid st) w Q"
  unfolding update_state_def
  by (auto split: sum.split simp: orders_updated_def [of _ _ "w_db w" "w_db w"]
      intro!: ends_and_then ends_reads [OF reading.keeps_check_order] ends_update_order assms)

section \<open>Decisions in a given state\<close>

lemma try_map_run:
  "(\<And>x. x \<in> set xs \<Longrightarrow> f x w = (Inr (g x), w)) \<Longrightarrow> try_map f xs w = (Inr (map g xs), w)"
  by (induction xs) (simp_all add: and_then_def)

definition permitted :: "billing_role list \<Rightarrow> resource \<Rightarrow> action \<Rightarrow> (scope \<Rightarrow> bool) \<Rightarrow> bool" where
  "permitted rs res act in_scope \<longleftrightarrow>
     list_ex (\<lambda>p. in_scope (p_scope p)) (matching_permissions rs res act)"

lemma check_run:
  assumes "\<And>s. checker uid s obj w = (Inr (b s), w)"
  shows "check (ApplicationAcl rs uid) res act checker obj w =
    (if permitted rs res act b then Inr () else Inl RForbidden, w)"
proof -
  let ?ps = "matching_permissions rs res act"
  have "try_map (\<lambda>p. checker uid (p_scope p) obj) ?ps w = (Inr (map (\<lambda>p. b (p_scope p)) ?ps), w)"
    by (rule try_map_run) (rule assms)
  moreover have "filter id (map (\<lambda>p. b (p_scope p)) ?ps) = [] \<longleftrightarrow> \<not> permitted rs res act b"
    by (simp only: filter_id_empty permitted_def list_ex_iff) (auto simp: image_iff)
  ultimately show ?thesis
    by (simp add: check_def allows_def and_then_def)
qed

lemma get_acl_cached:
  "w_cache_up w \<Longrightarrow> w_roles_cache w uid = Some rs \<Longrightarrow> get_acl (Some uid) w = (Inr (ApplicationAcl rs uid), w)"
  by (simp add: get_acl_def get_roles_def list_for_user_def cached_roles_def)

lemma user_is_buyer_quiet:
  "quiet w \<Longrightarrow> user_is_buyer uid iid w = (Inr (case row_by (\<lambda>i. inv_id i = iid) (invoices_v2 (w_db w)) of
     None \<Rightarrow> True | Some i \<Rightarrow> user_inner (inv_buyer_user_id i) = uid), w)"
  by (auto simp: user_is_buyer_def optional_def get_result_def row_by_def then_res_def or_else_def
      map_ok_def and_then_def split: list.split)

lemma user_is_store_manager_quiet:
  "quiet w \<Longrightarrow> user_is_store_manager uid sid w = (Inr (list_ex (\<lambda>r. role_data_is r (store_inner sid))
     (filter (\<lambda>r. role_user_id r = uid) (roles (w_db w)))), w)"
  by (simp add: user_is_store_manager_def)

text \<open>Whether a user may see or change an order.\<close>

definition order_covered :: "'d db \<Rightarrow> stq_user_id \<Rightarrow> order_access option \<Rightarrow> scope \<Rightarrow> bool" where
  "order_covered d uid obj s \<longleftrightarrow> s = ScopeAll \<or> (case obj of None \<Rightarrow> False | Some a \<Rightarrow>
     (case row_by (\<lambda>i. inv_id i = oa_invoice_id a) (invoices_v2 d) of
        None \<Rightarrow> True | Some i \<Rightarrow> user_inner (inv_buyer_user_id i) = uid) \<or>
     list_ex (\<lambda>r. role_data_is r (store_inner (oa_store_id a))) (filter (\<lambda>r. role_user_id r = uid) (roles d)))"

lemma check_order_quiet:
  assumes "quiet w"
  shows "check (ApplicationAcl rs uid) res act orders_in_scope obj w =
    (if permitted rs res act (order_covered (w_db w) uid obj) then Inr () else Inl RForbidden, w)"
proof (rule check_run)
  show "orders_in_scope uid s obj w = (Inr (order_covered (w_db w) uid obj s), w)" for s
    using assms
    by (cases s; cases obj)
       (auto simp: orders_in_scope_def order_covered_def and_then_def user_is_buyer_quiet
         user_is_store_manager_quiet)
qed

lemma orders_get_quiet:
  assumes "quiet w"
  shows "orders_get (ApplicationAcl rs uid) oid w =
    (case row_by (\<lambda>r. ord_id r = oid) (orders (w_db w)) of
       None \<Rightarrow> Inr None
     | Some r \<Rightarrow> if permitted rs ResOrderInfo ActRead (order_covered (w_db w) uid (Some (access_of_order r)))
                 then Inr (Some r) else Inl RForbidden, w)"
  using assms
  by (auto simp: orders_get_def check_order_quiet and_then_def split: option.split)

section \<open>Success in a transaction\<close>

text \<open>A computation that succeeds on a connection that is not in an aborted transaction does not
  abort it: no failed statement is swallowed.\<close>

named_theorems alive_intros \<open>a computation does not swallow failed statements\<close>

definition alive :: "('d world, 'e, 'a) comp \<Rightarrow> bool" where
  "alive m \<longleftrightarrow> (\<forall>w a t. m w = (Inr a, t) \<longrightarrow> \<not> w_aborted w \<longrightarrow> \<not> w_aborted t)"

lemma aliveD: "alive m \<Longrightarrow> m w = (Inr a, t) \<Longrightarrow> \<not> w_aborted w \<Longrightarrow> \<not> w_aborted t"
  by (simp add: alive_def)

lemma alive_basic [alive_intros]:
  "alive (ok a)" "alive (err e)" "alive (of_result r)" "alive (ok_or e x)"
  "alive (execute f)" "alive (execute_serial u g)" "alive (select q)" "alive (select_where rows p)"
  "alive (update_where rows put p h)" "alive (delete_where rows put p)"
  by (auto simp: alive_def success select_def select_where_def update_where_def delete_where_def
      dest: execute_success_alive execute_serial_success_alive)

lemma alive_and_then [alive_intros]: "alive m \<Longrightarrow> (\<And>a. alive (f a)) \<Longrightarrow> alive (and_then m f)"
  unfolding alive_def and_then_success by blast

lemma alive_map_ok [alive_intros]: "alive m \<Longrightarrow> alive (map_ok g m)"
  unfolding alive_def map_ok_success by blast

lemma alive_map_err [alive_intros]: "alive m \<Longrightarrow> alive (map_err g m)"
  unfolding alive_def map_err_success by blast

lemma alive_svc [alive_intros]: "alive m \<Longrightarrow> alive (svc m)"
  unfolding svc_def by (rule alive_map_err)

lemma alive_repo [alive_intros]: "alive m \<Longrightarrow> alive (repo m)"
  unfolding repo_def by (rule alive_map_err)

lemma alive_get_result [alive_intros]: "alive m \<Longrightarrow> alive (get_result m)"
  unfolding alive_def get_result_success by blast

text \<open>The row that \<open>optional\<close> does not find is no failure.\<close>

lemma execute_not_found:
  "execute f w = (Inl DieselNotFound, t) \<Longrightarrow> f (w_clock w 0) (w_db w) = Inl DieselNotFound"
  by (auto simp: execute_def Let_def split: if_splits sum.splits)

lemma alive_optional_execute [alive_intros]:
  assumes "\<And>now d. f now d \<noteq> Inl DieselNotFound"
  shows "alive (optional (get_result (execute f)))"
  unfolding alive_def optional_success
proof (intro allI impI)
  fix w :: "'a world" and x t
  assume "(\<exists>r. get_result (execute f) w = (Inr r, t) \<and> x = Some r) \<or>
      get_result (execute f) w = (Inl DieselNotFound, t) \<and> x = None"
  then obtain q where "execute f w = (q, t)" and "q \<noteq> Inl DieselNotFound \<Longrightarrow> \<exists>rs. q = Inr rs"
    by (auto simp: get_result_def and_then_def split: prod.splits sum.splits list.splits)
  with assms execute_not_found [of f w t] show "\<not> w_aborted t"
    by (cases q) (auto dest: execute_success_alive)
qed

lemma alive_optional [alive_intros]:
  "alive (optional (get_result (select q)))" "alive (optional (get_result (select_where rows p)))"
  unfolding select_where_def select_def by (rule alive_optional_execute; simp)+

lemma alive_case_option [alive_intros]:
  "alive m \<Longrightarrow> (\<And>x. alive (f x)) \<Longrightarrow> alive (case v of None \<Rightarrow> m | Some x \<Rightarrow> f x)"
  by (cases v) auto

lemma alive_case_sum [alive_intros]:
  "(\<And>x. alive (f x)) \<Longrightarrow> (\<And>x. alive (g x)) \<Longrightarrow> alive (case v of Inl x \<Rightarrow> f x | Inr x \<Rightarrow> g x)"
  by (cases v) auto

lemma alive_new_v4 [alive_intros]: "alive new_v4"
  by (auto simp: alive_def)

lemma alive_try_map [alive_intros]: "(\<And>x. alive (f x)) \<Longrightarrow> alive (try_map f xs)"
  by (induction xs) (auto intro!: alive_intros)

lemma alive_for_each [alive_intros]: "(\<And>x. alive (f x)) \<Longrightarrow> alive (for_each f xs)"
  unfolding for_each_def by (intro alive_map_ok alive_try_map)

text \<open>A successful transaction whose body swallows no failure has the effects of the body.\<close>

lemma alive_transaction:
  assumes run: "transaction conv m w = (Inr a, t)" and "alive m"
  obtains u where "m (inner_world w) = (Inr a, u)" and "w_db t = w_db u"
proof -
  have begun: "\<not> w_aborted w"
    using run by (auto simp: transaction_def Let_def split: if_splits)
  from transaction_inner [OF run] obtain u where u: "m (inner_world w) = (Inr a, u)"
    and cases: "w_db t = w_db u \<and> \<not> w_aborted u \<or> w_db t = w_db w \<and> w_aborted u" by auto
  have "\<not> w_aborted (inner_world w)" using begun by (simp add: inner_world_def next_fault_def)
  with aliveD [OF assms(2) u] cases have "w_db t = w_db u" by auto
  with u show thesis by (rule that)
qed

section \<open>Queueing an event\<close>

text \<open>A new row of the event store, and the two calls that add it.\<close>

definition queued :: "event_payload \<Rightarrow> raw_event_entry \<Rightarrow> bool" where
  "queued payload r \<longleftrightarrow> (\<exists>u. re_event r = EventJson \<lparr>ev_id = EventId u, ev_payload = payload\<rparr>) \<and> re_status r = event_status_display Pending \<and>
     re_attempt_count r = 0 \<and> re_scheduled_on r = None"

definition queue_event :: "event_payload \<Rightarrow> ('d world, service_error, event_entry) comp" where
  "queue_event payload = and_then (new_event payload) (\<lambda>ev. svc (add_event ev))"

lemma queue_event_success:
  assumes "queue_event payload w = (Inr x, t)"
  shows "\<exists>row. w_db t = (w_db w)\<lparr>event_store := event_store (w_db w) @ [row]\<rparr> \<and>
    queued payload row \<and> \<not> w_aborted t"
proof -
  let ?ev = "\<lparr>ev_id = EventId (w_uuids w 0), ev_payload = payload\<rparr>"
  let ?u = "w\<lparr>w_uuids := \<lambda>n. w_uuids w (Suc n)\<rparr>"
  from assms obtain row where "add_event ?ev ?u = (Inr row, t)"
    by (auto simp: queue_event_def new_event_def success)
  then obtain r v where ins: "execute_serial SeqEventStore (insert_event (try_from_event ?ev)) ?u = (Inr r, v)"
    and res: "entry_result r v = (Inr row, t)" by (auto simp: add_event_def success repo_def)
  from res have "t = v" by (cases "try_into_event_entry r") (simp_all add: entry_result_def)
  have "(w_db w)\<lparr>event_store := event_store (w_db w) @ [r]\<rparr> = w_db v" and "queued payload r"
    using execute_serial_success [OF ins]
    by (auto simp: insert_event_def Let_def queued_def try_from_event_def split: if_splits)
  with \<open>t = v\<close> show ?thesis 
    using execute_serial_success_alive [OF ins] by (intro exI [of _ r]) simp
qed

section \<open>Relations that ignore the event queue\<close>

locale event_frame = db_relation +
  assumes P_events: "P d (d\<lparr>event_store := rows\<rparr>)"
begin

lemma keeps_entry_result [keeps_intros]: "keeps (\<lambda>s t. P (w_db s) (w_db t)) (entry_result r)"
  unfolding entry_result_def by (intro keeps_case_sum keeps_ok keeps_err)

lemma keeps_insert_event [keeps_intros]:
  "keeps (\<lambda>s t. P (w_db s) (w_db t)) (execute_serial u (insert_event e))"
  by (rule keeps_execute_serial) (auto simp: insert_event_def Let_def P_events split: if_splits)

lemma keeps_add_event [keeps_intros]: "keeps (\<lambda>s t. P (w_db s) (w_db t)) (add_event e)"
  unfolding add_event_def by (intro keeps_and_then keeps_repo keeps_insert_event keeps_entry_result)

lemma keeps_add_scheduled_event [keeps_intros]:
  "keeps (\<lambda>s t. P (w_db s) (w_db t)) (add_scheduled_event e t0)"
  unfolding add_scheduled_event_def
  by (intro keeps_and_then keeps_repo keeps_insert_event keeps_entry_result)

end

end
