(* ===== verification/OrderService.thy ===== *)
theory OrderService
  imports Prelude Models World Authorization Tables Clients OrdersRepo PaymentIntentsRepo EventStore
    Services Triples
begin

text \<open>
  \<open>services/order.rs\<close>: capturing, declining and moving the payment state of orders.
  \<open>payment_edge\<close> is the table of the code; \<open>payment_step\<close> is the machine that the requests really run, which
  has one step more: a declined crypto order goes from its initial state to the one that needs a refund.
\<close>

section \<open>Operations\<close>

fun check_change_order_payment_state :: "payment_state \<Rightarrow> payment_state \<Rightarrow> bool" where
  "check_change_order_payment_state Initial Captured = True"
| "check_change_order_payment_state Initial Declined = True"
| "check_change_order_payment_state Captured RefundNeeded = True"
| "check_change_order_payment_state Captured PaymentToSellerNeeded = True"
| "check_change_order_payment_state RefundNeeded Refunded = True"
| "check_change_order_payment_state PaymentToSellerNeeded PaidToSeller = True"
| "check_change_order_payment_state _ _ = False"

text \<open>The first step of \<open>order_capture\<close> and \<open>order_decline\<close>.\<close>

definition initial_order ::
  "stq_user_id option \<Rightarrow> order_id \<Rightarrow> ('d world, service_error, raw_order) comp" where
  "initial_order user oid =
     pool (and_then (get_acl user) (\<lambda>acl.
       and_then (svc (orders_get acl oid)) (\<lambda>found.
       and_then (ok_or SInternal found) (\<lambda>order.
       if ord_state order \<noteq> Initial then err wrong_state else ok order))))"

text \<open>The capture of a fiat order is left to the handler of the event.\<close>

definition order_capture_fiat :: "raw_order \<Rightarrow> ('d world, service_error, unit) comp" where
  "order_capture_fiat order =
     pool (and_then (new_event (PaymentIntentCapture (ord_id order))) (\<lambda>ev.
       map_ok (\<lambda>_. ()) (svc (add_event ev))))"

definition set_order_state ::
  "stq_user_id option \<Rightarrow> order_id \<Rightarrow> payment_state \<Rightarrow> ('d world, service_error, unit) comp" where
  "set_order_state user oid st =
     pool (and_then (get_acl user) (\<lambda>acl. map_ok (\<lambda>_. ()) (svc (update_state acl oid st))))"

definition order_capture_crypto ::
  "stq_user_id option \<Rightarrow> raw_order \<Rightarrow> ('d world, service_error, unit) comp" where
  "order_capture_crypto user order = set_order_state user (ord_id order) Captured"

definition order_decline_crypto ::
  "stq_user_id option \<Rightarrow> raw_order \<Rightarrow> ('d world, service_error, unit) comp" where
  "order_decline_crypto user order = set_order_state user (ord_id order) RefundNeeded"

definition refund_of_order ::
  "stq_user_id option \<Rightarrow> raw_order \<Rightarrow> ('d world, service_error, charge_id \<times> amount) comp" where
  "refund_of_order user order =
     pool (and_then (get_acl user) (\<lambda>pi_acl.
       and_then (get_acl user) (\<lambda>pii_acl.
       and_then (svc (piis_get pii_acl (PiiInvoiceId (ord_invoice_id order)))) (\<lambda>found.
       and_then (ok_or SInternal found) (\<lambda>pii.
       and_then (svc (pis_get pi_acl (pii_payment_intent_id pii))) (\<lambda>found.
       and_then (ok_or SInternal found) (\<lambda>p.
       map_ok (\<lambda>c. (c, ord_total_amount order)) (ok_or SInternal (pi_charge_id p)))))))))"

definition order_decline_fiat ::
  "'d env \<Rightarrow> stq_user_id option \<Rightarrow> raw_order \<Rightarrow> ('d world, service_error, unit) comp" where
  "order_decline_fiat env user order =
     and_then (refund_of_order user order) (\<lambda>(c, tot).
     and_then (svc_client (call_client (stripe_refund env) (StripeRefund c tot (ord_id order))
         (c, tot, ord_id order))) (\<lambda>_.
     set_order_state user (ord_id order) Declined))"

definition order_capture ::
  "stq_user_id option \<Rightarrow> order_id \<Rightarrow> ('d world, service_error, unit) comp" where
  "order_capture user oid =
     and_then (initial_order user oid) (\<lambda>order.
     if is_fiat (ord_seller_currency order) then order_capture_fiat order
     else order_capture_crypto user order)"

definition order_decline ::
  "'d env \<Rightarrow> stq_user_id option \<Rightarrow> order_id \<Rightarrow> ('d world, service_error, unit) comp" where
  "order_decline env user oid =
     and_then (initial_order user oid) (\<lambda>order.
     if is_fiat (ord_seller_currency order) then order_decline_fiat env user order
     else order_decline_crypto user order)"

definition update_order_state ::
  "stq_user_id option \<Rightarrow> order_id \<Rightarrow> payment_state \<Rightarrow> ('d world, service_error, unit) comp" where
  "update_order_state user oid st =
     pool (and_then (get_acl user) (\<lambda>acl.
       and_then (svc (orders_get acl oid)) (\<lambda>found.
       and_then (ok_or SInternal found) (\<lambda>order.
       if check_change_order_payment_state (ord_state order) st
       then map_ok (\<lambda>_. ()) (svc (update_state acl oid st))
       else err wrong_state))))"

definition service_search_orders ::
  "'d bigdecimal \<Rightarrow> stq_user_id option \<Rightarrow> int \<Rightarrow> int \<Rightarrow> orders_search \<Rightarrow>
   ('d world, service_error, order_search_results_response) comp" where
  "service_search_orders D user skip cnt s =
     pool (and_then (get_acl user) (\<lambda>acl.
       and_then (svc (search_orders acl skip cnt s)) (\<lambda>found.
       map_ok (\<lambda>os. \<lparr>osrr_total_count = osr_total_count found, osrr_orders = os\<rparr>)
         (of_result (result_map (try_from_raw_order D) (osr_orders found))))))"

section \<open>The state machine\<close>

text \<open>The table of the code as a set of edges. \<open>order_decline_crypto\<close> does not keep to it.\<close>

definition payment_edge :: "payment_state \<Rightarrow> payment_state \<Rightarrow> bool" where
  "payment_edge s t \<longleftrightarrow> (s, t) \<in> {(Initial, Captured), (Initial, Declined),
     (Captured, RefundNeeded), (Captured, PaymentToSellerNeeded), (RefundNeeded, Refunded),
     (PaymentToSellerNeeded, PaidToSeller)}"

lemma check_change_edge: "check_change_order_payment_state s t \<longleftrightarrow> payment_edge s t"
  by (cases s; cases t) (simp_all add: payment_edge_def)

inductive payment_step :: "currency \<Rightarrow> payment_state \<Rightarrow> payment_state \<Rightarrow> bool" for c where
  stay: "payment_step c s s"
| move: "payment_step c s t \<Longrightarrow> payment_edge t u \<Longrightarrow> payment_step c s u"
| decline_crypto: "payment_step c s Initial \<Longrightarrow> \<not> is_fiat c \<Longrightarrow> payment_step c s RefundNeeded"

lemma payment_step_trans: "payment_step c t u \<Longrightarrow> payment_step c s t \<Longrightarrow> payment_step c s u"
  by (induction rule: payment_step.induct) (auto intro: payment_step.intros)

text \<open>An order keeps everything but its state and the time of the update.\<close>

definition order_moved :: "raw_order \<Rightarrow> raw_order \<Rightarrow> bool" where
  "order_moved r q \<longleftrightarrow> payment_step (ord_seller_currency r) (ord_state r) (ord_state q) \<and>
     q\<lparr>ord_state := ord_state r, ord_updated_at := ord_updated_at r\<rparr> = r"

lemma order_moved_refl: "order_moved r r"
  by (simp add: order_moved_def payment_step.stay)

lemma order_moved_same:
  "order_moved r q \<Longrightarrow> ord_id q = ord_id r \<and> ord_seller_currency q = ord_seller_currency r"
  by (cases r; cases q) (auto simp: order_moved_def)

lemma order_moved_trans:
  assumes "order_moved r q" and "order_moved q p"
  shows "order_moved r p"
proof -
  have "payment_step (ord_seller_currency r) (ord_state r) (ord_state p)"
    using assms payment_step_trans order_moved_same [OF assms(1)] by (auto simp: order_moved_def)
  moreover have "p\<lparr>ord_state := ord_state r, ord_updated_at := ord_updated_at r\<rparr> = r"
    using assms by (cases r; cases q; cases p) (auto simp: order_moved_def)
  ultimately show ?thesis by (simp add: order_moved_def)
qed

lemma orders_moved_trans:
  "list_all2 order_moved xs ys \<Longrightarrow> list_all2 order_moved ys zs \<Longrightarrow> list_all2 order_moved xs zs"
  by (rule list_all2_trans [OF order_moved_trans])

lemma orders_moved_ids: "list_all2 order_moved xs ys \<Longrightarrow> map ord_id ys = map ord_id xs"
  by (induction rule: list_all2_induct) (simp_all add: order_moved_same)

section \<open>The requests\<close>

text \<open>The requests that the service answers, and the state that each of them gives to an order.\<close>

datatype order_request =
    OrderCapture "stq_user_id option" order_id
  | OrderDecline "stq_user_id option" order_id
  | UpdateOrderState "stq_user_id option" order_id payment_state

fun order_service :: "'d env \<Rightarrow> order_request \<Rightarrow> ('d world, service_error, unit) comp" where
  "order_service env (OrderCapture user oid) = order_capture user oid"
| "order_service env (OrderDecline user oid) = order_decline env user oid"
| "order_service env (UpdateOrderState user oid st) = update_order_state user oid st"

fun request_order :: "order_request \<Rightarrow> order_id" where
  "request_order (OrderCapture _ oid) = oid"
| "request_order (OrderDecline _ oid) = oid"
| "request_order (UpdateOrderState _ oid _) = oid"

fun request_target :: "order_request \<Rightarrow> raw_order \<Rightarrow> payment_state option" where
  "request_target (OrderCapture _ _) r =
     (if ord_state r = Initial \<and> \<not> is_fiat (ord_seller_currency r) then Some Captured else None)"
| "request_target (OrderDecline _ _) r =
     (if ord_state r = Initial then Some (if is_fiat (ord_seller_currency r) then Declined else RefundNeeded)
      else None)"
| "request_target (UpdateOrderState _ _ st) r = (if payment_edge (ord_state r) st then Some st else None)"

text \<open>The capture of a fiat order succeeds without a change: it is left to an event.\<close>

fun left_to_event :: "order_request \<Rightarrow> raw_order \<Rightarrow> bool" where
  "left_to_event (OrderCapture _ _) r \<longleftrightarrow> ord_state r = Initial \<and> is_fiat (ord_seller_currency r)"
| "left_to_event _ r \<longleftrightarrow> False"

definition set_state :: "order_id \<Rightarrow> payment_state \<Rightarrow> timestamp \<Rightarrow> raw_order list \<Rightarrow> raw_order list" where
  "set_state oid st now =
     map (\<lambda>x. if ord_id x = oid then touch_order (\<lambda>x. x\<lparr>ord_state := st\<rparr>) now x else x)"

text \<open>How a request is answered, and what it does to the orders.\<close>

definition order_answer ::
  "order_request \<Rightarrow> raw_order list \<Rightarrow> service_error + unit \<Rightarrow> raw_order list \<Rightarrow> bool" where
  "order_answer req rows r rows' \<longleftrightarrow>
     (case row_by (\<lambda>x. ord_id x = request_order req) rows of
        None \<Rightarrow> isl r \<and> rows' = rows
      | Some old \<Rightarrow>
          (case request_target req old of
             None \<Rightarrow> rows' = rows \<and> (isl r \<or> left_to_event req old)
           | Some st \<Rightarrow> isl r \<and> rows' = rows \<or> (\<exists>now. rows' = set_state (request_order req) st now rows)))"

definition same_orders :: "'d db \<Rightarrow> 'd db \<Rightarrow> bool" where
  "same_orders d e \<longleftrightarrow> orders e = orders d"

interpretation order_rows: db_relation same_orders
  by unfold_locales (simp_all add: same_orders_def)

interpretation order_events: event_frame same_orders
  by unfold_locales (simp add: same_orders_def)

lemma order_answer_refused: "order_answer req rows (Inl e) rows"
  by (simp add: order_answer_def split: option.split)

lemma order_answer_set:
  assumes "row_by (\<lambda>x. ord_id x = request_order req) rows = Some old" and "request_target req old = Some st"
    and "isl r \<and> rows' = rows \<or> (\<exists>now. rows' = set_state (request_order req) st now rows)"
  shows "order_answer req rows r rows'"
  using assms by (simp add: order_answer_def)

lemma request_target_step:
  assumes "request_target req r = Some st"
  shows "payment_step (ord_seller_currency r) (ord_state r) st"
proof -
  have "payment_edge (ord_state r) st \<or>
      ord_state r = Initial \<and> \<not> is_fiat (ord_seller_currency r) \<and> st = RefundNeeded"
    using assms by (cases req) (auto simp: payment_edge_def split: if_splits)
  then show ?thesis
    using payment_step.stay [of "ord_seller_currency r" "ord_state r"]
    by (auto intro: payment_step.move payment_step.decline_crypto)
qed

lemma order_moved_touch:
  "payment_step (ord_seller_currency r) (ord_state r) st \<Longrightarrow>
   order_moved r (touch_order (\<lambda>r. r\<lparr>ord_state := st\<rparr>) now r)"
  by (cases r) (auto simp: order_moved_def touch_order_def intro: payment_step.intros)

lemma order_answer_moved:
  assumes "order_answer req rows r rows'" and "distinct (map ord_id rows)"
  shows "list_all2 order_moved rows rows'"
proof (cases "rows' = rows")
  case True
  then show ?thesis by (simp add: list_all2_refl order_moved_refl)
next
  case False
  with assms(1) obtain old st now where old: "row_by (\<lambda>x. ord_id x = request_order req) rows = Some old"
    and st: "request_target req old = Some st" and rows': "rows' = set_state (request_order req) st now rows"
    by (auto simp: order_answer_def split: option.splits)
  from row_by_Some [OF old] have q: "old \<in> set rows" "ord_id old = request_order req" by simp_all
  have "x = old" if "x \<in> set rows" "ord_id x = request_order req" for x
    using that q assms(2) by (auto simp: distinct_map inj_on_def)
  with request_target_step [OF st] show ?thesis
    by (auto simp: rows' set_state_def list_all2_map2 intro!: list_all2_same [THEN iffD2]
        order_moved_touch order_moved_refl)
qed

section \<open>The services follow the machine\<close>

context world_relation
begin

lemma keeps_piis_get [keeps_intros]: "keeps R (piis_get acl s0)"
  unfolding piis_get_def
  by (intro keeps_and_then keeps_repo keeps_optional keeps_get_result keeps_select_where
      keeps_case_option keeps_ok keeps_check_pii)

lemma keeps_pis_get [keeps_intros]: "keeps R (pis_get acl pid)"
  unfolding pis_get_def
  by (intro keeps_and_then keeps_repo keeps_optional keeps_get_result keeps_select_where
      keeps_case_option keeps_ok keeps_check_payment_intent)

lemma keeps_refund_of_order [keeps_intros]:
  "keeps R (refund_of_order user order)"
  unfolding refund_of_order_def
  by (intro keeps_spawn_on_pool keeps_and_then keeps_get_acl keeps_svc keeps_piis_get keeps_pis_get
      keeps_ok_or keeps_map_ok)

end

lemma ends_initial_order:
  assumes "\<And>r t. w_db t = w_db w \<Longrightarrow>
    (\<And>q. r = Inr q \<Longrightarrow> row_by (\<lambda>x. ord_id x = oid) (orders (w_db w)) = Some q \<and> ord_state q = Initial) \<Longrightarrow>
    Q r t"
  shows "ends (initial_order user oid) w Q"
  unfolding initial_order_def
  by (auto split: sum.split option.split
      intro!: ends_spawn ends_and_then ends_reads [OF reading.keeps_get_acl] ends_svc ends_orders_get
        ends_ok_or ends_if ends_ok ends_err assms)

lemma silent_initial_order: "silently (initial_order user oid)"
  unfolding initial_order_def by (intro keeps_intros)

lemma silent_set_order_state: "silently (set_order_state user oid st)"
  unfolding set_order_state_def by (intro keeps_intros)

text \<open>The state is set, or it is not and the result is an error.\<close>

definition state_set :: "order_id \<Rightarrow> payment_state \<Rightarrow> 'd db \<Rightarrow> 'e + 'a \<Rightarrow> 'd db \<Rightarrow> bool" where
  "state_set oid st d r e \<longleftrightarrow> isl r \<and> e = d \<or> (\<exists>now. e = d\<lparr>orders := set_state oid st now (orders d)\<rparr>)"

lemma state_set_refused [simp]: "state_set oid st d (Inl e) d"
  by (simp add: state_set_def)

lemma state_set_map_sum [simp]: "state_set oid st d (map_sum f g r) e = state_set oid st d r e"
  by (cases r) (simp_all add: state_set_def)

lemma update_state_success:
  assumes "update_state acl oid st w = (Inr x, t)"
  shows "\<exists>now. w_db t = (w_db w)\<lparr>orders := set_state oid st now (orders (w_db w))\<rparr>"
proof -
  obtain v where v: "check acl ResOrderInfo ActWrite orders_in_scope None w = (Inr (), v)"
    and r: "update_order oid (\<lambda>r. r\<lparr>ord_state := st\<rparr>) v = (Inr x, t)"
    using assms by (auto simp: update_state_def success)
  have "w_db v = w_db w" using same_dbD [OF reading.keeps_check_order v] by simp
  with update_order_success(1) [OF r] show ?thesis unfolding set_state_def by auto
qed

lemma ends_update_state_set:
  assumes "\<And>r t. state_set oid st (w_db w) r (w_db t) \<Longrightarrow> Q r t"
  shows "ends (map_ok (\<lambda>_. ()) (svc (update_state acl oid st))) w Q"
proof (intro ends_map_ok ends_svc endsI assms)
  fix r t
  assume run: "update_state acl oid st w = (r, t)"
  have "ends (update_state acl oid st) w (\<lambda>r t. orders_updated oid (\<lambda>r. r\<lparr>ord_state := st\<rparr>) (w_db w) (w_db t))"
    by (rule ends_update_state)
  from endsD [OF this run] have "state_set oid st (w_db w) r (w_db t)"
    using update_state_success [of acl oid st w _ t] run
    by (cases r) (auto simp: orders_updated_def state_set_def set_state_def)
  then show "state_set oid st (w_db w) (map_sum id (\<lambda>_. ()) (map_sum service_error_of_repo id r)) (w_db t)"
    by simp
qed

lemma ends_set_order_state:
  assumes "\<And>r t. state_set oid st (w_db w) r (w_db t) \<Longrightarrow> w_calls t = w_calls w \<Longrightarrow> Q r t"
  shows "ends (set_order_state user oid st) w Q"
proof (rule ends_mono [OF ends_silent [OF silent_set_order_state]])
  show "ends (set_order_state user oid st) w (\<lambda>r t. state_set oid st (w_db w) r (w_db t))"
    unfolding set_order_state_def
    by (auto split: sum.split
        intro!: ends_spawn ends_and_then ends_reads [OF reading.keeps_get_acl] ends_update_state_set)
qed (use assms in blast)

lemma row_by_id: "row_by (\<lambda>x. ord_id x = oid) rs = Some q \<Longrightarrow> ord_id q = oid"
  by (drule row_by_Some) simp

text \<open>What both requests do with the order in its initial state.\<close>

lemma ends_on_initial:
  assumes "request_order req = oid"
    and "\<And>order u. w_db u = w_db w \<Longrightarrow> row_by (\<lambda>x. ord_id x = oid) (orders (w_db w)) = Some order \<Longrightarrow>
      ord_id order = oid \<Longrightarrow> ord_state order = Initial \<Longrightarrow>
      ends (f order) u (\<lambda>r t. order_answer req (orders (w_db w)) r (orders (w_db t)))"
  shows "ends (and_then (initial_order user oid) f) w
    (\<lambda>r t. order_answer req (orders (w_db w)) r (orders (w_db t)))"
proof (rule ends_and_then, rule ends_initial_order, goal_cases)
  case (1 r u)
  show ?case
  proof (cases r)
    case (Inl e)
    with 1(1) show ?thesis by (simp add: order_answer_refused)
  next
    case (Inr q)
    from 1(2) [OF Inr] have row: "row_by (\<lambda>x. ord_id x = oid) (orders (w_db w)) = Some q" "ord_state q = Initial"
      by simp_all
    from assms(2) [OF 1(1) row(1) row_by_id [OF row(1)] row(2)] show ?thesis by (simp add: Inr)
  qed
qed

lemma ends_order_capture:
  "ends (order_capture user oid) w
     (\<lambda>r t. order_answer (OrderCapture user oid) (orders (w_db w)) r (orders (w_db t)))"
  unfolding order_capture_def
proof (rule ends_on_initial, simp)
  fix order and u :: "'a world"
  assume u: "w_db u = w_db w" and row: "row_by (\<lambda>x. ord_id x = oid) (orders (w_db w)) = Some order"
    and order: "ord_id order = oid" "ord_state order = Initial"
  let ?Q = "\<lambda>r t. order_answer (OrderCapture user oid) (orders (w_db w)) r (orders (w_db t))"
  show "ends (if is_fiat (ord_seller_currency order) then order_capture_fiat order
      else order_capture_crypto user order) u ?Q"
  proof (rule ends_if)
    assume fiat: "is_fiat (ord_seller_currency order)"
    have "keeps (\<lambda>s t. same_orders (w_db s) (w_db t)) (order_capture_fiat order)"
      unfolding order_capture_fiat_def
      by (intro order_rows.keeps_spawn_on_pool order_rows.keeps_and_then order_rows.keeps_new_event
          order_rows.keeps_map_ok order_rows.keeps_svc order_events.keeps_add_event)
    then show "ends (order_capture_fiat order) u ?Q"
      by (rule ends_keeps) (simp add: order_answer_def row order same_orders_def u fiat)
  next
    assume "\<not> is_fiat (ord_seller_currency order)"
    then show "ends (order_capture_crypto user order) u ?Q"
      unfolding order_capture_crypto_def
      by (intro ends_set_order_state order_answer_set [of _ _ order Captured])
        (auto simp: row order u state_set_def)
  qed
qed

text \<open>The charge that is to be refunded: that of the payment intent of the order's invoice.\<close>

definition charge_of_order :: "'d db \<Rightarrow> raw_order \<Rightarrow> charge_id \<Rightarrow> bool" where
  "charge_of_order d order c \<longleftrightarrow> (\<exists>link p.
     row_by (\<lambda>r. pii_invoice_id r = ord_invoice_id order) (payment_intents_invoices d) = Some link \<and>
     row_by (\<lambda>p. pi_id p = pii_payment_intent_id link) (payment_intents d) = Some p \<and>
     pi_charge_id p = Some c)"

lemma piis_get_found:
  assumes "piis_get acl s w = (Inr (Some x), t)"
  shows "row_by (pii_matches s) (payment_intents_invoices (w_db w)) = Some x"
proof -
  obtain found u where
    "repo (optional (get_result (select_where payment_intents_invoices (pii_matches s)))) w = (Inr found, u)"
    and "(case found of None \<Rightarrow> ok None
      | Some r \<Rightarrow> and_then (check acl ResPaymentIntentInvoice ActRead piis_in_scope (Some r)) (\<lambda>_. ok (Some r))) u =
        (Inr (Some x), t)"
    using assms by (auto simp: piis_get_def and_then_success)
  then show ?thesis
    using first_row_success [of payment_intents_invoices "pii_matches s" w found u]
    by (cases found) (auto simp: success)
qed

lemma pis_get_found:
  assumes "pis_get acl pid w = (Inr (Some x), t)"
  shows "row_by (\<lambda>p. pi_id p = pid) (payment_intents (w_db w)) = Some x"
proof -
  obtain found u where
    "repo (optional (get_result (select_where payment_intents (\<lambda>p. pi_id p = pid)))) w = (Inr found, u)"
    and "(case found of None \<Rightarrow> ok None
      | Some p \<Rightarrow> and_then (check acl ResPaymentIntent ActRead payment_intents_in_scope (Some p)) (\<lambda>_. ok (Some p))) u =
        (Inr (Some x), t)"
    using assms by (auto simp: pis_get_def and_then_success)
  then show ?thesis
    using first_row_success [of payment_intents "\<lambda>p. pi_id p = pid" w found u]
    by (cases found) (auto simp: success)
qed

lemma refund_of_order_success:
  assumes "refund_of_order user order w = (Inr (c, tot), t)"
  shows "tot = ord_total_amount order" and "charge_of_order (w_db w) order c"
proof -
  show "tot = ord_total_amount order"
    using assms by (auto simp: refund_of_order_def spawn_success success)
  obtain pi_acl pii_acl u v x y link p where
    u: "get_acl user (next_fault w) = (Inr pi_acl :: service_error + acl, u)"
    and v: "get_acl user u = (Inr pii_acl :: service_error + acl, v)"
    and x: "piis_get pii_acl (PiiInvoiceId (ord_invoice_id order)) v = (Inr (Some link), x)"
    and y: "pis_get pi_acl (pii_payment_intent_id link) x = (Inr (Some p), y)" and c: "pi_charge_id p = Some c"
    using assms unfolding refund_of_order_def by (auto simp: spawn_success success)
  have "w_db v = w_db w" "w_db x = w_db v"
    using same_dbD [OF reading.keeps_get_acl u] same_dbD [OF reading.keeps_get_acl v]
      same_dbD [OF reading.keeps_piis_get x] by simp_all
  moreover have "pii_matches (PiiInvoiceId iid) = (\<lambda>r. pii_invoice_id r = iid)" for iid by (simp add: fun_eq_iff)
  ultimately show "charge_of_order (w_db w) order c"
    using piis_get_found [OF x] pis_get_found [OF y] c by (auto simp: charge_of_order_def)
qed

text \<open>What a request to decline a fiat order may have done, whatever its result: the refund has not been asked and
  nothing has changed; or it has been asked, and the state is set only when Stripe has accepted it.\<close>

definition refund_and_decline ::
  "'d env \<Rightarrow> raw_order \<Rightarrow> 'd world \<Rightarrow> service_error + unit \<Rightarrow> 'd world \<Rightarrow> bool" where
  "refund_and_decline env q w r t \<longleftrightarrow>
     isl r \<and> w_db t = w_db w \<and> w_calls t = w_calls w \<or>
     (\<exists>c. charge_of_order (w_db w) q c \<and>
        w_calls t = w_calls w @ [StripeRefund c (ord_total_amount q) (ord_id q)] \<and>
        (isl r \<and> w_db t = w_db w \<or>
         stripe_refund env (w_calls w) (c, ord_total_amount q, ord_id q) = Inr () \<and>
         state_set (ord_id q) Declined (w_db w) r (w_db t)))"

lemma ends_order_decline_fiat:
  "ends (order_decline_fiat env user order) w (refund_and_decline env order w)"
  unfolding order_decline_fiat_def
proof (rule ends_and_then, rule endsI, goal_cases)
  case (1 r u)
  have u: "w_db u = w_db w" "w_calls u = w_calls w"
    using same_dbD [OF reading.keeps_refund_of_order 1] keepsD [OF silent.keeps_refund_of_order 1] by simp_all
  show ?case
  proof (cases r)
    case (Inl e)
    with u show ?thesis by (simp add: refund_and_decline_def)
  next
    case (Inr x)
    then obtain c where x: "x = (c, ord_total_amount order)" and c: "charge_of_order (w_db w) order c"
      using refund_of_order_success [of user order w] 1 by (cases x) auto
    let ?v = "u\<lparr>w_calls := w_calls u @ [StripeRefund c (ord_total_amount order) (ord_id order)]\<rparr>"
    show ?thesis
    proof (cases "stripe_refund env (w_calls u) (c, ord_total_amount order, ord_id order)")
      case (Inl e)
      then show ?thesis
        using u c by (auto simp: Inr x ends_def and_then_def svc_client_def map_err_def call_client_def
            refund_and_decline_def)
    next
      case accepted: (Inr unit)
      have "ends (set_order_state user (ord_id order) Declined) ?v (refund_and_decline env order w)"
        by (rule ends_set_order_state) (use u c accepted in \<open>auto simp: refund_and_decline_def\<close>)
      then show ?thesis
        using accepted by (simp add: Inr x ends_def and_then_def svc_client_def map_err_def call_client_def)
    qed
  qed
qed

lemma ends_order_decline:
  "ends (order_decline env user oid) w
     (\<lambda>r t. order_answer (OrderDecline user oid) (orders (w_db w)) r (orders (w_db t)))"
  unfolding order_decline_def
proof (rule ends_on_initial, simp)
  fix order and u :: "'a world"
  assume u: "w_db u = w_db w" and row: "row_by (\<lambda>x. ord_id x = oid) (orders (w_db w)) = Some order"
    and order: "ord_id order = oid" "ord_state order = Initial"
  let ?Q = "\<lambda>r t. order_answer (OrderDecline user oid) (orders (w_db w)) r (orders (w_db t))"
  show "ends (if is_fiat (ord_seller_currency order) then order_decline_fiat env user order
      else order_decline_crypto user order) u ?Q"
  proof (rule ends_if)
    assume "is_fiat (ord_seller_currency order)"
    then show "ends (order_decline_fiat env user order) u ?Q"
      by (intro ends_mono [OF ends_order_decline_fiat] order_answer_set [of _ _ order Declined])
        (auto simp: row order u refund_and_decline_def state_set_def)
  next
    assume "\<not> is_fiat (ord_seller_currency order)"
    then show "ends (order_decline_crypto user order) u ?Q"
      unfolding order_decline_crypto_def
      by (intro ends_set_order_state order_answer_set [of _ _ order RefundNeeded])
        (auto simp: row order u state_set_def)
  qed
qed

lemma update_answer:
  assumes "row_by (\<lambda>x. ord_id x = oid) (orders d) = Some old" and "payment_edge (ord_state old) st"
    and "state_set oid st d r e"
  shows "order_answer (UpdateOrderState user oid st) (orders d) r (orders e)"
  by (rule order_answer_set [of _ _ old st]) (use assms in \<open>auto simp: state_set_def\<close>)

lemma ends_update_order_state:
  "ends (update_order_state user oid st) w
     (\<lambda>r t. order_answer (UpdateOrderState user oid st) (orders (w_db w)) r (orders (w_db t)))"
  unfolding update_order_state_def
  by (auto split: sum.split option.split simp: order_answer_refused check_change_edge
      intro!: ends_spawn ends_and_then ends_reads [OF reading.keeps_get_acl] ends_svc ends_orders_get
        ends_ok_or ends_if ends_err ends_update_state_set)
    (rule update_answer)

lemma ends_order_service:
  "ends (order_service env req) w (\<lambda>r t. order_answer req (orders (w_db w)) r (orders (w_db t)))"
  by (cases req) (simp_all add: ends_order_capture ends_order_decline ends_update_order_state)

section \<open>Properties\<close>

text \<open>The state after some requests.\<close>

definition served :: "'d env \<Rightarrow> order_request list \<Rightarrow> 'd world \<Rightarrow> 'd world" where
  "served env requests w = foldl (\<lambda>w req. snd (order_service env req w)) w requests"

text \<open>C11: Whatever requests come in, from whichever users, and whichever statements, connections and refunds fail,
  every order keeps its identity, its amounts, its store and its invoice, and the state of its
  payment only moves along the table of the code, or from the initial state to the one that needs a
  refund when a crypto order is declined. Moreover each request does to the orders just what is
  asked: a capture sets a crypto order in its initial state to captured and leaves a fiat order to
  the event, a decline sets an order in its initial state to declined or, a crypto order, to needing
  a refund, and the change of a state sets that state when the table allows it; no other order
  changes, and a request that changes nothing else and is not left to the event fails.\<close>

theorem order_states_follow_machine:
  assumes "distinct (map ord_id (orders (w_db w)))"
  shows "list_all2 order_moved (orders (w_db w)) (orders (w_db (served env requests w))) \<and>
    ends (order_service env req) (served env requests w)
      (\<lambda>r t. order_answer req (orders (w_db (served env requests w))) r (orders (w_db t)))"
proof
  show "list_all2 order_moved (orders (w_db w)) (orders (w_db (served env requests w)))"
    using assms unfolding served_def
  proof (induction requests arbitrary: w)
    case Nil
    then show ?case by (simp add: list_all2_refl order_moved_refl)
  next
    case (Cons req reqs)
    let ?t = "snd (order_service env req w)"
    have moved: "list_all2 order_moved (orders (w_db w)) (orders (w_db ?t))"
      using endsD [OF ends_order_service prod.collapse [symmetric]] Cons.prems by (rule order_answer_moved)
    then have "distinct (map ord_id (orders (w_db ?t)))" using Cons.prems orders_moved_ids by metis
    from Cons.IH [OF this] orders_moved_trans [OF moved] show ?case by simp
  qed
qed (rule ends_order_service)

text \<open>The requests of the witness: a crypto order is captured, moved on and, too late, declined.\<close>

definition sample_order :: raw_order where
  "sample_order = \<lparr>ord_id = OrderId 1, ord_seller_currency = Eth, ord_total_amount = Amount 100,
     ord_cashback_amount = Amount 1, ord_invoice_id = InvoiceId 1, ord_created_at = 0,
     ord_updated_at = 0, ord_store_id = StoreId 1, ord_state = Initial, ord_stripe_fee = None\<rparr>"

definition order_world :: "rat world" where
  "order_world = empty_world\<lparr>w_db := empty_db\<lparr>orders := [sample_order]\<rparr>,
     w_roles_cache := (\<lambda>_. Some [Superuser])\<rparr>"

lemma order_world_simps [simp]:
  "quiet order_world" "w_cache_up order_world" "w_db order_world = empty_db\<lparr>orders := [sample_order]\<rparr>"
  "w_roles_cache order_world uid = Some [Superuser]" "w_clock order_world n = 0"
  "w_calls order_world = []"
  by (simp_all add: order_world_def)

theorem order_states_follow_machine_witness:
  "\<forall>env. list_all2 order_moved (orders (w_db order_world))
    (orders (w_db (served env
      [OrderCapture (Some 1) (OrderId 1), UpdateOrderState (Some 1) (OrderId 1) PaymentToSellerNeeded,
       OrderDecline (Some 1) (OrderId 1)] order_world)))"
  by (intro allI order_states_follow_machine [THEN conjunct1]) simp

text \<open>A request to decline a fiat order asks Stripe first: whatever its result and whatever fails, when the tables
  have changed the one call that was made is the refund of the order's whole amount, Stripe has
  accepted it, and the change is that of the order to the state declined.\<close>

theorem declined_after_refund:
  assumes "row_by (\<lambda>x. ord_id x = oid) (orders (w_db w)) = Some q" and "is_fiat (ord_seller_currency q)"
  shows "ends (order_decline env user oid) w (refund_and_decline env q w)"
  unfolding order_decline_def
proof (rule ends_and_then, rule endsI, goal_cases)
  case (1 r u)
  have u: "w_calls u = w_calls w" using keepsD [OF silent_initial_order 1] by simp
  have "ends (initial_order user oid) w (\<lambda>r t. w_db t = w_db w \<and>
      (\<forall>q. r = Inr q \<longrightarrow> row_by (\<lambda>x. ord_id x = oid) (orders (w_db w)) = Some q))"
    by (rule ends_initial_order) blast
  from endsD [OF this 1] have db: "w_db u = w_db w"
    and found: "\<And>p. r = Inr p \<Longrightarrow> p = q" using assms(1) by auto
  show ?case
  proof (cases r)
    case (Inl e)
    with u db show ?thesis by (simp add: refund_and_decline_def)
  next
    case (Inr p)
    with found assms(2) show ?thesis
      by (auto intro!: ends_mono [OF ends_order_decline_fiat] simp: refund_and_decline_def u db)
  qed
qed

text \<open>The refund comes before the permission to write the order is checked: a buyer, who may read his
  order but not change its state, gets his money back, and the order stays in its initial state.\<close>

definition refund_env :: "rat env" where
  "refund_env = offline_env\<lparr>stripe_refund := (\<lambda>_ _. Inr ())\<rparr>"

definition fiat_order :: raw_order where
  "fiat_order = sample_order\<lparr>ord_seller_currency := Usd\<rparr>"

definition buyer_world :: "rat world" where
  "buyer_world = empty_world\<lparr>w_roles_cache := (\<lambda>_. Some [User]),
     w_db := empty_db\<lparr>orders := [fiat_order],
       invoices_v2 := [\<lparr>inv_id = InvoiceId 1, inv_account_id = None, inv_buyer_currency = Usd,
         inv_amount_captured = Amount 0, inv_final_amount_paid = None,
         inv_final_cashback_amount = None, inv_paid_at = None, inv_created_at = 0,
         inv_updated_at = 0, inv_buyer_user_id = UserId 7, inv_status = OsPaymentAwaited\<rparr>],
       payment_intents := [\<lparr>pi_id = PaymentIntentId ''pi'', pi_amount = Amount 100,
         pi_amount_received = Amount 0, pi_client_secret = None, pi_currency = Usd,
         pi_last_payment_error_message = None, pi_receipt_email = None,
         pi_charge_id = Some (ChargeId ''ch''), pi_status = RequiresCapture, pi_created_at = 0,
         pi_updated_at = 0\<rparr>],
       payment_intents_invoices := [\<lparr>pii_id = 1, pii_invoice_id = InvoiceId 1,
         pii_payment_intent_id = PaymentIntentId ''pi'', pii_created_at = 0, pii_updated_at = 0\<rparr>]\<rparr>\<rparr>"

lemma user_permissions:
  "permitted [User] ResOrderInfo ActRead b = b ScopeOwned"
  "permitted [User] ResOrderInfo ActWrite b = b ScopeOwned"
  "permitted [User] ResPaymentIntent ActRead b = b ScopeAll"
  "permitted [User] ResPaymentIntentInvoice ActRead b = b ScopeOwned"
  by (simp_all add: permitted_def matching_permissions_def acls.simps permission1_def
      permission2_def permission3_def)

lemma buyer_world_simps:
  "quiet buyer_world" "w_cache_up buyer_world" "w_roles_cache buyer_world uid = Some [User]"
  "orders (w_db buyer_world) = [fiat_order]" "w_calls buyer_world = []"
  by (simp_all add: buyer_world_def)

lemma buyer_covers: "order_covered (w_db buyer_world) 7 (Some (access_of_order fiat_order)) ScopeOwned"
  by (simp add: order_covered_def buyer_world_def access_of_order_def fiat_order_def sample_order_def)

lemma buyer_reads: "initial_order (Some 7) (OrderId 1) buyer_world = (Inr fiat_order, buyer_world)"
  using buyer_covers
  by (simp add: initial_order_def svc_def map_err_def orders_get_quiet buyer_world_simps
      get_acl_cached and_then_def user_permissions fiat_order_def sample_order_def)

lemma buyer_refund:
  "refund_of_order (Some 7) fiat_order buyer_world = (Inr (ChargeId ''ch'', Amount 100), buyer_world)"
proof -
  let ?pii = "hd (payment_intents_invoices (w_db buyer_world))"
  have "piis_in_scope 7 s (Some ?pii) buyer_world = (Inr True, buyer_world)" for s
    by (cases s) (simp_all add: piis_in_scope_def then_res_def optional_def get_result_def or_else_def
        map_ok_def and_then_def buyer_world_def)
  then have pii: "check (ApplicationAcl [User] 7) ResPaymentIntentInvoice ActRead piis_in_scope (Some ?pii)
      buyer_world = (Inr (), buyer_world)"
    by (subst check_run [where b = "\<lambda>_. True"]) (simp_all add: user_permissions)
  have pi: "check (ApplicationAcl [User] 7) ResPaymentIntent ActRead payment_intents_in_scope p
      buyer_world = (Inr (), buyer_world)" for p
    by (subst check_run [where b = "\<lambda>s. s = ScopeAll"])
       (simp_all add: user_permissions payment_intents_in_scope_def split: scope.split)
  have "piis_get (ApplicationAcl [User] 7) (PiiInvoiceId (InvoiceId 1)) buyer_world = (Inr (Some ?pii), buyer_world)"
    using pii by (simp add: piis_get_def and_then_def buyer_world_simps) (simp add: buyer_world_def)
  moreover have "pis_get (ApplicationAcl [User] 7) (PaymentIntentId ''pi'') buyer_world =
      (Inr (Some (hd (payment_intents (w_db buyer_world)))), buyer_world)"
    using pi by (simp add: pis_get_def and_then_def buyer_world_simps) (simp add: buyer_world_def)
  ultimately show ?thesis
    by (simp add: refund_of_order_def buyer_world_simps get_acl_cached svc_def map_ok_def and_then_def)
       (simp add: buyer_world_def fiat_order_def sample_order_def)
qed

lemma buyer_may_not_write:
  "set_order_state (Some 7) oid st (buyer_world\<lparr>w_calls := cs\<rparr>) = (Inl SForbidden, buyer_world\<lparr>w_calls := cs\<rparr>)"
  by (simp add: set_order_state_def update_state_def svc_def map_err_def map_ok_def buyer_world_simps
      get_acl_cached and_then_def check_order_quiet user_permissions order_covered_def
      service_error_of_repo_def)

theorem refund_without_permission:
  "fst (order_decline refund_env (Some 7) (OrderId 1) buyer_world) = Inl SForbidden \<and>
   w_calls (snd (order_decline refund_env (Some 7) (OrderId 1) buyer_world)) =
     [StripeRefund (ChargeId ''ch'') (Amount 100) (OrderId 1)] \<and>
   orders (w_db (snd (order_decline refund_env (Some 7) (OrderId 1) buyer_world))) = [fiat_order]"
proof -
  have "is_fiat (ord_seller_currency fiat_order)" "ord_id fiat_order = OrderId 1"
    by (simp_all add: fiat_order_def sample_order_def is_fiat_def)
  then have "order_decline refund_env (Some 7) (OrderId 1) buyer_world =
      (Inl SForbidden, buyer_world\<lparr>w_calls := [StripeRefund (ChargeId ''ch'') (Amount 100) (OrderId 1)]\<rparr>)"
    by (simp add: order_decline_def order_decline_fiat_def buyer_reads buyer_refund svc_client_def
        call_client_def refund_env_def offline_env_def buyer_world_simps buyer_may_not_write)
  then show ?thesis by (simp add: buyer_world_simps)
qed

text \<open>A superuser declines the same order.\<close>

definition superuser_world :: "rat world" where
  "superuser_world = buyer_world\<lparr>w_roles_cache := (\<lambda>_. Some [Superuser])\<rparr>"

lemma superuser_world_simps:
  "quiet superuser_world" "w_cache_up superuser_world" "w_roles_cache superuser_world uid = Some [Superuser]"
  "w_db superuser_world = w_db buyer_world" "w_calls superuser_world = []"
  by (simp_all add: superuser_world_def buyer_world_def)

lemma totals:
  "total_on_all orders_in_scope" "total_on_all piis_in_scope" "total_on_all payment_intents_in_scope"
  by (simp_all add: total_on_all_def piis_in_scope_def payment_intents_in_scope_def)

lemma superuser_declines:
  assumes "\<And>x. stripe_refund env [] x = Inr ()"
  shows "\<exists>t. order_decline env (Some 1) (OrderId 1) superuser_world = (Inr (), t)"
proof -
  let ?w = superuser_world
  have fiat: "is_fiat (ord_seller_currency fiat_order)" "ord_id fiat_order = OrderId 1"
    "ord_state fiat_order = Initial" "ord_invoice_id fiat_order = InvoiceId 1"
    by (simp_all add: fiat_order_def sample_order_def is_fiat_def)
  have os: "orders (w_db buyer_world) = [fiat_order]" by (rule buyer_world_simps)
  have init: "initial_order (Some 1) (OrderId 1) ?w = (Inr fiat_order, ?w)"
    by (simp add: initial_order_def svc_def orders_get_def superuser_world_simps get_acl_cached os fiat
        check_superuser totals)
  have pii: "piis_get (ApplicationAcl [Superuser] 1) (PiiInvoiceId (InvoiceId 1)) ?w =
      (Inr (Some (hd (payment_intents_invoices (w_db buyer_world)))), ?w)"
    by (simp add: piis_get_def superuser_world_simps) (simp add: buyer_world_def check_superuser totals)
  have pi: "pis_get (ApplicationAcl [Superuser] 1) (PaymentIntentId ''pi'') ?w =
      (Inr (Some (hd (payment_intents (w_db buyer_world)))), ?w)"
    by (simp add: pis_get_def superuser_world_simps) (simp add: buyer_world_def check_superuser totals)
  have refund: "\<exists>tot. refund_of_order (Some 1) fiat_order ?w = (Inr (ChargeId ''ch'', tot), ?w)"
    using pii pi
    by (simp add: refund_of_order_def superuser_world_simps get_acl_cached svc_def fiat)
       (simp add: buyer_world_def)
  have state: "\<exists>t. set_order_state (Some 1) (OrderId 1) Declined (?w\<lparr>w_calls := cs\<rparr>) = (Inr (), t)" for cs
    by (simp add: set_order_state_def update_state_def superuser_world_simps get_acl_cached svc_def
        check_superuser totals update_order_def repo_update_row os fiat)
  from refund state show ?thesis
    by (auto simp: order_decline_def order_decline_fiat_def init fiat svc_client_def call_client_def
        assms superuser_world_simps)
qed

theorem declined_after_refund_witness:
  "\<exists>t c. order_decline refund_env (Some 1) (OrderId 1) superuser_world = (Inr (), t) \<and>
    w_calls t = [StripeRefund c (Amount 100) (OrderId 1)]"
proof -
  obtain t where t: "order_decline refund_env (Some 1) (OrderId 1) superuser_world = (Inr (), t)"
    using superuser_declines [of refund_env] by (auto simp: refund_env_def)
  have "row_by (\<lambda>x. ord_id x = OrderId 1) (orders (w_db superuser_world)) = Some fiat_order"
    "is_fiat (ord_seller_currency fiat_order)" "ord_total_amount fiat_order = Amount 100" "ord_id fiat_order = OrderId 1"
    by (simp_all add: superuser_world_simps buyer_world_simps fiat_order_def sample_order_def is_fiat_def)
  with endsD [OF declined_after_refund t, of fiat_order] t show ?thesis
    by (auto simp: refund_and_decline_def superuser_world_simps)
qed

end
