(* ===== verification/PayoutService.thy ===== *)
theory PayoutService
  imports Prelude Models World Authorization Tables Clients OrdersRepo PayoutsRepo EventStore
    Services Triples
begin

text \<open>
  \<open>services/payout\<close>: what the platform owes to a store, the fees of the blockchain, and the payouts
  to sellers. No order is paid out twice, and a payout is worth the orders that it pays.
\<close>

section \<open>Operations\<close>

definition payable_orders ::
  "acl \<Rightarrow> acl \<Rightarrow> store_id \<Rightarrow> currency option \<Rightarrow> ('d world, service_error, raw_order list) comp" where
  "payable_orders o_acl p_acl sid c =
     and_then (svc (get_orders_for_payout o_acl sid c)) (\<lambda>os.
     and_then (map_ok pbo_order_ids_without_payout
         (svc (payouts_get_by_order_ids p_acl (map ord_id os)))) (\<lambda>ids.
     ok (filter (\<lambda>r. ord_id r \<in> set ids) os)))"

definition add_to_balance ::
  "(currency \<times> amount) list \<Rightarrow> raw_order \<Rightarrow> (currency \<times> amount) list option" where
  "add_to_balance acc r =
     (let c = ord_seller_currency r;
          old = (case map_of acc c of None \<Rightarrow> amount_zero | Some a \<Rightarrow> a)
      in map_option (\<lambda>a. AList.update c a acc) (checked_add old (ord_total_amount r)))"

definition get_balance ::
  "'d bigdecimal \<Rightarrow> stq_user_id option \<Rightarrow> store_id \<Rightarrow> ('d world, service_error, 'd balances_response) comp"
  where
  "get_balance D user sid =
     pool (and_then (get_acl user) (\<lambda>o_acl.
       and_then (get_acl user) (\<lambda>p_acl.
       and_then (payable_orders o_acl p_acl sid None) (\<lambda>os.
       map_ok (\<lambda>balances. \<lparr>br_currencies =
           map (\<lambda>(c, a). (into_stq_currency c, to_super_unit D a c)) balances\<rparr>)
         (ok_or SInternal (try_fold add_to_balance [] os))))))"

record calculate_payout_payload =
  cpp_store_id :: store_id
  cpp_currency :: ture_currency
  cpp_wallet_address :: wallet_address

record 'd calculated_payout_output =
  cpo_order_ids :: "order_id list"
  cpo_currency :: ture_currency
  cpo_gross_amount :: 'd
  cpo_blockchain_fee_options :: "'d payments_fee list"

definition add_to_payout :: "order_id list \<times> amount \<Rightarrow> raw_order \<Rightarrow> (order_id list \<times> amount) option" where
  "add_to_payout acc r =
     map_option (\<lambda>a. (fst acc @ [ord_id r], a)) (checked_add (snd acc) (ord_total_amount r))"

text \<open>\<open>payments\<close> is false when the crate runs without a payments client.\<close>

definition calculate_payout ::
  "'d bigdecimal \<Rightarrow> 'd env \<Rightarrow> bool \<Rightarrow> stq_user_id option \<Rightarrow> calculate_payout_payload \<Rightarrow>
   ('d world, service_error, 'd calculated_payout_output) comp" where
  "calculate_payout D env payments user payload =
     (if \<not> payments then err SNotFound
      else
        let c = cpp_currency payload; input = \<lparr>gf_currency = c, gf_account_address = wallet_inner (cpp_wallet_address payload)\<rparr> in
        and_then (pool (and_then (get_acl user) (\<lambda>o_acl.
            and_then (get_acl user) (\<lambda>p_acl.
            and_then (payable_orders o_acl p_acl (cpp_store_id payload) (Some (currency_of_ture c))) (\<lambda>os.
            ok_or SInternal (try_fold add_to_payout ([], amount_zero) os)))))) (\<lambda>(ids, gross).
        map_ok (\<lambda>fees. \<lparr>cpo_order_ids = ids, cpo_currency = c,
            cpo_gross_amount = to_super_unit D gross (currency_of_ture c),
            cpo_blockchain_fee_options = fees\<rparr>)
          (svc_client (call_client (payments_get_fees env) (PaymentsGetFees input) input))))"

record 'd payout_output =
  poo_id :: payout_id
  poo_gross_amount :: 'd
  poo_net_amount :: 'd
  poo_target :: payout_target
  poo_user_id :: user_id
  poo_status :: payout_status
  poo_order_ids :: "order_id list"

definition payout_output_of :: "'d bigdecimal \<Rightarrow> payout \<Rightarrow> 'd payout_output" where
  "payout_output_of D p =
     \<lparr>poo_id = po_id p, poo_gross_amount = to_super_unit D (po_gross_amount p) (payout_currency p),
      poo_net_amount = to_super_unit D (po_net_amount p) (payout_currency p),
      poo_target = po_target p, poo_user_id = po_user_id p, poo_status = po_status p,
      poo_order_ids = po_order_ids p\<rparr>"

definition get_payout ::
  "'d bigdecimal \<Rightarrow> stq_user_id option \<Rightarrow> payout_id \<Rightarrow> ('d world, service_error, 'd payout_output option) comp"
  where
  "get_payout D user pid =
     pool (and_then (get_acl user) (\<lambda>acl.
       map_ok (map_option (payout_output_of D)) (svc (payouts_get acl pid))))"

record 'd payouts_by_order_ids_output =
  pboo_payouts :: "(order_id \<times> 'd payout_output) list"
  pboo_order_ids_without_payout :: "order_id list"

definition payouts_by_order_ids_output_of ::
  "'d bigdecimal \<Rightarrow> payouts_by_order_ids \<Rightarrow> 'd payouts_by_order_ids_output" where
  "payouts_by_order_ids_output_of D p =
     \<lparr>pboo_payouts = map (\<lambda>(oid, x). (oid, payout_output_of D x)) (pbo_payouts p),
      pboo_order_ids_without_payout = pbo_order_ids_without_payout p\<rparr>"

definition service_get_payouts_by_order_ids ::
  "'d bigdecimal \<Rightarrow> stq_user_id option \<Rightarrow> order_id list \<Rightarrow>
   ('d world, service_error, 'd payouts_by_order_ids_output) comp" where
  "service_get_payouts_by_order_ids D user ids =
     pool (and_then (get_acl user) (\<lambda>acl.
       map_ok (payouts_by_order_ids_output_of D) (svc (payouts_get_by_order_ids acl ids))))"

definition get_payouts_by_store_id ::
  "'d bigdecimal \<Rightarrow> stq_user_id option \<Rightarrow> store_id \<Rightarrow>
   ('d world, service_error, store_id \<times> 'd payouts_by_order_ids_output) comp" where
  "get_payouts_by_store_id D user sid =
     pool (and_then (get_acl user) (\<lambda>o_acl.
       and_then (get_acl user) (\<lambda>p_acl.
       and_then (svc (get_order_ids_by_store_id o_acl sid)) (\<lambda>ids.
       map_ok (\<lambda>p. (sid, payouts_by_order_ids_output_of D p)) (svc (payouts_get_by_order_ids p_acl ids))))))"

definition validate_orders_for_payout :: "raw_order list \<Rightarrow> service_error + orders_for_payout" where
  "validate_orders_for_payout os =
     (case os of
        [] \<Rightarrow> Inl (SValidation [(''order_ids'', ''empty'')])
      | first # _ \<Rightarrow>
          (let states = map (\<lambda>_. (''order_ids'', ''wrong_state''))
                 (filter (\<lambda>r. ord_state r \<noteq> PaymentToSellerNeeded) os);
               currencies = (if list_ex (\<lambda>r. ord_seller_currency r \<noteq> ord_seller_currency first) os
                 then [(''order_ids'', ''different_currencies'')] else []);
               errors = states @ currencies
           in case payment_kind first of
                KindFiat _ _ \<Rightarrow> Inl (SValidation (errors @ [(''order_ids'', ''fiat_not_supported'')]))
              | KindCrypto c \<Rightarrow>
                  if errors \<noteq> [] then Inl (SValidation errors)
                  else Inr \<lparr>ofps_currency = c, ofps_orders =
                    map (\<lambda>r. \<lparr>ofp_order_id = ord_id r, ofp_total_amount = ord_total_amount r\<rparr>) os\<rparr>))"

record 'd pay_out_to_seller_payload =
  pop_order_ids :: "order_id list"
  pop_wallet_currency :: ture_currency
  pop_wallet_address :: wallet_address
  pop_blockchain_fee :: 'd

text \<open>The part of \<open>pay_out_to_seller\<close> that runs on the pool.\<close>

definition payout_amounts :: "amount \<Rightarrow> orders_for_payout \<Rightarrow> service_error + (amount \<times> amount)" where
  "payout_amounts bfee os =
     (case try_fold checked_add (Amount 0) (map ofp_total_amount (ofps_orders os)) of
        None \<Rightarrow> Inl SInternal
      | Some gross \<Rightarrow>
          (case checked_sub gross bfee of
             None \<Rightarrow> Inl (invalid ''blockchain_fee'' ''payout_lt_fee'')
           | Some net \<Rightarrow> Inr (gross, net)))"

definition payout_checks ::
  "acl \<Rightarrow> acl \<Rightarrow> 'd pay_out_to_seller_payload \<Rightarrow> amount \<Rightarrow>
   ('d world, service_error, ture_currency \<times> amount \<times> amount) comp" where
  "payout_checks o_acl p_acl payload bfee =
     (let ids = pop_order_ids payload in
      and_then (svc (orders_get_many o_acl ids)) (\<lambda>os.
      if length os \<noteq> length ids then err (invalid ''order_ids'' ''missing_orders'')
      else and_then (of_result (validate_orders_for_payout os)) (\<lambda>valid.
      if pop_wallet_currency payload \<noteq> ofps_currency valid
      then err (invalid ''wallet_currency'' ''currency_mismatch'')
      else and_then (svc (payouts_get_by_order_ids p_acl ids)) (\<lambda>found.
      if pbo_payouts found \<noteq> [] then err (invalid ''order_ids'' ''payouts_exist'')
      else map_ok (\<lambda>(gross, net). (ofps_currency valid, gross, net))
        (of_result (payout_amounts bfee valid))))))"

text \<open>The event is added, and only then the payout is created.\<close>

definition initiate_payout ::
  "'d bigdecimal \<Rightarrow> acl \<Rightarrow> payout \<Rightarrow> ('d world, service_error, 'd payout_output) comp" where
  "initiate_payout D acl p =
     and_then (new_event (PayoutInitiated (po_id p))) (\<lambda>ev.
     and_then (svc (add_event ev)) (\<lambda>_.
     map_ok (payout_output_of D) (svc (payouts_create acl p))))"

definition pay_out ::
  "'d bigdecimal \<Rightarrow> stq_user_id \<Rightarrow> 'd pay_out_to_seller_payload \<Rightarrow> amount \<Rightarrow>
   ('d world, service_error, 'd payout_output) comp" where
  "pay_out D uid payload bfee =
     and_then (get_acl (Some uid)) (\<lambda>o_acl.
     and_then (get_acl (Some uid)) (\<lambda>p_acl.
     and_then (payout_checks o_acl p_acl payload bfee) (\<lambda>(c, gross, net).
     and_then new_v4 (\<lambda>u.
     and_then utc_now (\<lambda>now.
     initiate_payout D p_acl
       \<lparr>po_id = PayoutId u, po_gross_amount = gross, po_net_amount = net,
        po_target = CryptoWallet \<lparr>cw_currency = c, cw_wallet_address = pop_wallet_address payload,
          cw_blockchain_fee = bfee\<rparr>,
        po_user_id = UserId uid, po_status = PayoutProcessing now,
        po_order_ids = pop_order_ids payload\<rparr>)))))"

definition pay_out_to_seller ::
  "'d bigdecimal \<Rightarrow> stq_user_id option \<Rightarrow> 'd pay_out_to_seller_payload \<Rightarrow>
   ('d world, service_error, 'd payout_output) comp" where
  "pay_out_to_seller D user payload =
     (case user of
        None \<Rightarrow> err SForbidden
      | Some uid \<Rightarrow>
          and_then (unwrap (from_super_unit D (currency_of_ture (pop_wallet_currency payload))
              (pop_blockchain_fee payload))) (\<lambda>bfee.
          pool (pay_out D uid payload bfee)))"

section \<open>Looking for existing payouts\<close>

lemma group_records_nonempty: "records \<noteq> [] \<Longrightarrow> group_records records \<noteq> []"
  by (cases records rule: group_records.cases) (auto split: list.split)

lemma group_records_entries: "g \<in> set (group_records records) \<Longrightarrow> rpr_order_payouts g \<noteq> []"
  by (induction records rule: group_records.induct) (auto split: list.splits if_splits)

lemma try_into_domain_orders:
  "try_into_domain g = Some p \<Longrightarrow> po_order_ids p = map rop_order_id (rpr_order_payouts g)"
  by (auto simp: try_into_domain_def Let_def
      split: currency_choice.splits raw_payout_target_type.splits option.splits list.splits if_splits)

lemma extend_payouts_mono: "acc \<noteq> [] \<Longrightarrow> extend_payouts acc p \<noteq> []"
proof -
  have "fst ` set acc \<subseteq> fst ` set (extend_payouts acc p)"
  proof -
    have "dom (map_of acc) \<subseteq> dom (map_of (fold (\<lambda>oid m. AList.update oid p m) ids acc))" for ids
    proof (induction ids arbitrary: acc)
      case (Cons i ids)
      have "dom (map_of acc) \<subseteq> dom (map_of (AList.update i p acc))" by (auto simp: update_conv')
      with Cons.IH [of "AList.update i p acc"] show ?case by simp
    qed simp
    then show ?thesis by (simp add: extend_payouts_def dom_map_of_conv_image_fst)
  qed
  then show "acc \<noteq> [] \<Longrightarrow> extend_payouts acc p \<noteq> []" by auto
qed

lemma update_nonempty: "AList.update k v al \<noteq> []"
  by (cases al) auto

lemma extend_payouts_nonempty: "po_order_ids p \<noteq> [] \<Longrightarrow> extend_payouts acc p \<noteq> []"
proof (cases "po_order_ids p" rule: rev_cases)
  case (snoc xs x)
  then show ?thesis by (simp add: extend_payouts_def update_nonempty)
qed simp

lemma try_fold_nonempty:
  assumes "try_fold (\<lambda>acc g. map_option (extend_payouts acc) (try_into_domain g)) acc gs = Some []"
    and "\<And>g. g \<in> set gs \<Longrightarrow> rpr_order_payouts g \<noteq> []"
  shows "gs = [] \<and> acc = []"
  using assms
proof (induction gs arbitrary: acc)
  case (Cons g gs)
  then obtain p where p: "try_into_domain g = Some p"
    "try_fold (\<lambda>acc g. map_option (extend_payouts acc) (try_into_domain g)) (extend_payouts acc p) gs = Some []"
    by (auto split: option.splits)
  have "po_order_ids p \<noteq> []" using try_into_domain_orders [OF p(1)] Cons.prems(2) [of g] by simp
  then have "extend_payouts acc p \<noteq> []" by (rule extend_payouts_nonempty)
  with Cons.IH [OF p(2)] Cons.prems(2) show ?case by simp
qed simp

text \<open>When no payout is found for some orders, no entry of an existing payout names one of them.\<close>

lemma no_payouts_found:
  assumes "get_payouts_by_order_ids ids w = (Inr found, t)" and "pbo_payouts found = []"
  shows "join_payouts ids (w_db w) = [] \<or> ids = []"
proof (cases "ids = []")
  case False
  then obtain records u m where sel: "select (join_payouts ids) w = (Inr records, u)"
    and fold: "try_fold (\<lambda>acc g. map_option (extend_payouts acc) (try_into_domain g)) [] (group_records records) = Some m"
    and m: "pbo_payouts found = m"
    using assms(1) by (auto simp: get_payouts_by_order_ids_def success)
  have "group_records records = []"
    using try_fold_nonempty [OF fold [unfolded m [symmetric] assms(2)] group_records_entries] by simp
  then have "records = []" using group_records_nonempty by blast
  with sel show ?thesis
    using execute_success [OF sel [unfolded select_def]] by auto
qed simp

section \<open>Creating a payout\<close>

lemma insert_order_payouts_from_Inr:
  "insert_order_payouts_from ps n d = Inr (rs, e) \<Longrightarrow>
     e = d\<lparr>order_payouts := order_payouts d @ rs\<rparr> \<and> map rop_order_id rs = map rnop_order_id ps \<and>
     map rop_payout_id rs = map rnop_payout_id ps \<and> rop_payout_id ` set rs \<subseteq> rp_id ` set (payouts d)"
proof (induction ps arbitrary: n d rs e)
  case (Cons p ps)
  let ?r = "\<lparr>rop_id = OrderPayoutId n, rop_order_id = rnop_order_id p, rop_payout_id = rnop_payout_id p\<rparr>"
  from Cons.prems obtain qs where
    rest: "insert_order_payouts_from ps (n + 1) (d\<lparr>order_payouts := order_payouts d @ [?r]\<rparr>) = Inr (qs, e)"
    and rs: "rs = ?r # qs" and "rop_payout_id ?r \<in> rp_id ` set (payouts d)"
    by (auto simp: Let_def split: if_splits sum.splits)
  with Cons.IH [OF rest] show ?case by simp
qed simp

definition payout_added :: "payout \<Rightarrow> 'd db \<Rightarrow> 'd db \<Rightarrow> bool" where
  "payout_added p d e \<longleftrightarrow> (\<exists>rs. e = d\<lparr>payouts := payouts d @ [fst (raw_new_payout_records p)],
       order_payouts := order_payouts d @ rs\<rparr> \<and>
     map rop_order_id rs = po_order_ids p \<and> (\<forall>x\<in>set rs. rop_payout_id x = po_id p))"

lemma raw_new_payout_records_fields:
  "rp_id (fst (raw_new_payout_records p)) = po_id p"
  "map rnop_order_id (snd (raw_new_payout_records p)) = po_order_ids p"
  "map rnop_payout_id (snd (raw_new_payout_records p)) = map (\<lambda>_. po_id p) (po_order_ids p)"
  by (cases "po_target p"; cases "po_status p"; simp add: raw_new_payout_records_def o_def)+

lemma insert_payout_body:
  assumes "and_then (execute (insert_payout (fst (raw_new_payout_records p)))) (\<lambda>raw'.
      and_then (insert_order_payouts (snd (raw_new_payout_records p))) (\<lambda>ops'.
      ok \<lparr>rpr_payout = raw', rpr_order_payouts = ops'\<rparr>)) w = (Inr rs, t)"
  shows "payout_added p (w_db w) (w_db t) \<and> \<not> w_aborted t"
proof -
  let ?raw = "fst (raw_new_payout_records p)" and ?ops = "snd (raw_new_payout_records p)"
  obtain raw' u ops' v where u: "execute (insert_payout ?raw) w = (Inr raw', u)"
    and v: "insert_order_payouts ?ops u = (Inr ops', v)" and t: "t = v"
    using assms by (auto simp: success)
  have du: "w_db u = (w_db w)\<lparr>payouts := payouts (w_db w) @ [?raw]\<rparr>"
    using execute_success [OF u] by (auto simp: insert_payout_def split: if_splits)
  obtain x where exec: "execute (\<lambda>_. insert_order_payouts_from ?ops (w_seqs u SeqOrderPayouts)) x = (Inr ops', v)"
    and x: "w_db x = w_db u"
    using v by (auto simp: insert_order_payouts_def success)
  from insert_order_payouts_from_Inr [OF execute_success [OF exec]]
  have "w_db v = (w_db u)\<lparr>order_payouts := order_payouts (w_db u) @ ops'\<rparr>"
    "map rop_order_id ops' = po_order_ids p"
    "map rop_payout_id ops' = map (\<lambda>_. po_id p) (po_order_ids p)"
    by (simp_all add: x raw_new_payout_records_fields)
  moreover from this(3) have "\<forall>y\<in>set ops'. rop_payout_id y = po_id p"
    by (metis (mono_tags, lifting) ex_map_conv image_eqI list.set_map)
  ultimately show ?thesis
    using execute_success_alive [OF exec] du t by (auto simp: payout_added_def)
qed

lemma ends_payouts_create:
  assumes "\<And>r t. w_db t = w_db w \<or> payout_added p (w_db w) (w_db t) \<Longrightarrow> Q r t"
  shows "ends (payouts_create acl p) w Q"
  unfolding payouts_create_def Let_def case_prod_unfold
proof (rule ends_and_then, rule ends_reads [OF reading.keeps_check_payout])
  fix r :: "repo_error + unit" and t :: "'a world"
  assume db: "w_db t = w_db w"
  let ?body = "and_then (execute (insert_payout (fst (raw_new_payout_records p)))) (\<lambda>raw'.
      and_then (insert_order_payouts (snd (raw_new_payout_records p))) (\<lambda>ops'.
      ok \<lparr>rpr_payout = raw', rpr_order_payouts = ops'\<rparr>))"
  have "ends (transaction id ?body) t (\<lambda>_ u. w_db u = w_db w \<or> payout_added p (w_db w) (w_db u))"
    by (rule ends_transaction) (auto simp: db dest: insert_payout_body)
  then show "case r of Inl e \<Rightarrow> Q (Inl e) t
    | Inr _ \<Rightarrow> ends (and_then (repo (transaction id ?body)) (\<lambda>rs. ok_or RInternal (try_into_domain rs))) t Q"
    using assms db
    by (auto split: sum.split intro!: ends_and_then ends_repo ends_ok_or elim!: ends_mono)
qed

section \<open>The ledger of payouts\<close>

text \<open>Every order has at most one payout entry, and every entry belongs to a payout.\<close>

definition paid_once :: "'d db \<Rightarrow> bool" where
  "paid_once d \<longleftrightarrow> distinct (map ord_id (orders d)) \<and> distinct (map rop_order_id (order_payouts d)) \<and>
     rop_payout_id ` set (order_payouts d) \<subseteq> rp_id ` set (payouts d)"

lemma paid_once_added:
  assumes "paid_once d" and "payout_added p d e" and "distinct (po_order_ids p)"
    and "join_payouts (po_order_ids p) d = []"
  shows "paid_once e"
proof -
  obtain rs where e: "e = d\<lparr>payouts := payouts d @ [fst (raw_new_payout_records p)],
       order_payouts := order_payouts d @ rs\<rparr>"
    and rs: "map rop_order_id rs = po_order_ids p" "\<forall>x\<in>set rs. rop_payout_id x = po_id p"
    using assms(2) by (auto simp: payout_added_def)
  have "rop_order_id x \<notin> set (po_order_ids p)" if x: "x \<in> set (order_payouts d)" for x
  proof
    assume "rop_order_id x \<in> set (po_order_ids p)"
    moreover obtain q where "q \<in> set (payouts d)" "rp_id q = rop_payout_id x"
      using assms(1) x by (force simp: paid_once_def)
    ultimately have "(x, q) \<in> set (join_payouts (po_order_ids p) d)"
      using x by (auto simp: join_payouts_def)
    with assms(4) show False by simp
  qed
  then have "set (map rop_order_id (order_payouts d)) \<inter> set (map rop_order_id rs) = {}"
    by (auto simp: rs(1) simp del: set_map) (auto simp: rs(1))
  moreover have "distinct (map rop_order_id rs)" using assms(3) by (simp add: rs(1))
  ultimately show ?thesis
    using assms(1) rs(2) by (auto simp: paid_once_def e raw_new_payout_records_fields(1) simp del: set_map)
qed

lemma length_filter_distinct:
  assumes "distinct (map ord_id rows)"
    and "length (filter (\<lambda>r. ord_id r \<in> set ids) rows) = length ids"
  shows "distinct ids"
proof -
  let ?found = "filter (\<lambda>r. ord_id r \<in> set ids) rows"
  have "distinct (map ord_id ?found)" using assms(1) by (rule distinct_map_filter)
  then have "length ?found = card (set (map ord_id ?found))" by (metis distinct_card length_map)
  also have "\<dots> \<le> card (set ids)" by (intro card_mono) auto
  finally have "length ids \<le> card (set ids)" using assms(2) by simp
  then show ?thesis by (metis card_length card_distinct le_antisym)
qed

section \<open>What has been checked\<close>

lemma validate_orders_Inr:
  assumes "validate_orders_for_payout os = Inr v"
  shows "os \<noteq> []" and "ofps_orders v = map (\<lambda>r. \<lparr>ofp_order_id = ord_id r, ofp_total_amount = ord_total_amount r\<rparr>) os"
    and "\<forall>r\<in>set os. ord_state r = PaymentToSellerNeeded \<and> ord_seller_currency r = currency_of_ture (ofps_currency v)"
  using assms
  by (auto simp: validate_orders_for_payout_def Let_def payment_kind_def classify_Crypto filter_empty_conv
      list_ex_iff split: list.splits currency_choice.splits order_payment_kind.splits if_splits)

lemma checked_orders_success:
  assumes "checked_orders acl (select_where orders p) w = (Inr rows, t)"
  shows "rows = filter p (orders (w_db w))" and "w_db t = w_db w"
proof -
  show "w_db t = w_db w"
    using same_dbD [OF reading.keeps_checked_orders [OF reading.keeps_select_where] assms] .
  obtain u where "repo (select_where orders p) w = (Inr rows, u)"
    using assms by (auto simp: checked_orders_def success)
  then show "rows = filter p (orders (w_db w))" by (auto dest: select_where_success)
qed

text \<open>The orders of the request: all of them exist, wait for their payout, and are paid in the same
  currency; none of them belongs to an earlier payout.\<close>

definition payable :: "'d db \<Rightarrow> order_id list \<Rightarrow> ture_currency \<Rightarrow> bool" where
  "payable d ids c \<longleftrightarrow> (let os = filter (\<lambda>r. ord_id r \<in> set ids) (orders d) in
     ids \<noteq> [] \<and> length os = length ids \<and> join_payouts ids d = [] \<and>
     (\<forall>r\<in>set os. ord_state r = PaymentToSellerNeeded \<and> ord_seller_currency r = currency_of_ture c))"

definition orders_worth :: "'d db \<Rightarrow> order_id list \<Rightarrow> nat" where
  "orders_worth d ids = (\<Sum>r\<leftarrow>filter (\<lambda>r. ord_id r \<in> set ids) (orders d). amount_nat (ord_total_amount r))"

lemma payout_amounts_Inr:
  assumes "payout_amounts bfee v = Inr (gross, net)"
    and "ofps_orders v = map (\<lambda>r. \<lparr>ofp_order_id = ord_id r, ofp_total_amount = ord_total_amount r\<rparr>) os"
  shows "amount_nat gross = (\<Sum>r\<leftarrow>os. amount_nat (ord_total_amount r))"
    and "amount_nat gross = amount_nat bfee + amount_nat net"
proof -
  have "try_fold checked_add (Amount 0) (map ord_total_amount os) = Some gross"
    and net: "checked_sub gross bfee = Some net"
    using assms by (auto simp: payout_amounts_def o_def split: option.splits)
  from sum_amounts [OF this(1)] checked_sub_nat [OF net]
  show "amount_nat gross = (\<Sum>r\<leftarrow>os. amount_nat (ord_total_amount r))"
    "amount_nat gross = amount_nat bfee + amount_nat net"
    by (simp_all add: o_def)
qed

lemma payout_checks_success:
  assumes "payout_checks o_acl p_acl payload bfee w = (Inr (c, gross, net), t)"
  shows "w_db t = w_db w" and "payable (w_db w) (pop_order_ids payload) c"
    and "c = pop_wallet_currency payload"
    and "amount_nat gross = orders_worth (w_db w) (pop_order_ids payload)"
    and "amount_nat gross = amount_nat bfee + amount_nat net"
proof -
  let ?ids = "pop_order_ids payload"
  obtain os u v found where u: "orders_get_many o_acl ?ids w = (Inr os, u)"
    and len: "length os = length ?ids" and v: "validate_orders_for_payout os = Inr v"
    and c: "pop_wallet_currency payload = ofps_currency v" "c = ofps_currency v"
    and found: "payouts_get_by_order_ids p_acl ?ids u = (Inr found, t)" "pbo_payouts found = []"
    and am: "payout_amounts bfee v = Inr (gross, net)"
    using assms by (auto simp: payout_checks_def Let_def success split: if_splits) metis
  note os = checked_orders_success [OF u [unfolded orders_get_many_def]]
  show db: "w_db t = w_db w"
    using same_dbD [OF reading.keeps_payouts_get_by_order_ids found(1)] os(2) by simp
  obtain x where "get_payouts_by_order_ids ?ids u = (Inr found, x)"
    using found(1) by (auto simp: payouts_get_by_order_ids_def success)
  from no_payouts_found [OF this found(2)] validate_orders_Inr [OF v] len
  show "payable (w_db w) ?ids c"
    by (auto simp: payable_def Let_def os c)
  show "c = pop_wallet_currency payload" by (simp add: c)
  show "amount_nat gross = orders_worth (w_db w) ?ids" "amount_nat gross = amount_nat bfee + amount_nat net"
    using payout_amounts_Inr [OF am validate_orders_Inr(2) [OF v]] by (simp_all add: orders_worth_def os)
qed

section \<open>Properties\<close>

definition ignores_events :: "'d db \<Rightarrow> 'd db \<Rightarrow> bool" where
  "ignores_events d e \<longleftrightarrow> (\<exists>rows. e = d\<lparr>event_store := rows\<rparr>)"

interpretation queue_only: event_frame ignores_events
proof unfold_locales
  show "ignores_events d d" for d :: "'d db"
    unfolding ignores_events_def by (rule exI [where x = "event_store d"]) simp
qed (auto simp: ignores_events_def)

lemma events_ignored:
  assumes "ignores_events d e"
  shows "orders e = orders d" "payouts e = payouts d" "order_payouts e = order_payouts d"
    "join_payouts ids e = join_payouts ids d" "paid_once e = paid_once d"
  using assms unfolding ignores_events_def by (elim exE; simp add: join_payouts_def paid_once_def)+

lemma reads_payout_checks: "reads (payout_checks o_acl p_acl payload bfee)"
  unfolding payout_checks_def Let_def orders_get_many_def
  by (intro reading.keeps_and_then reading.keeps_svc reading.keeps_checked_orders
      reading.keeps_select_where reading.keeps_if reading.keeps_err reading.keeps_of_result
      reading.keeps_payouts_get_by_order_ids reading.keeps_map_ok)

lemma ends_initiate_payout:
  "ends (initiate_payout D acl p) w (\<lambda>_ t. \<exists>d. ignores_events (w_db w) d \<and> (w_db t = d \<or> payout_added p d (w_db t)))"
  unfolding initiate_payout_def
proof (rule ends_read_then [OF reading.keeps_new_event])
  show "\<exists>d. ignores_events (w_db w) d \<and> (w_db t = d \<or> payout_added p d (w_db t))"
    if "w_db t = w_db w" for t :: "'a world"
    using that queue_only.P_refl by (intro exI [where x = "w_db w"]) simp
  fix ev :: event and t :: "'a world"
  assume t: "w_db t = w_db w"
  show "ends (and_then (svc (add_event ev)) (\<lambda>_. map_ok (payout_output_of D) (svc (payouts_create acl p)))) t
    (\<lambda>_ t. \<exists>d. ignores_events (w_db w) d \<and> (w_db t = d \<or> payout_added p d (w_db t)))"
    by (rule ends_keeps_then [OF queue_only.keeps_svc [OF queue_only.keeps_add_event]])
       (auto simp: t intro!: ends_map_ok ends_svc ends_payouts_create)
qed

lemma payable_distinct:
  assumes "paid_once d" and "payable d ids c"
  shows "distinct ids"
  using assms by (auto simp: payable_def Let_def paid_once_def intro: length_filter_distinct)

lemma paid_once_pay_out:
  assumes "paid_once (w_db w)"
  shows "ends (pay_out D uid payload bfee) w (\<lambda>_ t. paid_once (w_db t))"
  unfolding pay_out_def
proof (rule ends_read_then [OF reading.keeps_get_acl], simp add: assms,
    rule ends_read_then [OF reading.keeps_get_acl], simp add: assms,
    rule ends_read_then [OF reads_payout_checks], simp add: assms, clarify,
    rule ends_read_then [OF reading.keeps_new_v4], simp add: assms,
    rule ends_read_then [OF reading.keeps_utc_now], simp add: assms,
    rule ends_mono [OF ends_initiate_payout], elim exE conjE)
  fix o_acl p_acl c gross net and v0 v x y z t :: "'a world" and u now d
  assume dbs: "w_db v0 = w_db w" "w_db v = w_db v0" "w_db x = w_db v" "w_db y = w_db x" "w_db z = w_db y"
    and run: "payout_checks o_acl p_acl payload bfee v = (Inr (c, gross, net), x)"
    and d: "ignores_events (w_db z) d"
    and step: "w_db t = d \<or> payout_added
      \<lparr>po_id = PayoutId u, po_gross_amount = gross, po_net_amount = net,
       po_target = CryptoWallet \<lparr>cw_currency = c, cw_wallet_address = pop_wallet_address payload,
         cw_blockchain_fee = bfee\<rparr>,
       po_user_id = UserId uid, po_status = PayoutProcessing now,
       po_order_ids = pop_order_ids payload\<rparr> d (w_db t)"
  have ok: "payable (w_db w) (pop_order_ids payload) c"
    using payout_checks_success(2) [OF run] dbs by simp
  have before: "paid_once d" "join_payouts (pop_order_ids payload) d = []"
    using events_ignored [OF d] ok assms dbs by (simp_all add: payable_def Let_def)
  from step show "paid_once (w_db t)"
  proof
    assume "payout_added \<lparr>po_id = PayoutId u, po_gross_amount = gross, po_net_amount = net,
       po_target = CryptoWallet \<lparr>cw_currency = c, cw_wallet_address = pop_wallet_address payload,
         cw_blockchain_fee = bfee\<rparr>,
       po_user_id = UserId uid, po_status = PayoutProcessing now,
       po_order_ids = pop_order_ids payload\<rparr> d (w_db t)"
    from paid_once_added [OF before(1) this] show ?thesis
      using payable_distinct [OF assms ok] before(2) by simp
  qed (simp add: before(1))
qed

lemma paid_once_pay_out_to_seller:
  assumes "paid_once (w_db w)"
  shows "ends (pay_out_to_seller D user payload) w (\<lambda>_ t. paid_once (w_db t))"
proof (cases user)
  case (Some uid)
  have "ends (and_then (unwrap x) (\<lambda>bfee. pool (pay_out D uid payload bfee))) w (\<lambda>_ t. paid_once (w_db t))" for x
    by (rule ends_read_then [OF reading.keeps_unwrap])
       (auto simp: assms intro!: ends_spawn paid_once_pay_out)
  with Some show ?thesis by (simp add: pay_out_to_seller_def)
qed (simp add: pay_out_to_seller_def ends_err assms)

text \<open>\<open>mark_as_completed\<close> keeps the entries and the ids of the payouts.\<close>

definition same_entries :: "'d db \<Rightarrow> 'd db \<Rightarrow> bool" where
  "same_entries d e \<longleftrightarrow> orders e = orders d \<and> order_payouts e = order_payouts d \<and>
     map rp_id (payouts e) = map rp_id (payouts d)"

interpretation entries: db_relation same_entries
  by unfold_locales (auto simp: same_entries_def)

lemma same_entries_paid_once: "same_entries d e \<Longrightarrow> paid_once e = paid_once d"
  by (simp add: same_entries_def paid_once_def flip: set_map)

lemma entries_mark_as_completed: "keeps (\<lambda>s t. same_entries (w_db s) (w_db t)) (mark_as_completed acl pid)"
  unfolding mark_as_completed_def complete_payouts_def
  by (intro entries.keeps_and_then entries.keeps_repo entries.keeps_get_result entries.keeps_map_ok
      entries.keeps_select_where entries.keeps_check_payout entries.keeps_utc_now
      entries.keeps_update_where entries.keeps_get_payout_by_id entries.keeps_ok_or)
     (simp add: same_entries_def)

datatype 'd payout_request =
    PayOutToSeller "stq_user_id option" "'d pay_out_to_seller_payload"
  | MarkAsCompleted acl payout_id

fun payout_service :: "'d bigdecimal \<Rightarrow> 'd payout_request \<Rightarrow> 'd world \<Rightarrow> 'd world" where
  "payout_service D (PayOutToSeller user payload) w = snd (pay_out_to_seller D user payload w)"
| "payout_service D (MarkAsCompleted acl pid) w = snd (mark_as_completed acl pid w)"

lemma payout_service_paid_once: "paid_once (w_db w) \<Longrightarrow> paid_once (w_db (payout_service D r w))"
proof (cases r)
  case (PayOutToSeller user payload)
  moreover assume "paid_once (w_db w)"
  ultimately show ?thesis
    using endsD [OF paid_once_pay_out_to_seller [of w D user payload]] by (metis payout_service.simps(1) prod.collapse)
next
  case (MarkAsCompleted acl pid)
  moreover assume "paid_once (w_db w)"
  ultimately show ?thesis
    using same_entries_paid_once entries_mark_as_completed [unfolded keeps_def] by (metis payout_service.simps(2))
qed

text \<open>C3: No order is paid out twice: whatever payouts are requested, one after the other, by whichever users and
  for whichever lists of orders, and whichever statements fail, no order appears in two payout
  entries, and every entry belongs to a payout that exists.\<close>

theorem no_order_is_paid_out_twice:
  assumes "paid_once (w_db w)"
  shows "paid_once (w_db (foldl (\<lambda>w r. payout_service D r w) w requests))"
  using assms by (induction requests arbitrary: w) (simp_all add: payout_service_paid_once)

theorem no_order_is_paid_out_twice_witness:
  "paid_once (w_db (foldl (\<lambda>w r. payout_service rat_bigdecimal r w) empty_world
     [PayOutToSeller (Some 1) \<lparr>pop_order_ids = [OrderId 1], pop_wallet_currency = TureEth,
        pop_wallet_address = WalletAddress ''0x1'', pop_blockchain_fee = 0\<rparr>,
      MarkAsCompleted SystemACL (PayoutId 1)]))"
  by (rule no_order_is_paid_out_twice) (simp add: paid_once_def empty_db_def)

lemma try_into_domain_new:
  assumes "map rop_order_id ops = po_order_ids p" and "\<forall>x\<in>set ops. rop_payout_id x = po_id p"
  shows "try_into_domain \<lparr>rpr_payout = fst (raw_new_payout_records p), rpr_order_payouts = ops\<rparr> = Some p"
proof -
  obtain t where t: "po_target p = CryptoWallet t" by (cases "po_target p")
  have c: "classify (currency_of_ture x) = Crypto x" for x by (simp add: classify_Crypto)
  have ids: "(case ops of
      [] \<Rightarrow> Some []
    | first # _ \<Rightarrow>
        if list_all (\<lambda>x. rop_payout_id x = rop_payout_id first) ops
        then Some (map rop_order_id ops) else None) = Some (po_order_ids p)"
    using assms by (cases ops) (simp_all add: list_all_iff)
  show ?thesis
    using t
    by (cases p; cases t; cases "po_status p")
       (simp_all add: try_into_domain_def raw_new_payout_records_def c ids [simplified])
qed

lemma payouts_create_success:
  assumes "payouts_create acl p w = (Inr q, t)"
  shows "payout_added p (w_db w) (w_db t)" and "q = p"
proof -
  let ?raw = "fst (raw_new_payout_records p)" and ?ops = "snd (raw_new_payout_records p)"
  let ?body = "and_then (execute (insert_payout ?raw)) (\<lambda>raw'.
      and_then (insert_order_payouts ?ops) (\<lambda>ops'. ok \<lparr>rpr_payout = raw', rpr_order_payouts = ops'\<rparr>))"
  obtain u rs where u: "check_payout acl ActWrite (po_user_id p) w = (Inr (), u)"
    and tr: "transaction id ?body u = (Inr rs, t)" and q: "try_into_domain rs = Some q"
    using assms by (auto simp: payouts_create_def Let_def case_prod_unfold success)
  have db: "w_db u = w_db w" using same_dbD [OF reading.keeps_check_payout u] .
  from transaction_inner [OF tr] obtain v where v: "?body (inner_world u) = (Inr rs, v)"
    and t: "w_db t = w_db v \<and> \<not> w_aborted v \<or> w_db t = w_db u \<and> w_aborted v" by blast
  from insert_payout_body [OF v] t db show "payout_added p (w_db w) (w_db t)" by simp
  obtain raw' y where raw': "execute (insert_payout ?raw) (inner_world u) = (Inr raw', y)"
    and "and_then (insert_order_payouts ?ops) (\<lambda>ops'. ok \<lparr>rpr_payout = raw', rpr_order_payouts = ops'\<rparr>) y = (Inr rs, v)"
    using v by (auto simp: and_then_success)
  then obtain ops' z where ops': "insert_order_payouts ?ops y = (Inr ops', z)"
    and rs: "rs = \<lparr>rpr_payout = raw', rpr_order_payouts = ops'\<rparr>"
    by (auto simp: success)
  have "raw' = ?raw" using execute_success [OF raw'] by (auto simp: insert_payout_def split: if_splits)
  moreover obtain a where "execute (\<lambda>_. insert_order_payouts_from ?ops (w_seqs y SeqOrderPayouts)) a = (Inr ops', z)"
    using ops' by (auto simp: insert_order_payouts_def success)
  from insert_order_payouts_from_Inr [OF execute_success [OF this]]
  have "map rop_order_id ops' = po_order_ids p" "map rop_payout_id ops' = map (\<lambda>_. po_id p) (po_order_ids p)"
    by (simp_all add: raw_new_payout_records_fields)
  moreover from this(2) have "\<forall>y\<in>set ops'. rop_payout_id y = po_id p"
    by (metis (mono_tags, lifting) ex_map_conv image_eqI list.set_map)
  ultimately show "q = p" using try_into_domain_new q by (simp add: rs)
qed

lemma add_event_success:
  assumes "add_event ev w = (Inr e, t)"
  shows "\<exists>r. w_db t = (w_db w)\<lparr>event_store := event_store (w_db w) @ [r]\<rparr> \<and> re_event r = EventJson ev \<and>
    re_status r = event_status_display Pending \<and> re_scheduled_on r = None"
proof -
  obtain r u where run: "execute_serial SeqEventStore (insert_event (try_from_event ev)) w = (Inr r, u)"
    and "entry_result r u = (Inr e, t)"
    using assms by (auto simp: add_event_def success)
  then have "u = t" by (auto simp: entry_result_def split: sum.splits)
  with execute_serial_success [OF run] show ?thesis
    by (intro exI [where x = r]) (auto simp: insert_event_def Let_def try_from_event_def split: if_splits)
qed

lemma initiate_payout_success:
  assumes "initiate_payout D acl p w = (Inr out, t)"
  shows "out = payout_output_of D p"
    and "\<exists>r ev. payout_added p ((w_db w)\<lparr>event_store := event_store (w_db w) @ [r]\<rparr>) (w_db t) \<and>
      re_event r = EventJson ev \<and> ev_payload ev = PayoutInitiated (po_id p)"
proof -
  obtain ev u e v where u: "new_event (PayoutInitiated (po_id p)) w = (Inr ev :: service_error + event, u)"
    and v: "add_event ev u = (Inr e, v)" and c: "\<exists>q. payouts_create acl p v = (Inr q, t) \<and> out = payout_output_of D q"
    using assms by (auto simp: initiate_payout_def success)
  from c payouts_create_success show "out = payout_output_of D p" by blast
  have "w_db u = w_db w" using same_dbD [OF reading.keeps_new_event u] .
  moreover have "ev_payload ev = PayoutInitiated (po_id p)"
    using u by (auto simp: new_event_def success)
  moreover have "payout_added p (w_db v) (w_db t)" using c payouts_create_success by blast
  ultimately show "\<exists>r ev. payout_added p ((w_db w)\<lparr>event_store := event_store (w_db w) @ [r]\<rparr>) (w_db t) \<and>
      re_event r = EventJson ev \<and> ev_payload ev = PayoutInitiated (po_id p)"
    using add_event_success [OF v] by metis
qed

text \<open>C25: A payout is worth its orders: when \<open>pay_out_to_seller\<close> succeeds, all the orders of the request
  exist, wait for their payout, are paid in the currency of the wallet and have not been paid out
  before; the payout that is stored for the user has the sum of their totals as its gross amount,
  of which the net amount and the blockchain fee are the two parts; its entries are the orders, the
  event that initiates it is queued, and nothing else changes.\<close>

theorem pay_out_to_seller_effect:
  assumes "pay_out_to_seller D (Some uid) payload w = (Inr out, t)"
  shows "\<exists>p bfee r ev.
    from_super_unit D (currency_of_ture (pop_wallet_currency payload)) (pop_blockchain_fee payload) = Some bfee \<and>
    payable (w_db w) (pop_order_ids payload) (pop_wallet_currency payload) \<and>
    payout_added p ((w_db w)\<lparr>event_store := event_store (w_db w) @ [r]\<rparr>) (w_db t) \<and>
    re_event r = EventJson ev \<and> ev_payload ev = PayoutInitiated (po_id p) \<and>
    out = payout_output_of D p \<and> po_user_id p = UserId uid \<and> po_order_ids p = pop_order_ids payload \<and>
    po_target p = CryptoWallet \<lparr>cw_currency = pop_wallet_currency payload,
      cw_wallet_address = pop_wallet_address payload, cw_blockchain_fee = bfee\<rparr> \<and>
    amount_nat (po_gross_amount p) = orders_worth (w_db w) (pop_order_ids payload) \<and>
    amount_nat (po_gross_amount p) = amount_nat bfee + amount_nat (po_net_amount p)"
proof -
  obtain bfee where bfee: "from_super_unit D (currency_of_ture (pop_wallet_currency payload))
      (pop_blockchain_fee payload) = Some bfee"
    and run: "pay_out D uid payload bfee (next_fault w) = (Inr out, t)"
    using assms by (auto simp: pay_out_to_seller_def spawn_success success)
  obtain o_acl p_acl v0 v c gross net x u now y z where
    v0: "get_acl (Some uid) (next_fault w) = (Inr o_acl :: service_error + acl, v0)"
    and v: "get_acl (Some uid) v0 = (Inr p_acl :: service_error + acl, v)"
    and x: "payout_checks o_acl p_acl payload bfee v = (Inr (c, gross, net), x)"
    and y: "new_v4 x = (Inr u :: service_error + uuid, y)"
    and z: "utc_now y = (Inr now :: service_error + timestamp, z)"
    and init: "initiate_payout D p_acl \<lparr>po_id = PayoutId u, po_gross_amount = gross, po_net_amount = net,
        po_target = CryptoWallet \<lparr>cw_currency = c, cw_wallet_address = pop_wallet_address payload,
          cw_blockchain_fee = bfee\<rparr>,
        po_user_id = UserId uid, po_status = PayoutProcessing now,
        po_order_ids = pop_order_ids payload\<rparr> z = (Inr out, t)"
    using run by (auto simp: pay_out_def success simp del: new_v4_run utc_now_run)
  have db: "w_db v = w_db w"
    using same_dbD [OF reading.keeps_get_acl v0] same_dbD [OF reading.keeps_get_acl v] by simp
  note checks = payout_checks_success [OF x, unfolded db]
  have "w_db z = w_db w" using checks(1) y z by auto
  with initiate_payout_success(2) [OF init] obtain r ev where
    "payout_added \<lparr>po_id = PayoutId u, po_gross_amount = gross, po_net_amount = net,
        po_target = CryptoWallet \<lparr>cw_currency = c, cw_wallet_address = pop_wallet_address payload,
          cw_blockchain_fee = bfee\<rparr>,
        po_user_id = UserId uid, po_status = PayoutProcessing now,
        po_order_ids = pop_order_ids payload\<rparr>
      ((w_db w)\<lparr>event_store := event_store (w_db w) @ [r]\<rparr>) (w_db t)"
    "re_event r = EventJson ev" "ev_payload ev = PayoutInitiated (PayoutId u)"
    by auto
  with initiate_payout_success(1) [OF init] checks bfee show ?thesis
    by (intro exI [where x = "\<lparr>po_id = PayoutId u, po_gross_amount = gross, po_net_amount = net,
        po_target = CryptoWallet \<lparr>cw_currency = c, cw_wallet_address = pop_wallet_address payload,
          cw_blockchain_fee = bfee\<rparr>,
        po_user_id = UserId uid, po_status = PayoutProcessing now,
        po_order_ids = pop_order_ids payload\<rparr>"] exI [where x = bfee] exI [where x = r]
        exI [where x = ev]) simp
qed

text \<open>A world with an order that waits for its payout.\<close>

definition payout_world :: "rat world" where
  "payout_world = empty_world\<lparr>w_roles_cache := (\<lambda>_. Some [Superuser]),
     w_db := empty_db\<lparr>orders := [\<lparr>ord_id = OrderId 1, ord_seller_currency = Eth,
       ord_total_amount = Amount 100, ord_cashback_amount = Amount 0, ord_invoice_id = InvoiceId 1,
       ord_created_at = 0, ord_updated_at = 0, ord_store_id = StoreId 1,
       ord_state = PaymentToSellerNeeded, ord_stripe_fee = None\<rparr>]\<rparr>\<rparr>"

definition payout_payload :: "rat pay_out_to_seller_payload" where
  "payout_payload = \<lparr>pop_order_ids = [OrderId 1], pop_wallet_currency = TureEth,
     pop_wallet_address = WalletAddress ''0x1'', pop_blockchain_fee = 0\<rparr>"

lemma payout_world_simps [simp]:
  "quiet payout_world" "w_cache_up payout_world" "w_roles_cache payout_world uid = Some [Superuser]"
  "payouts (w_db payout_world) = []" "order_payouts (w_db payout_world) = []"
  "event_store (w_db payout_world) = []"
  by (simp_all add: payout_world_def) (simp_all add: empty_db_def)

lemma payouts_total [simp]: "total_on_all payouts_in_scope"
  by (simp add: total_on_all_def payouts_in_scope_def)

lemma orders_total [simp]: "total_on_all orders_in_scope"
  by (simp add: total_on_all_def)

lemma checked_orders_superuser [simp]:
  "checked_orders (ApplicationAcl [Superuser] uid) query = repo query"
  by (simp add: checked_orders_def for_each_ok check_superuser)

lemma payout_orders:
  "filter (\<lambda>r. ord_id r = OrderId 1) (orders (w_db payout_world)) = orders (w_db payout_world)"
  "orders (w_db payout_world) = [\<lparr>ord_id = OrderId 1, ord_seller_currency = Eth,
       ord_total_amount = Amount 100, ord_cashback_amount = Amount 0, ord_invoice_id = InvoiceId 1,
       ord_created_at = 0, ord_updated_at = 0, ord_store_id = StoreId 1,
       ord_state = PaymentToSellerNeeded, ord_stripe_fee = None\<rparr>]"
  by (simp_all add: payout_world_def)

lemma payout_checks_run:
  "payout_checks (ApplicationAcl [Superuser] 1) (ApplicationAcl [Superuser] 1) payout_payload (Amount 0)
     payout_world = (Inr (TureEth, Amount 100, Amount 100), payout_world)"
proof -
  have valid: "validate_orders_for_payout (orders (w_db payout_world)) =
      Inr \<lparr>ofps_currency = TureEth, ofps_orders = [\<lparr>ofp_order_id = OrderId 1, ofp_total_amount = Amount 100\<rparr>]\<rparr>"
    by (simp add: payout_orders(2) validate_orders_for_payout_def payment_kind_def)
  have amounts: "payout_amounts (Amount 0) \<lparr>ofps_currency = TureEth,
      ofps_orders = [\<lparr>ofp_order_id = OrderId 1, ofp_total_amount = Amount 100\<rparr>]\<rparr> = Inr (Amount 100, Amount 100)"
    by (simp add: payout_amounts_def checked_add_def checked_sub_def u128_checked_add_def u128_checked_sub_def)
  have found: "payouts_get_by_order_ids acl [OrderId 1] payout_world =
      (Inr \<lparr>pbo_payouts = [], pbo_order_ids_without_payout = [OrderId 1]\<rparr>, payout_world)" for acl
    by (simp add: payouts_get_by_order_ids_def get_payouts_by_order_ids_def repo_def map_err_def
        join_payouts_def and_then_def for_each_def map_ok_def)
  have orders: "orders_get_many (ApplicationAcl [Superuser] 1) [OrderId 1] payout_world =
      (Inr (orders (w_db payout_world)), payout_world)"
    by (simp add: orders_get_many_def payout_orders(1))
  show ?thesis
    by (simp add: payout_checks_def payout_payload_def svc_def orders
        valid [unfolded payout_orders(2)] found amounts Let_def payout_orders(2) of_result_apply
        and_then_def map_ok_def)
qed

lemma create_run:
  assumes "quiet w" and "payouts (w_db w) = []" and "order_payouts (w_db w) = []"
    and "orders (w_db w) = orders (w_db payout_world)" and "po_order_ids p = [OrderId 1]"
  shows "\<exists>q t. payouts_create (ApplicationAcl [Superuser] uid) p w = (Inr q, t)"
proof -
  let ?raw = "fst (raw_new_payout_records p)" and ?ops = "snd (raw_new_payout_records p)"
  let ?body = "and_then (execute (insert_payout ?raw)) (\<lambda>raw'.
      and_then (insert_order_payouts ?ops) (\<lambda>ops'. ok \<lparr>rpr_payout = raw', rpr_order_payouts = ops'\<rparr>))"
  obtain x where x: "?ops = [x]" "rnop_order_id x = OrderId 1" "rnop_payout_id x = po_id p"
    using raw_new_payout_records_fields(2,3) [of p] assms(5) by (cases ?ops) auto
  have "\<exists>rs t. ?body (w\<lparr>w_depth := Suc (w_depth w)\<rparr>) = (Inr rs, t) \<and> quiet t"
    using assms x
    by (simp add: and_then_def execute_quiet insert_payout_def insert_order_payouts_def Let_def
        payout_orders(2) raw_new_payout_records_fields(1))
  then obtain rs t where body: "?body (w\<lparr>w_depth := Suc (w_depth w)\<rparr>) = (Inr rs, t)" "quiet t" by blast
  have tr: "transaction id ?body w = (Inr rs, t\<lparr>w_depth := w_depth w\<rparr>)"
    by (rule transaction_quiet_Inr [where m = ?body, OF assms(1) body])
  have ops: "rpr_payout rs = ?raw \<and> map rop_order_id (rpr_order_payouts rs) = po_order_ids p \<and>
      (\<forall>x\<in>set (rpr_order_payouts rs). rop_payout_id x = po_id p)"
    using body(1) assms x
    by (auto simp: and_then_def execute_quiet insert_payout_def insert_order_payouts_def Let_def
        payout_orders(2) raw_new_payout_records_fields(1))
  have "try_into_domain rs = Some p"
    using try_into_domain_new [of "rpr_order_payouts rs" p] ops by (cases rs) simp
  with tr show ?thesis
    by (simp add: payouts_create_def Let_def case_prod_unfold check_superuser repo_def map_err_def
        and_then_def)
qed

lemma initiate_run:
  assumes "quiet w" and "payouts (w_db w) = []" and "order_payouts (w_db w) = []"
    and "event_store (w_db w) = []" and "orders (w_db w) = orders (w_db payout_world)"
    and "po_order_ids p = [OrderId 1]"
  shows "\<exists>out t. initiate_payout D (ApplicationAcl [Superuser] uid) p w = (Inr out, t)"
proof -
  let ?w1 = "w\<lparr>w_uuids := (\<lambda>n. w_uuids w (Suc n))\<rparr>"
  obtain ev where ev: "new_event (PayoutInitiated (po_id p)) w = (Inr ev :: service_error + event, ?w1)"
    by (simp add: new_event_def)
  have "\<exists>e w2. add_event ev ?w1 = (Inr e, w2) \<and> quiet w2 \<and> payouts (w_db w2) = [] \<and>
      order_payouts (w_db w2) = [] \<and> orders (w_db w2) = orders (w_db payout_world)"
    using assms
    by (simp add: add_event_def run_defs execute_serial_quiet insert_event_def Let_def entry_result_def
        try_into_event_entry_valid try_from_event_def del: event_status_display.simps)
  then obtain e w2 where e: "add_event ev ?w1 = (Inr e, w2)" and w2: "quiet w2" "payouts (w_db w2) = []"
    "order_payouts (w_db w2) = []" "orders (w_db w2) = orders (w_db payout_world)" by blast
  from create_run [OF w2 assms(6)] obtain q t where
    "payouts_create (ApplicationAcl [Superuser] uid) p w2 = (Inr q, t)" by blast
  with ev e show ?thesis
    by (simp add: initiate_payout_def svc_def)
qed

lemma payout_run:
  "\<exists>out t. pay_out_to_seller rat_bigdecimal (Some 1) payout_payload payout_world = (Inr out, t)"
proof -
  have bfee: "from_super_unit rat_bigdecimal (currency_of_ture (pop_wallet_currency payout_payload))
      (pop_blockchain_fee payout_payload) = Some (Amount 0)"
    by (simp add: payout_payload_def from_super_unit_cases [OF rat_bigdecimal_laws] trunc_rat_def)
  have ids: "pop_order_ids payout_payload = [OrderId 1]" by (simp add: payout_payload_def)
  show ?thesis
    by (simp add: pay_out_to_seller_def bfee unwrap_def pay_out_def get_acl_cached payout_checks_run ids)
       (rule initiate_run; simp)
qed

theorem pay_out_to_seller_effect_witness:
  "\<exists>p :: payout. payable (w_db payout_world) [OrderId 1] TureEth \<and> po_order_ids p = [OrderId 1] \<and>
    amount_nat (po_gross_amount p) = orders_worth (w_db payout_world) [OrderId 1]"
proof -
  obtain out t where "pay_out_to_seller rat_bigdecimal (Some 1) payout_payload payout_world = (Inr out, t)"
    using payout_run by blast
  from pay_out_to_seller_effect [OF this] show ?thesis
    by (auto simp: payout_payload_def)
qed

end
