(* ===== verification/AccountService.thy ===== *)
theory AccountService
  imports Prelude Models World Authorization Tables Clients Constraints AccountsRepo Services Triples
begin

text \<open>
  \<open>services/accounts.rs\<close>: the accounts of the payments gateway, the pool of free accounts and the
  creation of an account in both places, which is reverted when one of the two fails.
\<close>

section \<open>Operations\<close>

record account_config =
  min_accounts_in_pool :: nat
  payments_callback_url :: string
  system_accounts :: "system_account list"

fun system_account_type_display :: "system_account_type \<Rightarrow> string" where
  "system_account_type_display SysMain = ''Main''"
| "system_account_type_display SysCashback = ''Cashback''"

definition system_account_display :: "system_account \<Rightarrow> string" where
  "system_account_display a =
     system_account_type_display (sa_account_type a) @ '' '' @ ture_currency_display (sa_currency a)"

text \<open>The error of \<open>create_account_happy\<close> carries the id of the account.\<close>

definition create_account_happy ::
  "'d env \<Rightarrow> account_config \<Rightarrow> uuid \<Rightarrow> string \<Rightarrow> ture_currency \<Rightarrow> bool \<Rightarrow>
   ('d world, uuid \<times> service_error, account) comp" where
  "create_account_happy env cfg u nm c pooled =
     (let input = \<lparr>ca_id = u, ca_currency = c, ca_name = nm, ca_callback_url = payments_callback_url cfg\<rparr> in
      map_err (\<lambda>e. (u, e))
        (and_then (svc_client (call_client (payments_create_account env) (PaymentsCreateAccount input) input)) (\<lambda>acc.
         pool (svc (accounts_create SystemACL
           \<lparr>na_id = AccountId u, na_currency = c, na_is_pooled = pooled,
            na_wallet_address = pa_account_address acc\<rparr>)))))"

text \<open>The two parts of the reversal run side by side; their errors are ignored.\<close>

definition create_account_revert :: "'d env \<Rightarrow> uuid \<Rightarrow> ('d world, service_error, unit) comp" where
  "create_account_revert env u =
     and_then (then_res (pool (svc (accounts_delete SystemACL (AccountId u)))) (\<lambda>_. ok ())) (\<lambda>_.
     then_res (svc_client (call_client (payments_delete_account env) (PaymentsDeleteAccount u) u)) (\<lambda>_. ok ()))"

definition create_account ::
  "'d env \<Rightarrow> account_config \<Rightarrow> uuid \<Rightarrow> string \<Rightarrow> ture_currency \<Rightarrow> bool \<Rightarrow> ('d world, service_error, account) comp"
  where
  "create_account env cfg u nm c pooled =
     or_else (create_account_happy env cfg u nm c pooled) (\<lambda>(u', e).
       then_res (create_account_revert env u') (\<lambda>_. err e))"

definition internally :: "('s, service_error, 'a) comp \<Rightarrow> ('s, service_error, 'a) comp" where
  "internally m = map_err (\<lambda>_. SInternal) m"

definition init_system_accounts :: "'d env \<Rightarrow> account_config \<Rightarrow> ('d world, service_error, unit) comp" where
  "init_system_accounts env cfg =
     and_then (pool (svc (accounts_get_many SystemACL (map sa_id (system_accounts cfg))))) (\<lambda>existing.
     for_each (\<lambda>a. internally (create_account env cfg (account_uuid (sa_id a)) (system_account_display a)
         (sa_currency a) False))
       (filter (\<lambda>a. \<not> list_ex (\<lambda>x. acc_id x = sa_id a) existing) (system_accounts cfg)))"

text \<open>The currencies of a hash map come in no particular order; this is one.\<close>

definition accounts_to_create :: "nat \<Rightarrow> account_count \<Rightarrow> ture_currency list" where
  "accounts_to_create minimum n =
     concat (map (\<lambda>c. replicate (minimum - ac_pooled n c) c) [TureEth, TureStq, TureBtc])"

definition create_pooled_account ::
  "(uuid \<Rightarrow> string) \<Rightarrow> 'd env \<Rightarrow> account_config \<Rightarrow> ture_currency \<Rightarrow> ('d world, service_error, account) comp"
  where
  "create_pooled_account hyphenated env cfg c =
     and_then new_v4 (\<lambda>u. create_account env cfg u (hyphenated u) c True)"

definition init_account_pools ::
  "(uuid \<Rightarrow> string) \<Rightarrow> 'd env \<Rightarrow> account_config \<Rightarrow> ('d world, service_error, unit) comp" where
  "init_account_pools hyphenated env cfg =
     and_then (pool (svc (accounts_count SystemACL))) (\<lambda>n.
     for_each (\<lambda>c. internally (create_pooled_account hyphenated env cfg c))
       (accounts_to_create (min_accounts_in_pool cfg) n))"

definition get_account :: "'d env \<Rightarrow> uuid \<Rightarrow> ('d world, service_error, account_with_balance) comp" where
  "get_account env u =
     and_then (pool (and_then (internally (svc (accounts_get SystemACL (AccountId u)))) (ok_or SInternal))) (\<lambda>a.
     map_ok (\<lambda>p. \<lparr>awb_account = a, awb_balance = pa_balance p\<rparr>)
       (internally (svc_client (call_client (payments_get_account env) (PaymentsGetAccount u) u))))"

definition get_main_account ::
  "'d env \<Rightarrow> account_config \<Rightarrow> ture_currency \<Rightarrow> ('d world, service_error, account_with_balance) comp" where
  "get_main_account env cfg c =
     and_then (ok_or SInternal (system_accounts_get (system_accounts cfg) c SysMain)) (\<lambda>a.
     get_account env (account_uuid a))"

definition get_stq_cashback_account ::
  "'d env \<Rightarrow> account_config \<Rightarrow> ('d world, service_error, account_with_balance) comp" where
  "get_stq_cashback_account env cfg =
     and_then (ok_or SInternal (system_accounts_get (system_accounts cfg) TureStq SysCashback)) (\<lambda>a.
     get_account env (account_uuid a))"

definition get_or_create_free_pooled_account ::
  "(uuid \<Rightarrow> string) \<Rightarrow> 'd env \<Rightarrow> account_config \<Rightarrow> ture_currency \<Rightarrow> ('d world, service_error, account) comp"
  where
  "get_or_create_free_pooled_account hyphenated env cfg c =
     and_then (pool (internally (svc (repo_get_free_account SystemACL c)))) (\<lambda>free.
     case free of
       Some a \<Rightarrow> ok a
     | None \<Rightarrow> create_pooled_account hyphenated env cfg c)"

section \<open>The pool\<close>

definition pooled_accounts :: "'d db \<Rightarrow> ture_currency \<Rightarrow> nat" where
  "pooled_accounts d c = length (filter (\<lambda>a. acc_is_pooled a \<and> acc_currency a = c) (accounts d))"

lemma count_accounts_pooled: "ac_pooled (count_accounts rows) c = length (filter (\<lambda>a. acc_is_pooled a \<and> acc_currency a = c) rows)"
proof -
  have "ac_pooled (fold (\<lambda>a n. if acc_is_pooled a
         then n\<lparr>ac_pooled := (ac_pooled n)(acc_currency a := ac_pooled n (acc_currency a) + 1)\<rparr>
         else n\<lparr>ac_unpooled := (ac_unpooled n)(acc_currency a := ac_unpooled n (acc_currency a) + 1)\<rparr>) rows n) c =
    ac_pooled n c + length (filter (\<lambda>a. acc_is_pooled a \<and> acc_currency a = c) rows)" for n :: account_count
    by (induction rows arbitrary: n) auto
  then show ?thesis by (simp add: count_accounts_def)
qed

lemma create_account_success:
  assumes "create_account env cfg u nm c pooled w = (Inr a, t)"
  shows "w_db t = (w_db w)\<lparr>accounts := accounts (w_db w) @ [a]\<rparr>"
    and "acc_id a = AccountId u" and "acc_currency a = c" and "acc_is_pooled a = pooled"
proof -
  have "then_res (create_account_revert env u') (\<lambda>_. err e) v = (Inr a, t) \<Longrightarrow> False" for u' e and v :: "'a world"
    by (auto simp: success)
  then have "create_account_happy env cfg u nm c pooled w = (Inr a, t)"
    using assms by (auto simp: create_account_def success)
  then obtain acc v where call: "call_client (payments_create_account env) (PaymentsCreateAccount
        \<lparr>ca_id = u, ca_currency = c, ca_name = nm, ca_callback_url = payments_callback_url cfg\<rparr>)
        \<lparr>ca_id = u, ca_currency = c, ca_name = nm, ca_callback_url = payments_callback_url cfg\<rparr> w = (Inr acc, v)"
    and exec: "execute (insert_account \<lparr>na_id = AccountId u, na_currency = c, na_is_pooled = pooled,
            na_wallet_address = pa_account_address acc\<rparr>) (next_fault v) = (Inr a, t)"
    by (auto simp: create_account_happy_def Let_def success spawn_success accounts_create_def)
  have "w_db v = w_db w" using call by (auto simp: call_client_def)
  with execute_success [OF exec]
  show "w_db t = (w_db w)\<lparr>accounts := accounts (w_db w) @ [a]\<rparr>" "acc_id a = AccountId u"
    "acc_currency a = c" "acc_is_pooled a = pooled"
    by (auto simp: insert_account_def Let_def split: if_splits)
qed

lemma create_pooled_success:
  assumes "internally (create_pooled_account hyphenated env cfg c) w = (Inr a, t)"
  shows "pooled_accounts (w_db t) c' = pooled_accounts (w_db w) c' + (if c' = c then 1 else 0)"
proof -
  have "create_account env cfg (w_uuids w 0) (hyphenated (w_uuids w 0)) c True
      (w\<lparr>w_uuids := (\<lambda>n. w_uuids w (Suc n))\<rparr>) = (Inr a, t)"
    using assms by (simp add: create_pooled_account_def internally_def success)
  from create_account_success [OF this] show ?thesis by (simp add: pooled_accounts_def)
qed

lemma create_pooled_all:
  assumes "try_map (\<lambda>c. internally (create_pooled_account hyphenated env cfg c)) cs w = (Inr as, t)"
  shows "pooled_accounts (w_db t) c = pooled_accounts (w_db w) c + count_list cs c"
  using assms
proof (induction cs arbitrary: w as)
  case (Cons x cs)
  then obtain a u bs where a: "internally (create_pooled_account hyphenated env cfg x) w = (Inr a, u)"
    and bs: "try_map (\<lambda>c. internally (create_pooled_account hyphenated env cfg c)) cs u = (Inr bs, t)"
    by (auto simp: success)
  from Cons.IH [OF bs] create_pooled_success [OF a, of c] show ?case by simp
qed simp

lemma count_list_replicate: "count_list (replicate n x) y = (if x = y then n else 0)"
  by (induction n) auto

lemma count_to_create: "count_list (accounts_to_create minimum n) c = minimum - ac_pooled n c"
  by (cases c) (simp_all add: accounts_to_create_def count_list_replicate)

section \<open>The reversal\<close>

lemma accounts_delete_quiet:
  assumes "quiet w"
  shows "\<exists>r t. accounts_delete SystemACL aid w = (Inr r, t) \<and> quiet t \<and> w_calls t = w_calls w \<and>
    accounts (w_db t) = filter (\<lambda>a. acc_id a \<noteq> aid) (accounts (w_db w))"
  using assms
  by (simp add: accounts_delete_def run_defs execute_quiet delete_accounts_where_def delete_rows_def Let_def
      split: list.split)

lemma revert_quiet:
  assumes "quiet w"
  shows "\<exists>t. create_account_revert env u w = (Inr (), t) \<and> quiet t \<and>
    w_calls t = w_calls w @ [PaymentsDeleteAccount u] \<and>
    accounts (w_db t) = filter (\<lambda>a. acc_id a \<noteq> AccountId u) (accounts (w_db w))"
proof -
  obtain r t where t: "accounts_delete SystemACL (AccountId u) w = (Inr r, t)" "quiet t"
    "w_calls t = w_calls w" "accounts (w_db t) = filter (\<lambda>a. acc_id a \<noteq> AccountId u) (accounts (w_db w))"
    using accounts_delete_quiet [OF assms, of "AccountId u"] by blast
  then have "create_account_revert env u w = (Inr (), t\<lparr>w_calls := w_calls t @ [PaymentsDeleteAccount u]\<rparr>)"
    using assms
    by (simp add: create_account_revert_def svc_def svc_client_def call_client_def then_res_def map_err_def)
  with t show ?thesis by simp
qed

lemma happy_failure:
  assumes "quiet w" and "w_depth w = 0" and "create_account_happy env cfg u nm c pooled w = (Inl e, t)"
  shows "quiet t" and "w_db t = w_db w" and "fst e = u"
    and "w_calls t = w_calls w @ [PaymentsCreateAccount
      \<lparr>ca_id = u, ca_currency = c, ca_name = nm, ca_callback_url = payments_callback_url cfg\<rparr>]"
proof -
  let ?input = "\<lparr>ca_id = u, ca_currency = c, ca_name = nm, ca_callback_url = payments_callback_url cfg\<rparr>"
  let ?v = "w\<lparr>w_calls := w_calls w @ [PaymentsCreateAccount ?input]\<rparr>"
  have "quiet t \<and> w_db t = w_db w \<and> fst e = u \<and> w_calls t = w_calls ?v"
  proof (cases "payments_create_account env (w_calls w) ?input")
    case (Inl x)
    then show ?thesis
      using assms by (simp add: create_account_happy_def svc_client_def call_client_def map_err_def and_then_def Let_def)
        auto
  next
    case (Inr acc)
    let ?new = "\<lparr>na_id = AccountId u, na_currency = c, na_is_pooled = pooled, na_wallet_address = pa_account_address acc\<rparr>"
    have "insert_account ?new (w_clock w 0) (w_db w) = Inl UniqueViolation \<or>
        (\<exists>a d. insert_account ?new (w_clock w 0) (w_db w) = Inr (a, d))"
      by (auto simp: insert_account_def Let_def)
    then show ?thesis
      using assms Inr
      by (elim disjE exE)
         (simp_all add: create_account_happy_def svc_client_def call_client_def map_err_def and_then_def Let_def
           accounts_create_def svc_def repo_def execute_quiet stmt_failed_def, auto simp: quiet_def)
  qed
  then show "quiet t" "w_db t = w_db w" "fst e = u" "w_calls t = w_calls w @ [PaymentsCreateAccount ?input]"
    by simp_all
qed

section \<open>Properties\<close>

text \<open>When the initialisation of the pools returns, every currency has its minimum of pooled
  accounts: the missing ones have been created, no more than that, and none has been removed.\<close>

theorem init_account_pools_fills:
  assumes "init_account_pools hyphenated env cfg w = (Inr (), t)"
  shows "pooled_accounts (w_db t) c = max (min_accounts_in_pool cfg) (pooled_accounts (w_db w) c)"
proof -
  obtain n u as where n: "accounts_count SystemACL (next_fault w) = (Inr n, u)"
    and as: "try_map (\<lambda>c. internally (create_pooled_account hyphenated env cfg c))
       (accounts_to_create (min_accounts_in_pool cfg) n) u = (Inr as, t)"
    using assms by (auto simp: init_account_pools_def for_each_def success spawn_success)
  obtain rows where rows: "select accounts (next_fault w) = (Inr rows, u)" and "n = count_accounts rows"
    using n by (auto simp: accounts_count_def success)
  with execute_success [OF rows [unfolded select_def]]
  have "ac_pooled n c = pooled_accounts (w_db w) c" and "w_db u = w_db w"
    by (auto simp: count_accounts_pooled pooled_accounts_def)
  with create_pooled_all [OF as, of c] show ?thesis by (simp add: count_to_create)
qed

text \<open>An environment in which the gateway creates accounts.\<close>

definition gateway_env :: "rat env" where
  "gateway_env = offline_env\<lparr>payments_create_account := (\<lambda>_ q. Inr \<lparr>pa_id = ca_id q,
     pa_balance = Amount 0, pa_currency = ca_currency q, pa_name = ca_name q,
     pa_account_address = WalletAddress ''0x1''\<rparr>)\<rparr>"

definition one_account :: account_config where
  "one_account = \<lparr>min_accounts_in_pool = 1, payments_callback_url = ''cb'', system_accounts = []\<rparr>"

lemma create_run_quiet:
  assumes "quiet w" and "\<forall>a\<in>set (accounts (w_db w)). acc_id a \<noteq> AccountId (w_uuids w 0)"
  shows "\<exists>a t. internally (create_pooled_account h gateway_env cfg c) w = (Inr a, t) \<and> quiet t \<and>
    w_uuids t = (\<lambda>n. w_uuids w (Suc n)) \<and>
    accounts (w_db t) = accounts (w_db w) @ [a] \<and> acc_id a = AccountId (w_uuids w 0)"
  using assms
  by (simp add: internally_def create_pooled_account_def create_account_def create_account_happy_def
      gateway_env_def svc_client_def call_client_def svc_def accounts_create_def run_defs execute_quiet
      insert_account_def Let_def)

lemma empty_world_uuids: "w_uuids empty_world n = of_nat n" "accounts (w_db empty_world) = []"
  by (simp_all add: empty_world_def initial_world_def empty_db_def)

lemma pools_run: "\<exists>t. init_account_pools h gateway_env one_account empty_world = (Inr (), t)"
proof -
  have n: "accounts_count SystemACL empty_world = (Inr \<lparr>ac_pooled = (\<lambda>_. 0), ac_unpooled = (\<lambda>_. 0)\<rparr>, empty_world)"
    by (simp add: accounts_count_def run_defs count_accounts_def empty_world_uuids del: empty_world_simps(2))
  have cs: "accounts_to_create (Suc 0) \<lparr>ac_pooled = (\<lambda>_. 0), ac_unpooled = (\<lambda>_. 0)\<rparr> = [TureEth, TureStq, TureBtc]"
    by (simp add: accounts_to_create_def)
  let ?m = "\<lambda>c. internally (create_pooled_account h gateway_env one_account c)"
  obtain a t where t: "?m TureEth empty_world = (Inr a, t)" "quiet t" "w_uuids t = (\<lambda>n. of_nat (Suc n))"
    "accounts (w_db t) = [a]" "acc_id a = AccountId 0"
    using create_run_quiet [of empty_world h one_account TureEth]
    by (auto simp: empty_world_uuids simp del: empty_world_simps(2))
  obtain b u where u: "?m TureStq t = (Inr b, u)" "quiet u" "w_uuids u = (\<lambda>n. of_nat (Suc (Suc n)))"
    "accounts (w_db u) = [a, b]" "acc_id b = AccountId 1"
    using create_run_quiet [of t h one_account TureStq] t by auto
  obtain e v where "?m TureBtc u = (Inr e, v)"
    using create_run_quiet [of u h one_account TureBtc] t u by auto
  with t u show ?thesis
    by (simp add: init_account_pools_def svc_def n cs one_account_def [THEN arg_cong [where f = min_accounts_in_pool]]
        for_each_def)
qed

theorem init_account_pools_fills_witness:
  "\<exists>t. init_account_pools (\<lambda>_. ''id'') gateway_env one_account empty_world = (Inr (), t) \<and>
     pooled_accounts (w_db t) TureEth = 1"
proof -
  obtain t where t: "init_account_pools (\<lambda>_. ''id'') gateway_env one_account empty_world = (Inr (), t)"
    using pools_run by blast
  from init_account_pools_fills [OF this, of TureEth] have "pooled_accounts (w_db t) TureEth = 1"
    by (simp add: one_account_def pooled_accounts_def empty_world_uuids del: empty_world_simps(2))
  with t show ?thesis by blast
qed

text \<open>An account is created in both places or in none: when \<open>create_account\<close> fails and the database and
  the connections work, the gateway is asked to delete the account, and the table has no account
  with this id, whether it was there before or not.\<close>

theorem create_account_failure:
  assumes "quiet w" and "w_depth w = 0" and "create_account env cfg u nm c pooled w = (Inl e, t)"
  shows "accounts (w_db t) = filter (\<lambda>a. acc_id a \<noteq> AccountId u) (accounts (w_db w)) \<and>
    w_calls t = w_calls w @ [PaymentsCreateAccount
      \<lparr>ca_id = u, ca_currency = c, ca_name = nm, ca_callback_url = payments_callback_url cfg\<rparr>,
      PaymentsDeleteAccount u]"
proof -
  obtain r v where rv: "create_account_happy env cfg u nm c pooled w = (r, v)" by fastforce
  then obtain x where r: "r = Inl x" using assms(3) by (cases r) (simp_all add: create_account_def)
  then have v: "create_account_happy env cfg u nm c pooled w = (Inl x, v)"
    and rest: "then_res (create_account_revert env (fst x)) (\<lambda>_. err (snd x)) v = (Inl e :: service_error + account, t)"
    using assms(3) rv by (simp_all add: create_account_def case_prod_unfold)
  note happy = happy_failure [OF assms(1,2) v]
  obtain y where y: "create_account_revert env u v = (Inr (), y)"
    "w_calls y = w_calls v @ [PaymentsDeleteAccount u]"
    "accounts (w_db y) = filter (\<lambda>a. acc_id a \<noteq> AccountId u) (accounts (w_db v))"
    using revert_quiet [OF happy(1), of env u] by blast
  then have "t = y" using rest happy(3) by simp
  with y happy show ?thesis by simp
qed

text \<open>The gateway is down; an account with the id of the request is lost.\<close>

definition stored_account :: account where
  "stored_account = \<lparr>acc_id = AccountId 5, acc_currency = TureEth, acc_is_pooled = False,
     acc_created_at = 0, acc_wallet_address = WalletAddress ''0x1''\<rparr>"

definition account_world :: "rat world" where
  "account_world = empty_world\<lparr>w_db := empty_db\<lparr>accounts := [stored_account]\<rparr>\<rparr>"

theorem create_account_failure_witness:
  "accounts (w_db account_world) = [stored_account] \<and>
   accounts (w_db (snd (create_account offline_env one_account 5 ''main'' TureEth False account_world))) = []"
proof -
  have w: "quiet account_world" "w_depth account_world = 0" "w_calls account_world = []"
    "accounts (w_db account_world) = [stored_account]"
    by (simp_all add: account_world_def)
  have "create_account offline_env one_account 5 ''main'' TureEth False account_world \<noteq> (Inr a, t)" for a t
    using create_account_success(1) [of offline_env one_account 5 "''main''" TureEth False account_world a t]
    by (auto simp: create_account_def create_account_happy_def offline_env_def svc_client_def call_client_def
        success)
  then have "\<exists>e t. create_account offline_env one_account 5 ''main'' TureEth False account_world = (Inl e, t)"
    by (metis old.sum.exhaust surj_pair)
  then obtain e t where t: "create_account offline_env one_account 5 ''main'' TureEth False account_world = (Inl e, t)"
    by blast
  from create_account_failure [OF w(1,2) t] w show ?thesis
    by (simp add: t stored_account_def)
qed

end
