(* ===== verification/Customers.thy ===== *)
theory Customers
  imports Prelude Models World Authorization Tables Clients Services Triples
begin

text \<open>
  \<open>repos/customer.rs\<close> and \<open>services/customer.rs\<close>: the customers that are known to Stripe.
\<close>

section \<open>The repository\<close>

datatype search_customer = SearchCustomerId customer_id | SearchCustomerUserId stq_user_id

fun customer_matches :: "search_customer \<Rightarrow> db_customer \<Rightarrow> bool" where
  "customer_matches (SearchCustomerId i) c \<longleftrightarrow> cust_id c = i"
| "customer_matches (SearchCustomerUserId u) c \<longleftrightarrow> cust_user_id c = u"

record new_db_customer =
  ndc_id :: customer_id
  ndc_user_id :: stq_user_id
  ndc_email :: "string option"

record update_db_customer =
  udc_email :: "string option"

definition udc_is_empty :: "update_db_customer \<Rightarrow> bool" where
  "udc_is_empty u \<longleftrightarrow> u = \<lparr>udc_email = None\<rparr>"

definition customers_in_scope :: "('d, stq_user_id) scope_checker" where
  "customers_in_scope uid s obj =
     (case s of
        ScopeAll \<Rightarrow> ok True
      | ScopeOwned \<Rightarrow> ok (case obj of Some u \<Rightarrow> u = uid | None \<Rightarrow> False))"

abbreviation check_customer :: "acl \<Rightarrow> action \<Rightarrow> stq_user_id \<Rightarrow> ('d world, repo_error, unit) comp" where
  "check_customer acl act u \<equiv> check acl ResCustomer act customers_in_scope (Some u)"

abbreviation set_customers :: "db_customer list \<Rightarrow> 'd db \<Rightarrow> 'd db" where
  "set_customers rs d \<equiv> d\<lparr>customers := rs\<rparr>"

definition customers_get :: "acl \<Rightarrow> search_customer \<Rightarrow> ('d world, repo_error, db_customer option) comp" where
  "customers_get acl s =
     and_then (repo (optional (get_result (select_where customers (customer_matches s))))) (\<lambda>found.
     case found of
       None \<Rightarrow> ok None
     | Some c \<Rightarrow> and_then (check_customer acl ActRead (cust_user_id c)) (\<lambda>_. ok (Some c)))"

definition insert_customer ::
  "new_db_customer \<Rightarrow> timestamp \<Rightarrow> 'd db \<Rightarrow> diesel_error + (db_customer \<times> 'd db)" where
  "insert_customer p now d =
     (let c = \<lparr>cust_id = ndc_id p, cust_user_id = ndc_user_id p, cust_email = ndc_email p,
               cust_created_at = now, cust_updated_at = now\<rparr>
      in if \<exists>q\<in>set (customers d). cust_id q = cust_id c then Inl UniqueViolation
         else Inr (c, d\<lparr>customers := customers d @ [c]\<rparr>))"

definition customers_create :: "acl \<Rightarrow> new_db_customer \<Rightarrow> ('d world, repo_error, db_customer) comp" where
  "customers_create acl p =
     and_then (check_customer acl ActWrite (ndc_user_id p)) (\<lambda>_. repo (execute (insert_customer p)))"

text \<open>The trigger on the table is not modelled: nothing reads the time of the update.\<close>

definition customers_update ::
  "acl \<Rightarrow> customer_id \<Rightarrow> update_db_customer \<Rightarrow> ('d world, repo_error, db_customer) comp" where
  "customers_update acl cid p =
     and_then (repo (get_result (select_where customers (\<lambda>c. cust_id c = cid)))) (\<lambda>c.
     and_then (check_customer acl ActWrite (cust_user_id c)) (\<lambda>_.
     repo (get_result (update_where customers set_customers (\<lambda>c. cust_id c = cid)
       (\<lambda>_ c. c\<lparr>cust_email := set_or_opt (udc_email p) (cust_email c)\<rparr>)))))"

definition customers_delete :: "acl \<Rightarrow> customer_id \<Rightarrow> ('d world, repo_error, db_customer option) comp" where
  "customers_delete acl cid =
     and_then (repo (get_result (select_where customers (\<lambda>c. cust_id c = cid)))) (\<lambda>c.
     and_then (check_customer acl ActWrite (cust_user_id c)) (\<lambda>_.
     repo (optional (get_result (delete_where customers set_customers (\<lambda>c. cust_id c = cid))))))"

section \<open>The service\<close>

record new_customer_request =
  ncr_email :: "string option"
  ncr_card_token :: string

record update_customer_request =
  ucr_email :: "string option"
  ucr_card_token :: "string option"

record customer_response =
  crsp_id :: customer_id
  crsp_user_id :: stq_user_id
  crsp_email :: "string option"
  crsp_cards :: "string list"

definition get_customer_cards :: "payment_source list \<Rightarrow> string list" where
  "get_customer_cards sources =
     concat (map (\<lambda>s. case s of CardSource c \<Rightarrow> [c] | BankAccountSource \<Rightarrow> [] | OtherSource \<Rightarrow> []) sources)"

definition customer_response_of :: "db_customer \<Rightarrow> stripe_customer \<Rightarrow> customer_response" where
  "customer_response_of c s =
     \<lparr>crsp_id = cust_id c, crsp_user_id = cust_user_id c, crsp_email = cust_email c,
      crsp_cards = get_customer_cards (scu_sources s)\<rparr>"

definition create_customer_with_source ::
  "'d env \<Rightarrow> stq_user_id option \<Rightarrow> new_customer_request \<Rightarrow> ('d world, service_error, customer_response) comp" where
  "create_customer_with_source env user payload =
     (case user of
        None \<Rightarrow> err SForbidden
      | Some uid \<Rightarrow>
          and_then (pool (and_then (get_acl (Some uid)) (\<lambda>acl.
              svc (customers_get acl (SearchCustomerUserId uid))))) (\<lambda>found.
          if found \<noteq> None then err SInternal
          else
            and_then (ok_or SInternal (card_token_from_str env (ncr_card_token payload))) (\<lambda>token.
            let input = \<lparr>ncs_email = ncr_email payload, ncs_token = token\<rparr> in
            and_then (svc_client (call_client (stripe_create_customer_with_source env)
                (StripeCreateCustomer input) input)) (\<lambda>s.
            pool (and_then (get_acl (Some uid)) (\<lambda>acl.
              map_ok (\<lambda>c. customer_response_of c s)
                (svc (customers_create acl \<lparr>ndc_id = CustomerId (scu_id s), ndc_user_id = uid,
                  ndc_email = scu_email s\<rparr>))))))))"

definition get_customer ::
  "'d env \<Rightarrow> stq_user_id option \<Rightarrow> ('d world, service_error, customer_response option) comp" where
  "get_customer env user =
     (case user of
        None \<Rightarrow> err SForbidden
      | Some uid \<Rightarrow>
          and_then (pool (and_then (get_acl (Some uid)) (\<lambda>acl.
              svc (customers_get acl (SearchCustomerUserId uid))))) (\<lambda>found.
          case found of
            None \<Rightarrow> ok None
          | Some c \<Rightarrow>
              map_ok (\<lambda>s. Some (customer_response_of c s))
                (svc_client (call_client (stripe_get_customer env) (StripeGetCustomer (cust_id c)) (cust_id c)))))"

text \<open>Stripe deletes the customer before the permission is checked.\<close>

definition delete_customer :: "'d env \<Rightarrow> stq_user_id option \<Rightarrow> customer_id \<Rightarrow> ('d world, service_error, unit) comp"
  where
  "delete_customer env user cid =
     and_then (svc_client (call_client (stripe_delete_customer env) (StripeDeleteCustomer cid) cid)) (\<lambda>deleted.
     pool (and_then (get_acl user) (\<lambda>acl.
       if deleted then map_ok (\<lambda>_. ()) (svc (customers_delete acl cid)) else err SInternal)))"

definition stripe_update_of ::
  "'d env \<Rightarrow> update_customer_request \<Rightarrow> service_error + stripe_update_customer" where
  "stripe_update_of env p =
     (case ucr_card_token p of
        None \<Rightarrow> Inr \<lparr>suc_email = ucr_email p, suc_token = None\<rparr>
      | Some s \<Rightarrow>
          (case card_token_from_str env s of
             None \<Rightarrow> Inl SInternal
           | Some token \<Rightarrow> Inr \<lparr>suc_email = ucr_email p, suc_token = Some token\<rparr>))"

definition update_customer ::
  "'d env \<Rightarrow> stq_user_id option \<Rightarrow> update_customer_request \<Rightarrow> ('d world, service_error, customer_response) comp"
  where
  "update_customer env user payload =
     and_then (ok_or SForbidden user) (\<lambda>uid.
     and_then (pool (and_then (get_acl (Some uid)) (\<lambda>acl.
         and_then (svc (customers_get acl (SearchCustomerUserId uid))) (\<lambda>found.
         and_then (ok_or SNotFound found) (\<lambda>c.
         let u = \<lparr>udc_email = ucr_email payload\<rparr> in
         if udc_is_empty u then ok c else svc (customers_update acl (cust_id c) u)))))) (\<lambda>c.
     and_then (of_result (stripe_update_of env payload)) (\<lambda>input.
     map_ok (customer_response_of c)
       (svc_client (call_client (stripe_update_customer env) (StripeUpdateCustomer (cust_id c) input)
         (cust_id c, input))))))"

section \<open>Frames\<close>

context world_relation
begin

lemma keeps_check_customer [keeps_intros]: "keeps R (check acl res act customers_in_scope obj)"
  unfolding customers_in_scope_def
  by (rule keeps_check) (auto intro!: keeps_ok split: scope.split option.split)

end

end
