(* ===== verification/StripeService.thy ===== *)
theory StripeService
  imports Prelude Models World Authorization Tables Clients Constraints InvoicesRepo OrdersRepo FeesRepo
    PaymentIntentsRepo EventStore Services Triples
begin

text \<open>
  \<open>services/stripe.rs\<close>: the web hook of Stripe, which turns its messages into events, and what a
  successful payment does to the invoice or to the fee that it pays.
\<close>

section \<open>The web hook\<close>

text \<open>The signature of the message is checked by the \<open>stripe\<close> crate; \<open>construct_event\<close> is the parameter
  of the model that stands for it.\<close>

datatype stripe_event_type = EtAmountCapturableUpdated | EtSucceeded | EtPaymentFailed | EtOther string

datatype stripe_event_object = EoPaymentIntent stripe_payment_intent | EoOther string

definition add_new_event :: "event_payload \<Rightarrow> ('d world, service_error, unit) comp" where
  "add_new_event payload =
     and_then (new_event payload) (\<lambda>ev. map_ok (\<lambda>_. ()) (svc (add_event ev)))"

definition handle_stripe_event ::
  "(string \<Rightarrow> string \<Rightarrow> string \<Rightarrow> (stripe_event_type \<times> stripe_event_object) option) \<Rightarrow> string \<Rightarrow> string \<Rightarrow> string \<Rightarrow>
   ('d world, service_error, unit) comp" where
  "handle_stripe_event construct_event signing_secret signature_header payload =
     pool (transaction service_error_of_diesel
       (and_then (ok_or SInternal (construct_event payload signature_header signing_secret)) (\<lambda>ev.
        case ev of
          (EtAmountCapturableUpdated, EoPaymentIntent p) \<Rightarrow> add_new_event (PaymentIntentAmountCapturableUpdated p)
        | (EtSucceeded, EoPaymentIntent p) \<Rightarrow> add_new_event (PaymentIntentSucceeded p)
        | (EtPaymentFailed, EoPaymentIntent p) \<Rightarrow> add_new_event (PaymentIntentPaymentFailed p)
        | _ \<Rightarrow> ok ())))"

section \<open>A successful payment\<close>

datatype payment_type =
    PaymentOfInvoice payment_intent raw_invoice "raw_order list"
  | PaymentOfFee

definition update_of_stripe_intent :: "stripe_payment_intent \<Rightarrow> update_payment_intent" where
  "update_of_stripe_intent p =
     default_update_payment_intent
       \<lparr>upi_charge_id := map_option (\<lambda>c. ChargeId (sc_id c)) (find sc_paid (spi_charges p)),
        upi_status := Some (spi_status p),
        upi_amount_received := Some (amount_from_u64 (spi_amount_received p))\<rparr>"

text \<open>The percentage of the total that the platform takes, in units of a hundredth of the total.\<close>

definition fee_amount_of :: "64 word \<Rightarrow> amount \<Rightarrow> amount option" where
  "fee_amount_of order_percent tot =
     (case checked_div tot (amount_from_u64 100) of
        None \<Rightarrow> None
      | Some one_percent \<Rightarrow> checked_mul one_percent (amount_from_u64 order_percent))"

definition create_fee :: "64 word \<Rightarrow> raw_order \<Rightarrow> service_error + new_fee" where
  "create_fee order_percent order =
     (case fee_amount_of order_percent (ord_total_amount order) of
        None \<Rightarrow> Inl SInternal
      | Some a \<Rightarrow> Inr \<lparr>nf_order_id = ord_id order, nf_amount = a, nf_status = NotPaid,
          nf_currency = ord_seller_currency order, nf_charge_id = None, nf_crypto_currency = None,
          nf_crypto_amount = None\<rparr>)"

definition paid_invoice ::
  "64 word \<Rightarrow> payment_intent_invoice \<Rightarrow> ('d world, service_error, raw_invoice \<times> raw_order list) comp" where
  "paid_invoice order_percent pii =
     and_then (svc (invoices_get SystemACL (pii_invoice_id pii))) (\<lambda>found.
     and_then (ok_or SInternal found) (\<lambda>invoice.
     and_then (svc (get_many_by_invoice_id SystemACL (inv_id invoice))) (\<lambda>os.
     and_then (for_each (\<lambda>order. and_then (of_result (create_fee order_percent order)) (\<lambda>f.
         svc (fees_create SystemACL f))) os) (\<lambda>_.
     ok (invoice, os)))))"

definition paid_fee :: "payment_intent_fee \<Rightarrow> ('d world, service_error, unit) comp" where
  "paid_fee pif =
     map_ok (\<lambda>_. ()) (svc (fees_update_row SystemACL (pif_fee_id pif)
       (default_update_fee\<lparr>uf_status := Some FeePaid\<rparr>)))"

definition apply_payment ::
  "64 word \<Rightarrow> payment_intent_id \<Rightarrow> update_payment_intent \<Rightarrow> payment_intent \<Rightarrow> payment_intent_invoice option \<Rightarrow>
   payment_intent_fee option \<Rightarrow> ('d world, service_error, payment_type) comp" where
  "apply_payment order_percent pid update p pii pif =
     and_then (svc (pis_update SystemACL pid update)) (\<lambda>_.
       case (pii, pif) of
         (Some x, None) \<Rightarrow> map_ok (\<lambda>(invoice, os). PaymentOfInvoice p invoice os) (paid_invoice order_percent x)
       | (None, Some y) \<Rightarrow> map_ok (\<lambda>_. PaymentOfFee) (paid_fee y)
       | _ \<Rightarrow> err SInternal)"

definition payment_intent_succeeded ::
  "64 word \<Rightarrow> stripe_payment_intent \<Rightarrow> ('d world, service_error, payment_type) comp" where
  "payment_intent_succeeded order_percent intent =
     (let pid = PaymentIntentId (spi_id intent); update = update_of_stripe_intent intent in
      and_then (svc (pis_get SystemACL pid)) (\<lambda>found.
      and_then (ok_or SInternal found) (\<lambda>p.
      and_then (svc (piis_get SystemACL (PiiPaymentIntentId pid))) (\<lambda>pii.
      and_then (svc (pifs_get SystemACL (PifPaymentIntentId pid))) (\<lambda>pif.
      transaction service_error_of_diesel
        (apply_payment order_percent pid update p pii pif))))))"

section \<open>The percentage\<close>

lemma amount_from_u64_nat: "amount_nat (amount_from_u64 v) = unat v"
proof -
  have "unat v < 2 ^ 128" by (rule less_trans [OF unsigned_less]) simp
  then show ?thesis by (simp add: amount_from_u64_def unsigned_ucast_eq take_bit_nat_eq_self)
qed

lemma one_percent: "checked_div a (amount_from_u64 100) = Some (Amount (inner a div 100))"
  by (simp add: checked_div_def u128_checked_div_def amount_from_u64_def)

lemma unat_div_100: "unat ((v :: u128) div 100) = unat v div 100"
  by (simp add: unat_div)

text \<open>The fee of an order is \<open>order_percent\<close> hundredths of the total, rounded down to whole
  hundredths: it is never more than the exact share, and less by at most 99 units per percent. The
  only error is an overflow of the amount.\<close>

theorem create_fee_share:
  "case create_fee order_percent order of
     Inl e \<Rightarrow> e = SInternal \<and> 2 ^ 128 \<le> amount_nat (ord_total_amount order) div 100 * unat order_percent
   | Inr f \<Rightarrow> nf_order_id f = ord_id order \<and> nf_currency f = ord_seller_currency order \<and> nf_status f = NotPaid \<and>
       amount_nat (nf_amount f) = amount_nat (ord_total_amount order) div 100 * unat order_percent \<and>
       100 * amount_nat (nf_amount f) \<le> amount_nat (ord_total_amount order) * unat order_percent \<and>
       amount_nat (ord_total_amount order) * unat order_percent
         \<le> 100 * amount_nat (nf_amount f) + 99 * unat order_percent"
proof -
  let ?t = "amount_nat (ord_total_amount order)" and ?p = "unat order_percent"
  have share: "100 * (?t div 100 * ?p) \<le> ?t * ?p \<and> ?t * ?p \<le> 100 * (?t div 100 * ?p) + 99 * ?p"
  proof -
    have "?t * ?p = (100 * (?t div 100) + ?t mod 100) * ?p" by simp
    also have "\<dots> = 100 * (?t div 100 * ?p) + (?t mod 100) * ?p" by (simp only: distrib_right mult.assoc)
    finally have "?t * ?p = 100 * (?t div 100 * ?p) + (?t mod 100) * ?p" .
    moreover have "(?t mod 100) * ?p \<le> 99 * ?p" by (intro mult_right_mono) auto
    ultimately show ?thesis by linarith
  qed
  show ?thesis
  proof (cases "checked_mul (Amount (inner (ord_total_amount order) div 100)) (amount_from_u64 order_percent)")
    case None
    then have "2 ^ 128 \<le> ?t div 100 * ?p"
      by (simp add: checked_mul_None amount_from_u64_nat unat_div_100)
    with None show ?thesis
      by (simp add: create_fee_def fee_amount_of_def one_percent)
  next
    case (Some a)
    then have "amount_nat a = ?t div 100 * ?p"
      by (simp add: checked_mul_nat amount_from_u64_nat unat_div_100)
    with Some share show ?thesis
      by (simp add: create_fee_def fee_amount_of_def one_percent)
  qed
qed

section \<open>What a successful payment records\<close>

text \<open>The fee of an order, as it is inserted.\<close>

definition is_fee_of :: "64 word \<Rightarrow> raw_order \<Rightarrow> fee \<Rightarrow> bool" where
  "is_fee_of order_percent order f \<longleftrightarrow>
     fee_order_id f = ord_id order \<and> fee_status f = NotPaid \<and> fee_currency f = ord_seller_currency order \<and>
     fee_amount_of order_percent (ord_total_amount order) = Some (fee_amount f)"

lemma fees_create_system:
  assumes "fees_create SystemACL nf w = (Inr f, t)"
  shows "w_db t = (w_db w)\<lparr>fees := fees (w_db w) @ [f]\<rparr> \<and> \<not> w_aborted t \<and>
    fee_order_id f = nf_order_id nf \<and> fee_status f = nf_status nf \<and> fee_currency f = nf_currency nf \<and>
    fee_amount f = nf_amount nf \<and> fee_order_id f \<notin> fee_order_id ` set (fees (w_db w))"
proof -
  from assms have run: "execute_serial SeqFees (insert_fee nf) w = (Inr f, t)"
    by (simp add: fees_create_def success repo_def)
  from execute_serial_success [OF run] execute_serial_success_alive [OF run] show ?thesis
    by (auto simp: insert_fee_def Let_def split: if_splits)
qed

abbreviation create_fee_of_order :: "64 word \<Rightarrow> raw_order \<Rightarrow> ('d world, service_error, fee) comp" where
  "create_fee_of_order order_percent order \<equiv>
     and_then (of_result (create_fee order_percent order)) (\<lambda>f. svc (fees_create SystemACL f))"

lemma create_fee_of_order_success:
  assumes "create_fee_of_order order_percent order w = (Inr f, t)"
  shows "w_db t = (w_db w)\<lparr>fees := fees (w_db w) @ [f]\<rparr> \<and> \<not> w_aborted t \<and> is_fee_of order_percent order f \<and>
    fee_order_id f \<notin> fee_order_id ` set (fees (w_db w))"
proof -
  from assms obtain nf where "create_fee order_percent order = Inr nf" and "fees_create SystemACL nf w = (Inr f, t)"
    by (cases "create_fee order_percent order") (auto simp: success)
  with fees_create_system [of nf w f t] show ?thesis
    by (auto simp: is_fee_of_def create_fee_def split: option.splits)
qed

lemma create_fees_success:
  assumes "try_map (create_fee_of_order order_percent) os w = (Inr fs, t)" and "\<not> w_aborted w"
  shows "w_db t = (w_db w)\<lparr>fees := fees (w_db w) @ fs\<rparr> \<and> \<not> w_aborted t \<and>
    list_all2 (is_fee_of order_percent) os fs \<and> fee_order_id ` set fs \<inter> fee_order_id ` set (fees (w_db w)) = {}"
  using assms
proof (induction os arbitrary: w fs)
  case Nil
  then show ?case by simp
next
  case (Cons q os)
  from Cons.prems(1) obtain f u gs where first: "create_fee_of_order order_percent q w = (Inr f, u)"
    and rest: "try_map (create_fee_of_order order_percent) os u = (Inr gs, t)" and fs: "fs = f # gs"
    by (auto simp: success)
  from create_fee_of_order_success [OF first] Cons.IH [OF rest] fs show ?case by simp
qed

lemma create_fees_alive: "alive (create_fee_of_order order_percent q)"
  unfolding fees_create_def by (simp add: alive_intros)

lemma paid_invoice_success:
  assumes run: "paid_invoice order_percent x w = (Inr (invoice, os), t)" and alive: "\<not> w_aborted w"
  shows "row_by (\<lambda>i. inv_id i = pii_invoice_id x) (invoices_v2 (w_db w)) = Some invoice \<and>
    os = filter (\<lambda>q. ord_invoice_id q = inv_id invoice) (orders (w_db w)) \<and>
    (\<exists>new. fees (w_db t) = fees (w_db w) @ new \<and> list_all2 (is_fee_of order_percent) os new \<and>
      fee_order_id ` set new \<inter> fee_order_id ` set (fees (w_db w)) = {})"
proof -
  from run obtain found u v fs where get: "invoices_get SystemACL (pii_invoice_id x) w = (Inr (Some invoice), u)"
    and many: "get_many_by_invoice_id SystemACL (inv_id invoice) u = (Inr os, v)"
    and loop: "try_map (create_fee_of_order order_percent) os v = (Inr fs, t)"
    by (auto simp: paid_invoice_def success for_each_def)
  have get': "repo (optional (get_result (select_where invoices_v2 (\<lambda>i. inv_id i = pii_invoice_id x)))) w =
      (Inr (Some invoice), u)"
    using get by (auto simp: invoices_get_def success split: option.splits)
  have many': "repo (select_where orders (\<lambda>q. ord_invoice_id q = inv_id invoice)) u = (Inr os, v)"
    using many by (simp add: get_many_by_invoice_id_def)
  have "\<not> w_aborted u"
    by (rule aliveD [OF alive_repo [OF alive_optional(2)] get' alive])
  then have "\<not> w_aborted v"
    by (rule aliveD [OF alive_repo [OF alive_basic(8)] many'])
  from create_fees_success [OF loop this] first_row_success [OF get'] select_where_success [OF many']
  show ?thesis by auto
qed

lemma pis_update_system:
  assumes "pis_update SystemACL pid u w = (Inr p, t)"
  shows "w_db t = (w_db w)\<lparr>payment_intents := map (\<lambda>q. if pi_id q = pid then update_payment_intent_changes u q else q)
      (payment_intents (w_db w))\<rparr>"
    and "\<not> w_aborted t"
proof -
  from assms obtain rs where "update_where payment_intents set_payment_intents (\<lambda>q. pi_id q = pid)
      (\<lambda>_. update_payment_intent_changes u) w = (Inr (p # rs), t)"
    by (auto simp: pis_update_def success repo_def)
  from update_where_success [OF this] show "w_db t = (w_db w)\<lparr>payment_intents :=
      map (\<lambda>q. if pi_id q = pid then update_payment_intent_changes u q else q) (payment_intents (w_db w))\<rparr>"
    and "\<not> w_aborted t" by simp_all
qed

lemma paid_fee_success:
  assumes run: "paid_fee y w = (Inr r, t)"
  shows "w_db t = (w_db w)\<lparr>fees := map (\<lambda>f. if fee_id f = pif_fee_id y then f\<lparr>fee_status := FeePaid\<rparr> else f)
      (fees (w_db w))\<rparr>"
proof -
  let ?u = "default_update_fee\<lparr>uf_status := Some FeePaid\<rparr>"
  from run obtain f u g rs where
    get: "repo (get_result (select_where fees (\<lambda>f. fee_id f = pif_fee_id y))) w = (Inr f, u)"
    and upd: "update_where fees set_fees (\<lambda>f. fee_id f = pif_fee_id y) (\<lambda>_. update_fee_changes ?u) u = (Inr (g # rs), t)"
    by (auto simp: paid_fee_def fees_update_row_def success repo_def)
  have "update_fee_changes ?u = (\<lambda>f. f\<lparr>fee_status := FeePaid\<rparr>)"
    by (simp add: update_fee_changes_def default_update_fee_def set_or_def set_or_opt_def fun_eq_iff)
  with update_where_success [OF upd] select_row_success [OF get] show ?thesis by simp
qed

definition mark_fee_paid :: "fee_id \<Rightarrow> fee list \<Rightarrow> fee list" where
  "mark_fee_paid fid = map (\<lambda>f. if fee_id f = fid then f\<lparr>fee_status := FeePaid\<rparr> else f)"

definition payment_recorded ::
  "64 word \<Rightarrow> payment_intent_id \<Rightarrow> 'd db \<Rightarrow> service_error + payment_type \<Rightarrow> 'd db \<Rightarrow> bool" where
  "payment_recorded order_percent pid d r e \<longleftrightarrow>
     (case r of
        Inl _ \<Rightarrow> e = d
      | Inr (PaymentOfInvoice p invoice os) \<Rightarrow>
          (\<exists>x. row_by (\<lambda>x. pii_payment_intent_id x = pid) (payment_intents_invoices d) = Some x \<and>
            row_by (\<lambda>i. inv_id i = pii_invoice_id x) (invoices_v2 d) = Some invoice) \<and>
          os = filter (\<lambda>q. ord_invoice_id q = inv_id invoice) (orders d) \<and>
          (\<exists>new. fees e = fees d @ new \<and> list_all2 (is_fee_of order_percent) os new \<and>
             fee_order_id ` set new \<inter> fee_order_id ` set (fees d) = {})
      | Inr PaymentOfFee \<Rightarrow>
          (\<exists>y. row_by (\<lambda>y. pif_payment_intent_id y = pid) (payment_intents_fees d) = Some y \<and>
            fees e = mark_fee_paid (pif_fee_id y) (fees d)))"

lemma payment_body:
  assumes run: "apply_payment order_percent pid upd p pii pif w = (Inr a, t)"
    and pii: "row_by (\<lambda>x. pii_payment_intent_id x = pid) (payment_intents_invoices (w_db w)) = pii"
    and pif: "row_by (\<lambda>y. pif_payment_intent_id y = pid) (payment_intents_fees (w_db w)) = pif"
  shows "payment_recorded order_percent pid (w_db w) (Inr a) (w_db t)"
proof -
  from run obtain q u where upd: "pis_update SystemACL pid upd w = (Inr q, u)"
    and rest: "(case (pii, pif) of
           (Some x, None) \<Rightarrow> map_ok (\<lambda>(invoice, os). PaymentOfInvoice p invoice os) (paid_invoice order_percent x)
         | (None, Some y) \<Rightarrow> map_ok (\<lambda>_. PaymentOfFee) (paid_fee y)
         | _ \<Rightarrow> err SInternal) u = (Inr a, t)"
    unfolding apply_payment_def by (auto simp: success)
  note u = pis_update_system [OF upd]
  from rest consider (inv) x invoice os where "pii = Some x" "a = PaymentOfInvoice p invoice os"
      "paid_invoice order_percent x u = (Inr (invoice, os), t)"
    | (fee) y where "pif = Some y" "a = PaymentOfFee" "paid_fee y u = (Inr (), t)"
    by (auto simp: success split: option.splits)
  then show ?thesis
  proof cases
    case inv
    from paid_invoice_success [OF inv(3) u(2)] u(1) inv(1,2) pii show ?thesis
      by (auto simp: payment_recorded_def)
  next
    case fee
    from paid_fee_success [OF fee(3)] u(1) fee(1,2) pif show ?thesis
      by (auto simp: payment_recorded_def mark_fee_paid_def)
  qed
qed

lemma payment_body_alive: "alive (apply_payment order_percent pid upd p pii pif)"
proof -
  have "alive (svc (pis_update SystemACL pid upd))" by (simp add: pis_update_def alive_intros)
  moreover have "alive (paid_invoice order_percent x)" for x
    by (simp add: paid_invoice_def invoices_get_def get_many_by_invoice_id_def fees_create_def alive_intros)
  moreover have "alive (paid_fee y)" for y
    by (simp add: paid_fee_def fees_update_row_def alive_intros)
  ultimately show ?thesis
    unfolding apply_payment_def by (auto intro!: alive_and_then alive_map_ok alive_basic split: option.split)
qed

lemma payment_transaction:
  assumes run: "transaction service_error_of_diesel (apply_payment order_percent pid upd p pii pif) w = (r, t)"
    and pii: "row_by (\<lambda>x. pii_payment_intent_id x = pid) (payment_intents_invoices (w_db w)) = pii"
    and pif: "row_by (\<lambda>y. pif_payment_intent_id y = pid) (payment_intents_fees (w_db w)) = pif"
  shows "payment_recorded order_percent pid (w_db w) r (w_db t)"
proof (cases r)
  case (Inl e)
  with run have "w_db t = w_db w" by (auto dest: transaction_error_db)
  with Inl show ?thesis by (simp add: payment_recorded_def)
next
  case (Inr a)
  from alive_transaction [OF run [unfolded Inr] payment_body_alive]
  obtain u where body: "apply_payment order_percent pid upd p pii pif (inner_world w) = (Inr a, u)"
    and t: "w_db t = w_db u" .
  from payment_body [OF body] pii pif Inr t show ?thesis by simp
qed

lemma piis_get_system:
  assumes "piis_get SystemACL (PiiPaymentIntentId pid) w = (Inr x, t)"
  shows "row_by (\<lambda>y. pii_payment_intent_id y = pid) (payment_intents_invoices (w_db w)) = x \<and> w_db t = w_db w"
proof -
  have matches: "pii_matches (PiiPaymentIntentId pid) = (\<lambda>y. pii_payment_intent_id y = pid)" by (simp add: fun_eq_iff)
  from assms have "repo (optional (get_result (select_where payment_intents_invoices (pii_matches (PiiPaymentIntentId pid))))) w = (Inr x, t)"
    unfolding piis_get_def and_then_success by (auto simp del: pii_matches.simps split: option.splits)
  from first_row_success [OF this] show ?thesis by (simp only: matches)
qed

lemma pifs_get_system:
  assumes "pifs_get SystemACL (PifPaymentIntentId pid) w = (Inr x, t)"
  shows "row_by (\<lambda>y. pif_payment_intent_id y = pid) (payment_intents_fees (w_db w)) = x \<and> w_db t = w_db w"
proof -
  have matches: "pif_matches (PifPaymentIntentId pid) = (\<lambda>y. pif_payment_intent_id y = pid)" by (simp add: fun_eq_iff)
  from assms have "repo (optional (get_result (select_where payment_intents_fees (pif_matches (PifPaymentIntentId pid))))) w = (Inr x, t)"
    unfolding pifs_get_def and_then_success by (auto simp del: pif_matches.simps split: option.splits)
  from first_row_success [OF this] show ?thesis by (simp only: matches)
qed

context world_relation
begin

lemma keeps_payment_intent_queries [keeps_intros]:
  "keeps R (pis_get acl pid)" "keeps R (piis_get acl s1)" "keeps R (pifs_get acl s2)"
  unfolding pis_get_def piis_get_def pifs_get_def by (intro keeps_intros)+

end

lemma payment_intent_succeeded_records:
  "ends (payment_intent_succeeded order_percent intent) w
     (\<lambda>r t. payment_recorded order_percent (PaymentIntentId (spi_id intent)) (w_db w) r (w_db t))"
proof -
  let ?pid = "PaymentIntentId (spi_id intent)"
  let ?Q = "\<lambda>r t. payment_recorded order_percent ?pid (w_db w) r (w_db t)"
  have failed: "?Q (Inl e) t" if "w_db t = w_db w" for e and t :: "'a world"
    using that by (simp add: payment_recorded_def)
  show ?thesis
    unfolding payment_intent_succeeded_def Let_def
  proof (rule ends_read_then, intro keeps_intros, erule failed, rule ends_read_then, intro keeps_intros,
      rule failed, simp)
    fix found and w1 w2 :: "'a world" and p :: payment_intent
    assume w1: "w_db w1 = w_db w" and w2: "w_db w2 = w_db w1"
    show "ends (and_then (svc (piis_get SystemACL (PiiPaymentIntentId ?pid))) (\<lambda>pii.
        and_then (svc (pifs_get SystemACL (PifPaymentIntentId ?pid))) (\<lambda>pif.
        transaction service_error_of_diesel
          (apply_payment order_percent ?pid (update_of_stripe_intent intent) p pii pif)))) w2 ?Q"
    proof (rule ends_read_then, intro keeps_intros, rule failed, simp add: w1 w2, rule ends_read_then,
        intro keeps_intros, rule failed, simp add: w1 w2, rule endsI)
      fix pii pif r and w3 w4 t :: "'a world"
      assume pii: "svc (piis_get SystemACL (PiiPaymentIntentId ?pid)) w2 = (Inr pii, w3)"
        and pif: "svc (pifs_get SystemACL (PifPaymentIntentId ?pid)) w3 = (Inr pif, w4)"
        and run: "transaction service_error_of_diesel
          (apply_payment order_percent ?pid (update_of_stripe_intent intent) p pii pif) w4 = (r, t)"
      note q = piis_get_system [OF pii [unfolded svc_success]] pifs_get_system [OF pif [unfolded svc_success]]
      from payment_transaction [OF run] q w1 w2 show "?Q r t" by simp
    qed
  qed
qed

text \<open>C12: A payment that succeeds is recorded completely or not at all, whatever statement fails: after
  an error the tables are as before; the payment of an invoice adds exactly one unpaid fee for each
  of the invoice's orders, of the configured share of its total, and none of them had a fee before; the payment of a fee marks exactly
  this fee as paid.\<close>

theorem successful_payment_is_recorded_once:
  "ends (payment_intent_succeeded order_percent intent) w
     (\<lambda>r t. payment_recorded order_percent (PaymentIntentId (spi_id intent)) (w_db w) r (w_db t))"
  by (rule payment_intent_succeeded_records)

section \<open>What the web hook queues\<close>

definition queued_payload :: "stripe_event_type \<times> stripe_event_object \<Rightarrow> event_payload option" where
  "queued_payload ev =
     (case ev of
        (EtAmountCapturableUpdated, EoPaymentIntent p) \<Rightarrow> Some (PaymentIntentAmountCapturableUpdated p)
      | (EtSucceeded, EoPaymentIntent p) \<Rightarrow> Some (PaymentIntentSucceeded p)
      | (EtPaymentFailed, EoPaymentIntent p) \<Rightarrow> Some (PaymentIntentPaymentFailed p)
      | _ \<Rightarrow> None)"

definition queue_payload :: "event_payload option \<Rightarrow> ('d world, service_error, unit) comp" where
  "queue_payload payload = (case payload of None \<Rightarrow> ok () | Some p \<Rightarrow> add_new_event p)"

lemma handle_stripe_event_queues:
  "handle_stripe_event construct_event signing_secret signature_header payload =
     pool (transaction service_error_of_diesel
       (and_then (ok_or SInternal (construct_event payload signature_header signing_secret)) (\<lambda>ev.
        queue_payload (queued_payload ev))))"
proof -
  have "(\<lambda>ev. case ev of
          (EtAmountCapturableUpdated, EoPaymentIntent p) \<Rightarrow> add_new_event (PaymentIntentAmountCapturableUpdated p)
        | (EtSucceeded, EoPaymentIntent p) \<Rightarrow> add_new_event (PaymentIntentSucceeded p)
        | (EtPaymentFailed, EoPaymentIntent p) \<Rightarrow> add_new_event (PaymentIntentPaymentFailed p)
        | _ \<Rightarrow> ok ()) = (\<lambda>ev. queue_payload (queued_payload ev) :: ('a world, service_error, unit) comp)"
    by (rule ext) (auto simp: queue_payload_def queued_payload_def
        split: prod.split stripe_event_type.split stripe_event_object.split)
  then show ?thesis by (simp only: handle_stripe_event_def)
qed

lemma add_new_event_success:
  assumes "add_new_event payload w = (Inr x, t)"
  shows "\<exists>row. w_db t = (w_db w)\<lparr>event_store := event_store (w_db w) @ [row]\<rparr> \<and> queued payload row"
proof -
  from assms obtain e where "queue_event payload w = (Inr e, t)"
    by (auto simp: add_new_event_def queue_event_def success)
  from queue_event_success [OF this] show ?thesis by blast
qed

text \<open>A message to the web hook of Stripe is queued as exactly one pending event with its payment
  intent, when its signature is right and it is about a payment intent that succeeded, failed or can
  be captured; every other message and every error leaves the tables as they were.\<close>

theorem webhook_queues_one_event:
  "ends (handle_stripe_event construct_event signing_secret signature_header payload) w (\<lambda>r t.
     case Option.bind (construct_event payload signature_header signing_secret) queued_payload of
       None \<Rightarrow> w_db t = w_db w
     | Some p \<Rightarrow>
         (case r of
            Inl _ \<Rightarrow> w_db t = w_db w
          | Inr _ \<Rightarrow> (\<exists>row. w_db t = (w_db w)\<lparr>event_store := event_store (w_db w) @ [row]\<rparr> \<and> queued p row)))"
proof -
  let ?ev = "construct_event payload signature_header signing_secret"
  let ?m = "and_then (ok_or SInternal ?ev) (\<lambda>ev. queue_payload (queued_payload ev))"
  have alive: "alive ?m"
    unfolding queue_payload_def add_new_event_def new_event_def add_event_def entry_result_def
    by (intro alive_intros alive_case_sum alive_new_v4)
  show ?thesis
    unfolding handle_stripe_event_queues
  proof (rule ends_spawn, goal_cases)
    case 1
    then show ?case by (simp split: option.split)
  next
    case 2
    show ?case
    proof (rule endsI)
      fix r t
      assume run: "transaction service_error_of_diesel ?m (next_fault w) = (r, t)"
      show "case Option.bind ?ev queued_payload of
          None \<Rightarrow> w_db t = w_db w
        | Some p \<Rightarrow> (case r of Inl _ \<Rightarrow> w_db t = w_db w
            | Inr _ \<Rightarrow> (\<exists>row. w_db t = (w_db w)\<lparr>event_store := event_store (w_db w) @ [row]\<rparr> \<and> queued p row))"
      proof (cases r)
        case (Inl e)
        with run have "w_db t = w_db w" by (auto dest: transaction_error_db)
        with Inl show ?thesis by (simp split: option.split)
      next
        case (Inr a)
        from alive_transaction [OF run [unfolded Inr] alive] obtain u where
          body: "?m (inner_world (next_fault w)) = (Inr a, u)" and t: "w_db t = w_db u" .
        from body obtain ev where ev: "?ev = Some ev"
          and queue: "queue_payload (queued_payload ev) (inner_world (next_fault w)) = (Inr a, u)"
          by (auto simp: success)
        from queue t Inr ev show ?thesis
          by (cases "queued_payload ev")
             (auto simp: queue_payload_def dest!: add_new_event_success)
      qed
    qed
  qed
qed

end
