(* ===== verification/PaymentIntentService.thy ===== *)
theory PaymentIntentService
  imports Prelude Models World Authorization Tables Clients FeesRepo PaymentIntentsRepo Services Triples
begin

text \<open>
  \<open>services/payment_intent.rs\<close>: the payment intent of an invoice, a payment intent for a fee, and the
  cancellation of the payment intent of an invoice that has expired.
\<close>

definition get_by_invoice ::
  "'d bigdecimal \<Rightarrow> stq_user_id option \<Rightarrow> invoice_id \<Rightarrow> ('d world, service_error, payment_intent_response option) comp"
  where
  "get_by_invoice D user iid =
     pool (and_then (get_acl user) (\<lambda>pi_acl.
       and_then (get_acl user) (\<lambda>pii_acl.
       and_then (svc (piis_get pii_acl (PiiInvoiceId iid))) (\<lambda>found.
       case found of
         None \<Rightarrow> ok None
       | Some pii \<Rightarrow>
           and_then (svc (pis_get pi_acl (pii_payment_intent_id pii))) (\<lambda>p.
           case p of
             None \<Rightarrow> ok None
           | Some p \<Rightarrow> map_ok Some (of_result (try_from_payment_intent D p)))))))"

definition validate_payment_intent_create_fee :: "fee \<Rightarrow> service_error + unit" where
  "validate_payment_intent_create_fee f =
     (case fee_status f of
        FeePaid \<Rightarrow> Inl (invalid ''fee_id'' ''Can not create payment intent'')
      | FeeFail \<Rightarrow> Inl (invalid ''fee_id'' ''Can not create payment intent'')
      | NotPaid \<Rightarrow> Inr ())"

text \<open>The conversion of the amount to \<open>u64\<close> cuts it off.\<close>

definition payment_intent_create_params :: "'d env \<Rightarrow> fee \<Rightarrow> service_error + stripe_new_payment_intent" where
  "payment_intent_create_params env f =
     (case try_into_stripe_currency (stripe_currency_from_str env) (fee_currency f) of
        Inl _ \<Rightarrow> Inl SInternal
      | Inr c \<Rightarrow> Inr \<lparr>snpi_amount = amount_into_u64 (fee_amount f), snpi_currency = c,
          snpi_capture_method = Some CaptureManual\<rparr>)"

definition new_payment_intent_of ::
  "fee_id \<Rightarrow> stripe_payment_intent \<Rightarrow> service_error + (new_payment_intent \<times> new_payment_intent_fee)" where
  "new_payment_intent_of fid s =
     (case try_from_stripe_currency id (spi_currency s) of
        Inl _ \<Rightarrow> Inl SInternal
      | Inr c \<Rightarrow> Inr
          (\<lparr>npi_id = PaymentIntentId (spi_id s), npi_amount = amount_from_u64 (spi_amount s),
            npi_amount_received = amount_from_u64 (spi_amount_received s),
            npi_client_secret = spi_client_secret s, npi_currency = c,
            npi_last_payment_error_message = spi_last_payment_error s,
            npi_receipt_email = spi_receipt_email s,
            npi_charge_id = (case spi_charges s of [] \<Rightarrow> None | x # _ \<Rightarrow> Some (ChargeId (sc_id x))),
            npi_status = spi_status s\<rparr>,
           \<lparr>npif_fee_id = fid, npif_payment_intent_id = PaymentIntentId (spi_id s)\<rparr>))"

definition create_fee_payment_intent ::
  "'d env \<Rightarrow> fee \<Rightarrow> ('d world, service_error, new_payment_intent \<times> new_payment_intent_fee) comp" where
  "create_fee_payment_intent env f =
     and_then (of_result (payment_intent_create_params env f)) (\<lambda>input.
     and_then (svc_client (call_client (stripe_create_payment_intent env)
         (StripeCreatePaymentIntent input) input)) (\<lambda>s.
     of_result (new_payment_intent_of (fee_id f) s)))"

text \<open>The link is inserted before the payment intent that it refers to.\<close>

definition store_fee_payment_intent ::
  "stq_user_id option \<Rightarrow> new_payment_intent \<times> new_payment_intent_fee \<Rightarrow> ('d world, service_error, payment_intent) comp"
  where
  "store_fee_payment_intent user = (\<lambda>(p, link).
     pool (and_then (get_acl user) (\<lambda>pif_acl.
       and_then (get_acl user) (\<lambda>pi_acl.
       transaction service_error_of_diesel
         (and_then (svc (pifs_create pif_acl link)) (\<lambda>_. svc (pis_create pi_acl p)))))))"

definition create_by_fee ::
  "'d bigdecimal \<Rightarrow> 'd env \<Rightarrow> stq_user_id option \<Rightarrow> fee_id \<Rightarrow> ('d world, service_error, payment_intent_response) comp"
  where
  "create_by_fee D env user fid =
     and_then (pool (and_then (get_acl user) (\<lambda>acl.
         and_then (svc (fees_get acl (SearchFeeId fid))) (\<lambda>found.
         and_then (ok_or SNotFound found) (\<lambda>f.
         and_then (of_result (validate_payment_intent_create_fee f)) (\<lambda>_. ok f)))))) (\<lambda>f.
     and_then (create_fee_payment_intent env f) (\<lambda>new.
     and_then (store_fee_payment_intent user new) (\<lambda>p.
     of_result (try_from_payment_intent D p))))"

definition cancel_payment_intent :: "'d env \<Rightarrow> invoice_id \<Rightarrow> ('d world, service_error, unit) comp" where
  "cancel_payment_intent env iid =
     and_then (pool (and_then (svc (piis_get SystemACL (PiiInvoiceId iid))) (\<lambda>found.
         map_ok pii_payment_intent_id (ok_or SInternal found)))) (\<lambda>pid.
     and_then (svc_client (call_client (stripe_get_payment_intent env) (StripeGetPaymentIntent pid) pid)) (\<lambda>s.
     and_then
       (if is_cancellable (spi_status s)
        then map_ok (\<lambda>c. Some (PaymentIntentId (spi_id c), spi_status c))
               (svc_client (call_client (stripe_cancel_payment_intent env) (StripeCancelPaymentIntent pid) pid))
        else if spi_status s = PiCanceled then ok (Some (PaymentIntentId (spi_id s), spi_status s))
        else ok None) (\<lambda>p.
     case p of
       None \<Rightarrow> ok ()
     | Some (pid', st) \<Rightarrow>
         pool (map_ok (\<lambda>_. ()) (svc (pis_update SystemACL pid'
           (default_update_payment_intent\<lparr>upi_status := Some st\<rparr>)))))))"

section \<open>No fee is ever paid by a payment intent\<close>

lemma link_success:
  assumes "pifs_create acl link w = (Inr x, t)"
  shows "npif_payment_intent_id link \<in> pi_id ` set (payment_intents (w_db w)) \<and>
    payment_intents (w_db t) = payment_intents (w_db w)"
proof -
  from assms obtain u where check: "check acl ResPaymentIntentFee ActWrite pifs_in_scope (Some (npif_fee_id link)) w = (Inr (), u)"
    and ins: "execute_serial SeqPaymentIntentsFees (insert_payment_intent_fee link) u = (Inr x, t)"
    by (auto simp: pifs_create_def success repo_def)
  from check have "w_db u = w_db w" by (rule same_dbD [OF reading.keeps_check_pif])
  with execute_serial_success [OF ins] show ?thesis
    by (auto simp: insert_payment_intent_fee_def Let_def split: if_splits dest!: sym [where t = "w_db t"])
qed

lemma payment_intent_success:
  assumes "pis_create acl p w = (Inr x, t)"
  shows "npi_id p \<notin> pi_id ` set (payment_intents (w_db w))"
proof -
  from assms obtain u where check: "check acl ResPaymentIntent ActWrite payment_intents_in_scope None w = (Inr (), u)"
    and ins: "execute (insert_payment_intent p) u = (Inr x, t)"
    by (auto simp: pis_create_def success repo_def)
  from check have "w_db u = w_db w" by (rule same_dbD [OF reading.keeps_check_payment_intent])
  with execute_success [OF ins] show ?thesis
    by (auto simp: insert_payment_intent_def Let_def split: if_splits)
qed

text \<open>The link needs the payment intent, the payment intent must not exist.\<close>

lemma link_before_payment_intent:
  assumes "npif_payment_intent_id link = npi_id p"
  shows "and_then (svc (pifs_create acl link)) (\<lambda>_. svc (pis_create acl' p)) w \<noteq> (Inr x, t)"
proof
  assume "and_then (svc (pifs_create acl link)) (\<lambda>_. svc (pis_create acl' p)) w = (Inr x, t)"
  then obtain y u where "pifs_create acl link w = (Inr y, u)" "pis_create acl' p u = (Inr x, t)"
    by (auto simp: success)
  with link_success [of acl link w y u] payment_intent_success [of acl' p u x t] assms
  show False by simp
qed

lemma new_payment_intent_linked:
  "new_payment_intent_of fid s = Inr (p, link) \<Longrightarrow> npif_payment_intent_id link = npi_id p"
  by (auto simp: new_payment_intent_of_def split: sum.splits)

lemma store_never_succeeds:
  assumes "npif_payment_intent_id link = npi_id p"
  shows "ends (store_fee_payment_intent user (p, link)) w (\<lambda>r t. isl r \<and> w_db t = w_db w)"
  unfolding store_fee_payment_intent_def prod.case
proof (rule ends_spawn, simp, rule ends_read_then, intro keeps_intros, simp, rule ends_read_then,
    intro keeps_intros, simp, rule endsI)
  fix acl acl' r and w1 w2 t :: "'a world"
  assume w1: "w_db w1 = w_db (next_fault w)" and w2: "w_db w2 = w_db w1"
    and run: "transaction service_error_of_diesel
      (and_then (svc (pifs_create acl link)) (\<lambda>_. svc (pis_create acl' p))) w2 = (r, t)"
  show "isl r \<and> w_db t = w_db w"
  proof (cases r)
    case (Inl e)
    with run w1 w2 show ?thesis by (auto dest: transaction_error_db)
  next
    case (Inr x)
    from transaction_inner [OF run [unfolded Inr]] link_before_payment_intent [OF assms]
    show ?thesis by metis
  qed
qed

lemma keeps_fees_get [keeps_intros]: "reads (fees_get acl s)"
  unfolding fees_get_def by (intro keeps_intros)

text \<open>\<open>create_by_fee\<close> never returns a payment intent and never changes the tables: the row that
  links the fee to the payment intent is inserted before the payment intent that it refers to, so
  either the foreign key of the first insertion or the primary key of the second one is violated.\<close>

theorem create_by_fee_never_succeeds:
  "ends (create_by_fee D env user fid) w (\<lambda>r t. isl r \<and> w_db t = w_db w)"
  unfolding create_by_fee_def
proof (rule ends_read_then, intro keeps_intros, simp, rule ends_read_then)
  show "reads (create_fee_payment_intent env f)" for f
    unfolding create_fee_payment_intent_def by (intro keeps_intros)
next
  fix f new and w1 w2 :: "'a world"
  assume w1: "w_db w1 = w_db w" and w2: "w_db w2 = w_db w1"
    and created: "create_fee_payment_intent env f w1 = (Inr new, w2)"
  from created obtain s where "new_payment_intent_of (fee_id f) s = Inr new"
    by (auto simp: create_fee_payment_intent_def success)
  then have "npif_payment_intent_id (snd new) = npi_id (fst new)"
    by (cases new) (auto dest: new_payment_intent_linked)
  from store_never_succeeds [OF this, of user w2] w1 w2
  show "ends (and_then (store_fee_payment_intent user new) (\<lambda>p. of_result (try_from_payment_intent D p))) w2
      (\<lambda>r t. isl r \<and> w_db t = w_db w)"
    by (intro ends_and_then) (auto elim!: ends_mono split: sum.split)
qed simp

end
