(* ===== verification/FeeService.thy ===== *)
theory FeeService
  imports Prelude Models World Authorization Tables Clients OrdersRepo FeesRepo Customers Services Triples
begin

text \<open>
  \<open>services/fee.rs\<close>: charging the owners of stores for the fees of their orders.
\<close>

definition fee_by_order_id ::
  "'d bigdecimal \<Rightarrow> stq_user_id option \<Rightarrow> order_id \<Rightarrow> ('d world, service_error, fee_response option) comp" where
  "fee_by_order_id D user oid =
     pool (and_then (get_acl user) (\<lambda>acl.
       and_then (svc (fees_get acl (SearchFeeOrderId oid))) (\<lambda>found.
       case found of None \<Rightarrow> ok None | Some f \<Rightarrow> map_ok Some (of_result (try_from_fee D f)))))"

definition validate_charge_fees :: "fee list \<Rightarrow> service_error + unit" where
  "validate_charge_fees fs =
     (if list_ex (\<lambda>f. fee_status f = FeePaid) fs then Inl (invalid ''order_id'' ''wrong_fee_status'') else Inr ())"

definition extract_currency :: "fee list \<Rightarrow> service_error + currency" where
  "extract_currency fs =
     (case remdups (map fee_currency fs) of
        [c] \<Rightarrow> Inr c
      | _ \<Rightarrow> Inl (invalid ''order_id'' ''wrong_currency''))"

definition total_amount :: "fee list \<Rightarrow> service_error + amount" where
  "total_amount fs =
     (case try_fold checked_add amount_zero (map fee_amount fs) of None \<Rightarrow> Inl SInternal | Some a \<Rightarrow> Inr a)"

definition create_charge_metadata :: "(uuid \<Rightarrow> string) \<Rightarrow> fee list \<Rightarrow> (string \<times> string) list option" where
  "create_charge_metadata hyphenated fs =
     (case fs of
        [f] \<Rightarrow> Some [(''order_id'', hyphenated (order_uuid (fee_order_id f))), (''fee_id'', show_int (fee_inner (fee_id f)))]
      | _ \<Rightarrow> None)"

definition verify_store_ids :: "store_id list \<Rightarrow> service_error + store_id" where
  "verify_store_ids ids =
     (case remdups ids of
        [sid] \<Rightarrow> Inr sid
      | _ \<Rightarrow> Inl (invalid ''order_id'' ''wrong_store_id''))"

text \<open>Whom to charge.\<close>

definition paying_customer ::
  "stq_user_id option \<Rightarrow> store_id \<Rightarrow> fee list \<Rightarrow> ('d world, service_error, db_customer) comp" where
  "paying_customer user sid fs =
     pool (and_then (get_acl user) (\<lambda>_.
       and_then (get_acl user) (\<lambda>acl.
       and_then (of_result (validate_charge_fees fs)) (\<lambda>_.
       and_then (map_err (\<lambda>_. SInternal) (get_by_store_id (store_inner sid))) (\<lambda>role.
       and_then (ok_or SInternal role) (\<lambda>r.
       and_then (svc (customers_get acl (SearchCustomerUserId (role_user_id r)))) (\<lambda>found.
       ok_or (invalid ''payment_card'' ''not_exists'') found)))))))"

definition charge_fees ::
  "(uuid \<Rightarrow> string) \<Rightarrow> 'd env \<Rightarrow> db_customer \<Rightarrow> fee list \<Rightarrow> ('d world, service_error, stripe_charge) comp" where
  "charge_fees hyphenated env customer fs =
     and_then (of_result (total_amount fs)) (\<lambda>amount.
     and_then (of_result (extract_currency fs)) (\<lambda>c.
     let input = \<lparr>nc_customer_id = cust_id customer, nc_amount = amount, nc_currency = c, nc_capture = True\<rparr>;
         metadata = create_charge_metadata hyphenated fs in
     svc_client (and_then (of_result (stripe_convert c)) (\<lambda>_.
       call_client (stripe_create_charge env) (StripeCreateCharge input metadata) (input, metadata)))))"

text \<open>All the fees are updated, or none is.\<close>

definition record_charge ::
  "'d bigdecimal \<Rightarrow> stq_user_id option \<Rightarrow> fee list \<Rightarrow> stripe_charge \<Rightarrow> ('d world, service_error, fee_response list) comp"
  where
  "record_charge D user fs charge =
     pool (and_then (get_acl user) (\<lambda>acl.
       transaction service_error_of_diesel
         (let update = default_update_fee\<lparr>uf_charge_id := Some (ChargeId (sc_id charge)),
                uf_status := Some (if sc_paid charge then FeePaid else FeeFail)\<rparr> in
          try_map (\<lambda>f. and_then (svc (fees_update_row acl (fee_id f) update)) (\<lambda>r.
            of_result (try_from_fee D r))) fs)))"

definition create_charge_by_fees ::
  "'d bigdecimal \<Rightarrow> (uuid \<Rightarrow> string) \<Rightarrow> 'd env \<Rightarrow> stq_user_id option \<Rightarrow> store_id \<Rightarrow> fee list \<Rightarrow>
   ('d world, service_error, fee_response list) comp" where
  "create_charge_by_fees D hyphenated env user sid fs =
     and_then (paying_customer user sid fs) (\<lambda>customer.
     and_then (charge_fees hyphenated env customer fs) (\<lambda>charge.
     record_charge D user fs charge))"

definition create_charge ::
  "'d bigdecimal \<Rightarrow> (uuid \<Rightarrow> string) \<Rightarrow> 'd env \<Rightarrow> stq_user_id option \<Rightarrow> search_fee \<Rightarrow>
   ('d world, service_error, fee_response) comp" where
  "create_charge D hyphenated env user s =
     and_then (pool (and_then (get_acl user) (\<lambda>f_acl.
         and_then (get_acl user) (\<lambda>o_acl.
         and_then (svc (fees_get f_acl s)) (\<lambda>found.
         and_then (ok_or SInternal found) (\<lambda>f.
         and_then (svc (orders_get o_acl (fee_order_id f))) (\<lambda>found.
         and_then (ok_or SInternal found) (\<lambda>order.
         ok (ord_store_id order, f))))))))) (\<lambda>(sid, f).
     and_then (create_charge_by_fees D hyphenated env user sid [f]) (\<lambda>responses.
     ok_or SInternal (case responses of [] \<Rightarrow> None | r # _ \<Rightarrow> Some r)))"

definition create_charge_for_several_fees ::
  "'d bigdecimal \<Rightarrow> (uuid \<Rightarrow> string) \<Rightarrow> 'd env \<Rightarrow> stq_user_id option \<Rightarrow> order_id list \<Rightarrow>
   ('d world, service_error, fee_response list) comp" where
  "create_charge_for_several_fees D hyphenated env user ids =
     and_then (pool (and_then (get_acl user) (\<lambda>f_acl.
         and_then (get_acl user) (\<lambda>o_acl.
         and_then (svc (search_orders o_acl 0 (int (length ids)) (by_order_ids ids))) (\<lambda>found.
         and_then (of_result (verify_store_ids (map ord_store_id (osr_orders found)))) (\<lambda>sid.
         and_then (svc (fees_search f_acl (fees_by_order_ids (map ord_id (osr_orders found))))) (\<lambda>fs.
         ok (sid, fs)))))))) (\<lambda>(sid, fs).
     create_charge_by_fees D hyphenated env user sid fs)"

section \<open>What a charge records\<close>

definition fee_charged :: "stripe_charge \<Rightarrow> fee \<Rightarrow> fee" where
  "fee_charged charge f =
     f\<lparr>fee_status := if sc_paid charge then FeePaid else FeeFail, fee_charge_id := Some (ChargeId (sc_id charge))\<rparr>"

definition fees_charged :: "stripe_charge \<Rightarrow> fee_id set \<Rightarrow> fee list \<Rightarrow> fee list" where
  "fees_charged charge ids = map (\<lambda>f. if fee_id f \<in> ids then fee_charged charge f else f)"

lemma update_fee_row_success:
  assumes "fees_update_row acl fid u w = (Inr r, t)"
  shows "w_db t = (w_db w)\<lparr>fees := map (\<lambda>f. if fee_id f = fid then update_fee_changes u f else f) (fees (w_db w))\<rparr>"
    and "\<not> w_aborted t"
proof -
  from assms obtain f v v' rs where
    get: "repo (get_result (select_where fees (\<lambda>f. fee_id f = fid))) w = (Inr f, v)"
    and check: "check_fee acl ActWrite (Some f) v = (Inr (), v')"
    and upd: "update_where fees set_fees (\<lambda>f. fee_id f = fid) (\<lambda>_. update_fee_changes u) v' = (Inr (r # rs), t)"
    by (auto simp: fees_update_row_def success repo_def)
  from check have "w_db v' = w_db v" by (rule same_dbD [OF reading.keeps_check_fee])
  with select_row_success [OF get] update_where_success [OF upd]
  show "w_db t = (w_db w)\<lparr>fees := map (\<lambda>f. if fee_id f = fid then update_fee_changes u f else f) (fees (w_db w))\<rparr>"
    and "\<not> w_aborted t" by simp_all
qed

abbreviation charge_update :: "stripe_charge \<Rightarrow> update_fee" where
  "charge_update charge \<equiv> default_update_fee\<lparr>uf_charge_id := Some (ChargeId (sc_id charge)),
     uf_status := Some (if sc_paid charge then FeePaid else FeeFail)\<rparr>"

lemma charge_update_changes: "update_fee_changes (charge_update charge) = fee_charged charge"
  by (simp add: update_fee_changes_def fee_charged_def default_update_fee_def set_or_def set_or_opt_def fun_eq_iff)

lemma fees_charged_insert:
  "fees_charged charge ids (fees_charged charge {fid} fs) = fees_charged charge (insert fid ids) fs"
  by (auto simp: fees_charged_def fee_charged_def)

lemma record_loop_success:
  assumes "try_map (\<lambda>f. and_then (svc (fees_update_row acl (fee_id f) (charge_update charge))) (\<lambda>r.
      of_result (try_from_fee D r))) fs w = (Inr rs, t)" and "\<not> w_aborted w"
  shows "w_db t = (w_db w)\<lparr>fees := fees_charged charge (fee_id ` set fs) (fees (w_db w))\<rparr> \<and> \<not> w_aborted t"
  using assms
proof (induction fs arbitrary: w rs)
  case Nil
  then show ?case by (simp add: fees_charged_def)
next
  case (Cons f fs)
  from Cons.prems(1) obtain r u rs' where upd: "fees_update_row acl (fee_id f) (charge_update charge) w = (Inr r, u)"
    and rest: "try_map (\<lambda>f. and_then (svc (fees_update_row acl (fee_id f) (charge_update charge))) (\<lambda>r.
      of_result (try_from_fee D r))) fs u = (Inr rs', t)"
    by (auto simp: success)
  have "w_db u = (w_db w)\<lparr>fees := fees_charged charge {fee_id f} (fees (w_db w))\<rparr>"
    using update_fee_row_success(1) [OF upd] by (simp add: fees_charged_def charge_update_changes)
  with Cons.IH [OF rest update_fee_row_success(2) [OF upd]] show ?case
    by (simp add: fees_charged_insert)
qed

lemma silent_fees_update_row [keeps_intros]: "silently (fees_update_row acl fid u)"
  unfolding fees_update_row_def by (intro keeps_intros)

lemma record_charge_effect:
  "ends (record_charge D user fs charge) w (\<lambda>r t. w_calls t = w_calls w \<and>
     (case r of Inl _ \<Rightarrow> w_db t = w_db w
      | Inr rs \<Rightarrow> w_db t = (w_db w)\<lparr>fees := fees_charged charge (fee_id ` set fs) (fees (w_db w))\<rparr>))"
proof (rule ends_silent)
  show "silently (record_charge D user fs charge)"
    unfolding record_charge_def Let_def by (intro keeps_intros)
next
  show "ends (record_charge D user fs charge) w (\<lambda>r t. case r of Inl _ \<Rightarrow> w_db t = w_db w
      | Inr rs \<Rightarrow> w_db t = (w_db w)\<lparr>fees := fees_charged charge (fee_id ` set fs) (fees (w_db w))\<rparr>)"
    unfolding record_charge_def Let_def
  proof (rule ends_spawn, simp, rule ends_read_then, intro keeps_intros, simp, rule endsI)
    fix acl r and w1 t :: "'a world"
    let ?m = "try_map (\<lambda>f. and_then (svc (fees_update_row acl (fee_id f) (charge_update charge))) (\<lambda>r.
      of_result (try_from_fee D r))) fs"
    assume w1: "w_db w1 = w_db (next_fault w)"
      and run: "transaction service_error_of_diesel ?m w1 = (r, t)"
    show "case r of Inl _ \<Rightarrow> w_db t = w_db w
      | Inr rs \<Rightarrow> w_db t = (w_db w)\<lparr>fees := fees_charged charge (fee_id ` set fs) (fees (w_db w))\<rparr>"
    proof (cases r)
      case (Inl e)
      with run w1 show ?thesis by (auto dest: transaction_error_db)
    next
      case (Inr rs)
      have alive: "alive ?m" unfolding alive_def by (blast dest: record_loop_success)
      from run [unfolded Inr] alive obtain u where
        body: "?m (inner_world w1) = (Inr rs, u)" and t: "w_db t = w_db u" by (rule alive_transaction)
      have begun: "\<not> w_aborted (inner_world w1)"
        using run Inr by (auto simp: transaction_def Let_def inner_world_def next_fault_def split: if_splits)
      from record_loop_success [OF body begun] t w1 Inr show ?thesis by simp
    qed
  qed
qed

lemma paying_customer_effect:
  "ends (paying_customer user sid fs) w (\<lambda>r t. w_calls t = w_calls w \<and> w_db t = w_db w)"
proof (rule ends_silent)
  show "silently (paying_customer user sid fs)"
    unfolding paying_customer_def get_by_store_id_def customers_get_def by (intro keeps_intros)
  have "reads (paying_customer user sid fs)"
    unfolding paying_customer_def get_by_store_id_def customers_get_def by (intro keeps_intros)
  then show "ends (paying_customer user sid fs) w (\<lambda>r t. w_db t = w_db w)"
    by (rule ends_reads)
qed

text \<open>The charge that the fees ask for: of the customer, for their exact sum, in their one currency.\<close>

definition charge_input :: "db_customer \<Rightarrow> fee list \<Rightarrow> new_charge \<Rightarrow> bool" where
  "charge_input customer fs input \<longleftrightarrow> nc_customer_id input = cust_id customer \<and> nc_capture input \<and>
     amount_nat (nc_amount input) = (\<Sum>f\<leftarrow>fs. amount_nat (fee_amount f)) \<and>
     set (map fee_currency fs) = {nc_currency input}"

text \<open>Nothing but unpaid fees is billed, and to the customer of the user whose role names the store.\<close>

definition billed :: "'d db \<Rightarrow> store_id \<Rightarrow> fee list \<Rightarrow> new_charge \<Rightarrow> bool" where
  "billed d sid fs input \<longleftrightarrow> list_all (\<lambda>f. fee_status f \<noteq> FeePaid) fs \<and>
     (\<exists>role customer. row_by (\<lambda>r. role_data_is r (store_inner sid)) (roles d) = Some role \<and>
        row_by (\<lambda>c. cust_user_id c = role_user_id role) (customers d) = Some customer \<and>
        charge_input customer fs input)"

lemma owner_role_success:
  "get_by_store_id sid w = (Inr found, t) \<Longrightarrow>
   row_by (\<lambda>r. role_data_is r sid) (roles (w_db w)) = found \<and> w_db t = w_db w"
  by (rule first_row_success) (simp add: get_by_store_id_def select_where_def)

lemma customers_get_success:
  assumes "customers_get acl s w = (Inr (Some c), t)"
  shows "row_by (customer_matches s) (customers (w_db w)) = Some c"
proof -
  obtain found u where "repo (optional (get_result (select_where customers (customer_matches s)))) w = (Inr found, u)"
    and "(case found of None \<Rightarrow> ok None
      | Some c \<Rightarrow> and_then (check_customer acl ActRead (cust_user_id c)) (\<lambda>_. ok (Some c))) u = (Inr (Some c), t)"
    using assms by (auto simp: customers_get_def and_then_success)
  then show ?thesis
    using first_row_success [of customers "customer_matches s" w found u]
    by (cases found) (auto simp: success)
qed

lemma paying_customer_billed:
  assumes "paying_customer user sid fs w = (Inr customer, t)" and "charge_input customer fs input"
  shows "billed (w_db w) sid fs input"
proof -
  obtain u v v' x role where acls: "get_acl user (next_fault w) = (Inr u :: service_error + acl, v)"
    "get_acl user v = (Inr x :: service_error + acl, v')"
    and unpaid: "validate_charge_fees fs = Inr ()"
    and rest: "\<exists>y. get_by_store_id (store_inner sid) v' = (Inr (Some role), y) \<and>
      customers_get x (SearchCustomerUserId (role_user_id role)) y = (Inr (Some customer), t)"
    using assms(1) unfolding paying_customer_def by (auto simp: spawn_success success of_result_apply)
  from rest obtain y where y: "get_by_store_id (store_inner sid) v' = (Inr (Some role), y)"
    and c: "customers_get x (SearchCustomerUserId (role_user_id role)) y = (Inr (Some customer), t)" by blast
  have v': "w_db v' = w_db w"
    using same_dbD [OF reading.keeps_get_acl acls(1)] same_dbD [OF reading.keeps_get_acl acls(2)] by simp
  have matches: "customer_matches (SearchCustomerUserId u) = (\<lambda>c. cust_user_id c = u)" for u by (simp add: fun_eq_iff)
  from owner_role_success [OF y] customers_get_success [OF c] v'
  have "row_by (\<lambda>r. role_data_is r (store_inner sid)) (roles (w_db w)) = Some role"
    and "row_by (\<lambda>c. cust_user_id c = role_user_id role) (customers (w_db w)) = Some customer"
    by (simp_all add: matches)
  moreover have "list_all (\<lambda>f. fee_status f \<noteq> FeePaid) fs"
    using unpaid by (auto simp: validate_charge_fees_def list_all_iff list_ex_iff split: if_splits)
  ultimately show ?thesis using assms(2) by (auto simp: billed_def)
qed

lemma charge_fees_effect:
  "ends (charge_fees hyphenated env customer fs) w (\<lambda>r t. w_db t = w_db w \<and>
     ((isl r \<and> w_calls t = w_calls w) \<or>
      (\<exists>input. charge_input customer fs input \<and>
         w_calls t = w_calls w @ [StripeCreateCharge input (create_charge_metadata hyphenated fs)] \<and>
         (\<forall>charge. r = Inr charge \<longrightarrow>
            stripe_create_charge env (w_calls w) (input, create_charge_metadata hyphenated fs) = Inr charge))))"
proof -
  have currency: "set (map fee_currency fs) = {c}" if "extract_currency fs = Inr c" for c
  proof -
    from that have "remdups (map fee_currency fs) = [c]"
      by (auto simp: extract_currency_def split: list.splits)
    then show ?thesis by (metis set_remdups list.set(1,2))
  qed
  have amount: "amount_nat a = (\<Sum>f\<leftarrow>fs. amount_nat (fee_amount f))" if "total_amount fs = Inr a" for a
    using that sum_amounts [of amount_zero "map fee_amount fs"]
    by (auto simp: total_amount_def amount_zero_def comp_def split: option.splits)
  have input: "charge_input customer fs
      \<lparr>nc_customer_id = cust_id customer, nc_amount = a, nc_currency = c, nc_capture = True\<rparr>"
    if "total_amount fs = Inr a" "extract_currency fs = Inr c" for a c
    using amount [OF that(1)] currency [OF that(2)] by (simp add: charge_input_def)
  show ?thesis
    unfolding charge_fees_def Let_def
    by (cases "total_amount fs"; cases "extract_currency fs")
       (auto simp: ends_def and_then_def svc_client_def map_err_def call_client_def of_result_apply
         split: sum.split prod.split intro: input)
qed

lemma charge_and_record_effect:
  "ends (and_then (charge_fees hyphenated env customer fs) (\<lambda>charge. record_charge D user fs charge)) w (\<lambda>r t.
     (isl r \<and> w_db t = w_db w \<and> w_calls t = w_calls w) \<or>
     (\<exists>input. charge_input customer fs input \<and>
        w_calls t = w_calls w @ [StripeCreateCharge input (create_charge_metadata hyphenated fs)] \<and>
        (case r of
           Inl _ \<Rightarrow> w_db t = w_db w
         | Inr _ \<Rightarrow> \<exists>charge. stripe_create_charge env (w_calls w) (input, create_charge_metadata hyphenated fs) = Inr charge \<and>
             w_db t = (w_db w)\<lparr>fees := fees_charged charge (fee_id ` set fs) (fees (w_db w))\<rparr>)))"
  (is "ends _ _ ?Q")
proof (rule ends_and_then, rule ends_mono [OF charge_fees_effect], goal_cases)
  case (1 q w2)
  show ?case
  proof (cases q)
    case (Inl e)
    with 1 show ?thesis by auto
  next
    case (Inr charge)
    with 1 obtain input where db: "w_db w2 = w_db w" and call: "charge_input customer fs input"
      "w_calls w2 = w_calls w @ [StripeCreateCharge input (create_charge_metadata hyphenated fs)]"
      "stripe_create_charge env (w_calls w) (input, create_charge_metadata hyphenated fs) = Inr charge" by auto
    have "ends (record_charge D user fs charge) w2 ?Q"
      by (rule ends_mono [OF record_charge_effect]) (use db call in \<open>auto split: sum.splits\<close>)
    with Inr show ?thesis by simp
  qed
qed

text \<open>C30: A run of \<open>create_charge_by_fees\<close>, whether or not it succeeds and whatever fails, makes at most one
  charge, and it makes it only when none of the fees has been paid: for their exact sum, in their
  currency, of the customer that the user has whose role names the store. When it succeeds Stripe
  has accepted the charge and every one of the fees carries it with its outcome; when it fails no
  fee is changed, even if the charge has been made.\<close>

theorem charge_covers_all_fees:
  "ends (create_charge_by_fees D hyphenated env user sid fs) w (\<lambda>r t.
     (isl r \<and> w_db t = w_db w \<and> w_calls t = w_calls w) \<or>
     (\<exists>input. billed (w_db w) sid fs input \<and>
        w_calls t = w_calls w @ [StripeCreateCharge input (create_charge_metadata hyphenated fs)] \<and>
        (case r of
           Inl _ \<Rightarrow> w_db t = w_db w
         | Inr _ \<Rightarrow> \<exists>charge. stripe_create_charge env (w_calls w) (input, create_charge_metadata hyphenated fs) = Inr charge \<and>
             w_db t = (w_db w)\<lparr>fees := fees_charged charge (fee_id ` set fs) (fees (w_db w))\<rparr>)))"
  (is "ends _ _ ?Q")
  unfolding create_charge_by_fees_def
proof (rule ends_and_then, rule endsI, goal_cases)
  case (1 r w1)
  note w1 = endsD [OF paying_customer_effect 1]
  show ?case
  proof (cases r)
    case (Inl e)
    with w1 show ?thesis by simp
  next
    case (Inr customer)
    note billed = paying_customer_billed [OF 1 [unfolded Inr]]
    have "ends (and_then (charge_fees hyphenated env customer fs) (\<lambda>charge. record_charge D user fs charge)) w1 ?Q"
    proof (rule ends_mono [OF charge_and_record_effect], elim disjE exE conjE, goal_cases)
      case (1 r t)
      then show ?case by (simp add: w1)
    next
      case (2 r t input)
      then show ?case by (intro disjI2 exI [of _ input] conjI billed) (simp_all add: w1 split: sum.splits)
    qed
    with Inr show ?thesis by simp
  qed
qed

end
