(* ===== verification/InvoicePricing.thy ===== *)
theory InvoicePricing
  imports Prelude Models World Authorization Tables Clients EventStore InvoicesRepo OrdersRepo RatesRepo
    AccountsRepo Services Triples
begin

text \<open>
  The price of an invoice: \<open>calculate_invoice_price\<close> of \<open>models/invoice_v2.rs\<close>, and the functions of
  \<open>services/invoice.rs\<close> that read an invoice with its orders and rates, refresh the rates and mark the
  invoice as paid when enough has been received. A division that panics gives \<open>None\<close>.
\<close>

section \<open>The dump of an invoice\<close>

record 'd buyer_amounts =
  ba_exchange_rate :: 'd
  ba_currency :: currency
  ba_price :: 'd

record 'd rate_dump =
  rd_id :: order_exchange_rate_id
  rd_exchange_rate :: 'd
  rd_status :: exchange_rate_status
  rd_reserved_at :: timestamp

record 'd order_dump =
  od_id :: order_id
  od_seller_currency :: currency
  od_seller_price :: 'd
  od_seller_cashback :: 'd
  od_buyer_amounts :: "'d buyer_amounts option"
  od_rates :: "'d rate_dump list"

record 'd invoice_dump =
  idp_id :: invoice_id
  idp_buyer_currency :: currency
  idp_amount_captured :: 'd
  idp_total_price :: 'd
  idp_total_cashback :: "'d option"
  idp_orders :: "'d order_dump list"
  idp_has_missing_rates :: bool
  idp_created_at :: timestamp
  idp_paid_at :: "timestamp option"
  idp_wallet_address :: "wallet_address option"
  idp_status :: order_state

definition checked_quotient :: "'d bigdecimal \<Rightarrow> 'd \<Rightarrow> 'd \<Rightarrow> 'd option" where
  "checked_quotient D a b = (if bd_div_panics D a b then None else Some (bd_div D a b))"

text \<open>The rate in use: 1 for the currency of the buyer, else the active rate.\<close>

definition rate_in_use ::
  "'d bigdecimal \<Rightarrow> currency \<Rightarrow> raw_order \<Rightarrow> 'd raw_order_exchange_rate list \<Rightarrow> 'd option" where
  "rate_in_use D buyer order rates =
     (if buyer = ord_seller_currency order then Some (bd_from_int D 1)
      else map_option rate_exchange_rate (find (\<lambda>r. rate_status r = Active) rates))"

definition rate_dump_of :: "'d raw_order_exchange_rate \<Rightarrow> 'd rate_dump" where
  "rate_dump_of r = \<lparr>rd_id = rate_id r, rd_exchange_rate = rate_exchange_rate r, rd_status = rate_status r,
     rd_reserved_at = rate_created_at r\<rparr>"

definition order_dump_of ::
  "'d bigdecimal \<Rightarrow> currency \<Rightarrow> raw_order \<times> 'd raw_order_exchange_rate list \<Rightarrow> 'd order_dump option" where
  "order_dump_of D buyer = (\<lambda>(order, rates).
     let c = ord_seller_currency order;
         seller_price = to_super_unit D (ord_total_amount order) c;
         dump = (\<lambda>amounts. \<lparr>od_id = ord_id order, od_seller_currency = c, od_seller_price = seller_price,
           od_seller_cashback = to_super_unit D (ord_cashback_amount order) c, od_buyer_amounts = amounts,
           od_rates = map rate_dump_of rates\<rparr>) in
     case rate_in_use D buyer order rates of
       None \<Rightarrow> Some (dump None)
     | Some rate \<Rightarrow>
         map_option (\<lambda>price. dump (Some \<lparr>ba_exchange_rate = rate, ba_currency = buyer, ba_price = price\<rparr>))
           (checked_quotient D seller_price rate))"

definition total_of_orders :: "'d bigdecimal \<Rightarrow> 'd order_dump list \<Rightarrow> 'd" where
  "total_of_orders D ods =
     fold (\<lambda>od acc. case od_buyer_amounts od of None \<Rightarrow> acc | Some b \<Rightarrow> bd_add D acc (ba_price b)) ods (bd_from_int D 0)"

text \<open>The final amounts of a paid invoice, or the current price.\<close>

definition calculate_invoice_price ::
  "'d bigdecimal \<Rightarrow> raw_invoice \<Rightarrow> (raw_order \<times> 'd raw_order_exchange_rate list) list \<Rightarrow>
   wallet_address option \<Rightarrow> 'd invoice_dump option" where
  "calculate_invoice_price D i os wallet =
     (let c = inv_buyer_currency i in
      map_option (\<lambda>ods.
        let dump = (\<lambda>price cashback paid.
              \<lparr>idp_id = inv_id i, idp_buyer_currency = c,
               idp_amount_captured = to_super_unit D (inv_amount_captured i) c, idp_total_price = price,
               idp_total_cashback = Some cashback, idp_orders = ods,
               idp_has_missing_rates = list_ex (\<lambda>od. Option.is_none (od_buyer_amounts od)) ods,
               idp_created_at = inv_created_at i, idp_paid_at = paid, idp_wallet_address = wallet,
               idp_status = inv_status i\<rparr>) in
        case (inv_final_amount_paid i, inv_final_cashback_amount i, inv_paid_at i) of
          (Some price, Some cashback, Some paid) \<Rightarrow>
            dump (to_super_unit D price c) (to_super_unit D cashback c) (Some paid)
        | _ \<Rightarrow> dump (total_of_orders D ods) (bd_from_int D 0) None)
        (those (map (order_dump_of D c) os)))"

text \<open>\<open>SystemTime\<close> is the clock in microseconds.\<close>

definition dump_try_into_v1 :: "'d bigdecimal \<Rightarrow> 'd invoice_dump \<Rightarrow> ('d world, service_error, invoice_v1) comp" where
  "dump_try_into_v1 D dump =
     and_then (ok_or SInternal (bd_to_f64 D (idp_total_price dump))) (\<lambda>amount.
     and_then (ok_or SInternal (bd_to_f64 D (idp_amount_captured dump))) (\<lambda>captured.
     and_then utc_now (\<lambda>t1.
     and_then utc_now (\<lambda>t2.
     and_then utc_now (\<lambda>t3.
     ok \<lparr>iv1_id = invoice_uuid (idp_id dump), iv1_invoice_id = invoice_uuid (idp_id dump), iv1_amount = amount,
         iv1_price_reserved = t1 + 300 * 1000000, iv1_state = idp_status dump,
         iv1_wallet = map_option wallet_inner (idp_wallet_address dump), iv1_created_at = t2,
         iv1_updated_at = t3, iv1_transactions = [], iv1_amount_captured = captured,
         iv1_currency = into_stq_currency (idp_buyer_currency dump)\<rparr>)))))"

section \<open>Reading an invoice with its orders\<close>

definition get_order_active_rates ::
  "acl \<Rightarrow> acl \<Rightarrow> invoice_id \<Rightarrow>
   ('d world, service_error, (raw_order \<times> 'd raw_order_exchange_rate option) list) comp" where
  "get_order_active_rates o_acl r_acl iid =
     and_then (svc (get_many_by_invoice_id o_acl iid)) (\<lambda>os.
     try_map (\<lambda>order. map_ok (\<lambda>rate. (order, rate)) (svc (get_active_rate_for_order r_acl (ord_id order)))) os)"

definition account_wallet :: "acl \<Rightarrow> account_id option \<Rightarrow> ('d world, service_error, wallet_address option) comp" where
  "account_wallet a_acl aid =
     (case aid of
        None \<Rightarrow> ok None
      | Some a \<Rightarrow>
          and_then (svc (accounts_get a_acl a)) (\<lambda>found.
          map_ok (\<lambda>acc. Some (acc_wallet_address acc)) (ok_or SInternal found)))"

definition get_invoice_price ::
  "'d bigdecimal \<Rightarrow> acl \<Rightarrow> acl \<Rightarrow> acl \<Rightarrow> raw_invoice \<Rightarrow> ('d world, service_error, 'd invoice_dump) comp" where
  "get_invoice_price D o_acl r_acl a_acl i =
     and_then (svc (get_many_by_invoice_id o_acl (inv_id i))) (\<lambda>os.
     and_then (try_map (\<lambda>order. map_ok (\<lambda>rates. (order, rates)) (svc (get_all_rates_for_order r_acl (ord_id order)))) os) (\<lambda>ors.
     and_then (account_wallet a_acl (inv_account_id i)) (\<lambda>wallet.
     unwrap (calculate_invoice_price D i ors wallet))))"

definition get_invoice_price_by_invoice_id ::
  "'d bigdecimal \<Rightarrow> acl \<Rightarrow> acl \<Rightarrow> acl \<Rightarrow> acl \<Rightarrow> invoice_id \<Rightarrow> ('d world, service_error, 'd invoice_dump option) comp"
  where
  "get_invoice_price_by_invoice_id D i_acl o_acl r_acl a_acl iid =
     and_then (svc (invoices_get i_acl iid)) (\<lambda>found.
     case found of None \<Rightarrow> ok None | Some i \<Rightarrow> map_ok Some (get_invoice_price D o_acl r_acl a_acl i))"

section \<open>Rates\<close>

definition to_ture_currency :: "currency \<Rightarrow> service_error + ture_currency" where
  "to_ture_currency c = map_sum (\<lambda>_. SInternal) id (try_from_currency c)"

definition get_rate ::
  "'d bigdecimal \<Rightarrow> 'd env \<Rightarrow> ture_currency \<Rightarrow> ture_currency \<Rightarrow> amount \<Rightarrow>
   ('d world, service_error, exchange_id option \<times> 'd) comp" where
  "get_rate D env buyer seller tot =
     (if buyer = seller then ok (None, bd_from_int D 1)
      else
        and_then new_v4 (\<lambda>u.
        let input = \<lparr>gr_id = u, gr_from = buyer, gr_to = seller, gr_amount_currency = seller, gr_amount = tot\<rparr> in
        map_ok (\<lambda>r. (Some (ExchangeId (rt_id r)), rt_rate r))
          (map_err (\<lambda>_. SInternal) (call_client (payments_get_rate env) (PaymentsGetRate input) input))))"

text \<open>\<open>None\<close> stands for a rate that has not changed.\<close>

definition reserve_or_refresh_rate ::
  "'d bigdecimal \<Rightarrow> 'd env \<Rightarrow> ture_currency \<Rightarrow> raw_order \<Rightarrow> 'd raw_order_exchange_rate option \<Rightarrow>
   ('d world, service_error, 'd new_order_exchange_rate option) comp" where
  "reserve_or_refresh_rate D env buyer order current =
     (case current of
        None \<Rightarrow>
          and_then (of_result (to_ture_currency (ord_seller_currency order))) (\<lambda>seller.
          map_ok (\<lambda>(eid, rate). Some \<lparr>nr_order_id = ord_id order, nr_exchange_id = eid, nr_exchange_rate = rate\<rparr>)
            (get_rate D env buyer seller (ord_total_amount order)))
      | Some r \<Rightarrow>
          (case rate_exchange_id r of
             None \<Rightarrow> ok None
           | Some eid \<Rightarrow>
               map_ok (\<lambda>refresh.
                   if rr_is_new_rate refresh
                   then Some \<lparr>nr_order_id = ord_id order, nr_exchange_id = Some (ExchangeId (rt_id (rr_rate refresh))),
                              nr_exchange_rate = rt_rate (rr_rate refresh)\<rparr>
                   else None)
                 (svc_client (call_client (payments_refresh_rate env) (PaymentsRefreshRate eid) eid))))"

definition refresh_rates ::
  "'d bigdecimal \<Rightarrow> 'd env \<Rightarrow> ture_currency \<Rightarrow> (raw_order \<times> 'd raw_order_exchange_rate option) list \<Rightarrow>
   ('d world, service_error, 'd new_order_exchange_rate list) comp" where
  "refresh_rates D env buyer current =
     map_ok (\<lambda>rs. concat (map (\<lambda>r. case r of None \<Rightarrow> [] | Some x \<Rightarrow> [x]) rs))
       (try_map (\<lambda>(order, rate). reserve_or_refresh_rate D env buyer order rate) current)"

definition save_rates :: "acl \<Rightarrow> 'd new_order_exchange_rate list \<Rightarrow> ('d world, service_error, unit) comp" where
  "save_rates r_acl rates = for_each (\<lambda>r. svc (add_new_active_rate r_acl r)) rates"

section \<open>Marking an invoice as paid\<close>

text \<open>The amounts that are stored; \<open>from_super_unit\<close> may panic.\<close>

definition has_become_paid :: "'d bigdecimal \<Rightarrow> raw_invoice \<Rightarrow> 'd invoice_dump \<Rightarrow> bool" where
  "has_become_paid D i dump \<longleftrightarrow> \<not> idp_has_missing_rates dump \<and>
     bd_le D (idp_total_price dump) (to_super_unit D (inv_amount_captured i) (idp_buyer_currency dump))"

definition set_paid ::
  "'d bigdecimal \<Rightarrow> acl \<Rightarrow> raw_invoice \<Rightarrow> 'd invoice_dump \<Rightarrow> ('d world, service_error, unit) comp" where
  "set_paid D i_acl i dump =
     and_then (unwrap (from_super_unit D (idp_buyer_currency dump) (idp_total_price dump))) (\<lambda>amount.
     and_then (unwrap (from_super_unit D Stq (case idp_total_cashback dump of None \<Rightarrow> bd_from_int D 0 | Some c \<Rightarrow> c))) (\<lambda>cashback.
     and_then utc_now (\<lambda>now.
     and_then (svc (set_amount_paid i_acl (inv_id i)
       \<lparr>sap_final_amount_paid = amount, sap_final_cashback_amount = cashback, sap_paid_at = now\<rparr>)) (\<lambda>_.
     and_then (new_event (InvoicePaid (inv_id i))) (\<lambda>ev.
     map_ok (\<lambda>_. ()) (svc (add_event ev)))))))"

definition price_and_set_paid ::
  "'d bigdecimal \<Rightarrow> acl \<Rightarrow> acl \<Rightarrow> acl \<Rightarrow> acl \<Rightarrow> invoice_id \<Rightarrow> ('d world, service_error, 'd invoice_dump) comp" where
  "price_and_set_paid D i_acl o_acl r_acl a_acl iid =
     and_then (svc (invoices_get i_acl iid)) (\<lambda>found.
     and_then (ok_or SInternal found) (\<lambda>i.
     and_then (get_invoice_price D o_acl r_acl a_acl i) (\<lambda>dump.
     if inv_paid_at i \<noteq> None \<or> \<not> has_become_paid D i dump then ok dump
     else map_ok (\<lambda>_. dump) (set_paid D i_acl i dump))))"

definition calculate_invoice_price_and_set_final_price_if_paid ::
  "'d bigdecimal \<Rightarrow> acl \<Rightarrow> acl \<Rightarrow> acl \<Rightarrow> acl \<Rightarrow> invoice_id \<Rightarrow> ('d world, service_error, 'd invoice_dump) comp" where
  "calculate_invoice_price_and_set_final_price_if_paid D i_acl o_acl r_acl a_acl iid =
     transaction service_error_of_diesel (price_and_set_paid D i_acl o_acl r_acl a_acl iid)"

section \<open>Frames\<close>

context world_relation
begin

lemma keeps_invoices_scope [keeps_intros]: "keeps R (check acl res act invoices_in_scope obj)"
  unfolding invoices_in_scope_def
  by (rule keeps_check) (auto intro!: keeps_ok split: scope.split)

lemma keeps_invoice_queries [keeps_intros]:
  "keeps R (invoices_get acl iid)" "keeps R (get_many_by_invoice_id acl iid)"
  "keeps R (get_active_rate_for_order acl oid)" "keeps R (get_all_rates_for_order acl oid)"
  "keeps R (accounts_get acl aid)" "keeps R (get_by_wallet_address acl addr)"
  "keeps R (invoices_get_by_account_id acl aid)"
  unfolding invoices_get_def get_many_by_invoice_id_def get_active_rate_for_order_def
    get_all_rates_for_order_def accounts_get_def get_by_wallet_address_def invoices_get_by_account_id_def
  by (intro keeps_intros)+

lemma keeps_invoice_price [keeps_intros]:
  "keeps R (account_wallet acl aid)" "keeps R (get_invoice_price D o_acl r_acl a_acl i)"
  "keeps R (get_order_active_rates o_acl r_acl iid)"
  unfolding account_wallet_def get_invoice_price_def get_order_active_rates_def
  by (intro keeps_intros)+

end

section \<open>The total price\<close>

lemma those_Some: "those xs = Some ys \<longleftrightarrow> xs = map Some ys"
  by (induction xs arbitrary: ys) (auto simp: Cons_eq_map_conv split: option.split)

lemma fold_add_exact:
  assumes "bigdecimal_laws D v"
  shows "v (fold (\<lambda>od acc. case od_buyer_amounts od of None \<Rightarrow> acc | Some b \<Rightarrow> bd_add D acc (ba_price b)) ods a) =
    v a + (\<Sum>od\<leftarrow>ods. case od_buyer_amounts od of None \<Rightarrow> 0 | Some b \<Rightarrow> v (ba_price b))"
  using assms by (induction ods arbitrary: a) (auto simp: bigdecimal_laws_def split: option.split)

text \<open>An order has a price in the currency of the buyer when that is its own currency or when it has
  an active rate.\<close>

definition is_priced :: "currency \<Rightarrow> raw_order \<times> 'd raw_order_exchange_rate list \<Rightarrow> bool" where
  "is_priced buyer = (\<lambda>(order, rates). ord_seller_currency order = buyer \<or> list_ex (\<lambda>r. rate_status r = Active) rates)"

lemma order_dump_priced:
  assumes "order_dump_of D buyer x = Some od"
  shows "Option.is_none (od_buyer_amounts od) \<longleftrightarrow> \<not> is_priced buyer x" and "od_id od = ord_id (fst x)"
proof -
  have active: "find p xs = Some r \<Longrightarrow> r \<in> set xs \<and> p r" for p :: "'a raw_order_exchange_rate \<Rightarrow> bool" and xs r
    by (auto simp: find_Some_iff)
  show "Option.is_none (od_buyer_amounts od) \<longleftrightarrow> \<not> is_priced buyer x" and "od_id od = ord_id (fst x)"
    using assms
    by (auto simp: order_dump_of_def Let_def is_priced_def rate_in_use_def list_ex_iff find_None_iff
        split: prod.splits option.splits if_splits dest: active)
qed

text \<open>The price of an unpaid invoice is the exact sum of the prices of its orders that have one,
  rates are missing exactly when some order is neither in the currency of the buyer nor has an active
  rate; the price of a paid invoice is the stored one. The orders come in the order given.\<close>

theorem calculate_invoice_price_total:
  assumes "bigdecimal_laws D v" and "calculate_invoice_price D i os wallet = Some dump"
  shows "map od_id (idp_orders dump) = map (ord_id \<circ> fst) os \<and>
    idp_has_missing_rates dump = (\<not> list_all (is_priced (inv_buyer_currency i)) os) \<and>
    (case (inv_final_amount_paid i, inv_final_cashback_amount i, inv_paid_at i) of
        (Some price, Some _, Some _) \<Rightarrow> idp_total_price dump = to_super_unit D price (inv_buyer_currency i)
      | _ \<Rightarrow> v (idp_total_price dump) =
          (\<Sum>od\<leftarrow>idp_orders dump. case od_buyer_amounts od of None \<Rightarrow> 0 | Some b \<Rightarrow> v (ba_price b)))"
proof -
  let ?final = "(inv_final_amount_paid i, inv_final_cashback_amount i, inv_paid_at i)"
  from assms(2) obtain ods where those: "those (map (order_dump_of D (inv_buyer_currency i)) os) = Some ods"
    by (auto simp: calculate_invoice_price_def Let_def)
  have dump: "idp_orders dump = ods \<and> idp_has_missing_rates dump = list_ex (\<lambda>od. Option.is_none (od_buyer_amounts od)) ods \<and>
      (case ?final of
        (Some price, Some _, Some _) \<Rightarrow> idp_total_price dump = to_super_unit D price (inv_buyer_currency i)
      | _ \<Rightarrow> idp_total_price dump = total_of_orders D ods)"
    using assms(2) those
    by (cases "inv_final_amount_paid i"; cases "inv_final_cashback_amount i"; cases "inv_paid_at i")
       (auto simp: calculate_invoice_price_def Let_def)
  from those have "list_all2 (\<lambda>x od. order_dump_of D (inv_buyer_currency i) x = Some od) os ods"
    by (simp add: those_Some list_all2_conv_all_nth list_eq_iff_nth_eq)
  then have orders: "map od_id ods = map (ord_id \<circ> fst) os \<and>
      list_ex (\<lambda>od. Option.is_none (od_buyer_amounts od)) ods = (\<not> list_all (is_priced (inv_buyer_currency i)) os)"
    by (induction rule: list_all2_induct) (auto simp: order_dump_priced)
  have zero: "v (bd_from_int D 0) = 0" using assms(1) by (simp add: bigdecimal_laws_def)
  have "v (total_of_orders D ods) =
      (\<Sum>od\<leftarrow>ods. case od_buyer_amounts od of None \<Rightarrow> 0 | Some b \<Rightarrow> v (ba_price b))"
    by (simp add: total_of_orders_def fold_add_exact [OF assms(1)] zero)
  with dump have "case ?final of
        (Some price, Some _, Some _) \<Rightarrow> idp_total_price dump = to_super_unit D price (inv_buyer_currency i)
      | _ \<Rightarrow> v (idp_total_price dump) =
          (\<Sum>od\<leftarrow>idp_orders dump. case od_buyer_amounts od of None \<Rightarrow> 0 | Some b \<Rightarrow> v (ba_price b))"
    by (cases "inv_final_amount_paid i"; cases "inv_final_cashback_amount i"; cases "inv_paid_at i") simp_all
  with dump orders show ?thesis by simp
qed

text \<open>Two orders of one euro and of two dollars at 4 dollars per euro, for a buyer who pays in euros.\<close>

definition priced_order :: "uuid \<Rightarrow> currency \<Rightarrow> raw_order" where
  "priced_order u c = \<lparr>ord_id = OrderId u, ord_seller_currency = c, ord_total_amount = Amount (u * 100),
     ord_cashback_amount = Amount 0, ord_invoice_id = InvoiceId 1, ord_created_at = 0, ord_updated_at = 0,
     ord_store_id = StoreId 1, ord_state = Initial, ord_stripe_fee = None\<rparr>"

definition priced_invoice :: raw_invoice where
  "priced_invoice = \<lparr>inv_id = InvoiceId 1, inv_account_id = None, inv_buyer_currency = Eur,
     inv_amount_captured = Amount 0, inv_final_amount_paid = None, inv_final_cashback_amount = None,
     inv_paid_at = None, inv_created_at = 0, inv_updated_at = 0, inv_buyer_user_id = UserId 7,
     inv_status = OsPaymentAwaited\<rparr>"

definition dollar_rate :: "rat raw_order_exchange_rate" where
  "dollar_rate = \<lparr>rate_id = OrderExchangeRateId 1, rate_order_id = OrderId 2, rate_exchange_id = None,
     rate_exchange_rate = 4, rate_status = Active, rate_created_at = 0, rate_updated_at = 0\<rparr>"

theorem calculate_invoice_price_total_witness:
  "case calculate_invoice_price rat_bigdecimal priced_invoice
       [(priced_order 1 Eur, []), (priced_order 2 Usd, [dollar_rate])] None of
     None \<Rightarrow> False
   | Some dump \<Rightarrow> idp_total_price dump = 3 / 2 \<and> \<not> idp_has_missing_rates dump"
proof -
  let ?os = "[(priced_order 1 Eur, []), (priced_order 2 Usd, [dollar_rate])]"
  have super: "to_super_unit rat_bigdecimal (Amount 100) Eur = 1" "to_super_unit rat_bigdecimal (Amount 200) Usd = 2"
    using to_super_unit_value [OF rat_bigdecimal_laws, of "Amount 100" Eur]
      to_super_unit_value [OF rat_bigdecimal_laws, of "Amount 200" Usd]
    by (simp_all add: unit_digits.simps kept_digits.simps)
  let ?one = "\<lparr>od_id = OrderId 1, od_seller_currency = Eur, od_seller_price = 1,
        od_seller_cashback = to_super_unit rat_bigdecimal (Amount 0) Eur,
        od_buyer_amounts = Some \<lparr>ba_exchange_rate = 1, ba_currency = Eur, ba_price = 1\<rparr>, od_rates = []\<rparr>"
  let ?two = "\<lparr>od_id = OrderId 2, od_seller_currency = Usd, od_seller_price = 2,
        od_seller_cashback = to_super_unit rat_bigdecimal (Amount 0) Usd,
        od_buyer_amounts = Some \<lparr>ba_exchange_rate = 4, ba_currency = Eur, ba_price = 1 / 2\<rparr>,
        od_rates = [rate_dump_of dollar_rate]\<rparr>"
  have orders: "order_dump_of rat_bigdecimal Eur (priced_order 1 Eur, []) = Some ?one"
    "order_dump_of rat_bigdecimal Eur (priced_order 2 Usd, [dollar_rate]) = Some ?two"
    using super
    by (simp_all add: order_dump_of_def priced_order_def rate_in_use_def checked_quotient_def rat_bigdecimal_def
        dollar_rate_def)
  obtain dump where dump: "calculate_invoice_price rat_bigdecimal priced_invoice ?os None = Some dump"
    and ods: "idp_orders dump = [?one, ?two]"
    using orders by (simp add: calculate_invoice_price_def Let_def priced_invoice_def)
  from calculate_invoice_price_total [OF rat_bigdecimal_laws dump] dump ods show ?thesis
    by (simp add: priced_invoice_def is_priced_def priced_order_def dollar_rate_def)
qed

section \<open>When an invoice becomes paid\<close>

text \<open>The invoice gets the final amounts and the state \<open>Paid\<close>, and the event \<open>InvoicePaid\<close> is queued.\<close>

definition marked_paid ::
  "'d bigdecimal \<Rightarrow> raw_invoice \<Rightarrow> 'd invoice_dump \<Rightarrow> 'd db \<Rightarrow> 'd db \<Rightarrow> bool" where
  "marked_paid D i dump d e \<longleftrightarrow> (\<exists>amount cashback paid now row.
     from_super_unit D (idp_buyer_currency dump) (idp_total_price dump) = Some amount \<and>
     queued (InvoicePaid (inv_id i)) row \<and>
     e = d\<lparr>invoices_v2 := map (\<lambda>x. if inv_id x = inv_id i
             then touch_invoice (set_amount_paid_changes \<lparr>sap_final_amount_paid = amount,
               sap_final_cashback_amount = cashback, sap_paid_at = paid\<rparr>) now x else x) (invoices_v2 d),
           event_store := event_store d @ [row]\<rparr>)"

lemma set_amount_paid_success:
  assumes "set_amount_paid acl iid p w = (Inr x, t)"
  shows "\<exists>now. w_db t = (w_db w)\<lparr>invoices_v2 := map (\<lambda>x. if inv_id x = iid
    then touch_invoice (set_amount_paid_changes p) now x else x) (invoices_v2 (w_db w))\<rparr>"
proof -
  from assms obtain i u v rs where
    get: "repo (get_result (select_where invoices_v2 (\<lambda>i. inv_id i = iid))) w = (Inr i, u)"
    and check: "check_invoice acl ActWrite i u = (Inr (), v)"
    and upd: "update_where invoices_v2 set_invoices (\<lambda>i. inv_id i = iid) (touch_invoice (set_amount_paid_changes p)) v =
      (Inr (x # rs), t)"
    by (auto simp: set_amount_paid_def checked_update_def update_invoice_def success repo_def)
  from check have "w_db v = w_db u" by (rule same_dbD [OF reading.keeps_invoices_scope])
  with select_row_success [OF get] update_where_success [OF upd] show ?thesis by auto
qed

lemma set_paid_success:
  assumes "set_paid D i_acl i dump w = (Inr x, t)"
  shows "marked_paid D i dump (w_db w) (w_db t) \<and> \<not> w_aborted t"
proof -
  from assms obtain amount cashback u e where
    amount: "from_super_unit D (idp_buyer_currency dump) (idp_total_price dump) = Some amount"
    and set: "set_amount_paid i_acl (inv_id i) \<lparr>sap_final_amount_paid = amount,
      sap_final_cashback_amount = cashback, sap_paid_at = w_clock w 0\<rparr>
      (w\<lparr>w_clock := \<lambda>n. w_clock w (Suc n)\<rparr>) = (Inr e, u)"
    and queue: "and_then (new_event (InvoicePaid (inv_id i))) (\<lambda>ev. map_ok (\<lambda>_. ()) (svc (add_event ev))) u = (Inr (), t)"
    by (auto simp: set_paid_def and_then_success [where m = "unwrap _"] and_then_success [where m = utc_now]
        and_then_success [where m = "svc _"] unwrap_success svc_success)
  from queue obtain ev where "queue_event (InvoicePaid (inv_id i)) u = (Inr ev, t)"
    by (auto simp: queue_event_def success)
  from queue_event_success [OF this] obtain row where
    t: "w_db t = (w_db u)\<lparr>event_store := event_store (w_db u) @ [row]\<rparr>" "queued (InvoicePaid (inv_id i)) row"
    "\<not> w_aborted t" by auto
  from set_amount_paid_success [OF set] obtain now where
    "w_db u = (w_db w)\<lparr>invoices_v2 := map (\<lambda>x. if inv_id x = inv_id i
       then touch_invoice (set_amount_paid_changes \<lparr>sap_final_amount_paid = amount,
         sap_final_cashback_amount = cashback, sap_paid_at = w_clock w 0\<rparr>) now x else x) (invoices_v2 (w_db w))\<rparr>"
    by auto
  with t amount show ?thesis unfolding marked_paid_def by auto
qed

lemma invoices_get_success:
  assumes "invoices_get acl iid w = (Inr found, t)"
  shows "row_by (\<lambda>i. inv_id i = iid) (invoices_v2 (w_db w)) = found"
proof -
  from assms obtain x u where get: "repo (optional (get_result (select_where invoices_v2 (\<lambda>i. inv_id i = iid)))) w = (Inr x, u)"
    and rest: "(case x of None \<Rightarrow> ok None | Some i \<Rightarrow> and_then (check_invoice acl ActRead i) (\<lambda>_. ok (Some i))) u = (Inr found, t)"
    unfolding invoices_get_def and_then_success by blast
  from rest have "x = found" by (cases x) (auto simp: success)
  with first_row_success [OF get] show ?thesis by simp
qed

lemma price_and_set_paid_success:
  assumes "price_and_set_paid D i_acl o_acl r_acl a_acl iid w = (Inr dump, t)"
  shows "\<exists>i. row_by (\<lambda>i. inv_id i = iid) (invoices_v2 (w_db w)) = Some i \<and>
    (if inv_paid_at i = None \<and> has_become_paid D i dump
     then marked_paid D i dump (w_db w) (w_db t) \<and> \<not> w_aborted t else w_db t = w_db w)"
proof -
  from assms obtain i u d v where get: "invoices_get i_acl iid w = (Inr (Some i), u)"
    and price: "get_invoice_price D o_acl r_acl a_acl i u = (Inr d, v)"
    and last: "(if inv_paid_at i \<noteq> None \<or> \<not> has_become_paid D i d then ok d
      else map_ok (\<lambda>_. d) (set_paid D i_acl i d)) v = (Inr dump, t)"
    unfolding price_and_set_paid_def and_then_success svc_success ok_or_success by blast
  have d: "d = dump" using last by (auto simp: success split: if_splits)
  from last have rest: "inv_paid_at i = None \<and> has_become_paid D i dump \<and> (\<exists>x. set_paid D i_acl i dump v = (Inr x, t)) \<or>
      \<not> (inv_paid_at i = None \<and> has_become_paid D i dump) \<and> t = v"
    by (simp add: d success split: if_splits)
  have "w_db u = w_db w" using get by (rule same_dbD [OF reading.keeps_invoice_queries(1)])
  moreover have "w_db v = w_db u" using price by (rule same_dbD [OF reading.keeps_invoice_price(2)])
  moreover note invoices_get_success [OF get] rest
  ultimately show ?thesis by (auto dest: set_paid_success)
qed

text \<open>C5: An invoice is marked as paid exactly when it was not paid before, no rate is missing and the
  captured amount covers the total price; then the final amount is the total price and one event
  \<open>InvoicePaid\<close> is queued in the same transaction. In every other case, whatever statement fails,
  nothing is changed.\<close>

theorem invoice_paid_exactly_when_covered:
  "ends (calculate_invoice_price_and_set_final_price_if_paid D i_acl o_acl r_acl a_acl iid) w (\<lambda>r t.
     case r of
       Inl _ \<Rightarrow> w_db t = w_db w
     | Inr dump \<Rightarrow> (\<exists>i. row_by (\<lambda>i. inv_id i = iid) (invoices_v2 (w_db w)) = Some i \<and>
         (if inv_paid_at i = None \<and> \<not> idp_has_missing_rates dump \<and>
             bd_le D (idp_total_price dump) (to_super_unit D (inv_amount_captured i) (idp_buyer_currency dump))
          then marked_paid D i dump (w_db w) (w_db t) else w_db t = w_db w)))"
proof (rule endsI)
  fix r t
  assume run: "calculate_invoice_price_and_set_final_price_if_paid D i_acl o_acl r_acl a_acl iid w = (r, t)"
  show "case r of
       Inl _ \<Rightarrow> w_db t = w_db w
     | Inr dump \<Rightarrow> (\<exists>i. row_by (\<lambda>i. inv_id i = iid) (invoices_v2 (w_db w)) = Some i \<and>
         (if inv_paid_at i = None \<and> \<not> idp_has_missing_rates dump \<and>
             bd_le D (idp_total_price dump) (to_super_unit D (inv_amount_captured i) (idp_buyer_currency dump))
          then marked_paid D i dump (w_db w) (w_db t) else w_db t = w_db w))"
  proof (cases r)
    case (Inl e)
    with run show ?thesis
      by (auto simp: calculate_invoice_price_and_set_final_price_if_paid_def dest: transaction_error_db)
  next
    case (Inr dump)
    from transaction_inner [OF run [unfolded calculate_invoice_price_and_set_final_price_if_paid_def Inr]]
    obtain u where body: "price_and_set_paid D i_acl o_acl r_acl a_acl iid (inner_world w) = (Inr dump, u)"
      and t: "w_db t = w_db u \<and> \<not> w_aborted u \<or> w_db t = w_db w \<and> w_aborted u" by auto
    from price_and_set_paid_success [OF body, unfolded has_become_paid_def] t Inr show ?thesis by auto
  qed
qed

end
