(* ===== verification/InvoiceService.thy ===== *)
theory InvoiceService
  imports Prelude Models World Authorization Tables Clients EventStore InvoicesRepo OrdersRepo RatesRepo
    AccountsRepo PaymentIntentsRepo Services Triples AccountService InvoicePricing
begin

text \<open>
  \<open>services/invoice.rs\<close> for the current tables (the functions with the suffix \<open>v2\<close>): creating an
  invoice with its orders, rates and payment, reading and recalculating it, deleting it, and the
  callback of the payments gateway for an inbound transaction.
\<close>

section \<open>Configuration\<close>

text \<open>\<open>cfg_ture\<close>: the payments gateway is configured, so that there are a payments client and an account
  service.\<close>

record service_config =
  cfg_ture :: bool
  cfg_accounts :: account_config
  cfg_crypto_timeout_min :: "32 word"
  cfg_fiat_timeout_min :: "32 word"
  cfg_sign_public_key :: "string option"
  cfg_order_percent :: "64 word"
  cfg_fee_currency_code :: string

definition minutes :: "32 word \<Rightarrow> int" where
  "minutes n = uint n * 60 * 1000000"

section \<open>Requests\<close>

record order_item_v1 =
  orq_id :: uuid
  orq_store_id :: int
  orq_price :: f64
  orq_quantity :: i32
  orq_currency :: stq_currency
  orq_total_amount :: f64
  orq_product_cashback :: "f64 option"

record create_invoice_v1 =
  cir_orders :: "order_item_v1 list"
  cir_customer_id :: stq_user_id
  cir_currency :: stq_currency
  cir_saga_id :: uuid

record create_order_v2 =
  co_id :: order_id
  co_store_id :: store_id
  co_currency :: currency
  co_total_amount :: f64
  co_product_cashback :: "f64 option"

record create_invoice_v2_payload =
  ci_orders :: "create_order_v2 list"
  ci_customer_id :: user_id
  ci_currency :: currency
  ci_saga_id :: invoice_id

definition create_order_try_from_v1 :: "order_item_v1 \<Rightarrow> unit + create_order_v2" where
  "create_order_try_from_v1 o1 =
     (case try_from_stq_currency (orq_currency o1) of
        Inl _ \<Rightarrow> Inl ()
      | Inr c \<Rightarrow> Inr \<lparr>co_id = OrderId (orq_id o1), co_store_id = StoreId (orq_store_id o1), co_currency = c,
          co_total_amount = orq_total_amount o1, co_product_cashback = orq_product_cashback o1\<rparr>)"

definition create_invoice_try_from_v1 :: "create_invoice_v1 \<Rightarrow> unit + create_invoice_v2_payload" where
  "create_invoice_try_from_v1 i1 =
     (case result_map create_order_try_from_v1 (cir_orders i1) of
        Inl e \<Rightarrow> Inl e
      | Inr os \<Rightarrow>
          (case try_from_stq_currency (cir_currency i1) of
             Inl _ \<Rightarrow> Inl ()
           | Inr c \<Rightarrow> Inr \<lparr>ci_orders = os, ci_customer_id = UserId (cir_customer_id i1), ci_currency = c,
               ci_saga_id = InvoiceId (cir_saga_id i1)\<rparr>))"

section \<open>Creating an invoice\<close>

text \<open>Both conversions of the amounts may panic.\<close>

definition new_order_of :: "'d bigdecimal \<Rightarrow> invoice_id \<Rightarrow> create_order_v2 \<Rightarrow> new_order option" where
  "new_order_of D iid co =
     (case bd_from_f64 D (co_total_amount co) of
        None \<Rightarrow> None
      | Some total_decimal \<Rightarrow>
          (case from_super_unit D (co_currency co) total_decimal of
             None \<Rightarrow> None
           | Some amount \<Rightarrow>
               map_option (\<lambda>cashback.
                   \<lparr>no_id = co_id co, no_seller_currency = co_currency co, no_total_amount = amount,
                    no_cashback_amount = cashback, no_invoice_id = iid, no_store_id = co_store_id co\<rparr>)
                 (case co_product_cashback co of
                    None \<Rightarrow> Some (Amount 0)
                  | Some fraction \<Rightarrow>
                      Option.bind (bd_from_f64 D fraction) (\<lambda>f.
                        from_super_unit D (co_currency co) (bd_mul D total_decimal f)))))"

type_synonym 'd priced_order = "new_order \<times> exchange_id option \<times> 'd"

definition exchage_rate_fiat ::
  "'d bigdecimal \<Rightarrow> new_order \<Rightarrow> currency \<Rightarrow> currency \<Rightarrow> service_error + 'd priced_order" where
  "exchage_rate_fiat D order buyer seller =
     (if buyer \<noteq> seller
      then Inl (SValidation [(''buyer_currency'', currency_display buyer), (''seller_currency'', currency_display seller)])
      else Inr (order, None, bd_from_int D 1))"

definition exchage_rate_crypto ::
  "'d bigdecimal \<Rightarrow> 'd env \<Rightarrow> new_order \<Rightarrow> currency \<Rightarrow> currency \<Rightarrow> amount \<Rightarrow>
   ('d world, service_error, 'd priced_order) comp" where
  "exchage_rate_crypto D env order buyer seller tot =
     and_then (of_result (to_ture_currency buyer)) (\<lambda>b.
     and_then (of_result (to_ture_currency seller)) (\<lambda>s.
     map_ok (\<lambda>(eid, rate). (order, eid, rate)) (get_rate D env b s tot)))"

definition price_order ::
  "'d bigdecimal \<Rightarrow> 'd env \<Rightarrow> currency \<Rightarrow> invoice_id \<Rightarrow> create_order_v2 \<Rightarrow>
   ('d world, service_error, 'd priced_order) comp" where
  "price_order D env buyer iid co =
     and_then (unwrap (new_order_of D iid co)) (\<lambda>order.
     let seller = co_currency co in
     case (is_fiat buyer, is_fiat seller) of
       (True, True) \<Rightarrow> of_result (exchage_rate_fiat D order buyer seller)
     | (False, False) \<Rightarrow> exchage_rate_crypto D env order buyer seller (no_total_amount order)
     | _ \<Rightarrow> err SInternal)"

definition exchanged_amount :: "'d bigdecimal \<Rightarrow> 'd priced_order list \<Rightarrow> 'd option" where
  "exchanged_amount D os =
     map_option (\<lambda>prices. fold (\<lambda>p acc. bd_add D acc p) prices (bd_from_int D 0))
       (those (map (\<lambda>(order, _, rate). checked_quotient D (amount_to_decimal D (no_total_amount order)) rate) os))"

definition invoice_payment_intent_params ::
  "'d bigdecimal \<Rightarrow> 'd env \<Rightarrow> 'd priced_order list \<Rightarrow> currency \<Rightarrow> service_error + stripe_new_payment_intent" where
  "invoice_payment_intent_params D env os buyer =
     (case exchanged_amount D os of
        None \<Rightarrow> Inl SPanic
      | Some amount_sum \<Rightarrow>
          (case bd_to_u64 D amount_sum of
             None \<Rightarrow> Inl SInternal
           | Some amount \<Rightarrow>
               (case try_into_stripe_currency (stripe_currency_from_str env) buyer of
                  Inl _ \<Rightarrow> Inl SInternal
                | Inr c \<Rightarrow> Inr \<lparr>snpi_amount = amount, snpi_currency = c, snpi_capture_method = Some CaptureAutomatic\<rparr>)))"

definition new_invoice_payment_intent ::
  "invoice_id \<Rightarrow> stripe_payment_intent \<Rightarrow> service_error + (new_payment_intent \<times> new_payment_intent_invoice)" where
  "new_invoice_payment_intent iid s =
     (case try_from_stripe_currency id (spi_currency s) of
        Inl _ \<Rightarrow> Inl SInternal
      | Inr c \<Rightarrow> Inr
          (\<lparr>npi_id = PaymentIntentId (spi_id s), npi_amount = amount_from_u64 (spi_amount s),
            npi_amount_received = amount_from_u64 (spi_amount_received s),
            npi_client_secret = spi_client_secret s, npi_currency = c,
            npi_last_payment_error_message = spi_last_payment_error s,
            npi_receipt_email = spi_receipt_email s,
            npi_charge_id = (case spi_charges s of [] \<Rightarrow> None | x # _ \<Rightarrow> Some (ChargeId (sc_id x))),
            npi_status = spi_status s\<rparr>,
           \<lparr>npii_invoice_id = iid, npii_payment_intent_id = PaymentIntentId (spi_id s)\<rparr>))"

definition create_payment_intent ::
  "'d bigdecimal \<Rightarrow> 'd env \<Rightarrow> 'd priced_order list \<Rightarrow> invoice_id \<Rightarrow> currency \<Rightarrow>
   ('d world, service_error, new_payment_intent \<times> new_payment_intent_invoice) comp" where
  "create_payment_intent D env os iid buyer =
     and_then (of_result (invoice_payment_intent_params D env os buyer)) (\<lambda>input.
     and_then (svc_client (call_client (stripe_create_payment_intent env) (StripeCreatePaymentIntent input) input)) (\<lambda>s.
     of_result (new_invoice_payment_intent iid s)))"

text \<open>The payment of the invoice: a payment intent or an account of the gateway.\<close>

type_synonym payment_means =
  "account_id option \<times> wallet_address option \<times> (new_payment_intent \<times> new_payment_intent_invoice) option"

definition payment_of_invoice ::
  "'d bigdecimal \<Rightarrow> (uuid \<Rightarrow> string) \<Rightarrow> 'd env \<Rightarrow> service_config \<Rightarrow> 'd priced_order list \<Rightarrow> invoice_id \<Rightarrow> currency \<Rightarrow>
   ('d world, service_error, payment_means) comp" where
  "payment_of_invoice D hyphenated env cfg os iid buyer =
     (if is_fiat buyer
      then map_ok (\<lambda>p. (None, None, Some p)) (create_payment_intent D env os iid buyer)
      else
        and_then (of_result (to_ture_currency buyer)) (\<lambda>c.
        map_ok (\<lambda>a. (Some (acc_id a), Some (acc_wallet_address a), None))
          (get_or_create_free_pooled_account hyphenated env (cfg_accounts cfg) c)))"

definition create_order_with_rate ::
  "acl \<Rightarrow> acl \<Rightarrow> 'd priced_order \<Rightarrow> ('d world, service_error, raw_order \<times> 'd raw_order_exchange_rate list) comp" where
  "create_order_with_rate o_acl r_acl = (\<lambda>(new_order, eid, rate).
     and_then (svc (orders_create o_acl new_order)) (\<lambda>order.
     and_then (svc (add_new_active_rate r_acl
       \<lparr>nr_order_id = no_id new_order, nr_exchange_id = eid, nr_exchange_rate = rate\<rparr>)) (\<lambda>rates.
     ok (order, [lr_active_rate rates]))))"

definition insert_invoice_with_orders ::
  "'d bigdecimal \<Rightarrow> acl \<Rightarrow> acl \<Rightarrow> acl \<Rightarrow> create_invoice_v2_payload \<Rightarrow> 'd priced_order list \<Rightarrow> payment_means \<Rightarrow>
   ('d world, service_error, 'd invoice_dump) comp" where
  "insert_invoice_with_orders D i_acl o_acl r_acl ci os = (\<lambda>(aid, wallet, intent).
     and_then (svc (invoices_create i_acl
       \<lparr>ni_id = ci_saga_id ci, ni_account_id = aid, ni_buyer_currency = ci_currency ci,
        ni_amount_captured = Amount 0, ni_buyer_user_id = ci_customer_id ci\<rparr>)) (\<lambda>invoice.
     and_then (case intent of
         None \<Rightarrow> ok ()
       | Some (p, link) \<Rightarrow>
           and_then (svc (pis_create SystemACL p)) (\<lambda>_. map_ok (\<lambda>_. ()) (svc (piis_create SystemACL link)))) (\<lambda>_.
     and_then (try_map (create_order_with_rate o_acl r_acl) os) (\<lambda>ors.
     unwrap (calculate_invoice_price D invoice ors wallet)))))"

text \<open>The event \<open>PaymentExpired\<close> is scheduled before the transaction that inserts the invoice.\<close>

definition save_invoice ::
  "'d bigdecimal \<Rightarrow> service_config \<Rightarrow> stq_user_id option \<Rightarrow> create_invoice_v2_payload \<Rightarrow> 'd priced_order list \<Rightarrow> payment_means \<Rightarrow>
   ('d world, service_error, 'd invoice_dump) comp" where
  "save_invoice D cfg user ci os means =
     pool (and_then (new_event (PaymentExpired (ci_saga_id ci))) (\<lambda>ev.
       and_then utc_now (\<lambda>now.
       let timeout = (if snd (snd means) = None then cfg_crypto_timeout_min cfg else cfg_fiat_timeout_min cfg) in
       and_then (svc (add_scheduled_event ev (now + minutes timeout))) (\<lambda>_.
       and_then (get_acl user) (\<lambda>i_acl.
       and_then (get_acl user) (\<lambda>o_acl.
       and_then (get_acl user) (\<lambda>r_acl.
       transaction service_error_of_diesel (insert_invoice_with_orders D i_acl o_acl r_acl ci os means))))))))"

definition create_invoice_v2 ::
  "'d bigdecimal \<Rightarrow> (uuid \<Rightarrow> string) \<Rightarrow> 'd env \<Rightarrow> service_config \<Rightarrow> stq_user_id option \<Rightarrow> create_invoice_v2_payload \<Rightarrow>
   ('d world, service_error, 'd invoice_dump) comp" where
  "create_invoice_v2 D hyphenated env cfg user ci =
     (if \<not> cfg_ture cfg then err SInternal
      else
        and_then (try_map (price_order D env (ci_currency ci) (ci_saga_id ci)) (ci_orders ci)) (\<lambda>os.
        and_then (payment_of_invoice D hyphenated env cfg os (ci_saga_id ci) (ci_currency ci)) (\<lambda>means.
        save_invoice D cfg user ci os means)))"

definition service_create_invoice ::
  "'d bigdecimal \<Rightarrow> (uuid \<Rightarrow> string) \<Rightarrow> 'd env \<Rightarrow> service_config \<Rightarrow> stq_user_id option \<Rightarrow> create_invoice_v1 \<Rightarrow>
   ('d world, service_error, invoice_v1) comp" where
  "service_create_invoice D hyphenated env cfg user i1 =
     (if \<not> cfg_ture cfg then err SInternal
      else
        and_then (of_result (map_sum (\<lambda>_. SInternal) id (create_invoice_try_from_v1 i1))) (\<lambda>ci.
        and_then (create_invoice_v2 D hyphenated env cfg user ci) (\<lambda>dump.
        dump_try_into_v1 D dump)))"

section \<open>Reading and recalculating an invoice\<close>

definition get_missing_rates_and_refresh ::
  "'d bigdecimal \<Rightarrow> 'd env \<Rightarrow> service_config \<Rightarrow> stq_user_id option \<Rightarrow> raw_invoice \<Rightarrow>
   (raw_order \<times> 'd raw_order_exchange_rate option) list \<Rightarrow> ('d world, service_error, unit) comp" where
  "get_missing_rates_and_refresh D env cfg user i current =
     (if \<not> cfg_ture cfg then err SInternal
      else
        and_then (of_result (to_ture_currency (inv_buyer_currency i))) (\<lambda>buyer.
        and_then (refresh_rates D env buyer current) (\<lambda>rates.
        pool (and_then (get_acl user) (\<lambda>r_acl. save_rates r_acl rates)))))"

definition load_invoice ::
  "stq_user_id option \<Rightarrow> invoice_id \<Rightarrow>
   ('d world, service_error,
    (raw_invoice \<times> (raw_order \<times> 'd raw_order_exchange_rate option) list \<times> wallet_address option) option) comp" where
  "load_invoice user iid =
     pool (and_then (get_acl user) (\<lambda>i_acl.
       and_then (get_acl user) (\<lambda>o_acl.
       and_then (get_acl user) (\<lambda>r_acl.
       and_then (svc (invoices_get i_acl iid)) (\<lambda>found.
       case found of
         None \<Rightarrow> ok None
       | Some i \<Rightarrow>
           and_then (get_order_active_rates o_acl r_acl iid) (\<lambda>current.
           and_then (account_wallet SystemACL (inv_account_id i)) (\<lambda>wallet.
           ok (Some (i, current, wallet)))))))))"

definition recalc_invoice_v2 ::
  "'d bigdecimal \<Rightarrow> 'd env \<Rightarrow> service_config \<Rightarrow> stq_user_id option \<Rightarrow> invoice_id \<Rightarrow>
   ('d world, service_error, 'd invoice_dump option) comp" where
  "recalc_invoice_v2 D env cfg user iid =
     and_then (load_invoice user iid) (\<lambda>data.
     case data of
       None \<Rightarrow> ok None
     | Some (i, current, wallet) \<Rightarrow>
         map_ok Some
           (if inv_paid_at i \<noteq> None
            then unwrap (calculate_invoice_price D i
                   (map (\<lambda>(order, rate). (order, case rate of None \<Rightarrow> [] | Some r \<Rightarrow> [r])) current) wallet)
            else
              and_then (if is_fiat (inv_buyer_currency i) then ok ()
                        else get_missing_rates_and_refresh D env cfg user i current) (\<lambda>_.
              pool (and_then (get_acl user) (\<lambda>i_acl.
                and_then (get_acl user) (\<lambda>o_acl.
                and_then (get_acl user) (\<lambda>r_acl.
                calculate_invoice_price_and_set_final_price_if_paid D i_acl o_acl r_acl SystemACL (inv_id i))))))))"

definition get_invoice_by_order_id_v2 ::
  "'d bigdecimal \<Rightarrow> 'd env \<Rightarrow> service_config \<Rightarrow> stq_user_id option \<Rightarrow> order_id \<Rightarrow>
   ('d world, service_error, 'd invoice_dump option) comp" where
  "get_invoice_by_order_id_v2 D env cfg user oid =
     and_then (pool (and_then (get_acl user) (\<lambda>acl. svc (orders_get acl oid)))) (\<lambda>found.
     case found of
       None \<Rightarrow> ok None
     | Some order \<Rightarrow>
         and_then (recalc_invoice_v2 D env cfg user (ord_invoice_id order)) (\<lambda>dump.
         map_ok Some (ok_or SInternal dump)))"

definition get_invoice_orders_ids_v2 ::
  "stq_user_id option \<Rightarrow> invoice_id \<Rightarrow> ('d world, service_error, order_id list) comp" where
  "get_invoice_orders_ids_v2 user iid =
     pool (and_then (get_acl user) (\<lambda>acl. map_ok (map ord_id) (svc (get_many_by_invoice_id acl iid))))"

section \<open>Deleting an invoice\<close>

text \<open>As a \<open>failure::Error\<close> an error loses its kind, but not its chain of causes: that a permission was
  missing is still seen, since \<open>acl::check\<close> has put \<open>errors::Error::Forbidden\<close> into the chain.\<close>

definition failing :: "('s, service_error, 'a) comp \<Rightarrow> ('s, service_error, 'a) comp" where
  "failing m = map_err (\<lambda>e. case e of SForbidden \<Rightarrow> SForbidden | SPanic \<Rightarrow> SPanic | _ \<Rightarrow> SInternal) m"

definition delete_invoice_body ::
  "acl \<Rightarrow> acl \<Rightarrow> acl \<Rightarrow> acl \<Rightarrow> invoice_id \<Rightarrow> ('d world, service_error, payment_intent option) comp" where
  "delete_invoice_body i_acl o_acl r_acl p_acl iid =
     and_then (failing (svc (orders_delete_by_invoice_id o_acl iid))) (\<lambda>deleted.
     and_then (for_each (\<lambda>order. failing (svc (delete_by_order_id r_acl (ord_id order)))) deleted) (\<lambda>_.
     and_then (failing (svc (piis_get SystemACL (PiiInvoiceId iid)))) (\<lambda>found.
     and_then (ok_or SInternal found) (\<lambda>link.
     and_then (failing (svc (pis_delete p_acl (pii_payment_intent_id link)))) (\<lambda>deleted_intent.
     and_then (failing (svc (invoices_delete i_acl iid))) (\<lambda>_.
     ok deleted_intent))))))"

definition delete_invoice_by_saga_id_v2 ::
  "'d env \<Rightarrow> stq_user_id option \<Rightarrow> uuid \<Rightarrow> ('d world, service_error, uuid) comp" where
  "delete_invoice_by_saga_id_v2 env user u =
     and_then (pool (and_then (get_acl user) (\<lambda>i_acl.
         and_then (get_acl user) (\<lambda>o_acl.
         and_then (get_acl user) (\<lambda>r_acl.
         and_then (get_acl user) (\<lambda>p_acl.
         transaction (\<lambda>_. SInternal) (delete_invoice_body i_acl o_acl r_acl p_acl (InvoiceId u)))))))) (\<lambda>deleted.
     and_then (case deleted of
         None \<Rightarrow> ok ()
       | Some p \<Rightarrow> map_ok (\<lambda>_. ()) (failing (svc_client
           (call_client (stripe_cancel_payment_intent env) (StripeCancelPaymentIntent (pi_id p)) (pi_id p))))) (\<lambda>_.
     ok u))"

section \<open>The callback for an inbound transaction\<close>

text \<open>Every two hexadecimal digits make a byte; other characters are skipped.\<close>

definition hex_digit :: "char \<Rightarrow> 8 word option" where
  "hex_digit c =
     (let b = of_char c :: nat in
      if 48 \<le> b \<and> b \<le> 57 then Some (of_nat (b - 48))
      else if 97 \<le> b \<and> b \<le> 102 then Some (of_nat (b - 97 + 10))
      else if 65 \<le> b \<and> b \<le> 70 then Some (of_nat (b - 65 + 10))
      else None)"

fun hex_pairs :: "8 word list \<Rightarrow> 8 word list" where
  "hex_pairs (h # l # rest) = or (push_bit 4 h) l # hex_pairs rest"
| "hex_pairs _ = []"

definition parse_hex :: "string \<Rightarrow> 8 word list" where
  "parse_hex s = hex_pairs (List.map_filter hex_digit s)"

text \<open>The cryptography of \<open>sha2\<close> and \<open>secp256k1\<close>: the digest, which bytes are a message, a key or a
  signature, and the verification.\<close>

record crypto =
  sha256 :: "string \<Rightarrow> 8 word list"
  message_ok :: "8 word list \<Rightarrow> bool"
  public_key_ok :: "8 word list \<Rightarrow> bool"
  signature_ok :: "8 word list \<Rightarrow> bool"
  secp_verify :: "8 word list \<Rightarrow> 8 word list \<Rightarrow> 8 word list \<Rightarrow> bool"

definition check_ture_sign :: "crypto \<Rightarrow> string \<Rightarrow> string \<Rightarrow> string \<Rightarrow> service_error + unit" where
  "check_ture_sign C sign_public_key signature body =
     (let message = sha256 C body; key = parse_hex sign_public_key; sig = parse_hex signature in
      if \<not> message_ok C message then Inl SForbidden
      else if \<not> public_key_ok C key then Inl SForbidden
      else if \<not> signature_ok C sig then Inl SForbidden
      else if \<not> secp_verify C message sig key then Inl SForbidden
      else Inr ())"

definition account_of_callback :: "payments_callback \<Rightarrow> ('d world, service_error, account_id) comp" where
  "account_of_callback cb =
     (case cb_account_id cb of
        Some aid \<Rightarrow> ok aid
      | None \<Rightarrow>
          and_then (svc (get_by_wallet_address SystemACL (cb_address cb))) (\<lambda>found.
          map_ok acc_id (ok_or SNotFound found)))"

text \<open>A transaction that has been received before violates a constraint: the invoice is read again.\<close>

definition receive_amount ::
  "account_id \<Rightarrow> transaction_id \<Rightarrow> amount \<Rightarrow> ('d world, service_error, raw_invoice) comp" where
  "receive_amount aid tx amount =
     or_else (increase_amount_captured SystemACL aid tx amount) (\<lambda>e.
       case e of
         RConstraints _ \<Rightarrow>
           and_then (svc (invoices_get_by_account_id SystemACL aid)) (\<lambda>found. ok_or SInternal found)
       | _ \<Rightarrow> err (service_error_of_repo e))"

definition credit_invoice ::
  "crypto \<Rightarrow> string \<Rightarrow> string \<Rightarrow> payments_callback \<Rightarrow> string \<Rightarrow> ('d world, service_error, raw_invoice) comp" where
  "credit_invoice C sign_public_key signature cb body =
     pool (and_then (of_result (check_ture_sign C sign_public_key signature body)) (\<lambda>_.
       and_then (account_of_callback cb) (\<lambda>aid.
       and_then (ok_or SInternal (amount_from_str (cb_amount_captured cb))) (\<lambda>amount.
       and_then (svc (invoices_get_by_account_id SystemACL aid)) (\<lambda>found.
       if found = None then err SNotFound
       else receive_amount aid (cb_transaction_id cb) amount)))))"

definition recalc_received ::
  "'d bigdecimal \<Rightarrow> 'd env \<Rightarrow> raw_invoice \<Rightarrow> ('d world, service_error, unit) comp" where
  "recalc_received D env i =
     and_then (pool (get_order_active_rates SystemACL SystemACL (inv_id i))) (\<lambda>current.
     and_then (of_result (to_ture_currency (inv_buyer_currency i))) (\<lambda>buyer.
     and_then (refresh_rates D env buyer current) (\<lambda>rates.
     and_then (pool (save_rates SystemACL rates)) (\<lambda>_.
     map_ok (\<lambda>_. ()) (pool (calculate_invoice_price_and_set_final_price_if_paid D SystemACL SystemACL SystemACL
       SystemACL (inv_id i)))))))"

definition handle_inbound_tx ::
  "'d bigdecimal \<Rightarrow> crypto \<Rightarrow> 'd env \<Rightarrow> service_config \<Rightarrow> string \<Rightarrow> payments_callback \<Rightarrow> string \<Rightarrow>
   ('d world, service_error, unit) comp" where
  "handle_inbound_tx D C env cfg signature cb body =
     (if \<not> cfg_ture cfg then err SInternal
      else case cfg_sign_public_key cfg of
        None \<Rightarrow> err SInternal
      | Some key \<Rightarrow>
          then_res (and_then (credit_invoice C key signature cb body) (\<lambda>i.
              if inv_paid_at i = None then recalc_received D env i else ok ())) (\<lambda>res.
            case res of
              Inl e \<Rightarrow> if e = SNotFound then ok () else err e
            | Inr r \<Rightarrow> ok r))"

section \<open>Fees of orders paid in crypto currencies\<close>

definition create_crypto_fee ::
  "'d bigdecimal \<Rightarrow> 64 word \<Rightarrow> currency \<Rightarrow> currency_exchange_info \<Rightarrow> raw_order \<Rightarrow> service_error + new_fee" where
  "create_crypto_fee D order_percent fc info order =
     (let c = ord_seller_currency order in
      case Option.bind (map_of (cei_data info) c) (\<lambda>rates. map_of rates fc) of
        None \<Rightarrow> Inl SInternal
      | Some rate \<Rightarrow>
          (case Option.bind (bd_from_f64 D rate) (\<lambda>r.
                Option.bind (checked_quotient D (to_super_unit D (ord_total_amount order) c) r)
                  (from_super_unit D fc)) of
             None \<Rightarrow> Inl SPanic
           | Some converted \<Rightarrow>
               (case Option.bind (checked_div converted (amount_from_u64 100)) (\<lambda>one_percent.
                     checked_mul one_percent (amount_from_u64 order_percent)) of
                  None \<Rightarrow> Inl SInternal
                | Some a \<Rightarrow> Inr \<lparr>nf_order_id = ord_id order, nf_amount = a, nf_status = NotPaid,
                    nf_currency = fc, nf_charge_id = None, nf_crypto_currency = Some c,
                    nf_crypto_amount = Some (ord_total_amount order)\<rparr>)))"

section \<open>Deletion\<close>

text \<open>The foreign key from the links between payment intents and invoices to the payment intents.\<close>

definition intents_linked :: "'d db \<Rightarrow> bool" where
  "intents_linked d \<longleftrightarrow>
     (\<forall>x\<in>set (payment_intents_invoices d). pii_payment_intent_id x \<in> pi_id ` set (payment_intents d))"

definition same_intents :: "'d db \<Rightarrow> 'd db \<Rightarrow> bool" where
  "same_intents d e \<longleftrightarrow> payment_intents e = payment_intents d \<and> payment_intents_invoices e = payment_intents_invoices d"

interpretation intents: db_relation same_intents
  by unfold_locales (auto simp: same_intents_def)

lemma keeps_failing [keeps_intros]: "keeps R m \<Longrightarrow> keeps R (failing m)"
  unfolding failing_def keeps_def map_err_def by (auto split: prod.splits) (metis snd_conv)

lemma failing_success [success]: "failing m w = (Inr x, t) \<longleftrightarrow> m w = (Inr x, t)"
  by (simp add: failing_def success)

lemma internally_success [success]: "internally m w = (Inr x, t) \<longleftrightarrow> m w = (Inr x, t)"
  by (simp add: internally_def success)

lemma keeps_intents_orders_delete [keeps_intros]:
  "keeps (\<lambda>s t. same_intents (w_db s) (w_db t)) (orders_delete_by_invoice_id acl iid)"
  unfolding orders_delete_by_invoice_id_def
  by (intro keeps_intros intents.keeps_execute) (auto simp: same_intents_def dest: delete_orders_where_frame)

lemma keeps_intents_rates_delete [keeps_intros]:
  "keeps (\<lambda>s t. same_intents (w_db s) (w_db t)) (delete_by_order_id acl oid)"
  unfolding delete_by_order_id_def by (intro keeps_intros intents.keeps_delete_where) (simp add: same_intents_def)

lemma delete_linked_intent:
  assumes "pis_delete acl pid w = (Inr x, t)" and "pid \<in> pi_id ` set (payment_intents (w_db w))"
  shows "\<forall>y\<in>set (payment_intents_invoices (w_db w)). pii_payment_intent_id y \<noteq> pid"
proof -
  from assms(1) obtain u where check: "check acl ResPaymentIntent ActWrite payment_intents_in_scope None w = (Inr (), u)"
    and run: "optional (get_result (execute (delete_payment_intents_where (\<lambda>p. pi_id p = pid)))) u = (Inr x, t)"
    by (auto simp: pis_delete_def success repo_def)
  from check have u: "w_db u = w_db w" by (rule same_dbD [OF reading.keeps_check_payment_intent])
  from run obtain gone where "execute (delete_payment_intents_where (\<lambda>p. pi_id p = pid)) u = (Inr gone, t)"
    by (auto simp: optional_success get_result_success)
       (auto simp: get_result_def and_then_def execute_def delete_payment_intents_where_def Let_def
          split: prod.splits sum.splits list.splits if_splits)
  from execute_success [OF this] u assms(2) show ?thesis
    by (auto simp: delete_payment_intents_where_def delete_rows_def Let_def split: if_splits)
qed

lemma delete_invoice_body_fails:
  assumes "intents_linked (w_db w)"
  shows "delete_invoice_body i_acl o_acl r_acl p_acl iid w \<noteq> (Inr x, t)"
proof
  assume "delete_invoice_body i_acl o_acl r_acl p_acl iid w = (Inr x, t)"
  then obtain gone w1 w2 link w3 p w4 where
    orders: "orders_delete_by_invoice_id o_acl iid w = (Inr gone, w1)"
    and rates: "for_each (\<lambda>order. failing (svc (delete_by_order_id r_acl (ord_id order)))) gone w1 = (Inr (), w2)"
    and link: "piis_get SystemACL (PiiInvoiceId iid) w2 = (Inr (Some link), w3)"
    and del: "pis_delete p_acl (pii_payment_intent_id link) w3 = (Inr p, w4)"
    unfolding delete_invoice_body_def and_then_success failing_success svc_success ok_or_success by auto
  have "same_intents (w_db w) (w_db w1)" using orders by (rule keepsD [OF keeps_intents_orders_delete])
  moreover have "same_intents (w_db w1) (w_db w2)"
    using rates by (rule keepsD [rotated]) (intro keeps_intros)
  moreover have "w_db w3 = w_db w2" using link by (rule same_dbD [rotated]) (unfold piis_get_def, intro keeps_intros)
  ultimately have same: "payment_intents (w_db w3) = payment_intents (w_db w)"
      "payment_intents_invoices (w_db w3) = payment_intents_invoices (w_db w)"
      "payment_intents_invoices (w_db w2) = payment_intents_invoices (w_db w)"
    by (simp_all add: same_intents_def)
  obtain y where "row_by (pii_matches (PiiInvoiceId iid)) (payment_intents_invoices (w_db w2)) = Some link"
    using link first_row_success [of payment_intents_invoices "pii_matches (PiiInvoiceId iid)" w2]
    unfolding piis_get_def and_then_success by (auto simp del: pii_matches.simps split: option.splits)
  then have "link \<in> set (payment_intents_invoices (w_db w))" using row_by_Some same by fastforce
  with assms delete_linked_intent [OF del] same show False by (auto simp: intents_linked_def)
qed

text \<open>An invoice cannot be deleted: its payment intent is deleted while the row that links it to the
  invoice still refers to it, and an invoice without a payment intent is an error. The transaction is
  rolled back, nothing changes and Stripe is not called.\<close>

theorem delete_invoice_never_succeeds:
  assumes "intents_linked (w_db w)"
  shows "ends (delete_invoice_by_saga_id_v2 env user u) w (\<lambda>r t. isl r \<and> w_db t = w_db w \<and> w_calls t = w_calls w)"
proof -
  let ?first = "pool (and_then (get_acl user) (\<lambda>i_acl.
         and_then (get_acl user) (\<lambda>o_acl.
         and_then (get_acl user) (\<lambda>r_acl.
         and_then (get_acl user) (\<lambda>p_acl.
         transaction (\<lambda>_. SInternal) (delete_invoice_body i_acl o_acl r_acl p_acl (InvoiceId u)))))))"
  have silent: "silently ?first"
    unfolding delete_invoice_body_def orders_delete_by_invoice_id_def delete_by_order_id_def piis_get_def
      pis_delete_def invoices_delete_def failing_def
    by (intro keeps_intros)
  have fails: "ends ?first w (\<lambda>r t. isl r \<and> w_db t = w_db w)"
  proof (rule ends_spawn, simp, rule ends_read_then, intro keeps_intros, simp, rule ends_read_then,
      intro keeps_intros, simp, rule ends_read_then, intro keeps_intros, simp, rule ends_read_then,
      intro keeps_intros, simp, rule endsI)
    fix i_acl o_acl r_acl p_acl r and w1 w2 w3 w4 t :: "'a world"
    assume same: "w_db w1 = w_db (next_fault w)" "w_db w2 = w_db w1" "w_db w3 = w_db w2" "w_db w4 = w_db w3"
      and run: "transaction (\<lambda>_. SInternal) (delete_invoice_body i_acl o_acl r_acl p_acl (InvoiceId u)) w4 = (r, t)"
    show "isl r \<and> w_db t = w_db w"
    proof (cases r)
      case (Inl e)
      with run same show ?thesis by (auto dest: transaction_error_db)
    next
      case (Inr x)
      have "intents_linked (w_db (inner_world w4))" using assms same by simp
      with transaction_inner [OF run [unfolded Inr]] delete_invoice_body_fails show ?thesis by blast
    qed
  qed
  show ?thesis
    unfolding delete_invoice_by_saga_id_v2_def
    by (rule ends_and_then, rule ends_mono [OF ends_silent [OF silent fails]]) (auto split: sum.split)
qed

definition linked_world :: "rat world" where
  "linked_world = initial_world (empty_db\<lparr>invoices_v2 := [priced_invoice],
     payment_intents := [\<lparr>pi_id = PaymentIntentId ''pi'', pi_amount = Amount 100, pi_amount_received = Amount 0,
       pi_client_secret = None, pi_currency = Eur, pi_last_payment_error_message = None, pi_receipt_email = None,
       pi_charge_id = None, pi_status = RequiresSource, pi_created_at = 0, pi_updated_at = 0\<rparr>],
     payment_intents_invoices := [\<lparr>pii_id = 1, pii_invoice_id = InvoiceId 1,
       pii_payment_intent_id = PaymentIntentId ''pi'', pii_created_at = 0, pii_updated_at = 0\<rparr>]\<rparr>)"

lemma linked_world_db:
  "intents_linked (w_db linked_world)" "invoices_v2 (w_db linked_world) = [priced_invoice]"
  by (simp_all add: linked_world_def initial_world_def intents_linked_def)

theorem delete_invoice_never_succeeds_witness:
  "invoices_v2 (w_db (snd (delete_invoice_by_saga_id_v2 offline_env None 1 linked_world))) = [priced_invoice] \<and>
   isl (fst (delete_invoice_by_saga_id_v2 offline_env None 1 linked_world))"
  using delete_invoice_never_succeeds [OF linked_world_db(1), of offline_env None 1] linked_world_db(2)
  by (simp add: ends_def split: prod.splits)

section \<open>Inbound transactions\<close>

text \<open>What has been credited to the invoices.\<close>

definition same_credit :: "'d db \<Rightarrow> 'd db \<Rightarrow> bool" where
  "same_credit d e \<longleftrightarrow> amounts_received e = amounts_received d \<and>
     map (\<lambda>i. (inv_id i, inv_amount_captured i)) (invoices_v2 e) =
     map (\<lambda>i. (inv_id i, inv_amount_captured i)) (invoices_v2 d)"

interpretation credit: db_relation same_credit
  by unfold_locales (auto simp: same_credit_def)

interpretation credit_events: event_frame same_credit
  by unfold_locales (simp add: same_credit_def)

lemma keeps_credit_rates [keeps_intros]:
  "keeps (\<lambda>s t. same_credit (w_db s) (w_db t)) (add_new_active_rate acl p)"
  unfolding add_new_active_rate_def
  by (intro keeps_intros credit.keeps_update_where credit.keeps_execute_serial)
     (auto simp: same_credit_def insert_rate_def Let_def split: if_splits)

lemma keeps_credit_set_paid [keeps_intros]:
  "keeps (\<lambda>s t. same_credit (w_db s) (w_db t)) (set_amount_paid acl iid p)"
  unfolding set_amount_paid_def checked_update_def update_invoice_def
  by (intro keeps_intros credit.keeps_update_where)
     (simp add: same_credit_def set_amount_paid_changes_def)

lemma keeps_credit_recalc: "keeps (\<lambda>s t. same_credit (w_db s) (w_db t)) (recalc_received D env i)"
  unfolding recalc_received_def calculate_invoice_price_and_set_final_price_if_paid_def price_and_set_paid_def
    set_paid_def save_rates_def refresh_rates_def reserve_or_refresh_rate_def get_rate_def Let_def
  by (intro keeps_intros)

text \<open>The transaction has been recorded before.\<close>

definition recorded :: "transaction_id \<Rightarrow> 'd db \<Rightarrow> bool" where
  "recorded tx d \<longleftrightarrow> tx \<in> ar_id ` set (amounts_received d)"

lemma increase_recorded:
  assumes "recorded tx (w_db w)"
  shows "ends (increase_amount_captured acl aid tx amount) w (\<lambda>r t. isl r \<and> w_db t = w_db w)"
  unfolding increase_amount_captured_def
proof (rule ends_read_then)
  show "reads (increase_read acl aid amount)" unfolding increase_read_def by (intro keeps_intros)
next
  fix x :: "invoice_id \<times> amount" and w1 :: "'a world"
  assume w1: "w_db w1 = w_db w"
  obtain iid captured where x: "x = (iid, captured)" by fastforce
  let ?m = "and_then (execute (insert_amount_received
      \<lparr>nar_id = tx, nar_invoice_id = iid, nar_amount_received = amount\<rparr>)) (\<lambda>_.
        update_invoice iid (\<lambda>i. i\<lparr>inv_amount_captured := captured\<rparr>))"
  have fails: "?m v \<noteq> (Inr y, u)" if "w_db v = w_db w" for v y u
  proof
    assume "?m v = (Inr y, u)"
    then obtain z v' where "execute (insert_amount_received
      \<lparr>nar_id = tx, nar_invoice_id = iid, nar_amount_received = amount\<rparr>) v = (Inr z, v')"
      by (auto simp: success)
    from execute_success [OF this] that assms show False
      by (auto simp: insert_amount_received_def recorded_def Let_def split: if_splits)
  qed
  have "ends (transaction id ?m) w1 (\<lambda>r t. isl r \<and> w_db t = w_db w)"
  proof (rule endsI)
    fix r t
    assume run: "transaction id ?m w1 = (r, t)"
    show "isl r \<and> w_db t = w_db w"
    proof (cases r)
      case (Inl e)
      with run w1 show ?thesis by (auto dest: transaction_error_db)
    next
      case (Inr y)
      from transaction_inner [OF run [unfolded Inr]] obtain u where u: "?m (inner_world w1) = (Inr y, u)" by blast
      have "w_db (inner_world w1) = w_db w" using w1 by simp
      from fails [OF this] u show ?thesis by blast
    qed
  qed
  then show "ends (increase_write tx amount x) w1 (\<lambda>r t. isl r \<and> w_db t = w_db w)"
    unfolding increase_write_def x prod.case
    by (intro ends_repo) (auto elim!: ends_mono simp: isl_def)
qed simp

lemma credit_recorded:
  assumes "recorded (cb_transaction_id cb) (w_db w)"
  shows "ends (credit_invoice C key signature cb body) w (\<lambda>r t. w_db t = w_db w)"
  unfolding credit_invoice_def
proof (rule ends_spawn, simp, rule ends_read_then, intro keeps_intros, simp, rule ends_read_then)
  show "reads (account_of_callback cb)" unfolding account_of_callback_def by (intro keeps_intros)
next
  fix a aid and w1 w2 :: "'a world"
  assume same: "w_db w1 = w_db (next_fault w)" "w_db w2 = w_db w1"
  have "ends (receive_amount aid (cb_transaction_id cb) amount) v (\<lambda>r t. w_db t = w_db w)"
    if v: "w_db v = w_db w" for amount and v :: "'a world"
    unfolding receive_amount_def
  proof (rule ends_or_else, rule ends_mono [OF increase_recorded])
    show "recorded (cb_transaction_id cb) (w_db v)" using assms v by simp
  next
    fix r :: "repo_error + raw_invoice" and u :: "'a world"
    assume "isl r \<and> w_db u = w_db v"
    then obtain e where r: "r = Inl e" and u: "w_db u = w_db w" using v by (auto simp: isl_def)
    have reading: "reads (case e of
         RConstraints _ \<Rightarrow> and_then (svc (invoices_get_by_account_id SystemACL aid)) (\<lambda>found. ok_or SInternal found)
       | _ \<Rightarrow> err (service_error_of_repo e))"
      by (cases e) (simp_all add: keeps_intros)
    show "case r of Inl e \<Rightarrow> ends (case e of
         RConstraints _ \<Rightarrow> and_then (svc (invoices_get_by_account_id SystemACL aid)) (\<lambda>found. ok_or SInternal found)
       | _ \<Rightarrow> err (service_error_of_repo e)) u (\<lambda>r t. w_db t = w_db w) | Inr a \<Rightarrow> w_db u = w_db w"
      unfolding r sum.case by (rule ends_reads [OF reading]) (simp add: u)
  qed
  then show "ends (and_then (ok_or SInternal (amount_from_str (cb_amount_captured cb))) (\<lambda>amount.
       and_then (svc (invoices_get_by_account_id SystemACL aid)) (\<lambda>found.
       if found = None then err SNotFound else receive_amount aid (cb_transaction_id cb) amount))) w2
       (\<lambda>r t. w_db t = w_db w)"
    using same
    by (intro ends_read_then [where m = "ok_or _ _"] ends_read_then [where m = "svc _"] ends_if ends_err)
       (auto intro!: keeps_intros)
qed simp

text \<open>C8: A callback for a transaction that has been recorded before, however often the gateway repeats
  it and whatever fails, credits nothing: the received transactions and the captured amounts of all
  the invoices stay as they are. (The price may be recalculated.)\<close>

theorem callback_credits_once:
  assumes "recorded (cb_transaction_id cb) (w_db w)"
  shows "ends (handle_inbound_tx D C env cfg signature cb body) w (\<lambda>r t. same_credit (w_db w) (w_db t))"
proof -
  have refl: "same_credit (w_db w) (w_db t)" if "w_db t = w_db w" for t :: "'a world"
    using that by (simp add: same_credit_def)
  have "ends (and_then (credit_invoice C key signature cb body) (\<lambda>i.
      if inv_paid_at i = None then recalc_received D env i else ok ())) w (\<lambda>r t. same_credit (w_db w) (w_db t))" for key
  proof (rule ends_and_then, rule ends_mono [OF credit_recorded [OF assms]])
    fix r :: "service_error + raw_invoice" and t :: "'a world"
    assume t: "w_db t = w_db w"
    have "keeps (\<lambda>s t. same_credit (w_db s) (w_db t)) (if inv_paid_at i = None then recalc_received D env i else ok ())" for i
      by (intro keeps_intros keeps_credit_recalc)
    then have "ends (if inv_paid_at i = None then recalc_received D env i else ok ()) t
        (\<lambda>r u. same_credit (w_db w) (w_db u))" for i
      by (rule ends_keeps) (simp add: t)
    with t show "case r of Inl e \<Rightarrow> same_credit (w_db w) (w_db t)
        | Inr i \<Rightarrow> ends (if inv_paid_at i = None then recalc_received D env i else ok ()) t
            (\<lambda>r u. same_credit (w_db w) (w_db u))"
      by (cases r) (simp_all only: sum.case refl)
  qed
  then have "ends (then_res (and_then (credit_invoice C key signature cb body) (\<lambda>i.
      if inv_paid_at i = None then recalc_received D env i else ok ())) (\<lambda>res.
        case res of Inl e \<Rightarrow> if e = SNotFound then ok () else err e | Inr r \<Rightarrow> ok r)) w
      (\<lambda>r t. same_credit (w_db w) (w_db t))" for key
    by (rule ends_then_res [OF ends_mono]) (auto split: sum.split intro: ends_ok ends_err)
  then show ?thesis
    unfolding handle_inbound_tx_def
    by (cases "cfg_sign_public_key cfg") (auto intro!: ends_err refl)
qed

definition received_world :: "rat world" where
  "received_world = initial_world (empty_db\<lparr>invoices_v2 := [priced_invoice], amounts_received :=
     [\<lparr>ar_id = TransactionId 9, ar_invoice_id = InvoiceId 1, ar_amount_received = Amount 5, ar_created_at = 0\<rparr>]\<rparr>)"

definition repeated_callback :: payments_callback where
  "repeated_callback = \<lparr>cb_transaction_id = TransactionId 9, cb_amount_captured = ''5'',
     cb_currency = TureStq, cb_address = WalletAddress ''a'', cb_account_id = Some (AccountId 1)\<rparr>"

definition no_crypto :: crypto where
  "no_crypto = \<lparr>sha256 = (\<lambda>_. []), message_ok = (\<lambda>_. True), public_key_ok = (\<lambda>_. True),
     signature_ok = (\<lambda>_. True), secp_verify = (\<lambda>_ _ _. False)\<rparr>"

definition signed_config :: service_config where
  "signed_config = \<lparr>cfg_ture = True, cfg_accounts = \<lparr>min_accounts_in_pool = 1, payments_callback_url = [],
     system_accounts = []\<rparr>, cfg_crypto_timeout_min = 15, cfg_fiat_timeout_min = 15,
     cfg_sign_public_key = Some ''00'', cfg_order_percent = 5, cfg_fee_currency_code = ''eur''\<rparr>"

theorem callback_credits_once_witness:
  "map (\<lambda>i. (inv_id i, inv_amount_captured i)) (invoices_v2 (w_db (snd (handle_inbound_tx rat_bigdecimal no_crypto
     offline_env signed_config ''sig'' repeated_callback ''body'' received_world)))) = [(InvoiceId 1, Amount 0)]"
proof -
  have "recorded (cb_transaction_id repeated_callback) (w_db received_world)"
    by (simp add: recorded_def repeated_callback_def received_world_def initial_world_def)
  from callback_credits_once [OF this, of rat_bigdecimal no_crypto offline_env signed_config "''sig''" "''body''"]
  show ?thesis
    by (simp add: ends_def same_credit_def received_world_def initial_world_def priced_invoice_def split: prod.splits)
qed

text \<open>C21: A callback whose signature does not verify is rejected as forbidden before anything is read or
  written and before any service is called.\<close>

theorem unsigned_callback_rejected:
  assumes "cfg_ture cfg" and "cfg_sign_public_key cfg = Some key"
    and "isl (check_ture_sign C key signature body)"
  shows "ends (handle_inbound_tx D C env cfg signature cb body) w (\<lambda>r t.
    (r = Inl SForbidden \<or> r = Inl SInternal) \<and> w_db t = w_db w \<and> w_calls t = w_calls w)"
proof -
  from assms(3) have sign: "check_ture_sign C key signature body = Inl SForbidden"
    by (auto simp: check_ture_sign_def Let_def split: if_splits)
  show ?thesis
    using assms(1,2)
    by (auto simp: handle_inbound_tx_def credit_invoice_def sign ends_def spawn_on_pool_def then_res_def
        and_then_def of_result_apply err_apply)
qed

theorem unsigned_callback_rejected_witness:
  "w_db (snd (handle_inbound_tx rat_bigdecimal no_crypto offline_env signed_config ''ff'' repeated_callback ''body''
     received_world)) = w_db received_world"
  using unsigned_callback_rejected [of signed_config "''00''" no_crypto "''ff''" "''body''" rat_bigdecimal offline_env
      repeated_callback received_world]
  by (simp add: signed_config_def no_crypto_def check_ture_sign_def ends_def split: prod.splits)

section \<open>Hexadecimal digits\<close>

definition hex_char :: "8 word \<Rightarrow> char" where
  "hex_char d = (if d < 10 then char_of (48 + unat d) else char_of (87 + unat d))"

definition to_hex :: "8 word list \<Rightarrow> string" where
  "to_hex bs = concat (map (\<lambda>b. [hex_char (drop_bit 4 b), hex_char (take_bit 4 b)]) bs)"

lemma hex_digit_char:
  assumes "unat d < 16"
  shows "hex_digit (hex_char d) = Some d"
proof (cases "d < 10")
  case True
  then have small: "unat d < 10" by (simp add: word_less_nat_alt)
  then have "(of_char (char_of (48 + unat d) :: char) :: nat) = 48 + unat d" by simp
  with small True show ?thesis by (simp add: hex_digit_def hex_char_def Let_def)
next
  case False
  then have large: "10 \<le> unat d" by (simp add: word_less_nat_alt)
  have "(of_char (char_of (87 + unat d) :: char) :: nat) = 87 + unat d" using assms by simp
  moreover have "unat d - 10 + 10 = unat d" using large by simp
  ultimately show ?thesis using assms large False
    by (simp add: hex_digit_def hex_char_def Let_def del: of_nat_diff)
qed

lemma hex_halves: "or (push_bit 4 (drop_bit 4 b)) (take_bit 4 b) = (b :: 8 word)"
  by (rule bit_word_eqI) (auto simp: bit_simps)

lemma nibbles: "unat (drop_bit 4 b :: 8 word) < 16" "unat (take_bit 4 b :: 8 word) < 16"
proof -
  have "unat b < 256" using unsigned_less [of b] by simp
  then show "unat (drop_bit 4 b) < 16" by (simp add: drop_bit_eq_div unat_div)
  show "unat (take_bit 4 b) < 16" by (simp add: take_bit_eq_mod unat_mod)
qed

text \<open>\<open>parse_hex\<close> reads every sequence of bytes that is written in lower case hexadecimal back.\<close>

theorem parse_hex_roundtrip: "parse_hex (to_hex bs) = bs"
  unfolding parse_hex_def
proof (induction bs)
  case Nil
  then show ?case by (simp add: to_hex_def List.map_filter_def)
next
  case (Cons b bs)
  then show ?case
    by (simp add: to_hex_def List.map_filter_def hex_digit_char nibbles hex_halves)
qed

section \<open>Rates after a recalculation\<close>

definition has_active :: "'d db \<Rightarrow> order_id \<Rightarrow> bool" where
  "has_active d oid \<longleftrightarrow> list_ex (active_for oid) (order_exchange_rates d)"

definition rates_distinct :: "'d db \<Rightarrow> bool" where
  "rates_distinct d \<longleftrightarrow> distinct (map rate_id (order_exchange_rates d))"

lemma replaced_active:
  assumes "distinct (map rate_id rows)" and "active = row_by (active_for oid) rows"
    and "rate_order_id new = oid" "rate_status new = Active" "rate_id new \<notin> rate_id ` set rows"
  shows "distinct (map rate_id (replaced active now new rows))"
    and "list_ex (active_for k) (replaced active now new rows) \<longleftrightarrow> k = oid \<or> list_ex (active_for k) rows"
proof -
  let ?f = "\<lambda>a r. if rate_id r = rate_id a then touch_rate expire now r else r"
  have ids: "map rate_id (map (?f a) rows) = map rate_id rows" for a
    by (auto simp: expire_def)
  have "map rate_id (replaced active now new rows) = map rate_id rows @ [rate_id new]"
    by (cases active) (simp_all only: replaced_def option.case map_append list.map ids)
  then show "distinct (map rate_id (replaced active now new rows))"
    using assms(1,5) by simp
  have "list_ex (active_for k) (map (?f a) rows) \<longleftrightarrow> list_ex (active_for k) rows"
    if a: "active = Some a" and k: "k \<noteq> oid" for a
  proof -
    have a': "a \<in> set rows" "active_for oid a" using assms(2) a row_by_Some by fastforce+
    have eq: "active_for k (?f a r) \<longleftrightarrow> active_for k r" if r: "r \<in> set rows" for r
    proof (cases "rate_id r = rate_id a")
      case True
      then have "r = a" using assms(1) r a'(1) by (meson distinct_map inj_onD)
      with a' k show ?thesis by (simp add: active_for_def expire_def)
    qed simp
    have "list_ex (active_for k) (map g xs) = list_ex (\<lambda>r. active_for k (g r)) xs" for g xs
      by (induction xs) auto
    then have "list_ex (active_for k) (map (?f a) rows) = list_ex (\<lambda>r. active_for k (?f a r)) rows" .
    also have "\<dots> = list_ex (active_for k) rows" unfolding list_ex_iff using eq by blast
    finally show ?thesis .
  qed
  moreover have "active_for oid new" using assms(3,4) by (simp add: active_for_def)
  moreover have "active_for k new \<longleftrightarrow> k = oid" using assms(3,4) by (auto simp: active_for_def)
  ultimately show "list_ex (active_for k) (replaced active now new rows) \<longleftrightarrow> k = oid \<or> list_ex (active_for k) rows"
    by (cases "k = oid") (auto simp: replaced_def split: option.split)
qed

lemma save_rates_success:
  assumes "try_map (\<lambda>r. svc (add_new_active_rate r_acl r)) new w = (Inr xs, t)" and "rates_distinct (w_db w)"
  shows "rates_distinct (w_db t) \<and> orders (w_db t) = orders (w_db w) \<and>
    (\<forall>k. has_active (w_db t) k \<longleftrightarrow> k \<in> nr_order_id ` set new \<or> has_active (w_db w) k)"
  using assms
proof (induction new arbitrary: w xs)
  case Nil
  then show ?case by simp
next
  case (Cons p new)
  from Cons.prems(1) obtain l u ys where first: "add_new_active_rate r_acl p w = (Inr l, u)"
    and rest: "try_map (\<lambda>r. svc (add_new_active_rate r_acl r)) new u = (Inr ys, t)"
    by (auto simp: success)
  from add_new_success [OF first] obtain active now where
    active: "active = row_by (active_for (nr_order_id p)) (order_exchange_rates (w_db w))"
    and u: "w_db u = (w_db w)\<lparr>order_exchange_rates :=
           replaced active now (lr_active_rate l) (order_exchange_rates (w_db w))\<rparr>"
    and l: "rate_order_id (lr_active_rate l) = nr_order_id p" "rate_status (lr_active_rate l) = Active"
      "rate_id (lr_active_rate l) \<notin> rate_id ` set (order_exchange_rates (w_db w))" by metis
  note r = replaced_active [OF _ active l, where now = now]
  have "rates_distinct (w_db u)" using r(1) Cons.prems(2) u by (simp add: rates_distinct_def)
  moreover have "has_active (w_db u) k \<longleftrightarrow> k = nr_order_id p \<or> has_active (w_db w) k" for k
    using r(2) [where k = k] Cons.prems(2) u by (simp add: has_active_def rates_distinct_def)
  ultimately show ?case using Cons.IH [OF rest] u by auto
qed

lemma refresh_rates_success:
  assumes "refresh_rates D env buyer current w = (Inr new, t)"
  shows "ord_id ` fst ` {x \<in> set current. snd x = None} \<subseteq> nr_order_id ` set new"
proof -
  have single: "\<exists>y. x = Some y \<and> nr_order_id y = ord_id order"
    if "reserve_or_refresh_rate D env buyer order None v = (Inr x, u)" for order x and v u :: "'a world"
    using that by (auto simp: reserve_or_refresh_rate_def success)
  obtain rs where rs: "try_map (\<lambda>(order, rate). reserve_or_refresh_rate D env buyer order rate) current w = (Inr rs, t)"
    and new: "new = concat (map (\<lambda>r. case r of None \<Rightarrow> [] | Some x \<Rightarrow> [x]) rs)"
    using assms by (auto simp: refresh_rates_def success)
  have "ord_id ` fst ` {x \<in> set current. snd x = None} \<subseteq> nr_order_id ` {y. Some y \<in> set rs}"
    using rs
  proof (induction current arbitrary: w rs)
    case Nil
    then show ?case by simp
  next
    case (Cons c current)
    obtain order rate where c: "c = (order, rate)" by fastforce
    from Cons.prems obtain x u ys where first: "reserve_or_refresh_rate D env buyer order rate w = (Inr x, u)"
      and rest: "try_map (\<lambda>(order, rate). reserve_or_refresh_rate D env buyer order rate) current u = (Inr ys, t)"
      and rs: "rs = x # ys"
      by (auto simp: success c)
    have "ord_id ` fst ` {x \<in> set current. snd x = None} \<subseteq> nr_order_id ` {y. Some y \<in> set ys}"
      by (rule Cons.IH [OF rest])
    moreover have "ord_id order \<in> nr_order_id ` {y. Some y \<in> set rs}" if "rate = None"
    proof -
      from single [of order w x u] first that obtain y where "x = Some y" "nr_order_id y = ord_id order" by auto
      then show ?thesis by (intro image_eqI [of _ _ y]) (simp_all add: rs)
    qed
    ultimately show ?case by (auto simp: c rs)
  qed
  moreover have "{y. Some y \<in> set rs} = set new"
    by (auto simp: new split: option.splits)
  ultimately show ?thesis by simp
qed

lemma get_order_active_rates_system:
  assumes "get_order_active_rates SystemACL SystemACL iid w = (Inr current, t)"
  shows "map fst current = filter (\<lambda>q. ord_invoice_id q = iid) (orders (w_db w)) \<and> w_db t = w_db w \<and>
    (\<forall>(q, rate)\<in>set current. rate = row_by (active_for (ord_id q)) (order_exchange_rates (w_db w)))"
proof -
  from assms obtain os u where many: "repo (select_where orders (\<lambda>q. ord_invoice_id q = iid)) w = (Inr os, u)"
    and rates: "try_map (\<lambda>order. map_ok (\<lambda>rate. (order, rate))
      (svc (get_active_rate_for_order SystemACL (ord_id order)))) os u = (Inr current, t)"
    by (auto simp: get_order_active_rates_def get_many_by_invoice_id_def success)
  note os = select_where_success [OF many]
  have "map fst current = os \<and> w_db t = w_db u \<and>
    (\<forall>(q, rate)\<in>set current. rate = row_by (active_for (ord_id q)) (order_exchange_rates (w_db u)))"
    using rates
  proof (induction os arbitrary: u current)
    case Nil
    then show ?case by simp
  next
    case (Cons q os)
    from Cons.prems obtain rate v rest where
      first: "repo (optional (get_result (select_where order_exchange_rates (active_for (ord_id q))))) u = (Inr rate, v)"
      and more: "try_map (\<lambda>order. map_ok (\<lambda>rate. (order, rate))
        (svc (get_active_rate_for_order SystemACL (ord_id order)))) os v = (Inr rest, t)"
      and current: "current = (q, rate) # rest"
      by (auto simp: get_active_rate_for_order_def and_then_success try_map.simps map_ok_success svc_success)
    from first_row_success [OF first] Cons.IH [OF more] current show ?case by auto
  qed
  with os show ?thesis by simp
qed

definition same_rates :: "'d db \<Rightarrow> 'd db \<Rightarrow> bool" where
  "same_rates d e \<longleftrightarrow> orders e = orders d \<and> order_exchange_rates e = order_exchange_rates d"

interpretation rate_tables: db_relation same_rates
  by unfold_locales (auto simp: same_rates_def)

interpretation rate_events: event_frame same_rates
  by unfold_locales (simp add: same_rates_def)

lemma keeps_rates_set_paid [keeps_intros]:
  "keeps (\<lambda>s t. same_rates (w_db s) (w_db t)) (set_amount_paid acl iid p)"
  unfolding set_amount_paid_def checked_update_def update_invoice_def
  by (intro keeps_intros rate_tables.keeps_update_where) (simp add: same_rates_def)

text \<open>When the recalculation after an inbound transaction returns, every order of the invoice has an
  active rate, whichever rates were missing, expired or unchanged before.\<close>

theorem recalc_completes_rates:
  assumes "distinct (map rate_id (order_exchange_rates (w_db w)))"
  shows "ends (recalc_received D env i) w (\<lambda>r t.
    case r of
      Inl _ \<Rightarrow> True
    | Inr _ \<Rightarrow> list_all (\<lambda>q. has_active (w_db t) (ord_id q))
                (filter (\<lambda>q. ord_invoice_id q = inv_id i) (orders (w_db t))))"
proof (rule endsI, split sum.split, intro conjI allI impI TrueI)
  fix r t x
  assume "recalc_received D env i w = (r, t)" and "r = Inr x"
  then obtain current buyer new w1 w2 w3 dump where
    load: "get_order_active_rates SystemACL SystemACL (inv_id i) (next_fault w) = (Inr current, w1)"
    and refresh: "refresh_rates D env buyer current w1 = (Inr new, w2)"
    and save: "save_rates SystemACL new (next_fault w2) = (Inr (), w3)"
    and price: "calculate_invoice_price_and_set_final_price_if_paid D SystemACL SystemACL SystemACL SystemACL (inv_id i)
        (next_fault w3) = (Inr dump, t)"
    by (auto simp: recalc_received_def success spawn_success)
  note current = get_order_active_rates_system [OF load]
  have "reads (refresh_rates D env buyer current)"
    unfolding refresh_rates_def reserve_or_refresh_rate_def get_rate_def Let_def by (intro keeps_intros)
  then have w2: "w_db w2 = w_db w" using refresh current by (auto dest: same_dbD)
  from save obtain xs where "try_map (\<lambda>r. svc (add_new_active_rate SystemACL r)) new (next_fault w2) = (Inr xs, w3)"
    by (auto simp: save_rates_def for_each_def success)
  note saved = save_rates_success [OF this, simplified, unfolded w2 rates_distinct_def, OF assms]
  have "keeps (\<lambda>s t. same_rates (w_db s) (w_db t)) (calculate_invoice_price_and_set_final_price_if_paid D SystemACL
      SystemACL SystemACL SystemACL (inv_id i))"
    unfolding calculate_invoice_price_and_set_final_price_if_paid_def price_and_set_paid_def set_paid_def
    by (intro keeps_intros)
  then have same: "same_rates (w_db (next_fault w3)) (w_db t)" using price by (rule keepsD)
  have "has_active (w_db t) (ord_id q)" if q: "q \<in> set (orders (w_db w))" "ord_invoice_id q = inv_id i" for q
  proof -
    have "q \<in> set (map fst current)" using current q by simp
    then obtain rate where c: "(q, rate) \<in> set current" by auto
    with current have rate: "rate = row_by (active_for (ord_id q)) (order_exchange_rates (w_db w))" by auto
    have "ord_id q \<in> nr_order_id ` set new \<or> has_active (w_db w) (ord_id q)"
    proof (cases rate)
      case None
      then have "ord_id q \<in> ord_id ` fst ` {x \<in> set current. snd x = None}" using c by force
      with refresh_rates_success [OF refresh] show ?thesis by blast
    next
      case (Some a)
      with rate row_by_Some [of "active_for (ord_id q)" "order_exchange_rates (w_db w)" a] show ?thesis
        by (auto simp: has_active_def list_ex_iff)
    qed
    with saved same show ?thesis by (simp add: same_rates_def has_active_def)
  qed
  with saved same show "list_all (\<lambda>q. has_active (w_db t) (ord_id q))
      (filter (\<lambda>q. ord_invoice_id q = inv_id i) (orders (w_db t)))"
    by (auto simp: list_all_iff same_rates_def)
qed

definition rates_world :: "rat world" where
  "rates_world = initial_world (empty_db\<lparr>invoices_v2 := [priced_invoice],
     orders := [priced_order 1 Eur, priced_order 2 Usd], order_exchange_rates := [dollar_rate]\<rparr>)"

theorem recalc_completes_rates_witness:
  "case recalc_received rat_bigdecimal offline_env priced_invoice rates_world of
     (Inl _, _) \<Rightarrow> True
   | (Inr _, t) \<Rightarrow> list_all (\<lambda>q. has_active (w_db t) (ord_id q))
       (filter (\<lambda>q. ord_invoice_id q = InvoiceId 1) (orders (w_db t)))"
proof -
  have "distinct (map rate_id (order_exchange_rates (w_db rates_world)))"
    by (simp add: rates_world_def initial_world_def)
  from recalc_completes_rates [OF this, of rat_bigdecimal offline_env priced_invoice] show ?thesis
    by (simp add: ends_def priced_invoice_def split: prod.splits sum.splits)
qed

end
