(* ===== verification/EventHandling.thy ===== *)
theory EventHandling
  imports Prelude Models World Authorization Tables Clients EventStore InvoicesRepo OrdersRepo FeesRepo
    PaymentIntentsRepo PayoutsRepo Services Triples AccountService StripeService PaymentIntentService
    InvoiceService
begin

text \<open>
  \<open>event_handling/mod.rs\<close> and \<open>event_handling/handlers.rs\<close>: the loop that takes one event at a time
  from the queue, runs its handler and completes or fails the event, and the handlers. A panic is
  not an error value: it ends the loop, and the event stays in processing.
\<close>

section \<open>Configuration, errors and connections\<close>

text \<open>\<open>hc_task_first\<close>: a task that has been handed to the thread pool may run before the request that is
  made next; the scheduler decides.\<close>

record handler_config =
  hc_service :: service_config
  hc_events :: event_store_config
  hc_task_first :: "ext_call list \<Rightarrow> bool"

definition hdl :: "('s, repo_error, 'a) comp \<Rightarrow> ('s, handler_error, 'a) comp" where
  "hdl m = map_err handler_error_of_repo m"

definition hdl_client :: "('s, client_error, 'a) comp \<Rightarrow> ('s, handler_error, 'a) comp" where
  "hdl_client m = map_err handler_error_of_client m"

definition hdl_service :: "('s, service_error, 'a) comp \<Rightarrow> ('s, handler_error, 'a) comp" where
  "hdl_service m = map_err handler_error_of_service m"

abbreviation hpool :: "('d world, handler_error, 'a) comp \<Rightarrow> ('d world, handler_error, 'a) comp" where
  "hpool m \<equiv> spawn_on_pool HInternal m"

definition get_ture_context :: "handler_config \<Rightarrow> ('d world, handler_error, unit) comp" where
  "get_ture_context cfg = (if cfg_ture (hc_service cfg) then ok () else err HInternal)"

abbreviation handler_accounts :: "handler_config \<Rightarrow> account_config" where
  "handler_accounts cfg \<equiv> cfg_accounts (hc_service cfg)"

section \<open>Floating point\<close>

text \<open>The conversion of an \<open>i64\<close> to \<open>f64\<close> and the division of two such numbers.\<close>

definition f64_of_int :: "int \<Rightarrow> f64" where
  "f64_of_int n = f64_of_ratio n 1"

definition f64_div :: "f64 \<Rightarrow> f64 \<Rightarrow> f64" where
  "f64_div x y =
     (case (x, y) of
        (Finite m e, Finite n f) \<Rightarrow>
          if n = 0 then (if m = 0 then NotANumber else Infinite (m < 0))
          else f64_of_ratio (m * 2 ^ nat (e - f)) (n * 2 ^ nat (f - e))
      | (Infinite s, Finite n f) \<Rightarrow> Infinite (s \<noteq> (n < 0))
      | (Finite m e, Infinite s) \<Rightarrow> Finite 0 0
      | _ \<Rightarrow> NotANumber)"

section \<open>Invoices and accounts\<close>

definition get_invoice :: "invoice_id \<Rightarrow> ('d world, handler_error, raw_invoice) comp" where
  "get_invoice iid =
     hpool (and_then (hdl (invoices_get SystemACL iid)) (\<lambda>found. ok_or HInternal found))"

definition drain_account ::
  "'d env \<Rightarrow> handler_config \<Rightarrow> account_id \<Rightarrow> ('d world, handler_error, unit) comp" where
  "drain_account env cfg aid =
     and_then (hdl_service (get_account env (account_uuid aid))) (\<lambda>a.
     and_then (hdl_service (get_main_account env (handler_accounts cfg) (acc_currency (awb_account a)))) (\<lambda>main.
     and_then new_v4 (\<lambda>u.
     let input = \<lparr>cit_id = u, cit_from = account_uuid aid, cit_to = account_uuid (acc_id (awb_account main)),
                  cit_amount = awb_balance a\<rparr> in
     hdl_client (call_client (payments_create_internal_transaction env)
       (PaymentsCreateInternalTransaction input) input))))"

definition drain_and_unlink_account ::
  "'d env \<Rightarrow> handler_config \<Rightarrow> invoice_id \<Rightarrow> ('d world, handler_error, unit) comp" where
  "drain_and_unlink_account env cfg iid =
     and_then (get_invoice iid) (\<lambda>invoice.
     case inv_account_id invoice of
       None \<Rightarrow> ok ()
     | Some aid \<Rightarrow>
         and_then (drain_account env cfg aid) (\<lambda>_.
         hpool (map_ok (\<lambda>_. ()) (hdl (unlink_account SystemACL (inv_id invoice))))))"

definition order_state_updates :: "raw_invoice \<Rightarrow> raw_order list \<Rightarrow> order_state \<Rightarrow> order_state_update list" where
  "order_state_updates invoice os status =
     map (\<lambda>order. \<lparr>osu_order_id = ord_id order, osu_store_id = ord_store_id order,
        osu_customer_id = inv_buyer_user_id invoice, osu_status = status\<rparr>) os"

definition update_order_states ::
  "'d env \<Rightarrow> order_state_update list \<Rightarrow> ('d world, handler_error, unit) comp" where
  "update_order_states env us =
     hdl_client (call_client (saga_update_order_states env) (SagaUpdateOrderStates us) us)"

definition set_orders_status ::
  "'d env \<Rightarrow> invoice_id \<Rightarrow> order_state \<Rightarrow> ('d world, handler_error, unit) comp" where
  "set_orders_status env iid status =
     and_then (hpool (and_then (hdl (invoices_get SystemACL iid)) (\<lambda>found.
         and_then (ok_or HInternal found) (\<lambda>invoice.
         and_then (hdl (get_many_by_invoice_id SystemACL iid)) (\<lambda>os.
         ok (invoice, os)))))) (\<lambda>(invoice, os).
     update_order_states env (order_state_updates invoice os status))"

text \<open>The fees are created one by one, without a transaction.\<close>

definition create_fees ::
  "'d bigdecimal \<Rightarrow> handler_config \<Rightarrow> currency \<Rightarrow> currency_exchange_info \<Rightarrow> raw_order list \<Rightarrow>
   ('d world, handler_error, unit) comp" where
  "create_fees D cfg fc info os =
     for_each (\<lambda>order.
       and_then (hdl_service (of_result (create_crypto_fee D (cfg_order_percent (hc_service cfg)) fc info order))) (\<lambda>f.
       hdl (fees_create SystemACL f))) os"

definition create_fee_for_orders ::
  "'d bigdecimal \<Rightarrow> 'd env \<Rightarrow> handler_config \<Rightarrow> invoice_id \<Rightarrow> ('d world, handler_error, unit) comp" where
  "create_fee_for_orders D env cfg iid =
     and_then (hpool (and_then (hdl (invoices_get SystemACL iid)) (\<lambda>found.
         and_then (ok_or HInternal found) (\<lambda>_. hdl (get_many_by_invoice_id SystemACL iid))))) (\<lambda>os.
     and_then (ok_or HCurrencyConversion (currency_from_str (cfg_fee_currency_code (hc_service cfg)))) (\<lambda>fc.
     and_then (hdl_client (call_client (stores_get_currency_exchange env) StoresGetCurrencyExchange ())) (\<lambda>response.
     and_then (of_result (map_sum (\<lambda>_. HCurrencyConversion) id (try_from_request response))) (\<lambda>info.
     hpool (create_fees D cfg fc info os)))))"

section \<open>The handlers\<close>

definition handle_payment_intent_payment_failed :: "stripe_payment_intent \<Rightarrow> ('d world, handler_error, unit) comp" where
  "handle_payment_intent_payment_failed intent = ok ()"

definition set_paid_fiat :: "invoice_id \<Rightarrow> 64 word \<Rightarrow> ('d world, handler_error, unit) comp" where
  "set_paid_fiat iid amount =
     hpool (and_then utc_now (\<lambda>now.
       map_ok (\<lambda>_. ()) (hdl (set_amount_paid_fiat SystemACL iid
         \<lparr>sap_final_amount_paid = amount_from_u64 amount, sap_final_cashback_amount = Amount 0, sap_paid_at = now\<rparr>))))"

text \<open>The task that marks the invoice is on the pool before the saga is asked; when the saga fails, a
  task that has not started is cancelled.\<close>

definition notify_and_set_paid ::
  "'d env \<Rightarrow> handler_config \<Rightarrow> 64 word \<Rightarrow> raw_invoice \<Rightarrow> raw_order list \<Rightarrow> ('d world, handler_error, unit) comp" where
  "notify_and_set_paid env cfg amount invoice os =
     (let saga = update_order_states env (order_state_updates invoice os OsPaid);
          task = set_paid_fiat (inv_id invoice) amount in
      and_then (get_state (\<lambda>w. hc_task_first cfg (w_calls w))) (\<lambda>task_first.
      if task_first then then_res task (\<lambda>r. and_then saga (\<lambda>_. of_result r))
      else and_then saga (\<lambda>_. task)))"

definition handle_payment_intent_succeeded ::
  "'d env \<Rightarrow> handler_config \<Rightarrow> stripe_payment_intent \<Rightarrow> ('d world, handler_error, unit) comp" where
  "handle_payment_intent_succeeded env cfg intent =
     (if spi_capture_method intent = CaptureManual \<and> spi_amount intent \<noteq> spi_amount_capturable intent then ok ()
      else
        and_then (hpool (hdl_service (payment_intent_succeeded (cfg_order_percent (hc_service cfg)) intent))) (\<lambda>payment.
        case payment of
          PaymentOfInvoice _ invoice os \<Rightarrow> notify_and_set_paid env cfg (spi_amount intent) invoice os
        | PaymentOfFee \<Rightarrow> ok ()))"

definition handle_invoice_paid ::
  "'d bigdecimal \<Rightarrow> 'd env \<Rightarrow> handler_config \<Rightarrow> invoice_id \<Rightarrow> ('d world, handler_error, unit) comp" where
  "handle_invoice_paid D env cfg iid =
     and_then (get_ture_context cfg) (\<lambda>_.
     and_then (drain_and_unlink_account env cfg iid) (\<lambda>_.
     and_then (set_orders_status env iid OsPaid) (\<lambda>_.
     create_fee_for_orders D env cfg iid)))"

definition process_payment_expired ::
  "'d env \<Rightarrow> handler_config \<Rightarrow> raw_invoice \<Rightarrow> ('d world, handler_error, unit) comp" where
  "process_payment_expired env cfg invoice =
     (case payment_flow_of invoice of
        FlowCrypto \<Rightarrow>
          and_then (get_ture_context cfg) (\<lambda>_.
          and_then (drain_and_unlink_account env cfg (inv_id invoice)) (\<lambda>_.
          set_orders_status env (inv_id invoice) OsAmountExpired))
      | FlowFiat \<Rightarrow>
          and_then (set_orders_status env (inv_id invoice) OsAmountExpired) (\<lambda>_.
          hdl_service (cancel_payment_intent env (inv_id invoice))))"

definition handle_payment_expired ::
  "'d env \<Rightarrow> handler_config \<Rightarrow> invoice_id \<Rightarrow> ('d world, handler_error, unit) comp" where
  "handle_payment_expired env cfg iid =
     and_then (get_invoice iid) (\<lambda>invoice.
     case inv_paid_at invoice of Some _ \<Rightarrow> ok () | None \<Rightarrow> process_payment_expired env cfg invoice)"

definition order_to_capture :: "order_id \<Rightarrow> ('d world, handler_error, payment_intent \<times> raw_order) comp" where
  "order_to_capture oid =
     hpool (and_then (hdl (orders_get SystemACL oid)) (\<lambda>found.
       and_then (ok_or HInternal found) (\<lambda>order.
       if ord_state order \<noteq> Initial \<or> ord_stripe_fee order \<noteq> None then err HAlreadyDone
       else
         and_then (hdl (piis_get SystemACL (PiiInvoiceId (ord_invoice_id order)))) (\<lambda>pii.
         and_then (ok_or HInternal pii) (\<lambda>link.
         and_then (hdl (pis_get SystemACL (pii_payment_intent_id link))) (\<lambda>p.
         map_ok (\<lambda>p. (p, order)) (ok_or HInternal p)))))))"

definition stripe_fee_of ::
  "'d bigdecimal \<Rightarrow> stripe_balance_transaction \<Rightarrow> raw_order \<Rightarrow> amount option" where
  "stripe_fee_of D t order =
     Option.bind (bd_from_f64 D (f64_div (f64_of_int (sbt_fee t)) (f64_of_int (sbt_amount t)))) (\<lambda>share.
       from_super_unit D (ord_seller_currency order)
         (bd_mul D (to_super_unit D (ord_total_amount order) (ord_seller_currency order)) share))"

definition balance_of_charge ::
  "'d env \<Rightarrow> payment_intent \<Rightarrow> ('d world, handler_error, stripe_balance_transaction) comp" where
  "balance_of_charge env p =
     and_then (ok_or HInternal (pi_charge_id p)) (\<lambda>cid.
     and_then (hdl_client (call_client (stripe_get_charge env) (StripeGetCharge cid) cid)) (\<lambda>charge.
     and_then (ok_or HInternal (sc_balance_transaction charge)) (\<lambda>b.
     hdl_client (call_client (stripe_retrieve_balance_transaction env) (StripeRetrieveBalanceTransaction b) b))))"

text \<open>The state and the fee are two statements, without a transaction.\<close>

definition store_capture :: "order_id \<Rightarrow> amount \<Rightarrow> ('d world, handler_error, unit) comp" where
  "store_capture oid stripe_fee =
     hpool (and_then (hdl (update_state SystemACL oid Captured)) (\<lambda>_.
       map_ok (\<lambda>_. ()) (hdl (update_stripe_fee SystemACL oid stripe_fee))))"

definition handle_payment_intent_capture ::
  "'d bigdecimal \<Rightarrow> 'd env \<Rightarrow> order_id \<Rightarrow> ('d world, handler_error, unit) comp" where
  "handle_payment_intent_capture D env oid =
     then_res (and_then (order_to_capture oid) (\<lambda>(p, order).
       and_then (balance_of_charge env p) (\<lambda>t.
       and_then (ok_or HPanic (stripe_fee_of D t order)) (\<lambda>stripe_fee.
       store_capture oid stripe_fee)))) (\<lambda>res.
     case res of Inl e \<Rightarrow> if e = HAlreadyDone then ok () else err e | Inr r \<Rightarrow> ok r)"

definition mark_payout_as_completed :: "payout_id \<Rightarrow> ('d world, handler_error, unit) comp" where
  "mark_payout_as_completed pid = hpool (map_ok (\<lambda>_. ()) (hdl (mark_as_completed SystemACL pid)))"

definition create_payout_tx ::
  "'d env \<Rightarrow> handler_config \<Rightarrow> payout \<Rightarrow> ('d world, handler_error, unit) comp" where
  "create_payout_tx env cfg p =
     (case po_target p of CryptoWallet target \<Rightarrow>
        and_then (hdl_service (get_main_account env (handler_accounts cfg) (cw_currency target))) (\<lambda>a.
        let tx = \<lparr>cet_id = payout_uuid (po_id p), cet_from = account_uuid (acc_id (awb_account a)),
                  cet_to = cw_wallet_address target, cet_amount = po_gross_amount p,
                  cet_currency = cw_currency target, cet_fee = cw_blockchain_fee target\<rparr> in
        hdl_client (call_client (payments_create_external_transaction env)
          (PaymentsCreateExternalTransaction tx) tx)))"

definition pay_out :: "'d env \<Rightarrow> handler_config \<Rightarrow> payout \<Rightarrow> ('d world, handler_error, unit) comp" where
  "pay_out env cfg p =
     (let tx_id = payout_uuid (po_id p) in
      and_then (hdl_client (call_client (payments_get_transaction env) (PaymentsGetTransaction tx_id) tx_id)) (\<lambda>tx.
      case tx of
        None \<Rightarrow> and_then (create_payout_tx env cfg p) (\<lambda>_. mark_payout_as_completed (po_id p))
      | Some _ \<Rightarrow> mark_payout_as_completed (po_id p)))"

definition handle_payout_initiated ::
  "'d env \<Rightarrow> handler_config \<Rightarrow> payout_id \<Rightarrow> ('d world, handler_error, unit) comp" where
  "handle_payout_initiated env cfg pid =
     and_then (get_ture_context cfg) (\<lambda>_.
     and_then (hpool (hdl (payouts_get SystemACL pid))) (\<lambda>found.
     case found of
       None \<Rightarrow> ok ()
     | Some p \<Rightarrow>
         (case po_status p of
            PayoutProcessing _ \<Rightarrow> pay_out env cfg p
          | PayoutCompleted _ _ \<Rightarrow> ok ())))"

fun handle_event ::
  "'d bigdecimal \<Rightarrow> 'd env \<Rightarrow> handler_config \<Rightarrow> event_payload \<Rightarrow> ('d world, handler_error, unit) comp" where
  "handle_event D env cfg NoOp = ok ()"
| "handle_event D env cfg (InvoicePaid iid) = handle_invoice_paid D env cfg iid"
| "handle_event D env cfg (PaymentIntentPaymentFailed p) = handle_payment_intent_payment_failed p"
| "handle_event D env cfg (PaymentIntentAmountCapturableUpdated p) = handle_payment_intent_succeeded env cfg p"
| "handle_event D env cfg (PaymentIntentSucceeded p) = handle_payment_intent_succeeded env cfg p"
| "handle_event D env cfg (PaymentIntentCapture oid) = handle_payment_intent_capture D env oid"
| "handle_event D env cfg (PaymentExpired iid) = handle_payment_expired env cfg iid"
| "handle_event D env cfg (PayoutInitiated pid) = handle_payout_initiated env cfg pid"

section \<open>The loop\<close>

definition next_event_entry :: "handler_config \<Rightarrow> ('d world, handler_error, event_entry option) comp" where
  "next_event_entry cfg =
     hpool (and_then (hdl (reset_stuck_events (hc_events cfg))) (\<lambda>_.
       map_ok (\<lambda>es. case es of [] \<Rightarrow> None | e # _ \<Rightarrow> Some e) (hdl (get_events_for_processing 1))))"

definition settle_event ::
  "handler_config \<Rightarrow> event_entry_id \<Rightarrow> handler_error + unit \<Rightarrow> ('d world, handler_error, unit) comp" where
  "settle_event cfg eid result =
     (case result of
        Inl HPanic \<Rightarrow> err HPanic
      | Inl e \<Rightarrow> hpool (and_then (hdl (fail_event (hc_events cfg) eid)) (\<lambda>_. err e))
      | Inr _ \<Rightarrow> hpool (map_ok (\<lambda>_. ()) (hdl (complete_event eid))))"

definition process_events ::
  "'d bigdecimal \<Rightarrow> 'd env \<Rightarrow> handler_config \<Rightarrow> ('d world, handler_error, unit) comp" where
  "process_events D env cfg =
     and_then (next_event_entry cfg) (\<lambda>found.
     case found of
       None \<Rightarrow> ok ()
     | Some entry \<Rightarrow>
         then_res (handle_event D env cfg (ev_payload (ee_event entry))) (settle_event cfg (ee_id entry)))"

text \<open>\<open>run\<close> for a number of ticks of the timer: errors are logged, a panic ends the loop.\<close>

fun run_ticks ::
  "'d bigdecimal \<Rightarrow> 'd env \<Rightarrow> handler_config \<Rightarrow> nat \<Rightarrow> ('d world, handler_error, unit) comp" where
  "run_ticks D env cfg 0 = ok ()"
| "run_ticks D env cfg (Suc n) =
     then_res (process_events D env cfg) (\<lambda>r.
       if r = Inl HPanic then err HPanic else run_ticks D env cfg n)"

section \<open>The handlers leave the event queue alone\<close>

definition same_events :: "'d db \<Rightarrow> 'd db \<Rightarrow> bool" where
  "same_events d e \<longleftrightarrow> event_store e = event_store d"

interpretation event_rows: db_relation same_events
  by unfold_locales (auto simp: same_events_def)

lemma keeps_handler_errors [keeps_intros]:
  "keeps R m \<Longrightarrow> keeps R (hdl m)" "keeps R n \<Longrightarrow> keeps R (hdl_client n)" "keeps R k \<Longrightarrow> keeps R (hdl_service k)"
  unfolding hdl_def hdl_client_def hdl_service_def keeps_def map_err_def
  by (auto split: prod.splits) (metis snd_conv)+

lemma keeps_same_events_writes [keeps_intros]:
  "keeps (\<lambda>s t. same_events (w_db s) (w_db t)) (set_amount_paid_fiat acl iid p)"
  "keeps (\<lambda>s t. same_events (w_db s) (w_db t)) (unlink_account acl iid)"
  "keeps (\<lambda>s t. same_events (w_db s) (w_db t)) (update_state acl oid st)"
  "keeps (\<lambda>s t. same_events (w_db s) (w_db t)) (update_stripe_fee acl oid f)"
  "keeps (\<lambda>s t. same_events (w_db s) (w_db t)) (pis_update acl pid u)"
  "keeps (\<lambda>s t. same_events (w_db s) (w_db t)) (fees_update_row acl fid v)"
  unfolding set_amount_paid_fiat_def unlink_account_def checked_update_def update_invoice_def update_state_def
    update_stripe_fee_def update_order_def pis_update_def fees_update_row_def
  by (intro keeps_intros event_rows.keeps_update_where; simp add: same_events_def)+

lemma keeps_same_events_fees_create [keeps_intros]:
  "keeps (\<lambda>s t. same_events (w_db s) (w_db t)) (fees_create acl nf)"
  unfolding fees_create_def
  by (intro keeps_intros event_rows.keeps_execute_serial)
     (auto simp: same_events_def insert_fee_def Let_def split: if_splits)

lemma keeps_same_events_payouts [keeps_intros]:
  "keeps (\<lambda>s t. same_events (w_db s) (w_db t)) (mark_as_completed acl pid)"
  unfolding mark_as_completed_def complete_payouts_def
  by (intro keeps_intros event_rows.keeps_update_where; simp add: same_events_def)

lemma keeps_payment_of_event [keeps_intros]:
  "keeps (\<lambda>s t. same_events (w_db s) (w_db t)) (payment_intent_succeeded n p)"
  unfolding payment_intent_succeeded_def apply_payment_def paid_invoice_def paid_fee_def Let_def
  by (intro keeps_intros)

lemma keeps_handler_steps [keeps_intros]:
  "keeps (\<lambda>s t. same_events (w_db s) (w_db t)) (get_invoice iid)"
  "keeps (\<lambda>s t. same_events (w_db s) (w_db t)) (drain_account env cfg aid)"
  "keeps (\<lambda>s t. same_events (w_db s) (w_db t)) (set_orders_status env iid st)"
  "keeps (\<lambda>s t. same_events (w_db s) (w_db t)) (mark_payout_as_completed pid)"
  "keeps (\<lambda>s t. same_events (w_db s) (w_db t)) (get_ture_context cfg)"
  unfolding get_invoice_def drain_account_def set_orders_status_def update_order_states_def Let_def
    mark_payout_as_completed_def get_ture_context_def get_account_def get_main_account_def internally_def
  by (intro keeps_intros)+

lemma keeps_drain_and_unlink [keeps_intros]:
  "keeps (\<lambda>s t. same_events (w_db s) (w_db t)) (drain_and_unlink_account env cfg iid)"
  unfolding drain_and_unlink_account_def by (intro keeps_intros)

lemma keeps_fee_for_orders [keeps_intros]:
  "keeps (\<lambda>s t. same_events (w_db s) (w_db t)) (create_fee_for_orders D env cfg iid)"
  unfolding create_fee_for_orders_def create_fees_def by (intro keeps_intros)

lemma keeps_cancel_payment_intent [keeps_intros]:
  "keeps (\<lambda>s t. same_events (w_db s) (w_db t)) (cancel_payment_intent env iid)"
  unfolding cancel_payment_intent_def by (intro keeps_intros)

lemma keeps_handler_cases [keeps_intros]:
  "(\<And>p i os. keeps R (f p i os)) \<Longrightarrow> keeps R m \<Longrightarrow>
   keeps R (case x of PaymentOfInvoice p i os \<Rightarrow> f p i os | PaymentOfFee \<Rightarrow> m)"
  "(\<And>i. keeps R (g i)) \<Longrightarrow> (\<And>i c. keeps R (h i c)) \<Longrightarrow>
   keeps R (case y of PayoutProcessing i \<Rightarrow> g i | PayoutCompleted i c \<Rightarrow> h i c)"
  "(\<And>t. keeps R (k t)) \<Longrightarrow> keeps R (case z of CryptoWallet t \<Rightarrow> k t)"
  by (simp_all split: payment_type.split payout_status.split payout_target.split)

lemma keeps_handle_paid_fiat [keeps_intros]:
  "keeps (\<lambda>s t. same_events (w_db s) (w_db t)) (handle_payment_intent_succeeded env cfg p)"
  unfolding handle_payment_intent_succeeded_def notify_and_set_paid_def update_order_states_def set_paid_fiat_def Let_def
  by (intro keeps_intros)

lemma keeps_handle_capture [keeps_intros]:
  "keeps (\<lambda>s t. same_events (w_db s) (w_db t)) (handle_payment_intent_capture D env oid)"
  unfolding handle_payment_intent_capture_def order_to_capture_def balance_of_charge_def store_capture_def
  by (intro keeps_intros)

lemma keeps_handle_payout [keeps_intros]:
  "keeps (\<lambda>s t. same_events (w_db s) (w_db t)) (handle_payout_initiated env cfg pid)"
  unfolding handle_payout_initiated_def pay_out_def create_payout_tx_def get_main_account_def get_account_def
    internally_def Let_def
  by (intro keeps_intros)

lemma keeps_handle_event [keeps_intros]:
  "keeps (\<lambda>s t. same_events (w_db s) (w_db t)) (handle_event D env cfg payload)"
  by (cases payload)
     (auto simp: handle_invoice_paid_def handle_payment_expired_def process_payment_expired_def
        handle_payment_intent_payment_failed_def
       intro!: keeps_intros split: payment_flow.split)

lemma keeps_evolves: "keeps (\<lambda>s t. same_events (w_db s) (w_db t)) m \<Longrightarrow>
    keeps (\<lambda>s t. event_store_evolves es (w_db s) (w_db t)) m"
  by (simp add: keeps_def same_events_def event_store_evolves_same)

lemma keeps_next_event [keeps_intros]:
  "keeps (\<lambda>s t. event_store_evolves (hc_events cfg) (w_db s) (w_db t)) (next_event_entry cfg)"
  unfolding next_event_entry_def by (intro keeps_intros)

lemma keeps_settle [keeps_intros]:
  "keeps (\<lambda>s t. event_store_evolves (hc_events cfg) (w_db s) (w_db t)) (settle_event cfg eid r)"
  unfolding settle_event_def by (auto intro!: keeps_intros split: sum.split handler_error.split)

lemma keeps_process_events [keeps_intros]:
  "keeps (\<lambda>s t. event_store_evolves (hc_events cfg) (w_db s) (w_db t)) (process_events D env cfg)"
  unfolding process_events_def by (intro keeps_intros keeps_evolves)

lemma keeps_run_ticks:
  "keeps (\<lambda>s t. event_store_evolves (hc_events cfg) (w_db s) (w_db t)) (run_ticks D env cfg n)"
  by (induction n) (auto intro!: keeps_intros)

text \<open>The configuration of the witnesses.\<close>

definition failing_config :: handler_config where
  "failing_config = \<lparr>hc_service = signed_config\<lparr>cfg_ture := False\<rparr>,
     hc_events = \<lparr>max_processing_attempts = 3, stuck_threshold_sec = 300\<rparr>, hc_task_first = (\<lambda>_. False)\<rparr>"

end
