(* ===== verification/EventLoop.thy ===== *)
theory EventLoop
  imports Prelude Models World Tables EventStore Triples InvoiceService EventHandling
begin

text \<open>
  The loop of \<open>event_handling/mod.rs\<close> as long as no statement fails and no handler panics: any queue of
  due events is worked off, one attempt per tick, and an event that cannot be handled is given up
  after the configured number of attempts. That the queue follows its machine also under failures is
  shown for whole runs of the program (\<open>queue_follows_machine_in_every_run\<close>).
\<close>

section \<open>One tick of a working loop\<close>

declare event_status_display.simps [simp del]

lemma finish_row:
  fixes w :: "'d world"
  assumes "quiet w" and "row_by (\<lambda>q. re_id q = eid) (event_store (w_db w)) = Some r"
    and "re_status r = event_status_display InProgress" and "re_event r = EventJson ev"
  shows "\<exists>x u. finish eid st w = (Inr x, u) \<and> quiet u \<and> event_store (w_db u) =
    map (\<lambda>q. if re_id q = eid then set_status (st r) (w_clock w 0) q else q) (event_store (w_db w))"
proof -
  let ?w = "w\<lparr>w_depth := Suc (w_depth w)\<rparr>" and ?now = "w_clock w 0"
  let ?rows = "map (\<lambda>q. if re_id q = eid then set_status (st r) ?now q else q) (event_store (w_db w))"
  let ?m = "and_then (repo (get_result (select_where event_store (\<lambda>q. re_id q = eid)))) (\<lambda>q.
      case event_status_from_str (re_status q) of
        None \<Rightarrow> err RInternal
      | Some s \<Rightarrow> if s \<noteq> InProgress then err RInternal
                  else and_then utc_now (\<lambda>now. update_status eid (st q) now))"
  let ?v = "?w\<lparr>w_clock := (\<lambda>n. w_clock w (Suc n))\<rparr>"
  have run: "?m ?w = update_status eid (st r) ?now ?v"
    using assms by (simp add: repo_get_row)
  have "update_status eid (st r) ?now ?v =
      (Inr \<lparr>ee_id = re_id r, ee_event = ev, ee_status = st r, ee_attempt_count = re_attempt_count r,
         ee_created_at = re_created_at r, ee_status_updated_at = ?now, ee_scheduled_on = re_scheduled_on r\<rparr>,
       ?v\<lparr>w_db := (w_db w)\<lparr>event_store := ?rows\<rparr>\<rparr>)"
    using assms by (simp add: update_status_quiet [where r = r] try_into_event_entry_def set_status_def)
  with transaction_quiet_Inr [of w ?m _ _ repo_error_of_diesel] run assms(1) show ?thesis
    by (simp add: finish_def)
qed

text \<open>The state of a queue that can be worked off: rows that can be decoded, with attempts within the limit.\<close>

definition workable :: "event_store_config \<Rightarrow> raw_event_entry list \<Rightarrow> bool" where
  "workable es rows \<longleftrightarrow> distinct (map re_id rows) \<and>
     (\<forall>r\<in>set rows. (\<exists>st. re_status r = event_status_display st) \<and> (\<exists>ev. re_event r = EventJson ev) \<and> attempts_ok es r)"

definition attempts_left :: "event_store_config \<Rightarrow> raw_event_entry \<Rightarrow> nat" where
  "attempts_left es r =
     (if re_status r \<in> {event_status_display Pending, event_status_display InProgress}
      then nat (sint (max_processing_attempts es) - sint (re_attempt_count r)) else 0)"

definition total_left :: "event_store_config \<Rightarrow> raw_event_entry list \<Rightarrow> nat" where
  "total_left es rows = sum_list (map (attempts_left es) rows)"

definition attempts_made :: "raw_event_entry list \<Rightarrow> nat" where
  "attempts_made rows = sum_list (map (\<lambda>r. nat (sint (re_attempt_count r))) rows)"

text \<open>What a run does to an entry, when the handler fails for the events \<open>F\<close>: it is left alone, or it has been
  attempted and is pending again, completed, or failed after its last attempt.\<close>

definition retried :: "event_store_config \<Rightarrow> event set \<Rightarrow> raw_event_entry \<Rightarrow> raw_event_entry \<Rightarrow> bool" where
  "retried es F r q \<longleftrightarrow> q = r \<or>
     re_id q = re_id r \<and> re_event q = re_event r \<and> re_scheduled_on q = re_scheduled_on r \<and>
     sint (re_attempt_count r) \<le> sint (re_attempt_count q) \<and>
     re_status r \<in> {event_status_display Pending, event_status_display InProgress} \<and>
     (re_status q = event_status_display Pending \<or>
      re_status q = event_status_display Completed \<and> re_event r \<notin> EventJson ` F \<or>
      re_status q = event_status_display Failed \<and>
        sint (re_attempt_count q) = sint (max_processing_attempts es))"

lemma retried_refl: "retried es F r r"
  by (simp add: retried_def)

lemma retried_trans: "retried es F r q \<Longrightarrow> retried es F q p \<Longrightarrow> retried es F r p"
  by (auto simp: retried_def)

text \<open>A row changes as the steps of a tick change it.\<close>

lemma sum_list_less:
  fixes f g :: "'a \<Rightarrow> nat"
  shows "(\<And>x. x \<in> set xs \<Longrightarrow> f x \<le> g x) \<Longrightarrow> y \<in> set xs \<Longrightarrow> f y < g y \<Longrightarrow>
    sum_list (map f xs) < sum_list (map g xs)"
proof (induction xs)
  case (Cons x xs)
  have "f x \<le> g x" "sum_list (map f xs) \<le> sum_list (map g xs)"
    using Cons.prems(1) by (auto intro: sum_list_mono)
  moreover have "f x < g x \<or> sum_list (map f xs) < sum_list (map g xs)"
    using Cons by auto
  ultimately show ?case by auto
qed simp

lemma sum_list_one_more:
  fixes f :: "'a \<Rightarrow> nat"
  assumes "distinct (map k xs)" and "\<And>x. f (h x) \<le> Suc (f x)"
  shows "sum_list (map (\<lambda>x. f (if k x = i then h x else x)) xs) \<le> Suc (sum_list (map f xs))"
  using assms(1)
proof (induction xs)
  case (Cons x xs)
  show ?case
  proof (cases "k x = i")
    case True
    with Cons.prems have "sum_list (map (\<lambda>y. f (if k y = i then h y else y)) xs) = sum_list (map f xs)"
      by (intro arg_cong [of _ _ sum_list] map_cong) (auto simp: image_iff)
    with True assms(2) [of x] show ?thesis by simp
  next
    case False
    with Cons show ?thesis by simp
  qed
qed simp

lemma sint_add_one_le:
  fixes c :: i32
  shows "sint (c + 1) \<le> sint c + 1"
  using sint_add_one [of c] sint_i32 [of "c + 1"] by linarith

lemma workable_update:
  assumes "workable es rows"
    and "\<And>r. r \<in> set rows \<Longrightarrow> p r \<Longrightarrow> re_id (g r) = re_id r \<and> re_event (g r) = re_event r \<and>
      (\<exists>st. re_status (g r) = event_status_display st) \<and> attempts_ok es (g r)"
  shows "workable es (map (\<lambda>r. if p r then g r else r) rows)"
proof -
  have "map re_id (map (\<lambda>r. if p r then g r else r) rows) = map re_id rows"
    using assms(2) by simp
  then show ?thesis
    using assms unfolding workable_def by (simp only:) auto
qed

lemma retried_update:
  "(\<And>r. r \<in> set rows \<Longrightarrow> p r \<Longrightarrow> retried es F r (g r)) \<Longrightarrow>
   list_all2 (retried es F) rows (map (\<lambda>r. if p r then g r else r) rows)"
  by (auto simp: list_all2_map2 retried_refl intro!: list_all2_same [THEN iffD2])

text \<open>The rows that are put back, and those that are claimed and settled.\<close>

lemma try_map_entries:
  "(\<And>r. r \<in> set rs \<Longrightarrow> (\<exists>st. re_status r = event_status_display st) \<and> (\<exists>ev. re_event r = EventJson ev)) \<Longrightarrow>
   \<exists>xs. try_map entry_result rs w = (Inr xs, w)"
proof (induction rs)
  case (Cons r rs)
  obtain ev st where "re_event r = EventJson ev" "re_status r = event_status_display st"
    using Cons.prems [of r] by auto
  then have "\<exists>x. entry_result r w = (Inr x, w)"
    by (simp add: entry_result_def try_into_event_entry_valid ok_apply)
  with Cons show ?case by (auto simp: and_then_def ok_apply)
qed (simp add: ok_apply)

lemma reset_step:
  fixes w :: "'d world"
  assumes "quiet w" and "workable es (event_store (w_db w))" and "unat (stuck_threshold_sec es) < 86400"
  shows "\<exists>x u p now. reset_stuck_events es w = (Inr x, u) \<and> quiet u \<and>
    event_store (w_db u) = map (\<lambda>r. if p r then unstick es now r else r) (event_store (w_db w)) \<and>
    (\<forall>r. p r \<longrightarrow> re_status r = event_status_display InProgress)"
proof -
  let ?p = "stuck (microseconds (stuck_threshold_sec es)) (w_clock w 0)"
  let ?v = "w\<lparr>w_clock := (\<lambda>n. w_clock w (Suc n))\<rparr>"
  let ?u = "?v\<lparr>w_db := (w_db w)\<lparr>event_store :=
    map (\<lambda>r. if ?p r then unstick es (w_clock w 0) r else r) (event_store (w_db w))\<rparr>\<rparr>"
  have "\<exists>xs. try_map entry_result (map (unstick es (w_clock w 0)) (filter ?p (event_store (w_db w)))) ?u = (Inr xs, ?u)"
    by (rule try_map_entries) (use assms(2) in \<open>auto simp: workable_def unstick_eq set_status_def\<close>)
  then obtain xs where
    "try_map entry_result (map (unstick es (w_clock w 0)) (filter ?p (event_store (w_db w)))) ?u = (Inr xs, ?u)" ..
  then have "reset_stuck_events es w = (Inr xs, ?u)"
    using assms(1,3) by (simp add: reset_stuck_events_def repo_def map_err_def update_where_quiet)
  moreover have "\<forall>r. ?p r \<longrightarrow> re_status r = event_status_display InProgress" by (simp add: stuck_def)
  ultimately show ?thesis
    using assms(1) by (intro exI [of _ xs] exI [of _ ?u] exI [of _ ?p] exI [of _ "w_clock w 0"]) simp
qed

lemma unstick_row:
  assumes "attempts_ok es r" and "re_status r = event_status_display InProgress"
  shows "retried es F r (unstick es now r)" and "attempts_ok es (unstick es now r)"
    and "attempts_left es (unstick es now r) \<le> attempts_left es r"
  using assms
  by (auto simp: unstick_eq set_status_def retried_def attempts_ok_def attempts_exhausted_def attempts_left_def Let_def)

lemma reset_rows:
  fixes now :: timestamp
  assumes "workable es rows" and "\<And>r. p r \<Longrightarrow> re_status r = event_status_display InProgress"
  defines "rows' \<equiv> map (\<lambda>r. if p r then unstick es now r else r) rows"
  shows "workable es rows'" and "list_all2 (retried es F) rows rows'"
    and "total_left es rows' \<le> total_left es rows" and "attempts_made rows' = attempts_made rows"
proof -
  have ok: "attempts_ok es r" if "r \<in> set rows" for r using assms(1) that by (simp add: workable_def)
  show "workable es rows'"
    unfolding rows'_def
    by (rule workable_update [OF assms(1)])
      (use ok unstick_row assms(2) in \<open>auto simp: unstick_eq set_status_def\<close>)
  show "list_all2 (retried es F) rows rows'"
    unfolding rows'_def by (rule retried_update) (use ok unstick_row assms(2) in blast)
  have "attempts_left es (if p r then unstick es now r else r) \<le> attempts_left es r" if "r \<in> set rows" for r
    using unstick_row(3) [OF ok [OF that] assms(2)] by simp
  then show "total_left es rows' \<le> total_left es rows"
    unfolding total_left_def rows'_def map_map comp_def by (rule sum_list_mono)
  have "map (\<lambda>r. nat (sint (re_attempt_count r))) rows' = map (\<lambda>r. nat (sint (re_attempt_count r))) rows"
    by (simp add: rows'_def unstick_eq set_status_def)
  then show "attempts_made rows' = attempts_made rows" unfolding attempts_made_def by (simp only:)
qed

lemma taken_one:
  assumes "distinct (map re_id rows)"
  shows "(filter (taken 1 now rows) rows = [] \<and> (\<forall>r\<in>set rows. \<not> due now r)) \<or>
    (\<exists>r\<in>set rows. due now r \<and> filter (taken 1 now rows) rows = [r])"
proof -
  let ?mine = "filter (taken 1 now rows) rows"
  have len: "length ?mine = min 1 (length (filter (due now) rows))"
    by (simp add: taken_length [OF assms] claimed_ids_def)
  show ?thesis
  proof (cases ?mine)
    case Nil
    with len have "filter (due now) rows = []" by (simp add: min_def split: if_splits)
    with Nil show ?thesis by (simp add: filter_empty_conv)
  next
    case (Cons r rs)
    moreover from this len have "rs = []" by (simp add: min_def split: if_splits)
    moreover have "r \<in> set ?mine" using Cons by simp
    then have "r \<in> set rows" "taken 1 now rows r" by auto
    ultimately show ?thesis using claimed_row_due [OF assms] by (auto simp: taken_def)
  qed
qed

text \<open>A claimed row that is settled.\<close>

definition settled :: "event_store_config \<Rightarrow> bool \<Rightarrow> timestamp \<Rightarrow> timestamp \<Rightarrow> raw_event_entry \<Rightarrow> raw_event_entry" where
  "settled es succeeded now later r =
     set_status (if succeeded then Completed else if attempts_exhausted es (claim now r) then Failed else Pending)
       later (claim now r)"

lemma settled_simps [simp]:
  "re_id (settled es succeeded now later r) = re_id r" "re_event (settled es succeeded now later r) = re_event r"
  "\<exists>st. re_status (settled es succeeded now later r) = event_status_display st"
  by (auto simp: settled_def set_status_def claim_def)

lemma settled_row:
  assumes "attempts_ok es r" and "due now r" and "sint (max_processing_attempts es) < 2 ^ 31 - 1"
    and "succeeded \<Longrightarrow> re_event r \<notin> EventJson ` F"
  shows "retried es F r (settled es succeeded now later r)" and "attempts_ok es (settled es succeeded now later r)"
    and "attempts_left es (settled es succeeded now later r) < attempts_left es r"
proof -
  have pending: "re_status r = event_status_display Pending" using assms(2) by (simp add: due_def)
  then have bound: "0 \<le> sint (re_attempt_count r)" "sint (re_attempt_count r) < sint (max_processing_attempts es)"
    using assms(1) by (simp_all add: attempts_ok_def Let_def)
  then have "sint (re_attempt_count r) < 2 ^ 31 - 1" using assms(3) by linarith
  note count = sint_add_one [OF this]
  show "retried es F r (settled es succeeded now later r)" "attempts_ok es (settled es succeeded now later r)"
    "attempts_left es (settled es succeeded now later r) < attempts_left es r"
    using assms(4) bound
    by (auto simp: settled_def claim_def set_status_def retried_def attempts_ok_def attempts_exhausted_def
        attempts_left_def Let_def pending count)
qed

lemma settled_rows:
  fixes now later :: timestamp
  assumes "workable es rows" and "r \<in> set rows" and "due now r"
    and "sint (max_processing_attempts es) < 2 ^ 31 - 1" and "succeeded \<Longrightarrow> re_event r \<notin> EventJson ` F"
  defines "rows' \<equiv> map (\<lambda>q. if re_id q = re_id r then settled es succeeded now later q else q) rows"
  shows "workable es rows'" and "list_all2 (retried es F) rows rows'"
    and "total_left es rows' < total_left es rows" and "attempts_made rows' \<le> Suc (attempts_made rows)"
proof -
  have d: "distinct (map re_id rows)" and ok: "\<And>q. q \<in> set rows \<Longrightarrow> attempts_ok es q"
    using assms(1) by (simp_all add: workable_def)
  have only: "q = r" if "q \<in> set rows" "re_id q = re_id r" for q
    using that d assms(2) by (metis distinct_map inj_onD)
  note row = settled_row [where succeeded = succeeded and later = later, OF ok [OF assms(2)] assms(3,4,5)]
  have "attempts_ok es (settled es succeeded now later q)" if "q \<in> set rows" "re_id q = re_id r" for q
    using row(2) by (simp add: only [OF that])
  then show "workable es rows'"
    unfolding rows'_def by (intro workable_update [OF assms(1)]) simp
  show "list_all2 (retried es F) rows rows'"
    unfolding rows'_def by (rule retried_update) (use only row(1) in blast)
  have "attempts_left es (if re_id q = re_id r then settled es succeeded now later q else q) \<le> attempts_left es q"
    if "q \<in> set rows" for q
    using only [OF that] row(3) by auto
  then show "total_left es rows' < total_left es rows"
    unfolding total_left_def rows'_def map_map comp_def
    by (rule sum_list_less [OF _ assms(2)]) (use row(3) in auto)
  have "nat (sint (re_attempt_count (settled es succeeded now later q))) \<le> Suc (nat (sint (re_attempt_count q)))" for q
    using sint_add_one_le [of "re_attempt_count q"] by (simp add: settled_def set_status_def claim_def)
  from sum_list_one_more [where k = re_id and f = "\<lambda>q. nat (sint (re_attempt_count q))", OF d this]
  show "attempts_made rows' \<le> Suc (attempts_made rows)"
    by (simp add: attempts_made_def rows'_def comp_def)
qed

text \<open>A handler that returns, without a panic, and fails for the events \<open>F\<close>.\<close>

definition handled :: "'d bigdecimal \<Rightarrow> 'd env \<Rightarrow> handler_config \<Rightarrow> event set \<Rightarrow> event \<Rightarrow> bool" where
  "handled D env cfg F ev \<longleftrightarrow>
     (\<forall>v. quiet v \<longrightarrow> (\<exists>res u. handle_event D env cfg (ev_payload ev) v = (res, u) \<and> res \<noteq> Inl HPanic \<and>
        (ev \<in> F \<longrightarrow> isl res) \<and> quiet u))"

text \<open>What a tick does to the rows: at most one attempt is made, and one is made when an event waits.\<close>

abbreviation waits :: "raw_event_entry \<Rightarrow> bool" where
  "waits r \<equiv> re_status r = event_status_display Pending \<and> re_scheduled_on r = None"

definition ticked :: "event_store_config \<Rightarrow> event set \<Rightarrow> raw_event_entry list \<Rightarrow> raw_event_entry list \<Rightarrow> bool" where
  "ticked es F rows rows' \<longleftrightarrow> workable es rows' \<and> list_all2 (retried es F) rows rows' \<and>
     attempts_made rows' \<le> Suc (attempts_made rows) \<and> total_left es rows' \<le> total_left es rows \<and>
     (list_ex waits rows \<longrightarrow> total_left es rows' < total_left es rows)"

lemma settle_row:
  fixes u :: "'d world"
  assumes "quiet u" and "row_by (\<lambda>q. re_id q = eid) (event_store (w_db u)) = Some (claim now r)"
    and "re_event r = EventJson ev" and "res \<noteq> Inl HPanic"
  shows "\<exists>out t later. settle_event cfg eid res u = (out, t) \<and> out \<noteq> Inl HPanic \<and> quiet t \<and>
    event_store (w_db t) = map (\<lambda>q. if re_id q = eid
      then set_status (if isl res then if attempts_exhausted (hc_events cfg) (claim now r) then Failed else Pending
        else Completed) later q else q) (event_store (w_db u))"
proof -
  have row: "re_status (claim now r) = event_status_display InProgress" "re_event (claim now r) = EventJson ev"
    using assms(3) by (simp_all add: claim_def)
  show ?thesis
  proof (cases res)
    case (Inl e)
    from finish_row [OF assms(1,2) row, of "\<lambda>r. if attempts_exhausted (hc_events cfg) r then Failed else Pending"]
    obtain x t where "fail_event (hc_events cfg) eid u = (Inr x, t)" and t: "quiet t" "event_store (w_db t) =
        map (\<lambda>q. if re_id q = eid then set_status (if attempts_exhausted (hc_events cfg) (claim now r) then Failed else Pending)
          (w_clock u 0) q else q) (event_store (w_db u))"
      by (auto simp: fail_event_finish)
    then have "settle_event cfg eid res u = (Inl e, t)"
      using assms(1,4) Inl by (cases e) (simp_all add: settle_event_def hdl_def)
    with t Inl assms(4) show ?thesis by auto
  next
    case (Inr y)
    from finish_row [OF assms(1,2) row, of "\<lambda>_. Completed"]
    obtain x t where "complete_event eid u = (Inr x, t)" and t: "quiet t" "event_store (w_db t) =
        map (\<lambda>q. if re_id q = eid then set_status Completed (w_clock u 0) q else q) (event_store (w_db u))"
      by (auto simp: complete_event_finish)
    then have "settle_event cfg eid res u = (Inr (), t)"
      using assms(1) Inr by (simp add: settle_event_def hdl_def map_ok_def map_err_def)
    with t Inr show ?thesis by auto
  qed
qed

lemma next_event_run:
  fixes w :: "'d world"
  assumes "quiet w" and "workable (hc_events cfg) (event_store (w_db w))"
    and "unat (stuck_threshold_sec (hc_events cfg)) < 86400"
    and "sint (max_processing_attempts (hc_events cfg)) < 2 ^ 31 - 1"
  obtains (none) u p now where "next_event_entry cfg w = (Inr None, u)" and "quiet u"
      and "\<forall>r. p r \<longrightarrow> re_status r = event_status_display InProgress"
      and "event_store (w_db u) = map (\<lambda>r. if p r then unstick (hc_events cfg) now r else r) (event_store (w_db w))"
      and "\<not> list_ex waits (event_store (w_db u))"
  | (some) u p now rows later r ev x where "next_event_entry cfg w = (Inr (Some x), u)" and "quiet u"
      and "ee_id x = re_id r" and "ee_event x = ev" and "re_event r = EventJson ev"
      and "\<forall>r. p r \<longrightarrow> re_status r = event_status_display InProgress"
      and "rows = map (\<lambda>r. if p r then unstick (hc_events cfg) now r else r) (event_store (w_db w))"
      and "r \<in> set rows" and "due later r"
      and "event_store (w_db u) = map (\<lambda>q. if re_id q = re_id r then claim later q else q) rows"
proof -
  let ?es = "hc_events cfg"
  obtain y v p now where reset: "reset_stuck_events ?es w = (Inr y, v)" "quiet v"
    and rows: "event_store (w_db v) = map (\<lambda>r. if p r then unstick ?es now r else r) (event_store (w_db w))"
    and p: "\<forall>r. p r \<longrightarrow> re_status r = event_status_display InProgress"
    using reset_step [OF assms(1,2,3)] by blast
  have good: "workable ?es (event_store (w_db v))"
    unfolding rows using reset_rows(1) [OF assms(2)] p by blast
  then have d: "distinct (map re_id (event_store (w_db v)))"
    and decodable: "\<forall>r\<in>set (event_store (w_db v)). (\<exists>e. re_event r = EventJson e) \<and> sint (re_attempt_count r) < 2 ^ 31 - 1"
    using assms(4) by (fastforce simp: workable_def attempts_ok_def Let_def)+
  note claims = get_events_run [OF reset(2) decodable, of 1]
  have next_run: "next_event_entry cfg w =
      (Inr (case filter (taken 1 (w_clock v 0) (event_store (w_db v))) (event_store (w_db v)) of
        [] \<Rightarrow> None | r # _ \<Rightarrow> Some (claimed_entry (w_clock v 0) r)),
       snd (get_events_for_processing 1 v))"
    using assms(1) reset(1) by (simp add: next_event_entry_def hdl_def claims map_ok_def map_err_def split: list.split)
  from taken_one [OF d, of "w_clock v 0"] show thesis
  proof (elim disjE conjE bexE)
    assume empty: "filter (taken 1 (w_clock v 0) (event_store (w_db v))) (event_store (w_db v)) = []"
      and idle: "\<forall>r\<in>set (event_store (w_db v)). \<not> due (w_clock v 0) r"
    then have "\<forall>r\<in>set (event_store (w_db v)). \<not> taken 1 (w_clock v 0) (event_store (w_db v)) r"
      by (simp add: filter_empty_conv)
    then have "map (\<lambda>r. if taken 1 (w_clock v 0) (event_store (w_db v)) r then claim (w_clock v 0) r else r)
        (event_store (w_db v)) = event_store (w_db v)"
      by (intro map_idI) simp
    then have same: "event_store (w_db (snd (get_events_for_processing 1 v))) = event_store (w_db v)"
      by (simp add: claims)
    show thesis
    proof (rule none)
      show "next_event_entry cfg w = (Inr None, snd (get_events_for_processing 1 v))"
        by (simp add: next_run empty)
      show "\<not> list_ex waits (event_store (w_db (snd (get_events_for_processing 1 v))))"
        using idle by (auto simp: same list_ex_iff due_def split: option.splits)
      show "quiet (snd (get_events_for_processing 1 v))" using reset(2) by (simp add: claims)
      show "event_store (w_db (snd (get_events_for_processing 1 v))) =
          map (\<lambda>r. if p r then unstick ?es now r else r) (event_store (w_db w))"
        unfolding same by (rule rows)
    qed (rule p)
  next
    fix r
    assume r: "r \<in> set (event_store (w_db v))" "due (w_clock v 0) r"
      and one: "filter (taken 1 (w_clock v 0) (event_store (w_db v))) (event_store (w_db v)) = [r]"
    obtain ev where ev: "re_event r = EventJson ev" using decodable r(1) by blast
    have "taken 1 (w_clock v 0) (event_store (w_db v)) q \<longleftrightarrow> re_id q = re_id r" if "q \<in> set (event_store (w_db v))" for q
    proof
      assume "taken 1 (w_clock v 0) (event_store (w_db v)) q"
      with that have "q \<in> set [r]" unfolding one [symmetric] by simp
      then show "re_id q = re_id r" by simp
    next
      assume "re_id q = re_id r"
      with that r(1) d have "q = r" by (metis distinct_map inj_onD)
      moreover have "r \<in> set (filter (taken 1 (w_clock v 0) (event_store (w_db v))) (event_store (w_db v)))"
        by (simp add: one)
      ultimately show "taken 1 (w_clock v 0) (event_store (w_db v)) q" by simp
    qed
    then have "map (\<lambda>q. if taken 1 (w_clock v 0) (event_store (w_db v)) q then claim (w_clock v 0) q else q) (event_store (w_db v)) =
        map (\<lambda>q. if re_id q = re_id r then claim (w_clock v 0) q else q) (event_store (w_db v))"
      by (intro map_cong) auto
    then have claimed: "event_store (w_db (snd (get_events_for_processing 1 v))) =
        map (\<lambda>q. if re_id q = re_id r then claim (w_clock v 0) q else q) (event_store (w_db v))"
      by (simp add: claims)
    show thesis
    proof (rule some)
      show "next_event_entry cfg w =
          (Inr (Some (claimed_entry (w_clock v 0) r)), snd (get_events_for_processing 1 v))"
        by (simp add: next_run one)
      show "quiet (snd (get_events_for_processing 1 v))" using reset(2) by (simp add: claims)
      show "ee_id (claimed_entry (w_clock v 0) r) = re_id r" "ee_event (claimed_entry (w_clock v 0) r) = ev"
        by (simp_all add: claimed_entry_def ev)
    qed (rule ev p rows r claimed)+
  qed
qed

lemma waits_unstick:
  assumes "\<forall>r. p r \<longrightarrow> re_status r = event_status_display InProgress" and "list_ex waits rows"
  shows "list_ex waits (map (\<lambda>r. if p r then unstick es now r else r) rows)"
proof -
  obtain r where r: "r \<in> set rows" "waits r" using assms(2) by (auto simp: list_ex_iff)
  with assms(1) have "\<not> p r" by auto
  with r show ?thesis by (auto simp: list_ex_iff image_iff intro!: bexI [of _ r])
qed

lemma tick:
  fixes w :: "'d world"
  assumes "quiet w" and "workable (hc_events cfg) (event_store (w_db w))"
    and "unat (stuck_threshold_sec (hc_events cfg)) < 86400"
    and "sint (max_processing_attempts (hc_events cfg)) < 2 ^ 31 - 1"
    and "\<forall>r\<in>set (event_store (w_db w)). \<forall>ev. re_event r = EventJson ev \<longrightarrow> handled D env cfg F ev"
  shows "\<exists>res t. process_events D env cfg w = (res, t) \<and> res \<noteq> Inl HPanic \<and> quiet t \<and>
    ticked (hc_events cfg) F (event_store (w_db w)) (event_store (w_db t))"
  using assms(1-4)
proof (cases rule: next_event_run)
  case (none u p now)
  let ?rows = "map (\<lambda>r. if p r then unstick (hc_events cfg) now r else r) (event_store (w_db w))"
  note reset = reset_rows [where p = p and now = now, OF assms(2)]
  have "\<not> list_ex waits (event_store (w_db w))"
    using none(5) waits_unstick [OF none(3), of "event_store (w_db w)" "hc_events cfg" now]
    unfolding none(4) by blast
  with none(3) reset have "ticked (hc_events cfg) F (event_store (w_db w)) ?rows"
    by (simp add: ticked_def)
  with none(1,2,4) show ?thesis by (simp add: process_events_def ok_apply)
next
  case (some u p now rows later r ev x)
  note reset = reset_rows [where p = p and now = now, OF assms(2)]
  have good: "workable (hc_events cfg) rows" unfolding some(7) using reset(1) some(6) by blast
  then have d: "distinct (map re_id rows)" by (simp add: workable_def)
  have "handled D env cfg F ev"
    using assms(5) some(5,7,8) by (auto simp: unstick_eq set_status_def split: if_splits)
  then obtain res v where run: "handle_event D env cfg (ev_payload ev) u = (res, v)" "res \<noteq> Inl HPanic"
    and fails: "ev \<in> F \<longrightarrow> isl res" and v: "quiet v"
    using some(2) by (auto simp: handled_def)
  have same: "event_store (w_db v) = map (\<lambda>q. if re_id q = re_id r then claim later q else q) rows"
    using keepsD [OF keeps_handle_event run(1)] some(10) by (simp add: same_events_def)
  have "row_by (\<lambda>q. re_id q = re_id (claim later r)) (event_store (w_db v)) = Some (claim later r)"
  proof (rule unique_row_by)
    have "map re_id (event_store (w_db v)) = map re_id rows" by (simp add: same)
    with d show "distinct (map re_id (event_store (w_db v)))" by simp
    show "claim later r \<in> set (event_store (w_db v))" using some(8) by (auto simp: same image_iff)
  qed
  then have "row_by (\<lambda>q. re_id q = re_id r) (event_store (w_db v)) = Some (claim later r)" by simp
  from settle_row [OF v this some(5) run(2)] obtain out t late where
    settle: "settle_event cfg (re_id r) res v = (out, t)" "out \<noteq> Inl HPanic" "quiet t"
    and rows: "event_store (w_db t) = map (\<lambda>q. if re_id q = re_id r
      then set_status (if isl res then if attempts_exhausted (hc_events cfg) (claim later r) then Failed else Pending
        else Completed) late q else q) (event_store (w_db v))" by blast
  have only: "q = r" if "q \<in> set rows" "re_id q = re_id r" for q
    using that d some(8) by (metis distinct_map inj_onD)
  have t: "event_store (w_db t) =
      map (\<lambda>q. if re_id q = re_id r then settled (hc_events cfg) (\<not> isl res) later late q else q) rows"
    unfolding rows same map_map comp_def
    by (rule map_cong [OF refl]) (auto simp: settled_def dest!: only)
  note settled = settled_rows [where F = F and succeeded = "\<not> isl res" and later = late, OF good some(8,9) assms(4), folded t]
  have "re_event r \<notin> EventJson ` F" if "\<not> isl res" using fails that some(5) by auto
  note settled = settled [OF this]
  have moved: "list_all2 (retried (hc_events cfg) F) (event_store (w_db w)) rows"
    unfolding some(7) by (rule reset(2)) (use some(6) in blast)
  have less: "total_left (hc_events cfg) rows \<le> total_left (hc_events cfg) (event_store (w_db w))"
    unfolding some(7) by (rule reset(3)) (use some(6) in blast)
  have made: "attempts_made rows = attempts_made (event_store (w_db w))"
    unfolding some(7) by (rule reset(4)) (use some(6) in blast)
  have "ticked (hc_events cfg) F (event_store (w_db w)) (event_store (w_db t))"
    unfolding ticked_def
  proof (intro conjI impI)
    show "list_all2 (retried (hc_events cfg) F) (event_store (w_db w)) (event_store (w_db t))"
      by (rule list_all2_trans [OF retried_trans moved settled(2)])
  qed (use settled(1,3,4) less made in simp_all)
  moreover have "process_events D env cfg w = (out, t)"
    using some(1,3,4) run(1) settle(1) by (simp add: process_events_def then_res_def)
  ultimately show ?thesis using settle(2,3) by blast
qed

lemma retried_events:
  "list_all2 (retried es F) rows rows' \<Longrightarrow> map re_event rows' = map re_event rows"
  by (induction rule: list_all2_induct) (auto simp: retried_def)

text \<open>An entry that waits after some ticks has waited before each of them.\<close>

lemma retried_waits: "retried es F r q \<Longrightarrow> retried es F q p \<Longrightarrow> waits r \<Longrightarrow> waits p \<Longrightarrow> waits q"
  by (auto simp: retried_def)

definition still_waits :: "raw_event_entry list \<Rightarrow> raw_event_entry list \<Rightarrow> bool" where
  "still_waits rows rows' \<longleftrightarrow> (\<exists>i<length rows. waits (rows ! i) \<and> waits (rows' ! i))"

lemma still_waits_between:
  assumes "list_all2 (retried es F) rows rows1" and "list_all2 (retried es F) rows1 rows2" and "still_waits rows rows2"
  shows "list_ex waits rows" and "still_waits rows1 rows2"
proof -
  obtain i where i: "i < length rows" "waits (rows ! i)" "waits (rows2 ! i)"
    using assms(3) by (auto simp: still_waits_def)
  then show "list_ex waits rows" by (auto simp: list_ex_iff)
  have "waits (rows1 ! i)"
    using i assms(1,2) retried_waits [of es F "rows ! i" "rows1 ! i" "rows2 ! i"] by (simp add: list_all2_conv_all_nth)
  with i assms(1) show "still_waits rows1 rows2" by (auto simp: still_waits_def list_all2_lengthD [symmetric])
qed

lemma ticks:
  fixes w :: "'d world"
  assumes "quiet w" and "workable (hc_events cfg) (event_store (w_db w))"
    and "unat (stuck_threshold_sec (hc_events cfg)) < 86400"
    and "sint (max_processing_attempts (hc_events cfg)) < 2 ^ 31 - 1"
    and "\<forall>r\<in>set (event_store (w_db w)). \<forall>ev. re_event r = EventJson ev \<longrightarrow> handled D env cfg F ev"
  shows "\<exists>t. run_ticks D env cfg n w = (Inr (), t) \<and> workable (hc_events cfg) (event_store (w_db t)) \<and>
    list_all2 (retried (hc_events cfg) F) (event_store (w_db w)) (event_store (w_db t)) \<and>
    attempts_made (event_store (w_db t)) \<le> attempts_made (event_store (w_db w)) + n \<and>
    (still_waits (event_store (w_db w)) (event_store (w_db t)) \<longrightarrow>
       total_left (hc_events cfg) (event_store (w_db t)) + n \<le> total_left (hc_events cfg) (event_store (w_db w)))"
  using assms(1,2,5)
proof (induction n arbitrary: w)
  case 0
  then show ?case by (simp add: ok_apply list_all2_refl retried_refl)
next
  case (Suc n)
  from tick [OF Suc.prems(1,2) assms(3,4) Suc.prems(3)] obtain res u where
    run: "process_events D env cfg w = (res, u)" "res \<noteq> Inl HPanic" "quiet u"
    and u: "ticked (hc_events cfg) F (event_store (w_db w)) (event_store (w_db u))" by blast
  then have moved: "list_all2 (retried (hc_events cfg) F) (event_store (w_db w)) (event_store (w_db u))"
    and good: "workable (hc_events cfg) (event_store (w_db u))" by (simp_all add: ticked_def)
  have "\<forall>r\<in>set (event_store (w_db u)). \<forall>ev. re_event r = EventJson ev \<longrightarrow> handled D env cfg F ev"
    using Suc.prems(3) arg_cong [OF retried_events [OF moved], of set] by (force simp: image_iff)
  from Suc.IH [OF run(3) good this] obtain t where
    rest: "run_ticks D env cfg n u = (Inr (), t)" and t: "workable (hc_events cfg) (event_store (w_db t))"
      "list_all2 (retried (hc_events cfg) F) (event_store (w_db u)) (event_store (w_db t))"
      "attempts_made (event_store (w_db t)) \<le> attempts_made (event_store (w_db u)) + n"
      "still_waits (event_store (w_db u)) (event_store (w_db t)) \<longrightarrow>
       total_left (hc_events cfg) (event_store (w_db t)) + n \<le> total_left (hc_events cfg) (event_store (w_db u))"
    by blast
  have "run_ticks D env cfg (Suc n) w = (Inr (), t)"
    using run rest by (simp add: then_res_def)
  moreover have "total_left (hc_events cfg) (event_store (w_db t)) + Suc n \<le> total_left (hc_events cfg) (event_store (w_db w))"
    if "still_waits (event_store (w_db w)) (event_store (w_db t))"
    using still_waits_between [OF moved t(2) that] t(4) u by (simp add: ticked_def)
  moreover have "list_all2 (retried (hc_events cfg) F) (event_store (w_db w)) (event_store (w_db t))"
    by (rule list_all2_trans [OF retried_trans moved t(2)])
  moreover have "attempts_made (event_store (w_db t)) \<le> attempts_made (event_store (w_db w)) + Suc n"
    using t(3) u by (simp add: ticked_def)
  ultimately show ?case using t(1) by blast
qed

text \<open>C19: Whatever events the queue holds, a run of the loop in which no statement fails and no handler panics works it
  off: the loop goes on, \<open>n\<close> ticks make at most \<open>n\<close> attempts, and after as many ticks as the entries
  have attempts left together none of the events that were pending without a schedule is pending any
  more. Every entry is left alone or ends pending again, completed or failed, and it is failed only
  after its last attempt; an event whose handler always fails is never completed, so that it ends as
  failed when its attempts are used up.\<close>

theorem retries_end:
  fixes w :: "'d world"
  assumes "quiet w" and "workable (hc_events cfg) (event_store (w_db w))"
    and "unat (stuck_threshold_sec (hc_events cfg)) < 86400"
    and "sint (max_processing_attempts (hc_events cfg)) < 2 ^ 31 - 1"
    and "\<forall>r\<in>set (event_store (w_db w)). \<forall>ev. re_event r = EventJson ev \<longrightarrow> handled D env cfg F ev"
  shows "\<exists>t. run_ticks D env cfg n w = (Inr (), t) \<and>
    list_all2 (retried (hc_events cfg) F) (event_store (w_db w)) (event_store (w_db t)) \<and>
    attempts_made (event_store (w_db t)) \<le> attempts_made (event_store (w_db w)) + n \<and>
    (total_left (hc_events cfg) (event_store (w_db w)) \<le> n \<longrightarrow>
       \<not> still_waits (event_store (w_db w)) (event_store (w_db t)))"
proof -
  from ticks [OF assms, of n] obtain t where run: "run_ticks D env cfg n w = (Inr (), t)"
    and t: "workable (hc_events cfg) (event_store (w_db t))"
      "list_all2 (retried (hc_events cfg) F) (event_store (w_db w)) (event_store (w_db t))"
      "attempts_made (event_store (w_db t)) \<le> attempts_made (event_store (w_db w)) + n"
      "still_waits (event_store (w_db w)) (event_store (w_db t)) \<longrightarrow>
       total_left (hc_events cfg) (event_store (w_db t)) + n \<le> total_left (hc_events cfg) (event_store (w_db w))"
    by blast
  have "0 < total_left (hc_events cfg) (event_store (w_db t))"
    if still: "still_waits (event_store (w_db w)) (event_store (w_db t))"
  proof -
    obtain i where "i < length (event_store (w_db t))" "waits (event_store (w_db t) ! i)"
      using still list_all2_lengthD [OF t(2)] by (auto simp: still_waits_def)
    then obtain q where q: "q \<in> set (event_store (w_db t))" "waits q" using nth_mem by blast
    with t(1) have "0 < attempts_left (hc_events cfg) q"
      by (auto simp: workable_def attempts_ok_def attempts_left_def Let_def)
    moreover have "attempts_left (hc_events cfg) q \<le> total_left (hc_events cfg) (event_store (w_db t))"
      unfolding total_left_def using q(1) member_le_sum_list [of _ "map (attempts_left (hc_events cfg)) (event_store (w_db t))"] by simp
    ultimately show ?thesis by simp
  qed
  with run t show ?thesis by fastforce
qed

text \<open>A queue of two: a payout that cannot be made, and an event without a handler.\<close>

definition two_events_world :: "rat world" where
  "two_events_world = initial_world (empty_db\<lparr>event_store :=
     [\<lparr>re_id = EventEntryId 1, re_event = EventJson \<lparr>ev_id = EventId 7, ev_payload = PayoutInitiated (PayoutId 5)\<rparr>,
       re_status = event_status_display Pending, re_attempt_count = 0, re_created_at = 0,
       re_status_updated_at = 0, re_scheduled_on = None\<rparr>,
      \<lparr>re_id = EventEntryId 2, re_event = EventJson \<lparr>ev_id = EventId 8, ev_payload = NoOp\<rparr>,
       re_status = event_status_display Pending, re_attempt_count = 0, re_created_at = 0,
       re_status_updated_at = 0, re_scheduled_on = None\<rparr>]\<rparr>)"

theorem retries_end_witness:
  "re_status (hd (event_store (w_db (snd (run_ticks rat_bigdecimal offline_env failing_config 6 two_events_world))))) =
     event_status_display Failed"
proof -
  let ?ev = "\<lparr>ev_id = EventId 7, ev_payload = PayoutInitiated (PayoutId 5)\<rparr>"
  have handled: "\<forall>r\<in>set (event_store (w_db two_events_world)). \<forall>ev. re_event r = EventJson ev \<longrightarrow>
      handled rat_bigdecimal offline_env failing_config {?ev} ev"
    by (auto simp: two_events_world_def initial_world_def handled_def handle_payout_initiated_def
        get_ture_context_def failing_config_def ok_apply err_apply)
  have "quiet two_events_world"
    "workable (hc_events failing_config) (event_store (w_db two_events_world))"
    "unat (stuck_threshold_sec (hc_events failing_config)) < 86400"
    "sint (max_processing_attempts (hc_events failing_config)) < 2 ^ 31 - 1"
    by (auto simp: two_events_world_def initial_world_def quiet_def failing_config_def workable_def attempts_ok_def)
  from retries_end [OF this handled, of 6] obtain t where
    run: "run_ticks rat_bigdecimal offline_env failing_config 6 two_events_world = (Inr (), t)"
    and rows: "list_all2 (retried (hc_events failing_config) {?ev}) (event_store (w_db two_events_world)) (event_store (w_db t))"
    and left: "total_left (hc_events failing_config) (event_store (w_db two_events_world)) \<le> 6 \<longrightarrow>
      \<not> still_waits (event_store (w_db two_events_world)) (event_store (w_db t))"
    by blast
  have "total_left (hc_events failing_config) (event_store (w_db two_events_world)) \<le> 6"
    by (simp add: two_events_world_def initial_world_def total_left_def attempts_left_def failing_config_def)
  with left have over: "\<not> still_waits (event_store (w_db two_events_world)) (event_store (w_db t))" by blast
  obtain q qs where q: "event_store (w_db t) = q # qs"
    and retried: "retried (hc_events failing_config) {?ev} (hd (event_store (w_db two_events_world))) q"
    using rows by (auto simp: two_events_world_def initial_world_def list_all2_Cons1)
  have "still_waits (event_store (w_db two_events_world)) (event_store (w_db t))" if "waits q"
    using that by (auto simp: still_waits_def q two_events_world_def initial_world_def intro!: exI [of _ "0::nat"])
  with over have "\<not> waits q" by blast
  with retried have "re_status q = event_status_display Failed"
    by (auto simp: retried_def two_events_world_def initial_world_def)
  then show ?thesis by (simp add: run q)
qed

end
