(* ===== verification/EventHandlers.thy ===== *)
theory EventHandlers
  imports Prelude Models World Authorization Tables Clients InvoicesRepo OrdersRepo FeesRepo
    PaymentIntentsRepo PayoutsRepo Services Triples AccountService StripeService PaymentIntentService
    InvoicePricing InvoiceService EventHandling
begin

text \<open>
  What the handlers of \<open>event_handling/handlers.rs\<close> do: payouts are sent at most once, an invoice that
  is paid does not expire, an account is emptied before it is unlinked, and what a handler that is
  run again after a failure finds.
\<close>

section \<open>Calls to other services\<close>

text \<open>Between two states only calls of one kind are made.\<close>

definition calls_extend :: "(ext_call \<Rightarrow> bool) \<Rightarrow> 'd world \<Rightarrow> 'd world \<Rightarrow> bool" where
  "calls_extend P s t \<longleftrightarrow> (\<exists>cs. w_calls t = w_calls s @ cs \<and> list_all P cs)"

interpretation calls: world_relation "calls_extend P" for P
  by unfold_locales (force simp: calls_extend_def)+

lemma keeps_calls [keeps_intros]: "P c \<Longrightarrow> keeps (calls_extend P) (call_client f c q)"
  by (auto simp: keeps_def call_client_def calls_extend_def)

lemma silent_calls: "silently m \<Longrightarrow> keeps (calls_extend P) m"
  by (simp add: keeps_def calls_extend_def)

section \<open>Payouts\<close>

text \<open>Money leaves the platform with the call that creates an external transaction.\<close>

fun is_external_tx :: "ext_call \<Rightarrow> bool" where
  "is_external_tx (PaymentsCreateExternalTransaction tx) = True"
| "is_external_tx _ = False"

abbreviation no_payment_between :: "'d world \<Rightarrow> 'd world \<Rightarrow> bool" where
  "no_payment_between \<equiv> calls_extend (\<lambda>c. \<not> is_external_tx c)"

lemma unpaid_svc [keeps_intros]:
  "keeps R m \<Longrightarrow> keeps R (svc m)" "keeps R n \<Longrightarrow> keeps R (svc_client n)" "keeps R k \<Longrightarrow> keeps R (internally k)"
  unfolding svc_def svc_client_def internally_def keeps_def map_err_def
  by (auto split: prod.splits) (metis snd_conv)+

lemma unpaid_get_main_account: "keeps no_payment_between (get_main_account env cfg c)"
  unfolding get_main_account_def get_account_def
  by (intro keeps_intros) simp

lemma silent_mark_completed: "silently (mark_payout_as_completed pid)"
  unfolding mark_payout_as_completed_def mark_as_completed_def complete_payouts_def
  by (intro keeps_intros)

lemma payouts_get_found:
  assumes "payouts_get SystemACL pid w = (Inr (Some p), t)"
  shows "\<exists>raw ops. row_by (\<lambda>q. rp_id q = pid) (payouts (w_db w)) = Some raw \<and>
    try_into_domain \<lparr>rpr_payout = raw, rpr_order_payouts = ops\<rparr> = Some p"
proof -
  from assms have "get_payout_by_id pid w = (Inr (Some p), t)"
    by (auto simp: payouts_get_def checked_payout_def success split: option.splits)
  then obtain rs u where tr: "transaction id
       (and_then (optional (get_result (select_where payouts (\<lambda>p. rp_id p = pid)))) (\<lambda>p.
        case p of
          None \<Rightarrow> ok None
        | Some raw \<Rightarrow>
            and_then (select_where order_payouts (\<lambda>x. rop_payout_id x = rp_id raw)) (\<lambda>ops.
            ok (Some \<lparr>rpr_payout = raw, rpr_order_payouts = ops\<rparr>)))) w = (Inr (Some rs), u)"
    and dom: "try_into_domain rs = Some p"
    by (auto simp: get_payout_by_id_def into_domain_def success repo_def split: option.splits)
  from transaction_inner [OF tr] obtain raw ops v where
    "optional (get_result (select_where payouts (\<lambda>p. rp_id p = pid))) (inner_world w) = (Inr (Some raw), v)"
    and rs: "rs = \<lparr>rpr_payout = raw, rpr_order_payouts = ops\<rparr>"
    by (auto simp: success split: option.splits)
  then have "repo (optional (get_result (select_where payouts (\<lambda>p. rp_id p = pid)))) (inner_world w) = (Inr (Some raw), v)"
    by (simp add: repo_def)
  from first_row_success [OF this] dom rs show ?thesis by auto
qed

lemma domain_of_row:
  assumes "try_into_domain \<lparr>rpr_payout = raw, rpr_order_payouts = ops\<rparr> = Some p"
  shows "po_id p = rp_id raw" "po_gross_amount p = rp_gross_amount raw"
    "po_status p = PayoutProcessing i \<Longrightarrow> rp_completed_at raw = None"
    "po_target p = CryptoWallet target \<Longrightarrow> rp_wallet_address raw = Some (cw_wallet_address target)"
  using assms
  by (auto simp: try_into_domain_def Let_def split: currency_choice.splits raw_payout_target_type.splits option.splits)


lemma silent_payouts_get: "silently (payouts_get acl pid)"
  by (rule silent.keeps_payouts_get)

lemma ends_unpaid:
  "keeps no_payment_between m \<Longrightarrow>
   (\<And>r t cs. w_calls t = w_calls w @ cs \<Longrightarrow> filter is_external_tx cs = [] \<Longrightarrow> Q r t) \<Longrightarrow> ends m w Q"
  by (erule ends_keeps) (auto simp: calls_extend_def list_all_iff filter_empty_conv)

lemma ends_create_payout_tx:
  assumes "po_target p = CryptoWallet target"
  shows "ends (create_payout_tx env cfg p) w (\<lambda>r t. \<exists>cs. w_calls t = w_calls w @ cs \<and>
    (filter is_external_tx cs = [] \<or>
     (\<exists>tx. filter is_external_tx cs = [PaymentsCreateExternalTransaction tx] \<and> cet_id tx = payout_uuid (po_id p) \<and>
       cet_amount tx = po_gross_amount p \<and> cet_to tx = cw_wallet_address target)))"
  unfolding create_payout_tx_def assms payout_target.case Let_def hdl_service_def hdl_client_def
proof (intro ends_and_then ends_map_err, rule ends_unpaid [OF unpaid_get_main_account])
  fix r :: "service_error + account_with_balance" and t :: "'a world" and cs
  assume "w_calls t = w_calls w @ cs" "filter is_external_tx cs = []"
  then show "case map_sum handler_error_of_service id r of
      Inl e \<Rightarrow> \<exists>cs. w_calls t = w_calls w @ cs \<and> (filter is_external_tx cs = [] \<or>
        (\<exists>tx. filter is_external_tx cs = [PaymentsCreateExternalTransaction tx] \<and> cet_id tx = payout_uuid (po_id p) \<and>
          cet_amount tx = po_gross_amount p \<and> cet_to tx = cw_wallet_address target))
    | Inr a \<Rightarrow> ends (map_err handler_error_of_client (call_client (payments_create_external_transaction env)
        (PaymentsCreateExternalTransaction \<lparr>cet_id = payout_uuid (po_id p),
           cet_from = account_uuid (acc_id (awb_account a)), cet_to = cw_wallet_address target,
           cet_amount = po_gross_amount p, cet_currency = cw_currency target, cet_fee = cw_blockchain_fee target\<rparr>)
        \<lparr>cet_id = payout_uuid (po_id p), cet_from = account_uuid (acc_id (awb_account a)),
         cet_to = cw_wallet_address target, cet_amount = po_gross_amount p, cet_currency = cw_currency target,
         cet_fee = cw_blockchain_fee target\<rparr>)) t
        (\<lambda>r t. \<exists>cs. w_calls t = w_calls w @ cs \<and> (filter is_external_tx cs = [] \<or>
        (\<exists>tx. filter is_external_tx cs = [PaymentsCreateExternalTransaction tx] \<and> cet_id tx = payout_uuid (po_id p) \<and>
          cet_amount tx = po_gross_amount p \<and> cet_to tx = cw_wallet_address target)))"
    by (cases r) (auto simp: call_client_def map_err_def ends_def)
qed


definition pays_at_most_once :: "'d env \<Rightarrow> payout \<Rightarrow> 'd world \<Rightarrow> ext_call list \<Rightarrow> bool" where
  "pays_at_most_once env p w cs \<longleftrightarrow> filter is_external_tx cs = [] \<or>
     (payments_get_transaction env (w_calls w) (payout_uuid (po_id p)) = Inr None \<and>
      (\<exists>tx target. po_target p = CryptoWallet target \<and> filter is_external_tx cs = [PaymentsCreateExternalTransaction tx] \<and>
        cet_id tx = payout_uuid (po_id p) \<and> cet_amount tx = po_gross_amount p \<and> cet_to tx = cw_wallet_address target))"

lemma ends_mark_completed:
  "(\<And>r t. w_calls t = w_calls w \<Longrightarrow> Q r t) \<Longrightarrow> ends (mark_payout_as_completed pid) w Q"
  by (rule ends_keeps [OF silent_mark_completed])

lemma ends_pay_out:
  "ends (pay_out env cfg p) w (\<lambda>r t. \<exists>cs. w_calls t = w_calls w @ cs \<and> pays_at_most_once env p w cs)"
proof -
  let ?id = "payout_uuid (po_id p)"
  let ?v = "w\<lparr>w_calls := w_calls w @ [PaymentsGetTransaction ?id]\<rparr>"
  obtain target where target: "po_target p = CryptoWallet target" by (cases "po_target p")
  have mark: "ends (mark_payout_as_completed (po_id p)) v
      (\<lambda>r t. \<exists>cs. w_calls t = w_calls w @ cs \<and> pays_at_most_once env p w cs)"
    if "w_calls v = w_calls w @ cs" "pays_at_most_once env p w cs" for v :: "'a world" and cs
    using that by (auto intro: ends_mark_completed)
  have unpaid: "pays_at_most_once env p w [PaymentsGetTransaction ?id]"
    by (simp add: pays_at_most_once_def)
  show ?thesis
  proof (cases "payments_get_transaction env (w_calls w) ?id")
    case (Inl e)
    with unpaid show ?thesis
      by (auto simp: pay_out_def Let_def hdl_client_def ends_def and_then_def map_err_def call_client_def)
  next
    case (Inr found)
    then have run: "hdl_client (call_client (payments_get_transaction env) (PaymentsGetTransaction ?id) ?id) w = (Inr found, ?v)"
      by (simp add: hdl_client_def map_err_def call_client_def)
    show ?thesis
    proof (cases found)
      case (Some x)
      with run mark [of ?v, OF _ unpaid] show ?thesis by (simp add: pay_out_def Let_def ends_def)
    next
      case None
      have "ends (and_then (create_payout_tx env cfg p) (\<lambda>_. mark_payout_as_completed (po_id p))) ?v
          (\<lambda>r t. \<exists>cs. w_calls t = w_calls w @ cs \<and> pays_at_most_once env p w cs)"
      proof (rule ends_and_then, rule ends_mono [OF ends_create_payout_tx [OF target]], elim exE conjE)
        fix r :: "handler_error + unit" and t :: "'a world" and cs
        assume t: "w_calls t = w_calls ?v @ cs" and cs: "filter is_external_tx cs = [] \<or>
          (\<exists>tx. filter is_external_tx cs = [PaymentsCreateExternalTransaction tx] \<and> cet_id tx = ?id \<and>
            cet_amount tx = po_gross_amount p \<and> cet_to tx = cw_wallet_address target)"
        have all: "w_calls t = w_calls w @ PaymentsGetTransaction ?id # cs" using t by simp
        have "pays_at_most_once env p w (PaymentsGetTransaction ?id # cs)"
          using cs None Inr target by (auto simp: pays_at_most_once_def)
        with all mark [OF all] show "case r of
            Inl e \<Rightarrow> \<exists>cs. w_calls t = w_calls w @ cs \<and> pays_at_most_once env p w cs
          | Inr a \<Rightarrow> ends (mark_payout_as_completed (po_id p)) t
              (\<lambda>r t. \<exists>cs. w_calls t = w_calls w @ cs \<and> pays_at_most_once env p w cs)"
          by (cases r) auto
      qed
      with run None show ?thesis by (simp add: pay_out_def Let_def ends_def)
    qed
  qed
qed

lemma ends_handler_payouts_get:
  "ends (hpool (hdl (payouts_get SystemACL pid))) w (\<lambda>r t. w_calls t = w_calls w \<and>
    (\<forall>p. r = Inr (Some p) \<longrightarrow> (\<exists>raw ops. row_by (\<lambda>q. rp_id q = pid) (payouts (w_db w)) = Some raw \<and>
       try_into_domain \<lparr>rpr_payout = raw, rpr_order_payouts = ops\<rparr> = Some p)))"
proof (rule ends_silent)
  show "silently (hpool (hdl (payouts_get SystemACL pid)))"
    by (intro silent.keeps_spawn_on_pool keeps_handler_errors silent_payouts_get)
  show "ends (hpool (hdl (payouts_get SystemACL pid))) w (\<lambda>r t.
      \<forall>p. r = Inr (Some p) \<longrightarrow> (\<exists>raw ops. row_by (\<lambda>q. rp_id q = pid) (payouts (w_db w)) = Some raw \<and>
       try_into_domain \<lparr>rpr_payout = raw, rpr_order_payouts = ops\<rparr> = Some p))"
    by (rule endsI)
       (auto simp: hdl_def success spawn_success dest!: payouts_get_found, blast)
qed

text \<open>C2: The handler of \<open>PayoutInitiated\<close> creates at most one external transaction, however often the
  event is retried and whatever fails: it does so only for a payout that is not completed and only
  when the gateway has answered that it has no transaction with the id of the payout. The
  transaction carries that id, so that the gateway can tell a repetition, and sends the gross amount
  of the payout to its wallet.\<close>

theorem payout_sent_at_most_once:
  "ends (handle_payout_initiated env cfg pid) w (\<lambda>r t. \<exists>cs. w_calls t = w_calls w @ cs \<and>
     (filter is_external_tx cs = [] \<or>
      (\<exists>raw tx. row_by (\<lambda>q. rp_id q = pid) (payouts (w_db w)) = Some raw \<and> rp_completed_at raw = None \<and>
         payments_get_transaction env (w_calls w) (payout_uuid pid) = Inr None \<and>
         filter is_external_tx cs = [PaymentsCreateExternalTransaction tx] \<and> cet_id tx = payout_uuid pid \<and>
         cet_amount tx = rp_gross_amount raw \<and> rp_wallet_address raw = Some (cet_to tx))))"
    (is "ends _ w ?Q")
proof -
  have none: "?Q r t" if "w_calls t = w_calls w" for r :: "handler_error + unit" and t :: "'a world"
    using that by (intro exI [of _ "[]"]) simp
  have "ends (and_then (hpool (hdl (payouts_get SystemACL pid))) (\<lambda>found.
     case found of
       None \<Rightarrow> ok ()
     | Some p \<Rightarrow> (case po_status p of PayoutProcessing _ \<Rightarrow> pay_out env cfg p | PayoutCompleted _ _ \<Rightarrow> ok ()))) w ?Q"
  proof (rule ends_and_then, rule ends_mono [OF ends_handler_payouts_get], elim conjE)
    fix r :: "handler_error + payout option" and t :: "'a world"
    assume t: "w_calls t = w_calls w" and found: "\<forall>p. r = Inr (Some p) \<longrightarrow> (\<exists>raw ops.
      row_by (\<lambda>q. rp_id q = pid) (payouts (w_db w)) = Some raw \<and>
      try_into_domain \<lparr>rpr_payout = raw, rpr_order_payouts = ops\<rparr> = Some p)"
    have paid: "ends (pay_out env cfg p) t ?Q" if rp: "r = Inr (Some p)" "po_status p = PayoutProcessing i" for p i
    proof (rule ends_mono [OF ends_pay_out], elim exE conjE)
      fix r :: "handler_error + unit" and u :: "'a world" and cs
      assume u: "w_calls u = w_calls t @ cs" and once: "pays_at_most_once env p t cs"
      obtain raw ops where raw: "row_by (\<lambda>q. rp_id q = pid) (payouts (w_db w)) = Some raw"
        and dom: "try_into_domain \<lparr>rpr_payout = raw, rpr_order_payouts = ops\<rparr> = Some p"
        using found rp by blast
      from raw have "rp_id raw = pid" by (auto dest: row_by_Some)
      with domain_of_row [OF dom] that(2) once raw t u show "?Q r u"
        unfolding pays_at_most_once_def by (intro exI [of _ cs]) auto
    qed
    show "case r of
        Inl e \<Rightarrow> ?Q (Inl e) t
      | Inr found \<Rightarrow> ends (case found of None \<Rightarrow> ok ()
          | Some p \<Rightarrow> (case po_status p of PayoutProcessing _ \<Rightarrow> pay_out env cfg p | PayoutCompleted _ _ \<Rightarrow> ok ())) t ?Q"
      using none [OF t] paid by (auto simp: ends_ok split: sum.split option.split payout_status.split)
  qed
  then show ?thesis
    unfolding handle_payout_initiated_def get_ture_context_def using none by (auto intro: ends_err)
qed


text \<open>\<open>mark_as_completed\<close> has no filter: when it succeeds, every payout of the table is completed.\<close>

theorem completing_one_payout_completes_all:
  "ends (mark_as_completed acl pid) w (\<lambda>r t. case r of
     Inl _ \<Rightarrow> True | Inr _ \<Rightarrow> list_all (\<lambda>q. rp_completed_at q \<noteq> None) (payouts (w_db t)))"
proof (rule endsI, split sum.split, intro conjI allI impI TrueI)
  fix r t p
  assume "mark_as_completed acl pid w = (r, t)" and "r = Inr p"
  then obtain now rows u v where upd: "complete_payouts now u = (Inr rows, v)"
    and get: "get_payout_by_id pid v = (Inr (Some p), t)"
    by (auto simp: mark_as_completed_def success repo_def)
  have "w_db t = w_db v" using get by (rule same_dbD [OF reading.keeps_get_payout_by_id])
  with update_where_success [OF upd [unfolded complete_payouts_def]]
  show "list_all (\<lambda>q. rp_completed_at q \<noteq> None) (payouts (w_db t))"
    by (auto simp: list_all_iff)
qed

section \<open>Expired invoices\<close>

lemma map_sum_Inl: "map_sum f g r = Inl e \<Longrightarrow> \<exists>x. r = Inl x \<and> e = f x"
  by (cases r) auto

lemma handler_get_invoice:
  "ends (get_invoice iid) w (\<lambda>r t. w_calls t = w_calls w \<and> w_db t = w_db w \<and>
     (case r of Inl e \<Rightarrow> e = HInternal | Inr i \<Rightarrow> row_by (\<lambda>i. inv_id i = iid) (invoices_v2 (w_db w)) = Some i))"
proof (rule ends_silent)
  show "silently (get_invoice iid)" unfolding get_invoice_def by (intro keeps_intros)
  show "ends (get_invoice iid) w (\<lambda>r t. w_db t = w_db w \<and>
     (case r of Inl e \<Rightarrow> e = HInternal | Inr i \<Rightarrow> row_by (\<lambda>i. inv_id i = iid) (invoices_v2 (w_db w)) = Some i))"
  proof (rule endsI)
    fix r t
    assume run: "get_invoice iid w = (r, t)"
    have "reads (get_invoice iid :: ('a world, handler_error, raw_invoice) comp)"
      unfolding get_invoice_def by (intro keeps_intros)
    then have db: "w_db t = w_db w" using run by (rule same_dbD)
    show "w_db t = w_db w \<and>
        (case r of Inl e \<Rightarrow> e = HInternal | Inr i \<Rightarrow> row_by (\<lambda>i. inv_id i = iid) (invoices_v2 (w_db w)) = Some i)"
    proof (cases r)
      case (Inl e)
      with run db show ?thesis
        by (auto simp: get_invoice_def spawn_on_pool_def and_then_def hdl_def map_err_def handler_error_of_repo_def
            ok_or_def err_apply ok_apply dest!: map_sum_Inl split: if_splits prod.splits sum.splits option.splits)
    next
      case (Inr i)
      with run have "invoices_get SystemACL iid (next_fault w) = (Inr (Some i), t)"
        by (auto simp: get_invoice_def success spawn_success hdl_def)
      with Inr db invoices_get_success show ?thesis by fastforce
    qed
  qed
qed


definition same_paid :: "'d db \<Rightarrow> 'd db \<Rightarrow> bool" where
  "same_paid d e \<longleftrightarrow> map (\<lambda>i. (inv_id i, inv_paid_at i)) (invoices_v2 e) = map (\<lambda>i. (inv_id i, inv_paid_at i)) (invoices_v2 d)"

interpretation paid: db_relation same_paid
  by unfold_locales (auto simp: same_paid_def)

lemma keeps_same_paid [keeps_intros]:
  "keeps (\<lambda>s t. same_paid (w_db s) (w_db t)) (unlink_account acl iid)"
  "keeps (\<lambda>s t. same_paid (w_db s) (w_db t)) (pis_update acl pid u)"
  unfolding unlink_account_def checked_update_def update_invoice_def pis_update_def
  by (intro keeps_intros paid.keeps_update_where; simp add: same_paid_def)+

text \<open>The saga is told nothing but \<open>st\<close>, and no money leaves the platform.\<close>

fun tells_only :: "order_state \<Rightarrow> ext_call \<Rightarrow> bool" where
  "tells_only st (SagaUpdateOrderStates us) = list_all (\<lambda>u. osu_status u = st) us"
| "tells_only st c = (\<not> is_external_tx c)"

lemmas expiry_defs = process_payment_expired_def drain_and_unlink_account_def drain_account_def get_invoice_def
  set_orders_status_def update_order_states_def cancel_payment_intent_def get_ture_context_def
  get_account_def get_main_account_def internally_def Let_def

lemma process_expired_keeps_paid:
  "keeps (\<lambda>s t. same_paid (w_db s) (w_db t)) (process_payment_expired env cfg i)"
  unfolding expiry_defs by (cases "payment_flow_of i") (simp_all only: payment_flow.case, (intro keeps_intros)+)


lemma status_of_updates [simp]: "list_all (\<lambda>u. osu_status u = st) (order_state_updates i os st)"
  by (simp add: order_state_updates_def list_all_iff)

lemma calls_of_updates [keeps_intros]:
  "keeps (calls_extend P) (unlink_account acl iid)" "keeps (calls_extend P) (pis_update acl pid u)"
  unfolding unlink_account_def checked_update_def update_invoice_def pis_update_def
  by (intro silent_calls keeps_intros)+

lemma process_expired_calls: "keeps (calls_extend (tells_only OsAmountExpired)) (process_payment_expired env cfg i)"
  unfolding expiry_defs
  by (cases "payment_flow_of i"; simp only: payment_flow.case; intro keeps_intros; simp)

text \<open>C20: The handler of \<open>PaymentExpired\<close> fails without any effect when the invoice does not exist and does
  nothing when it has been paid. Otherwise the saga is told nothing but \<open>AmountExpired\<close>, no money
  leaves the platform, and no invoice becomes paid or unpaid, whatever fails.\<close>

theorem expiry_spares_paid_invoices:
  "ends (handle_payment_expired env cfg iid) w (\<lambda>r t.
     map (\<lambda>i. (inv_id i, inv_paid_at i)) (invoices_v2 (w_db t)) = map (\<lambda>i. (inv_id i, inv_paid_at i)) (invoices_v2 (w_db w)) \<and>
     (\<exists>cs. w_calls t = w_calls w @ cs \<and> list_all (tells_only OsAmountExpired) cs) \<and>
     (case row_by (\<lambda>i. inv_id i = iid) (invoices_v2 (w_db w)) of
        None \<Rightarrow> r = Inl HInternal \<and> w_db t = w_db w \<and> w_calls t = w_calls w
      | Some i \<Rightarrow> inv_paid_at i = None \<or>
          (r = Inr () \<or> r = Inl HInternal) \<and> w_db t = w_db w \<and> w_calls t = w_calls w))"
    (is "ends _ w ?Q")
  unfolding handle_payment_expired_def
proof (rule ends_and_then, rule ends_mono [OF handler_get_invoice], elim conjE)
  fix r :: "handler_error + raw_invoice" and t :: "'a world"
  assume t: "w_calls t = w_calls w" "w_db t = w_db w"
    and r: "case r of Inl e \<Rightarrow> e = HInternal | Inr i \<Rightarrow> row_by (\<lambda>i. inv_id i = iid) (invoices_v2 (w_db w)) = Some i"
  have "ends (process_payment_expired env cfg i) t (\<lambda>r u. same_paid (w_db t) (w_db u) \<and>
      calls_extend (tells_only OsAmountExpired) t u)" for i
    by (rule endsI)
       (auto dest: keepsD [OF process_expired_keeps_paid] keepsD [OF process_expired_calls])
  with t r show "case r of
      Inl e \<Rightarrow> ?Q (Inl e) t
    | Inr i \<Rightarrow> ends (case inv_paid_at i of Some _ \<Rightarrow> ok () | None \<Rightarrow> process_payment_expired env cfg i) t ?Q"
    by (cases r) (auto simp: ends_def same_paid_def calls_extend_def split: option.split prod.splits)
qed


section \<open>Accounts are emptied before they are unlinked\<close>

lemma call_success: "call_client f c q w = (Inr x, t) \<longleftrightarrow> f (w_calls w) q = Inr x \<and> t = w\<lparr>w_calls := w_calls w @ [c]\<rparr>"
  by (auto simp: call_client_def)

lemma get_account_success:
  assumes "get_account env u w = (Inr a, t)"
  shows "\<exists>acct. payments_get_account env (w_calls w) u = Inr acct \<and> awb_balance a = pa_balance acct \<and>
    w_calls t = w_calls w @ [PaymentsGetAccount u]"
proof -
  from assms obtain acc v acct where
    db: "pool (and_then (internally (svc (accounts_get SystemACL (AccountId u)))) (ok_or SInternal)) w = (Inr acc, v)"
    and call: "payments_get_account env (w_calls v) u = Inr acct" "t = v\<lparr>w_calls := w_calls v @ [PaymentsGetAccount u]\<rparr>"
    and a: "awb_balance a = pa_balance acct"
    by (auto simp: get_account_def internally_def svc_client_def success call_success)
  have "silently (pool (and_then (internally (svc (accounts_get SystemACL (AccountId u)))) (ok_or SInternal)))"
    by (intro keeps_intros)
  from keepsD [OF this db] call a show ?thesis by auto
qed

definition emptied :: "'d env \<Rightarrow> account_id \<Rightarrow> 'd world \<Rightarrow> ext_call list \<Rightarrow> bool" where
  "emptied env aid w calls \<longleftrightarrow> (\<exists>cs tx acct. calls = w_calls w @ cs @ [PaymentsCreateInternalTransaction tx] \<and>
     payments_create_internal_transaction env (w_calls w @ cs) tx = Inr () \<and>
     payments_get_account env (w_calls w) (account_uuid aid) = Inr acct \<and>
     cit_from tx = account_uuid aid \<and> cit_amount tx = pa_balance acct)"

lemma drain_account_success:
  assumes "drain_account env cfg aid w = (Inr x, t)"
  shows "emptied env aid w (w_calls t)"
proof -
  let ?input = "\<lambda>a main u. \<lparr>cit_id = u, cit_from = account_uuid aid, cit_to = account_uuid (acc_id (awb_account main)),
     cit_amount = awb_balance a\<rparr>"
  from assms obtain a v main z where a: "get_account env (account_uuid aid) w = (Inr a, v)"
    and main: "get_main_account env (handler_accounts cfg) (acc_currency (awb_account a)) v = (Inr main, z)"
    and tx: "payments_create_internal_transaction env (w_calls z) (?input a main (w_uuids z 0)) = Inr ()"
      "w_calls t = w_calls z @ [PaymentsCreateInternalTransaction (?input a main (w_uuids z 0))]"
    by (auto simp: drain_account_def hdl_service_def hdl_client_def success call_success Let_def)
  obtain cs where "w_calls z = w_calls v @ cs"
    using keepsD [OF unpaid_get_main_account main] by (auto simp: calls_extend_def)
  with get_account_success [OF a] tx show ?thesis
    by (auto simp: emptied_def intro!: exI [of _ "PaymentsGetAccount (account_uuid aid) # cs"])
qed

lemma drain_account_reads: "reads (drain_account env cfg aid)"
  unfolding drain_account_def get_account_def get_main_account_def internally_def Let_def
  by (intro keeps_intros)

text \<open>C9: The account of an invoice is unlinked (and so becomes free for the next invoice) only after the
  payments gateway has accepted an internal transaction of the whole balance that it reported for
  the account. Whatever fails before that leaves the tables as they were.\<close>

theorem unlinked_account_is_empty:
  "ends (drain_and_unlink_account env cfg iid) w (\<lambda>r t. w_db t = w_db w \<or>
     (\<exists>i aid cs tx acct. row_by (\<lambda>i. inv_id i = iid) (invoices_v2 (w_db w)) = Some i \<and> inv_account_id i = Some aid \<and>
        w_calls t = w_calls w @ cs @ [PaymentsCreateInternalTransaction tx] \<and>
        payments_create_internal_transaction env (w_calls w @ cs) tx = Inr () \<and>
        payments_get_account env (w_calls w) (account_uuid aid) = Inr acct \<and>
        cit_from tx = account_uuid aid \<and> cit_amount tx = pa_balance acct))"
    (is "ends _ w ?R")
  unfolding drain_and_unlink_account_def
proof (rule ends_and_then, rule ends_mono [OF handler_get_invoice], elim conjE)
  let ?Q = "\<lambda>r t. w_db t = w_db w \<or>
     (\<exists>i aid. row_by (\<lambda>i. inv_id i = iid) (invoices_v2 (w_db w)) = Some i \<and> inv_account_id i = Some aid \<and>
        emptied env aid w (w_calls t))"
  fix r :: "handler_error + raw_invoice" and t :: "'a world"
  assume t: "w_calls t = w_calls w" "w_db t = w_db w"
    and r: "case r of Inl e \<Rightarrow> e = HInternal | Inr i \<Rightarrow> row_by (\<lambda>i. inv_id i = iid) (invoices_v2 (w_db w)) = Some i"
  have unlink: "silently (hpool (map_ok (\<lambda>_. ()) (hdl (unlink_account SystemACL k))))" for k
    unfolding unlink_account_def checked_update_def update_invoice_def by (intro keeps_intros)
  have "ends (and_then (drain_account env cfg aid) (\<lambda>_. hpool (map_ok (\<lambda>_. ()) (hdl (unlink_account SystemACL k))))) t ?Q"
    if "row_by (\<lambda>i. inv_id i = iid) (invoices_v2 (w_db w)) = Some i" "inv_account_id i = Some aid" for i aid k
  proof (rule ends_read_then [OF drain_account_reads])
    fix a and u :: "'a world"
    assume "drain_account env cfg aid t = (Inr a, u)"
    from drain_account_success [OF this] t(1) have "emptied env aid w (w_calls u)" by (simp add: emptied_def)
    with that show "ends (hpool (map_ok (\<lambda>_. ()) (hdl (unlink_account SystemACL k)))) u ?Q"
      by (intro ends_keeps [OF unlink]) auto
  qed (use t in auto)
  with t r show "case r of
      Inl e \<Rightarrow> ?R (Inl e) t
    | Inr invoice \<Rightarrow> ends (case inv_account_id invoice of None \<Rightarrow> ok () | Some aid \<Rightarrow>
         and_then (drain_account env cfg aid) (\<lambda>_. hpool (map_ok (\<lambda>_. ()) (hdl (unlink_account SystemACL (inv_id invoice)))))) t ?R"
    unfolding emptied_def by (auto simp: ends_ok split: sum.split option.split)
qed

section \<open>Captures\<close>

lemma hdl_results:
  "hdl m w = (Inl e, t) \<Longrightarrow> e = HInternal" "hdl m w = (Inr x, t) \<longleftrightarrow> m w = (Inr x, t)"
  by (auto simp: hdl_def map_err_def handler_error_of_repo_def split: prod.splits dest!: map_sum_Inl)

lemma orders_get_system:
  assumes "orders_get SystemACL oid w = (Inr found, t)"
  shows "row_by (\<lambda>q. ord_id q = oid) (orders (w_db w)) = found"
proof -
  from assms obtain x where "repo (optional (get_result (select_where orders (\<lambda>r. ord_id r = oid)))) w = (Inr x, t)" and "x = found"
    by (auto simp: orders_get_def success split: option.splits)
  then show ?thesis by (auto dest: first_row_success)
qed

lemma order_to_capture_result:
  assumes "order_to_capture oid w = (r, t)"
  shows "case r of
      Inl e \<Rightarrow> e = HInternal \<or> e = HAlreadyDone \<and> (\<exists>order. row_by (\<lambda>q. ord_id q = oid) (orders (w_db w)) = Some order \<and>
        \<not> (ord_state order = Initial \<and> ord_stripe_fee order = None))
    | Inr (p, order) \<Rightarrow> row_by (\<lambda>q. ord_id q = oid) (orders (w_db w)) = Some order \<and>
        ord_state order = Initial \<and> ord_stripe_fee order = None"
  using assms
  by (auto simp: order_to_capture_def spawn_on_pool_def and_then_def map_ok_def ok_or_def err_apply ok_apply hdl_results(2)
      split: if_splits prod.splits sum.splits option.splits dest!: hdl_results(1) dest: orders_get_system)


lemma order_to_capture_frame: "reads (order_to_capture oid)" "silently (order_to_capture oid)"
  unfolding order_to_capture_def by (intro keeps_intros)+

lemma balance_of_charge_result:
  assumes "balance_of_charge env p w = (r, t)"
  shows "w_db t = w_db w \<and> (case r of
      Inl e \<Rightarrow> e = HInternal
    | Inr b \<Rightarrow> \<exists>cs s. stripe_retrieve_balance_transaction env (w_calls w @ cs) s = Inr b)"
  using assms
  by (auto simp: balance_of_charge_def and_then_def hdl_client_def map_err_def call_client_def ok_or_def err_apply ok_apply
      handler_error_of_client_def split: prod.splits sum.splits option.splits dest!: map_sum_Inl) blast

lemma updates_of_order:
  assumes "repo (update_order oid g) w = (r, t)"
  shows "orders_updated oid g (w_db w) (w_db t)"
    and "r = Inr q \<Longrightarrow> \<exists>now. w_db t = (w_db w)\<lparr>orders := map (\<lambda>x. if ord_id x = oid then touch_order g now x else x) (orders (w_db w))\<rparr>"
proof -
  have "ends (repo (update_order oid g)) w (\<lambda>r t. orders_updated oid g (w_db w) (w_db t))"
    by (rule ends_update_order)
  then show "orders_updated oid g (w_db w) (w_db t)" using assms by (rule endsD)
  assume "r = Inr q"
  with assms have "update_order oid g w = (Inr q, t)" by (simp add: repo_def success)
  from update_order_success(1) [OF this]
  show "\<exists>now. w_db t = (w_db w)\<lparr>orders := map (\<lambda>x. if ord_id x = oid then touch_order g now x else x) (orders (w_db w))\<rparr>" ..
qed

text \<open>The two statements of the capture.\<close>

definition captured_in_steps :: "order_id \<Rightarrow> amount \<Rightarrow> 'd db \<Rightarrow> 'd db \<Rightarrow> bool" where
  "captured_in_steps oid f d e \<longleftrightarrow> (\<exists>d'. orders_updated oid (\<lambda>q. q\<lparr>ord_state := Captured\<rparr>) d d' \<and>
     orders_updated oid (\<lambda>q. q\<lparr>ord_stripe_fee := Some f\<rparr>) d' e)"

lemma captured_none: "captured_in_steps oid f d d"
  unfolding captured_in_steps_def by (intro exI [of _ d]) (simp add: orders_updated_def)

lemma captured_first: "orders_updated oid (\<lambda>q. q\<lparr>ord_state := Captured\<rparr>) d e \<Longrightarrow> captured_in_steps oid f d e"
  unfolding captured_in_steps_def by (intro exI [of _ e]) (simp add: orders_updated_def)

definition capture_stored :: "order_id \<Rightarrow> amount \<Rightarrow> 'd db \<Rightarrow> bool" where
  "capture_stored oid f d \<longleftrightarrow>
     list_all (\<lambda>q. ord_state q = Captured \<and> ord_stripe_fee q = Some f) (filter (\<lambda>q. ord_id q = oid) (orders d))"

lemma touched_fields:
  "ord_id (touch_order (\<lambda>q. q\<lparr>ord_state := st\<rparr>) n q) = ord_id q"
  "ord_state (touch_order (\<lambda>q. q\<lparr>ord_state := st\<rparr>) n q) = st"
  "ord_id (touch_order (\<lambda>q. q\<lparr>ord_stripe_fee := Some f\<rparr>) n q) = ord_id q"
  "ord_state (touch_order (\<lambda>q. q\<lparr>ord_stripe_fee := Some f\<rparr>) n q) = ord_state q"
  "ord_stripe_fee (touch_order (\<lambda>q. q\<lparr>ord_stripe_fee := Some f\<rparr>) n q) = Some f"
  by (cases q; simp add: touch_order_def)+

lemma store_capture_result:
  assumes "store_capture oid f w = (r, t)"
  shows "captured_in_steps oid f (w_db w) (w_db t)"
    and "r \<noteq> Inl HAlreadyDone" and "r = Inr x \<Longrightarrow> capture_stored oid f (w_db t)"
proof -
  have "captured_in_steps oid f (w_db w) (w_db t) \<and> r \<noteq> Inl HAlreadyDone \<and> (r = Inr x \<longrightarrow> capture_stored oid f (w_db t))"
  proof (cases "w_faults w 0")
    case True
    with assms show ?thesis by (auto simp: store_capture_def spawn_on_pool_def captured_none)
  next
    case False
    obtain r1 u where u: "repo (update_order oid (\<lambda>q. q\<lparr>ord_state := Captured\<rparr>)) (next_fault w) = (r1, u)" by fastforce
    obtain r2 v where v: "repo (update_order oid (\<lambda>q. q\<lparr>ord_stripe_fee := Some f\<rparr>)) u = (r2, v)" by fastforce
    have rt: "(r, t) = (if isl r1 then (Inl HInternal, u) else (if isl r2 then Inl HInternal else Inr (), v))"
      using assms False u v
      by (cases r1; cases r2)
         (auto simp: store_capture_def spawn_on_pool_def and_then_def hdl_def map_err_def map_ok_def update_state_def
          update_stripe_fee_def handler_error_of_repo_def)
    have stored: "capture_stored oid f (w_db v)" if r12: "r1 = Inr a" "r2 = Inr b" for a b
    proof -
      from updates_of_order(2) [OF u r12(1)] obtain n1 where u': "w_db u = (w_db (next_fault w))\<lparr>orders :=
          map (\<lambda>x. if ord_id x = oid then touch_order (\<lambda>q. q\<lparr>ord_state := Captured\<rparr>) n1 x else x)
            (orders (w_db (next_fault w)))\<rparr>" ..
      from updates_of_order(2) [OF v r12(2)] obtain n2 where v': "w_db v = (w_db u)\<lparr>orders :=
          map (\<lambda>x. if ord_id x = oid then touch_order (\<lambda>q. q\<lparr>ord_stripe_fee := Some f\<rparr>) n2 x else x) (orders (w_db u))\<rparr>" ..
      have "list_all (\<lambda>q. ord_id q = oid \<longrightarrow> ord_state q = Captured \<and> ord_stripe_fee q = Some f) (orders (w_db v))"
        unfolding v' u' by (simp add: list_all_length touched_fields)
      then show ?thesis by (simp add: capture_stored_def list_all_iff)
    qed
    note two = updates_of_order(1) [OF u] updates_of_order(1) [OF v]
    have "captured_in_steps oid f (w_db w) (w_db u)" "captured_in_steps oid f (w_db w) (w_db v)"
      using captured_first two unfolding captured_in_steps_def by auto
    with rt stored show ?thesis
      by (cases r1; cases r2; simp)
  qed
  then show "captured_in_steps oid f (w_db w) (w_db t)" "r \<noteq> Inl HAlreadyDone" "r = Inr x \<Longrightarrow> capture_stored oid f (w_db t)"
    by blast+
qed


text \<open>The handler of \<open>PaymentIntentCapture\<close> fails without effect for an unknown order and succeeds
  without effect for an order that is not in its initial state any more. Otherwise it either fails
  with the tables as they were, or the state and the Stripe fee are written in this order: when it
  succeeds both are there, when it fails in between the order is captured without its fee (and a
  retry leaves it so).\<close>

theorem capture_writes_state_then_fee:
  "ends (handle_payment_intent_capture D env oid) w (\<lambda>r t.
     case row_by (\<lambda>q. ord_id q = oid) (orders (w_db w)) of
       None \<Rightarrow> r = Inl HInternal \<and> w_db t = w_db w \<and> w_calls t = w_calls w
     | Some order \<Rightarrow>
         if ord_state order = Initial \<and> ord_stripe_fee order = None
         then isl r \<and> w_db t = w_db w \<or>
           (\<exists>cs s b f. stripe_retrieve_balance_transaction env (w_calls w @ cs) s = Inr b \<and> stripe_fee_of D b order = Some f \<and>
              captured_in_steps oid f (w_db w) (w_db t) \<and> (isl r \<or> capture_stored oid f (w_db t)))
         else (r = Inr () \<or> r = Inl HInternal) \<and> w_db t = w_db w \<and> w_calls t = w_calls w)"
    (is "ends _ w ?Q")
proof (rule endsI)
  fix r t
  assume run: "handle_payment_intent_capture D env oid w = (r, t)"
  obtain r1 u where first: "order_to_capture oid w = (r1, u)" by fastforce
  have u: "w_db u = w_db w" "w_calls u = w_calls w"
    using same_dbD [OF order_to_capture_frame(1) first] keepsD [OF order_to_capture_frame(2) first] by simp_all
  note order = order_to_capture_result [OF first]
  show "?Q r t"
  proof (cases r1)
    case (Inl e)
    then have "(r, t) = (if e = HAlreadyDone then Inr () else Inl e, u)"
      using run first by (simp add: handle_payment_intent_capture_def split: if_splits)
    with order Inl u show ?thesis by (auto split: option.split)
  next
    case (Inr po)
    obtain p q where po: "po = (p, q)" by fastforce
    obtain r2 v where balance: "balance_of_charge env p u = (r2, v)" by fastforce
    note b = balance_of_charge_result [OF balance]
    show ?thesis
    proof (cases "r2")
      case (Inl e)
      with run first Inr po balance b have "r = Inl HInternal" "t = v"
        by (auto simp: handle_payment_intent_capture_def)
      with order Inr po b u show ?thesis by (auto split: option.split)
    next
      case b2: (Inr b')
      show ?thesis
      proof (cases "stripe_fee_of D b' q")
        case None
        with run first Inr po balance b2 have "r = Inl HPanic" "t = v"
          by (auto simp: handle_payment_intent_capture_def)
        with order Inr po b u show ?thesis by (auto split: option.split)
      next
        case (Some f)
        obtain r3 z where store: "store_capture oid f v = (r3, z)" by fastforce
        have "(r, t) = (r3, z)"
          using run first Inr po balance b2 Some store store_capture_result(2) [OF store]
          by (cases r3) (auto simp: handle_payment_intent_capture_def)
        with store_capture_result(1,3) [OF store] order Inr po b b2 u Some show ?thesis
          by (cases r3) (auto split: option.split)
      qed
    qed
  qed
qed


section \<open>A payment event that is handled again\<close>

lemma payment_intent_succeeded_silent: "silently (payment_intent_succeeded n intent)"
  unfolding payment_intent_succeeded_def apply_payment_def paid_invoice_def paid_fee_def pis_update_def
    fees_update_row_def fees_create_def Let_def
  by (intro keeps_intros)

lemma payment_with_fee_fails:
  assumes "row_by (\<lambda>x. pii_payment_intent_id x = PaymentIntentId (spi_id intent)) (payment_intents_invoices (w_db w)) = Some x"
    and "row_by (\<lambda>y. pif_payment_intent_id y = PaymentIntentId (spi_id intent)) (payment_intents_fees (w_db w)) = None"
    and q: "q \<in> set (orders (w_db w))" "ord_invoice_id q = pii_invoice_id x"
    and f: "f \<in> set (fees (w_db w))" "fee_order_id f = ord_id q"
    and run: "payment_intent_succeeded n intent w = (r, t)"
  shows "isl r \<and> w_db t = w_db w \<and> w_calls t = w_calls w"
proof -
  have rec: "payment_recorded n (PaymentIntentId (spi_id intent)) (w_db w) r (w_db t)"
    by (rule endsD [OF payment_intent_succeeded_records run])
  have "w_calls t = w_calls w" by (rule keepsD [OF payment_intent_succeeded_silent run])
  moreover have False if r: "r = Inr (PaymentOfInvoice p invoice os)" for p invoice os
  proof -
    from rec r assms(1) have i: "row_by (\<lambda>i. inv_id i = pii_invoice_id x) (invoices_v2 (w_db w)) = Some invoice"
      by (auto simp: payment_recorded_def)
    from rec r obtain new where os: "os = filter (\<lambda>q. ord_invoice_id q = inv_id invoice) (orders (w_db w))"
      and new: "list_all2 (is_fee_of n) os new" "fee_order_id ` set new \<inter> fee_order_id ` set (fees (w_db w)) = {}"
      by (auto simp: payment_recorded_def)
    from i q os have "q \<in> set os" by (auto dest: row_by_Some)
    then obtain g where "g \<in> set new" "is_fee_of n q g"
      using new(1) by (metis in_set_conv_nth list_all2_conv_all_nth)
    then have "fee_order_id f \<in> fee_order_id ` set new" using f(2) by (force simp: is_fee_of_def image_iff)
    with new(2) f(1) show False by blast
  qed
  moreover have "r \<noteq> Inr PaymentOfFee" using rec assms(2) by (auto simp: payment_recorded_def)
  moreover have "w_db t = w_db w" if "r = Inl e" for e using rec that by (simp add: payment_recorded_def)
  ultimately show ?thesis by (cases r; cases "projr r") auto
qed

text \<open>C32: When the payment of an invoice has been recorded but the saga could not be told, the event is
  retried in vain: an order of the invoice has its fee already, so the handler fails, tells nobody and
  leaves the tables as they are; the invoice is not marked as paid by any retry.\<close>

theorem repeated_payment_event_fails:
  assumes "spi_capture_method intent = CaptureAutomatic \<or> spi_amount intent = spi_amount_capturable intent"
    and "row_by (\<lambda>x. pii_payment_intent_id x = PaymentIntentId (spi_id intent)) (payment_intents_invoices (w_db w)) = Some x"
    and "row_by (\<lambda>y. pif_payment_intent_id y = PaymentIntentId (spi_id intent)) (payment_intents_fees (w_db w)) = None"
    and "q \<in> set (orders (w_db w))" and "ord_invoice_id q = pii_invoice_id x"
    and "f \<in> set (fees (w_db w))" and "fee_order_id f = ord_id q"
  shows "ends (handle_payment_intent_succeeded env cfg intent) w (\<lambda>r t.
    isl r \<and> w_db t = w_db w \<and> w_calls t = w_calls w)"
proof (rule endsI)
  fix r t
  assume run: "handle_payment_intent_succeeded env cfg intent w = (r, t)"
  let ?n = "cfg_order_percent (hc_service cfg)"
  obtain r1 u where first: "payment_intent_succeeded ?n intent (next_fault w) = (r1, u)" by fastforce
  have u: "isl r1" "w_db u = w_db w" "w_calls u = w_calls w"
    using payment_with_fee_fails [of intent "next_fault w" x q f ?n, OF _ _ _ _ _ _ first] assms by simp_all
  then obtain e where "payment_intent_succeeded ?n intent (next_fault w) = (Inl e, u)"
    using first by (cases r1) auto
  then have "\<exists>e'. hpool (hdl_service (payment_intent_succeeded ?n intent)) w =
      (Inl e', if w_faults w 0 then next_fault w else u)"
    by (simp add: spawn_on_pool_def hdl_service_def)
  with run assms(1) u(2,3) show "isl r \<and> w_db t = w_db w \<and> w_calls t = w_calls w"
    by (auto simp: handle_payment_intent_succeeded_def split: if_splits)
qed

definition paid_twice_intent :: stripe_payment_intent where
  "paid_twice_intent = \<lparr>spi_id = ''pi'', spi_amount = 100, spi_amount_capturable = 0, spi_amount_received = 100,
     spi_capture_method = CaptureAutomatic, spi_charges = [], spi_client_secret = None, spi_currency = ''usd'',
     spi_last_payment_error = None, spi_receipt_email = None, spi_status = PiSucceeded\<rparr>"

definition paid_twice_link :: payment_intent_invoice where
  "paid_twice_link = \<lparr>pii_id = 1, pii_invoice_id = InvoiceId 1, pii_payment_intent_id = PaymentIntentId ''pi'',
     pii_created_at = 0, pii_updated_at = 0\<rparr>"

definition paid_twice_fee :: fee where
  "paid_twice_fee = \<lparr>fee_id = FeeId 1, fee_order_id = OrderId 1, fee_amount = Amount 5, fee_status = NotPaid,
     fee_currency = Usd, fee_charge_id = None, fee_created_at = 0, fee_updated_at = 0, fee_crypto_currency = None,
     fee_crypto_amount = None\<rparr>"

definition paid_twice_world :: "rat world" where
  "paid_twice_world = initial_world (empty_db\<lparr>orders := [priced_order 1 Usd],
     payment_intents_invoices := [paid_twice_link], fees := [paid_twice_fee]\<rparr>)"

theorem repeated_payment_event_fails_witness:
  "isl (fst (handle_payment_intent_succeeded offline_env failing_config paid_twice_intent paid_twice_world))"
proof -
  have "ends (handle_payment_intent_succeeded offline_env failing_config paid_twice_intent)
      paid_twice_world (\<lambda>r t. isl r \<and> w_db t = w_db paid_twice_world \<and> w_calls t = w_calls paid_twice_world)"
    by (rule repeated_payment_event_fails [where x = paid_twice_link and q = "priced_order 1 Usd" and f = paid_twice_fee])
       (simp_all add: paid_twice_intent_def paid_twice_world_def initial_world_def empty_db_def paid_twice_link_def
         paid_twice_fee_def priced_order_def)
  then show ?thesis by (simp add: ends_def split: prod.splits)
qed

end
