(* ===== verification/StoreTables.thy ===== *)
theory StoreTables
  imports Prelude Models SubscriptionModels BillingModels World Authorization Tables Triples
begin

text \<open>
  What the repositories of the data of stores share (\<open>repos/subscription.rs\<close>,
  \<open>repos/store_subscription.rs\<close>, \<open>repos/subscription_payment.rs\<close>, \<open>repos/store_billing_type.rs\<close>,
  \<open>repos/international_billing_info.rs\<close>, \<open>repos/russia_billing_info.rs\<close>): their tables, the scope
  checker, which asks whether the user manages the store, and updates by a changeset.
\<close>

section \<open>Tables\<close>

abbreviation set_subscriptions :: "subscription list \<Rightarrow> 'd db \<Rightarrow> 'd db" where
  "set_subscriptions rs d \<equiv> d\<lparr>subscriptions := rs\<rparr>"

abbreviation set_store_subscriptions :: "store_subscription list \<Rightarrow> 'd db \<Rightarrow> 'd db" where
  "set_store_subscriptions rs d \<equiv> d\<lparr>store_subscriptions := rs\<rparr>"

abbreviation set_store_billing_types :: "store_billing_type list \<Rightarrow> 'd db \<Rightarrow> 'd db" where
  "set_store_billing_types rs d \<equiv> d\<lparr>store_billing_types := rs\<rparr>"

abbreviation set_international_billing_infos :: "international_billing_info list \<Rightarrow> 'd db \<Rightarrow> 'd db" where
  "set_international_billing_infos rs d \<equiv> d\<lparr>international_billing_infos := rs\<rparr>"

abbreviation set_russia_billing_infos :: "russia_billing_info list \<Rightarrow> 'd db \<Rightarrow> 'd db" where
  "set_russia_billing_infos rs d \<equiv> d\<lparr>russia_billing_infos := rs\<rparr>"

abbreviation set_proxy_companies_billing_infos :: "proxy_company_billing_info list \<Rightarrow> 'd db \<Rightarrow> 'd db" where
  "set_proxy_companies_billing_infos rs d \<equiv> d\<lparr>proxy_companies_billing_infos := rs\<rparr>"

abbreviation set_user_wallets :: "user_wallet list \<Rightarrow> 'd db \<Rightarrow> 'd db" where
  "set_user_wallets rs d \<equiv> d\<lparr>user_wallets := rs\<rparr>"

interpretation subscriptions_table: table subscriptions set_subscriptions sub_id
  by unfold_locales simp_all

interpretation store_subscriptions_table: table store_subscriptions set_store_subscriptions ss_store_id
  by unfold_locales simp_all

interpretation store_billing_types_table: table store_billing_types set_store_billing_types sbt_id
  by unfold_locales simp_all

interpretation user_wallets_table: table user_wallets set_user_wallets uw_id
  by unfold_locales simp_all

section \<open>Scope\<close>

text \<open>The object of a check is the store that the row belongs to.\<close>

definition stores_in_scope :: "('d, int) scope_checker" where
  "stores_in_scope uid s obj =
     (case s of
        ScopeAll \<Rightarrow> ok True
      | ScopeOwned \<Rightarrow> (case obj of Some sid \<Rightarrow> user_is_store_manager uid (StoreId sid) | None \<Rightarrow> ok False))"

abbreviation check_store ::
  "acl \<Rightarrow> resource \<Rightarrow> action \<Rightarrow> int option \<Rightarrow> ('d world, repo_error, unit) comp" where
  "check_store acl res act sid \<equiv> check acl res act stores_in_scope sid"

text \<open>Every store of the rows is checked once; the hash set of the stores comes in no particular
  order, this is one.\<close>

definition check_stores :: "acl \<Rightarrow> resource \<Rightarrow> int list \<Rightarrow> ('d world, repo_error, unit) comp" where
  "check_stores acl res sids = for_each (\<lambda>sid. check_store acl res ActRead (Some sid)) (remdups sids)"

section \<open>Changesets\<close>

text \<open>A changeset without values is no statement: \<open>diesel\<close> refuses to build it.\<close>

definition update_set ::
  "bool \<Rightarrow> ('d db \<Rightarrow> 'r list) \<Rightarrow> ('r list \<Rightarrow> 'd db \<Rightarrow> 'd db) \<Rightarrow> ('r \<Rightarrow> bool) \<Rightarrow> ('r \<Rightarrow> 'r) \<Rightarrow>
   ('d world, diesel_error, 'r list) comp" where
  "update_set is_empty rows put p g =
     (if is_empty then err OtherDieselError else update_where rows put p (\<lambda>_. g))"

text \<open>The conditions of a search that are present; without any there is no query.\<close>

definition search_expr :: "('r \<Rightarrow> bool) option list \<Rightarrow> ('r \<Rightarrow> bool) option" where
  "search_expr conds =
     (if \<forall>c\<in>set conds. c = None then None
      else Some (\<lambda>r. \<forall>c\<in>set conds. case c of None \<Rightarrow> True | Some p \<Rightarrow> p r))"

definition eq_filter :: "'b option \<Rightarrow> ('r \<Rightarrow> 'b) \<Rightarrow> ('r \<Rightarrow> bool) option" where
  "eq_filter v column = map_option (\<lambda>x r. column r = x) v"

section \<open>Laws\<close>

lemma row_by_key: "row_by (\<lambda>r. key r = k) rows = Some r \<Longrightarrow> r \<in> set rows \<and> key r = k"
  by (auto simp: row_by_def split: list.splits dest!: filter_eq_ConsD)

lemma stores_in_scope_all [simp]: "stores_in_scope uid ScopeAll obj = ok True"
  by (simp add: stores_in_scope_def)

lemma check_stores_system [simp]: "check_stores SystemACL res sids = ok ()"
  by (simp add: check_stores_def for_each_ok)

lemma search_expr_simps [simp]:
  "search_expr [] = None"
  "search_expr (None # cs) = search_expr cs"
  by (auto simp: search_expr_def fun_eq_iff)

lemma eq_filter_simps [simp]:
  "eq_filter None column = None" "eq_filter (Some x) column = Some (\<lambda>r. column r = x)"
  by (simp_all add: eq_filter_def)

lemma search_expr_single [simp]: "search_expr (Some p # replicate n None) = Some p"
  by (auto simp: search_expr_def fun_eq_iff)

lemma search_expr_Some [simp]: "search_expr [Some p] = Some p"
  using search_expr_single [of p 0] by simp

lemma search_expr_some:
  "search_expr (Some p # cs) = Some (\<lambda>r. p r \<and> (case search_expr cs of None \<Rightarrow> True | Some q \<Rightarrow> q r))"
  by (auto simp: search_expr_def fun_eq_iff)

context world_relation
begin

lemma keeps_check_store [keeps_intros]: "keeps R (check acl res act stores_in_scope sid)"
  unfolding stores_in_scope_def
  by (rule keeps_check) (auto intro!: keeps_ok keeps_user_is_store_manager split: scope.split option.split)

lemma keeps_check_stores [keeps_intros]: "keeps R (check_stores acl res sids)"
  unfolding check_stores_def by (intro keeps_for_each keeps_check_store)

lemma keeps_update_set:
  "(\<And>s now. R s (s\<lparr>w_db := put (map (\<lambda>r. if p r then g r else r) (rows (w_db s))) (w_db s)\<rparr>)) \<Longrightarrow>
   keeps R (update_set is_empty rows put p g)"
  unfolding update_set_def by (intro keeps_if keeps_err keeps_update_where_world) simp

end

end
