(* ===== verification/SubscriptionsRepo.thy ===== *)
theory SubscriptionsRepo
  imports Prelude Models SubscriptionModels World Authorization Tables Triples StoreTables
begin

text \<open>
  \<open>repos/subscription.rs\<close>, \<open>repos/store_subscription.rs\<close> and \<open>repos/subscription_payment.rs\<close>. A row
  of \<open>subscription\<close> counts the products that a store has published on a day, and points to the
  payment that settles it.
\<close>

section \<open>Subscriptions\<close>

definition subscription_expr :: "subscription_search \<Rightarrow> (subscription \<Rightarrow> bool) option" where
  "subscription_expr s =
     search_expr
       [eq_filter (subs_id s) sub_id,
        eq_filter (subs_store_id s) sub_store_id,
        map_option (\<lambda>paid r. if paid then sub_payment_id r \<noteq> None else sub_payment_id r = None) (subs_paid s),
        map_option (\<lambda>i r. sub_payment_id r = Some i) (subs_payment_id s)]"

definition insert_subscription ::
  "new_subscription \<Rightarrow> int \<Rightarrow> timestamp \<Rightarrow> 'd db \<Rightarrow> diesel_error + (subscription \<times> 'd db)" where
  "insert_subscription p n now d =
     (let r = \<lparr>sub_id = n, sub_store_id = nsub_store_id p, sub_quantity = nsub_quantity p,
               sub_payment_id = None, sub_created_at = now\<rparr>
      in if \<exists>q\<in>set (subscriptions d). sub_id q = n then Inl UniqueViolation
         else Inr (r, d\<lparr>subscriptions := subscriptions d @ [r]\<rparr>))"

definition subscriptions_create ::
  "acl \<Rightarrow> new_subscription \<Rightarrow> ('d world, repo_error, subscription) comp" where
  "subscriptions_create acl p =
     and_then (check_store acl ResSubscription ActWrite (Some (nsub_store_id p))) (\<lambda>_.
     repo (execute_serial SeqSubscriptions (insert_subscription p)))"

definition subscriptions_get ::
  "acl \<Rightarrow> subscription_search \<Rightarrow> ('d world, repo_error, subscription option) comp" where
  "subscriptions_get acl s =
     and_then (ok_or RInternal (subscription_expr s)) (\<lambda>p.
     and_then (repo (optional (get_result (select_where subscriptions p)))) (\<lambda>found.
     case found of
       None \<Rightarrow> ok None
     | Some r \<Rightarrow>
         and_then (check_store acl ResSubscription ActRead (Some (sub_store_id r))) (\<lambda>_. ok (Some r))))"

definition subscriptions_search ::
  "acl \<Rightarrow> subscription_search \<Rightarrow> ('d world, repo_error, subscription list) comp" where
  "subscriptions_search acl s =
     and_then (ok_or RInternal (subscription_expr s)) (\<lambda>p.
     and_then (repo (select_where subscriptions p)) (\<lambda>rows.
     and_then (check_stores acl ResSubscription (map sub_store_id rows)) (\<lambda>_. ok rows)))"

definition get_unpaid :: "acl \<Rightarrow> ('d world, repo_error, subscription list) comp" where
  "get_unpaid acl = subscriptions_search acl (default_subscription_search\<lparr>subs_paid := Some False\<rparr>)"

text \<open>The payment that a row points to has to exist.\<close>

definition update_subscriptions_where ::
  "(subscription \<Rightarrow> bool) \<Rightarrow> update_subscription \<Rightarrow> timestamp \<Rightarrow> 'd db \<Rightarrow>
   diesel_error + (subscription list \<times> 'd db)" where
  "update_subscriptions_where p u now d =
     (let (new, all) = update_rows p (\<lambda>r. r\<lparr>sub_payment_id := Some (usub_payment_id u)\<rparr>) (subscriptions d)
      in if new \<noteq> [] \<and> usub_payment_id u \<notin> spay_id ` set (subscription_payments d)
         then Inl OtherDieselError else Inr (new, d\<lparr>subscriptions := all\<rparr>))"

definition subscriptions_update_row ::
  "acl \<Rightarrow> subscription_search \<Rightarrow> update_subscription \<Rightarrow> ('d world, repo_error, subscription) comp" where
  "subscriptions_update_row acl s u =
     and_then (subscriptions_get acl s) (\<lambda>found.
     and_then (check_store acl ResSubscription ActWrite (map_option sub_store_id found)) (\<lambda>_.
     and_then (ok_or RInternal (subscription_expr s)) (\<lambda>p.
     repo (get_result (execute (update_subscriptions_where p u))))))"

section \<open>The terms of a store\<close>

definition store_subscription_expr ::
  "store_subscription_search \<Rightarrow> (store_subscription \<Rightarrow> bool) option" where
  "store_subscription_expr s = search_expr [eq_filter (sss_store_id s) ss_store_id]"

definition insert_store_subscription ::
  "new_store_subscription \<Rightarrow> timestamp \<Rightarrow> 'd db \<Rightarrow> diesel_error + (store_subscription \<times> 'd db)" where
  "insert_store_subscription p now d =
     (let r = \<lparr>ss_store_id = nss_store_id p, ss_currency = nss_currency p, ss_value = nss_value p,
               ss_wallet_address = nss_wallet_address p, ss_trial_start_date = nss_trial_start_date p,
               ss_created_at = now, ss_updated_at = now, ss_status = SsTrial\<rparr>
      in if \<exists>q\<in>set (store_subscriptions d). ss_store_id q = ss_store_id r then Inl UniqueViolation
         else Inr (r, d\<lparr>store_subscriptions := store_subscriptions d @ [r]\<rparr>))"

definition store_subscriptions_create ::
  "acl \<Rightarrow> new_store_subscription \<Rightarrow> ('d world, repo_error, store_subscription) comp" where
  "store_subscriptions_create acl p =
     and_then (check_store acl ResStoreSubscription ActWrite (Some (nss_store_id p))) (\<lambda>_.
     repo (execute (insert_store_subscription p)))"

definition store_subscriptions_get ::
  "acl \<Rightarrow> store_subscription_search \<Rightarrow> ('d world, repo_error, store_subscription option) comp" where
  "store_subscriptions_get acl s =
     and_then (ok_or RInternal (store_subscription_expr s)) (\<lambda>p.
     and_then (repo (optional (get_result (select_where store_subscriptions p)))) (\<lambda>found.
     case found of
       None \<Rightarrow> ok None
     | Some r \<Rightarrow>
         and_then (check_store acl ResStoreSubscription ActRead (Some (ss_store_id r))) (\<lambda>_. ok (Some r))))"

text \<open>A change of the status needs a permission of its own. No trigger touches \<open>updated_at\<close>.\<close>

definition store_subscriptions_update_row ::
  "acl \<Rightarrow> store_subscription_search \<Rightarrow> update_store_subscription \<Rightarrow>
   ('d world, repo_error, store_subscription) comp" where
  "store_subscriptions_update_row acl s u =
     and_then (store_subscriptions_get acl s) (\<lambda>found.
     and_then (check_store acl ResStoreSubscription ActWrite (map_option ss_store_id found)) (\<lambda>_.
     and_then (if uss_status u \<noteq> None \<and> uss_status u \<noteq> map_option ss_status found
               then check_store acl ResStoreSubscriptionStatus ActWrite None else ok ()) (\<lambda>_.
     and_then (ok_or RInternal (store_subscription_expr s)) (\<lambda>p.
     repo (get_result (update_set (u = default_update_store_subscription)
       store_subscriptions set_store_subscriptions p (update_store_subscription_changes u)))))))"

section \<open>Payments\<close>

definition subscription_payment_expr ::
  "subscription_payment_search \<Rightarrow> (subscription_payment \<Rightarrow> bool) option" where
  "subscription_payment_expr s =
     search_expr
       [eq_filter (sps_id s) spay_id, eq_filter (sps_store_id s) spay_store_id,
        eq_filter (sps_status s) spay_status]"

definition insert_subscription_payment ::
  "new_subscription_payment \<Rightarrow> int \<Rightarrow> timestamp \<Rightarrow> 'd db \<Rightarrow> diesel_error + (subscription_payment \<times> 'd db)"
  where
  "insert_subscription_payment p n now d =
     (let r = \<lparr>spay_id = n, spay_store_id = nspay_store_id p, spay_amount = nspay_amount p,
               spay_currency = nspay_currency p, spay_charge_id = nspay_charge_id p,
               spay_transaction_id = nspay_transaction_id p, spay_status = nspay_status p,
               spay_created_at = now\<rparr>
      in if \<exists>q\<in>set (subscription_payments d). spay_id q = n then Inl UniqueViolation
         else Inr (r, d\<lparr>subscription_payments := subscription_payments d @ [r]\<rparr>))"

definition subscription_payments_create ::
  "acl \<Rightarrow> new_subscription_payment \<Rightarrow> ('d world, repo_error, subscription_payment) comp" where
  "subscription_payments_create acl p =
     and_then (check_store acl ResSubscriptionPayment ActWrite (Some (nspay_store_id p))) (\<lambda>_.
     repo (execute_serial SeqSubscriptionPayments (insert_subscription_payment p)))"

definition subscription_payments_get ::
  "acl \<Rightarrow> subscription_payment_search \<Rightarrow> ('d world, repo_error, subscription_payment option) comp" where
  "subscription_payments_get acl s =
     and_then (ok_or RInternal (subscription_payment_expr s)) (\<lambda>p.
     and_then (repo (optional (get_result (select_where subscription_payments p)))) (\<lambda>found.
     case found of
       None \<Rightarrow> ok None
     | Some r \<Rightarrow>
         and_then (check_store acl ResSubscriptionPayment ActRead (Some (spay_store_id r))) (\<lambda>_. ok (Some r))))"

definition subscription_payments_page ::
  "int \<Rightarrow> int \<Rightarrow> (subscription_payment \<Rightarrow> bool) \<Rightarrow> timestamp \<Rightarrow> 'd db \<Rightarrow>
   diesel_error + (subscription_payment list \<times> 'd db)" where
  "subscription_payments_page skip cnt p _ d =
     (if skip < 0 \<or> cnt < 0 then Inl OtherDieselError
      else Inr (take (nat cnt) (drop (nat skip)
             (sort_key (\<lambda>r. - spay_created_at r) (filter p (subscription_payments d)))), d))"

definition subscription_payments_search ::
  "acl \<Rightarrow> int \<Rightarrow> int \<Rightarrow> subscription_payment_search \<Rightarrow>
   ('d world, repo_error, subscription_payment_search_results) comp" where
  "subscription_payments_search acl skip cnt s =
     (let p = (case subscription_payment_expr s of None \<Rightarrow> (\<lambda>_. True) | Some p \<Rightarrow> p) in
      and_then (repo (execute (subscription_payments_page skip cnt p))) (\<lambda>rows.
      and_then (repo (select_where subscription_payments p)) (\<lambda>all.
      and_then (check_stores acl ResSubscriptionPayment (map spay_store_id rows)) (\<lambda>_.
      ok \<lparr>spsr_total_count = int (length all), spsr_subscription_payments = rows\<rparr>))))"

section \<open>Laws\<close>

lemma subscription_expr_simps [simp]:
  "subscription_expr (subscription_by_id i) = Some (\<lambda>r. sub_id r = i)"
  "subscription_expr (by_subscription_payment_id i) = Some (\<lambda>r. sub_payment_id r = Some i)"
  "subscription_expr (default_subscription_search\<lparr>subs_paid := Some False\<rparr>) = Some (\<lambda>r. sub_payment_id r = None)"
  "subscription_expr (default_subscription_search\<lparr>subs_store_id := Some sid, subs_paid := Some False\<rparr>) =
     Some (\<lambda>r. sub_store_id r = sid \<and> sub_payment_id r = None)"
  by (simp_all add: subscription_expr_def subscription_by_id_def by_subscription_payment_id_def
      default_subscription_search_def search_expr_some)

lemma store_subscription_expr_by_store [simp]:
  "store_subscription_expr (store_subscription_by_store_id sid) = Some (\<lambda>r. ss_store_id r = sid)"
  by (simp add: store_subscription_expr_def store_subscription_by_store_id_def)

context world_relation
begin

lemma keeps_subscriptions_get [keeps_intros]: "keeps R (subscriptions_get acl s)"
  unfolding subscriptions_get_def
  by (intro keeps_and_then keeps_ok_or keeps_repo keeps_optional keeps_get_result keeps_select_where
      keeps_case_option keeps_ok keeps_check_store)

lemma keeps_subscriptions_search [keeps_intros]: "keeps R (subscriptions_search acl s)"
  unfolding subscriptions_search_def
  by (intro keeps_and_then keeps_ok_or keeps_repo keeps_select_where keeps_ok keeps_check_stores)

lemma keeps_get_unpaid [keeps_intros]: "keeps R (get_unpaid acl)"
  unfolding get_unpaid_def by (rule keeps_subscriptions_search)

lemma keeps_store_subscriptions_get [keeps_intros]: "keeps R (store_subscriptions_get acl s)"
  unfolding store_subscriptions_get_def
  by (intro keeps_and_then keeps_ok_or keeps_repo keeps_optional keeps_get_result keeps_select_where
      keeps_case_option keeps_ok keeps_check_store)

end

end
