(* ===== verification/SubscriptionService.thy ===== *)
theory SubscriptionService
  imports Prelude Models SubscriptionModels World Authorization Tables Clients AccountsRepo Services
    Triples AccountService Customers StoreTables SubscriptionsRepo
begin

text \<open>
  \<open>services/subscription.rs\<close>, \<open>services/store_subscription.rs\<close> and
  \<open>services/subscription_payment.rs\<close>. Once a day every store gets a row with the number of its
  published products, unless it is in its trial period or pays nothing. When the oldest unpaid row of
  a store is old enough, all its unpaid rows are collected with one payment, from the owner's Stripe
  customer or from the store's own account at the gateway.
\<close>

section \<open>Dates and durations\<close>

record subscription_config =
  subscription_ture :: bool
  subscription_accounts :: account_config
  periodicity_days :: "64 word"
  trial_time_duration_days :: "64 word"

text \<open>\<open>chrono::Duration::days\<close> panics when the duration has more than 63 bits of milliseconds. A date
  has no bounds here; \<open>date_of\<close> numbers the days, so two time stamps have the same year, month and
  day exactly when they have the same \<open>date_of\<close>.\<close>

definition duration_days :: "64 word \<Rightarrow> int option" where
  "duration_days n =
     (let ms = sint n * 86400000
      in if - (2 ^ 63) \<le> ms \<and> ms < 2 ^ 63 then Some (ms * 1000) else None)"

definition date_of :: "timestamp \<Rightarrow> int" where
  "date_of t = t div 86400000000"

definition DEFAULT_EUR_CENTS_AMOUNT :: amount where "DEFAULT_EUR_CENTS_AMOUNT = Amount 3"

definition DEFAULT_STQ_WEI_AMOUNT :: amount where "DEFAULT_STQ_WEI_AMOUNT = Amount 1000000000000000000"

definition DEFAULT_CURRENCY :: currency where "DEFAULT_CURRENCY = Eur"

section \<open>The daily rows\<close>

definition find_update_or_create_store_subscription ::
  "acl \<Rightarrow> int \<Rightarrow> timestamp \<Rightarrow> ('d world, repo_error, store_subscription) comp" where
  "find_update_or_create_store_subscription acl sid now =
     and_then (store_subscriptions_get acl (store_subscription_by_store_id sid)) (\<lambda>found.
     case found of
       Some ss \<Rightarrow>
         if ss_trial_start_date ss \<noteq> None then ok ss
         else store_subscriptions_update_row acl (store_subscription_by_store_id sid)
                (default_update_store_subscription\<lparr>uss_trial_start_date := Some now\<rparr>)
     | None \<Rightarrow>
         store_subscriptions_create acl
           \<lparr>nss_store_id = sid, nss_currency = DEFAULT_CURRENCY, nss_value = DEFAULT_EUR_CENTS_AMOUNT,
            nss_wallet_address = None, nss_trial_start_date = Some now\<rparr>)"

definition is_charged ::
  "int \<Rightarrow> timestamp \<Rightarrow> store_subscription \<Rightarrow> ('s, service_error, bool) comp" where
  "is_charged max_trial now ss =
     (case ss_status ss of
        SsTrial \<Rightarrow>
          and_then (ok_or SInternal (ss_trial_start_date ss)) (\<lambda>start. ok (\<not> now - start < max_trial))
      | SsPaid \<Rightarrow> ok True
      | SsFree \<Rightarrow> ok False)"

definition create_subscription ::
  "acl \<Rightarrow> acl \<Rightarrow> int \<Rightarrow> timestamp \<Rightarrow> new_subscription \<Rightarrow> ('d world, service_error, unit) comp" where
  "create_subscription ss_acl s_acl max_trial now p =
     (let sid = nsub_store_id p in
      and_then (svc (find_update_or_create_store_subscription ss_acl sid now)) (\<lambda>ss.
      and_then (is_charged max_trial now ss) (\<lambda>charged.
      if \<not> charged then ok ()
      else and_then (svc (subscriptions_search s_acl
             (default_subscription_search\<lparr>subs_store_id := Some sid, subs_paid := Some False\<rparr>))) (\<lambda>unpaid.
        if \<exists>r\<in>set unpaid. date_of (sub_created_at r) = date_of now then ok ()
        else map_ok (\<lambda>_. ()) (svc (subscriptions_create s_acl p))))))"

definition create_all ::
  "subscription_config \<Rightarrow> stq_user_id option \<Rightarrow> new_subscription list \<Rightarrow> ('d world, service_error, unit) comp"
  where
  "create_all cfg user payload =
     and_then utc_now (\<lambda>now.
     and_then (unwrap (duration_days (trial_time_duration_days cfg))) (\<lambda>max_trial.
     pool (and_then (get_acl user) (\<lambda>ss_acl.
       and_then (get_acl user) (\<lambda>s_acl.
       transaction service_error_of_diesel
         (for_each (create_subscription ss_acl s_acl max_trial now) payload))))))"

definition get_by_subscription_payment_id ::
  "stq_user_id option \<Rightarrow> int \<Rightarrow> ('d world, service_error, subscription list) comp" where
  "get_by_subscription_payment_id user pid =
     pool (and_then (get_acl user) (\<lambda>acl.
       svc (subscriptions_search acl (by_subscription_payment_id pid))))"

section \<open>The terms of a store\<close>

record 'd store_subscription_response =
  ssr_store_id :: int
  ssr_currency :: stq_currency
  ssr_value :: 'd
  ssr_wallet_address :: "wallet_address option"
  ssr_trial_start_date :: "timestamp option"
  ssr_trial_end_date :: "timestamp option"
  ssr_created_at :: timestamp
  ssr_updated_at :: timestamp
  ssr_status :: store_subscription_status

definition store_subscription_response_of ::
  "'d bigdecimal \<Rightarrow> int \<Rightarrow> store_subscription \<Rightarrow> 'd store_subscription_response" where
  "store_subscription_response_of D max_trial s =
     \<lparr>ssr_store_id = ss_store_id s, ssr_currency = into_stq_currency (ss_currency s),
      ssr_value = to_super_unit D (ss_value s) (ss_currency s), ssr_wallet_address = ss_wallet_address s,
      ssr_trial_start_date = ss_trial_start_date s,
      ssr_trial_end_date = map_option (\<lambda>t. t + max_trial) (ss_trial_start_date s),
      ssr_created_at = ss_created_at s, ssr_updated_at = ss_updated_at s, ssr_status = ss_status s\<rparr>"

definition store_account_name :: "int \<Rightarrow> string" where
  "store_account_name sid = ''store_subscription_'' @ show_int sid"

definition create_store_account ::
  "'d env \<Rightarrow> account_config \<Rightarrow> int \<Rightarrow> ('d world, service_error, account) comp" where
  "create_store_account env cfg sid =
     and_then new_v4 (\<lambda>u. create_account env cfg u (store_account_name sid) TureStq False)"

definition create_store_subscription_account ::
  "'d env \<Rightarrow> account_config \<Rightarrow> int \<Rightarrow> ('d world, service_error, new_store_subscription) comp" where
  "create_store_subscription_account env cfg sid =
     map_ok (\<lambda>a. \<lparr>nss_store_id = sid, nss_currency = Stq, nss_value = DEFAULT_STQ_WEI_AMOUNT,
         nss_wallet_address = Some (acc_wallet_address a), nss_trial_start_date = None\<rparr>)
       (create_store_account env cfg sid)"

definition wrong_currency :: "currency \<Rightarrow> service_error" where
  "wrong_currency c = invalid ''currency'' (currency_display c)"

definition new_store_subscription_of ::
  "'d env \<Rightarrow> subscription_config \<Rightarrow> int \<Rightarrow> currency \<Rightarrow> ('d world, service_error, new_store_subscription) comp"
  where
  "new_store_subscription_of env cfg sid c =
     (case c of
        Eur \<Rightarrow> ok \<lparr>nss_store_id = sid, nss_currency = c, nss_value = DEFAULT_EUR_CENTS_AMOUNT,
                   nss_wallet_address = None, nss_trial_start_date = None\<rparr>
      | Stq \<Rightarrow> create_store_subscription_account env (subscription_accounts cfg) sid
      | _ \<Rightarrow> err (wrong_currency c))"

definition create_store_subscription ::
  "'d bigdecimal \<Rightarrow> 'd env \<Rightarrow> subscription_config \<Rightarrow> stq_user_id option \<Rightarrow> int \<Rightarrow> stq_currency \<Rightarrow>
   ('d world, service_error, 'd store_subscription_response) comp" where
  "create_store_subscription D env cfg user sid currency =
     and_then (unwrap (duration_days (trial_time_duration_days cfg))) (\<lambda>max_trial.
     if \<not> subscription_ture cfg then err SInternal
     else and_then (new_store_subscription_of env cfg sid (from_stq_currency currency)) (\<lambda>p.
       pool (and_then (get_acl user) (\<lambda>acl.
         map_ok (store_subscription_response_of D max_trial) (svc (store_subscriptions_create acl p))))))"

definition get_store_subscription ::
  "'d bigdecimal \<Rightarrow> subscription_config \<Rightarrow> stq_user_id option \<Rightarrow> int \<Rightarrow>
   ('d world, service_error, 'd store_subscription_response option) comp" where
  "get_store_subscription D cfg user sid =
     and_then (unwrap (duration_days (trial_time_duration_days cfg))) (\<lambda>max_trial.
     pool (and_then (get_acl user) (\<lambda>acl.
       map_ok (map_option (store_subscription_response_of D max_trial))
         (svc (store_subscriptions_get acl (store_subscription_by_store_id sid))))))"

record update_store_subscription_request =
  ussr_currency :: "stq_currency option"
  ussr_status :: "store_subscription_status option"

definition update_store_subscription_of :: "update_store_subscription_request \<Rightarrow> update_store_subscription" where
  "update_store_subscription_of r =
     default_update_store_subscription\<lparr>uss_currency := map_option from_stq_currency (ussr_currency r),
       uss_status := ussr_status r\<rparr>"

text \<open>A change of the currency sets the price; a store that starts to pay in STQ gets an account.\<close>

definition complete_update ::
  "'d env \<Rightarrow> subscription_config \<Rightarrow> store_subscription \<Rightarrow> update_store_subscription \<Rightarrow>
   ('d world, service_error, update_store_subscription) comp" where
  "complete_update env cfg old u =
     (case uss_currency u of
        None \<Rightarrow> ok u
      | Some c \<Rightarrow>
          if c = ss_currency old then ok u
          else (case c of
              Eur \<Rightarrow> ok (u\<lparr>uss_currency := Some Eur, uss_value := Some DEFAULT_EUR_CENTS_AMOUNT\<rparr>)
            | Stq \<Rightarrow>
                if ss_wallet_address old = None
                then map_ok (\<lambda>a. u\<lparr>uss_currency := Some Stq, uss_value := Some DEFAULT_STQ_WEI_AMOUNT,
                         uss_wallet_address := Some (acc_wallet_address a)\<rparr>)
                       (create_store_account env (subscription_accounts cfg) (ss_store_id old))
                else ok (u\<lparr>uss_currency := Some Stq, uss_value := Some DEFAULT_STQ_WEI_AMOUNT\<rparr>)
            | _ \<Rightarrow> err (wrong_currency c)))"

definition update_store_terms ::
  "'d bigdecimal \<Rightarrow> 'd env \<Rightarrow> subscription_config \<Rightarrow> stq_user_id option \<Rightarrow> int \<Rightarrow>
   update_store_subscription_request \<Rightarrow> ('d world, service_error, 'd store_subscription_response) comp" where
  "update_store_terms D env cfg user sid payload =
     and_then (unwrap (duration_days (trial_time_duration_days cfg))) (\<lambda>max_trial.
     if \<not> subscription_ture cfg then err SInternal
     else and_then (pool (and_then (get_acl user) (\<lambda>acl.
         and_then (svc (store_subscriptions_get acl (store_subscription_by_store_id sid))) (ok_or SNotFound))))
       (\<lambda>old.
       and_then (complete_update env cfg old (update_store_subscription_of payload)) (\<lambda>u.
       pool (and_then (get_acl user) (\<lambda>acl.
         map_ok (store_subscription_response_of D max_trial)
           (svc (store_subscriptions_update_row acl (store_subscription_by_store_id sid) u)))))))"

section \<open>Frames\<close>

context world_relation
begin

lemma keeps_is_charged [keeps_intros]: "keeps R (is_charged max_trial now ss)"
  unfolding is_charged_def
  by (auto intro!: keeps_and_then keeps_ok_or keeps_ok split: store_subscription_status.split)

end

section \<open>Who is billed\<close>

text \<open>The terms that apply to a store: a store without a row, or whose trial has not begun, begins its
  trial now.\<close>

definition effective :: "timestamp \<Rightarrow> 'd db \<Rightarrow> int \<Rightarrow> store_subscription_status \<times> timestamp" where
  "effective now d sid =
     (case row_by (\<lambda>s. ss_store_id s = sid) (store_subscriptions d) of
        None \<Rightarrow> (SsTrial, now)
      | Some s \<Rightarrow> (ss_status s, case ss_trial_start_date s of None \<Rightarrow> now | Some start \<Rightarrow> start))"

definition billable :: "int \<Rightarrow> timestamp \<Rightarrow> 'd db \<Rightarrow> int \<Rightarrow> bool" where
  "billable max_trial now d sid \<longleftrightarrow>
     (case effective now d sid of
        (SsFree, _) \<Rightarrow> False
      | (SsPaid, _) \<Rightarrow> True
      | (SsTrial, start) \<Rightarrow> max_trial \<le> now - start)"

definition billed_today :: "timestamp \<Rightarrow> subscription list \<Rightarrow> int \<Rightarrow> bool" where
  "billed_today now rows sid \<longleftrightarrow>
     (\<exists>q\<in>set rows. sub_store_id q = sid \<and> sub_payment_id q = None \<and> date_of (sub_created_at q) = date_of now)"

text \<open>Each of the new rows is unpaid, of a store that is charged, and the first of its store for the day.\<close>

fun new_bills ::
  "timestamp \<Rightarrow> (int \<Rightarrow> bool) \<Rightarrow> subscription list \<Rightarrow> subscription list \<Rightarrow> bool" where
  "new_bills now charged rows [] \<longleftrightarrow> True"
| "new_bills now charged rows (r # rs) \<longleftrightarrow>
     sub_payment_id r = None \<and> charged (sub_store_id r) \<and> \<not> billed_today now rows (sub_store_id r) \<and>
     new_bills now charged (rows @ [r]) rs"

definition same_effective :: "timestamp \<Rightarrow> 'd db \<Rightarrow> 'd db \<Rightarrow> bool" where
  "same_effective now d e \<longleftrightarrow> (\<forall>sid. effective now e sid = effective now d sid)"

lemma row_by_append: "row_by p (xs @ ys) = (case row_by p xs of None \<Rightarrow> row_by p ys | Some r \<Rightarrow> Some r)"
  by (induction xs) auto

lemma row_by_map: "(\<And>r. p (g r) = p r) \<Longrightarrow> row_by p (map g rows) = map_option g (row_by p rows)"
  by (induction rows) auto

lemma effective_insert:
  assumes "insert_store_subscription p now' d = Inr (ss, e)" and "nss_trial_start_date p = Some now"
  shows "same_effective now d e \<and> subscriptions e = subscriptions d \<and> ss_status ss = SsTrial \<and>
    ss_trial_start_date ss = Some now"
proof -
  have new: "row_by (\<lambda>s. ss_store_id s = nss_store_id p) (store_subscriptions d) = None"
    and ss: "ss_store_id ss = nss_store_id p" "ss_status ss = SsTrial" "ss_trial_start_date ss = Some now"
    and e: "e = d\<lparr>store_subscriptions := store_subscriptions d @ [ss]\<rparr>"
    using assms by (auto simp: insert_store_subscription_def Let_def row_by_None split: if_splits)
  have "effective now e sid = effective now d sid" for sid
    using new ss
    by (cases "row_by (\<lambda>s. ss_store_id s = sid) (store_subscriptions d)")
       (auto simp: effective_def e row_by_append)
  then show ?thesis using ss by (simp add: same_effective_def e)
qed

lemma effective_begin_trial:
  assumes "row_by (\<lambda>s. ss_store_id s = sid) (store_subscriptions d) = Some ss" and "ss_trial_start_date ss = None"
  shows "same_effective now d (d\<lparr>store_subscriptions := map (\<lambda>r. if ss_store_id r = sid
      then update_store_subscription_changes (default_update_store_subscription\<lparr>uss_trial_start_date := Some now\<rparr>) r
      else r) (store_subscriptions d)\<rparr>)"
proof -
  let ?g = "\<lambda>r. if ss_store_id r = sid
    then update_store_subscription_changes (default_update_store_subscription\<lparr>uss_trial_start_date := Some now\<rparr>) r
    else r"
  have row: "row_by (\<lambda>s. ss_store_id s = x) (map ?g rows) = map_option ?g (row_by (\<lambda>s. ss_store_id s = x) rows)" for x rows
    by (rule row_by_map) (simp add: update_store_subscription_changes_def)
  have "effective now (d\<lparr>store_subscriptions := map ?g (store_subscriptions d)\<rparr>) x = effective now d x" for x
  proof (cases "x = sid")
    case True
    with assms row_by_Some [OF assms(1)] show ?thesis
      by (simp add: effective_def row update_store_subscription_changes_def
          default_update_store_subscription_def set_or_def set_or_opt_def)
  next
    case False
    then show ?thesis
      by (auto simp: effective_def row split: option.split dest!: row_by_Some)
  qed
  then show ?thesis by (simp add: same_effective_def)
qed

text \<open>The step for one store.\<close>

lemma store_subscriptions_get_success:
  assumes "store_subscriptions_get acl (store_subscription_by_store_id sid) w = (Inr found, t)"
  shows "found = row_by (\<lambda>s. ss_store_id s = sid) (store_subscriptions (w_db w)) \<and> w_db t = w_db w"
proof -
  obtain x u where first: "repo (optional (get_result (select_where store_subscriptions (\<lambda>r. ss_store_id r = sid)))) w = (Inr x, u)"
    and rest: "(case x of None \<Rightarrow> ok None | Some r \<Rightarrow>
      and_then (check_store acl ResStoreSubscription ActRead (Some (ss_store_id r))) (\<lambda>_. ok (Some r))) u = (Inr found, t)"
    using assms by (auto simp: store_subscriptions_get_def and_then_success)
  from rest have "x = found" by (cases x) (auto simp: and_then_success)
  with first_row_success [OF first] same_dbD [OF reading.keeps_store_subscriptions_get assms]
  show ?thesis by simp
qed

lemma subscriptions_search_success:
  assumes "subscriptions_search acl s w = (Inr rows, t)" and "subscription_expr s = Some p"
  shows "rows = filter p (subscriptions (w_db w)) \<and> w_db t = w_db w"
proof -
  obtain u where first: "repo (select_where subscriptions p) w = (Inr rows, u)"
    using assms by (auto simp: subscriptions_search_def and_then_success)
  with select_where_success [OF first] same_dbD [OF reading.keeps_subscriptions_search assms(1)]
  show ?thesis by simp
qed

lemma begin_trial_success:
  assumes "store_subscriptions_update_row acl (store_subscription_by_store_id sid)
      (default_update_store_subscription\<lparr>uss_trial_start_date := Some now\<rparr>) w = (Inr ss, t)"
    and "row_by (\<lambda>s. ss_store_id s = sid) (store_subscriptions (w_db w)) = Some r" and "ss_trial_start_date r = None"
  shows "same_effective now (w_db w) (w_db t) \<and> subscriptions (w_db t) = subscriptions (w_db w) \<and>
    ss_status ss = ss_status r \<and> ss_trial_start_date ss = Some now"
proof -
  let ?u = "default_update_store_subscription\<lparr>uss_trial_start_date := Some now\<rparr>"
  have nonempty: "?u \<noteq> default_update_store_subscription"
    by (simp add: default_update_store_subscription_def)
  have no_status: "uss_status ?u = None" by (simp add: default_update_store_subscription_def)
  obtain found v1 v2 rs where get: "store_subscriptions_get acl (store_subscription_by_store_id sid) w = (Inr found, v1)"
    and chk: "check_store acl ResStoreSubscription ActWrite (map_option ss_store_id found) v1 = (Inr (), v2)"
    and upd: "update_where store_subscriptions set_store_subscriptions (\<lambda>r. ss_store_id r = sid)
      (\<lambda>_. update_store_subscription_changes ?u) v2 = (Inr (ss # rs), t)"
    using assms(1) nonempty no_status
    by (auto simp: store_subscriptions_update_row_def and_then_success update_set_def repo_success get_result_success)
  have db: "w_db v2 = w_db w"
    using same_dbD [OF reading.keeps_check_store chk] store_subscriptions_get_success [OF get] by simp
  from update_where_success [OF upd]
  have rows: "ss # rs = map (update_store_subscription_changes ?u)
      (filter (\<lambda>r. ss_store_id r = sid) (store_subscriptions (w_db w)))"
    and t: "w_db t = (w_db w)\<lparr>store_subscriptions := map (\<lambda>r. if ss_store_id r = sid
      then update_store_subscription_changes ?u r else r) (store_subscriptions (w_db w))\<rparr>"
    by (simp_all add: db)
  from rows assms(2) have "ss = update_store_subscription_changes ?u r"
    by (auto simp: row_by_def split: list.splits)
  then show ?thesis
    using effective_begin_trial [OF assms(2,3), of now]
    by (simp add: t update_store_subscription_changes_def default_update_store_subscription_def set_or_def set_or_opt_def)
qed

lemma find_store_subscription_success:
  assumes "find_update_or_create_store_subscription acl sid now w = (Inr ss, t)"
  shows "same_effective now (w_db w) (w_db t) \<and> subscriptions (w_db t) = subscriptions (w_db w) \<and>
    (ss_status ss, ss_trial_start_date ss) = map_prod id Some (effective now (w_db w) sid)"
proof -
  obtain found u where get: "store_subscriptions_get acl (store_subscription_by_store_id sid) w = (Inr found, u)"
    and rest: "(case found of
        Some ss \<Rightarrow> if ss_trial_start_date ss \<noteq> None then ok ss
          else store_subscriptions_update_row acl (store_subscription_by_store_id sid)
                 (default_update_store_subscription\<lparr>uss_trial_start_date := Some now\<rparr>)
      | None \<Rightarrow> store_subscriptions_create acl \<lparr>nss_store_id = sid, nss_currency = DEFAULT_CURRENCY,
          nss_value = DEFAULT_EUR_CENTS_AMOUNT, nss_wallet_address = None, nss_trial_start_date = Some now\<rparr>) u = (Inr ss, t)"
    using assms unfolding find_update_or_create_store_subscription_def and_then_success by blast
  from store_subscriptions_get_success [OF get]
  have row: "row_by (\<lambda>s. ss_store_id s = sid) (store_subscriptions (w_db u)) = found" and db: "w_db u = w_db w"
    by simp_all
  show ?thesis
  proof (cases found)
    case None
    with rest obtain v where chk: "check_store acl ResStoreSubscription ActWrite (Some sid) u = (Inr (), v)"
      and ins: "execute (insert_store_subscription \<lparr>nss_store_id = sid, nss_currency = DEFAULT_CURRENCY,
          nss_value = DEFAULT_EUR_CENTS_AMOUNT, nss_wallet_address = None, nss_trial_start_date = Some now\<rparr>) v = (Inr ss, t)"
      by (auto simp: store_subscriptions_create_def and_then_success repo_success)
    have "w_db v = w_db w" using same_dbD [OF reading.keeps_check_store chk] db by simp
    with effective_insert [OF execute_success [OF ins]] row None db
    show ?thesis by (simp add: effective_def)
  next
    case (Some r)
    show ?thesis
    proof (cases "ss_trial_start_date r")
      case None
      with rest Some begin_trial_success [of acl sid now u ss t r] row db show ?thesis
        by (simp add: effective_def)
    next
      case (Some start)
      with rest \<open>found = Some r\<close> row db show ?thesis
        by (auto simp: effective_def same_effective_def)
    qed
  qed
qed

lemma charged_iff_billable:
  assumes "is_charged max_trial now ss w = (Inr charged, t)"
    and "(ss_status ss, ss_trial_start_date ss) = map_prod id Some (effective now d sid)"
  shows "charged = billable max_trial now d sid \<and> t = w"
proof -
  obtain st start where "effective now d sid = (st, start)" by fastforce
  with assms show ?thesis
    by (cases st) (auto simp: is_charged_def billable_def)
qed

lemma create_subscription_success:
  assumes run: "create_subscription ss_acl s_acl max_trial now p w = (Inr x, t)"
  defines "sid \<equiv> nsub_store_id p"
  shows "same_effective now (w_db w) (w_db t) \<and> (\<exists>new. subscriptions (w_db t) = subscriptions (w_db w) @ new \<and>
    new_bills now (billable max_trial now (w_db w)) (subscriptions (w_db w)) new \<and>
    (\<forall>r\<in>set new. sub_store_id r = sid \<and> sub_quantity r = nsub_quantity p) \<and>
    (billable max_trial now (w_db w) sid \<longrightarrow>
       billed_today now (subscriptions (w_db w)) sid \<or> sid \<in> sub_store_id ` set new))"
proof -
  obtain ss u v charged where find: "find_update_or_create_store_subscription ss_acl sid now w = (Inr ss, u)"
    and chg: "is_charged max_trial now ss u = (Inr charged, v)"
    and rest: "(if \<not> charged then ok () else and_then (svc (subscriptions_search s_acl
        (default_subscription_search\<lparr>subs_store_id := Some sid, subs_paid := Some False\<rparr>))) (\<lambda>unpaid.
      if \<exists>r\<in>set unpaid. date_of (sub_created_at r) = date_of now then ok ()
      else map_ok (\<lambda>_. ()) (svc (subscriptions_create s_acl p)))) v = (Inr x, t)"
    using run unfolding create_subscription_def Let_def and_then_success svc_success sid_def by blast
  from find_store_subscription_success [OF find]
  have same: "same_effective now (w_db w) (w_db u)" and subs: "subscriptions (w_db u) = subscriptions (w_db w)"
    and terms: "(ss_status ss, ss_trial_start_date ss) = map_prod id Some (effective now (w_db w) sid)" by simp_all
  from charged_iff_billable [OF chg terms] have b: "charged = billable max_trial now (w_db w) sid" and v: "v = u" by simp_all
  show ?thesis
  proof (cases charged)
    case False
    with rest v same subs b show ?thesis by auto
  next
    case True
    then obtain unpaid z where srch: "subscriptions_search s_acl
        (default_subscription_search\<lparr>subs_store_id := Some sid, subs_paid := Some False\<rparr>) u = (Inr unpaid, z)"
      and fin: "(if \<exists>r\<in>set unpaid. date_of (sub_created_at r) = date_of now then ok ()
        else map_ok (\<lambda>_. ()) (svc (subscriptions_create s_acl p))) z = (Inr x, t)"
      using rest v by (auto simp: and_then_success svc_success)
    from subscriptions_search_success [OF srch]
    have unpaid: "unpaid = filter (\<lambda>r. sub_store_id r = sid \<and> sub_payment_id r = None) (subscriptions (w_db w))"
      and z: "w_db z = w_db u" using subs by simp_all
    have today: "(\<exists>r\<in>set unpaid. date_of (sub_created_at r) = date_of now) = billed_today now (subscriptions (w_db w)) sid"
      by (auto simp: unpaid billed_today_def)
    show ?thesis
    proof (cases "billed_today now (subscriptions (w_db w)) sid")
      case already: True
      with fin today have "t = z" by simp
      with already same subs z show ?thesis by auto
    next
      case first: False
      with fin today obtain r y where chk: "check_store s_acl ResSubscription ActWrite (Some sid) z = (Inr (), y)"
        and ins: "execute_serial SeqSubscriptions (insert_subscription p) y = (Inr r, t)"
        by (auto simp: subscriptions_create_def and_then_success svc_success repo_success map_ok_success sid_def)
      have "w_db y = w_db u" using same_dbD [OF reading.keeps_check_store chk] z by simp
      with execute_serial_success [OF ins]
      have t: "w_db t = (w_db u)\<lparr>subscriptions := subscriptions (w_db w) @ [r]\<rparr>"
        and r: "sub_store_id r = sid" "sub_payment_id r = None" "sub_quantity r = nsub_quantity p"
        using subs by (auto simp: insert_subscription_def Let_def sid_def split: if_splits)
      have "same_effective now (w_db w) (w_db t)"
        using same by (simp add: t same_effective_def effective_def)
      with t r first b True show ?thesis by auto
    qed
  qed
qed

lemma new_bills_cong:
  "(\<And>sid. f sid = g sid) \<Longrightarrow> new_bills now f rows new = new_bills now g rows new"
  by (induction new arbitrary: rows) auto

lemma new_bills_append:
  "new_bills now f rows new \<Longrightarrow> new_bills now f (rows @ new) new' \<Longrightarrow> new_bills now f rows (new @ new')"
  by (induction new arbitrary: rows) auto

lemma billable_same: "same_effective now d e \<Longrightarrow> billable max_trial now e = billable max_trial now d"
  by (simp add: billable_def same_effective_def fun_eq_iff)

lemma billed_today_append:
  "billed_today now (rows @ new) sid \<Longrightarrow> billed_today now rows sid \<or> sid \<in> sub_store_id ` set new"
  by (auto simp: billed_today_def)

lemma create_subscriptions_success:
  assumes "for_each (create_subscription ss_acl s_acl max_trial now) ps w = (Inr x, t)"
  shows "same_effective now (w_db w) (w_db t) \<and> (\<exists>new. subscriptions (w_db t) = subscriptions (w_db w) @ new \<and>
    new_bills now (billable max_trial now (w_db w)) (subscriptions (w_db w)) new \<and>
    (\<forall>r\<in>set new. \<exists>p\<in>set ps. sub_store_id r = nsub_store_id p \<and> sub_quantity r = nsub_quantity p) \<and>
    (\<forall>p\<in>set ps. billable max_trial now (w_db w) (nsub_store_id p) \<longrightarrow>
       billed_today now (subscriptions (w_db w)) (nsub_store_id p) \<or> nsub_store_id p \<in> sub_store_id ` set new))"
  using assms
proof (induction ps arbitrary: w x)
  case Nil
  then show ?case by (auto simp: for_each_def same_effective_def)
next
  case (Cons p ps)
  from Cons.prems obtain y u z where first: "create_subscription ss_acl s_acl max_trial now p w = (Inr y, u)"
    and rest: "for_each (create_subscription ss_acl s_acl max_trial now) ps u = (Inr z, t)"
    by (auto simp: for_each_def map_ok_success and_then_success)
  from create_subscription_success [OF first] obtain n1 where 1: "same_effective now (w_db w) (w_db u)"
      "subscriptions (w_db u) = subscriptions (w_db w) @ n1"
      "new_bills now (billable max_trial now (w_db w)) (subscriptions (w_db w)) n1"
      "\<forall>r\<in>set n1. sub_store_id r = nsub_store_id p \<and> sub_quantity r = nsub_quantity p"
      "billable max_trial now (w_db w) (nsub_store_id p) \<longrightarrow>
        billed_today now (subscriptions (w_db w)) (nsub_store_id p) \<or> nsub_store_id p \<in> sub_store_id ` set n1"
    by blast
  from Cons.IH [OF rest] obtain n2 where 2: "same_effective now (w_db u) (w_db t)"
      "subscriptions (w_db t) = subscriptions (w_db u) @ n2"
      "new_bills now (billable max_trial now (w_db w)) (subscriptions (w_db u)) n2"
      "\<forall>r\<in>set n2. \<exists>p\<in>set ps. sub_store_id r = nsub_store_id p \<and> sub_quantity r = nsub_quantity p"
      "\<forall>p\<in>set ps. billable max_trial now (w_db w) (nsub_store_id p) \<longrightarrow>
        billed_today now (subscriptions (w_db u)) (nsub_store_id p) \<or> nsub_store_id p \<in> sub_store_id ` set n2"
    unfolding billable_same [OF 1(1)] by blast
  have "same_effective now (w_db w) (w_db t)" using 1(1) 2(1) by (simp add: same_effective_def)
  moreover have "new_bills now (billable max_trial now (w_db w)) (subscriptions (w_db w)) (n1 @ n2)"
    using new_bills_append [OF 1(3)] 2(3) 1(2) by simp
  moreover have "\<forall>q\<in>set (p # ps). billable max_trial now (w_db w) (nsub_store_id q) \<longrightarrow>
      billed_today now (subscriptions (w_db w)) (nsub_store_id q) \<or> nsub_store_id q \<in> sub_store_id ` set (n1 @ n2)"
    using 1(5) 2(5) billed_today_append [of now "subscriptions (w_db w)" n1] by (fastforce simp: 1(2))
  moreover have "\<forall>r\<in>set (n1 @ n2). \<exists>q\<in>set (p # ps). sub_store_id r = nsub_store_id q \<and> sub_quantity r = nsub_quantity q"
    using 1(4) 2(4) by auto
  ultimately show ?case using 1(2) 2(2) by (intro conjI exI [of _ "n1 @ n2"]) simp_all
qed

text \<open>What one run of \<open>create_all\<close> adds.\<close>

definition daily_bills ::
  "int \<Rightarrow> timestamp \<Rightarrow> new_subscription list \<Rightarrow> 'd db \<Rightarrow> subscription list \<Rightarrow> bool" where
  "daily_bills max_trial now ps d new \<longleftrightarrow>
     new_bills now (billable max_trial now d) (subscriptions d) new \<and>
     (\<forall>r\<in>set new. \<exists>p\<in>set ps. sub_store_id r = nsub_store_id p \<and> sub_quantity r = nsub_quantity p) \<and>
     (\<forall>p\<in>set ps. billable max_trial now d (nsub_store_id p) \<longrightarrow>
        billed_today now (subscriptions d) (nsub_store_id p) \<or> nsub_store_id p \<in> sub_store_id ` set new)"

text \<open>C13: \<open>create_all\<close> adds unpaid rows for exactly the stores of the request that are charged (status paid,
  or a trial that is over; never a free store) and have no unpaid row of the day yet, whatever else
  the request repeats; every other outcome leaves the rows as they were.\<close>

theorem create_all_bills_once_a_day:
  "ends (create_all cfg user ps) w (\<lambda>r t. w_db t = w_db w \<or>
     r = Inr () \<and> (\<exists>max_trial new. duration_days (trial_time_duration_days cfg) = Some max_trial \<and>
       subscriptions (w_db t) = subscriptions (w_db w) @ new \<and>
       daily_bills max_trial (w_clock w 0) ps (w_db w) new))" (is "ends _ _ ?Q")
proof (rule endsI)
  fix r t
  assume run: "create_all cfg user ps w = (r, t)"
  let ?now = "w_clock w 0" and ?w = "w\<lparr>w_clock := (\<lambda>n. w_clock w (Suc n))\<rparr>"
  show "?Q r t"
  proof (cases "duration_days (trial_time_duration_days cfg)")
    case None
    with run show ?thesis by (simp add: create_all_def unwrap_def and_then_def [of utc_now])
  next
    case (Some max_trial)
    let ?body = "\<lambda>a b. for_each (create_subscription a b max_trial ?now) ps"
    have "ends (pool (and_then (get_acl user) (\<lambda>a. and_then (get_acl user) (\<lambda>b.
        transaction service_error_of_diesel (?body a b))))) ?w ?Q"
    proof (intro ends_spawn ends_read_then reading.keeps_get_acl ends_transaction)
      fix a b and x :: unit and u t v1 v2 :: "'a world"
      assume "w_db v1 = w_db (next_fault ?w)" "w_db v2 = w_db v1" "?body a b (inner_world v2) = (Inr x, u)" "w_db t = w_db u"
      with create_subscriptions_success [of a b max_trial ?now ps "inner_world v2" x u] Some
      show "?Q (Inr x) t" by (auto simp: daily_bills_def)
    qed simp_all
    with run Some show ?thesis
      by (simp add: create_all_def unwrap_def and_then_def [of utc_now] ends_def)
  qed
qed

end
