(* ===== verification/SubscriptionPayments.thy ===== *)
theory SubscriptionPayments
  imports Prelude Models SubscriptionModels World Authorization Tables Clients AccountsRepo Services
    Triples AccountService Customers StoreTables SubscriptionsRepo SubscriptionService
begin

text \<open>
  \<open>services/subscription_payment.rs\<close>: the unpaid rows of the stores whose oldest unpaid row is older
  than the period are read in one transaction, each store is charged on its own, and a second
  transaction records the payments, the failed ones too.
\<close>

section \<open>Operations\<close>

record fiat_payment_preparation =
  fpp_fiat_currency :: fiat_currency
  fpp_customer :: db_customer
  fpp_store_subscription :: store_subscription
  fpp_subscriptions :: "subscription list"
  fpp_total_amount :: amount

record crypto_payment_preparation =
  cpp_store_owner_account :: account
  cpp_ture_currency :: ture_currency
  cpp_store_subscription :: store_subscription
  cpp_subscriptions :: "subscription list"
  cpp_total_amount :: amount

record failed_payment_preparation =
  xpp_store_subscription :: store_subscription
  xpp_subscriptions :: "subscription list"
  xpp_total_amount :: amount

datatype payment_preparation =
    PrepFiat fiat_payment_preparation
  | PrepCrypto crypto_payment_preparation
  | PrepFailed failed_payment_preparation

record finished_payment =
  fin_subscriptions :: "subscription list"
  fin_subscription_payment :: new_subscription_payment

text \<open>The hash map from stores to rows, as an association list; its entries come in no particular
  order, this is one.\<close>

fun push_subscription ::
  "subscription \<Rightarrow> (int \<times> subscription list) list \<Rightarrow> (int \<times> subscription list) list" where
  "push_subscription s [] = [(sub_store_id s, [s])]"
| "push_subscription s ((sid, ss) # rest) =
     (if sid = sub_store_id s then (sid, ss @ [s]) # rest else (sid, ss) # push_subscription s rest)"

definition by_stores :: "subscription list \<Rightarrow> (int \<times> subscription list) list" where
  "by_stores rows = fold push_subscription rows []"

definition oldest_unpaid :: "timestamp \<Rightarrow> subscription list \<Rightarrow> timestamp" where
  "oldest_unpaid now rows = (if rows = [] then now else Min (set (map sub_created_at rows)))"

definition subscriptions_to_pay ::
  "acl \<Rightarrow> timestamp \<Rightarrow> int \<Rightarrow> ('d world, service_error, (int \<times> subscription list) list) comp" where
  "subscriptions_to_pay acl now period =
     map_ok (\<lambda>rows. filter (\<lambda>(_, unpaid). period < now - oldest_unpaid now unpaid) (by_stores rows))
       (svc (get_unpaid acl))"

definition calculate_total_amount :: "store_subscription \<Rightarrow> subscription list \<Rightarrow> service_error + amount" where
  "calculate_total_amount ss rows =
     (case try_fold (\<lambda>tot s. case checked_mul (amount_from_quantity (sub_quantity s)) (ss_value ss) of
              None \<Rightarrow> None | Some a \<Rightarrow> checked_add tot a) amount_zero rows of
        None \<Rightarrow> Inl SInternal
      | Some tot \<Rightarrow> Inr tot)"

definition make_failed_preparation ::
  "store_subscription \<Rightarrow> subscription list \<Rightarrow> amount \<Rightarrow> payment_preparation" where
  "make_failed_preparation ss rows tot =
     PrepFailed \<lparr>xpp_store_subscription = ss, xpp_subscriptions = rows, xpp_total_amount = tot\<rparr>"

definition make_payment_preparation ::
  "acl \<Rightarrow> acl \<Rightarrow> store_subscription \<Rightarrow> subscription list \<Rightarrow> stq_user_id \<Rightarrow> amount \<Rightarrow>
   ('d world, service_error, payment_preparation) comp" where
  "make_payment_preparation a_acl c_acl ss rows owner tot =
     (case classify (ss_currency ss) of
        Crypto c \<Rightarrow>
          (case ss_wallet_address ss of
             None \<Rightarrow> ok (make_failed_preparation ss rows tot)
           | Some wallet \<Rightarrow>
               map_ok (\<lambda>found. case found of
                   None \<Rightarrow> make_failed_preparation ss rows tot
                 | Some a \<Rightarrow> PrepCrypto \<lparr>cpp_store_owner_account = a, cpp_ture_currency = c,
                     cpp_store_subscription = ss, cpp_subscriptions = rows, cpp_total_amount = tot\<rparr>)
                 (svc (get_by_wallet_address a_acl wallet)))
      | Fiat c \<Rightarrow>
          map_ok (\<lambda>found. case found of
              None \<Rightarrow> make_failed_preparation ss rows tot
            | Some customer \<Rightarrow> PrepFiat \<lparr>fpp_fiat_currency = c, fpp_customer = customer,
                fpp_store_subscription = ss, fpp_subscriptions = rows, fpp_total_amount = tot\<rparr>)
            (svc (customers_get c_acl (SearchCustomerUserId owner))))"

definition create_payment_preparation ::
  "acl \<Rightarrow> acl \<Rightarrow> acl \<Rightarrow> int \<times> subscription list \<Rightarrow> ('d world, service_error, payment_preparation) comp" where
  "create_payment_preparation ss_acl a_acl c_acl = (\<lambda>(sid, rows).
     and_then (svc (store_subscriptions_get ss_acl (store_subscription_by_store_id sid))) (\<lambda>found.
     and_then (ok_or SInternal found) (\<lambda>ss.
     and_then (of_result (calculate_total_amount ss rows)) (\<lambda>tot.
     and_then (svc (get_by_store_id sid)) (\<lambda>role.
     and_then (ok_or SInternal role) (\<lambda>r.
     make_payment_preparation a_acl c_acl ss rows (role_user_id r) tot))))))"

definition collect_fiat_subscription ::
  "'d env \<Rightarrow> fiat_payment_preparation \<Rightarrow> ('d world, service_error, finished_payment) comp" where
  "collect_fiat_subscription env p =
     (let ss = fpp_store_subscription p;
          charge = \<lparr>nc_customer_id = cust_id (fpp_customer p), nc_amount = fpp_total_amount p,
                    nc_currency = ss_currency ss, nc_capture = True\<rparr> in
      then_res (call_client (stripe_create_charge env) (StripeCreateCharge charge None) (charge, None)) (\<lambda>res.
      ok \<lparr>fin_subscriptions = fpp_subscriptions p,
          fin_subscription_payment =
            \<lparr>nspay_store_id = ss_store_id ss, nspay_amount = fpp_total_amount p,
             nspay_currency = ss_currency ss,
             nspay_charge_id = (case res of Inl _ \<Rightarrow> None | Inr c \<Rightarrow> Some (ChargeId (sc_id c))),
             nspay_transaction_id = None,
             nspay_status = (case res of Inl _ \<Rightarrow> SpFailed | Inr _ \<Rightarrow> SpPaid)\<rparr>\<rparr>))"

definition into_finished_payment :: "failed_payment_preparation \<Rightarrow> finished_payment" where
  "into_finished_payment p =
     \<lparr>fin_subscriptions = xpp_subscriptions p,
      fin_subscription_payment =
        \<lparr>nspay_store_id = ss_store_id (xpp_store_subscription p), nspay_amount = xpp_total_amount p,
         nspay_currency = ss_currency (xpp_store_subscription p), nspay_charge_id = None,
         nspay_transaction_id = None, nspay_status = SpFailed\<rparr>\<rparr>"

definition collect_ture_subscription ::
  "'d env \<Rightarrow> account_config \<Rightarrow> crypto_payment_preparation \<Rightarrow> ('d world, service_error, finished_payment) comp"
  where
  "collect_ture_subscription env cfg p =
     (let ss = cpp_store_subscription p in
      and_then new_v4 (\<lambda>u.
      then_res (and_then (get_main_account env cfg (cpp_ture_currency p)) (\<lambda>main.
          let tx = \<lparr>cit_id = u, cit_from = account_uuid (acc_id (cpp_store_owner_account p)),
                    cit_to = account_uuid (acc_id (awb_account main)), cit_amount = cpp_total_amount p\<rparr> in
          svc_client (call_client (payments_create_internal_transaction env)
            (PaymentsCreateInternalTransaction tx) tx))) (\<lambda>res.
      ok \<lparr>fin_subscriptions = cpp_subscriptions p,
          fin_subscription_payment =
            \<lparr>nspay_store_id = ss_store_id ss, nspay_amount = cpp_total_amount p,
             nspay_currency = ss_currency ss, nspay_charge_id = None,
             nspay_transaction_id = Some (TransactionId u),
             nspay_status = (case res of Inl _ \<Rightarrow> SpFailed | Inr _ \<Rightarrow> SpPaid)\<rparr>\<rparr>)))"

definition collect ::
  "'d env \<Rightarrow> subscription_config \<Rightarrow> payment_preparation \<Rightarrow> ('d world, service_error, finished_payment) comp"
  where
  "collect env cfg p =
     (case p of
        PrepCrypto crypto \<Rightarrow> collect_ture_subscription env (subscription_accounts cfg) crypto
      | PrepFiat fiat \<Rightarrow> collect_fiat_subscription env fiat
      | PrepFailed failed \<Rightarrow> ok (into_finished_payment failed))"

definition prepare_payments ::
  "stq_user_id option \<Rightarrow> timestamp \<Rightarrow> int \<Rightarrow> ('d world, service_error, payment_preparation list) comp" where
  "prepare_payments user now period =
     pool (and_then (get_acl user) (\<lambda>ss_acl.
       and_then (get_acl user) (\<lambda>s_acl.
       and_then (get_acl user) (\<lambda>_.
       and_then (get_acl user) (\<lambda>c_acl.
       transaction service_error_of_diesel
         (and_then (subscriptions_to_pay s_acl now period)
           (try_map (create_payment_preparation ss_acl SystemACL c_acl))))))))"

definition settle_subscription ::
  "acl \<Rightarrow> int \<Rightarrow> subscription \<Rightarrow> ('d world, service_error, subscription) comp" where
  "settle_subscription s_acl pid s =
     svc (subscriptions_update_row s_acl (subscription_by_id (sub_id s)) \<lparr>usub_payment_id = pid\<rparr>)"

definition record_payment ::
  "acl \<Rightarrow> acl \<Rightarrow> finished_payment \<Rightarrow> ('d world, service_error, unit) comp" where
  "record_payment sp_acl s_acl p =
     and_then (svc (subscription_payments_create sp_acl (fin_subscription_payment p))) (\<lambda>pay.
     for_each (settle_subscription s_acl (spay_id pay)) (fin_subscriptions p))"

definition record_payments ::
  "stq_user_id option \<Rightarrow> finished_payment list \<Rightarrow> ('d world, service_error, unit) comp" where
  "record_payments user finished =
     pool (and_then (get_acl user) (\<lambda>sp_acl.
       and_then (get_acl user) (\<lambda>s_acl.
       transaction service_error_of_diesel (for_each (record_payment sp_acl s_acl) finished))))"

definition pay_subscriptions ::
  "'d env \<Rightarrow> subscription_config \<Rightarrow> stq_user_id option \<Rightarrow> ('d world, service_error, unit) comp" where
  "pay_subscriptions env cfg user =
     and_then utc_now (\<lambda>now.
     and_then (unwrap (duration_days (periodicity_days cfg))) (\<lambda>period.
     if \<not> subscription_ture cfg then err SInternal
     else and_then (prepare_payments user now period) (\<lambda>preps.
       and_then (try_map (collect env cfg) preps) (record_payments user))))"

record 'd subscription_payment_response =
  spr_id :: int
  spr_store_id :: int
  spr_amount :: 'd
  spr_currency :: stq_currency
  spr_charge_id :: "charge_id option"
  spr_transaction_id :: "transaction_id option"
  spr_status :: subscription_payment_status
  spr_created_at :: timestamp

definition subscription_payment_response_of ::
  "'d bigdecimal \<Rightarrow> subscription_payment \<Rightarrow> 'd subscription_payment_response" where
  "subscription_payment_response_of D p =
     \<lparr>spr_id = spay_id p, spr_store_id = spay_store_id p,
      spr_amount = to_super_unit D (spay_amount p) (spay_currency p),
      spr_currency = into_stq_currency (spay_currency p), spr_charge_id = spay_charge_id p,
      spr_transaction_id = spay_transaction_id p, spr_status = spay_status p,
      spr_created_at = spay_created_at p\<rparr>"

record 'd subscription_payment_search_response =
  spse_total_count :: int
  spse_subscription_payments :: "'d subscription_payment_response list"

definition search_subscription_payments ::
  "'d bigdecimal \<Rightarrow> stq_user_id option \<Rightarrow> int \<Rightarrow> int \<Rightarrow> subscription_payment_search \<Rightarrow>
   ('d world, service_error, 'd subscription_payment_search_response) comp" where
  "search_subscription_payments D user skip cnt payload =
     pool (and_then (get_acl user) (\<lambda>acl.
       map_ok (\<lambda>r. \<lparr>spse_total_count = spsr_total_count r,
           spse_subscription_payments =
             map (subscription_payment_response_of D) (spsr_subscription_payments r)\<rparr>)
         (svc (subscription_payments_search acl skip cnt payload))))"

section \<open>The stores that are due\<close>

text \<open>The grouping against its reference: one entry per store, with the rows of the store in their order.\<close>

definition rows_of :: "int \<Rightarrow> subscription list \<Rightarrow> subscription list" where
  "rows_of sid rows = filter (\<lambda>s. sub_store_id s = sid) rows"

lemma rows_of_append [simp]: "rows_of sid (xs @ ys) = rows_of sid xs @ rows_of sid ys"
  by (simp add: rows_of_def)

lemma push_map_of:
  "map_of (push_subscription s g) = (map_of g)(sub_store_id s \<mapsto>
     (case map_of g (sub_store_id s) of None \<Rightarrow> [s] | Some xs \<Rightarrow> xs @ [s]))"
  by (induction s g rule: push_subscription.induct) (auto simp: fun_eq_iff split: option.split)

lemma push_fst: "fst ` set (push_subscription s g) = insert (sub_store_id s) (fst ` set g)"
  using push_map_of [of s g] by (simp flip: dom_map_of_conv_image_fst)

lemma push_distinct: "distinct (map fst g) \<Longrightarrow> distinct (map fst (push_subscription s g))"
  by (induction s g rule: push_subscription.induct) (auto simp: push_fst)

lemma by_stores_snoc: "by_stores (rows @ [s]) = push_subscription s (by_stores rows)"
  by (simp add: by_stores_def)

lemma by_stores_distinct: "distinct (map fst (by_stores rows))"
  by (induction rows rule: rev_induct) (simp add: by_stores_def, simp add: by_stores_snoc push_distinct)

lemma by_stores_map_of:
  "map_of (by_stores rows) sid = (if rows_of sid rows = [] then None else Some (rows_of sid rows))"
proof (induction rows arbitrary: sid rule: rev_induct)
  case Nil
  then show ?case by (simp add: by_stores_def rows_of_def)
next
  case (snoc s rows)
  then show ?case by (simp add: by_stores_snoc push_map_of rows_of_def)
qed

lemma by_stores_entry: "(sid, rs) \<in> set (by_stores rows) \<longleftrightarrow> rs = rows_of sid rows \<and> rs \<noteq> []"
  using map_of_eq_Some_iff [OF by_stores_distinct, of rows sid rs]
  by (auto simp: by_stores_map_of split: if_splits)

text \<open>The hash map of \<open>subscriptions_to_pay\<close> groups the rows by store: it has one entry for each store that
  has a row, with the rows of the store in the order of the query, and no other entry.\<close>

theorem by_stores_groups:
  "distinct (map fst (by_stores rows)) \<and>
   set (by_stores rows) = {(sid, rs). rs = filter (\<lambda>s. sub_store_id s = sid) rows \<and> rs \<noteq> []}"
  by (auto simp: by_stores_distinct by_stores_entry rows_of_def)

definition unpaid_rows :: "'d db \<Rightarrow> subscription list" where
  "unpaid_rows d = filter (\<lambda>s. sub_payment_id s = None) (subscriptions d)"

definition due_stores :: "timestamp \<Rightarrow> int \<Rightarrow> 'd db \<Rightarrow> (int \<times> subscription list) list" where
  "due_stores now period d =
     filter (\<lambda>(_, unpaid). period < now - oldest_unpaid now unpaid) (by_stores (unpaid_rows d))"

section \<open>What is prepared\<close>

fun prep_terms :: "payment_preparation \<Rightarrow> store_subscription \<times> subscription list \<times> amount" where
  "prep_terms (PrepFiat p) = (fpp_store_subscription p, fpp_subscriptions p, fpp_total_amount p)"
| "prep_terms (PrepCrypto p) = (cpp_store_subscription p, cpp_subscriptions p, cpp_total_amount p)"
| "prep_terms (PrepFailed p) = (xpp_store_subscription p, xpp_subscriptions p, xpp_total_amount p)"

text \<open>The price of the rows on the terms of the store.\<close>

definition priced :: "'d db \<Rightarrow> int \<Rightarrow> subscription list \<Rightarrow> store_subscription \<Rightarrow> amount \<Rightarrow> bool" where
  "priced d sid rows ss tot \<longleftrightarrow>
     row_by (\<lambda>s. ss_store_id s = sid) (store_subscriptions d) = Some ss \<and>
     amount_nat tot = (\<Sum>s\<leftarrow>rows. amount_nat (amount_from_quantity (sub_quantity s)) * amount_nat (ss_value ss))"

definition prepared :: "'d db \<Rightarrow> int \<times> subscription list \<Rightarrow> payment_preparation \<Rightarrow> bool" where
  "prepared d = (\<lambda>(sid, rows) prep. \<exists>ss tot. prep_terms prep = (ss, rows, tot) \<and> priced d sid rows ss tot)"

lemma total_amount_exact:
  assumes "calculate_total_amount ss rows = Inr tot"
  shows "amount_nat tot = (\<Sum>s\<leftarrow>rows. amount_nat (amount_from_quantity (sub_quantity s)) * amount_nat (ss_value ss))"
proof -
  let ?f = "\<lambda>acc s. case checked_mul (amount_from_quantity (sub_quantity s)) (ss_value ss) of
    None \<Rightarrow> None | Some a \<Rightarrow> checked_add acc a"
  have "amount_nat t = amount_nat acc + (\<Sum>s\<leftarrow>rows. amount_nat (amount_from_quantity (sub_quantity s)) * amount_nat (ss_value ss))"
    if "try_fold ?f acc rows = Some t" for acc t
    using that
    by (induction rows arbitrary: acc) (auto split: option.splits dest!: checked_add_nat simp: checked_mul_nat)
  from this [of amount_zero tot] assms show ?thesis
    by (auto simp: calculate_total_amount_def amount_zero_def split: option.splits)
qed

context world_relation
begin

lemma keeps_get_by_store_id [keeps_intros]: "keeps R (get_by_store_id sid)"
  unfolding get_by_store_id_def by (intro keeps_repo keeps_optional keeps_get_result keeps_select)

lemma keeps_accounts_get [keeps_intros]: "keeps R (accounts_get SystemACL aid)"
  unfolding accounts_get_def
  by (simp, intro keeps_repo keeps_optional keeps_get_result keeps_select_where)

lemma keeps_get_by_wallet_address [keeps_intros]: "keeps R (get_by_wallet_address SystemACL a)"
  unfolding get_by_wallet_address_def
  by (simp, intro keeps_repo keeps_optional keeps_get_result keeps_select_where)

lemma keeps_customers_get [keeps_intros]: "keeps R (customers_get acl s)"
  unfolding customers_get_def
  by (intro keeps_and_then keeps_repo keeps_optional keeps_get_result keeps_select_where keeps_case_option
      keeps_ok keeps_check_customer)

lemma keeps_make_payment_preparation [keeps_intros]:
  "keeps R (make_payment_preparation SystemACL c_acl ss rows owner tot)"
  unfolding make_payment_preparation_def
  by (auto intro!: keeps_ok keeps_map_ok keeps_svc keeps_get_by_wallet_address keeps_customers_get
      split: currency_choice.split option.split)

lemma keeps_create_payment_preparation [keeps_intros]:
  "keeps R (create_payment_preparation ss_acl SystemACL c_acl e)"
  unfolding create_payment_preparation_def
  by (cases e)
     (auto intro!: keeps_and_then keeps_svc keeps_store_subscriptions_get keeps_ok_or keeps_of_result
       keeps_get_by_store_id keeps_make_payment_preparation)

lemma keeps_subscriptions_to_pay [keeps_intros]: "keeps R (subscriptions_to_pay acl now period)"
  unfolding subscriptions_to_pay_def by (intro keeps_map_ok keeps_svc keeps_get_unpaid)

lemma keeps_prepare_payments [keeps_intros]: "keeps R (prepare_payments user now period)"
  unfolding prepare_payments_def
  by (intro keeps_spawn_on_pool keeps_and_then keeps_get_acl keeps_transaction keeps_subscriptions_to_pay
      keeps_try_map keeps_create_payment_preparation)

end

lemma make_payment_preparation_terms:
  assumes "make_payment_preparation a_acl c_acl ss rows owner tot w = (Inr prep, t)"
  shows "prep_terms prep = (ss, rows, tot)"
  using assms
  by (auto simp: make_payment_preparation_def make_failed_preparation_def map_ok_success
      split: currency_choice.splits option.splits)

lemma create_payment_preparation_success:
  assumes "create_payment_preparation ss_acl SystemACL c_acl e w = (Inr prep, t)"
  shows "prepared (w_db w) e prep"
proof -
  obtain sid rows where e: "e = (sid, rows)" by fastforce
  obtain found u where get: "store_subscriptions_get ss_acl (store_subscription_by_store_id sid) w = (Inr found, u)"
    and rest: "and_then (ok_or SInternal found) (\<lambda>ss.
      and_then (of_result (calculate_total_amount ss rows)) (\<lambda>tot.
      and_then (svc (get_by_store_id sid)) (\<lambda>role.
      and_then (ok_or SInternal role) (\<lambda>r.
      make_payment_preparation SystemACL c_acl ss rows (role_user_id r) tot)))) u = (Inr prep, t)"
    using assms unfolding e create_payment_preparation_def prod.case and_then_success svc_success by blast
  from rest obtain ss tot and r :: user_role and z where ss: "found = Some ss" and tot: "calculate_total_amount ss rows = Inr tot"
    and prep: "make_payment_preparation SystemACL c_acl ss rows (role_user_id r) tot z = (Inr prep, t)"
    by (cases "calculate_total_amount (the found) rows") (auto simp: and_then_success ok_or_success)
  from store_subscriptions_get_success [OF get] total_amount_exact [OF tot] make_payment_preparation_terms [OF prep] ss
  show ?thesis by (simp add: prepared_def e priced_def)
qed

lemma try_map_success_list_all2:
  assumes "try_map f xs w = (Inr ys, t)"
    and "\<And>x y v u. f x v = (Inr y, u) \<Longrightarrow> I v \<Longrightarrow> P x y \<and> I u" and "I w"
  shows "list_all2 P xs ys \<and> I t"
  using assms(1,3)
proof (induction xs arbitrary: w ys)
  case (Cons x xs)
  then obtain y v zs where y: "f x w = (Inr y, v)" and zs: "try_map f xs v = (Inr zs, t)" and ys: "ys = y # zs"
    by (auto simp: and_then_success map_ok_success)
  from assms(2) [OF y Cons.prems(2)] Cons.IH [OF zs] show ?case by (simp add: ys)
qed simp

lemma subscriptions_to_pay_success:
  assumes "subscriptions_to_pay acl now period w = (Inr es, t)"
  shows "es = due_stores now period (w_db w) \<and> w_db t = w_db w"
proof -
  from assms obtain rows where run: "subscriptions_search acl (default_subscription_search\<lparr>subs_paid := Some False\<rparr>) w = (Inr rows, t)"
    and es: "es = filter (\<lambda>(_, unpaid). period < now - oldest_unpaid now unpaid) (by_stores rows)"
    by (auto simp: subscriptions_to_pay_def get_unpaid_def map_ok_success svc_success)
  from subscriptions_search_success [OF run] es
  show ?thesis by (simp add: due_stores_def unpaid_rows_def)
qed

lemma prepare_transaction_success:
  assumes "and_then (subscriptions_to_pay s_acl now period)
    (try_map (create_payment_preparation ss_acl SystemACL c_acl)) w = (Inr preps, t)"
  shows "list_all2 (prepared (w_db w)) (due_stores now period (w_db w)) preps"
proof -
  from assms obtain es u where es: "subscriptions_to_pay s_acl now period w = (Inr es, u)"
    and preps: "try_map (create_payment_preparation ss_acl SystemACL c_acl) es u = (Inr preps, t)"
    unfolding and_then_success by blast
  from subscriptions_to_pay_success [OF es] have d: "es = due_stores now period (w_db w)" "w_db u = w_db w" by simp_all
  have "list_all2 (prepared (w_db w)) es preps \<and> w_db t = w_db w"
  proof (rule try_map_success_list_all2 [OF preps, where I = "\<lambda>v. w_db v = w_db w"])
    fix e prep and v z :: "'a world"
    assume run: "create_payment_preparation ss_acl SystemACL c_acl e v = (Inr prep, z)" and v: "w_db v = w_db w"
    from same_dbD [OF reading.keeps_create_payment_preparation run] create_payment_preparation_success [OF run] v
    show "prepared (w_db w) e prep \<and> w_db z = w_db w" by simp
  qed (rule d)
  then show ?thesis by (simp add: d)
qed

lemma get_acl_then:
  assumes "and_then (get_acl user) f w = (Inr a, t)"
  obtains acl u where "f acl u = (Inr a, t)" and "w_db u = w_db w"
  using assms same_dbD [OF reading.keeps_get_acl] unfolding and_then_success by blast

lemma prepare_payments_success:
  assumes "prepare_payments user now period w = (Inr preps, t)"
  shows "list_all2 (prepared (w_db w)) (due_stores now period (w_db w)) preps"
proof -
  let ?body = "\<lambda>ss_acl s_acl c_acl. and_then (subscriptions_to_pay s_acl now period)
      (try_map (create_payment_preparation ss_acl SystemACL c_acl))"
  obtain ss_acl s_acl c_acl u where body: "transaction service_error_of_diesel (?body ss_acl s_acl c_acl) u = (Inr preps, t)"
    and db: "w_db u = w_db w"
    using assms unfolding prepare_payments_def spawn_success by (auto elim!: get_acl_then)
  from transaction_inner [OF body] obtain v where "?body ss_acl s_acl c_acl (inner_world u) = (Inr preps, v)" by blast
  from prepare_transaction_success [OF this] db show ?thesis by simp
qed

section \<open>What is recorded\<close>

lemma subscriptions_get_success:
  assumes "subscriptions_get acl s w = (Inr found, t)"
  shows "w_db t = w_db w"
  by (rule same_dbD [OF reading.keeps_subscriptions_get assms])

lemma settle_subscription_success:
  assumes "settle_subscription acl pid s w = (Inr x, t)"
  shows "w_db t = (w_db w)\<lparr>subscriptions := map (\<lambda>r. if sub_id r = sub_id s
    then r\<lparr>sub_payment_id := Some pid\<rparr> else r) (subscriptions (w_db w))\<rparr>"
proof -
  obtain found u v rs where get: "subscriptions_get acl (subscription_by_id (sub_id s)) w = (Inr found, u)"
    and chk: "check_store acl ResSubscription ActWrite (map_option sub_store_id found) u = (Inr (), v)"
    and upd: "execute (update_subscriptions_where (\<lambda>r. sub_id r = sub_id s) \<lparr>usub_payment_id = pid\<rparr>) v = (Inr (x # rs), t)"
    using assms by (auto simp: settle_subscription_def subscriptions_update_row_def and_then_success svc_success
        repo_success get_result_success)
  have "w_db v = w_db w"
    using same_dbD [OF reading.keeps_check_store chk] subscriptions_get_success [OF get] by simp
  with execute_success [OF upd] show ?thesis
    by (auto simp: update_subscriptions_where_def update_rows_def Let_def split: if_splits)
qed

definition settle_rows :: "int \<Rightarrow> subscription list \<Rightarrow> subscription \<Rightarrow> subscription" where
  "settle_rows pid rows r = (if sub_id r \<in> sub_id ` set rows then r\<lparr>sub_payment_id := Some pid\<rparr> else r)"

lemma settle_rows_id [simp]: "sub_id (settle_rows pid rows r) = sub_id r"
  by (simp add: settle_rows_def)

lemma settle_subscriptions_success:
  assumes "for_each (settle_subscription acl pid) rows w = (Inr x, t)"
  shows "w_db t = (w_db w)\<lparr>subscriptions := map (settle_rows pid rows) (subscriptions (w_db w))\<rparr>"
  using assms
proof (induction rows arbitrary: w x)
  case Nil
  then show ?case by (simp add: for_each_def settle_rows_def [abs_def])
next
  case (Cons s rows)
  from Cons.prems obtain y u z where first: "settle_subscription acl pid s w = (Inr y, u)"
    and rest: "for_each (settle_subscription acl pid) rows u = (Inr z, t)"
    by (auto simp: for_each_def map_ok_success and_then_success)
  from settle_subscription_success [OF first] Cons.IH [OF rest] show ?case
    by (auto simp: settle_rows_def)
qed

definition recorded :: "finished_payment \<Rightarrow> subscription_payment \<Rightarrow> bool" where
  "recorded p pay \<longleftrightarrow>
     (let n = fin_subscription_payment p in
      spay_store_id pay = nspay_store_id n \<and> spay_amount pay = nspay_amount n \<and>
      spay_currency pay = nspay_currency n \<and> spay_charge_id pay = nspay_charge_id n \<and>
      spay_transaction_id pay = nspay_transaction_id n \<and> spay_status pay = nspay_status n)"

lemma record_payment_success:
  assumes "record_payment sp_acl s_acl p w = (Inr x, t)"
  obtains pay where "recorded p pay"
    and "w_db t = (w_db w)\<lparr>subscription_payments := subscription_payments (w_db w) @ [pay],
      subscriptions := map (settle_rows (spay_id pay) (fin_subscriptions p)) (subscriptions (w_db w))\<rparr>"
proof -
  obtain pay u v where chk: "check_store sp_acl ResSubscriptionPayment ActWrite
      (Some (nspay_store_id (fin_subscription_payment p))) w = (Inr (), u)"
    and ins: "execute_serial SeqSubscriptionPayments (insert_subscription_payment (fin_subscription_payment p)) u = (Inr pay, v)"
    and settle: "for_each (settle_subscription s_acl (spay_id pay)) (fin_subscriptions p) v = (Inr x, t)"
    using assms by (auto simp: record_payment_def subscription_payments_create_def and_then_success svc_success repo_success)
  have "w_db u = w_db w" by (rule same_dbD [OF reading.keeps_check_store chk])
  with execute_serial_success [OF ins]
  have "recorded p pay" and v: "w_db v = (w_db w)\<lparr>subscription_payments := subscription_payments (w_db w) @ [pay]\<rparr>"
    by (auto simp: insert_subscription_payment_def recorded_def Let_def split: if_splits)
  with settle_subscriptions_success [OF settle] show thesis by (intro that) simp_all
qed

text \<open>A row after all the payments: the last payment that names the row, if there is one.\<close>

definition settle_all :: "(finished_payment \<times> subscription_payment) list \<Rightarrow> subscription \<Rightarrow> subscription" where
  "settle_all = fold (\<lambda>(p, pay). settle_rows (spay_id pay) (fin_subscriptions p))"

lemma settle_all_cases:
  "if \<exists>(p, pay)\<in>set ps. sub_id r \<in> sub_id ` set (fin_subscriptions p)
   then \<exists>(p, pay)\<in>set ps. sub_id r \<in> sub_id ` set (fin_subscriptions p) \<and>
     settle_all ps r = r\<lparr>sub_payment_id := Some (spay_id pay)\<rparr>
   else settle_all ps r = r"
proof (induction ps rule: rev_induct)
  case Nil
  then show ?case by (simp add: settle_all_def)
next
  case (snoc q ps)
  obtain p pay where q: "q = (p, pay)" by fastforce
  have same_id: "sub_id (settle_all ps r) = sub_id r"
    using snoc by (auto split: if_splits)
  show ?case
  proof (cases "sub_id r \<in> sub_id ` set (fin_subscriptions p)")
    case True
    then have "settle_all (ps @ [q]) r = (settle_all ps r)\<lparr>sub_payment_id := Some (spay_id pay)\<rparr>"
      using same_id by (simp add: settle_all_def q settle_rows_def)
    moreover have "(settle_all ps r)\<lparr>sub_payment_id := Some (spay_id pay)\<rparr> = r\<lparr>sub_payment_id := Some (spay_id pay)\<rparr>"
      using snoc by (auto split: if_splits)
    ultimately show ?thesis using True by (auto simp: q)
  next
    case False
    then have "settle_all (ps @ [q]) r = settle_all ps r"
      using same_id by (simp add: settle_all_def q settle_rows_def)
    with False snoc show ?thesis by (auto simp: q split: if_splits)
  qed
qed

lemma record_payments_success:
  assumes "for_each (record_payment sp_acl s_acl) ps w = (Inr x, t)"
  shows "\<exists>pays. list_all2 recorded ps pays \<and>
    w_db t = (w_db w)\<lparr>subscription_payments := subscription_payments (w_db w) @ pays,
      subscriptions := map (settle_all (zip ps pays)) (subscriptions (w_db w))\<rparr>"
  using assms
proof (induction ps arbitrary: w x)
  case Nil
  then show ?case by (simp add: for_each_def settle_all_def)
next
  case (Cons p ps)
  from Cons.prems obtain y u z where first: "record_payment sp_acl s_acl p w = (Inr y, u)"
    and rest: "for_each (record_payment sp_acl s_acl) ps u = (Inr z, t)"
    by (auto simp: for_each_def map_ok_success and_then_success)
  from Cons.IH [OF rest] obtain pays where pays: "list_all2 recorded ps pays"
      "w_db t = (w_db u)\<lparr>subscription_payments := subscription_payments (w_db u) @ pays,
        subscriptions := map (settle_all (zip ps pays)) (subscriptions (w_db u))\<rparr>" by blast
  obtain pay where "recorded p pay"
    "w_db u = (w_db w)\<lparr>subscription_payments := subscription_payments (w_db w) @ [pay],
      subscriptions := map (settle_rows (spay_id pay) (fin_subscriptions p)) (subscriptions (w_db w))\<rparr>"
    by (rule record_payment_success [OF first])
  with pays show ?case by (intro exI [of _ "pay # pays"]) (simp add: settle_all_def)
qed

section \<open>What is collected\<close>

fun charged :: "ext_call \<Rightarrow> amount list" where
  "charged (StripeCreateCharge c _) = [nc_amount c]"
| "charged (PaymentsCreateInternalTransaction tx) = [cit_amount tx]"
| "charged _ = []"

definition charges :: "ext_call list \<Rightarrow> amount list" where
  "charges cs = concat (map charged cs)"

lemma charges_simps [simp]: "charges [] = []" "charges (cs @ ds) = charges cs @ charges ds" "charges [c] = charged c"
  by (simp_all add: charges_def)

definition uncharged :: "'d world \<Rightarrow> 'd world \<Rightarrow> bool" where
  "uncharged s t \<longleftrightarrow> (\<exists>cs. w_calls t = w_calls s @ cs \<and> charges cs = [])"

interpretation uncharging: world_relation uncharged
  by unfold_locales (force simp: uncharged_def)+

lemma uncharged_call: "charged c = [] \<Longrightarrow> keeps uncharged (call_client f c q)"
  by (auto simp: keeps_def call_client_def uncharged_def)

lemma keeps_get_main_account:
  "keeps uncharged (get_main_account env cfg c)"
  unfolding get_main_account_def get_account_def internally_def
  by (intro keeps_intros uncharged_call) simp_all

lemma reads_get_main_account: "reads (get_main_account env cfg c)"
  unfolding get_main_account_def get_account_def internally_def by (intro keeps_intros)

text \<open>What one collection does: it never fails, it makes at most one charge, of the exact total, and the
  payment to record is a paid one only if the charge was made.\<close>

definition finishes :: "payment_preparation \<Rightarrow> amount list \<Rightarrow> finished_payment \<Rightarrow> bool" where
  "finishes prep paid fin \<longleftrightarrow>
     (case prep_terms prep of (ss, rows, tot) \<Rightarrow>
        fin_subscriptions fin = rows \<and>
        nspay_store_id (fin_subscription_payment fin) = ss_store_id ss \<and>
        nspay_amount (fin_subscription_payment fin) = tot \<and>
        nspay_currency (fin_subscription_payment fin) = ss_currency ss \<and>
        (paid = [] \<and> nspay_status (fin_subscription_payment fin) = SpFailed \<or>
         paid = [tot] \<and> nspay_status (fin_subscription_payment fin) \<in> {SpPaid, SpFailed}))"

definition collected :: "'d world \<Rightarrow> payment_preparation \<Rightarrow> service_error + finished_payment \<Rightarrow> 'd world \<Rightarrow> bool" where
  "collected w prep r t \<longleftrightarrow>
     w_db t = w_db w \<and> (\<exists>fin cs. r = Inr fin \<and> w_calls t = w_calls w @ cs \<and> finishes prep (charges cs) fin)"

lemma collect_fiat_collected: "ends (collect_fiat_subscription env p) w (collected w (PrepFiat p))"
proof (rule endsI)
  fix r t
  assume run: "collect_fiat_subscription env p w = (r, t)"
  let ?c = "\<lparr>nc_customer_id = cust_id (fpp_customer p), nc_amount = fpp_total_amount p,
    nc_currency = ss_currency (fpp_store_subscription p), nc_capture = True\<rparr>"
  from run show "collected w (PrepFiat p) r t"
    by (cases "stripe_create_charge env (w_calls w) (?c, None)")
       (auto simp: collect_fiat_subscription_def Let_def then_res_def call_client_def collected_def finishes_def)
qed

lemma collect_ture_collected: "ends (collect_ture_subscription env cfg p) w (collected w (PrepCrypto p))"
proof (rule endsI)
  fix r t
  assume run: "collect_ture_subscription env cfg p w = (r, t)"
  let ?u = "w_uuids w 0" and ?v = "w\<lparr>w_uuids := (\<lambda>n. w_uuids w (Suc n))\<rparr>"
  obtain main z where main: "get_main_account env cfg (cpp_ture_currency p) ?v = (main, z)" by fastforce
  from keepsD [OF keeps_get_main_account main] obtain cs where z: "w_calls z = w_calls w @ cs" "charges cs = []"
    by (auto simp: uncharged_def)
  have db: "w_db z = w_db w" using same_dbD [OF reads_get_main_account main] by simp
  show "collected w (PrepCrypto p) r t"
  proof (cases main)
    case (Inl e)
    with run main z db show ?thesis
      by (auto simp: collect_ture_subscription_def Let_def then_res_def and_then_def new_v4_def collected_def finishes_def)
  next
    case (Inr a)
    let ?tx = "\<lparr>cit_id = ?u, cit_from = account_uuid (acc_id (cpp_store_owner_account p)),
      cit_to = account_uuid (acc_id (awb_account a)), cit_amount = cpp_total_amount p\<rparr>"
    from run main z db Inr show ?thesis
      by (cases "payments_create_internal_transaction env (w_calls z) ?tx")
         (auto simp: collect_ture_subscription_def Let_def then_res_def and_then_def new_v4_def svc_client_def
           map_err_def call_client_def collected_def finishes_def)
  qed
qed

lemma collect_collected: "ends (collect env cfg prep) w (collected w prep)"
  by (cases prep)
     (auto simp: collect_def collect_fiat_collected collect_ture_collected ends_ok collected_def finishes_def
       into_finished_payment_def intro!: ends_ok)

lemma try_map_collect:
  "\<exists>fins t css. try_map (collect env cfg) preps w = (Inr fins, t) \<and> w_db t = w_db w \<and>
     w_calls t = w_calls w @ concat css \<and> length fins = length preps \<and> length css = length preps \<and>
     (\<forall>i<length preps. finishes (preps ! i) (charges (css ! i)) (fins ! i))"
proof (induction preps arbitrary: w)
  case Nil
  then show ?case by (intro exI [of _ "[]"]) simp
next
  case (Cons prep preps)
  obtain r u where run: "collect env cfg prep w = (r, u)" by fastforce
  from endsD [OF collect_collected run] obtain fin cs where first: "r = Inr fin" "w_db u = w_db w"
      "w_calls u = w_calls w @ cs" "finishes prep (charges cs) fin"
    by (auto simp: collected_def)
  from Cons.IH [of u] obtain fins t css where rest: "try_map (collect env cfg) preps u = (Inr fins, t)" "w_db t = w_db u"
      "w_calls t = w_calls u @ concat css" "length fins = length preps" "length css = length preps"
      "\<forall>i<length preps. finishes (preps ! i) (charges (css ! i)) (fins ! i)" by blast
  show ?case
    using run first rest
    by (intro exI [of _ "fin # fins"] exI [of _ t] exI [of _ "cs # css"])
       (auto simp: and_then_def map_ok_def nth_Cons split: nat.split)
qed

section \<open>One run\<close>

definition finished_for :: "'d db \<Rightarrow> int \<times> subscription list \<Rightarrow> finished_payment \<Rightarrow> bool" where
  "finished_for d = (\<lambda>(sid, rows) fin.
     fin_subscriptions fin = rows \<and> nspay_store_id (fin_subscription_payment fin) = sid \<and>
     (\<exists>ss. priced d sid rows ss (nspay_amount (fin_subscription_payment fin)) \<and>
        nspay_currency (fin_subscription_payment fin) = ss_currency ss))"

lemma prepared_finishes: "prepared d e prep \<Longrightarrow> finishes prep paid fin \<Longrightarrow> finished_for d e fin"
  by (auto simp: prepared_def finishes_def finished_for_def priced_def dest: row_by_key split: prod.splits)

text \<open>The payments of a run: one for each store that is due, in the same order, for the price of all its
  unpaid rows, which then point to it; no other row changes.\<close>

definition settles ::
  "(int \<times> subscription list) list \<Rightarrow> subscription_payment list \<Rightarrow> 'd db \<Rightarrow> 'd db \<Rightarrow> bool" where
  "settles es pays d e \<longleftrightarrow>
     subscription_payments e = subscription_payments d @ pays \<and>
     list_all2 (\<lambda>(sid, rows) p. spay_store_id p = sid \<and>
       (\<exists>ss. priced d sid rows ss (spay_amount p) \<and> spay_currency p = ss_currency ss)) es pays \<and>
     list_all2 (\<lambda>s s'.
       if sub_payment_id s = None \<and> sub_store_id s \<in> fst ` set es
       then \<exists>p\<in>set pays. spay_store_id p = sub_store_id s \<and> s' = s\<lparr>sub_payment_id := Some (spay_id p)\<rparr>
       else s' = s) (subscriptions d) (subscriptions e)"

lemma due_store_row:
  assumes "distinct (map sub_id (subscriptions d))" and "s \<in> set (subscriptions d)"
    and "(sid, rows) \<in> set (due_stores now period d)"
  shows "sub_id s \<in> sub_id ` set rows \<longleftrightarrow> sub_payment_id s = None \<and> sub_store_id s = sid"
proof -
  from assms(3) have rows: "rows = filter (\<lambda>s. sub_store_id s = sid) (unpaid_rows d)"
    by (simp add: due_stores_def by_stores_entry rows_of_def)
  have inj: "inj_on sub_id (set (subscriptions d))" using assms(1) by (simp add: distinct_map)
  have "sub_id s \<in> sub_id ` set rows \<longleftrightarrow> s \<in> set rows"
    by (rule inj_on_image_mem_iff [OF inj assms(2)]) (auto simp: rows unpaid_rows_def)
  then show ?thesis using assms(2) by (auto simp: rows unpaid_rows_def)
qed

lemma list_all2_zip_mem:
  assumes "list_all2 P xs ys" and "list_all2 Q ys zs" and "(y, z) \<in> set (zip ys zs)"
  shows "\<exists>x\<in>set xs. P x y \<and> Q y z \<and> z \<in> set zs"
proof -
  from assms(3) obtain i where i: "i < length ys" "i < length zs" "y = ys ! i" "z = zs ! i"
    by (auto simp: set_zip)
  with assms(1,2) have "xs ! i \<in> set xs \<and> P (xs ! i) y \<and> Q y z \<and> z \<in> set zs"
    by (simp add: list_all2_conv_all_nth)
  then show ?thesis by blast
qed

lemma recorded_settles:
  assumes ids: "distinct (map sub_id (subscriptions d))"
    and fins: "list_all2 (finished_for d) (due_stores now period d) fins" and rec: "list_all2 recorded fins pays"
  shows "settles (due_stores now period d) pays d
    (d\<lparr>subscription_payments := subscription_payments d @ pays,
       subscriptions := map (settle_all (zip fins pays)) (subscriptions d)\<rparr>)"
proof -
  let ?es = "due_stores now period d"
  have row: "if sub_payment_id s = None \<and> sub_store_id s \<in> fst ` set ?es
      then \<exists>p\<in>set pays. spay_store_id p = sub_store_id s \<and> settle_all (zip fins pays) s = s\<lparr>sub_payment_id := Some (spay_id p)\<rparr>
      else settle_all (zip fins pays) s = s" if s: "s \<in> set (subscriptions d)" for s
  proof (cases "\<exists>(p, pay)\<in>set (zip fins pays). sub_id s \<in> sub_id ` set (fin_subscriptions p)")
    case True
    then obtain p pay where mem: "(p, pay) \<in> set (zip fins pays)" "sub_id s \<in> sub_id ` set (fin_subscriptions p)"
      and eq: "settle_all (zip fins pays) s = s\<lparr>sub_payment_id := Some (spay_id pay)\<rparr>"
      using settle_all_cases [of "zip fins pays" s] by auto
    from list_all2_zip_mem [OF fins rec mem(1)] obtain e where
      e: "e \<in> set ?es" "finished_for d e p" "recorded p pay" "pay \<in> set pays" by blast
    from e(2) have rows: "e = (spay_store_id pay, fin_subscriptions p)"
      using e(3) by (auto simp: finished_for_def recorded_def Let_def)
    have "sub_payment_id s = None \<and> sub_store_id s = spay_store_id pay"
      using due_store_row [OF ids s e(1) [unfolded rows]] mem(2) by simp
    with e(1) rows eq e(4) show ?thesis by force
  next
    case False
    have "\<not> (sub_payment_id s = None \<and> sub_store_id s \<in> fst ` set ?es)"
    proof
      assume unpaid: "sub_payment_id s = None \<and> sub_store_id s \<in> fst ` set ?es"
      then obtain rows where e: "(sub_store_id s, rows) \<in> set ?es" by auto
      with fins obtain i where i: "i < length ?es" "?es ! i = (sub_store_id s, rows)"
        by (auto simp: in_set_conv_nth)
      with fins have "fin_subscriptions (fins ! i) = rows"
        by (auto simp: list_all2_conv_all_nth finished_for_def dest: spec [of _ i])
      moreover have "(fins ! i, pays ! i) \<in> set (zip fins pays)"
        using i fins rec by (auto simp: list_all2_conv_all_nth set_zip)
      ultimately show False using False due_store_row [OF ids s e] unpaid by auto
    qed
    then show ?thesis using False settle_all_cases [of "zip fins pays" s] by (auto split: if_splits)
  qed
  have pay: "list_all2 (\<lambda>(sid, rows) p. spay_store_id p = sid \<and>
      (\<exists>ss. priced d sid rows ss (spay_amount p) \<and> spay_currency p = ss_currency ss)) ?es pays"
    using list_all2_trans [OF _ fins rec, of "\<lambda>(sid, rows) p. spay_store_id p = sid \<and>
      (\<exists>ss. priced d sid rows ss (spay_amount p) \<and> spay_currency p = ss_currency ss)"]
    by (fastforce simp: finished_for_def recorded_def Let_def)
  show ?thesis
    unfolding settles_def using pay row by (simp add: list_all2_map2 list_all2_same)
qed

lemma prepare_payments_ends:
  "ends (prepare_payments user now period) w (\<lambda>r t. w_db t = w_db w \<and> w_calls t = w_calls w \<and>
     (\<forall>preps. r = Inr preps \<longrightarrow> list_all2 (prepared (w_db w)) (due_stores now period (w_db w)) preps))"
proof (rule endsI)
  fix r t
  assume run: "prepare_payments user now period w = (r, t)"
  have "silently (prepare_payments user now period)"
    by (rule world_relation.keeps_prepare_payments) (unfold_locales, simp_all)
  with run same_dbD [OF reading.keeps_prepare_payments run] prepare_payments_success
  show "w_db t = w_db w \<and> w_calls t = w_calls w \<and>
     (\<forall>preps. r = Inr preps \<longrightarrow> list_all2 (prepared (w_db w)) (due_stores now period (w_db w)) preps)"
    by (auto dest: keepsD)
qed

lemma record_payments_ends:
  "ends (record_payments user fins) w (\<lambda>r t. w_db t = w_db w \<or> r = Inr () \<and> (\<exists>pays. list_all2 recorded fins pays \<and>
     w_db t = (w_db w)\<lparr>subscription_payments := subscription_payments (w_db w) @ pays,
       subscriptions := map (settle_all (zip fins pays)) (subscriptions (w_db w))\<rparr>))"
  unfolding record_payments_def
proof (intro ends_spawn ends_read_then reading.keeps_get_acl ends_transaction)
  fix a b and x :: unit and u t v1 v2 :: "'a world"
  assume "w_db v1 = w_db (next_fault w)" "w_db v2 = w_db v1" "for_each (record_payment a b) fins (inner_world v2) = (Inr x, u)"
    "w_db t = w_db u"
  with record_payments_success [of a b fins "inner_world v2" x u]
  show "w_db t = w_db w \<or> Inr x = Inr () \<and> (\<exists>pays. list_all2 recorded fins pays \<and>
     w_db t = (w_db w)\<lparr>subscription_payments := subscription_payments (w_db w) @ pays,
       subscriptions := map (settle_all (zip fins pays)) (subscriptions (w_db w))\<rparr>)" by auto
qed simp_all

lemma silent_record_payments: "silently (record_payments user fins)"
  unfolding record_payments_def record_payment_def settle_subscription_def subscription_payments_create_def
    subscriptions_update_row_def
  by (intro keeps_intros)

text \<open>The steps of a run that has something to charge.\<close>

lemma pay_subscriptions_run:
  assumes run: "pay_subscriptions env cfg user w = (r, t)"
  obtains "w_db t = w_db w" and "w_calls t = w_calls w"
  | period preps fins u css where "duration_days (periodicity_days cfg) = Some period"
      and "list_all2 (prepared (w_db w)) (due_stores (w_clock w 0) period (w_db w)) preps"
      and "length fins = length preps" and "length css = length preps"
      and "\<forall>i<length preps. finishes (preps ! i) (charges (css ! i)) (fins ! i)"
      and "w_db u = w_db w" and "w_calls u = w_calls w @ concat css"
      and "record_payments user fins u = (r, t)"
proof -
  let ?now = "w_clock w 0" and ?w = "w\<lparr>w_clock := (\<lambda>n. w_clock w (Suc n))\<rparr>"
  show thesis
  proof (cases "duration_days (periodicity_days cfg) = None \<or> \<not> subscription_ture cfg")
    case True
    with run have "w_db t = w_db w" "w_calls t = w_calls w"
      by (cases "duration_days (periodicity_days cfg)";
          auto simp: pay_subscriptions_def unwrap_def and_then_def [of utc_now])+
    then show thesis by (rule that(1))
  next
    case False
    then obtain period where period: "duration_days (periodicity_days cfg) = Some period" by auto
    obtain q v where prep: "prepare_payments user ?now period ?w = (q, v)" by fastforce
    from endsD [OF prepare_payments_ends prep] have v: "w_db v = w_db w" "w_calls v = w_calls w" by simp_all
    show thesis
    proof (cases q)
      case (Inl e)
      with run prep v False period have "w_db t = w_db w" "w_calls t = w_calls w"
        by (auto simp: pay_subscriptions_def unwrap_def and_then_def)
      then show thesis by (rule that(1))
    next
      case (Inr preps)
      from endsD [OF prepare_payments_ends prep] Inr
      have all: "list_all2 (prepared (w_db w)) (due_stores ?now period (w_db w)) preps" by simp
      from try_map_collect [of env cfg preps v] obtain fins u css where
        coll: "try_map (collect env cfg) preps v = (Inr fins, u)" "w_db u = w_db v"
          "w_calls u = w_calls v @ concat css" "length fins = length preps" "length css = length preps"
          "\<forall>i<length preps. finishes (preps ! i) (charges (css ! i)) (fins ! i)" by blast
      have "record_payments user fins u = (r, t)"
        using run prep coll(1) Inr False period by (simp add: pay_subscriptions_def unwrap_def and_then_def)
      with period all coll v show thesis by (intro that(2) [of period preps fins css u]) simp_all
    qed
  qed
qed

lemma finished_for_all:
  assumes "list_all2 (prepared d) es preps" and "length fins = length preps"
    and "\<forall>i<length preps. finishes (preps ! i) (charges (css ! i)) (fins ! i)"
  shows "list_all2 (finished_for d) es fins"
  unfolding list_all2_conv_all_nth
proof (intro conjI allI impI)
  show "length es = length fins" using assms(1,2) by (simp add: list_all2_lengthD)
  fix i
  assume i: "i < length es"
  with assms(1) have "i < length preps" and "prepared d (es ! i) (preps ! i)"
    by (simp_all add: list_all2_conv_all_nth)
  with assms(3) show "finished_for d (es ! i) (fins ! i)" by (blast intro: prepared_finishes)
qed

text \<open>C4: A run of \<open>pay_subscriptions\<close> either leaves the tables as they were, or succeeds and settles exactly
  the stores whose oldest unpaid row is older than the period: it records one payment for each of them,
  for the exact sum of quantity times price over all its unpaid rows and in the currency of its terms,
  lets these rows point to the payment of their own store, and changes no other row.\<close>

theorem pay_subscriptions_settles:
  assumes "distinct (map sub_id (subscriptions (w_db w)))"
  shows "ends (pay_subscriptions env cfg user) w (\<lambda>r t. w_db t = w_db w \<or>
    r = Inr () \<and> (\<exists>period pays. duration_days (periodicity_days cfg) = Some period \<and>
      settles (due_stores (w_clock w 0) period (w_db w)) pays (w_db w) (w_db t)))"
    (is "ends _ _ ?Q")
proof (rule endsI)
  fix r t
  assume "pay_subscriptions env cfg user w = (r, t)"
  then show "?Q r t"
  proof (cases rule: pay_subscriptions_run)
    case (2 period preps fins u css)
    have fins: "list_all2 (finished_for (w_db w)) (due_stores (w_clock w 0) period (w_db w)) fins"
      by (rule finished_for_all [OF 2(2,3,5)])
    from endsD [OF record_payments_ends 2(8)] consider "w_db t = w_db w"
      | pays where "r = Inr ()" and "list_all2 recorded fins pays"
        and "w_db t = (w_db w)\<lparr>subscription_payments := subscription_payments (w_db w) @ pays,
          subscriptions := map (settle_all (zip fins pays)) (subscriptions (w_db w))\<rparr>"
      unfolding 2(6) by blast
    then show ?thesis
    proof cases
      case recorded: (2 pays)
      have "settles (due_stores (w_clock w 0) period (w_db w)) pays (w_db w) (w_db t)"
        unfolding recorded(3) by (rule recorded_settles [OF assms fins recorded(2)])
      with 2(1) recorded(1) show ?thesis by blast
    qed simp
  qed simp
qed

definition unpaid_row :: "int \<Rightarrow> subscription" where
  "unpaid_row i = \<lparr>sub_id = i, sub_store_id = 7, sub_quantity = 5, sub_payment_id = None, sub_created_at = - 1\<rparr>"

definition unpaid_world :: "rat world" where
  "unpaid_world = initial_world (empty_db\<lparr>subscriptions := [unpaid_row 1, unpaid_row 2],
     store_subscriptions := [\<lparr>ss_store_id = 7, ss_currency = Eur, ss_value = Amount 3, ss_wallet_address = None,
       ss_trial_start_date = None, ss_created_at = 0, ss_updated_at = 0, ss_status = SsPaid\<rparr>]\<rparr>)"

definition daily_config :: subscription_config where
  "daily_config = \<lparr>subscription_ture = True, subscription_accounts = one_account, periodicity_days = 0,
     trial_time_duration_days = 30\<rparr>"

theorem pay_subscriptions_settles_witness:
  "due_stores (w_clock unpaid_world 0) 0 (w_db unpaid_world) = [(7, [unpaid_row 1, unpaid_row 2])] \<and>
   ends (pay_subscriptions offline_env daily_config None) unpaid_world (\<lambda>r t. w_db t = w_db unpaid_world \<or>
     r = Inr () \<and> (\<exists>period pays. duration_days (periodicity_days daily_config) = Some period \<and>
       settles (due_stores (w_clock unpaid_world 0) period (w_db unpaid_world)) pays (w_db unpaid_world) (w_db t)))"
proof
  show "due_stores (w_clock unpaid_world 0) 0 (w_db unpaid_world) = [(7, [unpaid_row 1, unpaid_row 2])]"
    by (simp add: due_stores_def unpaid_rows_def by_stores_def unpaid_world_def initial_world_def unpaid_row_def
        oldest_unpaid_def)
qed (rule pay_subscriptions_settles, simp add: unpaid_world_def initial_world_def unpaid_row_def)

text \<open>C10: In a run of \<open>pay_subscriptions\<close>, whichever statements fail, the gateways are asked for money at most
  once for each store that is due, for exactly the price of its unpaid rows, and for no other store.\<close>

theorem pay_subscriptions_charges_once:
  "ends (pay_subscriptions env cfg user) w (\<lambda>r t. w_calls t = w_calls w \<or>
     (\<exists>period css. duration_days (periodicity_days cfg) = Some period \<and> w_calls t = w_calls w @ concat css \<and>
        list_all2 (\<lambda>(sid, rows) cs. charges cs = [] \<or> (\<exists>ss a. priced (w_db w) sid rows ss a \<and> charges cs = [a]))
          (due_stores (w_clock w 0) period (w_db w)) css))" (is "ends _ _ ?Q")
proof (rule endsI)
  fix r t
  assume "pay_subscriptions env cfg user w = (r, t)"
  then show "?Q r t"
  proof (cases rule: pay_subscriptions_run)
    case (2 period preps fins u css)
    from 2(2-5) have "list_all2 (\<lambda>(sid, rows) cs. charges cs = [] \<or>
        (\<exists>ss a. priced (w_db w) sid rows ss a \<and> charges cs = [a])) (due_stores (w_clock w 0) period (w_db w)) css"
      by (fastforce simp: list_all2_conv_all_nth prepared_def finishes_def split: prod.splits)
    moreover have "w_calls t = w_calls w @ concat css"
      using keepsD [OF silent_record_payments 2(8)] 2(7) by simp
    ultimately show ?thesis using 2(1) by blast
  qed simp
qed

end
