(* ===== verification/BillingRepos.thy ===== *)
theory BillingRepos
  imports Prelude Models BillingModels World Authorization Tables Triples StoreTables
begin

text \<open>
  \<open>repos/store_billing_type.rs\<close>, \<open>repos/international_billing_info.rs\<close>,
  \<open>repos/russia_billing_info.rs\<close>, \<open>repos/proxy_companies_billing_info.rs\<close> and
  \<open>repos/user_wallets.rs\<close>. The tables of the bank details have no constraint on the store; \<open>get\<close>
  refuses to choose between two rows.
\<close>

section \<open>Shared steps\<close>

definition any_filter :: "'b list option \<Rightarrow> ('r \<Rightarrow> 'b) \<Rightarrow> ('r \<Rightarrow> bool) option" where
  "any_filter v column = map_option (\<lambda>xs r. column r \<in> set xs) v"

definition at_most_one :: "'r list \<Rightarrow> ('s, repo_error, 'r option) comp" where
  "at_most_one rows =
     (case rows of [] \<Rightarrow> ok None | [r] \<Rightarrow> ok (Some r) | _ \<Rightarrow> err RInternal)"

lemma any_filter_simps [simp]:
  "any_filter None column = None" "any_filter (Some xs) column = Some (\<lambda>r. column r \<in> set xs)"
  by (simp_all add: any_filter_def)

lemma at_most_one_success [success]:
  "at_most_one rows w = (Inr found, t) \<longleftrightarrow> t = w \<and> rows = (case found of None \<Rightarrow> [] | Some r \<Rightarrow> [r])"
  by (cases rows; cases "tl rows"; cases found) (auto simp: at_most_one_def)

section \<open>The billing type of a store\<close>

definition billing_type_expr :: "store_billing_type_search \<Rightarrow> (store_billing_type \<Rightarrow> bool) option" where
  "billing_type_expr s =
     search_expr
       [eq_filter (sbts_id s) sbt_id, eq_filter (sbts_store_id s) sbt_store_id,
        eq_filter (sbts_billing_type s) sbt_billing_type, any_filter (sbts_store_ids s) sbt_store_id]"

definition insert_billing_type ::
  "new_store_billing_type \<Rightarrow> int \<Rightarrow> timestamp \<Rightarrow> 'd db \<Rightarrow> diesel_error + (store_billing_type \<times> 'd db)" where
  "insert_billing_type p n _ d =
     (let r = \<lparr>sbt_id = n, sbt_store_id = nsbt_store_id p, sbt_billing_type = nsbt_billing_type p\<rparr>
      in if \<exists>q\<in>set (store_billing_types d). sbt_id q = n then Inl UniqueViolation
         else Inr (r, d\<lparr>store_billing_types := store_billing_types d @ [r]\<rparr>))"

definition billing_types_create ::
  "acl \<Rightarrow> new_store_billing_type \<Rightarrow> ('d world, repo_error, store_billing_type) comp" where
  "billing_types_create acl p =
     and_then (check_store acl ResStoreBillingType ActWrite (Some (nsbt_store_id p))) (\<lambda>_.
     repo (execute_serial SeqStoreBillingTypes (insert_billing_type p)))"

definition billing_types_get ::
  "acl \<Rightarrow> store_billing_type_search \<Rightarrow> ('d world, repo_error, store_billing_type option) comp" where
  "billing_types_get acl s =
     and_then (ok_or RInternal (billing_type_expr s)) (\<lambda>p.
     and_then (repo (optional (get_result (select_where store_billing_types p)))) (\<lambda>found.
     case found of
       None \<Rightarrow> ok None
     | Some r \<Rightarrow>
         and_then (check_store acl ResStoreBillingType ActRead (Some (sbt_store_id r))) (\<lambda>_. ok (Some r))))"

text \<open>The search asks for the permission without a store first, so a permission with the scope of the
  owner is not enough.\<close>

definition billing_types_search ::
  "acl \<Rightarrow> store_billing_type_search \<Rightarrow> ('d world, repo_error, store_billing_type list) comp" where
  "billing_types_search acl s =
     and_then (check_store acl ResStoreBillingType ActRead None) (\<lambda>_.
     and_then (ok_or RInternal (billing_type_expr s)) (\<lambda>p.
     and_then (repo (select_where store_billing_types p)) (\<lambda>rows.
     and_then (check_stores acl ResStoreBillingType (map sbt_store_id rows)) (\<lambda>_. ok rows))))"

definition usbt_is_empty :: "update_store_billing_type \<Rightarrow> bool" where
  "usbt_is_empty u \<longleftrightarrow> usbt_store_id u = None \<and> usbt_billing_type u = None"

definition billing_types_update_row ::
  "acl \<Rightarrow> store_billing_type_search \<Rightarrow> update_store_billing_type \<Rightarrow>
   ('d world, repo_error, store_billing_type) comp" where
  "billing_types_update_row acl s u =
     and_then (billing_types_get acl s) (\<lambda>found.
     and_then (check_store acl ResStoreBillingType ActWrite (map_option sbt_store_id found)) (\<lambda>_.
     and_then (ok_or RInternal (billing_type_expr s)) (\<lambda>p.
     repo (get_result (update_set (usbt_is_empty u) store_billing_types set_store_billing_types p
       (update_store_billing_type_changes u))))))"

definition billing_types_delete ::
  "acl \<Rightarrow> store_billing_type_search \<Rightarrow> ('d world, repo_error, store_billing_type) comp" where
  "billing_types_delete acl s =
     and_then (billing_types_get acl s) (\<lambda>found.
     and_then (check_store acl ResStoreBillingType ActWrite (map_option sbt_store_id found)) (\<lambda>_.
     and_then (ok_or RInternal (billing_type_expr s)) (\<lambda>p.
     repo (get_result (delete_where store_billing_types set_store_billing_types p)))))"

section \<open>International bank details\<close>

definition international_expr ::
  "international_billing_info_search \<Rightarrow> (international_billing_info \<Rightarrow> bool) option" where
  "international_expr s =
     search_expr
       [eq_filter (ibis_id s) ibi_id, eq_filter (ibis_store_id s) ibi_store_id,
        any_filter (ibis_store_ids s) ibi_store_id, eq_filter (ibis_swift s) ibi_swift]"

definition insert_international ::
  "new_international_billing_info \<Rightarrow> int \<Rightarrow> timestamp \<Rightarrow> 'd db \<Rightarrow>
   diesel_error + (international_billing_info \<times> 'd db)" where
  "insert_international p n _ d =
     (let r = \<lparr>ibi_id = n, ibi_store_id = nibi_store_id p, ibi_account = nibi_account p,
               ibi_currency = nibi_currency p, ibi_name = nibi_name p, ibi_bank = nibi_bank p,
               ibi_swift = nibi_swift p, ibi_bank_address = nibi_bank_address p,
               ibi_country = nibi_country p, ibi_city = nibi_city p,
               ibi_recipient_address = nibi_recipient_address p\<rparr>
      in if \<exists>q\<in>set (international_billing_infos d). ibi_id q = n then Inl UniqueViolation
         else Inr (r, d\<lparr>international_billing_infos := international_billing_infos d @ [r]\<rparr>))"

definition international_create ::
  "acl \<Rightarrow> new_international_billing_info \<Rightarrow> ('d world, repo_error, international_billing_info) comp" where
  "international_create acl p =
     and_then (check_store acl ResBillingInfo ActWrite (Some (nibi_store_id p))) (\<lambda>_.
     repo (execute_serial SeqInternationalBillingInfos (insert_international p)))"

definition international_get ::
  "acl \<Rightarrow> international_billing_info_search \<Rightarrow>
   ('d world, repo_error, international_billing_info option) comp" where
  "international_get acl s =
     and_then (ok_or RInternal (international_expr s)) (\<lambda>p.
     and_then (repo (select_where international_billing_infos p)) (\<lambda>rows.
     and_then (at_most_one rows) (\<lambda>found.
     case found of
       None \<Rightarrow> ok None
     | Some r \<Rightarrow>
         and_then (check_store acl ResBillingInfo ActRead (Some (ibi_store_id r))) (\<lambda>_. ok (Some r)))))"

definition international_search ::
  "acl \<Rightarrow> international_billing_info_search \<Rightarrow>
   ('d world, repo_error, international_billing_info list) comp" where
  "international_search acl s =
     and_then (ok_or RInternal (international_expr s)) (\<lambda>p.
     and_then (repo (select_where international_billing_infos p)) (\<lambda>rows.
     and_then (check_stores acl ResBillingInfo (map ibi_store_id rows)) (\<lambda>_. ok rows)))"

definition international_update_row ::
  "acl \<Rightarrow> international_billing_info_search \<Rightarrow> update_international_billing_info \<Rightarrow>
   ('d world, repo_error, international_billing_info) comp" where
  "international_update_row acl s u =
     and_then (international_get acl s) (\<lambda>found.
     and_then (check_store acl ResBillingInfo ActWrite (map_option ibi_store_id found)) (\<lambda>_.
     and_then (ok_or RInternal (international_expr s)) (\<lambda>p.
     repo (get_result (update_set (uibi_is_empty u) international_billing_infos
       set_international_billing_infos p (update_international_billing_info_changes u))))))"

definition international_delete ::
  "acl \<Rightarrow> international_billing_info_search \<Rightarrow>
   ('d world, repo_error, international_billing_info option) comp" where
  "international_delete acl s =
     and_then (international_get acl s) (\<lambda>found.
     and_then (case found of None \<Rightarrow> ok ()
        | Some r \<Rightarrow> check_store acl ResBillingInfo ActWrite (Some (ibi_store_id r))) (\<lambda>_.
     and_then (ok_or RInternal (international_expr s)) (\<lambda>p.
     repo (optional (get_result
       (delete_where international_billing_infos set_international_billing_infos p))))))"

section \<open>Russian bank details\<close>

definition russia_expr :: "russia_billing_info_search \<Rightarrow> (russia_billing_info \<Rightarrow> bool) option" where
  "russia_expr s =
     search_expr
       [eq_filter (rbis_id s) rbi_id, eq_filter (rbis_store_id s) rbi_store_id,
        any_filter (rbis_store_ids s) rbi_store_id]"

definition insert_russia ::
  "new_russia_billing_info \<Rightarrow> int \<Rightarrow> timestamp \<Rightarrow> 'd db \<Rightarrow> diesel_error + (russia_billing_info \<times> 'd db)" where
  "insert_russia p n _ d =
     (let r = \<lparr>rbi_id = n, rbi_store_id = nrbi_store_id p, rbi_bank_name = nrbi_bank_name p,
               rbi_branch_name = nrbi_branch_name p, rbi_swift_bic = nrbi_swift_bic p,
               rbi_tax_id = nrbi_tax_id p, rbi_correspondent_account = nrbi_correspondent_account p,
               rbi_current_account = nrbi_current_account p,
               rbi_personal_account = nrbi_personal_account p,
               rbi_beneficiary_full_name = nrbi_beneficiary_full_name p\<rparr>
      in if \<exists>q\<in>set (russia_billing_infos d). rbi_id q = n then Inl UniqueViolation
         else Inr (r, d\<lparr>russia_billing_infos := russia_billing_infos d @ [r]\<rparr>))"

definition russia_create ::
  "acl \<Rightarrow> new_russia_billing_info \<Rightarrow> ('d world, repo_error, russia_billing_info) comp" where
  "russia_create acl p =
     and_then (check_store acl ResBillingInfo ActWrite (Some (nrbi_store_id p))) (\<lambda>_.
     repo (execute_serial SeqRussiaBillingInfos (insert_russia p)))"

definition russia_get ::
  "acl \<Rightarrow> russia_billing_info_search \<Rightarrow> ('d world, repo_error, russia_billing_info option) comp" where
  "russia_get acl s =
     and_then (ok_or RInternal (russia_expr s)) (\<lambda>p.
     and_then (repo (select_where russia_billing_infos p)) (\<lambda>rows.
     and_then (at_most_one rows) (\<lambda>found.
     case found of
       None \<Rightarrow> ok None
     | Some r \<Rightarrow>
         and_then (check_store acl ResBillingInfo ActRead (Some (rbi_store_id r))) (\<lambda>_. ok (Some r)))))"

definition russia_search ::
  "acl \<Rightarrow> russia_billing_info_search \<Rightarrow> ('d world, repo_error, russia_billing_info list) comp" where
  "russia_search acl s =
     and_then (ok_or RInternal (russia_expr s)) (\<lambda>p.
     and_then (repo (select_where russia_billing_infos p)) (\<lambda>rows.
     and_then (check_stores acl ResBillingInfo (map rbi_store_id rows)) (\<lambda>_. ok rows)))"

definition russia_update_row ::
  "acl \<Rightarrow> russia_billing_info_search \<Rightarrow> update_russia_billing_info \<Rightarrow>
   ('d world, repo_error, russia_billing_info) comp" where
  "russia_update_row acl s u =
     and_then (russia_get acl s) (\<lambda>found.
     and_then (check_store acl ResBillingInfo ActWrite (map_option rbi_store_id found)) (\<lambda>_.
     and_then (ok_or RInternal (russia_expr s)) (\<lambda>p.
     repo (get_result (update_set (urbi_is_empty u) russia_billing_infos
       set_russia_billing_infos p (update_russia_billing_info_changes u))))))"

definition russia_delete ::
  "acl \<Rightarrow> russia_billing_info_search \<Rightarrow> ('d world, repo_error, russia_billing_info option) comp" where
  "russia_delete acl s =
     and_then (russia_get acl s) (\<lambda>found.
     and_then (case found of None \<Rightarrow> ok ()
        | Some r \<Rightarrow> check_store acl ResBillingInfo ActWrite (Some (rbi_store_id r))) (\<lambda>_.
     and_then (ok_or RInternal (russia_expr s)) (\<lambda>p.
     repo (optional (get_result (delete_where russia_billing_infos set_russia_billing_infos p))))))"

section \<open>Bank details of the proxy companies\<close>

text \<open>Everything is in scope here, and an update asks for the permission to read only.\<close>

definition proxy_companies_in_scope :: "('d, unit) scope_checker" where
  "proxy_companies_in_scope uid s obj = ok True"

abbreviation check_proxy_company :: "acl \<Rightarrow> action \<Rightarrow> ('d world, repo_error, unit) comp" where
  "check_proxy_company acl act \<equiv> check acl ResProxyCompanyBillingInfo act proxy_companies_in_scope None"

definition proxy_company_expr ::
  "proxy_company_billing_info_search \<Rightarrow> (proxy_company_billing_info \<Rightarrow> bool) option" where
  "proxy_company_expr s =
     search_expr [eq_filter (pbis_id s) pbi_id, eq_filter (pbis_country_alpha3 s) pbi_country_alpha3]"

definition insert_proxy_company ::
  "new_proxy_company_billing_info \<Rightarrow> int \<Rightarrow> timestamp \<Rightarrow> 'd db \<Rightarrow>
   diesel_error + (proxy_company_billing_info \<times> 'd db)" where
  "insert_proxy_company p n _ d =
     (let r = \<lparr>pbi_id = n, pbi_country_alpha3 = npbi_country_alpha3 p, pbi_account = npbi_account p,
               pbi_currency = npbi_currency p, pbi_name = npbi_name p, pbi_bank = npbi_bank p,
               pbi_swift = npbi_swift p, pbi_bank_address = npbi_bank_address p,
               pbi_country = npbi_country p, pbi_city = npbi_city p,
               pbi_recipient_address = npbi_recipient_address p\<rparr>
      in if \<exists>q\<in>set (proxy_companies_billing_infos d). pbi_id q = n then Inl UniqueViolation
         else Inr (r, d\<lparr>proxy_companies_billing_infos := proxy_companies_billing_infos d @ [r]\<rparr>))"

definition proxy_companies_create ::
  "acl \<Rightarrow> new_proxy_company_billing_info \<Rightarrow> ('d world, repo_error, proxy_company_billing_info) comp" where
  "proxy_companies_create acl p =
     and_then (check_proxy_company acl ActWrite) (\<lambda>_.
     repo (execute_serial SeqProxyCompaniesBillingInfos (insert_proxy_company p)))"

definition proxy_companies_get ::
  "acl \<Rightarrow> proxy_company_billing_info_search \<Rightarrow>
   ('d world, repo_error, proxy_company_billing_info option) comp" where
  "proxy_companies_get acl s =
     and_then (check_proxy_company acl ActRead) (\<lambda>_.
     and_then (ok_or RInternal (proxy_company_expr s)) (\<lambda>p.
     and_then (repo (select_where proxy_companies_billing_infos p)) at_most_one))"

definition proxy_companies_update_row ::
  "acl \<Rightarrow> proxy_company_billing_info_search \<Rightarrow> update_proxy_company_billing_info \<Rightarrow>
   ('d world, repo_error, proxy_company_billing_info) comp" where
  "proxy_companies_update_row acl s u =
     and_then (check_proxy_company acl ActRead) (\<lambda>_.
     and_then (proxy_companies_get acl s) (\<lambda>_.
     and_then (ok_or RInternal (proxy_company_expr s)) (\<lambda>p.
     repo (get_result (update_set (upbi_is_empty u) proxy_companies_billing_infos
       set_proxy_companies_billing_infos p (update_proxy_company_billing_info_changes u))))))"

section \<open>Wallets of users\<close>

definition user_wallets_in_scope :: "('d, user_id) scope_checker" where
  "user_wallets_in_scope uid s obj =
     (case s of
        ScopeAll \<Rightarrow> ok True
      | ScopeOwned \<Rightarrow> ok (case obj of Some u \<Rightarrow> uid = user_inner u | None \<Rightarrow> False))"

abbreviation check_user_wallet :: "acl \<Rightarrow> action \<Rightarrow> user_id \<Rightarrow> ('d world, repo_error, unit) comp" where
  "check_user_wallet acl act u \<equiv> check acl ResUserWallet act user_wallets_in_scope (Some u)"

definition insert_wallet ::
  "insert_user_wallet \<Rightarrow> timestamp \<Rightarrow> 'd db \<Rightarrow> diesel_error + (user_wallet \<times> 'd db)" where
  "insert_wallet p now d =
     (let r = \<lparr>uw_id = iuw_id p, uw_address = iuw_address p, uw_currency = iuw_currency p,
               uw_user_id = iuw_user_id p, uw_created_at = now, uw_is_active = iuw_is_active p\<rparr>
      in if \<exists>q\<in>set (user_wallets d). uw_id q = uw_id r then Inl UniqueViolation
         else Inr (r, d\<lparr>user_wallets := user_wallets d @ [r]\<rparr>))"

definition user_wallets_add ::
  "acl \<Rightarrow> new_active_user_wallet \<Rightarrow> ('d world, repo_error, user_wallet) comp" where
  "user_wallets_add acl p =
     and_then (check_user_wallet acl ActWrite (nuw_user_id p)) (\<lambda>_.
     repo (execute (insert_wallet (insert_user_wallet_of p))))"

definition user_wallets_get ::
  "acl \<Rightarrow> user_wallet_id \<Rightarrow> ('d world, repo_error, user_wallet option) comp" where
  "user_wallets_get acl wid =
     and_then (repo (optional (get_result (select_where user_wallets (\<lambda>r. uw_id r = wid))))) (\<lambda>found.
     case found of
       None \<Rightarrow> ok None
     | Some r \<Rightarrow> and_then (check_user_wallet acl ActRead (uw_user_id r)) (\<lambda>_. ok (Some r)))"

definition get_currency_wallets_by_user_id ::
  "acl \<Rightarrow> ture_currency \<Rightarrow> user_id \<Rightarrow> ('d world, repo_error, user_wallet list) comp" where
  "get_currency_wallets_by_user_id acl c u =
     and_then (check_user_wallet acl ActRead u) (\<lambda>_.
     repo (select_where user_wallets (\<lambda>r. uw_currency r = c \<and> uw_user_id r = u \<and> uw_is_active r)))"

definition deactivate_wallet :: "acl \<Rightarrow> user_wallet_id \<Rightarrow> ('d world, repo_error, user_wallet) comp" where
  "deactivate_wallet acl wid =
     and_then (repo (get_result (map_ok (map uw_user_id) (select_where user_wallets (\<lambda>r. uw_id r = wid))))) (\<lambda>u.
     and_then (check_user_wallet acl ActWrite u) (\<lambda>_.
     repo (get_result (update_where user_wallets set_user_wallets (\<lambda>r. uw_id r = wid)
       (\<lambda>_ r. r\<lparr>uw_is_active := False\<rparr>)))))"

definition deactivate_wallets_by_user_id ::
  "acl \<Rightarrow> user_id \<Rightarrow> ('d world, repo_error, user_wallet list) comp" where
  "deactivate_wallets_by_user_id acl u =
     and_then (check_user_wallet acl ActWrite u) (\<lambda>_.
     repo (update_where user_wallets set_user_wallets (\<lambda>r. uw_user_id r = u)
       (\<lambda>_ r. r\<lparr>uw_is_active := False\<rparr>)))"

section \<open>Laws\<close>

lemma expr_by_store [simp]:
  "billing_type_expr (billing_type_by_store_id sid) = Some (\<lambda>r. sbt_store_id r = sid)"
  "international_expr (international_by_store_id sid) = Some (\<lambda>r. ibi_store_id r = sid)"
  "russia_expr (russia_by_store_id sid) = Some (\<lambda>r. rbi_store_id r = sid)"
  "international_expr (international_by_id i) = Some (\<lambda>r. ibi_id r = i)"
  "russia_expr (russia_by_id i) = Some (\<lambda>r. rbi_id r = i)"
  by (simp_all add: billing_type_expr_def billing_type_by_store_id_def international_expr_def
      international_by_store_id_def russia_expr_def russia_by_store_id_def international_by_id_def
      russia_by_id_def search_expr_some)

context world_relation
begin

lemma keeps_at_most_one [keeps_intros]: "keeps R (at_most_one rows)"
  unfolding at_most_one_def by (auto intro!: keeps_ok keeps_err split: list.split)

lemma keeps_billing_types_get [keeps_intros]: "keeps R (billing_types_get acl s)"
  unfolding billing_types_get_def
  by (intro keeps_and_then keeps_ok_or keeps_repo keeps_optional keeps_get_result keeps_select_where
      keeps_case_option keeps_ok keeps_check_store)

lemma keeps_international_get [keeps_intros]: "keeps R (international_get acl s)"
  unfolding international_get_def
  by (intro keeps_and_then keeps_ok_or keeps_repo keeps_select_where keeps_at_most_one
      keeps_case_option keeps_ok keeps_check_store)

lemma keeps_russia_get [keeps_intros]: "keeps R (russia_get acl s)"
  unfolding russia_get_def
  by (intro keeps_and_then keeps_ok_or keeps_repo keeps_select_where keeps_at_most_one
      keeps_case_option keeps_ok keeps_check_store)

end

text \<open>What a successful \<open>get\<close> has seen.\<close>

lemma single_row_success:
  assumes run: "and_then (repo (select_where rows p)) (\<lambda>rs. and_then (at_most_one rs) (\<lambda>found.
      case found of None \<Rightarrow> ok None | Some r \<Rightarrow> and_then (chk r) (\<lambda>_. ok (Some r)))) w = (Inr found, t)"
  shows "filter p (rows (w_db w)) = (case found of None \<Rightarrow> [] | Some r \<Rightarrow> [r])"
proof -
  obtain rs u where sel: "repo (select_where rows p) w = (Inr rs, u)"
    and rest: "and_then (at_most_one rs) (\<lambda>found. case found of None \<Rightarrow> ok None
      | Some r \<Rightarrow> and_then (chk r) (\<lambda>_. ok (Some r))) u = (Inr found, t)"
    using run unfolding and_then_success [of "repo (select_where rows p)"] by blast
  from rest have "rs = (case found of None \<Rightarrow> [] | Some r \<Rightarrow> [r])"
    by (auto simp: and_then_success at_most_one_success split: option.splits)
  with select_where_success [OF sel] show ?thesis by simp
qed

lemma international_get_success:
  assumes "international_get acl (international_by_store_id sid) w = (Inr found, t)"
  shows "filter (\<lambda>r. ibi_store_id r = sid) (international_billing_infos (w_db w)) =
      (case found of None \<Rightarrow> [] | Some r \<Rightarrow> [r])" and "w_db t = w_db w"
  using assms same_dbD [OF reading.keeps_international_get assms]
  by (auto simp: international_get_def intro: single_row_success)

lemma russia_get_success:
  assumes "russia_get acl (russia_by_store_id sid) w = (Inr found, t)"
  shows "filter (\<lambda>r. rbi_store_id r = sid) (russia_billing_infos (w_db w)) =
      (case found of None \<Rightarrow> [] | Some r \<Rightarrow> [r])" and "w_db t = w_db w"
  using assms same_dbD [OF reading.keeps_russia_get assms]
  by (auto simp: russia_get_def intro: single_row_success)

lemma billing_types_get_success:
  assumes "billing_types_get acl (billing_type_by_store_id sid) w = (Inr found, t)"
  shows "row_by (\<lambda>r. sbt_store_id r = sid) (store_billing_types (w_db w)) = found" and "w_db t = w_db w"
proof -
  obtain x u where first: "repo (optional (get_result (select_where store_billing_types (\<lambda>r. sbt_store_id r = sid)))) w = (Inr x, u)"
    and rest: "(case x of None \<Rightarrow> ok None | Some r \<Rightarrow>
      and_then (check_store acl ResStoreBillingType ActRead (Some (sbt_store_id r))) (\<lambda>_. ok (Some r))) u = (Inr found, t)"
    using assms by (auto simp: billing_types_get_def and_then_success)
  from rest have "x = found" by (cases x) (auto simp: and_then_success)
  with first_row_success [OF first]
  show "row_by (\<lambda>r. sbt_store_id r = sid) (store_billing_types (w_db w)) = found" by simp
  show "w_db t = w_db w" by (rule same_dbD [OF reading.keeps_billing_types_get assms])
qed

text \<open>A deletion that found nothing has removed nothing.\<close>

lemma delete_where_optional_success:
  assumes "repo (optional (get_result (delete_where rows put p))) w = (Inr found, t)"
    and "\<And>d. put (rows d) d = d"
  shows "w_db t = put (filter (\<lambda>r. \<not> p r) (rows (w_db w))) (w_db w)"
  using assms(1)
  by (auto simp: run_defs delete_where_def delete_rows_def execute_def Let_def next_fault_def
      stmt_failed_def split: if_splits list.splits sum.splits prod.splits)

end
