(* ===== verification/BillingInfoService.thy ===== *)
theory BillingInfoService
  imports Prelude Models BillingModels World Authorization Tables Services Triples OrdersRepo StoreTables
    BillingRepos
begin

text \<open>
  \<open>services/billing_info.rs\<close>, \<open>services/billing_type.rs\<close> and \<open>services/order_billing.rs\<close>. A store has
  the bank details of its billing type: new details of the other kind replace the old ones and change
  the type, in one transaction.
\<close>

section \<open>Bank details of a store\<close>

definition get_russia_billing_info_by_store ::
  "stq_user_id option \<Rightarrow> int \<Rightarrow> ('d world, service_error, russia_billing_info option) comp" where
  "get_russia_billing_info_by_store user sid =
     pool (and_then (get_acl user) (\<lambda>acl. svc (russia_get acl (russia_by_store_id sid))))"

definition get_international_billing_info_by_store ::
  "stq_user_id option \<Rightarrow> int \<Rightarrow> ('d world, service_error, international_billing_info option) comp" where
  "get_international_billing_info_by_store user sid =
     pool (and_then (get_acl user) (\<lambda>acl. svc (international_get acl (international_by_store_id sid))))"

definition get_billing_type_by_store ::
  "stq_user_id option \<Rightarrow> int \<Rightarrow> ('d world, service_error, billing_type option) comp" where
  "get_billing_type_by_store user sid =
     pool (and_then (get_acl user) (\<lambda>acl.
       map_ok (map_option sbt_billing_type) (svc (billing_types_get acl (billing_type_by_store_id sid)))))"

definition validate_create_international_billing_info ::
  "acl \<Rightarrow> new_international_billing_info \<Rightarrow> ('d world, service_error, unit) comp" where
  "validate_create_international_billing_info acl p =
     and_then (svc (international_get acl (international_by_store_id (nibi_store_id p)))) (\<lambda>found.
     if found \<noteq> None then err (invalid ''billing_info'' ''International billing info already exists'')
     else ok ())"

definition validate_create_russia_billing_info ::
  "acl \<Rightarrow> new_russia_billing_info \<Rightarrow> ('d world, service_error, unit) comp" where
  "validate_create_russia_billing_info acl p =
     and_then (svc (russia_get acl (russia_by_store_id (nrbi_store_id p)))) (\<lambda>found.
     if found \<noteq> None then err (invalid ''billing_info'' ''Russia billing info already exists'')
     else ok ())"

definition set_billing_type :: "acl \<Rightarrow> int \<Rightarrow> billing_type \<Rightarrow> ('d world, service_error, unit) comp" where
  "set_billing_type acl sid bt =
     map_ok (\<lambda>_. ()) (svc (billing_types_update_row acl (billing_type_by_store_id sid)
       \<lparr>usbt_store_id = None, usbt_billing_type = Some bt\<rparr>))"

definition update_store_billing_type_to_international ::
  "acl \<Rightarrow> acl \<Rightarrow> int \<Rightarrow> ('d world, service_error, unit) comp" where
  "update_store_billing_type_to_international t_acl r_acl sid =
     and_then (svc (billing_types_get t_acl (billing_type_by_store_id sid))) (\<lambda>found.
     case map_option sbt_billing_type found of
       None \<Rightarrow> map_ok (\<lambda>_. ()) (svc (billing_types_create t_acl
                 \<lparr>nsbt_store_id = sid, nsbt_billing_type = BtInternational\<rparr>))
     | Some BtInternational \<Rightarrow> ok ()
     | Some BtRussia \<Rightarrow>
         and_then (svc (russia_delete r_acl (russia_by_store_id sid))) (\<lambda>_.
         set_billing_type t_acl sid BtInternational))"

definition update_store_billing_type_to_russia ::
  "acl \<Rightarrow> acl \<Rightarrow> int \<Rightarrow> ('d world, service_error, unit) comp" where
  "update_store_billing_type_to_russia t_acl i_acl sid =
     and_then (svc (billing_types_get t_acl (billing_type_by_store_id sid))) (\<lambda>found.
     case map_option sbt_billing_type found of
       None \<Rightarrow> map_ok (\<lambda>_. ()) (svc (billing_types_create t_acl
                 \<lparr>nsbt_store_id = sid, nsbt_billing_type = BtRussia\<rparr>))
     | Some BtRussia \<Rightarrow> ok ()
     | Some BtInternational \<Rightarrow>
         and_then (svc (international_delete i_acl (international_by_store_id sid))) (\<lambda>_.
         set_billing_type t_acl sid BtRussia))"

definition create_international_billing_info ::
  "stq_user_id option \<Rightarrow> new_international_billing_info \<Rightarrow>
   ('d world, service_error, international_billing_info) comp" where
  "create_international_billing_info user p =
     pool (and_then (get_acl user) (\<lambda>t_acl.
       and_then (get_acl user) (\<lambda>i_acl.
       and_then (get_acl user) (\<lambda>r_acl.
       transaction service_error_of_diesel
         (and_then (validate_create_international_billing_info i_acl p) (\<lambda>_.
          and_then (update_store_billing_type_to_international t_acl r_acl (nibi_store_id p)) (\<lambda>_.
          svc (international_create i_acl p))))))))"

definition create_russia_billing_info ::
  "stq_user_id option \<Rightarrow> new_russia_billing_info \<Rightarrow> ('d world, service_error, russia_billing_info) comp" where
  "create_russia_billing_info user p =
     pool (and_then (get_acl user) (\<lambda>t_acl.
       and_then (get_acl user) (\<lambda>i_acl.
       and_then (get_acl user) (\<lambda>r_acl.
       transaction service_error_of_diesel
         (and_then (validate_create_russia_billing_info r_acl p) (\<lambda>_.
          and_then (update_store_billing_type_to_russia t_acl i_acl (nrbi_store_id p)) (\<lambda>_.
          svc (russia_create r_acl p))))))))"

definition update_international_billing ::
  "stq_user_id option \<Rightarrow> int \<Rightarrow> update_international_billing_info \<Rightarrow>
   ('d world, service_error, international_billing_info) comp" where
  "update_international_billing user i u =
     pool (and_then (get_acl user) (\<lambda>acl. svc (international_update_row acl (international_by_id i) u)))"

definition update_russia_billing ::
  "stq_user_id option \<Rightarrow> int \<Rightarrow> update_russia_billing_info \<Rightarrow>
   ('d world, service_error, russia_billing_info) comp" where
  "update_russia_billing user i u =
     pool (and_then (get_acl user) (\<lambda>acl. svc (russia_update_row acl (russia_by_id i) u)))"

section \<open>Orders with their bank details\<close>

record order_billing_search_terms =
  obst_payment_state :: "payment_state option"
  obst_store_id :: "int option"
  obst_order_id :: "order_id option"

record order_billing_info =
  obi_order :: order_response
  obi_billing_type :: billing_type
  obi_proxy_company_billing_info :: "proxy_company_billing_info option"
  obi_russia_billing_info :: "russia_billing_info option"
  obi_international_billing_info :: "international_billing_info option"

record order_billing_info_search_results =
  obsr_total_count :: int
  obsr_orders :: "order_billing_info list"

text \<open>A hash map collected from rows keeps the last row of a key.\<close>

definition index_by :: "('r \<Rightarrow> 'k) \<Rightarrow> 'r list \<Rightarrow> 'k \<Rightarrow> 'r option" where
  "index_by key rows k = row_by (\<lambda>r. key r = k) (rev rows)"

definition orders_search_of :: "order_billing_search_terms \<Rightarrow> orders_search" where
  "orders_search_of t =
     \<lparr>os_store_id = map_option StoreId (obst_store_id t), os_state = obst_payment_state t,
      os_order_id = obst_order_id t, os_order_ids = None\<rparr>"

definition order_billing_info_of ::
  "'d bigdecimal \<Rightarrow> (int \<Rightarrow> store_billing_type option) \<Rightarrow> (int \<Rightarrow> international_billing_info option) \<Rightarrow>
   (int \<Rightarrow> russia_billing_info option) \<Rightarrow> proxy_company_billing_info option \<Rightarrow> raw_order \<Rightarrow>
   service_error + order_billing_info" where
  "order_billing_info_of D types internationals russias proxy order =
     (let sid = store_inner (ord_store_id order);
          bt = (case types sid of None \<Rightarrow> BtInternational | Some t \<Rightarrow> sbt_billing_type t)
      in map_sum id (\<lambda>resp. \<lparr>obi_order = resp, obi_billing_type = bt,
           obi_proxy_company_billing_info = (if bt = BtRussia then proxy else None),
           obi_russia_billing_info = russias sid, obi_international_billing_info = internationals sid\<rparr>)
         (try_from_raw_order D order))"

definition search_order_billing ::
  "'d bigdecimal \<Rightarrow> stq_user_id option \<Rightarrow> int \<Rightarrow> int \<Rightarrow> order_billing_search_terms \<Rightarrow>
   ('d world, service_error, order_billing_info_search_results) comp" where
  "search_order_billing D user skip cnt payload =
     pool (and_then (get_acl user) (\<lambda>o_acl.
       and_then (get_acl user) (\<lambda>t_acl.
       and_then (get_acl user) (\<lambda>i_acl.
       and_then (get_acl user) (\<lambda>r_acl.
       and_then (get_acl user) (\<lambda>p_acl.
       and_then (svc (search_orders o_acl skip cnt (orders_search_of payload))) (\<lambda>found.
       let sids = remdups (map (\<lambda>r. store_inner (ord_store_id r)) (osr_orders found)) in
       and_then (svc (billing_types_search t_acl (billing_type_by_store_ids sids))) (\<lambda>types.
       and_then (svc (international_search i_acl (international_by_store_ids sids))) (\<lambda>internationals.
       and_then (svc (russia_search r_acl (russia_by_store_ids sids))) (\<lambda>russias.
       and_then (svc (proxy_companies_get p_acl (by_country_alpha3 ''RUS''))) (\<lambda>proxy.
       map_ok (\<lambda>os. \<lparr>obsr_total_count = osr_total_count found, obsr_orders = os\<rparr>)
         (of_result (result_map (order_billing_info_of D (index_by sbt_store_id types)
            (index_by ibi_store_id internationals) (index_by rbi_store_id russias) proxy)
            (osr_orders found))))))))))))))"

section \<open>The details of a store follow its type\<close>

text \<open>At most one type for a store, at most one row of each kind, and details of the kind of the type only.\<close>

definition store_typed :: "billing_type \<Rightarrow> int \<Rightarrow> store_billing_type list \<Rightarrow> bool" where
  "store_typed bt sid ts \<longleftrightarrow> (\<exists>t\<in>set ts. sbt_store_id t = sid \<and> sbt_billing_type t = bt)"

definition stores_typed :: "billing_type \<Rightarrow> int set \<Rightarrow> store_billing_type list \<Rightarrow> bool" where
  "stores_typed bt sids ts \<longleftrightarrow> (\<forall>sid\<in>sids. store_typed bt sid ts)"

definition details_typed :: "'d db \<Rightarrow> bool" where
  "details_typed d \<longleftrightarrow>
     distinct (map sbt_store_id (store_billing_types d)) \<and>
     distinct (map ibi_store_id (international_billing_infos d)) \<and>
     distinct (map rbi_store_id (russia_billing_infos d)) \<and>
     stores_typed BtInternational (set (map ibi_store_id (international_billing_infos d))) (store_billing_types d) \<and>
     stores_typed BtRussia (set (map rbi_store_id (russia_billing_infos d))) (store_billing_types d)"

section \<open>The change of the type\<close>

definition retype :: "int \<Rightarrow> billing_type \<Rightarrow> store_billing_type \<Rightarrow> store_billing_type" where
  "retype sid bt r = (if sbt_store_id r = sid then r\<lparr>sbt_billing_type := bt\<rparr> else r)"

definition switch_to_international :: "int \<Rightarrow> int \<Rightarrow> 'd db \<Rightarrow> 'd db" where
  "switch_to_international n sid d =
     (case map_option sbt_billing_type (row_by (\<lambda>r. sbt_store_id r = sid) (store_billing_types d)) of
        None \<Rightarrow> d\<lparr>store_billing_types := store_billing_types d @
                [\<lparr>sbt_id = n, sbt_store_id = sid, sbt_billing_type = BtInternational\<rparr>]\<rparr>
      | Some BtInternational \<Rightarrow> d
      | Some BtRussia \<Rightarrow>
          d\<lparr>russia_billing_infos := filter (\<lambda>r. rbi_store_id r \<noteq> sid) (russia_billing_infos d),
            store_billing_types := map (retype sid BtInternational) (store_billing_types d)\<rparr>)"

definition switch_to_russia :: "int \<Rightarrow> int \<Rightarrow> 'd db \<Rightarrow> 'd db" where
  "switch_to_russia n sid d =
     (case map_option sbt_billing_type (row_by (\<lambda>r. sbt_store_id r = sid) (store_billing_types d)) of
        None \<Rightarrow> d\<lparr>store_billing_types := store_billing_types d @
                [\<lparr>sbt_id = n, sbt_store_id = sid, sbt_billing_type = BtRussia\<rparr>]\<rparr>
      | Some BtRussia \<Rightarrow> d
      | Some BtInternational \<Rightarrow>
          d\<lparr>international_billing_infos := filter (\<lambda>r. ibi_store_id r \<noteq> sid) (international_billing_infos d),
            store_billing_types := map (retype sid BtRussia) (store_billing_types d)\<rparr>)"

lemma set_billing_type_success:
  assumes "set_billing_type acl sid bt w = (Inr x, t)"
  shows "w_db t = (w_db w)\<lparr>store_billing_types := map (retype sid bt) (store_billing_types (w_db w))\<rparr>"
proof -
  let ?u = "\<lparr>usbt_store_id = None, usbt_billing_type = Some bt\<rparr>"
  obtain found u v r rs where get: "billing_types_get acl (billing_type_by_store_id sid) w = (Inr found, u)"
    and chk: "check_store acl ResStoreBillingType ActWrite (map_option sbt_store_id found) u = (Inr (), v)"
    and upd: "update_where store_billing_types set_store_billing_types (\<lambda>r. sbt_store_id r = sid)
      (\<lambda>_. update_store_billing_type_changes ?u) v = (Inr (r # rs), t)"
    using assms by (auto simp: set_billing_type_def billing_types_update_row_def and_then_success svc_success
        map_ok_success repo_success get_result_success update_set_def usbt_is_empty_def)
  have db: "w_db v = w_db w"
    using same_dbD [OF reading.keeps_check_store chk] billing_types_get_success(2) [OF get] by simp
  have "retype sid bt = (\<lambda>r. if sbt_store_id r = sid then update_store_billing_type_changes ?u r else r)"
    by (auto simp: fun_eq_iff retype_def update_store_billing_type_changes_def set_or_def)
  with update_where_success [OF upd] show ?thesis by (simp add: db)
qed

lemma russia_delete_success:
  assumes "russia_delete acl (russia_by_store_id sid) w = (Inr x, t)"
  shows "w_db t = (w_db w)\<lparr>russia_billing_infos := filter (\<lambda>r. rbi_store_id r \<noteq> sid) (russia_billing_infos (w_db w))\<rparr>"
proof -
  obtain found u v where get: "russia_get acl (russia_by_store_id sid) w = (Inr found, u)"
    and chk: "(case found of None \<Rightarrow> ok ()
      | Some r \<Rightarrow> check_store acl ResBillingInfo ActWrite (Some (rbi_store_id r))) u = (Inr (), v)"
    and del: "repo (optional (get_result (delete_where russia_billing_infos set_russia_billing_infos
      (\<lambda>r. rbi_store_id r = sid)))) v = (Inr x, t)"
    using assms by (auto simp: russia_delete_def and_then_success)
  have "w_db v = w_db u"
    using chk same_dbD [OF reading.keeps_check_store] by (cases found) auto
  then have "w_db v = w_db w" using russia_get_success(2) [OF get] by simp
  with delete_where_optional_success [OF del] show ?thesis by simp
qed

lemma international_delete_success:
  assumes "international_delete acl (international_by_store_id sid) w = (Inr x, t)"
  shows "w_db t = (w_db w)\<lparr>international_billing_infos :=
    filter (\<lambda>r. ibi_store_id r \<noteq> sid) (international_billing_infos (w_db w))\<rparr>"
proof -
  obtain found u v where get: "international_get acl (international_by_store_id sid) w = (Inr found, u)"
    and chk: "(case found of None \<Rightarrow> ok ()
      | Some r \<Rightarrow> check_store acl ResBillingInfo ActWrite (Some (ibi_store_id r))) u = (Inr (), v)"
    and del: "repo (optional (get_result (delete_where international_billing_infos set_international_billing_infos
      (\<lambda>r. ibi_store_id r = sid)))) v = (Inr x, t)"
    using assms by (auto simp: international_delete_def and_then_success)
  have "w_db v = w_db u"
    using chk same_dbD [OF reading.keeps_check_store] by (cases found) auto
  then have "w_db v = w_db w" using international_get_success(2) [OF get] by simp
  with delete_where_optional_success [OF del] show ?thesis by simp
qed

lemma create_billing_type_success:
  assumes "billing_types_create acl p w = (Inr x, t)"
  shows "\<exists>n. w_db t = (w_db w)\<lparr>store_billing_types := store_billing_types (w_db w) @
    [\<lparr>sbt_id = n, sbt_store_id = nsbt_store_id p, sbt_billing_type = nsbt_billing_type p\<rparr>]\<rparr>"
proof -
  obtain u where chk: "check_store acl ResStoreBillingType ActWrite (Some (nsbt_store_id p)) w = (Inr (), u)"
    and ins: "execute_serial SeqStoreBillingTypes (insert_billing_type p) u = (Inr x, t)"
    using assms by (auto simp: billing_types_create_def and_then_success repo_success)
  from execute_serial_success [OF ins] same_dbD [OF reading.keeps_check_store chk]
  show ?thesis
    by (intro exI [of _ "w_seqs u SeqStoreBillingTypes"]) (auto simp: insert_billing_type_def Let_def split: if_splits)
qed

lemma to_international_success:
  assumes "update_store_billing_type_to_international t_acl r_acl sid w = (Inr x, t)"
  shows "\<exists>n. w_db t = switch_to_international n sid (w_db w)"
proof -
  obtain found u where get: "billing_types_get t_acl (billing_type_by_store_id sid) w = (Inr found, u)"
    and rest: "(case map_option sbt_billing_type found of
       None \<Rightarrow> map_ok (\<lambda>_. ()) (svc (billing_types_create t_acl
                 \<lparr>nsbt_store_id = sid, nsbt_billing_type = BtInternational\<rparr>))
     | Some BtInternational \<Rightarrow> ok ()
     | Some BtRussia \<Rightarrow>
         and_then (svc (russia_delete r_acl (russia_by_store_id sid))) (\<lambda>_.
         set_billing_type t_acl sid BtInternational)) u = (Inr x, t)"
    using assms unfolding update_store_billing_type_to_international_def and_then_success svc_success by blast
  note seen = billing_types_get_success [OF get]
  show ?thesis
  proof (cases "map_option sbt_billing_type found")
    case None
    with rest obtain y where "billing_types_create t_acl \<lparr>nsbt_store_id = sid, nsbt_billing_type = BtInternational\<rparr> u = (Inr y, t)"
      by (auto simp: map_ok_success svc_success)
    from create_billing_type_success [OF this] None seen show ?thesis
      by (auto simp: switch_to_international_def)
  next
    case (Some bt)
    show ?thesis
    proof (cases bt)
      case BtInternational
      with rest Some seen show ?thesis by (auto simp: switch_to_international_def)
    next
      case BtRussia
      with rest Some obtain y v where del: "russia_delete r_acl (russia_by_store_id sid) u = (Inr y, v)"
        and set_to: "set_billing_type t_acl sid BtInternational v = (Inr x, t)"
        by (auto simp: and_then_success svc_success)
      from set_billing_type_success [OF set_to] russia_delete_success [OF del] Some BtRussia seen
      show ?thesis by (auto simp: switch_to_international_def)
    qed
  qed
qed

lemma to_russia_success:
  assumes "update_store_billing_type_to_russia t_acl i_acl sid w = (Inr x, t)"
  shows "\<exists>n. w_db t = switch_to_russia n sid (w_db w)"
proof -
  obtain found u where get: "billing_types_get t_acl (billing_type_by_store_id sid) w = (Inr found, u)"
    and rest: "(case map_option sbt_billing_type found of
       None \<Rightarrow> map_ok (\<lambda>_. ()) (svc (billing_types_create t_acl
                 \<lparr>nsbt_store_id = sid, nsbt_billing_type = BtRussia\<rparr>))
     | Some BtRussia \<Rightarrow> ok ()
     | Some BtInternational \<Rightarrow>
         and_then (svc (international_delete i_acl (international_by_store_id sid))) (\<lambda>_.
         set_billing_type t_acl sid BtRussia)) u = (Inr x, t)"
    using assms unfolding update_store_billing_type_to_russia_def and_then_success svc_success by blast
  note seen = billing_types_get_success [OF get]
  show ?thesis
  proof (cases "map_option sbt_billing_type found")
    case None
    with rest obtain y where "billing_types_create t_acl \<lparr>nsbt_store_id = sid, nsbt_billing_type = BtRussia\<rparr> u = (Inr y, t)"
      by (auto simp: map_ok_success svc_success)
    from create_billing_type_success [OF this] None seen show ?thesis
      by (auto simp: switch_to_russia_def)
  next
    case (Some bt)
    show ?thesis
    proof (cases bt)
      case BtRussia
      with rest Some seen show ?thesis by (auto simp: switch_to_russia_def)
    next
      case BtInternational
      with rest Some obtain y v where del: "international_delete i_acl (international_by_store_id sid) u = (Inr y, v)"
        and set_to: "set_billing_type t_acl sid BtRussia v = (Inr x, t)"
        by (auto simp: and_then_success svc_success)
      from set_billing_type_success [OF set_to] international_delete_success [OF del] Some BtInternational seen
      show ?thesis by (auto simp: switch_to_russia_def)
    qed
  qed
qed

section \<open>New bank details\<close>

definition has_international :: "'d db \<Rightarrow> int \<Rightarrow> bool" where
  "has_international d sid \<longleftrightarrow> sid \<in> ibi_store_id ` set (international_billing_infos d)"

definition has_russia :: "'d db \<Rightarrow> int \<Rightarrow> bool" where
  "has_russia d sid \<longleftrightarrow> sid \<in> rbi_store_id ` set (russia_billing_infos d)"

definition international_of :: "new_international_billing_info \<Rightarrow> int \<Rightarrow> international_billing_info" where
  "international_of p n =
     \<lparr>ibi_id = n, ibi_store_id = nibi_store_id p, ibi_account = nibi_account p,
      ibi_currency = nibi_currency p, ibi_name = nibi_name p, ibi_bank = nibi_bank p,
      ibi_swift = nibi_swift p, ibi_bank_address = nibi_bank_address p, ibi_country = nibi_country p,
      ibi_city = nibi_city p, ibi_recipient_address = nibi_recipient_address p\<rparr>"

definition russia_of :: "new_russia_billing_info \<Rightarrow> int \<Rightarrow> russia_billing_info" where
  "russia_of p n =
     \<lparr>rbi_id = n, rbi_store_id = nrbi_store_id p, rbi_bank_name = nrbi_bank_name p,
      rbi_branch_name = nrbi_branch_name p, rbi_swift_bic = nrbi_swift_bic p, rbi_tax_id = nrbi_tax_id p,
      rbi_correspondent_account = nrbi_correspondent_account p,
      rbi_current_account = nrbi_current_account p, rbi_personal_account = nrbi_personal_account p,
      rbi_beneficiary_full_name = nrbi_beneficiary_full_name p\<rparr>"

text \<open>The tables after the creation of the details.\<close>

definition international_added :: "new_international_billing_info \<Rightarrow> int \<Rightarrow> int \<Rightarrow> 'd db \<Rightarrow> 'd db" where
  "international_added p n k d =
     (switch_to_international n (nibi_store_id p) d)\<lparr>international_billing_infos :=
        international_billing_infos d @ [international_of p k]\<rparr>"

definition russia_added :: "new_russia_billing_info \<Rightarrow> int \<Rightarrow> int \<Rightarrow> 'd db \<Rightarrow> 'd db" where
  "russia_added p n k d =
     (switch_to_russia n (nrbi_store_id p) d)\<lparr>russia_billing_infos :=
        russia_billing_infos d @ [russia_of p k]\<rparr>"

lemma switch_frame [simp]:
  "international_billing_infos (switch_to_international n sid d) = international_billing_infos d"
  "russia_billing_infos (switch_to_russia n sid d) = russia_billing_infos d"
  by (simp_all add: switch_to_international_def switch_to_russia_def split: option.split billing_type.split)

lemma create_international_body:
  assumes "and_then (validate_create_international_billing_info i_acl p) (\<lambda>_.
      and_then (update_store_billing_type_to_international t_acl r_acl (nibi_store_id p)) (\<lambda>_.
      svc (international_create i_acl p))) w = (Inr i, t)"
  shows "\<not> has_international (w_db w) (nibi_store_id p) \<and>
    (\<exists>n k. i = international_of p k \<and> w_db t = international_added p n k (w_db w))"
proof -
  obtain u x v z where get: "international_get i_acl (international_by_store_id (nibi_store_id p)) w = (Inr None, u)"
    and sw: "update_store_billing_type_to_international t_acl r_acl (nibi_store_id p) u = (Inr x, v)"
    and chk: "check_store i_acl ResBillingInfo ActWrite (Some (nibi_store_id p)) v = (Inr (), z)"
    and ins: "execute_serial SeqInternationalBillingInfos (insert_international p) z = (Inr i, t)"
    using assms by (auto simp: validate_create_international_billing_info_def international_create_def
        and_then_success svc_success repo_success split: if_splits)
  from to_international_success [OF sw] international_get_success [OF get] obtain n where
    v: "w_db v = switch_to_international n (nibi_store_id p) (w_db w)"
    and none: "filter (\<lambda>r. ibi_store_id r = nibi_store_id p) (international_billing_infos (w_db w)) = []" by auto
  have "w_db z = w_db v" by (rule same_dbD [OF reading.keeps_check_store chk])
  with execute_serial_success [OF ins] v
  have "i = international_of p (w_seqs z SeqInternationalBillingInfos) \<and>
      w_db t = international_added p n (w_seqs z SeqInternationalBillingInfos) (w_db w)"
    by (auto simp: insert_international_def Let_def international_of_def international_added_def split: if_splits)
  with none show ?thesis by (auto simp: has_international_def filter_empty_conv)
qed

lemma create_russia_body:
  assumes "and_then (validate_create_russia_billing_info r_acl p) (\<lambda>_.
      and_then (update_store_billing_type_to_russia t_acl i_acl (nrbi_store_id p)) (\<lambda>_.
      svc (russia_create r_acl p))) w = (Inr i, t)"
  shows "\<not> has_russia (w_db w) (nrbi_store_id p) \<and>
    (\<exists>n k. i = russia_of p k \<and> w_db t = russia_added p n k (w_db w))"
proof -
  obtain u x v z where get: "russia_get r_acl (russia_by_store_id (nrbi_store_id p)) w = (Inr None, u)"
    and sw: "update_store_billing_type_to_russia t_acl i_acl (nrbi_store_id p) u = (Inr x, v)"
    and chk: "check_store r_acl ResBillingInfo ActWrite (Some (nrbi_store_id p)) v = (Inr (), z)"
    and ins: "execute_serial SeqRussiaBillingInfos (insert_russia p) z = (Inr i, t)"
    using assms by (auto simp: validate_create_russia_billing_info_def russia_create_def
        and_then_success svc_success repo_success split: if_splits)
  from to_russia_success [OF sw] russia_get_success [OF get] obtain n where
    v: "w_db v = switch_to_russia n (nrbi_store_id p) (w_db w)"
    and none: "filter (\<lambda>r. rbi_store_id r = nrbi_store_id p) (russia_billing_infos (w_db w)) = []" by auto
  have "w_db z = w_db v" by (rule same_dbD [OF reading.keeps_check_store chk])
  with execute_serial_success [OF ins] v
  have "i = russia_of p (w_seqs z SeqRussiaBillingInfos) \<and>
      w_db t = russia_added p n (w_seqs z SeqRussiaBillingInfos) (w_db w)"
    by (auto simp: insert_russia_def Let_def russia_of_def russia_added_def split: if_splits)
  with none show ?thesis by (auto simp: has_russia_def filter_empty_conv)
qed

lemma create_international_ends:
  "ends (create_international_billing_info user p) w (\<lambda>r t. w_db t = w_db w \<or>
     \<not> has_international (w_db w) (nibi_store_id p) \<and>
     (\<exists>n k. r = Inr (international_of p k) \<and> w_db t = international_added p n k (w_db w)))"
  unfolding create_international_billing_info_def
proof (intro ends_spawn ends_read_then reading.keeps_get_acl ends_transaction)
  fix a b c i and u t v1 v2 v3 :: "'a world"
  assume "w_db v1 = w_db (next_fault w)" "w_db v2 = w_db v1" "w_db v3 = w_db v2" "w_db t = w_db u"
    "and_then (validate_create_international_billing_info b p) (\<lambda>_.
      and_then (update_store_billing_type_to_international a c (nibi_store_id p)) (\<lambda>_.
      svc (international_create b p))) (inner_world v3) = (Inr i, u)"
  with create_international_body [of b p a c "inner_world v3" i u]
  show "w_db t = w_db w \<or> \<not> has_international (w_db w) (nibi_store_id p) \<and>
     (\<exists>n k. Inr i = Inr (international_of p k) \<and> w_db t = international_added p n k (w_db w))" by auto
qed simp_all

lemma create_russia_ends:
  "ends (create_russia_billing_info user p) w (\<lambda>r t. w_db t = w_db w \<or>
     \<not> has_russia (w_db w) (nrbi_store_id p) \<and>
     (\<exists>n k. r = Inr (russia_of p k) \<and> w_db t = russia_added p n k (w_db w)))"
  unfolding create_russia_billing_info_def
proof (intro ends_spawn ends_read_then reading.keeps_get_acl ends_transaction)
  fix a b c i and u t v1 v2 v3 :: "'a world"
  assume "w_db v1 = w_db (next_fault w)" "w_db v2 = w_db v1" "w_db v3 = w_db v2" "w_db t = w_db u"
    "and_then (validate_create_russia_billing_info c p) (\<lambda>_.
      and_then (update_store_billing_type_to_russia a b (nrbi_store_id p)) (\<lambda>_.
      svc (russia_create c p))) (inner_world v3) = (Inr i, u)"
  with create_russia_body [of c p a b "inner_world v3" i u]
  show "w_db t = w_db w \<or> \<not> has_russia (w_db w) (nrbi_store_id p) \<and>
     (\<exists>n k. Inr i = Inr (russia_of p k) \<and> w_db t = russia_added p n k (w_db w))" by auto
qed simp_all

section \<open>Preservation\<close>

lemma row_by_store_distinct:
  "distinct (map key rows) \<Longrightarrow> r \<in> set rows \<Longrightarrow> row_by (\<lambda>q. key q = key r) rows = Some r"
  by (induction rows) auto

lemma stores_typed_row:
  "stores_typed bt sids ts \<Longrightarrow> distinct (map sbt_store_id ts) \<Longrightarrow> sid \<in> sids \<Longrightarrow>
   map_option sbt_billing_type (row_by (\<lambda>t. sbt_store_id t = sid) ts) = Some bt"
  by (fastforce simp: stores_typed_def store_typed_def row_by_store_distinct)

lemma retype_simps [simp]:
  "sbt_store_id (retype sid bt t) = sbt_store_id t"
  "sbt_store_id t \<noteq> sid \<Longrightarrow> retype sid bt t = t"
  "sbt_store_id t = sid \<Longrightarrow> sbt_billing_type (retype sid bt t) = bt"
  by (simp_all add: retype_def)

lemma retype_map_store [simp]: "map sbt_store_id (map (retype sid bt) ts) = map sbt_store_id ts"
  by simp

lemma stores_typed_simps [simp]:
  "stores_typed bt {} ts"
  "stores_typed bt (insert sid S) ts \<longleftrightarrow> store_typed bt sid ts \<and> stores_typed bt S ts"
  by (auto simp: stores_typed_def)

lemma stores_typed_subset: "stores_typed bt S ts \<Longrightarrow> T \<subseteq> S \<Longrightarrow> stores_typed bt T ts"
  by (auto simp: stores_typed_def)

lemma stores_typed_append: "stores_typed bt S ts \<Longrightarrow> stores_typed bt S (ts @ xs)"
  by (auto simp: stores_typed_def store_typed_def)

lemma stores_typed_retype:
  assumes "stores_typed b S ts" and "sid \<notin> S"
  shows "stores_typed b S (map (retype sid bt) ts)"
  unfolding stores_typed_def
proof
  fix s
  assume "s \<in> S"
  with assms obtain t where t: "t \<in> set ts" "sbt_store_id t = s" "sbt_billing_type t = b" and "s \<noteq> sid"
    by (auto simp: stores_typed_def store_typed_def)
  then have "retype sid bt t = t" by simp
  with t show "store_typed b s (map (retype sid bt) ts)"
    unfolding store_typed_def by (metis image_eqI set_map)
qed

lemma store_typed_retyped:
  "row_by (\<lambda>t. sbt_store_id t = sid) ts = Some t \<Longrightarrow> store_typed bt sid (map (retype sid bt) ts)"
  by (auto simp: store_typed_def dest!: row_by_key)

lemma store_typed_found:
  "row_by (\<lambda>t. sbt_store_id t = sid) ts = Some t \<Longrightarrow> sbt_billing_type t = bt \<Longrightarrow> store_typed bt sid ts"
  by (auto simp: store_typed_def dest!: row_by_key)

lemma store_typed_new: "store_typed bt sid (ts @ [\<lparr>sbt_id = n, sbt_store_id = sid, sbt_billing_type = bt\<rparr>])"
  by (simp add: store_typed_def)

lemma type_cases:
  obtains "row_by p ts = None"
  | t where "row_by p ts = Some t" "sbt_billing_type t = BtInternational"
  | t where "row_by p ts = Some t" "sbt_billing_type t = BtRussia"
  by (metis billing_type.exhaust option.exhaust)

lemma typed_international_added:
  assumes d: "details_typed d" and none: "\<not> has_international d (nibi_store_id p)"
  shows "details_typed (international_added p n k d)"
proof -
  let ?sid = "nibi_store_id p" and ?ts = "store_billing_types d"
  have others: "?sid \<notin> ibi_store_id ` set (international_billing_infos d)"
    using none by (simp add: has_international_def)
  have sid: "ibi_store_id (international_of p k) = ?sid" by (simp add: international_of_def)
  show ?thesis
  proof (cases rule: type_cases [of "\<lambda>r. sbt_store_id r = ?sid" ?ts])
    case 1
    then have "?sid \<notin> sbt_store_id ` set ?ts" by (auto simp: row_by_None)
    with 1 d others sid show ?thesis
      by (simp add: details_typed_def international_added_def switch_to_international_def store_typed_new
          stores_typed_append)
  next
    case (2 t)
    with d others sid show ?thesis
      by (simp add: details_typed_def international_added_def switch_to_international_def store_typed_found)
  next
    case (3 t)
    have "stores_typed BtRussia (rbi_store_id ` {r \<in> set (russia_billing_infos d). rbi_store_id r \<noteq> ?sid})
        (map (retype ?sid BtInternational) ?ts)"
      using d by (intro stores_typed_retype) (auto simp: details_typed_def intro: stores_typed_subset)
    with 3 d others sid show ?thesis
      by (simp add: details_typed_def international_added_def switch_to_international_def store_typed_retyped
          stores_typed_retype distinct_map_filter del: map_map)
  qed
qed

lemma typed_russia_added:
  assumes d: "details_typed d" and none: "\<not> has_russia d (nrbi_store_id p)"
  shows "details_typed (russia_added p n k d)"
proof -
  let ?sid = "nrbi_store_id p" and ?ts = "store_billing_types d"
  have others: "?sid \<notin> rbi_store_id ` set (russia_billing_infos d)"
    using none by (simp add: has_russia_def)
  have sid: "rbi_store_id (russia_of p k) = ?sid" by (simp add: russia_of_def)
  show ?thesis
  proof (cases rule: type_cases [of "\<lambda>r. sbt_store_id r = ?sid" ?ts])
    case 1
    then have "?sid \<notin> sbt_store_id ` set ?ts" by (auto simp: row_by_None)
    with 1 d others sid show ?thesis
      by (simp add: details_typed_def russia_added_def switch_to_russia_def store_typed_new stores_typed_append)
  next
    case (2 t)
    have "stores_typed BtInternational (ibi_store_id ` {r \<in> set (international_billing_infos d). ibi_store_id r \<noteq> ?sid})
        (map (retype ?sid BtRussia) ?ts)"
      using d by (intro stores_typed_retype) (auto simp: details_typed_def intro: stores_typed_subset)
    with 2 d others sid show ?thesis
      by (simp add: details_typed_def russia_added_def switch_to_russia_def store_typed_retyped
          stores_typed_retype distinct_map_filter del: map_map)
  next
    case (3 t)
    with d others sid show ?thesis
      by (simp add: details_typed_def russia_added_def switch_to_russia_def store_typed_found)
  qed
qed

definition typing :: "'d world \<Rightarrow> 'd world \<Rightarrow> bool" where
  "typing s t \<longleftrightarrow> (details_typed (w_db s) \<longrightarrow> details_typed (w_db t))"

interpretation typings: world_relation typing
  by unfold_locales (auto simp: typing_def)

lemma changes_keep_store [simp]:
  "ibi_store_id (update_international_billing_info_changes u i) = ibi_store_id i"
  "rbi_store_id (update_russia_billing_info_changes v r) = rbi_store_id r"
  by (simp_all add: update_international_billing_info_changes_def update_russia_billing_info_changes_def)

lemma details_typed_cong:
  assumes "store_billing_types e = store_billing_types d"
    and "map ibi_store_id (international_billing_infos e) = map ibi_store_id (international_billing_infos d)"
    and "map rbi_store_id (russia_billing_infos e) = map rbi_store_id (russia_billing_infos d)"
  shows "details_typed e = details_typed d"
  unfolding details_typed_def assms ..

lemma details_typed_updates [simp]:
  "details_typed (d\<lparr>international_billing_infos := map (\<lambda>r. if q r
     then update_international_billing_info_changes u r else r) (international_billing_infos d)\<rparr>) = details_typed d"
  "details_typed (d\<lparr>russia_billing_infos := map (\<lambda>r. if q' r
     then update_russia_billing_info_changes v r else r) (russia_billing_infos d)\<rparr>) = details_typed d"
  by (rule details_typed_cong; simp)+

lemma typing_update_international: "keeps typing (update_international_billing user i u)"
proof -
  have "keeps typing (update_set (uibi_is_empty u) international_billing_infos set_international_billing_infos q
      (update_international_billing_info_changes u))" for q
    by (intro typings.keeps_update_set) (simp add: typing_def)
  then show ?thesis
    unfolding update_international_billing_def international_update_row_def by (intro keeps_intros)
qed

lemma typing_update_russia: "keeps typing (update_russia_billing user i u)"
proof -
  have "keeps typing (update_set (urbi_is_empty u) russia_billing_infos set_russia_billing_infos q
      (update_russia_billing_info_changes u))" for q
    by (intro typings.keeps_update_set) (simp add: typing_def)
  then show ?thesis
    unfolding update_russia_billing_def russia_update_row_def by (intro keeps_intros)
qed

text \<open>The requests that write bank details.\<close>

datatype details_request =
    CreateInternational new_international_billing_info
  | CreateRussia new_russia_billing_info
  | UpdateInternational int update_international_billing_info
  | UpdateRussia int update_russia_billing_info

fun run_details_request :: "stq_user_id option \<times> details_request \<Rightarrow> 'd world \<Rightarrow> 'd world" where
  "run_details_request (user, CreateInternational p) w = snd (create_international_billing_info user p w)"
| "run_details_request (user, CreateRussia p) w = snd (create_russia_billing_info user p w)"
| "run_details_request (user, UpdateInternational i u) w = snd (update_international_billing user i u w)"
| "run_details_request (user, UpdateRussia i u) w = snd (update_russia_billing user i u w)"

lemma typed_create_international:
  "create_international_billing_info user p w = (r, t) \<Longrightarrow> details_typed (w_db w) \<Longrightarrow> details_typed (w_db t)"
  using endsD [OF create_international_ends] typed_international_added by fastforce

lemma typed_create_russia:
  "create_russia_billing_info user p w = (r, t) \<Longrightarrow> details_typed (w_db w) \<Longrightarrow> details_typed (w_db t)"
  using endsD [OF create_russia_ends] typed_russia_added by fastforce

lemma typed_update_international:
  "update_international_billing user i u w = (r, t) \<Longrightarrow> details_typed (w_db w) \<Longrightarrow> details_typed (w_db t)"
  using keepsD [OF typing_update_international] by (fastforce simp: typing_def)

lemma typed_update_russia:
  "update_russia_billing user i u w = (r, t) \<Longrightarrow> details_typed (w_db w) \<Longrightarrow> details_typed (w_db t)"
  using keepsD [OF typing_update_russia] by (fastforce simp: typing_def)

lemmas typed_requests = typed_create_international typed_create_russia typed_update_international typed_update_russia

lemma typed_request: "details_typed (w_db w) \<Longrightarrow> details_typed (w_db (run_details_request q w))"
  by (cases "(q, w)" rule: run_details_request.cases) (simp_all add: typed_requests [OF surjective_pairing])

text \<open>C18: Whatever requests write bank details, and whichever statements fail, every store keeps at most one
  billing type and at most one row of details of each kind, and the details are of the kind of its type:
  a store never has international and Russian details at once.\<close>

theorem details_follow_type:
  assumes "details_typed (w_db w)"
  shows "details_typed (w_db (fold run_details_request requests w)) \<and>
    \<not> (has_international (w_db (fold run_details_request requests w)) sid \<and>
       has_russia (w_db (fold run_details_request requests w)) sid)"
proof -
  have typed: "details_typed (w_db (fold run_details_request requests w))"
    using assms by (induction requests arbitrary: w) (simp_all add: typed_request)
  let ?d = "w_db (fold run_details_request requests w)"
  have "\<not> has_russia ?d sid" if "has_international ?d sid"
    using that typed stores_typed_row [of BtInternational _ "store_billing_types ?d" sid]
      stores_typed_row [of BtRussia _ "store_billing_types ?d" sid]
    unfolding has_international_def has_russia_def details_typed_def set_map
    by (metis billing_type.distinct(1) option.inject)
  with typed show ?thesis by blast
qed

definition russian_details :: new_russia_billing_info where
  "russian_details = \<lparr>nrbi_store_id = 7, nrbi_bank_name = ''bank'', nrbi_branch_name = None,
     nrbi_swift_bic = ''bic'', nrbi_tax_id = ''inn'', nrbi_correspondent_account = ''1'',
     nrbi_current_account = ''2'', nrbi_personal_account = None, nrbi_beneficiary_full_name = ''name''\<rparr>"

theorem details_follow_type_witness:
  "details_typed (w_db (fold run_details_request [(Some 1, CreateRussia russian_details)] empty_world)) \<and>
   \<not> (has_international (w_db (fold run_details_request [(Some 1, CreateRussia russian_details)] empty_world)) 7 \<and>
      has_russia (w_db (fold run_details_request [(Some 1, CreateRussia russian_details)] empty_world)) 7)"
  by (rule details_follow_type) (simp add: details_typed_def empty_db_def)

definition details_of_store ::
  "'d db \<Rightarrow> int \<Rightarrow> billing_type list \<times> international_billing_info list \<times> russia_billing_info list" where
  "details_of_store d sid =
     (map sbt_billing_type (filter (\<lambda>t. sbt_store_id t = sid) (store_billing_types d)),
      filter (\<lambda>i. ibi_store_id i = sid) (international_billing_infos d),
      filter (\<lambda>r. rbi_store_id r = sid) (russia_billing_infos d))"

lemma typed_single_type:
  assumes "details_typed d" and "row_by (\<lambda>t. sbt_store_id t = sid) (store_billing_types d) = Some t"
  shows "filter (\<lambda>t. sbt_store_id t = sid) (store_billing_types d) = [t]"
proof -
  have "distinct (map sbt_store_id ts) \<Longrightarrow> row_by (\<lambda>t. sbt_store_id t = sid) ts = Some t \<Longrightarrow>
      filter (\<lambda>t. sbt_store_id t = sid) ts = [t]" for ts
    by (induction ts) (auto simp: filter_empty_conv image_iff split: if_splits)
  with assms show ?thesis by (simp add: details_typed_def)
qed

lemma filter_retype: "filter (\<lambda>t. sbt_store_id t = sid) (map (retype s bt) ts) =
    map (retype s bt) (filter (\<lambda>t. sbt_store_id t = sid) ts)"
  by (induction ts) auto

text \<open>New Russian details concern their store alone: a request that succeeds leaves the store with the new
  row only, no international details and the Russian type, and every other store as it was; any other
  request leaves the tables as they were.\<close>

theorem create_russia_replaces_details:
  assumes "details_typed (w_db w)"
  shows "ends (create_russia_billing_info user p) w (\<lambda>r t. w_db t = w_db w \<or>
    (\<exists>k. r = Inr (russia_of p k) \<and>
       details_of_store (w_db t) (nrbi_store_id p) = ([BtRussia], [], [russia_of p k]) \<and>
       (\<lambda>sid. if sid = nrbi_store_id p then ([], [], []) else details_of_store (w_db t) sid) =
       (\<lambda>sid. if sid = nrbi_store_id p then ([], [], []) else details_of_store (w_db w) sid)))"
proof (rule ends_mono [OF create_russia_ends])
  let ?sid = "nrbi_store_id p" and ?d = "w_db w"
  fix r and t :: "'a world"
  assume run: "w_db t = ?d \<or> \<not> has_russia ?d ?sid \<and> (\<exists>n k. r = Inr (russia_of p k) \<and> w_db t = russia_added p n k ?d)"
  have added: "details_of_store (russia_added p n k ?d) ?sid = ([BtRussia], [], [russia_of p k]) \<and>
      (\<forall>sid. sid \<noteq> ?sid \<longrightarrow> details_of_store (russia_added p n k ?d) sid = details_of_store ?d sid)"
    if none: "\<not> has_russia ?d ?sid" for n k
  proof -
    have r_none: "filter (\<lambda>r. rbi_store_id r = ?sid) (russia_billing_infos ?d) = []"
      using none unfolding has_russia_def filter_empty_conv by (metis image_eqI)
    have i_none: "filter (\<lambda>i. ibi_store_id i = ?sid) (international_billing_infos ?d) = []"
      if "map_option sbt_billing_type (row_by (\<lambda>t. sbt_store_id t = ?sid) (store_billing_types ?d)) \<noteq> Some BtInternational"
    proof (rule ccontr)
      assume "\<not> ?thesis"
      then obtain i where "i \<in> set (international_billing_infos ?d)" "ibi_store_id i = ?sid"
        by (auto simp: filter_empty_conv)
      then have "?sid \<in> set (map ibi_store_id (international_billing_infos ?d))" by (metis image_eqI set_map)
      with that assms stores_typed_row show False unfolding details_typed_def by blast
    qed
    show ?thesis
    proof (cases rule: type_cases [of "\<lambda>r. sbt_store_id r = ?sid" "store_billing_types ?d"])
      case 1
      then have "filter (\<lambda>t. sbt_store_id t = ?sid) (store_billing_types ?d) = []"
        by (simp add: row_by_None filter_empty_conv)
      with 1 i_none r_none show ?thesis
        by (simp add: details_of_store_def russia_added_def switch_to_russia_def russia_of_def)
    next
      case (2 t)
      from row_by_key [OF 2(1)] have "sbt_store_id t = ?sid" ..
      with 2 r_none typed_single_type [OF assms 2(1)] show ?thesis
        by (auto simp: details_of_store_def russia_added_def switch_to_russia_def russia_of_def filter_retype
            conj_commute filter_id_conv intro!: filter_cong)
    next
      case (3 t)
      with i_none r_none typed_single_type [OF assms 3(1)] show ?thesis
        by (simp add: details_of_store_def russia_added_def switch_to_russia_def russia_of_def)
    qed
  qed
  from run added show "w_db t = ?d \<or> (\<exists>k. r = Inr (russia_of p k) \<and>
       details_of_store (w_db t) ?sid = ([BtRussia], [], [russia_of p k]) \<and>
       (\<lambda>sid. if sid = ?sid then ([], [], []) else details_of_store (w_db t) sid) =
       (\<lambda>sid. if sid = ?sid then ([], [], []) else details_of_store ?d sid))"
    by (auto simp: fun_eq_iff)
qed

definition international_world :: "rat world" where
  "international_world = initial_world (empty_db\<lparr>
     store_billing_types := [\<lparr>sbt_id = 1, sbt_store_id = 7, sbt_billing_type = BtInternational\<rparr>],
     international_billing_infos := [\<lparr>ibi_id = 1, ibi_store_id = 7, ibi_account = ''1'', ibi_currency = STQ_EUR,
       ibi_name = ''n'', ibi_bank = ''b'', ibi_swift = ''s'', ibi_bank_address = ''a'', ibi_country = ''c'',
       ibi_city = ''t'', ibi_recipient_address = ''r''\<rparr>]\<rparr>)"

theorem create_russia_replaces_details_witness:
  "has_international (w_db international_world) 7 \<and>
   ends (create_russia_billing_info (Some 1) russian_details) international_world (\<lambda>r t. w_db t = w_db international_world \<or>
    (\<exists>k. r = Inr (russia_of russian_details k) \<and>
       details_of_store (w_db t) (nrbi_store_id russian_details) = ([BtRussia], [], [russia_of russian_details k]) \<and>
       (\<lambda>sid. if sid = nrbi_store_id russian_details then ([], [], []) else details_of_store (w_db t) sid) =
       (\<lambda>sid. if sid = nrbi_store_id russian_details then ([], [], [])
          else details_of_store (w_db international_world) sid)))"
proof
  show "has_international (w_db international_world) 7"
    by (simp add: has_international_def international_world_def initial_world_def)
  show "ends (create_russia_billing_info (Some 1) russian_details) international_world (\<lambda>r t. w_db t = w_db international_world \<or>
    (\<exists>k. r = Inr (russia_of russian_details k) \<and>
       details_of_store (w_db t) (nrbi_store_id russian_details) = ([BtRussia], [], [russia_of russian_details k]) \<and>
       (\<lambda>sid. if sid = nrbi_store_id russian_details then ([], [], []) else details_of_store (w_db t) sid) =
       (\<lambda>sid. if sid = nrbi_store_id russian_details then ([], [], [])
          else details_of_store (w_db international_world) sid)))"
    by (rule create_russia_replaces_details)
       (simp add: details_typed_def store_typed_def international_world_def initial_world_def empty_db_def)
qed

section \<open>Who may search\<close>

text \<open>The search of billing types asks for the permission without naming a store, so a user who is not a
  superuser or a financial manager is refused, also a manager of a store who may read the billing type
  of that store one by one; the search of orders with their bank details depends on it.\<close>

theorem billing_types_search_refuses_owners:
  assumes "set rs \<subseteq> {User, StoreManager}"
  shows "billing_types_search (ApplicationAcl rs uid) s w = (Inl RForbidden, w)"
proof -
  have "\<not> permitted rs ResStoreBillingType ActRead (\<lambda>sc. sc = ScopeAll)"
  proof -
    have "\<not> list_ex (\<lambda>p. p_scope p = ScopeAll) (filter (\<lambda>p. p_resource p = ResStoreBillingType \<and>
        (p_action p = ActRead \<or> p_action p = ActAll)) (acls r))" if "r \<in> {User, StoreManager}" for r
      using that by (auto simp: acls.simps permission1_def permission2_def permission3_def)
    with assms show ?thesis
      by (fastforce simp: permitted_def matching_permissions_def list_ex_iff)
  qed
  moreover have "stores_in_scope uid sc None w = (Inr (sc = ScopeAll), w)" for sc
    by (cases sc) (simp_all add: stores_in_scope_def ok_apply)
  ultimately show ?thesis
    by (simp add: billing_types_search_def check_run [where b = "\<lambda>sc. sc = ScopeAll"] and_then_def)
qed

theorem billing_types_search_refuses_owners_witness:
  "billing_types_search (ApplicationAcl [User, StoreManager] 1) (billing_type_by_store_ids [7]) empty_world =
     (Inl RForbidden, empty_world) \<and>
   permitted [User, StoreManager] ResStoreBillingType ActRead (\<lambda>sc. sc = ScopeOwned)"
proof
  show "billing_types_search (ApplicationAcl [User, StoreManager] 1) (billing_type_by_store_ids [7]) empty_world =
     (Inl RForbidden, empty_world)"
    by (rule billing_types_search_refuses_owners) simp
qed (simp add: permitted_def matching_permissions_def acls.simps permission1_def permission2_def permission3_def)

end
