(* ===== verification/PaymentsGateway.thy ===== *)
theory PaymentsGateway
  imports "HOL-Library.AList" Prelude Currencies Amounts Models Clients World Services Triples
begin

text \<open>
  \<open>client/payments/mod.rs\<close> and \<open>client/payments/mock.rs\<close>: the client of the payments gateway, with
  signed requests over HTTP, and the gateway in memory that takes its place under test. The HTTP
  client, the hash and the signature are parameters.
\<close>

section \<open>Signed requests\<close>

datatype http_method = Get | Post | Delete

text \<open>The JSON that the client sends; \<open>EmptyObject\<close> is \<open>json!({})\<close>.\<close>

datatype gateway_body =
    EmptyObject
  | BodyCreateAccount create_account
  | BodyGetRate get_rate_request
  | BodyRateId exchange_id
  | BodyGetFees get_fees_request
  | BodyTransaction create_transaction_request_body

text \<open>The JSON of a response, by the types that the client may ask for; \<open>null\<close> is the empty response.\<close>

datatype 'd gateway_response =
    RespAccount account_response
  | RespAccounts "account_response list"
  | RespRate get_rate_response
  | RespRefresh get_rate_response bool
  | RespFees "'d payments_fee list"
  | RespTransaction transactions_response
  | RespNull

record http_request =
  hr_method :: http_method
  hr_url :: string
  hr_body :: gateway_body
  hr_authorization :: string
  hr_timestamp :: string
  hr_device_id :: string
  hr_sign :: string

text \<open>The requests sent so far, and the times that the clock will return.\<close>

record wire =
  wire_sent :: "http_request list"
  wire_clock :: "nat \<Rightarrow> timestamp"

record 'd payments_client =
  pc_http :: "http_request list \<Rightarrow> http_request \<Rightarrow> client_error + 'd gateway_response"
  pc_url :: string
  pc_user_id :: i32
  pc_user_jwt :: string
  pc_sign :: "string \<Rightarrow> string"
  pc_device_id :: string
  pc_hyphenated :: "uuid \<Rightarrow> string"
  pc_bigdecimal :: "'d bigdecimal"

definition MAX_ACCOUNTS :: nat where "MAX_ACCOUNTS = 1000000"

definition timestamp_text :: "timestamp \<Rightarrow> string" where
  "timestamp_text t = show_int (t div 1000000)"

text \<open>\<open>pc_sign\<close> is the signature of the hash of its argument with the key of the user.\<close>

definition signed_request ::
  "'d payments_client \<Rightarrow> timestamp \<Rightarrow> http_method \<Rightarrow> string \<Rightarrow> gateway_body \<Rightarrow> http_request" where
  "signed_request pc now m query body =
     \<lparr>hr_method = m, hr_url = pc_url pc @ query, hr_body = body,
      hr_authorization = ''Bearer '' @ pc_user_jwt pc, hr_timestamp = timestamp_text now,
      hr_device_id = pc_device_id pc, hr_sign = pc_sign pc (timestamp_text now @ pc_device_id pc)\<rparr>"

definition request_with_auth ::
  "'d payments_client \<Rightarrow> http_method \<Rightarrow> string \<Rightarrow> gateway_body \<Rightarrow>
   (wire, client_error, 'd gateway_response) comp" where
  "request_with_auth pc m query body =
     (\<lambda>s. let q = signed_request pc (wire_clock s 0) m query body in
        (map_sum (\<lambda>_. CInternal) id (pc_http pc (wire_sent s) q),
         s\<lparr>wire_sent := wire_sent s @ [q], wire_clock := (\<lambda>n. wire_clock s (Suc n))\<rparr>))"

section \<open>The client\<close>

text \<open>A response that has not the expected shape is an error.\<close>

definition expect_account :: "'d gateway_response \<Rightarrow> client_error + payments_account" where
  "expect_account r =
     (case r of RespAccount a \<Rightarrow> map_sum (\<lambda>_. CInternal) id (try_into_account a) | _ \<Rightarrow> Inl CInternal)"

definition expect_accounts :: "'d gateway_response \<Rightarrow> client_error + payments_account list" where
  "expect_accounts r =
     (case r of
        RespAccounts as \<Rightarrow> result_map (\<lambda>a. map_sum (\<lambda>_. CInternal) id (try_into_account a)) as
      | _ \<Rightarrow> Inl CInternal)"

definition expect_unit :: "'d gateway_response \<Rightarrow> client_error + unit" where
  "expect_unit r = (case r of RespNull \<Rightarrow> Inr () | _ \<Rightarrow> Inl CInternal)"

definition expect_transaction :: "'d gateway_response \<Rightarrow> client_error + transactions_response" where
  "expect_transaction r = (case r of RespTransaction t \<Rightarrow> Inr t | _ \<Rightarrow> Inl CInternal)"

definition expect_transaction_option :: "'d gateway_response \<Rightarrow> client_error + transactions_response option" where
  "expect_transaction_option r =
     (case r of RespTransaction t \<Rightarrow> Inr (Some t) | RespNull \<Rightarrow> Inr None | _ \<Rightarrow> Inl CInternal)"

definition expect_fees :: "'d gateway_response \<Rightarrow> client_error + 'd payments_fee list" where
  "expect_fees r = (case r of RespFees fs \<Rightarrow> Inr fs | _ \<Rightarrow> Inl CInternal)"

text \<open>The conversion of a number that is not finite panics: JSON has no such number.\<close>

definition expect_rate :: "'d payments_client \<Rightarrow> 'd gateway_response \<Rightarrow> client_error + 'd pc_rate" where
  "expect_rate pc r =
     (case r of
        RespRate g \<Rightarrow> (case rate_of_response (pc_bigdecimal pc) g of None \<Rightarrow> Inl CInternal | Some x \<Rightarrow> Inr x)
      | _ \<Rightarrow> Inl CInternal)"

definition expect_refresh :: "'d payments_client \<Rightarrow> 'd gateway_response \<Rightarrow> client_error + 'd rate_refresh" where
  "expect_refresh pc r =
     (case r of
        RespRefresh g new \<Rightarrow>
          (case rate_of_response (pc_bigdecimal pc) g of
             None \<Rightarrow> Inl CInternal
           | Some x \<Rightarrow> Inr \<lparr>rr_rate = x, rr_is_new_rate = new\<rparr>)
      | _ \<Rightarrow> Inl CInternal)"

definition client_get_account :: "'d payments_client \<Rightarrow> uuid \<Rightarrow> (wire, client_error, payments_account) comp" where
  "client_get_account pc u =
     and_then (request_with_auth pc Get (''/v1/accounts/'' @ pc_hyphenated pc u) EmptyObject) (\<lambda>r.
     of_result (expect_account r))"

definition client_list_accounts :: "'d payments_client \<Rightarrow> (wire, client_error, payments_account list) comp" where
  "client_list_accounts pc =
     and_then (request_with_auth pc Get (''/v1/users/'' @ show_nat (unat (pc_user_id pc)) @
       ''/accounts?offset=0&limit='' @ show_nat MAX_ACCOUNTS) EmptyObject) (\<lambda>r.
     of_result (expect_accounts r))"

definition client_create_account ::
  "'d payments_client \<Rightarrow> create_account \<Rightarrow> (wire, client_error, payments_account) comp" where
  "client_create_account pc input =
     and_then (request_with_auth pc Post (''/v1/users/'' @ show_nat (unat (pc_user_id pc)) @ ''/accounts'')
       (BodyCreateAccount input)) (\<lambda>r.
     of_result (expect_account r))"

definition client_delete_account :: "'d payments_client \<Rightarrow> uuid \<Rightarrow> (wire, client_error, unit) comp" where
  "client_delete_account pc u =
     and_then (request_with_auth pc Delete (''/v1/accounts/'' @ pc_hyphenated pc u) EmptyObject) (\<lambda>r.
     of_result (expect_unit r))"

definition client_get_rate ::
  "'d payments_client \<Rightarrow> get_rate_request \<Rightarrow> (wire, client_error, 'd pc_rate) comp" where
  "client_get_rate pc input =
     and_then (request_with_auth pc Post ''/v1/rate'' (BodyGetRate input)) (\<lambda>r. of_result (expect_rate pc r))"

definition client_refresh_rate ::
  "'d payments_client \<Rightarrow> exchange_id \<Rightarrow> (wire, client_error, 'd rate_refresh) comp" where
  "client_refresh_rate pc x =
     and_then (request_with_auth pc Post ''/v1/rate/refresh'' (BodyRateId x)) (\<lambda>r.
     of_result (expect_refresh pc r))"

definition client_get_fees ::
  "'d payments_client \<Rightarrow> get_fees_request \<Rightarrow> (wire, client_error, 'd payments_fee list) comp" where
  "client_get_fees pc input =
     and_then (request_with_auth pc Post ''/v1/fees'' (BodyGetFees input)) (\<lambda>r. of_result (expect_fees r))"

definition client_get_transaction ::
  "'d payments_client \<Rightarrow> uuid \<Rightarrow> (wire, client_error, transactions_response option) comp" where
  "client_get_transaction pc u =
     and_then (request_with_auth pc Get (''/v1/transactions/'' @ pc_hyphenated pc u) EmptyObject) (\<lambda>r.
     of_result (expect_transaction_option r))"

definition client_create_external_transaction ::
  "'d payments_client \<Rightarrow> create_external_transaction \<Rightarrow> (wire, client_error, unit) comp" where
  "client_create_external_transaction pc input =
     and_then (request_with_auth pc Post ''/v1/transactions''
       (BodyTransaction (new_external input (pc_user_id pc)))) (\<lambda>r.
     map_ok (\<lambda>_. ()) (of_result (expect_transaction_option r)))"

text \<open>\<open>Future::join\<close> starts both requests; the second is sent also when the first one fails.\<close>

definition join_accounts ::
  "'d payments_client \<Rightarrow> uuid \<Rightarrow> uuid \<Rightarrow> (wire, client_error, payments_account \<times> payments_account) comp" where
  "join_accounts pc from to =
     then_res (client_get_account pc from) (\<lambda>a.
     then_res (client_get_account pc to) (\<lambda>b.
     case a of
       Inl e \<Rightarrow> err e
     | Inr x \<Rightarrow> (case b of Inl e \<Rightarrow> err e | Inr y \<Rightarrow> ok (x, y))))"

definition client_create_internal_transaction ::
  "'d payments_client \<Rightarrow> create_internal_transaction \<Rightarrow> (wire, client_error, unit) comp" where
  "client_create_internal_transaction pc input =
     and_then (join_accounts pc (cit_from input) (cit_to input)) (\<lambda>(from, to).
     if pa_currency from \<noteq> pa_currency to then err CInternal
     else and_then (request_with_auth pc Post ''/v1/transactions''
            (BodyTransaction (new_internal (pc_hyphenated pc) input (pa_currency from) (pc_user_id pc)))) (\<lambda>r.
          map_ok (\<lambda>_. ()) (of_result (expect_transaction r))))"

section \<open>The gateway in memory\<close>

text \<open>The hash maps are association lists, their values come in no particular order.\<close>

record 'd mock_state =
  ms_accounts :: "(uuid \<times> payments_account) list"
  ms_txs :: "(uuid \<times> transactions_response) list"
  ms_rates :: "(uuid \<times> 'd pc_rate) list"
  ms_clock :: "nat \<Rightarrow> timestamp"

definition put_account :: "uuid \<Rightarrow> payments_account \<Rightarrow> 'd mock_state \<Rightarrow> 'd mock_state" where
  "put_account u a s = s\<lparr>ms_accounts := AList.update u a (ms_accounts s)\<rparr>"

definition put_tx :: "uuid \<Rightarrow> transactions_response \<Rightarrow> 'd mock_state \<Rightarrow> 'd mock_state" where
  "put_tx u x s = s\<lparr>ms_txs := AList.update u x (ms_txs s)\<rparr>"

definition mock_now :: "('d mock_state, client_error, timestamp) comp" where
  "mock_now = (\<lambda>s. (Inr (ms_clock s 0), s\<lparr>ms_clock := (\<lambda>n. ms_clock s (Suc n))\<rparr>))"

definition mock_get_account :: "uuid \<Rightarrow> ('d mock_state, client_error, payments_account) comp" where
  "mock_get_account u = and_then (get_state (\<lambda>s. map_of (ms_accounts s) u)) (ok_or CInternal)"

definition mock_list_accounts :: "('d mock_state, client_error, payments_account list) comp" where
  "mock_list_accounts = get_state (\<lambda>s. map snd (ms_accounts s))"

fun mock_initial_balance :: "ture_currency \<Rightarrow> amount" where
  "mock_initial_balance TureEth = Amount 1000000000000000000000"
| "mock_initial_balance TureStq = Amount 100000000000000000000000000"
| "mock_initial_balance TureBtc = Amount 10000000000"

definition mock_create_account ::
  "create_account \<Rightarrow> ('d mock_state, client_error, payments_account) comp" where
  "mock_create_account input =
     (let a = \<lparr>pa_id = ca_id input, pa_balance = mock_initial_balance (ca_currency input),
               pa_currency = ca_currency input, pa_name = ca_name input,
               pa_account_address = WalletAddress (''wallet_address_'' @ ca_name input)\<rparr>
      in and_then (modify (put_account (ca_id input) a)) (\<lambda>_. ok a))"

definition mock_delete_account :: "uuid \<Rightarrow> ('d mock_state, client_error, unit) comp" where
  "mock_delete_account u = modify (\<lambda>s. s\<lparr>ms_accounts := AList.delete u (ms_accounts s)\<rparr>)"

text \<open>The constants of the table, as the binary fractions that the compiler makes of them.\<close>

definition mock_rate :: "'d bigdecimal \<Rightarrow> ture_currency \<Rightarrow> ture_currency \<Rightarrow> 'd option" where
  "mock_rate D from to =
     (case (from, to) of
        (TureStq, TureBtc) \<Rightarrow> bd_from_f64 D (Finite 5289050460814003 (- 76))
      | (TureStq, TureEth) \<Rightarrow> bd_from_f64 D (Finite 4722366482869645 (- 72))
      | (TureBtc, TureStq) \<Rightarrow> bd_from_f64 D (Finite 7669584457142857 (- 29))
      | (TureBtc, TureEth) \<Rightarrow> Some (bd_from_int D 26)
      | (TureEth, TureStq) \<Rightarrow> bd_from_f64 D (Finite 1000000 0)
      | (TureEth, TureBtc) \<Rightarrow> bd_from_f64 D (Finite 5764607523034235 (- 57))
      | _ \<Rightarrow> Some (bd_from_int D 1))"

text \<open>Midnight of the first of January 2100.\<close>

definition mock_expiration :: timestamp where "mock_expiration = 4102444800000000"

definition mock_get_rate ::
  "'d bigdecimal \<Rightarrow> get_rate_request \<Rightarrow> ('d mock_state, client_error, 'd pc_rate) comp" where
  "mock_get_rate D input =
     and_then (ok_or CInternal (mock_rate D (gr_from input) (gr_to input))) (\<lambda>rate.
     and_then mock_now (\<lambda>created.
     and_then mock_now (\<lambda>updated.
     let r = \<lparr>rt_id = gr_id input, rt_from = gr_from input, rt_to = gr_to input,
              rt_amount = gr_amount input, rt_rate = rate, rt_expiration = mock_expiration,
              rt_created_at = created, rt_updated_at = updated\<rparr>
     in and_then (modify (\<lambda>s. s\<lparr>ms_rates := AList.update (gr_id input) r (ms_rates s)\<rparr>)) (\<lambda>_. ok r))))"

definition mock_refresh_rate :: "exchange_id \<Rightarrow> ('d mock_state, client_error, 'd rate_refresh) comp" where
  "mock_refresh_rate x =
     map_ok (\<lambda>r. \<lparr>rr_rate = r, rr_is_new_rate = False\<rparr>)
       (and_then (get_state (\<lambda>s. map_of (ms_rates s) (exchange_uuid x))) (ok_or CInternal))"

definition mock_get_fees ::
  "'d bigdecimal \<Rightarrow> get_fees_request \<Rightarrow> ('d mock_state, client_error, 'd payments_fee list) comp" where
  "mock_get_fees D input =
     ok [\<lparr>pf_value = bd_from_int D 1, pf_estimated_time = 3600\<rparr>,
         \<lparr>pf_value = bd_from_int D 100, pf_estimated_time = 60\<rparr>,
         \<lparr>pf_value = bd_from_int D 10000, pf_estimated_time = 1\<rparr>]"

definition mock_get_transaction ::
  "uuid \<Rightarrow> ('d mock_state, client_error, transactions_response option) comp" where
  "mock_get_transaction u = get_state (\<lambda>s. map_of (ms_txs s) u)"

definition mock_create_external_transaction ::
  "create_external_transaction \<Rightarrow> ('d mock_state, client_error, unit) comp" where
  "mock_create_external_transaction input =
     modify (put_tx (cet_id input)
       \<lparr>tr_id = cet_id input,
        tr_from = [\<lparr>tai_account_id = Some (cet_from input), tai_owner_name = None, tai_blockchain_address = []\<rparr>],
        tr_to = \<lparr>tai_account_id = None, tai_owner_name = None,
                 tai_blockchain_address = wallet_inner (cet_to input)\<rparr>,
        tr_from_value = amount_display (cet_amount input), tr_from_currency = cet_currency input,
        tr_to_value = amount_display (cet_amount input), tr_to_currency = cet_currency input,
        tr_fee = amount_display (cet_fee input), tr_status = ''completed''\<rparr>)"

definition quoted :: "string \<Rightarrow> string" where
  "quoted s = CHR 0x27 # s @ [CHR 0x27]"

definition mock_invalid :: "string \<Rightarrow> client_error" where
  "mock_invalid msg = CValidation [(''message'', msg)]"

text \<open>Both accounts are looked up with the identifier of the source.\<close>

definition mock_create_internal_transaction ::
  "create_internal_transaction \<Rightarrow> ('d mock_state, client_error, unit) comp" where
  "mock_create_internal_transaction input =
     (let from = cit_from input; to = cit_to input; amount = cit_amount input in
      and_then (get_state (\<lambda>s. map_of (ms_accounts s) from)) (\<lambda>found.
      and_then (ok_or (mock_invalid (''missing '' @ quoted ''from'' @ '' account'')) found) (\<lambda>from_acct.
      and_then (ok_or (mock_invalid (''missing '' @ quoted ''to'' @ '' account'')) found) (\<lambda>to_acct.
      if pa_currency from_acct \<noteq> pa_currency to_acct
      then err (mock_invalid ''accounts have different currencies'')
      else and_then (ok_or (mock_invalid (''insufficient funds in '' @ quoted ''from'' @ '' account''))
             (checked_sub (pa_balance from_acct) amount)) (\<lambda>from_balance.
        and_then (ok_or CInternal (checked_add (pa_balance to_acct) amount)) (\<lambda>to_balance.
        let tx = \<lparr>tr_id = cit_id input,
            tr_from = [\<lparr>tai_account_id = Some from, tai_owner_name = None,
                        tai_blockchain_address = wallet_inner (pa_account_address from_acct)\<rparr>],
            tr_to = \<lparr>tai_account_id = Some to, tai_owner_name = None,
                     tai_blockchain_address = wallet_inner (pa_account_address to_acct)\<rparr>,
            tr_from_value = amount_display amount, tr_from_currency = pa_currency from_acct,
            tr_to_value = amount_display amount, tr_to_currency = pa_currency from_acct,
            tr_fee = amount_display amount_zero, tr_status = ''completed''\<rparr>
        in modify (put_tx (cit_id input) tx \<circ> put_account to (to_acct\<lparr>pa_balance := to_balance\<rparr>) \<circ>
             put_account from (from_acct\<lparr>pa_balance := from_balance\<rparr>))))))))"

section \<open>Laws of the client\<close>

text \<open>Every request of the client is signed for its own time and device.\<close>

definition authenticated :: "'d payments_client \<Rightarrow> http_request \<Rightarrow> bool" where
  "authenticated pc q \<longleftrightarrow>
     hr_sign q = pc_sign pc (hr_timestamp q @ hr_device_id q) \<and> hr_device_id q = pc_device_id pc \<and>
     hr_authorization q = ''Bearer '' @ pc_user_jwt pc"

definition sends_signed :: "'d payments_client \<Rightarrow> wire \<Rightarrow> wire \<Rightarrow> bool" where
  "sends_signed pc s t \<longleftrightarrow> (\<exists>new. wire_sent t = wire_sent s @ new \<and> list_all (authenticated pc) new)"

interpretation signing: step_relation "sends_signed pc" for pc
  by unfold_locales (force simp: sends_signed_def)+

lemma keeps_request [keeps_intros]: "keeps (sends_signed pc) (request_with_auth pc m query body)"
  by (auto simp: keeps_def request_with_auth_def sends_signed_def signed_request_def authenticated_def Let_def)

lemma keeps_client_get_account [keeps_intros]: "keeps (sends_signed pc) (client_get_account pc u)"
  unfolding client_get_account_def by (intro keeps_intros)

text \<open>Whichever operation of the gateway the client runs, all the requests that it sends carry the token of
  the user and a signature of their own time stamp and device.\<close>

theorem client_requests_signed:
  "keeps (sends_signed pc) (client_get_account pc u) \<and> keeps (sends_signed pc) (client_list_accounts pc) \<and>
   keeps (sends_signed pc) (client_create_account pc ca) \<and> keeps (sends_signed pc) (client_delete_account pc u) \<and>
   keeps (sends_signed pc) (client_get_rate pc gr) \<and> keeps (sends_signed pc) (client_refresh_rate pc x) \<and>
   keeps (sends_signed pc) (client_get_fees pc gf) \<and> keeps (sends_signed pc) (client_get_transaction pc u) \<and>
   keeps (sends_signed pc) (client_create_external_transaction pc ext) \<and>
   keeps (sends_signed pc) (client_create_internal_transaction pc tx)"
  unfolding client_get_account_def client_list_accounts_def client_create_account_def client_delete_account_def
    client_get_rate_def client_refresh_rate_def client_get_fees_def client_get_transaction_def
    client_create_external_transaction_def client_create_internal_transaction_def join_accounts_def
  by (intro conjI keeps_intros)

definition request_line :: "http_request \<Rightarrow> http_method \<times> string \<times> gateway_body" where
  "request_line q = (hr_method q, hr_url q, hr_body q)"

definition account_line :: "'d payments_client \<Rightarrow> uuid \<Rightarrow> http_method \<times> string \<times> gateway_body" where
  "account_line pc u = (Get, pc_url pc @ ''/v1/accounts/'' @ pc_hyphenated pc u, EmptyObject)"

definition lines_sent :: "wire \<Rightarrow> (http_method \<times> string \<times> gateway_body) list" where
  "lines_sent s = map request_line (wire_sent s)"

lemma get_account_ends:
  "ends (client_get_account pc u) s (\<lambda>r t. lines_sent t = lines_sent s @ [account_line pc u])"
  by (auto simp: ends_def client_get_account_def and_then_def request_with_auth_def Let_def lines_sent_def
      request_line_def account_line_def signed_request_def of_result_def split: sum.split)

lemma join_accounts_ends:
  "ends (join_accounts pc u v) s (\<lambda>r t. lines_sent t = lines_sent s @ [account_line pc u, account_line pc v])"
proof (rule endsI)
  fix r t
  assume run: "join_accounts pc u v s = (r, t)"
  obtain a s1 where a: "client_get_account pc u s = (a, s1)" by fastforce
  obtain b s2 where b: "client_get_account pc v s1 = (b, s2)" by fastforce
  from run a b have "t = s2"
    by (auto simp: join_accounts_def then_res_def split: sum.splits)
  with endsD [OF get_account_ends a] endsD [OF get_account_ends b]
  show "lines_sent t = lines_sent s @ [account_line pc u, account_line pc v]" by simp
qed

text \<open>An internal transaction is posted at most once, after both accounts have been read, with the currency
  of the two accounts; when they have different currencies or cannot be read, nothing is posted and the
  result is an error.\<close>

theorem internal_transaction_posted_once:
  "ends (client_create_internal_transaction pc tx) s (\<lambda>r t.
     case join_accounts pc (cit_from tx) (cit_to tx) s of
       (Inr (from, to), _) \<Rightarrow>
         if pa_currency from = pa_currency to
         then lines_sent t = lines_sent s @ [account_line pc (cit_from tx), account_line pc (cit_to tx),
           (Post, pc_url pc @ ''/v1/transactions'',
            BodyTransaction (new_internal (pc_hyphenated pc) tx (pa_currency to) (pc_user_id pc)))]
         else isl r \<and> lines_sent t = lines_sent s @ [account_line pc (cit_from tx), account_line pc (cit_to tx)]
     | (Inl _, _) \<Rightarrow>
         isl r \<and> lines_sent t = lines_sent s @ [account_line pc (cit_from tx), account_line pc (cit_to tx)])"
proof (rule endsI)
  fix r t
  assume run: "client_create_internal_transaction pc tx s = (r, t)"
  obtain j u where join: "join_accounts pc (cit_from tx) (cit_to tx) s = (j, u)" by fastforce
  note lines = endsD [OF join_accounts_ends join]
  show "case join_accounts pc (cit_from tx) (cit_to tx) s of
       (Inr (from, to), _) \<Rightarrow>
         if pa_currency from = pa_currency to
         then lines_sent t = lines_sent s @ [account_line pc (cit_from tx), account_line pc (cit_to tx),
           (Post, pc_url pc @ ''/v1/transactions'',
            BodyTransaction (new_internal (pc_hyphenated pc) tx (pa_currency to) (pc_user_id pc)))]
         else isl r \<and> lines_sent t = lines_sent s @ [account_line pc (cit_from tx), account_line pc (cit_to tx)]
     | (Inl _, _) \<Rightarrow>
         isl r \<and> lines_sent t = lines_sent s @ [account_line pc (cit_from tx), account_line pc (cit_to tx)]"
  proof (cases j)
    case (Inl e)
    with run join lines show ?thesis by (auto simp: client_create_internal_transaction_def and_then_def)
  next
    case (Inr ab)
    with run join lines show ?thesis
      by (cases ab) (auto simp: client_create_internal_transaction_def and_then_def request_with_auth_def Let_def
          lines_sent_def request_line_def signed_request_def map_ok_def of_result_def split: sum.splits)
  qed
qed

section \<open>Laws of the gateway in memory\<close>

lemma map_of_put_account [simp]:
  "map_of (ms_accounts (put_account u a s)) = (map_of (ms_accounts s))(u \<mapsto> a)"
  by (simp add: put_account_def update_conv')

lemma put_tx_accounts [simp]: "ms_accounts (put_tx u x s) = ms_accounts s"
  by (simp add: put_tx_def)

text \<open>An internal transaction of the gateway in memory does not credit the destination: its entry becomes a
  copy of the source account (also its identifier and address) with the amount added to the balance of
  the source, so the destination loses the balance that it had, and it need not exist.\<close>

theorem mock_transfer_overwrites_destination:
  assumes "mock_create_internal_transaction tx s = (Inr (), t)"
  shows "\<exists>a. map_of (ms_accounts s) (cit_from tx) = Some a \<and>
    amount_nat (cit_amount tx) \<le> amount_nat (pa_balance a) \<and>
    map_of (ms_accounts t) = (map_of (ms_accounts s))
      (cit_from tx \<mapsto> a\<lparr>pa_balance := the (checked_sub (pa_balance a) (cit_amount tx))\<rparr>,
       cit_to tx \<mapsto> a\<lparr>pa_balance := the (checked_add (pa_balance a) (cit_amount tx))\<rparr>)"
  using assms
  by (auto simp: mock_create_internal_transaction_def Let_def and_then_success ok_or_success checked_sub_nat
      dest: checked_sub_nat split: if_splits)

definition mock_wallet :: "uuid \<Rightarrow> amount \<Rightarrow> payments_account" where
  "mock_wallet u b = \<lparr>pa_id = u, pa_balance = b, pa_currency = TureStq, pa_name = ''a'',
     pa_account_address = WalletAddress ''w''\<rparr>"

definition two_wallets :: "rat mock_state" where
  "two_wallets = \<lparr>ms_accounts = [(1, mock_wallet 1 (Amount 100)), (2, mock_wallet 2 (Amount 5))],
     ms_txs = [], ms_rates = [], ms_clock = (\<lambda>_. 0)\<rparr>"

definition small_transfer :: create_internal_transaction where
  "small_transfer = \<lparr>cit_id = 9, cit_from = 1, cit_to = 2, cit_amount = Amount 10\<rparr>"

theorem mock_transfer_overwrites_destination_witness:
  "map_of (ms_accounts (snd (mock_create_internal_transaction small_transfer two_wallets))) 2 =
     Some (mock_wallet 1 (Amount 110))"
proof -
  have sums: "checked_sub (Amount 100) (Amount 10) = Some (Amount 90)"
    "checked_add (Amount 100) (Amount 10) = Some (Amount 110)"
    by (simp_all add: checked_sub_def checked_add_def u128_checked_sub_def u128_checked_add_def)
  have run: "mock_create_internal_transaction small_transfer two_wallets =
      (Inr (), snd (mock_create_internal_transaction small_transfer two_wallets))"
    by (simp add: mock_create_internal_transaction_def small_transfer_def two_wallets_def mock_wallet_def
        and_then_def sums Let_def ok_or_def ok_apply)
  from mock_transfer_overwrites_destination [OF run] show ?thesis
    by (auto simp: small_transfer_def two_wallets_def mock_wallet_def sums)
qed

end
