(* ===== verification/UserRolesService.thy ===== *)
theory UserRolesService
  imports Prelude Models World Authorization Tables Services Triples
begin

text \<open>
  \<open>services/user_roles.rs\<close>: the endpoints that list, create and delete the roles of the users, and
  what the cache of \<open>repos/user_roles.rs\<close> promises to them: while it answers and requests follow each
  other, it never holds a role that the table does not have.
\<close>

section \<open>The service\<close>

text \<open>These services pass the errors of the repository on as they are.\<close>

abbreviation roles_pool :: "('d world, repo_error, 'a) comp \<Rightarrow> ('d world, repo_error, 'a) comp" where
  "roles_pool m \<equiv> spawn_on_pool RInternal m"

definition get_user_roles ::
  "stq_user_id option \<Rightarrow> stq_user_id \<Rightarrow> ('d world, repo_error, billing_role list) comp" where
  "get_user_roles user uid = roles_pool (and_then (get_acl user) (\<lambda>_. list_for_user uid))"

definition create_user_role ::
  "stq_user_id option \<Rightarrow> user_role \<Rightarrow> ('d world, repo_error, user_role) comp" where
  "create_user_role user payload =
     roles_pool (and_then (get_acl user) (\<lambda>acl.
       transaction repo_error_of_diesel (create_role acl payload)))"

definition delete_user_role ::
  "stq_user_id option \<Rightarrow> stq_user_id \<Rightarrow> billing_role \<Rightarrow> ('d world, repo_error, user_role) comp" where
  "delete_user_role user uid nm =
     roles_pool (and_then (get_acl user) (\<lambda>acl.
       transaction repo_error_of_diesel (delete_role acl uid nm)))"

definition delete_user_role_by_user_id ::
  "stq_user_id option \<Rightarrow> stq_user_id \<Rightarrow> ('d world, repo_error, user_role list) comp" where
  "delete_user_role_by_user_id user uid =
     roles_pool (and_then (get_acl user) (\<lambda>_. delete_roles_by_user_id uid))"

definition delete_user_role_by_id ::
  "stq_user_id option \<Rightarrow> uuid \<Rightarrow> ('d world, repo_error, user_role) comp" where
  "delete_user_role_by_id user rid =
     roles_pool (and_then (get_acl user) (\<lambda>_. delete_role_by_id rid))"

text \<open>The requests of the users, one after the other.\<close>

datatype role_request =
    GetRoles stq_user_id
  | CreateUserRole user_role
  | DeleteUserRole stq_user_id billing_role
  | DeleteRolesByUser stq_user_id
  | DeleteRoleById uuid

fun serve :: "stq_user_id option \<times> role_request \<Rightarrow> 'd world \<Rightarrow> 'd world" where
  "serve (user, GetRoles uid) w = snd (get_user_roles user uid w)"
| "serve (user, CreateUserRole r) w = snd (create_user_role user r w)"
| "serve (user, DeleteUserRole uid nm) w = snd (delete_user_role user uid nm w)"
| "serve (user, DeleteRolesByUser uid) w = snd (delete_user_role_by_user_id user uid w)"
| "serve (user, DeleteRoleById rid) w = snd (delete_user_role_by_id user rid w)"

section \<open>The cache of the roles\<close>

definition role_names :: "stq_user_id \<Rightarrow> 'd db \<Rightarrow> billing_role list" where
  "role_names uid d = map role_name (filter (\<lambda>r. role_user_id r = uid) (roles d))"

definition role_keys :: "'d db \<Rightarrow> bool" where
  "role_keys d \<longleftrightarrow> distinct (map role_id (roles d))"

definition roles_coherent :: "'d world \<Rightarrow> bool" where
  "roles_coherent w \<longleftrightarrow> role_keys (w_db w) \<and>
     (\<forall>uid rs. w_roles_cache w uid = Some rs \<longrightarrow> rs = role_names uid (w_db w))"

definition stays_coherent :: "'d world \<Rightarrow> 'd world \<Rightarrow> bool" where
  "stays_coherent s t \<longleftrightarrow> (w_cache_up s \<and> roles_coherent s \<longrightarrow> w_cache_up t \<and> roles_coherent t)"

interpretation coherence: step_relation stays_coherent
  by unfold_locales (simp_all add: stays_coherent_def)

text \<open>Inside a transaction entries only leave the cache, and what stays in it is unchanged in the table. This
  holds also when the transaction is rolled back.\<close>

definition evicts :: "'d world \<Rightarrow> 'd world \<Rightarrow> bool" where
  "evicts s t \<longleftrightarrow> (w_cache_up s \<and> role_keys (w_db s) \<longrightarrow> w_cache_up t \<and> role_keys (w_db t) \<and>
     (\<forall>uid rs. w_roles_cache t uid = Some rs \<longrightarrow>
        w_roles_cache s uid = Some rs \<and> role_names uid (w_db t) = role_names uid (w_db s)))"

interpretation eviction: step_relation evicts
  by unfold_locales (auto simp: evicts_def)

lemma evicts_coherent: "evicts s t \<Longrightarrow> stays_coherent s t"
  by (simp add: evicts_def stays_coherent_def roles_coherent_def)

lemma keeps_evicts: "keeps evicts m \<Longrightarrow> keeps stays_coherent m"
  unfolding keeps_def using evicts_coherent by blast

lemma evicts_transaction [keeps_intros]:
  assumes "keeps evicts m"
  shows "keeps evicts (transaction conv m)"
proof (rule keepsI)
  fix s r t
  assume run: "transaction conv m s = (r, t)"
  obtain q u where u: "m ((next_fault s)\<lparr>w_depth := Suc (w_depth s)\<rparr>) = (q, u)" by fastforce
  from keepsD [OF assms u] have "evicts s u" by (simp add: evicts_def)
  moreover have "w_db t = w_db s \<and> w_roles_cache t = w_roles_cache s \<or>
      (w_db t = w_db s \<or> w_db t = w_db u) \<and> w_roles_cache t = w_roles_cache u"
    and "w_cache_up t = w_cache_up s \<or> w_cache_up t = w_cache_up u"
    using run u
    by (auto simp: transaction_def Let_def next_fault_def stmt_failed_def abandon_def
        split: prod.splits sum.splits if_splits)
  ultimately show "evicts s t" by (auto simp: evicts_def)
qed

lemma stays_spawn_on_pool [keeps_intros]:
  assumes "keeps stays_coherent m"
  shows "keeps stays_coherent (spawn_on_pool e m)"
proof (rule keepsI)
  fix s r t
  assume "spawn_on_pool e m s = (r, t)"
  then show "stays_coherent s t"
  proof (cases rule: spawn_cases)
    case 1
    then show ?thesis by (simp add: stays_coherent_def roles_coherent_def)
  next
    case 2
    from keepsD [OF assms this] show ?thesis by (simp add: stays_coherent_def roles_coherent_def)
  qed
qed

text \<open>The lists of roles that are read and cached.\<close>

lemma select_run:
  "select q w = (r, t) \<Longrightarrow> w_db t = w_db w \<and> w_roles_cache t = w_roles_cache w \<and> w_cache_up t = w_cache_up w"
  by (auto simp: select_def execute_def Let_def stmt_failed_def split: if_splits)

lemma select_value: "select q w = (Inr rows, t) \<Longrightarrow> rows = q (w_db w)"
  by (auto simp: select_def execute_def Let_def split: if_splits)

lemma list_for_user_run:
  assumes "list_for_user uid w = (r, t)" and "w_cache_up w" and "roles_coherent w"
  shows "w_cache_up t \<and> roles_coherent t \<and> w_db t = w_db w \<and> (case r of Inl _ \<Rightarrow> True | Inr rs \<Rightarrow> rs = role_names uid (w_db w))"
proof (cases "w_roles_cache w uid")
  case (Some rs)
  with assms show ?thesis by (auto simp: list_for_user_def cached_roles_def and_then_def roles_coherent_def)
next
  case None
  obtain rows u where sel: "select (\<lambda>d. filter (\<lambda>r. role_user_id r = uid) (roles d)) w = (rows, u)"
    by fastforce
  note same = select_run [OF sel]
  show ?thesis
  proof (cases rows)
    case (Inl e)
    with assms None sel same show ?thesis
      by (auto simp: list_for_user_def cached_roles_def and_then_def repo_def map_err_def roles_coherent_def)
  next
    case (Inr rs)
    with sel have "rs = filter (\<lambda>r. role_user_id r = uid) (roles (w_db w))" by (auto dest: select_value)
    with assms None sel same Inr show ?thesis
      by (auto simp: list_for_user_def cached_roles_def and_then_def repo_def map_err_def roles_coherent_def cache_set_def
          role_names_def Let_def split: if_splits)
  qed
qed

lemma stays_list_for_user [keeps_intros]: "keeps stays_coherent (list_for_user uid)"
  by (rule keepsI) (auto simp: stays_coherent_def dest: list_for_user_run)

lemma stays_get_acl [keeps_intros]: "keeps stays_coherent (get_acl user)"
  unfolding get_acl_def get_roles_def by (intro keeps_intros)

text \<open>The statements that change the roles of one user come after the removal of the user's entry.\<close>

lemma evicts_roles_in_scope [keeps_intros]: "keeps evicts (roles_in_scope uid s obj)"
  by (cases s) (simp_all add: roles_in_scope_def eviction.keeps_ok)

lemma evicts_check [keeps_intros]: "keeps evicts (check acl res act roles_in_scope obj)"
  unfolding check_def allows_def by (cases acl) (simp only: acl.case, intro keeps_intros)+

lemma execute_run:
  assumes "execute f w = (r, t)"
  shows "w_roles_cache t = w_roles_cache w \<and> w_cache_up t = w_cache_up w \<and>
    (w_db t = w_db w \<and> isl r \<or> (\<exists>a. r = Inr a \<and> f (w_clock w 0) (w_db w) = Inr (a, w_db t)))"
  using assms by (auto simp: execute_def Let_def stmt_failed_def split: if_splits sum.splits)

lemma evicts_remove_then:
  assumes change: "\<And>now d a e v. f now d = Inr (a, e) \<Longrightarrow> role_keys d \<Longrightarrow>
      role_keys e \<and> (v \<noteq> uid \<longrightarrow> role_names v e = role_names v d)"
  shows "keeps evicts (and_then (cache_set uid None) (\<lambda>_. repo (execute f)))"
proof (rule keepsI)
  fix s r t
  assume run: "and_then (cache_set uid None) (\<lambda>_. repo (execute f)) s = (r, t)"
  let ?s = "s\<lparr>w_roles_cache := if w_cache_up s then (w_roles_cache s)(uid := None) else w_roles_cache s\<rparr>"
  from run obtain q where q: "execute f ?s = (q, t)"
    by (auto simp: and_then_def cache_set_def repo_def map_err_def split: prod.splits)
  show "evicts s t"
    using execute_run [OF q] change by (auto simp: evicts_def split: if_splits)
qed

lemma delete_rows_keys: "role_keys d \<Longrightarrow> role_keys (d\<lparr>roles := filter p (roles d)\<rparr>)"
  by (simp add: role_keys_def distinct_map_filter)

lemma delete_rows_names:
  "(\<And>r. r \<in> set (roles d) \<Longrightarrow> \<not> p r \<Longrightarrow> role_user_id r \<noteq> v) \<Longrightarrow>
   role_names v (d\<lparr>roles := filter p (roles d)\<rparr>) = role_names v d"
  unfolding role_names_def
  by (simp, intro arg_cong [where f = "map role_name"] filter_cong) auto

lemma evicts_delete_roles [keeps_intros]:
  assumes "\<And>r. p r \<Longrightarrow> role_user_id r = uid"
  shows "keeps evicts (and_then (cache_set uid None) (\<lambda>_. repo (delete_roles p)))"
  unfolding delete_roles_def delete_rows_def
  by (rule evicts_remove_then) (auto intro!: delete_rows_keys delete_rows_names dest: assms)

lemma get_result_after: "repo (get_result m) =
    and_then (repo m) (\<lambda>rows. case rows of [] \<Rightarrow> err (repo_error_of_diesel DieselNotFound) | r # _ \<Rightarrow> ok r)"
  by (auto simp: fun_eq_iff repo_def get_result_def map_err_def and_then_def split: prod.splits sum.splits list.splits)

lemma evicts_first_or_missing [keeps_intros]:
  "keeps evicts (case rows of [] \<Rightarrow> err e | r # _ \<Rightarrow> ok r)"
  by (cases rows) (simp_all add: eviction.keeps_ok eviction.keeps_err)

lemma evicts_create_role [keeps_intros]: "keeps evicts (create_role acl payload)"
  unfolding create_role_def
  by (intro keeps_intros evicts_remove_then)
     (auto simp: insert_role_def role_keys_def role_names_def split: if_splits)

lemma evicts_delete_role [keeps_intros]: "keeps evicts (delete_role acl uid nm)"
  unfolding delete_role_def get_result_after and_then_assoc
  unfolding and_then_assoc [of "cache_set uid None", symmetric]
  by (intro keeps_intros) simp

lemma evicts_delete_roles_by_user_id [keeps_intros]: "keeps evicts (delete_roles_by_user_id uid)"
  unfolding delete_roles_by_user_id_def by (intro keeps_intros) simp

text \<open>By its identifier a role is deleted first; the keys say that it is the only one.\<close>

lemma unique_role:
  assumes "role_keys d" and "filter (\<lambda>r. role_id r = rid) (roles d) = q # rest"
    and "r \<in> set (roles d)" and "role_id r = rid"
  shows "r = q"
proof -
  from assms(2) have "q \<in> set (filter (\<lambda>r. role_id r = rid) (roles d))" by simp
  with assms(1,3,4) show ?thesis by (auto simp: role_keys_def dest: inj_onD [OF distinct_map [THEN iffD1, THEN conjunct2]])
qed

lemma evicts_delete_role_by_id [keeps_intros]: "keeps evicts (delete_role_by_id rid)"
proof (rule keepsI)
  fix s r t
  assume run: "delete_role_by_id rid s = (r, t)"
  obtain q u where q: "delete_roles (\<lambda>r. role_id r = rid) s = (q, u)" by fastforce
  note del = execute_run [OF q [unfolded delete_roles_def]]
  show "evicts s t"
  proof (cases q)
    case (Inl e)
    with run q del show ?thesis
      by (auto simp: delete_role_by_id_def and_then_def repo_def map_err_def get_result_def evicts_def)
  next
    case (Inr rows)
    with del have rows: "rows = filter (\<lambda>r. role_id r = rid) (roles (w_db s))"
      and db: "w_db u = (w_db s)\<lparr>roles := filter (\<lambda>r. role_id r \<noteq> rid) (roles (w_db s))\<rparr>"
      by (auto simp: delete_rows_def)
    show ?thesis
    proof (cases rows)
      case Nil
      with rows have "filter (\<lambda>r. role_id r \<noteq> rid) (roles (w_db s)) = roles (w_db s)"
        by (simp add: filter_empty_conv filter_id_conv eq_commute [of "[]"])
      with db have "w_db u = w_db s" by simp
      with run q del Inr Nil show ?thesis
        by (auto simp: delete_role_by_id_def and_then_def repo_def map_err_def get_result_def evicts_def)
    next
      case (Cons x rest)
      with run q del Inr have t: "t = u\<lparr>w_roles_cache :=
          if w_cache_up s then (w_roles_cache s)(role_user_id x := None) else w_roles_cache s\<rparr>" and up: "w_cache_up u = w_cache_up s"
        by (auto simp: delete_role_by_id_def and_then_def repo_def map_err_def get_result_def cache_set_def)
      from rows Cons have first: "filter (\<lambda>r. role_id r = rid) (roles (w_db s)) = x # rest" by simp
      have "role_names v (w_db u) = role_names v (w_db s)" if "role_keys (w_db s)" "v \<noteq> role_user_id x" for v
        unfolding db by (rule delete_rows_names) (use unique_role [OF that(1) first] that(2) in auto)
      with t up show ?thesis by (auto simp: evicts_def db delete_rows_keys split: if_splits)
    qed
  qed
qed

lemma stays_services [keeps_intros]:
  "keeps stays_coherent (get_user_roles u v)" "keeps stays_coherent (create_user_role u r)"
  "keeps stays_coherent (delete_user_role u v nm)" "keeps stays_coherent (delete_user_role_by_user_id u v)"
  "keeps stays_coherent (delete_user_role_by_id u rid)"
  unfolding get_user_roles_def create_user_role_def delete_user_role_def delete_user_role_by_user_id_def
    delete_user_role_by_id_def
  by (intro keeps_intros keeps_evicts)+

lemma stays_serve: "stays_coherent w (serve q w)"
  by (cases "(q, w)" rule: serve.cases) (simp_all add: stays_services [unfolded keeps_def, rule_format])

section \<open>Properties\<close>

text \<open>C14: The cache never makes the service see a role that the table does not have: after any requests of any
  users, one after the other (whichever statements, connections and commits fail), the names that are listed for
  a user, from the cache or from the table, are those of the user's rows, as long as the cache answers.\<close>

theorem roles_cache_coherent:
  assumes "w_cache_up w" and "roles_coherent w"
  shows "roles_coherent (fold serve reqs w) \<and>
    ends (list_for_user uid) (fold serve reqs w)
      (\<lambda>r t. isl r \<or> r = Inr (role_names uid (w_db (fold serve reqs w))))"
proof -
  have coherent: "w_cache_up (fold serve reqs w) \<and> roles_coherent (fold serve reqs w)"
    using assms
  proof (induction reqs arbitrary: w)
    case (Cons q reqs)
    then show ?case using stays_serve [of w q] by (simp add: stays_coherent_def)
  qed simp
  moreover have "isl r \<or> r = Inr (role_names uid (w_db (fold serve reqs w)))"
    if "list_for_user uid (fold serve reqs w) = (r, t)" for r t
    using list_for_user_run [OF that] coherent by (cases r) auto
  ultimately show ?thesis by (auto intro: endsI)
qed

definition role_world :: "rat world" where
  "role_world = initial_world (empty_db\<lparr>roles :=
     [\<lparr>role_id = 1, role_user_id = 7, role_name = Superuser, role_data = None\<rparr>,
      \<lparr>role_id = 2, role_user_id = 8, role_name = User, role_data = None\<rparr>]\<rparr>)"

theorem roles_cache_coherent_witness:
  "roles_coherent (fold serve [(Some 7, GetRoles 8), (None, DeleteRolesByUser 8)] role_world)"
  by (rule roles_cache_coherent [THEN conjunct1])
    (simp_all add: roles_coherent_def role_world_def initial_world_def role_keys_def)

text \<open>No role but the superuser's may write roles.\<close>

lemma roles_writers:
  assumes "Superuser \<notin> set rs"
  shows "matching_permissions rs ResUserRoles ActWrite = []"
  using assms
proof (induction rs)
  case (Cons role rs)
  then show ?case
    by (cases role) (simp_all add: matching_permissions_def acls.simps permission1_def permission2_def permission3_def)
qed (simp add: matching_permissions_def)

lemma roles_write_refused:
  "Superuser \<notin> set rs \<Longrightarrow> check (ApplicationAcl rs uid) ResUserRoles ActWrite roles_in_scope obj = err RForbidden"
  by (simp add: check_def allows_def roles_writers map_ok_as_and_then)

text \<open>The roles that a request of the user is checked with: those of the cache or, when it does not know them,
  those of the table.\<close>

definition roles_used :: "stq_user_id \<Rightarrow> 'd world \<Rightarrow> billing_role list" where
  "roles_used uid w = (case cached_roles uid w of Some rs \<Rightarrow> rs | None \<Rightarrow> role_names uid (w_db w))"

definition no_superuser :: "stq_user_id option \<Rightarrow> 'd world \<Rightarrow> bool" where
  "no_superuser user w \<longleftrightarrow> (case user of None \<Rightarrow> True | Some uid \<Rightarrow> Superuser \<notin> set (roles_used uid w))"

lemma list_for_user_used:
  assumes "list_for_user uid w = (Inr rs, t)"
  shows "rs = roles_used uid w"
  using assms
  by (auto simp: list_for_user_def roles_used_def success repo_success Let_def role_names_def
      split: option.splits if_splits dest!: select_value)

abbreviation may_not_write :: "acl \<Rightarrow> bool" where
  "may_not_write acl \<equiv> acl = UnauthorizedACL \<or> (\<exists>rs uid. acl = ApplicationAcl rs uid \<and> Superuser \<notin> set rs)"

lemma no_superuser_acl:
  assumes "no_superuser user w"
  shows "ends (get_acl user) w (\<lambda>r t. w_db t = w_db w \<and> (\<exists>acl. r = Inr acl \<and> may_not_write acl))"
proof (rule endsI)
  fix r t
  assume run: "get_acl user w = (r, t)"
  then have "w_db t = w_db w" by (rule same_dbD [OF reading.keeps_get_acl])
  moreover have "\<exists>acl. r = Inr acl \<and> may_not_write acl"
  proof (cases user)
    case None
    with run show ?thesis by (auto simp: get_acl_def ok_apply)
  next
    case (Some uid)
    obtain x u where "list_for_user uid w = (x, u)" by fastforce
    with run Some assms list_for_user_used [of uid w] show ?thesis
      by (cases x) (auto simp: get_acl_def get_roles_def map_ok_def then_res_def no_superuser_def ok_apply)
  qed
  ultimately show "w_db t = w_db w \<and> (\<exists>acl. r = Inr acl \<and> may_not_write acl)" ..
qed

lemma delete_role_refused:
  assumes "may_not_write acl"
  shows "ends (delete_role acl uid nm) w (\<lambda>r t. isl r)"
  using assms unfolding delete_role_def
  by (elim disjE exE conjE)
    (auto simp: roles_write_refused ends_def and_then_def split: prod.splits sum.splits)

lemma create_role_refused:
  assumes "may_not_write acl"
  shows "ends (create_role acl payload) w (\<lambda>r t. isl r)"
  using assms unfolding create_role_def
  by (elim disjE exE conjE)
    (auto simp: roles_write_refused ends_def and_then_def split: prod.splits sum.splits)

lemma transaction_refused:
  assumes "\<And>v. ends m v (\<lambda>r t. isl r)"
  shows "ends (transaction conv m) w (\<lambda>r t. isl r \<and> w_db t = w_db w)"
proof (rule endsI)
  fix r t
  assume run: "transaction conv m w = (r, t)"
  show "isl r \<and> w_db t = w_db w"
  proof (cases r)
    case (Inr a)
    with run obtain u where "m ((next_fault w)\<lparr>w_depth := Suc (w_depth w)\<rparr>) = (Inr a, u)"
      by (auto elim: transaction_success)
    from endsD [OF assms this] show ?thesis by simp
  qed (use run in \<open>auto dest: transaction_error_db\<close>)
qed

lemma no_superuser_refused:
  assumes "no_superuser user w"
    and "\<And>acl v. may_not_write acl \<Longrightarrow> ends (f acl) v (\<lambda>r t. isl r)"
  shows "ends (roles_pool (and_then (get_acl user) (\<lambda>acl. transaction conv (f acl)))) w
    (\<lambda>r t. isl r \<and> w_db t = w_db w)"
proof (rule ends_spawn)
  have "no_superuser user (next_fault w)"
    using assms(1)
    by (auto simp: no_superuser_def roles_used_def cached_roles_def split: option.splits if_splits)
  from no_superuser_acl [OF this]
  show "ends (and_then (get_acl user) (\<lambda>acl. transaction conv (f acl))) (next_fault w)
      (\<lambda>r t. isl r \<and> w_db t = w_db w)"
    by (intro ends_and_then) (erule ends_mono, auto intro!: ends_mono [OF transaction_refused [OF assms(2)]])
qed simp

text \<open>C27: Nobody without the superuser's role creates a role or deletes one by name: neither a request without a
  user, nor one of a user whose roles, in the cache or else in the table, do not hold it, one without
  any role included. Whatever statements fail, the requests end with an error and the tables are as
  before, also for the deletion, which is checked after the statement.\<close>

theorem only_superusers_manage_roles:
  assumes "no_superuser user w"
  shows "ends (create_user_role user payload) w (\<lambda>r t. isl r \<and> w_db t = w_db w) \<and>
    ends (delete_user_role user uid nm) w (\<lambda>r t. isl r \<and> w_db t = w_db w)"
  unfolding create_user_role_def delete_user_role_def
  by (intro conjI no_superuser_refused [OF assms] create_role_refused delete_role_refused)

theorem only_superusers_manage_roles_witness:
  "cached_roles 8 role_world = None \<and> role_names 8 (w_db role_world) = [User] \<and>
   roles (w_db (snd (delete_user_role (Some 8) 7 Superuser role_world))) = roles (w_db role_world)"
proof -
  have cache: "cached_roles 8 role_world = None" and names: "role_names 8 (w_db role_world) = [User]"
    by (simp_all add: role_world_def initial_world_def cached_roles_def role_names_def)
  then have "no_superuser (Some 8) role_world" by (simp add: no_superuser_def roles_used_def)
  from only_superusers_manage_roles [OF this, THEN conjunct2, of 7 Superuser]
  show ?thesis using cache names by (simp add: ends_def split: prod.splits)
qed

text \<open>The two other deletions ask for no permission: also a request without a user removes all the roles of
  anybody, or any role by its identifier.\<close>

theorem anybody_deletes_roles:
  assumes "quiet w"
  shows "delete_user_role_by_user_id None uid w =
    (Inr (filter (\<lambda>r. role_user_id r = uid) (roles (w_db w))),
     w\<lparr>w_db := (w_db w)\<lparr>roles := filter (\<lambda>r. role_user_id r \<noteq> uid) (roles (w_db w))\<rparr>,
       w_roles_cache := if w_cache_up w then (w_roles_cache w)(uid := None) else w_roles_cache w\<rparr>)"
  using assms
  by (simp add: delete_user_role_by_user_id_def get_acl_def delete_roles_by_user_id_def and_then_def
      cache_set_def delete_roles_def repo_def map_err_def execute_quiet delete_rows_def)

theorem anybody_deletes_roles_witness:
  "roles (w_db (snd (delete_user_role_by_user_id None 7 role_world))) =
     [\<lparr>role_id = 2, role_user_id = 8, role_name = User, role_data = None\<rparr>]"
proof -
  have "quiet role_world" by (simp add: role_world_def)
  from anybody_deletes_roles [OF this, of 7] show ?thesis
    by (simp add: role_world_def initial_world_def)
qed

text \<open>The cache is coherent only as long as it answers: its errors are swallowed, so that roles that are deleted
  while it does not answer are listed again when it does.\<close>

theorem cache_failure_keeps_deleted_roles:
  assumes "quiet w" and "\<not> w_cache_up w" and "w_roles_cache w uid = Some rs"
  shows "let t = snd (delete_user_role_by_user_id None uid w)
    in role_names uid (w_db t) = [] \<and> fst (list_for_user uid (t\<lparr>w_cache_up := True\<rparr>)) = Inr rs"
  using assms by (simp add: anybody_deletes_roles role_names_def list_for_user_def cached_roles_def Let_def)

text \<open>Nor is it coherent for requests at the same time: between the removal of a user's entry and the deletion
  of the rows, another request may put the old roles back.\<close>

theorem interleaved_listing_keeps_deleted_roles:
  assumes "quiet w" and "w_cache_up w" and "role_names uid (w_db w) \<noteq> []"
  shows "let removed = snd (cache_set uid None w);
      listed = snd (list_for_user uid removed);
      deleted = snd (delete_roles (\<lambda>r. role_user_id r = uid) listed)
    in role_names uid (w_db deleted) = [] \<and> fst (list_for_user uid deleted) = Inr (role_names uid (w_db w))"
  using assms
  by (simp add: cache_set_def list_for_user_def cached_roles_def and_then_def repo_def map_err_def select_quiet
      execute_quiet delete_roles_def delete_rows_def role_names_def Let_def)

end
