(* ===== verification/LegacyInvoices.thy ===== *)
theory LegacyInvoices
  imports Prelude LegacyModels Models Clients World Authorization Tables Services Triples AccountService
    InvoicePricing InvoiceService
begin

text \<open>
  Version 1 of the invoices: \<open>repos/invoice.rs\<close>, \<open>repos/order_info.rs\<close>, \<open>services/merchant.rs\<close> and the
  functions of \<open>services/invoice.rs\<close> that work on the tables of version 1 or choose between the two
  versions. The state of these invoices is kept by the external billing: a callback or a
  recalculation copies it to the invoice and to the orders, and tells the saga.
\<close>

section \<open>Errors\<close>

text \<open>The errors of version 1 are \<open>failure::Error\<close>s; only a refused access keeps its kind.\<close>

definition legacy :: "('s, repo_error, 'a) comp \<Rightarrow> ('s, service_error, 'a) comp" where
  "legacy m = map_err (\<lambda>e. if e = RForbidden then SForbidden else SInternal) m"

definition http :: "('s, client_error, 'a) comp \<Rightarrow> ('s, service_error, 'a) comp" where
  "http m = map_err (\<lambda>_. SInternal) m"

section \<open>Tables\<close>

definition set_invoices_v1 :: "invoice_v1 list \<Rightarrow> 'd db \<Rightarrow> 'd db" where
  "set_invoices_v1 rs d = d\<lparr>invoices_v1 := rs\<rparr>"

definition set_orders_info :: "order_info list \<Rightarrow> 'd db \<Rightarrow> 'd db" where
  "set_orders_info rs d = d\<lparr>orders_info := rs\<rparr>"

definition touch_invoice_v1 :: "(invoice_v1 \<Rightarrow> invoice_v1) \<Rightarrow> timestamp \<Rightarrow> invoice_v1 \<Rightarrow> invoice_v1" where
  "touch_invoice_v1 g now r = (if g r = r then r else (g r)\<lparr>iv1_updated_at := now\<rparr>)"

definition touch_order_info :: "(order_info \<Rightarrow> order_info) \<Rightarrow> timestamp \<Rightarrow> order_info \<Rightarrow> order_info" where
  "touch_order_info g now r = (if g r = r then r else (g r)\<lparr>oi_updated_at := now\<rparr>)"

section \<open>The repository of the invoices\<close>

text \<open>An invoice belongs to a user when all its orders do; an invoice without orders belongs to everybody.\<close>

definition invoices_v1_in_scope :: "('d, invoice_v1) scope_checker" where
  "invoices_v1_in_scope uid s obj =
     (case s of
        ScopeAll \<Rightarrow> ok True
      | ScopeOwned \<Rightarrow>
          (case obj of
             None \<Rightarrow> ok False
           | Some i \<Rightarrow>
               then_res (select_where orders_info (\<lambda>x. oi_saga_id x = iv1_id i)) (\<lambda>res.
                 ok (case res of Inl _ \<Rightarrow> False | Inr infos \<Rightarrow> list_all (\<lambda>x. oi_customer_id x = uid) infos))))"

abbreviation check_invoice_v1 :: "acl \<Rightarrow> action \<Rightarrow> invoice_v1 \<Rightarrow> ('d world, repo_error, unit) comp" where
  "check_invoice_v1 acl act i \<equiv> check acl ResInvoice act invoices_v1_in_scope (Some i)"

definition readable_invoice_v1 ::
  "acl \<Rightarrow> (invoice_v1 \<Rightarrow> bool) \<Rightarrow> ('d world, repo_error, invoice_v1 option) comp" where
  "readable_invoice_v1 acl p =
     and_then (repo (optional (get_result (select_where invoices_v1 p)))) (\<lambda>found.
     case found of
       None \<Rightarrow> ok None
     | Some i \<Rightarrow> and_then (check_invoice_v1 acl ActRead i) (\<lambda>_. ok (Some i)))"

definition invoices_v1_find :: "acl \<Rightarrow> uuid \<Rightarrow> ('d world, repo_error, invoice_v1 option) comp" where
  "invoices_v1_find acl iid = readable_invoice_v1 acl (\<lambda>i. iv1_invoice_id i = iid)"

definition invoices_v1_find_by_saga_id :: "acl \<Rightarrow> uuid \<Rightarrow> ('d world, repo_error, invoice_v1 option) comp" where
  "invoices_v1_find_by_saga_id acl sid = readable_invoice_v1 acl (\<lambda>i. iv1_id i = sid)"

definition insert_invoice_v1 :: "invoice_v1 \<Rightarrow> timestamp \<Rightarrow> 'd db \<Rightarrow> diesel_error + (invoice_v1 \<times> 'd db)" where
  "insert_invoice_v1 i _ d =
     (if \<exists>x\<in>set (invoices_v1 d). iv1_id x = iv1_id i then Inl UniqueViolation
      else Inr (i, set_invoices_v1 (invoices_v1 d @ [i]) d))"

definition invoices_v1_create :: "acl \<Rightarrow> invoice_v1 \<Rightarrow> ('d world, repo_error, invoice_v1) comp" where
  "invoices_v1_create acl i =
     and_then (repo (execute (insert_invoice_v1 i))) (\<lambda>created.
     and_then (check_invoice_v1 acl ActWrite created) (\<lambda>_. ok created))"

text \<open>A wallet that is missing in the change set leaves the old one.\<close>

definition apply_update_v1 :: "update_invoice_v1 \<Rightarrow> invoice_v1 \<Rightarrow> invoice_v1" where
  "apply_update_v1 u i =
     i\<lparr>iv1_transactions := ui1_transactions u, iv1_amount := ui1_amount u, iv1_currency := ui1_currency u,
       iv1_price_reserved := ui1_price_reserved u, iv1_state := ui1_state u,
       iv1_wallet := (case ui1_wallet u of None \<Rightarrow> iv1_wallet i | Some a \<Rightarrow> Some a),
       iv1_amount_captured := ui1_amount_captured u\<rparr>"

definition invoices_v1_change :: "uuid \<Rightarrow> update_invoice_v1 \<Rightarrow> ('d world, repo_error, invoice_v1) comp" where
  "invoices_v1_change iid u =
     repo (get_result (update_where invoices_v1 set_invoices_v1 (\<lambda>i. iv1_invoice_id i = iid)
       (touch_invoice_v1 (apply_update_v1 u))))"

definition invoices_v1_delete :: "acl \<Rightarrow> uuid \<Rightarrow> ('d world, repo_error, invoice_v1) comp" where
  "invoices_v1_delete acl sid =
     and_then (repo (get_result (delete_where invoices_v1 set_invoices_v1 (\<lambda>i. iv1_id i = sid)))) (\<lambda>i.
     and_then (check_invoice_v1 acl ActWrite i) (\<lambda>_. ok i))"

section \<open>The repository of the orders\<close>

definition order_infos_in_scope :: "('d, order_info) scope_checker" where
  "order_infos_in_scope uid s obj =
     (case s of
        ScopeAll \<Rightarrow> ok True
      | ScopeOwned \<Rightarrow> ok (case obj of Some x \<Rightarrow> uid = oi_customer_id x | None \<Rightarrow> False))"

abbreviation check_order_info :: "acl \<Rightarrow> action \<Rightarrow> order_info \<Rightarrow> ('d world, repo_error, unit) comp" where
  "check_order_info acl act x \<equiv> check acl ResOrderInfo act order_infos_in_scope (Some x)"

definition readable_order_info ::
  "acl \<Rightarrow> (order_info \<Rightarrow> bool) \<Rightarrow> ('d world, repo_error, order_info option) comp" where
  "readable_order_info acl p =
     and_then (repo (optional (get_result (select_where orders_info p)))) (\<lambda>found.
     case found of
       None \<Rightarrow> ok None
     | Some x \<Rightarrow> and_then (check_order_info acl ActRead x) (\<lambda>_. ok (Some x)))"

definition order_infos_find :: "acl \<Rightarrow> uuid \<Rightarrow> ('d world, repo_error, order_info option) comp" where
  "order_infos_find acl u = readable_order_info acl (\<lambda>x. oi_id x = u)"

definition order_infos_find_by_order_id :: "acl \<Rightarrow> uuid \<Rightarrow> ('d world, repo_error, order_info option) comp" where
  "order_infos_find_by_order_id acl u = readable_order_info acl (\<lambda>x. oi_order_id x = u)"

definition order_infos_find_by_saga_id :: "acl \<Rightarrow> uuid \<Rightarrow> ('d world, repo_error, order_info list) comp" where
  "order_infos_find_by_saga_id acl u =
     and_then (repo (select_where orders_info (\<lambda>x. oi_saga_id x = u))) (\<lambda>infos.
     and_then (for_each (check_order_info acl ActRead) infos) (\<lambda>_. ok infos))"

text \<open>The database generates the identifier; the status is new.\<close>

definition insert_order_info ::
  "uuid \<Rightarrow> new_order_info \<Rightarrow> timestamp \<Rightarrow> 'd db \<Rightarrow> diesel_error + (order_info \<times> 'd db)" where
  "insert_order_info u n now d =
     (if \<exists>x\<in>set (orders_info d). oi_id x = u then Inl UniqueViolation
      else
        let x = \<lparr>oi_id = u, oi_order_id = noi_order_id n, oi_status = OsNew, oi_created_at = now,
                 oi_updated_at = now, oi_customer_id = noi_customer_id n, oi_store_id = noi_store_id n,
                 oi_saga_id = noi_saga_id n, oi_total_amount = noi_total_amount n\<rparr>
        in Inr (x, set_orders_info (orders_info d @ [x]) d))"

definition order_infos_create :: "acl \<Rightarrow> new_order_info \<Rightarrow> ('d world, repo_error, order_info) comp" where
  "order_infos_create acl n =
     and_then new_v4 (\<lambda>u.
     and_then (repo (execute (insert_order_info u n))) (\<lambda>created.
     and_then (check_order_info acl ActWrite created) (\<lambda>_. ok created)))"

definition order_infos_update_status ::
  "uuid \<Rightarrow> order_state \<Rightarrow> ('d world, repo_error, order_info list) comp" where
  "order_infos_update_status sid st =
     repo (update_where orders_info set_orders_info (\<lambda>x. oi_saga_id x = sid)
       (touch_order_info (\<lambda>x. x\<lparr>oi_status := st\<rparr>)))"

definition order_infos_delete_by_saga_id :: "acl \<Rightarrow> uuid \<Rightarrow> ('d world, repo_error, order_info list) comp" where
  "order_infos_delete_by_saga_id acl sid =
     and_then (repo (delete_where orders_info set_orders_info (\<lambda>x. oi_saga_id x = sid))) (\<lambda>infos.
     and_then (for_each (check_order_info acl ActWrite) infos) (\<lambda>_. ok infos))"

section \<open>The services on the tables of version 1\<close>

text \<open>What the callback and the recalculation share: the invoice, its orders, the saga.\<close>

definition store_external ::
  "legacy_env \<Rightarrow> uuid \<Rightarrow> update_invoice_v1 \<Rightarrow> ('d world, service_error, invoice_v1) comp" where
  "store_external L iid u =
     and_then (legacy (invoices_v1_change iid u)) (\<lambda>i.
     and_then (legacy (order_infos_update_status (iv1_id i) (iv1_state i))) (\<lambda>infos.
     map_ok (\<lambda>_. i) (http (call_client (saga_update_order_infos L) (SagaUpdateOrderInfos infos) infos))))"

definition service_update_invoice ::
  "legacy_env \<Rightarrow> stq_user_id option \<Rightarrow> external_billing_invoice \<Rightarrow> ('d world, service_error, unit) comp" where
  "service_update_invoice L user x =
     pool (and_then (get_acl user) (\<lambda>_.
       and_then (get_acl user) (\<lambda>_.
       transaction (\<lambda>_. SInternal)
         (map_ok (\<lambda>_. ()) (store_external L (ebi_id x) (update_of_external x))))))"

definition recalc_invoice_v1 ::
  "legacy_env \<Rightarrow> stq_user_id option \<Rightarrow> uuid \<Rightarrow> ('d world, service_error, invoice_v1) comp" where
  "recalc_invoice_v1 L user iid =
     pool (and_then (get_acl user) (\<lambda>_.
       and_then (get_acl user) (\<lambda>_.
       transaction (\<lambda>_. SInternal)
         (and_then (http (call_client (external_billing_login L) ExternalBillingLogin ())) (\<lambda>token.
          and_then (http (call_client (external_billing_recalc L) (ExternalBillingRecalc token iid) (token, iid))) (\<lambda>x.
          store_external L iid (update_of_external x)))))))"

definition get_invoice_by_order_id_v1 ::
  "stq_user_id option \<Rightarrow> uuid \<Rightarrow> ('d world, service_error, invoice_v1 option) comp" where
  "get_invoice_by_order_id_v1 user oid =
     pool (and_then (get_acl user) (\<lambda>i_acl.
       and_then (get_acl user) (\<lambda>o_acl.
       and_then (legacy (order_infos_find_by_order_id o_acl oid)) (\<lambda>found.
       case found of
         None \<Rightarrow> ok None
       | Some x \<Rightarrow> legacy (invoices_v1_find_by_saga_id i_acl (oi_saga_id x))))))"

definition get_invoice_by_id_v1 ::
  "stq_user_id option \<Rightarrow> uuid \<Rightarrow> ('d world, service_error, invoice_v1 option) comp" where
  "get_invoice_by_id_v1 user iid =
     pool (and_then (get_acl user) (\<lambda>acl. legacy (invoices_v1_find acl iid)))"

definition get_invoice_orders_ids_v1 ::
  "stq_user_id option \<Rightarrow> uuid \<Rightarrow> ('d world, service_error, uuid list) comp" where
  "get_invoice_orders_ids_v1 user iid =
     pool (and_then (get_acl user) (\<lambda>i_acl.
       and_then (get_acl user) (\<lambda>o_acl.
       and_then (legacy (invoices_v1_find i_acl iid)) (\<lambda>found.
       case found of
         None \<Rightarrow> ok []
       | Some i \<Rightarrow> map_ok (map oi_order_id) (legacy (order_infos_find_by_saga_id o_acl (iv1_id i)))))))"

definition delete_invoice_by_saga_id_v1 ::
  "stq_user_id option \<Rightarrow> uuid \<Rightarrow> ('d world, service_error, uuid) comp" where
  "delete_invoice_by_saga_id_v1 user sid =
     pool (and_then (get_acl user) (\<lambda>i_acl.
       and_then (get_acl user) (\<lambda>o_acl.
       transaction (\<lambda>_. SInternal)
         (and_then (legacy (invoices_v1_delete i_acl sid)) (\<lambda>i.
          map_ok (\<lambda>_. iv1_id i) (legacy (order_infos_delete_by_saga_id o_acl (iv1_id i))))))))"

section \<open>The services that choose between the versions\<close>

text \<open>\<open>Future::join\<close> of two requests, in the order of its arguments; the second one is made also when the first
  one fails.\<close>

definition both :: "('s, 'e, 'a) comp \<Rightarrow> ('s, 'e, 'b) comp \<Rightarrow> ('s, 'e, 'a \<times> 'b) comp" where
  "both m n =
     then_res m (\<lambda>a. then_res n (\<lambda>b.
     case a of Inl e \<Rightarrow> err e | Inr x \<Rightarrow> (case b of Inl e \<Rightarrow> err e | Inr y \<Rightarrow> ok (x, y))))"

text \<open>The errors of version 2 become a \<open>failure::Error\<close>: of their kinds only a refused access is seen again.\<close>

definition only_version ::
  "'d bigdecimal \<Rightarrow> invoice_v1 option \<times> 'd invoice_dump option \<Rightarrow> ('d world, service_error, invoice_v1 option) comp" where
  "only_version D found =
     (case found of
        (Some _, Some _) \<Rightarrow> err SInternal
      | (Some i, None) \<Rightarrow> ok (Some i)
      | (None, Some dump) \<Rightarrow> map_ok Some (failing (dump_try_into_v1 D dump))
      | (None, None) \<Rightarrow> ok None)"

definition get_invoice_by_order_id ::
  "'d bigdecimal \<Rightarrow> 'd env \<Rightarrow> service_config \<Rightarrow> stq_user_id option \<Rightarrow> uuid \<Rightarrow>
   ('d world, service_error, invoice_v1 option) comp" where
  "get_invoice_by_order_id D env cfg user oid =
     and_then (both (get_invoice_by_order_id_v1 user oid)
       (if cfg_ture cfg then failing (get_invoice_by_order_id_v2 D env cfg user (OrderId oid)) else ok None))
     (only_version D)"

definition get_invoice_by_id ::
  "'d bigdecimal \<Rightarrow> 'd env \<Rightarrow> service_config \<Rightarrow> stq_user_id option \<Rightarrow> uuid \<Rightarrow>
   ('d world, service_error, invoice_v1 option) comp" where
  "get_invoice_by_id D env cfg user iid =
     and_then (both (get_invoice_by_id_v1 user iid)
       (if cfg_ture cfg then failing (recalc_invoice_v2 D env cfg user (InvoiceId iid)) else ok None))
     (only_version D)"

definition recalc_invoice ::
  "'d bigdecimal \<Rightarrow> 'd env \<Rightarrow> legacy_env \<Rightarrow> service_config \<Rightarrow> stq_user_id option \<Rightarrow> uuid \<Rightarrow>
   ('d world, service_error, invoice_v1) comp" where
  "recalc_invoice D env L cfg user iid =
     and_then (if cfg_ture cfg then failing (recalc_invoice_v2 D env cfg user (InvoiceId iid)) else ok None) (\<lambda>found.
     case found of
       None \<Rightarrow> recalc_invoice_v1 L user iid
     | Some dump \<Rightarrow> failing (dump_try_into_v1 D dump))"

definition get_invoice_orders_ids ::
  "service_config \<Rightarrow> stq_user_id option \<Rightarrow> uuid \<Rightarrow> ('d world, service_error, uuid list) comp" where
  "get_invoice_orders_ids cfg user iid =
     and_then (both (get_invoice_orders_ids_v1 user iid)
       (if cfg_ture cfg then failing (get_invoice_orders_ids_v2 user (InvoiceId iid)) else ok []))
     (\<lambda>(v1, v2).
       case (v1, v2) of
         (_ # _, _ # _) \<Rightarrow> err SInternal
       | (_ # _, []) \<Rightarrow> ok v1
       | ([], _ # _) \<Rightarrow> ok (map order_uuid v2)
       | ([], []) \<Rightarrow> ok [])"

definition delete_invoice_by_saga_id ::
  "'d env \<Rightarrow> service_config \<Rightarrow> stq_user_id option \<Rightarrow> uuid \<Rightarrow> ('d world, service_error, uuid) comp" where
  "delete_invoice_by_saga_id env cfg user u =
     (if cfg_ture cfg then delete_invoice_by_saga_id_v2 env user u else delete_invoice_by_saga_id_v1 user u)"

section \<open>Merchants\<close>

text \<open>\<open>services/merchant.rs\<close> answers with constants.\<close>

definition merchant_create_user :: "('d world, service_error, merchant) comp" where
  "merchant_create_user =
     ok \<lparr>mer_merchant_id = 0, mer_user_id = Some 0, mer_store_id = None, mer_created_at = 0,
         mer_updated_at = 0, mer_merchant_type = MerchantUser\<rparr>"

definition merchant_create_store :: "('d world, service_error, merchant) comp" where
  "merchant_create_store =
     ok \<lparr>mer_merchant_id = 0, mer_user_id = None, mer_store_id = Some 0, mer_created_at = 0,
         mer_updated_at = 0, mer_merchant_type = MerchantStore\<rparr>"

definition merchant_delete :: "('d world, service_error, uuid) comp" where
  "merchant_delete = ok 0"

definition merchant_balance_of :: "('d world, service_error, merchant_balance list) comp" where
  "merchant_balance_of = ok []"

section \<open>Laws\<close>

text \<open>What a message of the external billing means for the tables: the specification of the callback and of the
  recalculation.\<close>

definition follow_external ::
  "uuid \<Rightarrow> update_invoice_v1 \<Rightarrow> timestamp \<Rightarrow> 'd db \<Rightarrow> (invoice_v1 \<times> order_info list \<times> 'd db) option" where
  "follow_external iid u now d =
     map_option (\<lambda>r.
         let g = touch_invoice_v1 (apply_update_v1 u) now; i = g r;
             h = touch_order_info (\<lambda>x. x\<lparr>oi_status := ui1_state u\<rparr>) now
         in (i, map h (filter (\<lambda>x. oi_saga_id x = iv1_id r) (orders_info d)),
             d\<lparr>invoices_v1 := map (\<lambda>i. if iv1_invoice_id i = iid then g i else i) (invoices_v1 d),
               orders_info := map (\<lambda>x. if oi_saga_id x = iv1_id r then h x else x) (orders_info d)\<rparr>))
       (row_by (\<lambda>i. iv1_invoice_id i = iid) (invoices_v1 d))"

lemma applied_state: "iv1_state (apply_update_v1 u i) = ui1_state u"
  by (simp add: apply_update_v1_def)

lemma touched_invoice_v1 [simp]:
  "iv1_id (touch_invoice_v1 (apply_update_v1 u) now i) = iv1_id i"
  "iv1_invoice_id (touch_invoice_v1 (apply_update_v1 u) now i) = iv1_invoice_id i"
  by (simp_all add: touch_invoice_v1_def apply_update_v1_def)

lemma touched_state [simp]: "iv1_state (touch_invoice_v1 (apply_update_v1 u) now i) = ui1_state u"
  using applied_state [of u i] by (cases "apply_update_v1 u i = i") (simp_all add: touch_invoice_v1_def)

lemma touched_order_info [simp]:
  "oi_saga_id (touch_order_info (\<lambda>x. x\<lparr>oi_status := st\<rparr>) now x) = oi_saga_id x"
  "oi_status (touch_order_info (\<lambda>x. x\<lparr>oi_status := st\<rparr>) now x) = st"
  by (auto simp: touch_order_info_def) (metis order_info.select_convs(3) order_info.surjective order_info.update_convs(3))+

lemma legacy_success [success]: "legacy m w = (Inr a, t) \<longleftrightarrow> m w = (Inr a, t)"
  by (simp add: legacy_def success)

lemma http_call_success [success]:
  "http (call_client f c q) w = (Inr a, t) \<longleftrightarrow> f (w_calls w) q = Inr a \<and> t = w\<lparr>w_calls := w_calls w @ [c]\<rparr>"
  by (auto simp: http_def success call_client_def)

lemma execute_frame: "execute f w = (r, t) \<Longrightarrow> w_clock t = w_clock w \<and> w_calls t = w_calls w"
  by (auto simp: execute_def Let_def stmt_failed_def next_fault_def split: if_splits sum.splits)

lemma update_where_frame:
  "update_where rows put p g w = (r, t) \<Longrightarrow> w_clock t = w_clock w \<and> w_calls t = w_calls w"
  unfolding update_where_def by (rule execute_frame)

lemma invoices_v1_change_success:
  assumes "invoices_v1_change iid u w = (Inr i, t)"
  shows "\<exists>r. row_by (\<lambda>i. iv1_invoice_id i = iid) (invoices_v1 (w_db w)) = Some r \<and>
    i = touch_invoice_v1 (apply_update_v1 u) (w_clock w 0) r \<and>
    w_db t = (w_db w)\<lparr>invoices_v1 := map (\<lambda>i. if iv1_invoice_id i = iid
      then touch_invoice_v1 (apply_update_v1 u) (w_clock w 0) i else i) (invoices_v1 (w_db w))\<rparr> \<and>
    w_clock t = w_clock w \<and> w_calls t = w_calls w"
proof -
  from assms obtain rs where run: "update_where invoices_v1 set_invoices_v1 (\<lambda>i. iv1_invoice_id i = iid)
      (touch_invoice_v1 (apply_update_v1 u)) w = (Inr (i # rs), t)"
    by (auto simp: invoices_v1_change_def success)
  from update_where_success [OF run] update_where_frame [OF run] show ?thesis
    by (auto simp: row_by_def set_invoices_v1_def Cons_eq_map_conv)
qed

lemma order_infos_update_success:
  assumes "order_infos_update_status sid st w = (Inr infos, t)"
  shows "infos = map (touch_order_info (\<lambda>x. x\<lparr>oi_status := st\<rparr>) (w_clock w 0))
      (filter (\<lambda>x. oi_saga_id x = sid) (orders_info (w_db w))) \<and>
    w_db t = (w_db w)\<lparr>orders_info := map (\<lambda>x. if oi_saga_id x = sid
      then touch_order_info (\<lambda>x. x\<lparr>oi_status := st\<rparr>) (w_clock w 0) x else x) (orders_info (w_db w))\<rparr> \<and>
    w_calls t = w_calls w"
proof -
  from assms have run: "update_where orders_info set_orders_info (\<lambda>x. oi_saga_id x = sid)
      (touch_order_info (\<lambda>x. x\<lparr>oi_status := st\<rparr>)) w = (Inr infos, t)"
    by (simp add: order_infos_update_status_def success)
  from update_where_success [OF run] update_where_frame [OF run] show ?thesis
    by (simp add: set_orders_info_def)
qed

lemma store_external_success:
  assumes "store_external L iid u w = (Inr i, t)"
  shows "\<exists>infos. follow_external iid u (w_clock w 0) (w_db w) = Some (i, infos, w_db t) \<and>
    w_calls t = w_calls w @ [SagaUpdateOrderInfos infos]"
proof -
  from assms obtain infos v1 v2 where inv: "invoices_v1_change iid u w = (Inr i, v1)"
    and ord: "order_infos_update_status (iv1_id i) (iv1_state i) v1 = (Inr infos, v2)"
    and t: "t = v2\<lparr>w_calls := w_calls v2 @ [SagaUpdateOrderInfos infos]\<rparr>"
    unfolding store_external_def and_then_success legacy_success map_ok_success http_call_success by blast
  from invoices_v1_change_success [OF inv] order_infos_update_success [OF ord] t
  show ?thesis by (auto simp: follow_external_def Let_def)
qed

lemma alive_legacy [alive_intros]: "alive m \<Longrightarrow> alive (legacy m)"
  unfolding legacy_def by (rule alive_map_err)

lemma alive_http [alive_intros]: "alive (http (call_client f c q))"
  by (auto simp: alive_def http_call_success)

lemma alive_store_external [alive_intros]: "alive (store_external L iid u)"
  unfolding store_external_def invoices_v1_change_def order_infos_update_status_def
  by (intro alive_intros)

text \<open>A transaction on the connection of the pool, after the repositories have been made.\<close>

definition still :: "'d world \<Rightarrow> 'd world \<Rightarrow> bool" where
  "still s t \<longleftrightarrow> w_db t = w_db s \<and> w_calls t = w_calls s"

interpretation standing: world_relation still
  by unfold_locales (simp_all add: still_def)

lemma ends_with_acls:
  assumes "\<And>e t. w_db t = w_db w \<Longrightarrow> Q (Inl e) t"
    and "\<And>a b v. still w v \<Longrightarrow> ends (m a b) v Q"
  shows "ends (pool (and_then (get_acl user) (\<lambda>a. and_then (get_acl user) (m a)))) w Q"
proof (rule ends_spawn)
  show "Q (Inl SInternal) (next_fault w)" by (rule assms(1)) simp
  show "ends (and_then (get_acl user) (\<lambda>a. and_then (get_acl user) (m a))) (next_fault w) Q"
  proof (rule ends_keeps_then [OF standing.keeps_get_acl])
    fix a v
    assume "still (next_fault w) v"
    then have v: "still w v" by (simp add: still_def)
    show "ends (and_then (get_acl user) (m a)) v Q"
      by (rule ends_keeps_then [OF standing.keeps_get_acl])
        (use v assms in \<open>auto simp: still_def\<close>)
  qed (simp add: still_def assms(1))
qed

text \<open>The tables and the calls after a transaction whose body does not swallow a failed statement.\<close>

lemma ends_alive_transaction:
  assumes "alive m"
    and "\<And>e t. w_db t = w_db w \<Longrightarrow> Q (Inl e) t"
    and "\<And>a u t. m (inner_world w) = (Inr a, u) \<Longrightarrow> w_db t = w_db u \<Longrightarrow> w_calls t = w_calls u \<Longrightarrow> Q (Inr a) t"
  shows "ends (transaction conv m) w Q"
proof (rule endsI)
  fix r t
  assume run: "transaction conv m w = (r, t)"
  show "Q r t"
  proof (cases r)
    case (Inl e)
    with run assms(2) show ?thesis by (auto dest: transaction_error_db)
  next
    case (Inr a)
    with run obtain u where "m (inner_world w) = (Inr a, u)" "w_calls t = w_calls u"
      by (auto elim: transaction_success simp: inner_world_def)
    moreover from run Inr obtain v where "m (inner_world w) = (Inr a, v)" "w_db t = w_db v"
      by (auto elim: alive_transaction [OF _ assms(1)])
    ultimately show ?thesis using assms(3) Inr by simp
  qed
qed

section \<open>Invoices and orders have the same state\<close>

definition legacy_agree :: "'d db \<Rightarrow> bool" where
  "legacy_agree d \<longleftrightarrow>
     distinct (map iv1_id (invoices_v1 d)) \<and> distinct (map iv1_invoice_id (invoices_v1 d)) \<and>
     list_all (\<lambda>i. list_all (\<lambda>x. oi_saga_id x = iv1_id i \<longrightarrow> oi_status x = iv1_state i) (orders_info d)) (invoices_v1 d)"

lemma same_key: "distinct (map f xs) \<Longrightarrow> x \<in> set xs \<Longrightarrow> y \<in> set xs \<Longrightarrow> f x = f y \<Longrightarrow> x = y"
  by (simp add: distinct_map inj_on_def)

lemma map_fst_if: "(\<And>x. f (g x) = f x) \<Longrightarrow> map f (map (\<lambda>x. if p x then g x else x) xs) = map f xs"
  by simp

lemma follow_external_agree:
  assumes "follow_external iid u now d = Some (i, infos, e)" and agree: "legacy_agree d"
  shows "legacy_agree e"
proof -
  let ?g = "touch_invoice_v1 (apply_update_v1 u) now" and ?h = "touch_order_info (\<lambda>x. x\<lparr>oi_status := ui1_state u\<rparr>) now"
  from assms obtain r where r: "row_by (\<lambda>i. iv1_invoice_id i = iid) (invoices_v1 d) = Some r"
    and e: "e = d\<lparr>invoices_v1 := map (\<lambda>i. if iv1_invoice_id i = iid then ?g i else i) (invoices_v1 d),
               orders_info := map (\<lambda>x. if oi_saga_id x = iv1_id r then ?h x else x) (orders_info d)\<rparr>"
    by (auto simp: follow_external_def Let_def)
  from row_by_Some [OF r] have mem: "r \<in> set (invoices_v1 d)" "iv1_invoice_id r = iid" by auto
  from agree have keys: "distinct (map iv1_id (invoices_v1 d))" "distinct (map iv1_invoice_id (invoices_v1 d))"
    and states: "\<And>i x. i \<in> set (invoices_v1 d) \<Longrightarrow> x \<in> set (orders_info d) \<Longrightarrow> oi_saga_id x = iv1_id i \<Longrightarrow>
      oi_status x = iv1_state i"
    by (auto simp: legacy_agree_def list_all_iff)
  have "iv1_invoice_id i = iid \<longleftrightarrow> iv1_id i = iv1_id r" if "i \<in> set (invoices_v1 d)" for i
    using same_key [OF keys(1) that mem(1)] same_key [OF keys(2) that mem(1)] mem(2) by auto
  with keys states show ?thesis
    unfolding legacy_agree_def e by (auto simp: list_all_iff map_fst_if comp_def if_distrib cong: if_cong)
qed

lemma agree_deleted:
  "legacy_agree d \<Longrightarrow> legacy_agree (d\<lparr>invoices_v1 := filter p (invoices_v1 d), orders_info := filter q (orders_info d)\<rparr>)"
  by (auto simp: legacy_agree_def list_all_iff distinct_map_filter)

lemma recalc_body_agree:
  assumes "and_then (http (call_client (external_billing_login L) ExternalBillingLogin ())) (\<lambda>token.
          and_then (http (call_client (external_billing_recalc L) (ExternalBillingRecalc token iid) (token, iid))) (\<lambda>x.
          store_external L iid (update_of_external x))) w = (Inr i, t)"
    and "legacy_agree (w_db w)"
  shows "legacy_agree (w_db t)"
proof -
  from assms(1) obtain calls x
    where run: "store_external L iid (update_of_external x) (w\<lparr>w_calls := calls\<rparr>) = (Inr i, t)"
    unfolding and_then_success http_call_success by auto
  from store_external_success [OF this] assms(2) follow_external_agree show ?thesis by fastforce
qed

definition keeps_agree :: "'d db \<Rightarrow> 'd db \<Rightarrow> bool" where
  "keeps_agree d e \<longleftrightarrow> (legacy_agree d \<longrightarrow> legacy_agree e)"

interpretation agreeing: db_relation keeps_agree
  by unfold_locales (auto simp: keeps_agree_def)

abbreviation agreeing :: "('d world, 'e, 'a) comp \<Rightarrow> bool" where
  "agreeing m \<equiv> keeps (\<lambda>s t. keeps_agree (w_db s) (w_db t)) m"

lemma agreeing_legacy [keeps_intros]: "agreeing m \<Longrightarrow> agreeing (legacy m)"
  unfolding legacy_def by (rule agreeing.keeps_map_err)

lemma agreeing_checks [keeps_intros]:
  "agreeing (check acl res act invoices_v1_in_scope i)" "agreeing (check acl res act order_infos_in_scope x)"
proof -
  have "agreeing (invoices_v1_in_scope uid s obj)" for uid s obj
    by (cases s; cases obj) (simp_all add: invoices_v1_in_scope_def keeps_intros)
  then show "agreeing (check acl res act invoices_v1_in_scope i)" by (rule agreeing.keeps_check)
  have "agreeing (order_infos_in_scope uid s obj)" for uid s obj
    by (cases s) (simp_all add: order_infos_in_scope_def keeps_intros)
  then show "agreeing (check acl res act order_infos_in_scope x)" by (rule agreeing.keeps_check)
qed

lemma agreeing_deletes [keeps_intros]:
  "agreeing (delete_where invoices_v1 set_invoices_v1 p)" "agreeing (delete_where orders_info set_orders_info q)"
proof -
  have "keeps_agree d (set_invoices_v1 (filter (\<lambda>r. \<not> p r) (invoices_v1 d)) d)"
    "keeps_agree d (set_orders_info (filter (\<lambda>r. \<not> q r) (orders_info d)) d)" for d
    by (auto simp: keeps_agree_def legacy_agree_def set_invoices_v1_def set_orders_info_def list_all_iff
        distinct_map_filter)
  then show "agreeing (delete_where invoices_v1 set_invoices_v1 p)"
    "agreeing (delete_where orders_info set_orders_info q)"
    by (auto intro: agreeing.keeps_delete_where)
qed

lemmas legacy_operation_defs =
  invoices_v1_find_def invoices_v1_find_by_saga_id_def readable_invoice_v1_def invoices_v1_delete_def
  order_infos_find_by_order_id_def order_infos_find_by_saga_id_def readable_order_info_def
  order_infos_delete_by_saga_id_def

lemma agreeing_services:
  "agreeing (get_invoice_by_order_id_v1 user u)" "agreeing (get_invoice_by_id_v1 user u)"
  "agreeing (get_invoice_orders_ids_v1 user u)" "agreeing (delete_invoice_by_saga_id_v1 user u)"
  unfolding get_invoice_by_order_id_v1_def get_invoice_by_id_v1_def get_invoice_orders_ids_v1_def
    delete_invoice_by_saga_id_v1_def legacy_operation_defs
  by (intro keeps_intros)+

lemma keeps_of_ends: "(\<And>w. ends m w (\<lambda>r t. R w t)) \<Longrightarrow> keeps R m"
  by (rule keepsI) (rule endsD)

lemma agreeing_recalc: "agreeing (recalc_invoice_v1 L user u)"
proof (rule keeps_of_ends)
  fix w
  show "ends (recalc_invoice_v1 L user u) w (\<lambda>r t. keeps_agree (w_db w) (w_db t))"
    unfolding recalc_invoice_v1_def
    by (intro ends_with_acls ends_alive_transaction alive_intros)
      (auto simp: keeps_agree_def still_def dest: recalc_body_agree)
qed

section \<open>Properties\<close>

text \<open>A callback of the external billing is copied to both tables or to none: when the request succeeds, the
  invoice with its number has the amounts, the wallet and the state of the message, all its orders
  have that state, and the saga has accepted exactly these orders; when it fails, whatever the
  reason, the tables are as before.\<close>

theorem external_callback_is_atomic:
  "ends (service_update_invoice L user x) w (\<lambda>r t.
     case r of
       Inl _ \<Rightarrow> w_db t = w_db w
     | Inr _ \<Rightarrow> \<exists>now i infos.
         follow_external (ebi_id x) (update_of_external x) now (w_db w) = Some (i, infos, w_db t) \<and>
         w_calls t = w_calls w @ [SagaUpdateOrderInfos infos])"
  unfolding service_update_invoice_def
proof (intro ends_with_acls ends_alive_transaction alive_intros)
  fix v u t :: "'a world" and a :: unit
  assume v: "still w v"
    and run: "map_ok (\<lambda>_. ()) (store_external L (ebi_id x) (update_of_external x)) (inner_world v) = (Inr a, u)"
    and t: "w_db t = w_db u" "w_calls t = w_calls u"
  from run obtain i where "store_external L (ebi_id x) (update_of_external x) (inner_world v) = (Inr i, u)"
    unfolding map_ok_success by blast
  from store_external_success [OF this] v t
  show "case Inr a of Inl e \<Rightarrow> w_db t = w_db w | Inr _ \<Rightarrow> \<exists>now i infos.
      follow_external (ebi_id x) (update_of_external x) now (w_db w) = Some (i, infos, w_db t) \<and>
      w_calls t = w_calls w @ [SagaUpdateOrderInfos infos]" by (auto simp: still_def)
qed (auto simp: still_def)

lemma agreeing_callback: "agreeing (service_update_invoice L user x)"
proof (rule keeps_of_ends)
  fix w
  show "ends (service_update_invoice L user x) w (\<lambda>r t. keeps_agree (w_db w) (w_db t))"
    unfolding service_update_invoice_def
    by (intro ends_with_acls ends_alive_transaction alive_intros)
      (fastforce simp: keeps_agree_def still_def map_ok_success dest!: store_external_success follow_external_agree)+
qed

datatype legacy_request =
    ExternalCallback external_billing_invoice
  | RecalcV1 uuid
  | InvoiceOfOrderV1 uuid
  | InvoiceV1 uuid
  | OrdersOfInvoiceV1 uuid
  | DeleteInvoiceV1 uuid

fun serve_legacy :: "legacy_env \<Rightarrow> stq_user_id option \<times> legacy_request \<Rightarrow> 'd world \<Rightarrow> 'd world" where
  "serve_legacy L (user, ExternalCallback x) w = snd (service_update_invoice L user x w)"
| "serve_legacy L (user, RecalcV1 u) w = snd (recalc_invoice_v1 L user u w)"
| "serve_legacy L (user, InvoiceOfOrderV1 u) w = snd (get_invoice_by_order_id_v1 user u w)"
| "serve_legacy L (user, InvoiceV1 u) w = snd (get_invoice_by_id_v1 user u w)"
| "serve_legacy L (user, OrdersOfInvoiceV1 u) w = snd (get_invoice_orders_ids_v1 user u w)"
| "serve_legacy L (user, DeleteInvoiceV1 u) w = snd (delete_invoice_by_saga_id_v1 user u w)"

lemma serve_legacy_agree: "keeps_agree (w_db w) (w_db (serve_legacy L q w))"
  by (cases "(L, q, w)" rule: serve_legacy.cases)
    (simp_all add: agreeing_services [unfolded keeps_def, rule_format] agreeing_recalc [unfolded keeps_def, rule_format]
      agreeing_callback [unfolded keeps_def, rule_format])

text \<open>C24: The two tables of version 1 never disagree: when every order has the state of its invoice, this is so
  after any requests and callbacks, whatever the external services answer and whichever statements
  fail.\<close>

theorem legacy_tables_agree:
  assumes "legacy_agree (w_db w)"
  shows "legacy_agree (w_db (fold (serve_legacy L) reqs w))"
  using assms
proof (induction reqs arbitrary: w)
  case (Cons q reqs)
  then show ?case using serve_legacy_agree [of w L q] by (simp add: keeps_agree_def)
qed simp

definition old_invoice :: invoice_v1 where
  "old_invoice = \<lparr>iv1_id = 1, iv1_invoice_id = 2, iv1_amount = Finite 0 0, iv1_price_reserved = 0, iv1_state = OsNew,
     iv1_wallet = None, iv1_created_at = 0, iv1_updated_at = 0, iv1_transactions = [],
     iv1_amount_captured = Finite 0 0, iv1_currency = STQ_STQ\<rparr>"

definition old_order :: order_info where
  "old_order = \<lparr>oi_id = 3, oi_order_id = 4, oi_status = OsNew, oi_created_at = 0, oi_updated_at = 0,
     oi_customer_id = 5, oi_store_id = 6, oi_saga_id = 1, oi_total_amount = Finite 0 0\<rparr>"

definition legacy_world :: "rat world" where
  "legacy_world = initial_world (empty_db\<lparr>invoices_v1 := [old_invoice], orders_info := [old_order]\<rparr>)"

definition paid_message :: external_billing_invoice where
  "paid_message = \<lparr>ebi_id = 2, ebi_amount_captured = ''1'', ebi_transactions = None, ebi_wallet = None,
     ebi_amount = ''1'', ebi_currency = STQ_STQ, ebi_status = EbDone, ebi_expired = 0\<rparr>"

definition friendly_legacy :: legacy_env where
  "friendly_legacy = \<lparr>external_billing_login = (\<lambda>_ _. Inl CInternal),
     external_billing_recalc = (\<lambda>_ _. Inl CInternal), saga_update_order_infos = (\<lambda>_ _. Inr ())\<rparr>"

lemma legacy_world_simps [simp]:
  "quiet legacy_world" "w_db legacy_world = empty_db\<lparr>invoices_v1 := [old_invoice], orders_info := [old_order]\<rparr>"
  by (simp_all add: legacy_world_def) (simp add: initial_world_def)

theorem legacy_tables_agree_witness:
  "legacy_agree (w_db (fold (serve_legacy friendly_legacy)
     [(None, ExternalCallback paid_message), (Some 5, DeleteInvoiceV1 1)] legacy_world))"
  by (rule legacy_tables_agree) (simp add: legacy_agree_def old_invoice_def old_order_def)

lemma quiet_get_result_update:
  "quiet w \<Longrightarrow> invoices_v1_change iid u w =
     (case row_by (\<lambda>i. iv1_invoice_id i = iid) (invoices_v1 (w_db w)) of
        None \<Rightarrow> (Inl (repo_error_of_diesel DieselNotFound), w\<lparr>w_db := (w_db w)\<lparr>invoices_v1 := map (\<lambda>i. if iv1_invoice_id i = iid
          then touch_invoice_v1 (apply_update_v1 u) (w_clock w 0) i else i) (invoices_v1 (w_db w))\<rparr>\<rparr>)
      | Some r \<Rightarrow> (Inr (touch_invoice_v1 (apply_update_v1 u) (w_clock w 0) r),
          w\<lparr>w_db := (w_db w)\<lparr>invoices_v1 := map (\<lambda>i. if iv1_invoice_id i = iid
          then touch_invoice_v1 (apply_update_v1 u) (w_clock w 0) i else i) (invoices_v1 (w_db w))\<rparr>\<rparr>))"
  by (auto simp: invoices_v1_change_def repo_def map_err_def get_result_def and_then_def update_where_quiet
      set_invoices_v1_def row_by_def split: list.splits)

lemma store_external_quiet:
  assumes "quiet w" and "follow_external iid u (w_clock w 0) (w_db w) = Some (i, infos, d)"
    and "saga_update_order_infos L (w_calls w) infos = Inr ()"
  shows "store_external L iid u w = (Inr i, w\<lparr>w_db := d, w_calls := w_calls w @ [SagaUpdateOrderInfos infos]\<rparr>)"
  using assms
  by (auto simp: store_external_def follow_external_def Let_def and_then_def legacy_def map_err_def
      quiet_get_result_update order_infos_update_status_def repo_def update_where_quiet set_orders_info_def
      map_ok_def http_def call_client_def)

text \<open>C34: The callback of the external billing is not protected: a request without a user that names the number of
  an invoice sets the invoice and all its orders to any state, also to paid, and the saga is told so.\<close>

theorem anybody_sets_invoice_state:
  assumes "quiet w"
    and "follow_external (ebi_id x) (update_of_external x) (w_clock w 0) (w_db w) = Some (i, infos, d)"
    and "saga_update_order_infos L (w_calls w) infos = Inr ()"
  shows "fst (service_update_invoice L None x w) = Inr () \<and> w_db (snd (service_update_invoice L None x w)) = d \<and>
    iv1_state i = order_state_of_external (ebi_status x) \<and>
    list_all (\<lambda>o1. oi_status o1 = order_state_of_external (ebi_status x)) infos"
proof -
  let ?m = "map_ok (\<lambda>_. ()) (store_external L (ebi_id x) (update_of_external x))"
  let ?w = "w\<lparr>w_depth := Suc (w_depth w)\<rparr>"
  let ?t = "?w\<lparr>w_db := d, w_calls := w_calls w @ [SagaUpdateOrderInfos infos]\<rparr>"
  have "store_external L (ebi_id x) (update_of_external x) ?w = (Inr i, ?t)"
    using store_external_quiet [of ?w "ebi_id x" "update_of_external x" i infos d L] assms by simp
  then have "?m ?w = (Inr (), ?t)" by (simp add: map_ok_def)
  with assms(1) have "transaction (\<lambda>_. SInternal) ?m w = (Inr (), ?t\<lparr>w_depth := w_depth w\<rparr>)"
    by (intro transaction_quiet_Inr) simp_all
  with assms(1) have "service_update_invoice L None x w = (Inr (), ?t\<lparr>w_depth := w_depth w\<rparr>)"
    by (simp add: service_update_invoice_def get_acl_def and_then_def)
  moreover have "iv1_state i = order_state_of_external (ebi_status x)"
    "list_all (\<lambda>o1. oi_status o1 = order_state_of_external (ebi_status x)) infos"
    using assms(2) by (auto simp: follow_external_def Let_def update_of_external_def list_all_iff)
  ultimately show ?thesis by simp
qed

theorem anybody_sets_invoice_state_witness:
  "map oi_status (orders_info (w_db (snd (service_update_invoice friendly_legacy None paid_message legacy_world)))) = [OsPaid]"
proof -
  obtain i infos d where run: "follow_external (ebi_id paid_message) (update_of_external paid_message)
      (w_clock legacy_world 0) (w_db legacy_world) = Some (i, infos, d)" and d: "map oi_status (orders_info d) = [OsPaid]"
    by (simp add: follow_external_def paid_message_def old_invoice_def old_order_def Let_def update_of_external_def
        touch_order_info_def)
  have "saga_update_order_infos friendly_legacy (w_calls legacy_world) infos = Inr ()"
    by (simp add: friendly_legacy_def)
  from anybody_sets_invoice_state [OF _ run this] d show ?thesis by simp
qed

end
