(* ===== verification/Routes.thy ===== *)
theory Routes
  imports Prelude Amounts Models
begin

text \<open>
  \<open>controller/routes.rs\<close>: the table of the paths that the server knows. The regular expressions of the
  table are read from their text; they consist of literal characters and groups that repeat a class
  of characters. Which entries match a path, and that no path has two, is independent of the order
  in which the router of \<open>stq_router\<close> tries them. UUIDs are parsed by a library, the parameter
  \<open>parse_uuid\<close>.
\<close>

section \<open>Routes\<close>

datatype (plugins only: size) route =
    StripeWebhook
  | ExternalBillingCallback
  | PaymentsInboundTx
  | Invoices
  | InvoicesV2
  | InvoiceBySagaId uuid
  | InvoiceById uuid
  | InvoiceByIdV2 invoice_id
  | InvoiceByOrderId uuid
  | InvoiceOrdersIds uuid
  | InvoiceByIdRecalc uuid
  | OrdersByIdCapture order_id
  | OrdersByIdDecline order_id
  | UserMerchants
  | StoreMerchants
  | UserMerchant int
  | UserMerchantBalance int
  | StoreMerchant int
  | StoreMerchantBalance int
  | Roles
  | RoleById uuid
  | RolesByUserId int
  | PaymentIntentByInvoice invoice_id
  | PaymentIntentByFee fee_id
  | Customers
  | CustomersWithSource
  | OrdersSetPaymentState order_id
  | OrderSearch
  | OrderBillingInfo
  | InternationalBillingInfos
  | RussiaBillingInfos
  | InternationalBillingInfo int
  | RussiaBillingInfo int
  | InternationalBillingInfoByStore int
  | RussiaBillingInfoByStore int
  | BillingTypeByStore int
  | FeesByOrder order_id
  | FeesPay fee_id
  | FeesPayByOrder order_id
  | FeesPayByOrders
  | Payouts
  | PayoutById payout_id
  | PayoutsByOrderIds
  | PayoutsByStoreId store_id
  | StoreBalance store_id
  | PayoutsCalculate
  | Subscriptions
  | SubscriptionBySubscriptionPaymentId int
  | SubscriptionPayment
  | SubscriptionPaymentSearch
  | StoreSubscription
  | StoreSubscriptionByStoreId int

section \<open>Patterns\<close>

datatype char_class = AlnumOrDash | Digit | Only char

fun in_class :: "char_class \<Rightarrow> char \<Rightarrow> bool" where
  "in_class AlnumOrDash c =
     (let n = of_char c :: nat in
      (97 \<le> n \<and> n \<le> 122) \<or> (65 \<le> n \<and> n \<le> 90) \<or> (48 \<le> n \<and> n \<le> 57) \<or> n = 45)"
| "in_class Digit c = (char_digit c \<noteq> None)"
| "in_class (Only a) c = (c = a)"

datatype pattern_token = Literal char | Group char_class

text \<open>The text of a regular expression between \<open>^\<close> and \<open>$\<close>. A group is a class in parentheses, repeated at least
  once.\<close>

definition class_of_text :: "string \<Rightarrow> char_class option" where
  "class_of_text s =
     (if s = ''[a-zA-Z0-9-]'' then Some AlnumOrDash
      else if s = [CHR 0x5C, CHR ''d''] then Some Digit
      else case s of [c] \<Rightarrow> Some (Only c) | _ \<Rightarrow> None)"

fun read_pattern :: "string \<Rightarrow> string option \<Rightarrow> pattern_token list option" where
  "read_pattern [] None = None"
| "read_pattern [] (Some _) = None"
| "read_pattern (c # cs) None =
     (if c = CHR ''$'' then (if cs = [] then Some [] else None)
      else if c = CHR ''('' then read_pattern cs (Some [])
      else map_option ((#) (Literal c)) (read_pattern cs None))"
| "read_pattern (c # cs) (Some cls) =
     (if c = CHR '')'' then
        (case rev cls of
           p # ps \<Rightarrow>
             if p = CHR ''+'' then
               Option.bind (class_of_text (rev ps)) (\<lambda>k. map_option ((#) (Group k)) (read_pattern cs None))
             else None
         | [] \<Rightarrow> None)
      else read_pattern cs (Some (cls @ [c])))"

definition pattern_of :: "string \<Rightarrow> pattern_token list option" where
  "pattern_of s = (case s of c # cs \<Rightarrow> if c = CHR ''^'' then read_pattern cs None else None | [] \<Rightarrow> None)"

text \<open>The captured groups. In the table a group is followed by a character outside its class or by the end,
  so it takes the characters as long as they are in its class.\<close>

fun captures :: "pattern_token list \<Rightarrow> string \<Rightarrow> string list option" where
  "captures [] s = (if s = [] then Some [] else None)"
| "captures (Literal a # ts) s = (case s of c # cs \<Rightarrow> if c = a then captures ts cs else None | [] \<Rightarrow> None)"
| "captures (Group k # ts) s =
     (let x = takeWhile (in_class k) s in
      if x = [] then None else map_option ((#) x) (captures ts (dropWhile (in_class k) s)))"

section \<open>The table\<close>

text \<open>\<open>i32::from_str\<close>.\<close>

definition parse_i32 :: "string \<Rightarrow> int option" where
  "parse_i32 s =
     (let (negative, digits) = (case s of
            c # cs \<Rightarrow> if c = CHR ''-'' then (True, cs) else if c = CHR ''+'' then (False, cs) else (False, s)
          | [] \<Rightarrow> (False, []))
      in if digits = [] then None
         else Option.bind (digits_value 0 digits) (\<lambda>n.
           let i = if negative then - int n else int n
           in if - (2 ^ 31) \<le> i \<and> i < 2 ^ 31 then Some i else None))"

type_synonym route_entry = "string \<times> (string list \<Rightarrow> route option)"

definition add_route :: "string \<Rightarrow> route \<Rightarrow> route_entry" where
  "add_route s r = (s, \<lambda>_. Some r)"

definition add_route_with :: "(string \<Rightarrow> 'a option) \<Rightarrow> string \<Rightarrow> ('a \<Rightarrow> route) \<Rightarrow> route_entry" where
  "add_route_with parse s f =
     (s, \<lambda>params. case params of x # _ \<Rightarrow> map_option f (parse x) | [] \<Rightarrow> None)"

definition PAYMENTS_CALLBACK_ENDPOINT :: string where
  "PAYMENTS_CALLBACK_ENDPOINT = ''/v2/callback/payments/inbound_tx''"

abbreviation digits_group :: string where
  "digits_group \<equiv> [CHR ''('', CHR 0x5C, CHR ''d'', CHR ''+'', CHR '')'']"

definition create_route_parser :: "(string \<Rightarrow> uuid option) \<Rightarrow> route_entry list" where
  "create_route_parser parse_uuid =
     [add_route ''^/v2/callback/stripe$'' StripeWebhook,
      add_route ''^/external_billing_callback$'' ExternalBillingCallback,
      add_route (''^'' @ PAYMENTS_CALLBACK_ENDPOINT @ ''$'') PaymentsInboundTx,
      add_route ''^/invoices$'' Invoices,
      add_route ''^/v2/invoices$'' InvoicesV2,
      add_route_with parse_uuid ''^/invoices/by-saga-id/([a-zA-Z0-9-]+)$'' InvoiceBySagaId,
      add_route_with parse_uuid ''^/invoices/by-id/([a-zA-Z0-9-]+)/recalc$'' InvoiceByIdRecalc,
      add_route_with parse_uuid ''^/invoices/by-id/([a-zA-Z0-9-]+)/order_ids$'' InvoiceOrdersIds,
      add_route_with parse_uuid ''^/invoices/by-id/([a-zA-Z0-9-]+)$'' InvoiceById,
      add_route_with parse_uuid ''^/v2/invoices/by-id/([a-zA-Z0-9-]+)$'' (InvoiceByIdV2 \<circ> InvoiceId),
      add_route_with parse_uuid ''^/invoices/by-order-id/([a-zA-Z0-9-]+)$'' InvoiceByOrderId,
      add_route ''^/merchants/user$'' UserMerchants,
      add_route_with parse_i32 (''^/merchants/user/'' @ digits_group @ ''$'') UserMerchant,
      add_route_with parse_i32 (''^/merchants/user/'' @ digits_group @ ''/balance$'') UserMerchantBalance,
      add_route ''^/merchants/store$'' StoreMerchants,
      add_route_with parse_i32 (''^/merchants/store/'' @ digits_group @ ''$'') StoreMerchant,
      add_route_with parse_i32 (''^/merchants/store/'' @ digits_group @ ''/balance$'') StoreMerchantBalance,
      add_route ''^/roles$'' Roles,
      add_route_with parse_i32 (''^/roles/by-user-id/'' @ digits_group @ ''$'') RolesByUserId,
      add_route_with parse_uuid ''^/roles/by-id/([a-zA-Z0-9-]+)$'' RoleById,
      add_route_with parse_uuid ''^/payment_intents/invoices/([a-zA-Z0-9-]+)$'' (PaymentIntentByInvoice \<circ> InvoiceId),
      add_route_with parse_i32 ''^/payment_intents/fees/([a-zA-Z0-9-]+)$'' (PaymentIntentByFee \<circ> FeeId),
      add_route_with parse_uuid ''^/orders/([a-zA-Z0-9-]+)/capture$'' (OrdersByIdCapture \<circ> OrderId),
      add_route_with parse_uuid ''^/orders/([a-zA-Z0-9-]+)/decline$'' (OrdersByIdDecline \<circ> OrderId),
      add_route_with parse_uuid ''^/orders/([a-zA-Z0-9-]+)/set_payment_state$'' (OrdersSetPaymentState \<circ> OrderId),
      add_route ''^/orders/search$'' OrderSearch,
      add_route ''^/customers$'' Customers,
      add_route_with parse_uuid ''^/fees/by-order-id/([a-zA-Z0-9-]+)$'' (FeesByOrder \<circ> OrderId),
      add_route_with parse_i32 ''^/fees/(d+)/pay$'' (FeesPay \<circ> FeeId),
      add_route_with parse_uuid ''^/fees/by-order-id/([a-zA-Z0-9-]+)/pay$'' (FeesPayByOrder \<circ> OrderId),
      add_route ''^fees/by-order-ids/pay$'' FeesPayByOrders,
      add_route ''^/customers/with_source$'' CustomersWithSource,
      add_route ''^/order_billing_info$'' OrderBillingInfo,
      add_route ''^/billing_info/international$'' InternationalBillingInfos,
      add_route ''^/billing_info/russia$'' RussiaBillingInfos,
      add_route_with parse_i32 (''^/billing_type/by-store-id/'' @ digits_group @ ''$'') BillingTypeByStore,
      add_route_with parse_i32 (''^/billing_info/international/by-store-id/'' @ digits_group @ ''$'')
        InternationalBillingInfoByStore,
      add_route_with parse_i32 (''^/billing_info/russia/by-store-id/'' @ digits_group @ ''$'')
        RussiaBillingInfoByStore,
      add_route_with parse_i32 (''^/billing_info/international/'' @ digits_group @ ''$'') InternationalBillingInfo,
      add_route_with parse_i32 (''^/billing_info/russia/'' @ digits_group @ ''$'') RussiaBillingInfo,
      add_route ''^/payouts$'' Payouts,
      add_route ''^/payouts/by-order-ids$'' PayoutsByOrderIds,
      add_route ''^/payouts/calculate$'' PayoutsCalculate,
      add_route_with parse_i32 (''^/payouts/by-store-id/'' @ digits_group @ ''$'') (PayoutsByStoreId \<circ> StoreId),
      add_route_with parse_i32 (''^/balance/by-store-id/'' @ digits_group @ ''$'') (StoreBalance \<circ> StoreId),
      add_route_with parse_uuid ''^/payouts/([a-zA-Z0-9-]+)$'' (PayoutById \<circ> PayoutId),
      add_route ''^/subscriptions$'' Subscriptions,
      add_route_with parse_i32 (''^/subscriptions/by-subscription-payment-id/'' @ digits_group @ ''$'')
        SubscriptionBySubscriptionPaymentId,
      add_route ''^/subscription/payment$'' SubscriptionPayment,
      add_route ''^/subscription/payment/search$'' SubscriptionPaymentSearch,
      add_route ''^/store_subscription$'' StoreSubscription,
      add_route_with parse_i32 (''^/store_subscription/by-store-id/'' @ digits_group @ ''$'')
        StoreSubscriptionByStoreId]"

text \<open>The route of one entry of the table, of all the entries, and the one that the router returns.\<close>

definition entry_route :: "string \<Rightarrow> route_entry \<Rightarrow> route option" where
  "entry_route path = (\<lambda>(s, f). Option.bind (pattern_of s) (\<lambda>ts. Option.bind (captures ts path) f))"

definition routes_of :: "(string \<Rightarrow> uuid option) \<Rightarrow> string \<Rightarrow> route list" where
  "routes_of parse_uuid path = List.map_filter (entry_route path) (create_route_parser parse_uuid)"

definition route_of :: "(string \<Rightarrow> uuid option) \<Rightarrow> string \<Rightarrow> route option" where
  "route_of parse_uuid path = (case routes_of parse_uuid path of [] \<Rightarrow> None | r # _ \<Rightarrow> Some r)"

section \<open>Paths that match two patterns\<close>

text \<open>Matching as an automaton: with an open class it reads the characters of the class first.\<close>

function accepts :: "char_class option \<Rightarrow> pattern_token list \<Rightarrow> string \<Rightarrow> bool" where
  "accepts (Some k) ts (c # s) = (if in_class k c then accepts (Some k) ts s else accepts None ts (c # s))"
| "accepts (Some k) ts [] = accepts None ts []"
| "accepts None [] s = (s = [])"
| "accepts None (Literal a # ts) (c # s) = (c = a \<and> accepts None ts s)"
| "accepts None (Group k # ts) (c # s) = (in_class k c \<and> accepts (Some k) ts s)"
| "accepts None (t # ts) [] = False"
  by pat_completeness auto
termination
  by (relation "measure (\<lambda>(p, ts, s). 2 * length s + 2 * length ts + (if p = None then 0 else 1))") simp_all

lemma accepts_open: "accepts (Some k) ts s = accepts None ts (dropWhile (in_class k) s)"
  by (induction s) simp_all

lemma captures_accepts: "captures ts s = Some xs \<Longrightarrow> accepts None ts s"
proof (induction ts arbitrary: s xs)
  case Nil
  then show ?case by (simp split: if_splits)
next
  case (Cons t ts)
  then show ?case
    by (cases t; cases s) (auto simp: Let_def accepts_open split: if_splits)
qed

text \<open>A test that no string is accepted by both.\<close>

function apart :: "char_class option \<Rightarrow> pattern_token list \<Rightarrow> char_class option \<Rightarrow> pattern_token list \<Rightarrow> bool" where
  "apart None [] None us = (us \<noteq> [])"
| "apart None (t # ts) None [] = True"
| "apart None (Literal a # ts) None (Literal b # us) = (a \<noteq> b \<or> apart None ts None us)"
| "apart None (Literal a # ts) None (Group l # us) = (in_class l a \<longrightarrow> apart None ts (Some l) us)"
| "apart None (Group k # ts) None (Literal b # us) = (in_class k b \<longrightarrow> apart (Some k) ts None us)"
| "apart None (Group k # ts) None (Group l # us) = apart (Some k) ts (Some l) us"
| "apart None [] (Some l) us = apart None [] None us"
| "apart None (Literal a # ts) (Some l) us =
     (if in_class l a then apart None ts (Some l) us else apart None (Literal a # ts) None us)"
| "apart None (Group k # ts) (Some l) us =
     (apart (Some k) ts (Some l) us \<and> apart None (Group k # ts) None us)"
| "apart (Some k) ts None [] = apart None ts None []"
| "apart (Some k) ts None (Literal b # us) =
     (if in_class k b then apart (Some k) ts None us else apart None ts None (Literal b # us))"
| "apart (Some k) ts None (Group l # us) =
     (apart (Some k) ts (Some l) us \<and> apart None ts None (Group l # us))"
| "apart (Some k) ts (Some l) us =
     (apart None ts (Some l) us \<and> apart (Some k) ts None us \<and> apart None ts None us)"
  by pat_completeness auto
termination
  by (relation "measure (\<lambda>(p, ts, q, us). 2 * length ts + 2 * length us + (if p = None then 0 else 1) +
    (if q = None then 0 else 1))") simp_all

lemma accepts_Nil: "accepts None [] s \<longleftrightarrow> s = []"
  by simp

lemma accepts_Literal: "accepts None (Literal a # ts) s \<longleftrightarrow> (\<exists>v. s = a # v \<and> accepts None ts v)"
  by (cases s) auto

lemma accepts_Group: "accepts None (Group k # ts) s \<longleftrightarrow> (\<exists>c v. s = c # v \<and> in_class k c \<and> accepts (Some k) ts v)"
  by (cases s) auto

lemmas accepts_iffs = accepts_Nil accepts_Literal accepts_Group

lemma apart_sound: "apart p ts q us \<Longrightarrow> accepts p ts s \<Longrightarrow> accepts q us s \<Longrightarrow> False"
proof (induction p ts q us arbitrary: s rule: apart.induct)
  case (1 us)
  then show ?case by (cases us; cases "hd us") (auto simp: accepts_iffs)
next
  case (2 t ts)
  then show ?case by (cases t) (auto simp: accepts_iffs)
next
  case (9 k ts l us)
  from 9(4) obtain c v where s: "s = c # v" "in_class k c" "accepts (Some k) ts v" by (auto simp: accepts_Group)
  show ?case
  proof (cases "in_class l c")
    case True
    with 9(5) s have "accepts (Some l) us v" by simp
    with 9(1) 9(3) s show ?thesis by simp
  next
    case False
    with 9(5) s have "accepts None us s" by simp
    with 9(2) [of s] 9(3,4) show ?thesis by simp
  qed
next
  case (12 k ts l us)
  from 12(5) obtain c v where s: "s = c # v" "in_class l c" "accepts (Some l) us v" by (auto simp: accepts_Group)
  show ?case
  proof (cases "in_class k c")
    case True
    with 12(4) s have "accepts (Some k) ts v" by simp
    with 12(1) 12(3) s show ?thesis by simp
  next
    case False
    with 12(4) s have "accepts None ts s" by simp
    with 12(2) [of s] 12(3,5) show ?thesis by simp
  qed
next
  case (13 k ts l us)
  from 13(5,6) show ?case
  proof (induction s)
    case Nil
    with 13(3) [of "[]"] 13(4) show ?case by simp
  next
    case (Cons c v)
    consider "in_class k c" "in_class l c" | "\<not> in_class k c" | "in_class k c" "\<not> in_class l c" by blast
    then show ?case
    proof cases
      case 1
      with Cons show ?thesis by simp
    next
      case 2
      with Cons 13(1) [of "c # v"] 13(4) show ?thesis by simp
    next
      case 3
      with Cons 13(2) [of "c # v"] 13(4) show ?thesis by simp
    qed
  qed
qed (auto simp: accepts_iffs split: if_splits)

text \<open>The texts of the table, and the pairs that overlap as patterns.\<close>

definition route_texts :: "string list" where
  "route_texts = map fst (create_route_parser (\<lambda>_. None))"

lemma route_texts: "map fst (create_route_parser parse_uuid) = route_texts"
  by (simp add: route_texts_def create_route_parser_def add_route_def add_route_with_def)

definition payout_texts :: "string list" where
  "payout_texts = [''^/payouts/by-order-ids$'', ''^/payouts/calculate$'']"

definition patterns_apart :: "string \<times> pattern_token list option \<Rightarrow> string \<times> pattern_token list option \<Rightarrow> bool" where
  "patterns_apart = (\<lambda>(s, p) (t, q).
     case (p, q) of
       (Some ts, Some us) \<Rightarrow> apart None ts None us \<or> s \<in> set payout_texts \<and> t = ''^/payouts/([a-zA-Z0-9-]+)$''
     | _ \<Rightarrow> True)"

lemma all_apart: "sorted_wrt patterns_apart (map (\<lambda>s. (s, pattern_of s)) route_texts)"
  by code_simp

lemma literal_captures: "captures (map Literal l) s = Some xs \<Longrightarrow> s = l"
  by (induction l arbitrary: s xs) (auto split: list.splits if_splits)

lemma payout_patterns:
  "pattern_of ''^/payouts/by-order-ids$'' = Some (map Literal ''/payouts/by-order-ids'')"
  "pattern_of ''^/payouts/calculate$'' = Some (map Literal ''/payouts/calculate'')"
  "pattern_of ''^/payouts/([a-zA-Z0-9-]+)$'' = Some (map Literal ''/payouts/'' @ [Group AlnumOrDash])"
  by (simp_all add: pattern_of_def class_of_text_def)

lemma literal_text:
  "pattern_of s = Some (map Literal l) \<Longrightarrow> pattern_of s = Some ts \<Longrightarrow> captures ts path = Some xs \<Longrightarrow> path = l"
  by (metis literal_captures option.inject)

lemma payout_path:
  assumes "s \<in> set payout_texts" and "pattern_of s = Some ts" and "captures ts path = Some xs"
  shows "path = ''/payouts/by-order-ids'' \<or> path = ''/payouts/calculate''"
proof -
  from assms(1) consider "s = ''^/payouts/by-order-ids$''" | "s = ''^/payouts/calculate$''"
    unfolding payout_texts_def by auto
  then show ?thesis
  proof cases
    case 1
    from literal_text [OF payout_patterns(1)] assms(2,3) show ?thesis unfolding 1 by blast
  next
    case 2
    from literal_text [OF payout_patterns(2)] assms(2,3) show ?thesis unfolding 2 by blast
  qed
qed

lemma captured_length: "captures ts s = Some xs \<Longrightarrow> x \<in> set xs \<Longrightarrow> length x \<le> length s"
proof (induction ts arbitrary: s xs)
  case (Cons t ts)
  show ?case
  proof (cases t)
    case (Literal a)
    with Cons.prems obtain v where "s = a # v" "captures ts v = Some xs"
      by (auto split: list.splits if_splits)
    with Cons.IH [of v xs] Cons.prems(2) show ?thesis by simp
  next
    case (Group k)
    with Cons.prems obtain ys where ys: "captures ts (dropWhile (in_class k) s) = Some ys"
      "xs = takeWhile (in_class k) s # ys" by (auto simp: Let_def split: if_splits)
    from Cons.prems(2) ys(2) consider "x = takeWhile (in_class k) s" | "x \<in> set ys" by auto
    then show ?thesis
      by cases (use Cons.IH [OF ys(1)] length_dropWhile_le [of "in_class k" s] in
          \<open>auto simp: length_takeWhile_le intro: order_trans\<close>)
  qed
qed (simp split: if_splits)

lemma payout_entry:
  "(''^/payouts/([a-zA-Z0-9-]+)$'', f) \<in> set (create_route_parser parse_uuid) \<Longrightarrow>
   f = snd (add_route_with parse_uuid ''^/payouts/([a-zA-Z0-9-]+)$'' (PayoutById \<circ> PayoutId))"
  by (simp add: create_route_parser_def add_route_def add_route_with_def PAYMENTS_CALLBACK_ENDPOINT_def)

text \<open>The library parses only texts with all the hexadecimal digits of a UUID.\<close>

definition uuid_texts :: "(string \<Rightarrow> uuid option) \<Rightarrow> bool" where
  "uuid_texts parse_uuid \<longleftrightarrow> (\<forall>s u. parse_uuid s = Some u \<longrightarrow> 32 \<le> length s)"

lemma exclusive_entries:
  assumes "uuid_texts parse_uuid"
    and "e \<in> set (create_route_parser parse_uuid)" and "f \<in> set (create_route_parser parse_uuid)"
    and apart: "patterns_apart (fst e, pattern_of (fst e)) (fst f, pattern_of (fst f))"
    and matches: "entry_route path e = Some r" "entry_route path f = Some q"
  shows False
proof -
  obtain ts xs where e: "pattern_of (fst e) = Some ts" "captures ts path = Some xs"
    using matches(1) by (auto simp: entry_route_def bind_eq_Some_conv split: prod.splits)
  obtain us ys where f: "pattern_of (fst f) = Some us" "captures us path = Some ys" "snd f ys = Some q"
    using matches(2) by (auto simp: entry_route_def bind_eq_Some_conv split: prod.splits)
  show False
  proof (cases "apart None ts None us")
    case True
    from apart_sound [OF this captures_accepts [OF e(2)] captures_accepts [OF f(2)]] show ?thesis .
  next
    case False
    with apart e(1) f(1) have texts: "fst e \<in> set payout_texts" "fst f = ''^/payouts/([a-zA-Z0-9-]+)$''"
      by (auto simp: patterns_apart_def)
    from payout_path [OF texts(1) e] have path: "length path < 32" by auto
    from texts(2) assms(3) have "snd f = snd (add_route_with parse_uuid ''^/payouts/([a-zA-Z0-9-]+)$'' (PayoutById \<circ> PayoutId))"
      by (cases f) (auto dest: payout_entry)
    with f(3) obtain x rest u where ys: "ys = x # rest" "parse_uuid x = Some u"
      by (auto simp: add_route_with_def split: list.splits)
    with assms(1) have "32 \<le> length x" by (auto simp: uuid_texts_def)
    with captured_length [OF f(2), of x] ys(1) path show ?thesis by simp
  qed
qed

lemma map_filter_exclusive:
  assumes "sorted_wrt (\<lambda>e f. \<not> (\<exists>r q. g e = Some r \<and> g f = Some q)) xs"
  shows "length (List.map_filter g xs) \<le> 1"
  using assms
proof (induction xs)
  case (Cons e xs)
  show ?case
  proof (cases "g e")
    case (Some r)
    with Cons.prems have "List.map_filter g xs = []"
      by (induction xs) (auto simp: List.map_filter_simps)
    with Some show ?thesis by (simp add: List.map_filter_simps)
  qed (use Cons in \<open>simp add: List.map_filter_simps\<close>)
qed (simp add: List.map_filter_simps)

lemma at_most_one: "length xs \<le> 1 \<Longrightarrow> x \<in> set xs \<Longrightarrow> xs = [x]"
  by (cases xs) (auto simp: Suc_le_eq)

lemma in_map_filter: "x \<in> set (List.map_filter g xs) \<longleftrightarrow> (\<exists>e\<in>set xs. g e = Some x)"
  by (induction xs) (auto simp: List.map_filter_simps split: option.splits)

lemma route_of_entry: "route_of parse_uuid path = Some r \<Longrightarrow> \<exists>e\<in>set (create_route_parser parse_uuid). entry_route path e = Some r"
  using in_map_filter [of r "entry_route path" "create_route_parser parse_uuid"]
  by (auto simp: route_of_def routes_of_def split: list.splits)

text \<open>What the entries of the table match.\<close>

lemma add_route_entry: "entry_route path (add_route s r) = Some q \<Longrightarrow> q = r"
  by (auto simp: entry_route_def add_route_def bind_eq_Some_conv)

lemma add_route_with_entry:
  "entry_route path (add_route_with parse s f) = Some q \<Longrightarrow>
     \<exists>ts x xs v. pattern_of s = Some ts \<and> captures ts path = Some (x # xs) \<and> parse x = Some v \<and> q = f v"
proof -
  assume "entry_route path (add_route_with parse s f) = Some q"
  then obtain ts ys where ts: "pattern_of s = Some ts" "captures ts path = Some ys"
    and q: "(case ys of [] \<Rightarrow> None | x # _ \<Rightarrow> map_option f (parse x)) = Some q"
    by (auto simp: entry_route_def add_route_with_def bind_eq_Some_conv)
  from q obtain x xs v where "ys = x # xs" "parse x = Some v" "q = f v" by (cases ys) auto
  with ts show ?thesis by blast
qed

lemma captures_literals: "captures (map Literal l @ ts) (l @ s) = captures ts s"
  by (induction l) simp_all

lemma entry_plain: "pattern_of s = Some (map Literal l) \<Longrightarrow> entry_route l (add_route s r) = Some r"
  using captures_literals [of l "[]" "[]"] by (simp add: entry_route_def add_route_def)

lemma entry_with:
  assumes "pattern_of s = Some (map Literal pre @ Group k # map Literal post)"
    and "x \<noteq> []" and "list_all (in_class k) x" and "post = [] \<or> \<not> in_class k (hd post)" and "parse x = Some v"
  shows "entry_route (pre @ x @ post) (add_route_with parse s f) = Some (f v)"
proof -
  have all: "\<forall>c\<in>set x. in_class k c" using assms(3) by (simp add: list_all_iff)
  then have "takeWhile (in_class k) (x @ post) = x \<and> dropWhile (in_class k) (x @ post) = post"
    using assms(4) by (cases post) (auto simp: takeWhile_append2 dropWhile_append2)
  moreover have "captures (map Literal post) post = Some []"
    using captures_literals [of post "[]" "[]"] by simp
  ultimately show ?thesis
    using assms(1,2,5) by (simp add: entry_route_def add_route_with_def captures_literals Let_def)
qed

lemma one_route:
  assumes "uuid_texts parse_uuid"
  shows "length (routes_of parse_uuid path) \<le> 1"
proof -
  have "sorted_wrt (\<lambda>e f. patterns_apart (fst e, pattern_of (fst e)) (fst f, pattern_of (fst f)))
      (create_route_parser parse_uuid)"
    using all_apart by (simp add: route_texts [of parse_uuid, symmetric] sorted_wrt_map)
  then have "sorted_wrt (\<lambda>e f. \<not> (\<exists>r q. entry_route path e = Some r \<and> entry_route path f = Some q))
      (create_route_parser parse_uuid)"
    by (rule sorted_wrt_mono_rel [rotated]) (use exclusive_entries [OF assms] in blast)
  then show ?thesis unfolding routes_of_def by (rule map_filter_exclusive)
qed

lemma route_of_match:
  assumes "uuid_texts parse_uuid" and "e \<in> set (create_route_parser parse_uuid)" and "entry_route path e = Some r"
  shows "route_of parse_uuid path = Some r"
proof -
  have "r \<in> set (routes_of parse_uuid path)"
    using assms(2,3) in_map_filter [of r "entry_route path" "create_route_parser parse_uuid"]
    by (auto simp: routes_of_def)
  from at_most_one [OF one_route [OF assms(1)] this] show ?thesis by (simp add: route_of_def)
qed

section \<open>Properties\<close>

text \<open>No path has two routes: the router returns a route exactly when some entry of the table does, and the order
  in which it tries the entries does not matter.\<close>

theorem routes_unambiguous:
  assumes "uuid_texts parse_uuid"
  shows "length (routes_of parse_uuid path) \<le> 1 \<and>
    (route_of parse_uuid path = Some r \<longleftrightarrow> list_ex (\<lambda>e. entry_route path e = Some r) (create_route_parser parse_uuid))"
  using one_route [OF assms] route_of_match [OF assms] route_of_entry [of parse_uuid path r]
  by (auto simp: list_ex_iff)

definition no_uuids :: "string \<Rightarrow> uuid option" where "no_uuids _ = None"

theorem routes_unambiguous_witness:
  "length (routes_of no_uuids ''/payouts/calculate'') \<le> 1 \<and> route_of no_uuids ''/payouts/calculate'' = Some PayoutsCalculate"
proof -
  have law: "uuid_texts no_uuids" by (simp add: uuid_texts_def no_uuids_def)
  have "entry_route ''/payouts/calculate'' (add_route ''^/payouts/calculate$'' PayoutsCalculate) = Some PayoutsCalculate"
    by (rule entry_plain) (rule payout_patterns(2))
  then have "list_ex (\<lambda>e. entry_route ''/payouts/calculate'' e = Some PayoutsCalculate) (create_route_parser no_uuids)"
    unfolding create_route_parser_def by simp
  with routes_unambiguous [OF law] show ?thesis by blast
qed

lemma fee_pattern:
  "pattern_of ''^/fees/(d+)/pay$'' = Some (map Literal ''/fees/'' @ Group (Only CHR ''d'') # map Literal ''/pay'')"
  by (simp add: pattern_of_def class_of_text_def)

lemma captures_skip: "captures (map Literal l @ ts) path = Some xs \<Longrightarrow> \<exists>s. captures ts s = Some xs"
  by (induction l arbitrary: path) (auto split: list.splits if_splits)

lemma only_d: "captures (Group (Only CHR ''d'') # ts) s = Some (x # xs) \<Longrightarrow> parse_i32 x = None"
proof -
  assume "captures (Group (Only CHR ''d'') # ts) s = Some (x # xs)"
  then have x: "x = takeWhile (in_class (Only CHR ''d'')) s" "x \<noteq> []"
    by (auto simp: Let_def split: if_splits)
  then have "hd x = CHR ''d''" by (cases s) (auto split: if_splits)
  with x(2) obtain cs where "x = CHR ''d'' # cs" by (cases x) auto
  then show "parse_i32 x = None" by (simp add: parse_i32_def char_digit_def)
qed

lemma no_fee_capture: "entry_route path (add_route_with parse_i32 ''^/fees/(d+)/pay$'' h) \<noteq> Some q"
proof
  assume "entry_route path (add_route_with parse_i32 ''^/fees/(d+)/pay$'' h) = Some q"
  from add_route_with_entry [OF this] obtain x xs v where v: "parse_i32 x = Some v"
    and c: "captures (map Literal ''/fees/'' @ Group (Only CHR ''d'') # map Literal ''/pay'') path = Some (x # xs)"
    unfolding fee_pattern option.inject by blast
  from captures_skip [OF c] only_d v show False by fastforce
qed

lemma no_slash: "pattern_of ''^fees/by-order-ids/pay$'' = Some (map Literal ''fees/by-order-ids/pay'')"
  by (simp add: pattern_of_def class_of_text_def)

text \<open>C36: Two routes of the fees cannot be reached: the group of the first one has a letter in place of the class of
  digits, so that what it captures is never a number, and the pattern of the second one lacks the
  slash with which every path starts.\<close>

theorem fee_routes_unreachable:
  "route_of parse_uuid path \<noteq> Some (FeesPay f) \<and> route_of parse_uuid (CHR ''/'' # rest) \<noteq> Some FeesPayByOrders"
proof (intro conjI notI)
  assume "route_of parse_uuid path = Some (FeesPay f)"
  from route_of_entry [OF this] obtain e where e: "e \<in> set (create_route_parser parse_uuid)"
    "entry_route path e = Some (FeesPay f)" by blast
  then have "e = add_route_with parse_i32 ''^/fees/(d+)/pay$'' (FeesPay \<circ> FeeId)"
    by (auto simp: create_route_parser_def dest: add_route_entry add_route_with_entry)
  with e(2) show False by (simp only: no_fee_capture)
next
  assume "route_of parse_uuid (CHR ''/'' # rest) = Some FeesPayByOrders"
  from route_of_entry [OF this] obtain e where e: "e \<in> set (create_route_parser parse_uuid)"
    "entry_route (CHR ''/'' # rest) e = Some FeesPayByOrders" by blast
  then have "e = add_route ''^fees/by-order-ids/pay$'' FeesPayByOrders"
    by (auto simp: create_route_parser_def dest: add_route_entry add_route_with_entry)
  with e(2) show False by (simp add: entry_route_def add_route_def no_slash)
qed

end
