(* ===== verification/ReadOnly.thy ===== *)
theory ReadOnly
  imports LegacyInvoices OrderService PayoutService Customers PaymentIntentService FeeService
    SubscriptionService SubscriptionPayments BillingInfoService UserRolesService
begin

text \<open>
  The services that only read: whatever they answer and whichever statements fail, the tables stay as
  they are. The frame lemmas hold for every relation that a query keeps.
\<close>

section \<open>Queries\<close>

lemma keeps_case_list [keeps_intros]:
  "(xs = [] \<Longrightarrow> keeps R m) \<Longrightarrow> (\<And>y ys. xs = y # ys \<Longrightarrow> keeps R (f y ys)) \<Longrightarrow>
   keeps R (case xs of [] \<Rightarrow> m | y # ys \<Rightarrow> f y ys)"
  by (cases xs) simp_all

context world_relation
begin

lemma keeps_invoices_v1_in_scope [keeps_intros]: "keeps R (invoices_v1_in_scope uid s obj)"
  unfolding invoices_v1_in_scope_def by (cases s) (auto intro!: keeps_intros)

lemma keeps_order_infos_in_scope [keeps_intros]: "keeps R (order_infos_in_scope uid s obj)"
  unfolding order_infos_in_scope_def by (cases s) (auto intro!: keeps_intros)

lemma keeps_check_invoice_v1 [keeps_intros]: "keeps R (check_invoice_v1 acl act i)"
  by (rule keeps_check) (rule keeps_invoices_v1_in_scope)

lemma keeps_check_order_info [keeps_intros]: "keeps R (check_order_info acl act x)"
  by (rule keeps_check) (rule keeps_order_infos_in_scope)

lemma keeps_version_1_reads [keeps_intros]:
  "keeps R (readable_invoice_v1 acl p)" "keeps R (order_infos_find_by_saga_id acl u)"
  unfolding readable_invoice_v1_def order_infos_find_by_saga_id_def by (intro keeps_intros)+

lemma keeps_execute_unchanged:
  "(\<And>now d a e. f now d = Inr (a, e) \<Longrightarrow> e = d) \<Longrightarrow> keeps R (execute f)"
  by (rule keeps_execute_world) (fastforce intro: R_same)

lemma keeps_search_orders [keeps_intros]: "keeps R (search_orders acl skip cnt s)"
  unfolding search_orders_def
  by (intro keeps_intros keeps_execute_unchanged) (auto simp: search_page_def split: if_splits)

lemma keeps_payable_orders [keeps_intros]: "keeps R (payable_orders o_acl p_acl sid c)"
  unfolding payable_orders_def get_orders_for_payout_def by (intro keeps_intros)

lemma keeps_check_proxy_company [keeps_intros]: "keeps R (check_proxy_company acl act)"
  by (rule keeps_check) (simp add: proxy_companies_in_scope_def keeps_ok)

lemma keeps_store_searches [keeps_intros]:
  "keeps R (billing_types_search acl bs)" "keeps R (international_search acl is)"
  "keeps R (russia_search acl rs)" "keeps R (proxy_companies_get acl ps)"
  unfolding billing_types_search_def international_search_def russia_search_def proxy_companies_get_def
  by (intro keeps_intros)+

lemma keeps_subscription_payments_search [keeps_intros]:
  "keeps R (subscription_payments_search acl skip cnt s)"
  unfolding subscription_payments_search_def
  by (intro keeps_intros keeps_execute_unchanged) (auto simp: subscription_payments_page_def split: if_splits)

end

section \<open>Services\<close>

lemma reads_get_invoice_orders_ids: "reads (get_invoice_orders_ids cfg user u)"
  unfolding get_invoice_orders_ids_def get_invoice_orders_ids_v1_def get_invoice_orders_ids_v2_def
    invoices_v1_find_def failing_def legacy_def both_def
  by (intro keeps_intros)

lemma reads_get_user_roles: "reads (get_user_roles user uid)"
  unfolding get_user_roles_def by (intro keeps_intros)

lemma reads_get_by_invoice: "reads (get_by_invoice D user iid)"
  unfolding get_by_invoice_def by (intro keeps_intros)

lemma reads_get_customer: "reads (get_customer env user)"
  unfolding get_customer_def by (intro keeps_intros)

lemma reads_fee_by_order_id: "reads (fee_by_order_id D user oid)"
  unfolding fee_by_order_id_def by (intro keeps_intros)

lemma reads_billing_details:
  "reads (get_russia_billing_info_by_store user sid)"
  "reads (get_international_billing_info_by_store user sid)"
  "reads (get_billing_type_by_store user sid)"
  unfolding get_russia_billing_info_by_store_def get_international_billing_info_by_store_def
    get_billing_type_by_store_def
  by (intro keeps_intros)+

lemma reads_payouts:
  "reads (get_payouts_by_store_id D user s)" "reads (get_payout D user pid)" "reads (get_balance D user s)"
  "reads (service_get_payouts_by_order_ids D user ids)" "reads (calculate_payout D env ture user p)"
  unfolding get_payouts_by_store_id_def get_order_ids_by_store_id_def get_payout_def get_balance_def
    service_get_payouts_by_order_ids_def calculate_payout_def
  by (intro keeps_intros)+

lemma reads_subscriptions:
  "reads (get_store_subscription D scfg user sid)" "reads (get_by_subscription_payment_id user n)"
  "reads (search_subscription_payments D user skip cnt sps)"
  unfolding get_store_subscription_def get_by_subscription_payment_id_def search_subscription_payments_def
  by (intro keeps_intros)+

lemma reads_order_searches:
  "reads (search_order_billing D user skip cnt t)" "reads (service_search_orders D user skip cnt os)"
  unfolding search_order_billing_def service_search_orders_def by (intro keeps_intros)+

lemmas reading_services = reads_get_invoice_orders_ids reads_get_user_roles reads_get_by_invoice
  reads_get_customer reads_fee_by_order_id reads_billing_details reads_payouts reads_subscriptions
  reads_order_searches

end
