(* ===== verification/Anonymous.thy ===== *)
theory Anonymous
  imports ReadOnly
begin

text \<open>
  Requests without a user: the access control denies everything to them, so a service that asks for
  the permission before it writes changes no table. \<open>yields P m\<close> says that \<open>m\<close> returns only values
  with the property \<open>P\<close>, \<open>never m\<close> that it returns none.
\<close>

section \<open>Computations that do not succeed\<close>

definition yields :: "('a \<Rightarrow> bool) \<Rightarrow> ('s, 'e, 'a) comp \<Rightarrow> bool" where
  "yields P m \<longleftrightarrow> (\<forall>w a t. m w = (Inr a, t) \<longrightarrow> P a)"

abbreviation never :: "('s, 'e, 'a) comp \<Rightarrow> bool" where
  "never m \<equiv> yields (\<lambda>_. False) m"

named_theorems yields_rules \<open>what a computation returns\<close>

lemma yieldsI: "(\<And>w a t. m w = (Inr a, t) \<Longrightarrow> P a) \<Longrightarrow> yields P m"
  by (auto simp: yields_def)

lemma yieldsD: "yields P m \<Longrightarrow> m w = (Inr a, t) \<Longrightarrow> P a"
  by (auto simp: yields_def)

lemma yields_err [yields_rules]: "yields P (err e)"
  by (simp add: yields_def)

lemma yields_ok [yields_rules]: "P a \<Longrightarrow> yields P (ok a)"
  by (simp add: yields_def)

lemma yields_ok_or [yields_rules]: "(\<And>a. x = Some a \<Longrightarrow> P a) \<Longrightarrow> yields P (ok_or e x)"
  by (cases x) (simp_all add: yields_def)

lemma yields_and_then: "yields Q m \<Longrightarrow> (\<And>a. Q a \<Longrightarrow> yields P (f a)) \<Longrightarrow> yields P (and_then m f)"
  by (auto simp: yields_def and_then_success) blast

lemma yields_then: "(\<And>a. yields P (f a)) \<Longrightarrow> yields P (and_then m f)"
  by (rule yields_and_then [where Q = "\<lambda>_. True"]) (simp_all add: yields_def)

lemma never_then: "never m \<Longrightarrow> yields P (and_then m f)"
  by (rule yields_and_then [where Q = "\<lambda>_. False"]) simp_all

lemma yields_map_ok: "yields (\<lambda>a. P (g a)) m \<Longrightarrow> yields P (map_ok g m)"
  by (auto simp: yields_def map_ok_success)

lemma yields_map_err [yields_rules]: "yields P m \<Longrightarrow> yields P (map_err g m)"
  by (auto simp: yields_def map_err_success)

lemma yields_svc [yields_rules]: "yields P m \<Longrightarrow> yields P (svc m)"
  unfolding svc_def by (rule yields_map_err)

lemma yields_spawn [yields_rules]: "yields P m \<Longrightarrow> yields P (spawn_on_pool e m)"
  by (auto simp: yields_def spawn_on_pool_def split: if_splits)

lemma yields_transaction: "yields P m \<Longrightarrow> yields P (transaction conv m)"
  by (rule yieldsI) (auto elim!: transaction_success dest: yieldsD)

lemma yields_mono: "yields Q m \<Longrightarrow> (\<And>a. Q a \<Longrightarrow> P a) \<Longrightarrow> yields P m"
  by (auto simp: yields_def)

lemma yields_case_option [yields_rules]:
  "(x = None \<Longrightarrow> yields P m) \<Longrightarrow> (\<And>a. x = Some a \<Longrightarrow> yields P (f a)) \<Longrightarrow>
   yields P (case x of None \<Rightarrow> m | Some a \<Rightarrow> f a)"
  by (cases x) simp_all

text \<open>The tables after a computation whose first part never returns, or returns only some values.\<close>

context world_relation
begin

lemma keeps_then_yields:
  assumes "keeps R m" and "yields P m" and "\<And>a. P a \<Longrightarrow> keeps R (f a)"
  shows "keeps R (and_then m f)"
proof (rule keepsI)
  fix s r t
  assume run: "and_then m f s = (r, t)"
  obtain q u where m: "m s = (q, u)" by fastforce
  have su: "R s u" by (rule keepsD [OF assms(1) m])
  show "R s t"
  proof (cases q)
    case (Inl e)
    with m run su show ?thesis by (simp add: and_then_def)
  next
    case (Inr a)
    with m run have "f a u = (r, t)" by (simp add: and_then_def)
    moreover have "P a" using assms(2) m Inr by (blast dest: yieldsD)
    ultimately have "R u t" using keepsD [OF assms(3)] by blast
    with su show ?thesis by (rule R_comp)
  qed
qed

lemma keeps_then_never: "keeps R m \<Longrightarrow> never m \<Longrightarrow> keeps R (and_then m f)"
  by (rule keeps_then_yields [where P = "\<lambda>_. False"]) simp_all

end

text \<open>A transaction whose body never returns is rolled back, whatever the body has done.\<close>

lemma reads_never_transaction: "never m \<Longrightarrow> reads (transaction conv m)"
proof (rule keepsI)
  fix s r t
  assume never: "never m" and run: "transaction conv m s = (r, t)"
  have "w_db t = w_db s"
  proof (cases r)
    case (Inl e)
    with run show ?thesis by (auto dest: transaction_error_db)
  next
    case (Inr a)
    with run never show ?thesis by (auto elim!: transaction_success dest: yieldsD)
  qed
  then show "same_db (w_db s) (w_db t)" by (simp add: same_db_def)
qed

section \<open>Repositories without a user\<close>

lemma get_acl_None [simp]: "get_acl None = ok UnauthorizedACL"
  by (simp add: get_acl_def)

lemma for_each_denied: "for_each (\<lambda>x. err e) xs = (if xs = [] then ok () else err e)"
  by (cases xs) (simp_all add: for_each_def map_ok_def ok_def err_def fun_eq_iff and_then_def)

text \<open>What asks for the permission first is refused.\<close>

lemma denied_writes [simp]:
  "update_state UnauthorizedACL oid st = err RForbidden"
  "pis_delete UnauthorizedACL pid = err RForbidden"
  "create_role UnauthorizedACL r = err RForbidden"
  "billing_types_create UnauthorizedACL nt = err RForbidden"
  "international_create UnauthorizedACL ni = err RForbidden"
  "russia_create UnauthorizedACL nr = err RForbidden"
  "store_subscriptions_create UnauthorizedACL ns = err RForbidden"
  by (simp_all add: update_state_def pis_delete_def create_role_def billing_types_create_def
      international_create_def russia_create_def store_subscriptions_create_def)

text \<open>What asks for the permission to read a row returns no row.\<close>

abbreviation finds_nothing :: "('s, 'e, 'a option) comp \<Rightarrow> bool" where
  "finds_nothing m \<equiv> yields (\<lambda>x. x = None) m"

lemma finds_nothing_unauthorized:
  "finds_nothing (orders_get UnauthorizedACL oid)"
  "finds_nothing (fees_get UnauthorizedACL sf)"
  "finds_nothing (invoices_get UnauthorizedACL iid)"
  "finds_nothing (billing_types_get UnauthorizedACL bs)"
  "finds_nothing (international_get UnauthorizedACL is)"
  "finds_nothing (russia_get UnauthorizedACL rs)"
  "finds_nothing (store_subscriptions_get UnauthorizedACL ss)"
  unfolding orders_get_def fees_get_def invoices_get_def billing_types_get_def international_get_def
    russia_get_def store_subscriptions_get_def check_unauthorized and_then_err
  by (intro yields_then yields_case_option yields_ok yields_err refl)+

lemma reads_found:
  assumes "reads m" and "finds_nothing m" and "reads (f None)"
  shows "reads (and_then m f)"
  by (rule reading.keeps_then_yields [OF assms(1,2)]) (simp add: assms(3))

lemma never_found: "finds_nothing m \<Longrightarrow> never (f None) \<Longrightarrow> never (and_then m f)"
  by (erule yields_and_then) simp

lemmas nothing_found = yields_svc [OF finds_nothing_unauthorized(1)] yields_svc [OF finds_nothing_unauthorized(2)]
  yields_svc [OF finds_nothing_unauthorized(3)] yields_svc [OF finds_nothing_unauthorized(4)]
  yields_svc [OF finds_nothing_unauthorized(5)] yields_svc [OF finds_nothing_unauthorized(6)]
  yields_svc [OF finds_nothing_unauthorized(7)]

section \<open>Services without a user\<close>

text \<open>Orders.\<close>

lemma never_initial_order: "never (initial_order None oid)"
  unfolding initial_order_def get_acl_None and_then_ok
  by (intro yields_spawn never_found [OF nothing_found(1)]) (simp add: ok_or_def yields_err)

lemma reads_initial_order: "reads (initial_order user oid)"
  unfolding initial_order_def by (intro keeps_intros)

lemma anonymous_orders:
  "reads (order_capture None oid)" "reads (order_decline env None oid)"
  unfolding order_capture_def order_decline_def
  by (rule reading.keeps_then_never [OF reads_initial_order never_initial_order])+

lemma anonymous_update_order_state: "reads (update_order_state None oid st)"
  unfolding update_order_state_def get_acl_None and_then_ok
  by (intro reading.keeps_spawn_on_pool reads_found [OF _ nothing_found(1)] keeps_intros) (simp add: ok_or_def reading.keeps_err)

text \<open>Roles.\<close>

lemma anonymous_roles:
  "reads (create_user_role None r)" "reads (delete_user_role None uid nm)"
proof -
  show "reads (create_user_role None r)"
    unfolding create_user_role_def get_acl_None and_then_ok denied_writes
    by (intro keeps_intros)
  have "never (delete_role UnauthorizedACL uid nm)"
    unfolding delete_role_def check_unauthorized and_then_err by (intro yields_then yields_err)
  then show "reads (delete_user_role None uid nm)"
    unfolding delete_user_role_def get_acl_None and_then_ok
    by (intro reading.keeps_spawn_on_pool reads_never_transaction)
qed

text \<open>Customers. Stripe is asked to delete a customer before the permission is checked.\<close>

lemma anonymous_customers:
  "reads (create_customer_with_source env None c)" "reads (update_customer env None u)"
  "reads (delete_customer env None cid)"
proof -
  show "reads (create_customer_with_source env None c)"
    unfolding create_customer_with_source_def by (simp add: reading.keeps_err)
  show "reads (update_customer env None u)"
    unfolding update_customer_def by (simp add: ok_or_def reading.keeps_err)
  have "reads (customers_delete UnauthorizedACL cid)"
    unfolding customers_delete_def check_unauthorized and_then_err by (intro keeps_intros)
  then show "reads (delete_customer env None cid)"
    unfolding delete_customer_def get_acl_None and_then_ok by (intro keeps_intros)
qed

text \<open>Bank details.\<close>

lemma anonymous_billing_details:
  "reads (create_international_billing_info None p)" "reads (create_russia_billing_info None q)"
  "reads (update_international_billing None i u)" "reads (update_russia_billing None i v)"
proof -
  show "reads (create_international_billing_info None p)"
    unfolding create_international_billing_info_def get_acl_None and_then_ok denied_writes
    by (intro reading.keeps_spawn_on_pool reads_never_transaction yields_then yields_svc yields_err)
  show "reads (create_russia_billing_info None q)"
    unfolding create_russia_billing_info_def get_acl_None and_then_ok denied_writes
    by (intro reading.keeps_spawn_on_pool reads_never_transaction yields_then yields_svc yields_err)
  show "reads (update_international_billing None i u)" "reads (update_russia_billing None i v)"
    unfolding update_international_billing_def update_russia_billing_def get_acl_None and_then_ok
      international_update_row_def russia_update_row_def check_unauthorized and_then_err
    by (intro keeps_intros)+
qed

text \<open>Fees.\<close>

lemma reads_fees_search: "reads (fees_search acl p)"
  unfolding fees_search_def by (intro keeps_intros)

lemma no_orders_found: "yields (\<lambda>x. osr_orders x = []) (search_orders UnauthorizedACL skip cnt os)"
  unfolding search_orders_def check_unauthorized for_each_denied
  by (rule yields_then, rule yields_then) (auto intro: yields_ok yields_err)

lemma anonymous_create_charge: "reads (create_charge D hyphenated env None sf)"
proof -
  have "never (pool (and_then (svc (fees_get UnauthorizedACL sf)) (\<lambda>found.
         and_then (ok_or SInternal found) (\<lambda>f.
         and_then (svc (orders_get UnauthorizedACL (fee_order_id f))) (\<lambda>found.
         and_then (ok_or SInternal found) (\<lambda>order. ok (ord_store_id order, f)))))))"
    by (intro yields_spawn never_found [OF nothing_found(2)]) (simp add: ok_or_def yields_err)
  then show ?thesis
    unfolding create_charge_def get_acl_None and_then_ok
    by (rule reading.keeps_then_never [rotated]) (intro keeps_intros)
qed

lemma anonymous_create_charge_for_several_fees:
  "reads (create_charge_for_several_fees D hyphenated env None ids)"
proof -
  have "never (pool (and_then (svc (search_orders UnauthorizedACL 0 (int (length ids)) (by_order_ids ids))) (\<lambda>found.
         and_then (of_result (verify_store_ids (map ord_store_id (osr_orders found)))) (\<lambda>sid.
         and_then (svc (fees_search UnauthorizedACL (fees_by_order_ids (map ord_id (osr_orders found))))) (\<lambda>fs.
         ok (sid, fs))))))"
    by (intro yields_spawn yields_and_then [OF yields_svc [OF no_orders_found]])
      (simp add: verify_store_ids_def of_result_def yields_def and_then_def)
  then show ?thesis
    unfolding create_charge_for_several_fees_def get_acl_None and_then_ok
    by (rule reading.keeps_then_never [rotated]) (intro keeps_intros reads_fees_search)
qed

text \<open>Payouts and payment intents.\<close>

lemma anonymous_pay_out: "reads (pay_out_to_seller D None po)"
  unfolding pay_out_to_seller_def by (simp add: reading.keeps_err)

lemma reads_create_by_fee: "reads (create_by_fee D env user fid)"
  by (rule keepsI) (use create_by_fee_never_succeeds in \<open>fastforce simp: ends_def same_db_def split: prod.splits\<close>)

text \<open>Subscriptions.\<close>

lemma never_create_subscription: "never (create_subscription UnauthorizedACL UnauthorizedACL max_trial now p)"
proof -
  have "never (find_update_or_create_store_subscription UnauthorizedACL sid now)" for sid
    unfolding find_update_or_create_store_subscription_def
    by (rule never_found [OF finds_nothing_unauthorized(7)]) (simp add: yields_err)
  then show ?thesis
    unfolding create_subscription_def Let_def by (intro never_then yields_svc)
qed

lemma never_for_each: "(\<And>x. never (f x)) \<Longrightarrow> xs \<noteq> [] \<Longrightarrow> never (for_each f xs)"
  unfolding for_each_def
  by (cases xs) (auto intro!: yields_map_ok never_then)

lemma anonymous_create_all: "reads (create_all scfg None xs)"
proof -
  have body: "reads (transaction service_error_of_diesel
      (for_each (create_subscription UnauthorizedACL UnauthorizedACL max_trial now) xs))" for max_trial now
  proof (cases "xs = []")
    case True
    then show ?thesis by (simp add: for_each_def) (intro keeps_intros)
  qed (intro reads_never_transaction never_for_each never_create_subscription)
  show ?thesis
    unfolding create_all_def unwrap_def get_acl_None and_then_ok
    by (intro reading.keeps_and_then reading.keeps_utc_now reading.keeps_ok_or reading.keeps_spawn_on_pool body)
qed

lemma no_unpaid_found: "yields (\<lambda>rows. rows = []) (get_unpaid UnauthorizedACL)"
  unfolding get_unpaid_def subscriptions_search_def check_stores_def check_unauthorized for_each_denied
  by (rule yields_then, rule yields_then) (auto intro: yields_ok yields_err)

lemma nothing_to_pay: "yields (\<lambda>preps. preps = []) (prepare_payments None now period)"
proof -
  have "yields (\<lambda>xs. xs = []) (subscriptions_to_pay UnauthorizedACL now period)"
    unfolding subscriptions_to_pay_def
    by (rule yields_map_ok, rule yields_mono [OF yields_svc [OF no_unpaid_found]]) (simp add: by_stores_def)
  then show ?thesis
    unfolding prepare_payments_def get_acl_None and_then_ok
    by (intro yields_spawn yields_transaction) (erule yields_and_then, simp add: yields_ok)
qed

lemma anonymous_pay_subscriptions: "reads (pay_subscriptions env scfg None)"
proof -
  have "reads (record_payments None [])"
    unfolding record_payments_def by (simp add: for_each_def) (intro keeps_intros)
  then have settle: "reads (and_then (prepare_payments None now period) (\<lambda>preps.
      and_then (try_map (collect env scfg) preps) (record_payments None)))" for now period
    by (intro reading.keeps_then_yields [OF reading.keeps_prepare_payments nothing_to_pay]) simp
  show ?thesis
    unfolding pay_subscriptions_def unwrap_def
    by (intro reading.keeps_and_then reading.keeps_utc_now reading.keeps_ok_or reading.keeps_if
        reading.keeps_err settle)
qed

lemma anonymous_update_store_terms: "reads (update_store_terms D env scfg None sid r)"
proof -
  let ?old = "pool (and_then (svc (store_subscriptions_get UnauthorizedACL (store_subscription_by_store_id sid)))
      (ok_or SNotFound))"
  have "never ?old"
    by (intro yields_spawn never_found [OF nothing_found(7)]) (simp add: ok_or_def yields_err)
  moreover have "reads ?old" by (intro keeps_intros)
  ultimately have old: "reads (and_then ?old f)" for f by (intro reading.keeps_then_never)
  show ?thesis
    unfolding update_store_terms_def unwrap_def get_acl_None and_then_ok
    by (intro reading.keeps_and_then [where f = "\<lambda>max_trial. X max_trial" for X] reading.keeps_ok_or
        reading.keeps_if reading.keeps_err old)
qed

text \<open>Invoices.\<close>

lemma never_delete_invoice_body:
  "never (delete_invoice_body UnauthorizedACL UnauthorizedACL UnauthorizedACL UnauthorizedACL iid)"
  unfolding delete_invoice_body_def failing_def denied_writes
  by (intro yields_then never_then yields_map_err yields_svc yields_err)

lemma anonymous_delete_invoice_v1: "reads (delete_invoice_by_saga_id_v1 None u)"
proof -
  have "never (legacy (invoices_v1_delete UnauthorizedACL u))"
    unfolding invoices_v1_delete_def legacy_def check_unauthorized and_then_err
    by (intro yields_map_err yields_then yields_err)
  then show ?thesis
    unfolding delete_invoice_by_saga_id_v1_def get_acl_None and_then_ok
    by (intro reading.keeps_spawn_on_pool reads_never_transaction never_then)
qed

lemma anonymous_delete_invoice_v2: "reads (delete_invoice_by_saga_id_v2 env None u)"
  unfolding delete_invoice_by_saga_id_v2_def get_acl_None and_then_ok
  by (intro reading.keeps_then_never reading.keeps_spawn_on_pool reads_never_transaction yields_spawn
      yields_transaction never_delete_invoice_body)

lemma anonymous_delete_invoice: "reads (delete_invoice_by_saga_id env cfg None u)"
  unfolding delete_invoice_by_saga_id_def
  by (intro reading.keeps_if anonymous_delete_invoice_v1 anonymous_delete_invoice_v2)

lemma reads_load_invoice: "reads (load_invoice user iid)"
  unfolding load_invoice_def by (intro keeps_intros)

lemma no_invoice_loaded: "finds_nothing (load_invoice None iid)"
  unfolding load_invoice_def get_acl_None and_then_ok
  by (intro yields_spawn yields_and_then [OF nothing_found(3)]) (simp add: yields_ok)

lemmas load_invoice_anonymous = reads_load_invoice no_invoice_loaded

lemma anonymous_recalc_v2: "reads (recalc_invoice_v2 D env cfg None iid)"
  "finds_nothing (recalc_invoice_v2 D env cfg None iid)"
  unfolding recalc_invoice_v2_def
  by (rule reads_found [OF load_invoice_anonymous], simp add: reading.keeps_ok)
    (rule yields_and_then [OF load_invoice_anonymous(2)], simp add: yields_ok)

lemma anonymous_get_invoice_v2: "reads (get_invoice_by_order_id_v2 D env cfg None oid)"
  unfolding get_invoice_by_order_id_v2_def get_acl_None and_then_ok
  by (rule reading.keeps_then_yields [OF _ yields_spawn [OF nothing_found(1)]])
    (intro keeps_intros, simp add: reading.keeps_ok)

lemma reads_only_version: "reads (only_version D found)"
proof -
  have "reads (dump_try_into_v1 D dump)" for dump
    unfolding dump_try_into_v1_def by (intro keeps_intros)
  then show ?thesis
    unfolding only_version_def failing_def
    by (auto intro!: reading.keeps_ok reading.keeps_err reading.keeps_map_ok reading.keeps_map_err
        split: prod.split option.split)
qed

lemma reads_both: "reads m \<Longrightarrow> reads n \<Longrightarrow> reads (both m n)"
  unfolding both_def by (intro keeps_intros)

lemma reads_get_invoice_v1:
  "reads (get_invoice_by_order_id_v1 user u)" "reads (get_invoice_by_id_v1 user u)"
  unfolding get_invoice_by_order_id_v1_def get_invoice_by_id_v1_def legacy_def readable_order_info_def
    invoices_v1_find_def invoices_v1_find_by_saga_id_def order_infos_find_by_order_id_def
  by (intro keeps_intros)+

lemma anonymous_get_invoice:
  "reads (get_invoice_by_order_id D env cfg None u)" "reads (get_invoice_by_id D env cfg None u)"
  unfolding get_invoice_by_order_id_def get_invoice_by_id_def failing_def
  by (intro reading.keeps_and_then reads_both reads_get_invoice_v1 reading.keeps_if reading.keeps_map_err
      anonymous_get_invoice_v2 anonymous_recalc_v2(1) reading.keeps_ok reads_only_version)+

lemmas anonymous_services = anonymous_orders anonymous_update_order_state anonymous_roles anonymous_customers
  anonymous_billing_details anonymous_create_charge anonymous_create_charge_for_several_fees
  anonymous_pay_out reads_create_by_fee anonymous_create_all anonymous_pay_subscriptions
  anonymous_update_store_terms anonymous_delete_invoice anonymous_recalc_v2(1) anonymous_get_invoice

end
