(* ===== verification/Controller.thy ===== *)
theory Controller
  imports Prelude Amounts Models World Authorization Clients Services AccountService OrderService
    PayoutService Customers StripeService PaymentIntentService FeeService InvoiceService
    SubscriptionService SubscriptionPayments BillingInfoService UserRolesService LegacyModels
    LegacyInvoices Routes Triples ReadOnly Anonymous
begin

text \<open>
  \<open>controller/mod.rs\<close> and \<open>controller/context.rs\<close>: a request is matched against the routes, its body
  is decoded, the service is called with the user of the request, and the result becomes an answer.
  What the libraries do is a parameter: \<open>serde\<close> decodes the bodies, \<open>hyper\<close> the headers (a request
  carries the text of those the program reads), the query strings are read by a macro of
  \<open>stq_router\<close>. The encoding of the answers is left out: an answer is the value that is encoded.
\<close>

section \<open>Errors\<close>

datatype http_error =
    ENotFound
  | EParse
  | EValidate validation
  | EForbidden
  | EConnection
  | EHttpClient
  | EInvalidToken
  | EInternalV2
  | EValidateV2 validation

text \<open>A panic of a service is no error; \<open>http_error_of\<close> is not applied to it.\<close>

definition http_error_of :: "service_error \<Rightarrow> http_error" where
  "http_error_of e =
     (case e of
        SInternal \<Rightarrow> EInternalV2
      | SForbidden \<Rightarrow> EForbidden
      | SNotFound \<Rightarrow> ENotFound
      | SValidation v \<Rightarrow> EValidateV2 v
      | SPanic \<Rightarrow> EInternalV2)"

definition http_code :: "http_error \<Rightarrow> nat" where
  "http_code e =
     (case e of
        ENotFound \<Rightarrow> 404
      | EValidate _ \<Rightarrow> 422
      | EValidateV2 _ \<Rightarrow> 422
      | EParse \<Rightarrow> 400
      | EConnection \<Rightarrow> 500 | EHttpClient \<Rightarrow> 500 | EInternalV2 \<Rightarrow> 500
      | EForbidden \<Rightarrow> 403 | EInvalidToken \<Rightarrow> 403)"

definition http_payload :: "http_error \<Rightarrow> validation option" where
  "http_payload e = (case e of EValidate v \<Rightarrow> Some v | EValidateV2 v \<Rightarrow> Some v | _ \<Rightarrow> None)"

text \<open>The answer to a failed request depends on the error of \<open>errors.rs\<close> in the chain of causes:
  \<open>Unclassified\<close> is a chain without one, or with one of code 500. \<open>BadBody\<close> is a failure of
  \<open>parse_body\<close>, a function of the library. \<open>Panicked\<close>: the thread of the request ended.\<close>

datatype failure = Classified http_error | Unclassified | BadBody | Panicked

text \<open>\<open>map_err(Error::from)\<close>: the error that stands for the kind.\<close>

definition classified :: "service_error \<Rightarrow> failure" where
  "classified e = (if e = SPanic then Panicked else Classified (http_error_of e))"

text \<open>The conversion to a \<open>failure::Error\<close> without it: the kind is lost, but of a refused access the chain of causes
  still holds \<open>Error::Forbidden\<close>, which \<open>acl::check\<close> has put into it.\<close>

definition chained :: "service_error \<Rightarrow> failure" where
  "chained e =
     (case e of SForbidden \<Rightarrow> Classified EForbidden | SPanic \<Rightarrow> Panicked | _ \<Rightarrow> Unclassified)"

text \<open>Of a request without a user \<open>services/customer.rs\<close> refuses three itself, with the kind alone.\<close>

definition chained_customer :: "stq_user_id option \<Rightarrow> service_error \<Rightarrow> failure" where
  "chained_customer user e = (if user = None \<and> e = SForbidden then Unclassified else chained e)"

definition chained_repo :: "repo_error \<Rightarrow> failure" where
  "chained_repo e = (case e of RForbidden \<Rightarrow> Classified EForbidden | _ \<Rightarrow> Unclassified)"

section \<open>Configuration\<close>

record accounts_section =
  main_stq :: uuid
  main_eth :: uuid
  main_btc :: uuid
  cashback_stq :: uuid

record payments_section =
  pays_min_pooled_accounts :: "32 word"
  pays_accounts :: accounts_section
  pays_sign_public_key :: string

record payments_mock_section =
  mock_use_mock :: bool
  mock_min_pooled_accounts :: "32 word"
  mock_accounts :: accounts_section

record server_config =
  conf_http_timeout_ms :: "64 word"
  conf_processing_timeout_ms :: "32 word"
  conf_callback_url :: string
  conf_payments :: "payments_section option"
  conf_payments_mock :: payments_mock_section
  conf_signing_secret :: string
  conf_order_percent :: "64 word"
  conf_currency_code :: string
  conf_crypto_timeout_min :: "32 word"
  conf_fiat_timeout_min :: "32 word"
  conf_periodicity_days :: "64 word"
  conf_trial_time_duration_days :: "64 word"

definition system_accounts_of_config :: "accounts_section \<Rightarrow> system_account list" where
  "system_accounts_of_config c =
     [\<lparr>sa_id = AccountId (main_stq c), sa_currency = TureStq, sa_account_type = SysMain\<rparr>,
      \<lparr>sa_id = AccountId (main_eth c), sa_currency = TureEth, sa_account_type = SysMain\<rparr>,
      \<lparr>sa_id = AccountId (main_btc c), sa_currency = TureBtc, sa_account_type = SysMain\<rparr>,
      \<lparr>sa_id = AccountId (cashback_stq c), sa_currency = TureStq, sa_account_type = SysCashback\<rparr>]"

definition account_service_new :: "server_config \<Rightarrow> 32 word \<Rightarrow> accounts_section \<Rightarrow> account_config" where
  "account_service_new c minimum a =
     \<lparr>min_accounts_in_pool = unat minimum,
      payments_callback_url = conf_callback_url c @ PAYMENTS_CALLBACK_ENDPOINT,
      system_accounts = system_accounts_of_config a\<rparr>"

text \<open>The payments client and the account service of a request: the gateway in memory when the
  configuration asks for it, else the real one when it is configured. \<open>client_ok\<close>: the library accepts the
  keys of the configuration.\<close>

datatype gateway_choice = MockClient | GatewayClient

definition payments_context ::
  "(payments_section \<Rightarrow> bool) \<Rightarrow> server_config \<Rightarrow> (gateway_choice \<times> account_config) option" where
  "payments_context client_ok c =
     (case (mock_use_mock (conf_payments_mock c), conf_payments c) of
        (True, _) \<Rightarrow>
          Some (MockClient, account_service_new c (mock_min_pooled_accounts (conf_payments_mock c))
            (mock_accounts (conf_payments_mock c)))
      | (_, None) \<Rightarrow> None
      | (_, Some p) \<Rightarrow>
          if client_ok p
          then Some (GatewayClient, account_service_new c (pays_min_pooled_accounts p) (pays_accounts p))
          else None)"

text \<open>What the services take from the configuration and the context.\<close>

definition no_accounts :: account_config where
  "no_accounts = \<lparr>min_accounts_in_pool = 0, payments_callback_url = [], system_accounts = []\<rparr>"

definition accounts_of :: "(gateway_choice \<times> account_config) option \<Rightarrow> account_config" where
  "accounts_of ctx = (case ctx of None \<Rightarrow> no_accounts | Some (_, a) \<Rightarrow> a)"

definition service_config_of ::
  "server_config \<Rightarrow> (gateway_choice \<times> account_config) option \<Rightarrow> service_config" where
  "service_config_of c ctx =
     \<lparr>cfg_ture = ctx \<noteq> None, cfg_accounts = accounts_of ctx,
      cfg_crypto_timeout_min = conf_crypto_timeout_min c, cfg_fiat_timeout_min = conf_fiat_timeout_min c,
      cfg_sign_public_key = map_option pays_sign_public_key (conf_payments c),
      cfg_order_percent = conf_order_percent c, cfg_fee_currency_code = conf_currency_code c\<rparr>"

definition subscription_config_of ::
  "server_config \<Rightarrow> (gateway_choice \<times> account_config) option \<Rightarrow> subscription_config" where
  "subscription_config_of c ctx =
     \<lparr>subscription_ture = ctx \<noteq> None, subscription_accounts = accounts_of ctx,
      periodicity_days = conf_periodicity_days c,
      trial_time_duration_days = conf_trial_time_duration_days c\<rparr>"

section \<open>Requests and answers\<close>

datatype request_method = Get | Post | Put | Delete | OtherMethod string

text \<open>A body that cannot be read to its end is \<open>None\<close>.\<close>

record request =
  rq_method :: request_method
  rq_path :: string
  rq_query :: "string option"
  rq_authorization :: "string option"
  rq_timeout :: "string option"
  rq_stripe_signature :: "string option"
  rq_sign :: "string option"
  rq_body :: "string option"

record remove_user_role =
  rur_user_id :: stq_user_id
  rur_name :: billing_role

text \<open>The decoders of the bodies.\<close>

record 'd decoders =
  de_external_billing_invoice :: "string \<Rightarrow> external_billing_invoice option"
  de_payments_callback :: "string \<Rightarrow> payments_callback option"
  de_create_user_merchant :: "string \<Rightarrow> stq_user_id option"
  de_create_store_merchant :: "string \<Rightarrow> int option"
  de_create_invoice :: "string \<Rightarrow> create_invoice_v1 option"
  de_create_invoice_v2 :: "string \<Rightarrow> create_invoice_v2_payload option"
  de_new_user_role :: "string \<Rightarrow> user_role option"
  de_remove_user_role :: "string \<Rightarrow> remove_user_role option"
  de_order_payment_state :: "string \<Rightarrow> payment_state option"
  de_new_customer :: "string \<Rightarrow> new_customer_request option"
  de_delete_customer :: "string \<Rightarrow> customer_id option"
  de_update_customer :: "string \<Rightarrow> update_customer_request option"
  de_order_billing_search_terms :: "string \<Rightarrow> order_billing_search_terms option"
  de_orders_search :: "string \<Rightarrow> orders_search option"
  de_new_international :: "string \<Rightarrow> new_international_billing_info option"
  de_update_international :: "string \<Rightarrow> update_international_billing_info option"
  de_new_russia :: "string \<Rightarrow> new_russia_billing_info option"
  de_update_russia :: "string \<Rightarrow> update_russia_billing_info option"
  de_fees_pay_by_orders :: "string \<Rightarrow> order_id list option"
  de_pay_out_to_seller :: "string \<Rightarrow> 'd pay_out_to_seller_payload option"
  de_get_payouts :: "string \<Rightarrow> order_id list option"
  de_calculate_payout :: "string \<Rightarrow> calculate_payout_payload option"
  de_create_subscriptions :: "string \<Rightarrow> new_subscription list option"
  de_subscription_payment_search :: "string \<Rightarrow> subscription_payment_search option"
  de_create_store_subscription :: "string \<Rightarrow> stq_currency option"
  de_update_store_subscription :: "string \<Rightarrow> update_store_subscription_request option"

text \<open>The server: its configuration, the libraries and the external services. The payments client decides
  which gateway the environment has.\<close>

record 'd server =
  sv_config :: server_config
  sv_client_ok :: "payments_section \<Rightarrow> bool"
  sv_decimal :: "'d bigdecimal"
  sv_crypto :: crypto
  sv_hyphenated :: "uuid \<Rightarrow> string"
  sv_parse_uuid :: "string \<Rightarrow> uuid option"
  sv_parse_query_i64 :: "string \<Rightarrow> string \<Rightarrow> int option"
  sv_construct_event :: "string \<Rightarrow> string \<Rightarrow> string \<Rightarrow> (stripe_event_type \<times> stripe_event_object) option"
  sv_decoders :: "'d decoders"
  sv_env :: "gateway_choice \<Rightarrow> 'd env"
  sv_legacy :: legacy_env

datatype (plugins only: size) 'd response =
    RespUnit
  | RespMerchant merchant
  | RespUuid uuid
  | RespMerchantBalances "merchant_balance list"
  | RespInvoice invoice_v1
  | RespInvoiceOption "invoice_v1 option"
  | RespInvoiceDump "'d invoice_dump"
  | RespInvoiceDumpOption "'d invoice_dump option"
  | RespUuids "uuid list"
  | RespRoles "billing_role list"
  | RespUserRole user_role
  | RespUserRoles "user_role list"
  | RespPaymentIntent payment_intent_response
  | RespPaymentIntentOption "payment_intent_response option"
  | RespCustomer customer_response
  | RespCustomerOption "customer_response option"
  | RespOrderBilling order_billing_info_search_results
  | RespOrders order_search_results_response
  | RespInternational international_billing_info
  | RespInternationalOption "international_billing_info option"
  | RespRussia russia_billing_info
  | RespRussiaOption "russia_billing_info option"
  | RespBillingType "billing_type option"
  | RespFee fee_response
  | RespFeeOption "fee_response option"
  | RespFees "fee_response list"
  | RespPayout "'d payout_output"
  | RespPayoutOption "'d payout_output option"
  | RespPayoutsByStore "store_id \<times> 'd payouts_by_order_ids_output"
  | RespPayoutsByOrderIds "'d payouts_by_order_ids_output"
  | RespBalances "'d balances_response"
  | RespCalculatedPayout "'d calculated_payout_output"
  | RespSubscriptions "subscription list"
  | RespSubscriptionPayments "'d subscription_payment_search_response"
  | RespStoreSubscription "'d store_subscription_response"
  | RespStoreSubscriptionOption "'d store_subscription_response option"

text \<open>\<open>serialize_future\<close> on a service and the conversion of its errors.\<close>

definition answer ::
  "('e \<Rightarrow> failure) \<Rightarrow> ('a \<Rightarrow> 'd response) \<Rightarrow> ('d world, 'e, 'a) comp \<Rightarrow> ('d world, failure, 'd response) comp" where
  "answer f g m = map_err f (map_ok g m)"

definition parse_body :: "(string \<Rightarrow> 'a option) \<Rightarrow> request \<Rightarrow> ('d world, failure, 'a) comp" where
  "parse_body decode q = ok_or BadBody (Option.bind (rq_body q) decode)"

definition get_user_id :: "request \<Rightarrow> stq_user_id option" where
  "get_user_id q = Option.bind (rq_authorization q) parse_i32"

definition not_found :: "('d world, failure, 'd response) comp" where
  "not_found = err (Classified ENotFound)"

text \<open>The time that the calls to other services of a request may take.\<close>

definition parse_u64 :: "string \<Rightarrow> 64 word option" where
  "parse_u64 s =
     (let digits = (case s of c # cs \<Rightarrow> if c = CHR ''+'' then cs else s | [] \<Rightarrow> [])
      in if digits = [] then None
         else Option.bind (digits_value 0 digits) (\<lambda>n. if n < 2 ^ 64 then Some (word_of_nat n) else None))"

definition request_timeout :: "server_config \<Rightarrow> request \<Rightarrow> 64 word" where
  "request_timeout c q =
     (let requested = (case Option.bind (rq_timeout q) parse_u64 of
            None \<Rightarrow> conf_http_timeout_ms c | Some t \<Rightarrow> t);
          processing = ucast (conf_processing_timeout_ms c) :: 64 word
      in if processing \<le> requested then requested - processing else 0)"

section \<open>Endpoints\<close>

definition context_of :: "'d server \<Rightarrow> (gateway_choice \<times> account_config) option" where
  "context_of S = payments_context (sv_client_ok S) (sv_config S)"

definition env_of :: "'d server \<Rightarrow> 'd env" where
  "env_of S = sv_env S (case context_of S of None \<Rightarrow> GatewayClient | Some (c, _) \<Rightarrow> c)"

abbreviation cfg_of :: "'d server \<Rightarrow> service_config" where
  "cfg_of S \<equiv> service_config_of (sv_config S) (context_of S)"

abbreviation subscription_cfg_of :: "'d server \<Rightarrow> subscription_config" where
  "subscription_cfg_of S \<equiv> subscription_config_of (sv_config S) (context_of S)"

text \<open>One definition for each endpoint that does more than to call a service.\<close>

definition stripe_webhook :: "'d server \<Rightarrow> request \<Rightarrow> ('d world, failure, 'd response) comp" where
  "stripe_webhook S q =
     and_then (ok_or Unclassified (rq_stripe_signature q)) (\<lambda>signature_header.
     and_then (ok_or Unclassified (rq_body q)) (\<lambda>payload.
     answer classified (\<lambda>_. RespUnit)
       (handle_stripe_event (sv_construct_event S) (conf_signing_secret (sv_config S)) signature_header payload)))"

definition external_billing_callback :: "'d server \<Rightarrow> request \<Rightarrow> ('d world, failure, 'd response) comp" where
  "external_billing_callback S q =
     and_then (parse_body (de_external_billing_invoice (sv_decoders S)) q) (\<lambda>x.
     answer chained (\<lambda>_. RespUnit) (service_update_invoice (sv_legacy S) (get_user_id q) x))"

definition payments_inbound_tx :: "'d server \<Rightarrow> request \<Rightarrow> ('d world, failure, 'd response) comp" where
  "payments_inbound_tx S q =
     and_then (ok_or Unclassified (rq_sign q)) (\<lambda>signature_header.
     and_then (ok_or Unclassified (rq_body q)) (\<lambda>body.
     and_then (ok_or Unclassified (de_payments_callback (sv_decoders S) body)) (\<lambda>cb.
     answer classified (\<lambda>_. RespUnit)
       (handle_inbound_tx (sv_decimal S) (sv_crypto S) (env_of S) (cfg_of S) signature_header cb body))))"

definition post_merchant ::
  "(string \<Rightarrow> 'a option) \<Rightarrow> ('d world, service_error, merchant) comp \<Rightarrow> request \<Rightarrow>
   ('d world, failure, 'd response) comp" where
  "post_merchant decode m q = and_then (parse_body decode q) (\<lambda>_. answer chained RespMerchant m)"

definition post_invoice :: "'d server \<Rightarrow> request \<Rightarrow> ('d world, failure, 'd response) comp" where
  "post_invoice S q =
     and_then (parse_body (de_create_invoice (sv_decoders S)) q) (\<lambda>ci.
     answer chained RespInvoice
       (service_create_invoice (sv_decimal S) (sv_hyphenated S) (env_of S) (cfg_of S) (get_user_id q) ci))"

definition post_invoice_v2 :: "'d server \<Rightarrow> request \<Rightarrow> ('d world, failure, 'd response) comp" where
  "post_invoice_v2 S q =
     and_then (parse_body (de_create_invoice_v2 (sv_decoders S)) q) (\<lambda>ci.
     answer classified RespInvoiceDump
       (create_invoice_v2 (sv_decimal S) (sv_hyphenated S) (env_of S) (cfg_of S) (get_user_id q) ci))"

definition delete_invoice :: "'d server \<Rightarrow> request \<Rightarrow> uuid \<Rightarrow> ('d world, failure, 'd response) comp" where
  "delete_invoice S q u =
     answer chained RespUuid
       (delete_invoice_by_saga_id (env_of S) (cfg_of S) (get_user_id q) u)"

definition post_role :: "'d server \<Rightarrow> request \<Rightarrow> ('d world, failure, 'd response) comp" where
  "post_role S q =
     and_then (parse_body (de_new_user_role (sv_decoders S)) q) (\<lambda>r.
     answer chained_repo RespUserRole (create_user_role (get_user_id q) r))"

definition delete_role_request :: "'d server \<Rightarrow> request \<Rightarrow> ('d world, failure, 'd response) comp" where
  "delete_role_request S q =
     and_then (parse_body (de_remove_user_role (sv_decoders S)) q) (\<lambda>r.
     answer chained_repo RespUserRole (delete_user_role (get_user_id q) (rur_user_id r) (rur_name r)))"

definition set_payment_state :: "'d server \<Rightarrow> request \<Rightarrow> order_id \<Rightarrow> ('d world, failure, 'd response) comp" where
  "set_payment_state S q oid =
     and_then (parse_body (de_order_payment_state (sv_decoders S)) q) (\<lambda>st.
     answer chained (\<lambda>_. RespUnit) (update_order_state (get_user_id q) oid st))"

definition post_customer :: "'d server \<Rightarrow> request \<Rightarrow> ('d world, failure, 'd response) comp" where
  "post_customer S q =
     and_then (parse_body (de_new_customer (sv_decoders S)) q) (\<lambda>x.
     answer (chained_customer (get_user_id q)) RespCustomer (create_customer_with_source (env_of S) (get_user_id q) x))"

definition delete_customer_request :: "'d server \<Rightarrow> request \<Rightarrow> ('d world, failure, 'd response) comp" where
  "delete_customer_request S q =
     and_then (parse_body (de_delete_customer (sv_decoders S)) q) (\<lambda>cid.
     answer chained (\<lambda>_. RespUnit) (delete_customer (env_of S) (get_user_id q) cid))"

definition put_customer :: "'d server \<Rightarrow> request \<Rightarrow> ('d world, failure, 'd response) comp" where
  "put_customer S q =
     and_then (parse_body (de_update_customer (sv_decoders S)) q) (\<lambda>x.
     answer (chained_customer (get_user_id q)) RespCustomer (update_customer (env_of S) (get_user_id q) x))"

text \<open>A missing or unreadable \<open>skip\<close> or \<open>count\<close> is 0.\<close>

definition query_i64 :: "'d server \<Rightarrow> request \<Rightarrow> string \<Rightarrow> int" where
  "query_i64 S q key =
     (case sv_parse_query_i64 S (case rq_query q of None \<Rightarrow> [] | Some t \<Rightarrow> t) key of None \<Rightarrow> 0 | Some n \<Rightarrow> n)"

definition search_with_paging ::
  "'d server \<Rightarrow> request \<Rightarrow> (string \<Rightarrow> 'p option) \<Rightarrow> ('a \<Rightarrow> 'd response) \<Rightarrow>
   (int \<Rightarrow> int \<Rightarrow> 'p \<Rightarrow> ('d world, service_error, 'a) comp) \<Rightarrow> ('d world, failure, 'd response) comp" where
  "search_with_paging S q decode g m =
     (let skip = query_i64 S q ''skip''; cnt = query_i64 S q ''count'' in
      and_then (parse_body decode q) (\<lambda>payload. answer classified g (m skip cnt payload)))"

definition post_order_billing :: "'d server \<Rightarrow> request \<Rightarrow> ('d world, failure, 'd response) comp" where
  "post_order_billing S q =
     search_with_paging S q (de_order_billing_search_terms (sv_decoders S)) RespOrderBilling
       (search_order_billing (sv_decimal S) (get_user_id q))"

definition post_order_search :: "'d server \<Rightarrow> request \<Rightarrow> ('d world, failure, 'd response) comp" where
  "post_order_search S q =
     search_with_paging S q (de_orders_search (sv_decoders S)) RespOrders
       (service_search_orders (sv_decimal S) (get_user_id q))"

definition post_subscription_payment_search :: "'d server \<Rightarrow> request \<Rightarrow> ('d world, failure, 'd response) comp" where
  "post_subscription_payment_search S q =
     search_with_paging S q (de_subscription_payment_search (sv_decoders S)) RespSubscriptionPayments
       (search_subscription_payments (sv_decimal S) (get_user_id q))"

definition post_international :: "'d server \<Rightarrow> request \<Rightarrow> ('d world, failure, 'd response) comp" where
  "post_international S q =
     and_then (parse_body (de_new_international (sv_decoders S)) q) (\<lambda>x.
     answer chained RespInternational (create_international_billing_info (get_user_id q) x))"

definition put_international :: "'d server \<Rightarrow> request \<Rightarrow> int \<Rightarrow> ('d world, failure, 'd response) comp" where
  "put_international S q i =
     and_then (parse_body (de_update_international (sv_decoders S)) q) (\<lambda>x.
     answer chained RespInternational (update_international_billing (get_user_id q) i x))"

definition post_russia :: "'d server \<Rightarrow> request \<Rightarrow> ('d world, failure, 'd response) comp" where
  "post_russia S q =
     and_then (parse_body (de_new_russia (sv_decoders S)) q) (\<lambda>x.
     answer chained RespRussia (create_russia_billing_info (get_user_id q) x))"

definition put_russia :: "'d server \<Rightarrow> request \<Rightarrow> int \<Rightarrow> ('d world, failure, 'd response) comp" where
  "put_russia S q i =
     and_then (parse_body (de_update_russia (sv_decoders S)) q) (\<lambda>x.
     answer chained RespRussia (update_russia_billing (get_user_id q) i x))"

definition post_fees_pay_by_orders :: "'d server \<Rightarrow> request \<Rightarrow> ('d world, failure, 'd response) comp" where
  "post_fees_pay_by_orders S q =
     and_then (parse_body (de_fees_pay_by_orders (sv_decoders S)) q) (\<lambda>ids.
     answer chained RespFees
       (create_charge_for_several_fees (sv_decimal S) (sv_hyphenated S) (env_of S) (get_user_id q) ids))"

definition post_payout :: "'d server \<Rightarrow> request \<Rightarrow> ('d world, failure, 'd response) comp" where
  "post_payout S q =
     and_then (parse_body (de_pay_out_to_seller (sv_decoders S)) q) (\<lambda>x.
     answer classified RespPayout (pay_out_to_seller (sv_decimal S) (get_user_id q) x))"

definition post_payouts_by_order_ids :: "'d server \<Rightarrow> request \<Rightarrow> ('d world, failure, 'd response) comp" where
  "post_payouts_by_order_ids S q =
     and_then (parse_body (de_get_payouts (sv_decoders S)) q) (\<lambda>ids.
     answer classified RespPayoutsByOrderIds (service_get_payouts_by_order_ids (sv_decimal S) (get_user_id q) ids))"

definition post_payouts_calculate :: "'d server \<Rightarrow> request \<Rightarrow> ('d world, failure, 'd response) comp" where
  "post_payouts_calculate S q =
     and_then (parse_body (de_calculate_payout (sv_decoders S)) q) (\<lambda>x.
     answer classified RespCalculatedPayout
       (calculate_payout (sv_decimal S) (env_of S) (context_of S \<noteq> None) (get_user_id q) x))"

definition post_subscriptions :: "'d server \<Rightarrow> request \<Rightarrow> ('d world, failure, 'd response) comp" where
  "post_subscriptions S q =
     and_then (parse_body (de_create_subscriptions (sv_decoders S)) q) (\<lambda>xs.
     answer classified (\<lambda>_. RespUnit) (create_all (subscription_cfg_of S) (get_user_id q) xs))"

definition post_store_subscription :: "'d server \<Rightarrow> request \<Rightarrow> int \<Rightarrow> ('d world, failure, 'd response) comp" where
  "post_store_subscription S q sid =
     and_then (parse_body (de_create_store_subscription (sv_decoders S)) q) (\<lambda>x.
     answer classified RespStoreSubscription
       (create_store_subscription (sv_decimal S) (env_of S) (subscription_cfg_of S) (get_user_id q) sid x))"

definition put_store_subscription :: "'d server \<Rightarrow> request \<Rightarrow> int \<Rightarrow> ('d world, failure, 'd response) comp" where
  "put_store_subscription S q sid =
     and_then (parse_body (de_update_store_subscription (sv_decoders S)) q) (\<lambda>x.
     answer classified RespStoreSubscription
       (update_store_terms (sv_decimal S) (env_of S) (subscription_cfg_of S) (get_user_id q) sid x))"

section \<open>The dispatch\<close>

text \<open>The route and the method together decide; everything else is not found.\<close>

definition respond :: "'d server \<Rightarrow> request \<Rightarrow> route \<Rightarrow> ('d world, failure, 'd response) comp" where
  "respond S q r =
     (let D = sv_decimal S; user = get_user_id q in
      case r of
        StripeWebhook \<Rightarrow>
            if rq_method q = Post then stripe_webhook S q
            else not_found
      | ExternalBillingCallback \<Rightarrow>
            if rq_method q = Post then external_billing_callback S q
            else not_found
      | PaymentsInboundTx \<Rightarrow>
            if rq_method q = Post then payments_inbound_tx S q
            else not_found
      | UserMerchants \<Rightarrow>
            if rq_method q = Post then post_merchant (de_create_user_merchant (sv_decoders S)) merchant_create_user q
            else not_found
      | UserMerchant _ \<Rightarrow>
            if rq_method q = Delete then answer chained RespUuid merchant_delete
            else not_found
      | UserMerchantBalance _ \<Rightarrow>
            if rq_method q = Get then answer chained RespMerchantBalances merchant_balance_of
            else not_found
      | StoreMerchants \<Rightarrow>
            if rq_method q = Post then post_merchant (de_create_store_merchant (sv_decoders S)) merchant_create_store q
            else not_found
      | StoreMerchant _ \<Rightarrow>
            if rq_method q = Delete then answer chained RespUuid merchant_delete
            else not_found
      | StoreMerchantBalance _ \<Rightarrow>
            if rq_method q = Get then answer chained RespMerchantBalances merchant_balance_of
            else not_found
      | Invoices \<Rightarrow>
            if rq_method q = Post then post_invoice S q
            else not_found
      | InvoicesV2 \<Rightarrow>
            if rq_method q = Post then post_invoice_v2 S q
            else not_found
      | InvoiceBySagaId u \<Rightarrow>
            if rq_method q = Delete then delete_invoice S q u
            else not_found
      | InvoiceByOrderId u \<Rightarrow>
            if rq_method q = Get then answer chained RespInvoiceOption (get_invoice_by_order_id D (env_of S) (cfg_of S) user u)
            else not_found
      | InvoiceById u \<Rightarrow>
            if rq_method q = Get then answer chained RespInvoiceOption (get_invoice_by_id D (env_of S) (cfg_of S) user u)
            else not_found
      | InvoiceByIdV2 iid \<Rightarrow>
            if rq_method q = Get then answer classified RespInvoiceDumpOption (recalc_invoice_v2 D (env_of S) (cfg_of S) user iid)
            else not_found
      | InvoiceByIdRecalc u \<Rightarrow>
            if rq_method q = Post then answer chained RespInvoice (recalc_invoice D (env_of S) (sv_legacy S) (cfg_of S) user u)
            else not_found
      | InvoiceOrdersIds u \<Rightarrow>
            if rq_method q = Get then answer chained RespUuids (get_invoice_orders_ids (cfg_of S) user u)
            else not_found
      | RolesByUserId uid \<Rightarrow>
            if rq_method q = Get then answer chained_repo RespRoles (get_user_roles user uid)
            else if rq_method q = Delete then answer chained_repo RespUserRoles (delete_user_role_by_user_id user uid)
            else not_found
      | Roles \<Rightarrow>
            if rq_method q = Post then post_role S q
            else if rq_method q = Delete then delete_role_request S q
            else not_found
      | RoleById rid \<Rightarrow>
            if rq_method q = Delete then answer chained_repo RespUserRole (delete_user_role_by_id user rid)
            else not_found
      | PaymentIntentByInvoice iid \<Rightarrow>
            if rq_method q = Get then answer chained RespPaymentIntentOption (get_by_invoice D user iid)
            else not_found
      | PaymentIntentByFee fid \<Rightarrow>
            if rq_method q = Post then answer chained RespPaymentIntent (create_by_fee D (env_of S) user fid)
            else not_found
      | OrdersByIdCapture oid \<Rightarrow>
            if rq_method q = Post then answer chained (\<lambda>_. RespUnit) (order_capture user oid)
            else not_found
      | OrdersByIdDecline oid \<Rightarrow>
            if rq_method q = Post then answer chained (\<lambda>_. RespUnit) (order_decline (env_of S) user oid)
            else not_found
      | OrdersSetPaymentState oid \<Rightarrow>
            if rq_method q = Post then set_payment_state S q oid
            else not_found
      | CustomersWithSource \<Rightarrow>
            if rq_method q = Post then post_customer S q
            else not_found
      | Customers \<Rightarrow>
            if rq_method q = Get then answer (chained_customer user) RespCustomerOption (get_customer (env_of S) user)
            else if rq_method q = Delete then delete_customer_request S q
            else if rq_method q = Put then put_customer S q
            else not_found
      | OrderBillingInfo \<Rightarrow>
            if rq_method q = Post then post_order_billing S q
            else not_found
      | OrderSearch \<Rightarrow>
            if rq_method q = Post then post_order_search S q
            else not_found
      | InternationalBillingInfos \<Rightarrow>
            if rq_method q = Post then post_international S q
            else not_found
      | InternationalBillingInfo i \<Rightarrow>
            if rq_method q = Put then put_international S q i
            else not_found
      | RussiaBillingInfos \<Rightarrow>
            if rq_method q = Post then post_russia S q
            else not_found
      | RussiaBillingInfo i \<Rightarrow>
            if rq_method q = Put then put_russia S q i
            else not_found
      | FeesByOrder oid \<Rightarrow>
            if rq_method q = Get then answer chained RespFeeOption (fee_by_order_id D user oid)
            else not_found
      | FeesPay fid \<Rightarrow>
            if rq_method q = Post then answer chained RespFee (create_charge D (sv_hyphenated S) (env_of S) user (SearchFeeId fid))
            else not_found
      | FeesPayByOrder oid \<Rightarrow>
            if rq_method q = Post then answer chained RespFee (create_charge D (sv_hyphenated S) (env_of S) user (SearchFeeOrderId oid))
            else not_found
      | FeesPayByOrders \<Rightarrow>
            if rq_method q = Post then post_fees_pay_by_orders S q
            else not_found
      | RussiaBillingInfoByStore sid \<Rightarrow>
            if rq_method q = Get then answer chained RespRussiaOption (get_russia_billing_info_by_store user sid)
            else not_found
      | InternationalBillingInfoByStore sid \<Rightarrow>
            if rq_method q = Get then answer chained RespInternationalOption (get_international_billing_info_by_store user sid)
            else not_found
      | BillingTypeByStore sid \<Rightarrow>
            if rq_method q = Get then answer chained RespBillingType (get_billing_type_by_store user sid)
            else not_found
      | Payouts \<Rightarrow>
            if rq_method q = Post then post_payout S q
            else not_found
      | PayoutsByStoreId sid \<Rightarrow>
            if rq_method q = Get then answer classified RespPayoutsByStore (get_payouts_by_store_id D user sid)
            else not_found
      | PayoutById pid \<Rightarrow>
            if rq_method q = Get then answer classified RespPayoutOption (get_payout D user pid)
            else not_found
      | PayoutsByOrderIds \<Rightarrow>
            if rq_method q = Post then post_payouts_by_order_ids S q
            else not_found
      | StoreBalance sid \<Rightarrow>
            if rq_method q = Get then answer classified RespBalances (get_balance D user sid)
            else not_found
      | PayoutsCalculate \<Rightarrow>
            if rq_method q = Post then post_payouts_calculate S q
            else not_found
      | Subscriptions \<Rightarrow>
            if rq_method q = Post then post_subscriptions S q
            else not_found
      | SubscriptionBySubscriptionPaymentId pid \<Rightarrow>
            if rq_method q = Post then answer classified RespSubscriptions (get_by_subscription_payment_id user pid)
            else not_found
      | SubscriptionPayment \<Rightarrow>
            if rq_method q = Post then answer classified (\<lambda>_. RespUnit) (pay_subscriptions (env_of S) (subscription_cfg_of S) user)
            else not_found
      | SubscriptionPaymentSearch \<Rightarrow>
            if rq_method q = Post then post_subscription_payment_search S q
            else not_found
      | StoreSubscription \<Rightarrow> not_found
      | StoreSubscriptionByStoreId sid \<Rightarrow>
            if rq_method q = Post then post_store_subscription S q sid
            else if rq_method q = Get then answer chained RespStoreSubscriptionOption (get_store_subscription D (subscription_cfg_of S) user sid)
            else if rq_method q = Put then put_store_subscription S q sid
            else not_found)"

definition call :: "'d server \<Rightarrow> request \<Rightarrow> ('d world, failure, 'd response) comp" where
  "call S q =
     (case route_of (sv_parse_uuid S) (rq_path q) of None \<Rightarrow> not_found | Some r \<Rightarrow> respond S q r)"

section \<open>Frames\<close>

lemma reads_answer: "reads m \<Longrightarrow> reads (answer f g m)"
  unfolding answer_def by (intro reading.keeps_map_err reading.keeps_map_ok)

lemma reads_parsed: "(\<And>a. reads (f a)) \<Longrightarrow> reads (and_then (parse_body decode q) f)"
  unfolding parse_body_def by (intro reading.keeps_and_then reading.keeps_ok_or)

lemma reads_search_with_paging: "(\<And>i j p. reads (m i j p)) \<Longrightarrow> reads (search_with_paging S q decode g m)"
  unfolding search_with_paging_def Let_def by (intro reads_parsed reads_answer)

lemma reads_not_found: "reads not_found"
  unfolding not_found_def by (rule reading.keeps_err)

lemma reads_merchants:
  "reads (post_merchant decode merchant_create_user q)" "reads (post_merchant decode merchant_create_store q)"
  "reads merchant_delete" "reads merchant_balance_of"
  unfolding post_merchant_def merchant_create_user_def merchant_create_store_def merchant_delete_def
    merchant_balance_of_def
  by (intro reads_parsed reads_answer reading.keeps_ok)+

lemmas controller_frames = reads_answer reads_parsed reads_not_found reads_search_with_paging reads_merchants

section \<open>Reading requests\<close>

definition read_only :: "request_method \<Rightarrow> route \<Rightarrow> bool" where
  "read_only m r =
     (case r of
        InvoiceByOrderId _ \<Rightarrow> False
      | InvoiceById _ \<Rightarrow> False
      | InvoiceByIdV2 _ \<Rightarrow> False
      | OrderBillingInfo \<Rightarrow> True
      | OrderSearch \<Rightarrow> True
      | PayoutsByOrderIds \<Rightarrow> True
      | PayoutsCalculate \<Rightarrow> True
      | SubscriptionPaymentSearch \<Rightarrow> True
      | SubscriptionBySubscriptionPaymentId _ \<Rightarrow> True
      | _ \<Rightarrow> m = Get)"

lemma read_only_respond: "read_only (rq_method q) r \<Longrightarrow> reads (respond S q r)"
  by (cases r)
    (auto simp: respond_def read_only_def Let_def post_order_billing_def post_order_search_def
      post_payouts_by_order_ids_def post_payouts_calculate_def post_subscription_payment_search_def
      intro!: controller_frames reading_services)

text \<open>C22: A GET request changes no table, whoever sends it, whatever the other services answer and whichever
  statements fail, except for the requests for an invoice, which recalculate it. The searches that are
  sent with POST change nothing either.\<close>

theorem reading_requests_change_nothing:
  assumes "case route_of (sv_parse_uuid S) (rq_path q) of None \<Rightarrow> True | Some r \<Rightarrow> read_only (rq_method q) r"
  shows "w_db (snd (call S q w)) = w_db w"
proof -
  have "reads (call S q)"
    using assms by (cases "route_of (sv_parse_uuid S) (rq_path q)") (simp_all add: call_def reads_not_found read_only_respond)
  then show ?thesis by (simp add: keeps_def same_db_def)
qed

section \<open>Requests without a user\<close>

definition open_to_anybody :: "request_method \<Rightarrow> route \<Rightarrow> bool" where
  "open_to_anybody m r =
     (case r of
        StripeWebhook \<Rightarrow> m = Post
      | ExternalBillingCallback \<Rightarrow> m = Post
      | PaymentsInboundTx \<Rightarrow> m = Post
      | Invoices \<Rightarrow> m = Post
      | InvoicesV2 \<Rightarrow> m = Post
      | InvoiceByIdRecalc _ \<Rightarrow> m = Post
      | RolesByUserId _ \<Rightarrow> m = Delete
      | RoleById _ \<Rightarrow> m = Delete
      | StoreSubscriptionByStoreId _ \<Rightarrow> m = Post
      | _ \<Rightarrow> False)"

lemma anonymous_respond:
  "get_user_id q = None \<Longrightarrow> \<not> open_to_anybody (rq_method q) r \<Longrightarrow> reads (respond S q r)"
  by (cases r)
    (auto simp: respond_def open_to_anybody_def Let_def post_order_billing_def post_order_search_def
      post_payouts_by_order_ids_def post_payouts_calculate_def post_subscription_payment_search_def
      delete_invoice_def post_role_def delete_role_request_def set_payment_state_def post_customer_def
      delete_customer_request_def put_customer_def post_international_def put_international_def
      post_russia_def put_russia_def post_fees_pay_by_orders_def post_payout_def post_subscriptions_def
      put_store_subscription_def
      intro!: controller_frames reading_services anonymous_services)

text \<open>C16: A request without a user changes tables only at nine endpoints: the three callbacks, the creation of
  invoices and the recalculation of one, the deletion of roles by user and by id, and the terms of a
  new store. Everywhere else, whatever the other services answer and whichever statements fail, the
  access control lets it change nothing.\<close>

theorem anonymous_requests_confined:
  assumes "get_user_id q = None"
    and "case route_of (sv_parse_uuid S) (rq_path q) of None \<Rightarrow> True | Some r \<Rightarrow> \<not> open_to_anybody (rq_method q) r"
  shows "w_db (snd (call S q w)) = w_db w"
proof -
  have "reads (call S q)"
    using assms by (cases "route_of (sv_parse_uuid S) (rq_path q)") (simp_all add: call_def reads_not_found anonymous_respond)
  then show ?thesis by (simp add: keeps_def same_db_def)
qed

section \<open>The kinds of errors\<close>

lemma answer_error: "answer f g m w = (Inl e, t) \<Longrightarrow> \<exists>x. e = f x"
  by (auto simp: answer_def map_err_def map_ok_def split: prod.splits) (metis (no_types) isl_map_sum map_sum_sel(1) sum.collapse(1) sum.disc(1) sum.sel(1))

definition hides_errors :: "request_method \<Rightarrow> route \<Rightarrow> bool" where
  "hides_errors m r =
     (case r of
        Invoices \<Rightarrow> m = Post
      | PaymentIntentByInvoice _ \<Rightarrow> m = Get
      | PaymentIntentByFee _ \<Rightarrow> m = Post
      | OrdersByIdCapture _ \<Rightarrow> m = Post
      | OrdersByIdDecline _ \<Rightarrow> m = Post
      | OrdersSetPaymentState _ \<Rightarrow> m = Post
      | CustomersWithSource \<Rightarrow> m = Post
      | Customers \<Rightarrow> m \<in> {Get, Delete, Put}
      | InternationalBillingInfos \<Rightarrow> m = Post
      | InternationalBillingInfo _ \<Rightarrow> m = Put
      | RussiaBillingInfos \<Rightarrow> m = Post
      | RussiaBillingInfo _ \<Rightarrow> m = Put
      | FeesByOrder _ \<Rightarrow> m = Get
      | FeesPay _ \<Rightarrow> m = Post
      | FeesPayByOrder _ \<Rightarrow> m = Post
      | FeesPayByOrders \<Rightarrow> m = Post
      | RussiaBillingInfoByStore _ \<Rightarrow> m = Get
      | InternationalBillingInfoByStore _ \<Rightarrow> m = Get
      | BillingTypeByStore _ \<Rightarrow> m = Get
      | StoreSubscriptionByStoreId _ \<Rightarrow> m = Get
      | _ \<Rightarrow> False)"

definition only_errors :: "failure set \<Rightarrow> ('d world, failure, 'a) comp \<Rightarrow> bool" where
  "only_errors F m \<longleftrightarrow> (\<forall>w e t. m w = (Inl e, t) \<longrightarrow> e \<in> F)"

lemma only_errors_answer: "(\<And>x. f x \<in> F) \<Longrightarrow> only_errors F (answer f g m)"
  by (auto simp: only_errors_def dest!: answer_error)

lemma only_errors_parsed:
  assumes "BadBody \<in> F" and "\<And>a. only_errors F (f a)"
  shows "only_errors F (and_then (parse_body decode q) f)"
  using assms
  by (cases "Option.bind (rq_body q) decode")
    (auto simp: only_errors_def parse_body_def ok_or_def and_then_def err_def ok_def split: sum.splits)

lemma chained_hidden:
  "chained x \<in> {Classified EForbidden, Unclassified, BadBody, Panicked}"
  "chained_customer user x \<in> {Classified EForbidden, Unclassified, BadBody, Panicked}"
  by (simp_all add: chained_customer_def chained_def split: service_error.split)

lemma answer_chained:
  assumes "answer chained g m w = (Inl e, t)" and "fst (m w) = Inl x" and "x \<notin> {SForbidden, SPanic}"
  shows "e = Unclassified"
  using assms
  by (cases x) (auto simp: answer_def map_err_def map_ok_def chained_def split: prod.splits)

lemma hidden_errors:
  assumes "hides_errors (rq_method q) r" and "respond S q r w = (Inl e, t)"
  shows "e \<in> {Classified EForbidden, Unclassified, BadBody, Panicked}"
proof -
  have "only_errors {Classified EForbidden, Unclassified, BadBody, Panicked} (respond S q r)"
    using assms(1)
    by (cases r)
      (auto simp: respond_def hides_errors_def Let_def post_invoice_def set_payment_state_def post_customer_def
        delete_customer_request_def put_customer_def post_international_def put_international_def
        post_russia_def put_russia_def post_fees_pay_by_orders_def
        intro!: only_errors_answer only_errors_parsed chained_hidden)
  with assms(2) show ?thesis unfolding only_errors_def by blast
qed

text \<open>C35: At these twenty-two endpoints the kind of an error is lost: the only error of \<open>errors.rs\<close> that an answer
  carries is that of a refused access, so none is answered as not found or as invalid data. In particular
  an order in the wrong state and a fee that has been paid, which are validation errors of the
  services, are reported as a failure of the server.\<close>

theorem error_kinds_lost:
  assumes "hides_errors (rq_method q) r" and "respond S q r w = (Inl e, t)"
  shows "e \<in> {Classified EForbidden, Unclassified, BadBody, Panicked} \<and>
    (\<forall>oid x. r = OrdersByIdCapture oid \<and> fst (order_capture (get_user_id q) oid w) = Inl x \<and>
       x \<notin> {SForbidden, SPanic} \<longrightarrow> e = Unclassified) \<and>
    (\<forall>oid x. r = OrdersByIdDecline oid \<and> fst (order_decline (env_of S) (get_user_id q) oid w) = Inl x \<and>
       x \<notin> {SForbidden, SPanic} \<longrightarrow> e = Unclassified) \<and>
    (\<forall>oid x. r = FeesPayByOrder oid \<and>
       fst (create_charge (sv_decimal S) (sv_hyphenated S) (env_of S) (get_user_id q) (SearchFeeOrderId oid) w) = Inl x \<and>
       x \<notin> {SForbidden, SPanic} \<longrightarrow> e = Unclassified)"
proof (intro conjI allI impI)
  show "e \<in> {Classified EForbidden, Unclassified, BadBody, Panicked}" by (rule hidden_errors [OF assms])
next
  fix oid x
  assume a: "r = OrdersByIdCapture oid \<and> fst (order_capture (get_user_id q) oid w) = Inl x \<and> x \<notin> {SForbidden, SPanic}"
  with assms have "answer chained (\<lambda>_. RespUnit) (order_capture (get_user_id q) oid) w = (Inl e, t)"
    by (simp add: respond_def hides_errors_def Let_def)
  from answer_chained [OF this a [THEN conjunct2, THEN conjunct1] a [THEN conjunct2, THEN conjunct2]]
  show "e = Unclassified" .
next
  fix oid x
  assume a: "r = OrdersByIdDecline oid \<and> fst (order_decline (env_of S) (get_user_id q) oid w) = Inl x \<and>
    x \<notin> {SForbidden, SPanic}"
  with assms have "answer chained (\<lambda>_. RespUnit) (order_decline (env_of S) (get_user_id q) oid) w = (Inl e, t)"
    by (simp add: respond_def hides_errors_def Let_def)
  from answer_chained [OF this a [THEN conjunct2, THEN conjunct1] a [THEN conjunct2, THEN conjunct2]]
  show "e = Unclassified" .
next
  fix oid x
  assume a: "r = FeesPayByOrder oid \<and>
    fst (create_charge (sv_decimal S) (sv_hyphenated S) (env_of S) (get_user_id q) (SearchFeeOrderId oid) w) = Inl x \<and>
    x \<notin> {SForbidden, SPanic}"
  with assms have "answer chained RespFee
      (create_charge (sv_decimal S) (sv_hyphenated S) (env_of S) (get_user_id q) (SearchFeeOrderId oid)) w = (Inl e, t)"
    by (simp add: respond_def hides_errors_def Let_def)
  from answer_chained [OF this a [THEN conjunct2, THEN conjunct1] a [THEN conjunct2, THEN conjunct2]]
  show "e = Unclassified" .
qed

section \<open>From the request to the tables\<close>

lemma show_nat_digits: "list_all (in_class Digit) (show_nat n) \<and> show_nat n \<noteq> []"
proof (induction n rule: show_nat.induct)
  case (1 n)
  show ?case
    by (cases "n < 10") (use 1 in \<open>simp_all add: show_nat.simps [of n]\<close>)
qed

lemma parse_i32_show_nat: "n < 2 ^ 31 \<Longrightarrow> parse_i32 (show_nat n) = Some (int n)"
proof -
  assume n: "n < 2 ^ 31"
  obtain c cs where c: "show_nat n = c # cs" using show_nat_digits [of n] by (cases "show_nat n") simp_all
  have digits: "digits_value 0 (c # cs) = Some n" using digits_value_show_nat [of n] by (simp only: c)
  have "in_class Digit c" using show_nat_digits [of n] by (simp add: c)
  then have "c \<noteq> CHR ''-'' \<and> c \<noteq> CHR ''+''" by (auto simp: char_digit_def)
  with digits n show ?thesis by (simp add: parse_i32_def c del: digits_value.simps)
qed

lemma roles_pattern:
  "pattern_of (''^/roles/by-user-id/'' @ digits_group @ ''$'') =
     Some (map Literal ''/roles/by-user-id/'' @ Group Digit # map Literal [])"
  by (simp add: pattern_of_def class_of_text_def)

lemma roles_route:
  assumes "uuid_texts parse_uuid" and "n < 2 ^ 31"
  shows "route_of parse_uuid (''/roles/by-user-id/'' @ show_nat n) = Some (RolesByUserId (int n))"
proof (rule route_of_match [OF assms(1)])
  show "add_route_with parse_i32 (''^/roles/by-user-id/'' @ digits_group @ ''$'') RolesByUserId \<in> set (create_route_parser parse_uuid)"
    unfolding create_route_parser_def by simp
  have "entry_route (''/roles/by-user-id/'' @ show_nat n @ [])
      (add_route_with parse_i32 (''^/roles/by-user-id/'' @ digits_group @ ''$'') RolesByUserId) = Some (RolesByUserId (int n))"
    by (rule entry_with [OF roles_pattern]) (use show_nat_digits [of n] parse_i32_show_nat [OF assms(2)] in simp_all)
  then show "entry_route (''/roles/by-user-id/'' @ show_nat n)
      (add_route_with parse_i32 (''^/roles/by-user-id/'' @ digits_group @ ''$'') RolesByUserId) = Some (RolesByUserId (int n))"
    by simp
qed

text \<open>C23: A DELETE request to \<open>/roles/by-user-id/<n>\<close> without an \<open>Authorization\<close> header, from anybody, deletes all
  the roles of the user \<open>n\<close> and answers with them.\<close>

theorem anybody_deletes_roles_by_request:
  assumes "uuid_texts (sv_parse_uuid S)" and "quiet w" and "n < 2 ^ 31"
    and "rq_method q = Delete" and "rq_path q = ''/roles/by-user-id/'' @ show_nat n" and "rq_authorization q = None"
  shows "fst (call S q w) = Inr (RespUserRoles (filter (\<lambda>r. role_user_id r = int n) (roles (w_db w)))) \<and>
    roles (w_db (snd (call S q w))) = filter (\<lambda>r. role_user_id r \<noteq> int n) (roles (w_db w))"
proof -
  have "call S q = answer chained_repo RespUserRoles (delete_user_role_by_user_id None (int n))"
    using assms(4,6) roles_route [OF assms(1,3)]
    by (simp add: call_def assms(5) respond_def Let_def get_user_id_def)
  then show ?thesis
    by (simp add: answer_def map_err_def map_ok_def anybody_deletes_roles [OF assms(2)])
qed

text \<open>The address that the payments gateway is given for its callbacks is one that the server answers: the path of
  the callback leads to the handler of incoming transactions.\<close>

theorem callback_address_is_served:
  assumes "uuid_texts parse_uuid" and "payments_context client_ok c = Some (k, a)"
  shows "\<exists>path. payments_callback_url a = conf_callback_url c @ path \<and> route_of parse_uuid path = Some PaymentsInboundTx"
proof (intro exI conjI)
  show "payments_callback_url a = conf_callback_url c @ PAYMENTS_CALLBACK_ENDPOINT"
    using assms(2) by (auto simp: payments_context_def account_service_new_def split: bool.splits option.splits if_splits)
  have pattern: "pattern_of (''^'' @ PAYMENTS_CALLBACK_ENDPOINT @ ''$'') = Some (map Literal PAYMENTS_CALLBACK_ENDPOINT)"
    by (simp add: pattern_of_def PAYMENTS_CALLBACK_ENDPOINT_def)
  show "route_of parse_uuid PAYMENTS_CALLBACK_ENDPOINT = Some PaymentsInboundTx"
    by (rule route_of_match [OF assms(1) _ entry_plain [OF pattern]]) (simp add: create_route_parser_def)
qed

section \<open>Examples\<close>

text \<open>A server whose other services are down, and whose clients send no body.\<close>

definition no_decoders :: "'d decoders" where
  "no_decoders = \<lparr>de_external_billing_invoice = (\<lambda>_. None), de_payments_callback = (\<lambda>_. None),
     de_create_user_merchant = (\<lambda>_. None), de_create_store_merchant = (\<lambda>_. None),
     de_create_invoice = (\<lambda>_. None), de_create_invoice_v2 = (\<lambda>_. None), de_new_user_role = (\<lambda>_. None),
     de_remove_user_role = (\<lambda>_. None), de_order_payment_state = (\<lambda>_. None), de_new_customer = (\<lambda>_. None),
     de_delete_customer = (\<lambda>_. None), de_update_customer = (\<lambda>_. None),
     de_order_billing_search_terms = (\<lambda>_. None), de_orders_search = (\<lambda>_. None),
     de_new_international = (\<lambda>_. None), de_update_international = (\<lambda>_. None), de_new_russia = (\<lambda>_. None),
     de_update_russia = (\<lambda>_. None), de_fees_pay_by_orders = (\<lambda>_. None), de_pay_out_to_seller = (\<lambda>_. None),
     de_get_payouts = (\<lambda>_. None), de_calculate_payout = (\<lambda>_. None), de_create_subscriptions = (\<lambda>_. None),
     de_subscription_payment_search = (\<lambda>_. None), de_create_store_subscription = (\<lambda>_. None),
     de_update_store_subscription = (\<lambda>_. None)\<rparr>"

definition some_accounts :: accounts_section where
  "some_accounts = \<lparr>main_stq = 1, main_eth = 2, main_btc = 3, cashback_stq = 4\<rparr>"

definition test_config :: server_config where
  "test_config = \<lparr>conf_http_timeout_ms = 5000, conf_processing_timeout_ms = 1000,
     conf_callback_url = ''http://billing'', conf_payments = None,
     conf_payments_mock = \<lparr>mock_use_mock = True, mock_min_pooled_accounts = 1, mock_accounts = some_accounts\<rparr>,
     conf_signing_secret = ''s'', conf_order_percent = 5, conf_currency_code = ''eur'',
     conf_crypto_timeout_min = 15, conf_fiat_timeout_min = 15, conf_periodicity_days = 30,
     conf_trial_time_duration_days = 30\<rparr>"

definition test_server :: "rat server" where
  "test_server = \<lparr>sv_config = test_config, sv_client_ok = (\<lambda>_. True), sv_decimal = rat_bigdecimal,
     sv_crypto = no_crypto, sv_hyphenated = (\<lambda>_. []), sv_parse_uuid = no_uuids,
     sv_parse_query_i64 = (\<lambda>_ _. None), sv_construct_event = (\<lambda>_ _ _. None), sv_decoders = no_decoders,
     sv_env = (\<lambda>_. offline_env), sv_legacy = friendly_legacy\<rparr>"

definition plain_request :: "request_method \<Rightarrow> string \<Rightarrow> request" where
  "plain_request m path = \<lparr>rq_method = m, rq_path = path, rq_query = None, rq_authorization = None,
     rq_timeout = None, rq_stripe_signature = None, rq_sign = None, rq_body = None\<rparr>"

lemma no_uuids_law: "uuid_texts no_uuids"
  by (simp add: uuid_texts_def no_uuids_def)

lemma show_nat_7: "show_nat 7 = ''7''"
  by code_simp

lemma test_route: "route_of no_uuids ''/roles/by-user-id/7'' = Some (RolesByUserId 7)"
  using roles_route [OF no_uuids_law, of 7] by (simp add: show_nat_7)

theorem reading_requests_change_nothing_witness:
  "w_db (snd (call test_server (plain_request Get ''/roles/by-user-id/7'') role_world)) = w_db role_world"
  by (rule reading_requests_change_nothing)
    (simp add: test_server_def plain_request_def test_route read_only_def)

theorem anonymous_requests_confined_witness:
  "w_db (snd (call test_server (plain_request Post ''/roles/by-user-id/7'') role_world)) = w_db role_world"
  by (rule anonymous_requests_confined)
    (simp_all add: test_server_def plain_request_def test_route open_to_anybody_def get_user_id_def)

text \<open>The superuser captures an order for the second time.\<close>

definition captured_world :: "rat world" where
  "captured_world = order_world\<lparr>w_db := empty_db\<lparr>orders := [sample_order\<lparr>ord_state := Captured\<rparr>]\<rparr>\<rparr>"

lemma captured_again: "order_capture (Some 1) (OrderId 1) captured_world = (Inl wrong_state, captured_world)"
proof -
  have "quiet captured_world" "w_cache_up captured_world" "w_roles_cache captured_world 1 = Some [Superuser]"
    "orders (w_db captured_world) = [sample_order\<lparr>ord_state := Captured\<rparr>]" "ord_id sample_order = OrderId 1"
    by (simp_all add: captured_world_def order_world_def sample_order_def)
  then show ?thesis
    by (simp add: order_capture_def initial_order_def svc_def orders_get_def get_acl_cached check_superuser totals)
qed

theorem error_kinds_lost_witness:
  "fst (order_capture (Some 1) (OrderId 1) captured_world) = Inl wrong_state \<and>
   fst (respond test_server (plain_request Post ''/orders''\<lparr>rq_authorization := Some ''1''\<rparr>)
     (OrdersByIdCapture (OrderId 1)) captured_world) = Inl Unclassified"
proof -
  let ?q = "plain_request Post ''/orders''\<lparr>rq_authorization := Some ''1''\<rparr>"
  have user: "get_user_id ?q = Some 1" by (simp add: get_user_id_def plain_request_def) code_simp
  obtain e t where run: "respond test_server ?q (OrdersByIdCapture (OrderId 1)) captured_world = (Inl e, t)"
    using captured_again
    by (simp add: respond_def Let_def user) (simp add: plain_request_def answer_def map_err_def map_ok_def)
  have "hides_errors (rq_method ?q) (OrdersByIdCapture (OrderId 1))"
    by (simp add: hides_errors_def plain_request_def)
  from error_kinds_lost [OF this run] have "e = Unclassified"
    using captured_again by (simp add: user wrong_state_def invalid_def)
  with run captured_again show ?thesis by simp
qed

theorem anybody_deletes_roles_by_request_witness:
  "roles (w_db (snd (call test_server (plain_request Delete ''/roles/by-user-id/7'') role_world))) =
     [\<lparr>role_id = 2, role_user_id = 8, role_name = User, role_data = None\<rparr>]"
proof -
  let ?q = "plain_request Delete ''/roles/by-user-id/7''"
  have "uuid_texts (sv_parse_uuid test_server)" by (simp add: test_server_def no_uuids_law)
  moreover have "quiet role_world" by (simp add: role_world_def)
  moreover have "rq_path ?q = ''/roles/by-user-id/'' @ show_nat 7" by (simp add: plain_request_def show_nat_7)
  ultimately show ?thesis
    using anybody_deletes_roles_by_request [of test_server role_world 7 ?q]
    by (simp add: plain_request_def role_world_def initial_world_def)
qed

theorem callback_address_is_served_witness:
  "\<exists>path. ''http://billing'' @ PAYMENTS_CALLBACK_ENDPOINT = ''http://billing'' @ path \<and>
     route_of no_uuids path = Some PaymentsInboundTx"
proof -
  have "payments_context (\<lambda>_. True) test_config =
      Some (MockClient, account_service_new test_config 1 some_accounts)"
    by (simp add: payments_context_def test_config_def)
  from callback_address_is_served [OF no_uuids_law this] show ?thesis
    by (simp add: account_service_new_def test_config_def)
qed

end
