(* ===== verification/ServiceClients.thy ===== *)
theory ServiceClients
  imports Prelude Currencies Amounts Models Clients World Services OrderService
begin

text \<open>
  \<open>client/stripe/mod.rs\<close>, \<open>client/stores/mod.rs\<close> and \<open>client/saga/mod.rs\<close>: what the clients of the other
  services send. Stripe's library and the HTTP client are parameters: functions of the requests sent
  so far. The environment of the services is built from them; the log of its calls tells what has
  been sent.
\<close>

section \<open>Stripe's library\<close>

record customer_params =
  cup_email :: "string option"
  cup_source :: "string option"

record charge_params =
  chp_amount :: "64 word option"
  chp_currency :: "string option"
  chp_customer :: "string option"
  chp_capture :: "bool option"
  chp_metadata :: "(string \<times> string) list option"

record refund_params =
  rfp_charge :: string
  rfp_amount :: "64 word option"
  rfp_metadata :: "(string \<times> string) list"

record payout_params =
  pyp_amount :: "64 word"
  pyp_currency :: string
  pyp_metadata :: "(string \<times> string) list option"

text \<open>The requests, with the parameters that are set; the other parameters have their default.\<close>

datatype stripe_request =
    CustomerCreate customer_params
  | CustomerRetrieve string
  | CustomerDelete string
  | CustomerUpdate string customer_params
  | ChargeCreate charge_params
  | ChargeRetrieve string
  | ChargeCapture string "64 word option"
  | IntentRetrieve string
  | IntentCapture string "64 word option"
  | IntentCreate stripe_new_payment_intent
  | IntentCancel string
  | BalanceTransactionRetrieve string
  | RefundCreate refund_params
  | PayoutCreate payout_params

text \<open>The errors of the library; of an error that Stripe returns the client keeps more fields than
  the model.\<close>

datatype stripe_error =
    SeSerialize | SeDeserialize | SeHttp | SeIo | SeUnexpected | SeUnsupported | SeStripe string

definition client_error_of_stripe :: "stripe_error \<Rightarrow> client_error" where
  "client_error_of_stripe e = (case e of SeStripe _ \<Rightarrow> CValidation [(''request'', ''stripe'')] | _ \<Rightarrow> CInternal)"

type_synonym 'r stripe_call = "stripe_request list \<Rightarrow> stripe_request \<Rightarrow> stripe_error + 'r"

record stripe_library =
  lib_customer :: "stripe_customer stripe_call"
  lib_deleted :: "bool stripe_call"
  lib_charge :: "stripe_charge stripe_call"
  lib_intent :: "stripe_payment_intent stripe_call"
  lib_balance_transaction :: "stripe_balance_transaction stripe_call"
  lib_refund :: "unit stripe_call"
  lib_payout :: "unit stripe_call"

definition send :: "'r stripe_call \<Rightarrow> stripe_request \<Rightarrow> (stripe_request list, client_error, 'r) comp" where
  "send f q = (\<lambda>sent. (map_sum client_error_of_stripe id (f sent q), sent @ [q]))"

section \<open>The Stripe client\<close>

text \<open>\<open>amount.inner() as u64\<close>: the upper half of the number is dropped.\<close>

definition as_u64 :: "amount \<Rightarrow> 64 word" where
  "as_u64 a = ucast (inner a)"

definition client_create_customer ::
  "stripe_library \<Rightarrow> string \<Rightarrow> (stripe_request list, client_error, stripe_customer) comp" where
  "client_create_customer L email =
     send (lib_customer L) (CustomerCreate \<lparr>cup_email = Some email, cup_source = None\<rparr>)"

definition client_create_customer_with_source ::
  "stripe_library \<Rightarrow> new_customer_with_source \<Rightarrow> (stripe_request list, client_error, stripe_customer) comp" where
  "client_create_customer_with_source L input =
     send (lib_customer L) (CustomerCreate \<lparr>cup_email = ncs_email input, cup_source = Some (ncs_token input)\<rparr>)"

definition client_get_customer ::
  "stripe_library \<Rightarrow> customer_id \<Rightarrow> (stripe_request list, client_error, stripe_customer) comp" where
  "client_get_customer L cid = send (lib_customer L) (CustomerRetrieve (customer_inner cid))"

definition client_delete_customer ::
  "stripe_library \<Rightarrow> customer_id \<Rightarrow> (stripe_request list, client_error, bool) comp" where
  "client_delete_customer L cid = send (lib_deleted L) (CustomerDelete (customer_inner cid))"

definition client_update_customer ::
  "stripe_library \<Rightarrow> customer_id \<Rightarrow> stripe_update_customer \<Rightarrow> (stripe_request list, client_error, stripe_customer) comp"
  where
  "client_update_customer L cid input =
     send (lib_customer L)
       (CustomerUpdate (customer_inner cid) \<lparr>cup_email = suc_email input, cup_source = suc_token input\<rparr>)"

definition client_create_charge ::
  "stripe_library \<Rightarrow> new_charge \<Rightarrow> (string \<times> string) list option \<Rightarrow>
   (stripe_request list, client_error, stripe_charge) comp" where
  "client_create_charge L input metadata =
     and_then (of_result (stripe_convert (nc_currency input))) (\<lambda>currency.
     send (lib_charge L) (ChargeCreate
       \<lparr>chp_amount = Some (as_u64 (nc_amount input)), chp_currency = Some currency,
        chp_customer = Some (customer_inner (nc_customer_id input)), chp_capture = Some (nc_capture input),
        chp_metadata = metadata\<rparr>))"

definition client_get_charge ::
  "stripe_library \<Rightarrow> charge_id \<Rightarrow> (stripe_request list, client_error, stripe_charge) comp" where
  "client_get_charge L c = send (lib_charge L) (ChargeRetrieve (charge_inner c))"

definition client_capture_charge ::
  "stripe_library \<Rightarrow> charge_id \<Rightarrow> amount \<Rightarrow> (stripe_request list, client_error, stripe_charge) comp" where
  "client_capture_charge L c a = send (lib_charge L) (ChargeCapture (charge_inner c) (Some (as_u64 a)))"

definition client_get_payment_intent ::
  "stripe_library \<Rightarrow> payment_intent_id \<Rightarrow> (stripe_request list, client_error, stripe_payment_intent) comp" where
  "client_get_payment_intent L p = send (lib_intent L) (IntentRetrieve (payment_intent_inner p))"

definition client_capture_payment_intent ::
  "stripe_library \<Rightarrow> payment_intent_id \<Rightarrow> amount \<Rightarrow> (stripe_request list, client_error, stripe_payment_intent) comp"
  where
  "client_capture_payment_intent L p a =
     send (lib_intent L) (IntentCapture (payment_intent_inner p) (Some (as_u64 a)))"

definition client_retrieve_balance_transaction ::
  "stripe_library \<Rightarrow> string \<Rightarrow> (stripe_request list, client_error, stripe_balance_transaction) comp" where
  "client_retrieve_balance_transaction L b = send (lib_balance_transaction L) (BalanceTransactionRetrieve b)"

definition order_metadata :: "(uuid \<Rightarrow> string) \<Rightarrow> order_id \<Rightarrow> (string \<times> string) list" where
  "order_metadata hyphenated oid = [(''order_id'', hyphenated (order_uuid oid))]"

definition client_refund ::
  "(uuid \<Rightarrow> string) \<Rightarrow> stripe_library \<Rightarrow> charge_id \<Rightarrow> amount \<Rightarrow> order_id \<Rightarrow>
   (stripe_request list, client_error, unit) comp" where
  "client_refund hyphenated L c a oid =
     send (lib_refund L) (RefundCreate
       \<lparr>rfp_charge = charge_inner c, rfp_amount = Some (as_u64 a), rfp_metadata = order_metadata hyphenated oid\<rparr>)"

definition client_create_payout ::
  "(uuid \<Rightarrow> string) \<Rightarrow> stripe_library \<Rightarrow> amount \<Rightarrow> string \<Rightarrow> order_id \<Rightarrow>
   (stripe_request list, client_error, unit) comp" where
  "client_create_payout hyphenated L a currency oid =
     send (lib_payout L) (PayoutCreate
       \<lparr>pyp_amount = as_u64 a, pyp_currency = currency, pyp_metadata = Some (order_metadata hyphenated oid)\<rparr>)"

definition client_create_payment_intent ::
  "stripe_library \<Rightarrow> stripe_new_payment_intent \<Rightarrow> (stripe_request list, client_error, stripe_payment_intent) comp"
  where
  "client_create_payment_intent L input = send (lib_intent L) (IntentCreate input)"

definition client_cancel_payment_intent ::
  "stripe_library \<Rightarrow> payment_intent_id \<Rightarrow> (stripe_request list, client_error, stripe_payment_intent) comp" where
  "client_cancel_payment_intent L p = send (lib_intent L) (IntentCancel (payment_intent_inner p))"

section \<open>The clients of the stores and of the saga\<close>

datatype json_method = JsonGet | JsonPost

datatype json_header = CurrencyHeader string | FiatCurrencyHeader string

record json_request =
  jr_method :: json_method
  jr_url :: string
  jr_body :: "string option"
  jr_headers :: "json_header list option"

type_synonym 'r json_client = "json_request list \<Rightarrow> json_request \<Rightarrow> 'r option"

text \<open>Every failure of the HTTP client is an internal error.\<close>

definition request_json :: "'r json_client \<Rightarrow> json_request \<Rightarrow> (json_request list, client_error, 'r) comp" where
  "request_json f q = (\<lambda>sent. (case f sent q of None \<Rightarrow> Inl CInternal | Some r \<Rightarrow> Inr r, sent @ [q]))"

definition stores_headers :: "json_header list" where
  "stores_headers = [CurrencyHeader ''STQ'', FiatCurrencyHeader ''USD'']"

definition client_get_currency_exchange ::
  "currency_exchange_info_request json_client \<Rightarrow> string \<Rightarrow>
   (json_request list, client_error, currency_exchange_info_request) comp" where
  "client_get_currency_exchange f url =
     request_json f \<lparr>jr_method = JsonGet, jr_url = url @ ''/currency_exchange'', jr_body = None,
       jr_headers = Some stores_headers\<rparr>"

definition client_update_order_states ::
  "unit json_client \<Rightarrow> (order_state_update list \<Rightarrow> string option) \<Rightarrow> string \<Rightarrow> order_state_update list \<Rightarrow>
   (json_request list, client_error, unit) comp" where
  "client_update_order_states f encode url updates =
     and_then (ok_or CInternal (encode updates)) (\<lambda>body.
     request_json f \<lparr>jr_method = JsonPost, jr_url = url @ ''/orders/update_state'', jr_body = Some body,
       jr_headers = None\<rparr>)"

section \<open>The environment over Stripe's library\<close>

text \<open>The requests that a logged call has sent are those of the client; the calls of the other services send
  none to Stripe.\<close>

definition sent_by :: "(stripe_request list, client_error, 'r) comp \<Rightarrow> stripe_request list" where
  "sent_by m = snd (m [])"

fun requests_of_call :: "(uuid \<Rightarrow> string) \<Rightarrow> stripe_library \<Rightarrow> ext_call \<Rightarrow> stripe_request list" where
  "requests_of_call h L (StripeCreatePaymentIntent input) = sent_by (client_create_payment_intent L input)"
| "requests_of_call h L (StripeGetPaymentIntent p) = sent_by (client_get_payment_intent L p)"
| "requests_of_call h L (StripeCancelPaymentIntent p) = sent_by (client_cancel_payment_intent L p)"
| "requests_of_call h L (StripeGetCharge c) = sent_by (client_get_charge L c)"
| "requests_of_call h L (StripeRetrieveBalanceTransaction b) = sent_by (client_retrieve_balance_transaction L b)"
| "requests_of_call h L (StripeRefund c a oid) = sent_by (client_refund h L c a oid)"
| "requests_of_call h L (StripeCreateCharge input metadata) = sent_by (client_create_charge L input metadata)"
| "requests_of_call h L (StripeCreateCustomer input) = sent_by (client_create_customer_with_source L input)"
| "requests_of_call h L (StripeGetCustomer c) = sent_by (client_get_customer L c)"
| "requests_of_call h L (StripeDeleteCustomer c) = sent_by (client_delete_customer L c)"
| "requests_of_call h L (StripeUpdateCustomer c input) = sent_by (client_update_customer L c input)"
| "requests_of_call h L _ = []"

definition stripe_requests :: "(uuid \<Rightarrow> string) \<Rightarrow> stripe_library \<Rightarrow> ext_call list \<Rightarrow> stripe_request list" where
  "stripe_requests h L calls = concat (map (requests_of_call h L) calls)"

text \<open>The environment of the services over the library: a call is answered as the client answers it after all the
  requests that were sent before.\<close>

definition with_stripe :: "(uuid \<Rightarrow> string) \<Rightarrow> stripe_library \<Rightarrow> 'd env \<Rightarrow> 'd env" where
  "with_stripe h L env = env
     \<lparr>stripe_create_payment_intent := (\<lambda>cs q. fst (client_create_payment_intent L q (stripe_requests h L cs))),
      stripe_get_payment_intent := (\<lambda>cs q. fst (client_get_payment_intent L q (stripe_requests h L cs))),
      stripe_cancel_payment_intent := (\<lambda>cs q. fst (client_cancel_payment_intent L q (stripe_requests h L cs))),
      stripe_get_charge := (\<lambda>cs q. fst (client_get_charge L q (stripe_requests h L cs))),
      stripe_retrieve_balance_transaction :=
        (\<lambda>cs q. fst (client_retrieve_balance_transaction L q (stripe_requests h L cs))),
      stripe_refund := (\<lambda>cs (c, a, oid). fst (client_refund h L c a oid (stripe_requests h L cs))),
      stripe_create_charge := (\<lambda>cs (input, metadata). fst (client_create_charge L input metadata (stripe_requests h L cs))),
      stripe_create_customer_with_source :=
        (\<lambda>cs q. fst (client_create_customer_with_source L q (stripe_requests h L cs))),
      stripe_get_customer := (\<lambda>cs q. fst (client_get_customer L q (stripe_requests h L cs))),
      stripe_delete_customer := (\<lambda>cs q. fst (client_delete_customer L q (stripe_requests h L cs))),
      stripe_update_customer := (\<lambda>cs (c, input). fst (client_update_customer L c input (stripe_requests h L cs)))\<rparr>"

section \<open>Amounts that do not fit\<close>

lemma as_u64_value: "uint (as_u64 a) = uint (inner a) mod 2 ^ 64"
  by (simp add: as_u64_def unsigned_ucast_eq take_bit_eq_mod)

text \<open>C17: A request to decline a fiat order reaches the state declined only after Stripe has accepted the refund:
  whatever fails and whatever the result, either nothing was sent and nothing has changed, or one
  request was sent, for the charge of the payment intent of the order's invoice and for the order's
  total modulo 2 to the power of 64, and the tables are as before unless Stripe has accepted it. The
  client drops the upper half of the number, so a total that does not fit is refunded only in part,
  and the order is declined all the same.\<close>

theorem declined_after_refund_modulo_u64:
  assumes "row_by (\<lambda>x. ord_id x = oid) (orders (w_db w)) = Some q" and "is_fiat (ord_seller_currency q)"
  shows "ends (order_decline (with_stripe h L env) user oid) w (\<lambda>r t.
    isl r \<and> w_db t = w_db w \<and> stripe_requests h L (w_calls t) = stripe_requests h L (w_calls w) \<or>
    (\<exists>c a. charge_of_order (w_db w) q c \<and> uint a = uint (inner (ord_total_amount q)) mod 2 ^ 64 \<and>
       (let p = \<lparr>rfp_charge = charge_inner c, rfp_amount = Some a, rfp_metadata = order_metadata h oid\<rparr> in
        stripe_requests h L (w_calls t) = stripe_requests h L (w_calls w) @ [RefundCreate p] \<and>
        (isl r \<and> w_db t = w_db w \<or>
         lib_refund L (stripe_requests h L (w_calls w)) (RefundCreate p) = Inr () \<and>
         state_set oid Declined (w_db w) r (w_db t)))))"
proof (rule ends_mono [OF declined_after_refund [OF assms]])
  fix r and t :: "'a world"
  assume run: "refund_and_decline (with_stripe h L env) q w r t"
  let ?p = "\<lambda>c. \<lparr>rfp_charge = charge_inner c, rfp_amount = Some (as_u64 (ord_total_amount q)),
    rfp_metadata = order_metadata h oid\<rparr>"
  have oid: "ord_id q = oid" using assms(1) by (rule row_by_id)
  have sent: "stripe_requests h L (cs @ [StripeRefund c (ord_total_amount q) oid]) =
      stripe_requests h L cs @ [RefundCreate (?p c)]" for cs c
    by (simp add: stripe_requests_def sent_by_def client_refund_def send_def)
  have accepted: "lib_refund L (stripe_requests h L cs) (RefundCreate (?p c)) = Inr ()"
    if "stripe_refund (with_stripe h L env) cs (c, ord_total_amount q, oid) = Inr ()" for cs c
    using that
    by (cases "lib_refund L (stripe_requests h L cs) (RefundCreate (?p c))")
      (simp_all add: with_stripe_def client_refund_def send_def)
  from run show "isl r \<and> w_db t = w_db w \<and> stripe_requests h L (w_calls t) = stripe_requests h L (w_calls w) \<or>
    (\<exists>c a. charge_of_order (w_db w) q c \<and> uint a = uint (inner (ord_total_amount q)) mod 2 ^ 64 \<and>
       (let p = \<lparr>rfp_charge = charge_inner c, rfp_amount = Some a, rfp_metadata = order_metadata h oid\<rparr> in
        stripe_requests h L (w_calls t) = stripe_requests h L (w_calls w) @ [RefundCreate p] \<and>
        (isl r \<and> w_db t = w_db w \<or>
         lib_refund L (stripe_requests h L (w_calls w)) (RefundCreate p) = Inr () \<and>
         state_set oid Declined (w_db w) r (w_db t))))"
    unfolding refund_and_decline_def oid
  proof (elim disjE exE conjE, goal_cases)
    case 1
    then show ?case by simp
  next
    case (2 c)
    then show ?case
      by (intro disjI2 exI [of _ c] exI [of _ "as_u64 (ord_total_amount q)"]) (simp add: as_u64_value sent)
  next
    case (3 c)
    then show ?case
      by (intro disjI2 exI [of _ c] exI [of _ "as_u64 (ord_total_amount q)"]) (simp add: as_u64_value sent accepted)
  qed
qed

definition accepting_library :: stripe_library where
  "accepting_library = \<lparr>lib_customer = (\<lambda>_ _. Inl SeHttp), lib_deleted = (\<lambda>_ _. Inl SeHttp),
     lib_charge = (\<lambda>_ _. Inl SeHttp), lib_intent = (\<lambda>_ _. Inl SeHttp),
     lib_balance_transaction = (\<lambda>_ _. Inl SeHttp), lib_refund = (\<lambda>_ _. Inr ()), lib_payout = (\<lambda>_ _. Inr ())\<rparr>"

theorem declined_after_refund_modulo_u64_witness:
  "\<exists>t p. order_decline (with_stripe (\<lambda>_. []) accepting_library offline_env) (Some 1) (OrderId 1) superuser_world = (Inr (), t) \<and>
     stripe_requests (\<lambda>_. []) accepting_library (w_calls t) = [RefundCreate p] \<and> rfp_charge p = ''ch'' \<and>
     rfp_amount p = Some 100"
proof -
  let ?env = "with_stripe (\<lambda>_. []) accepting_library offline_env"
  have "stripe_refund ?env [] x = Inr ()" for x
    by (cases x) (simp add: with_stripe_def accepting_library_def client_refund_def send_def)
  then obtain t where t: "order_decline ?env (Some 1) (OrderId 1) superuser_world = (Inr (), t)"
    using superuser_declines [of ?env] by blast
  have row: "row_by (\<lambda>x. ord_id x = OrderId 1) (orders (w_db superuser_world)) = Some fiat_order"
    "is_fiat (ord_seller_currency fiat_order)" "ord_total_amount fiat_order = Amount 100"
    by (simp_all add: superuser_world_simps buyer_world_simps fiat_order_def sample_order_def is_fiat_def)
  have charge: "charge_of_order (w_db superuser_world) fiat_order c \<Longrightarrow> c = ChargeId ''ch''" for c
    by (auto simp: charge_of_order_def superuser_world_simps buyer_world_def fiat_order_def sample_order_def
        split: if_splits)
  from endsD [OF declined_after_refund_modulo_u64 [OF row(1,2)] t] obtain c a where
    "charge_of_order (w_db superuser_world) fiat_order c" "uint a = 100"
    and sent: "stripe_requests (\<lambda>_. []) accepting_library (w_calls t) = [RefundCreate \<lparr>rfp_charge = charge_inner c,
      rfp_amount = Some a, rfp_metadata = order_metadata (\<lambda>_. []) (OrderId 1)\<rparr>]"
    by (auto simp: row(3) superuser_world_simps stripe_requests_def Let_def)
  moreover from this have "a = 100" and "c = ChargeId ''ch''" using charge by (simp_all add: word_uint_eq_iff)
  ultimately show ?thesis using t by auto
qed

end
