(* ===== verification/SubscriptionJob.thy ===== *)
theory SubscriptionJob
  imports Controller
begin

text \<open>
  \<open>subscriptions/src\<close>: the program beside the server that, at every tick of its timer, counts the products
  of the stores, tells the server how many each store has, and asks it to collect what is due. Its
  requests are those of \<open>call\<close>, as user 1; the catalogue comes from the stores and is a parameter. A
  request may get lost on its way, and so may its answer; that the HTTP client then tries once more
  (\<open>http_client_retries: 1\<close>) is not modelled.
\<close>

section \<open>The job\<close>

datatype moderation_status = MsDraft | MsModeration | MsDecline | MsBlocked | MsPublished

record base_product =
  bp_store_id :: int
  bp_status :: moderation_status

text \<open>The hash map from stores to numbers, as an association list; its entries come in no particular order.
  The count is an \<open>i32\<close>.\<close>

fun count_product :: "base_product \<Rightarrow> (int \<times> i32) list \<Rightarrow> (int \<times> i32) list" where
  "count_product p [] = [(bp_store_id p, 1)]"
| "count_product p ((sid, n) # rest) =
     (if sid = bp_store_id p then (sid, n + 1) # rest else (sid, n) # count_product p rest)"

definition by_store_quantity :: "base_product list \<Rightarrow> (int \<times> i32) list" where
  "by_store_quantity products = fold count_product products []"

definition new_subscriptions_of :: "base_product list \<Rightarrow> new_subscription list" where
  "new_subscriptions_of products =
     map (\<lambda>(sid, n). \<lparr>nsub_store_id = sid, nsub_quantity = n\<rparr>) (by_store_quantity products)"

text \<open>What happens to a request: the server answers it, it never arrives, or the answer does not.\<close>

datatype delivery = Delivered | Lost | AnswerLost

definition deliver :: "delivery \<Rightarrow> ('s, failure, 'a) comp \<Rightarrow> ('s, unit, unit) comp" where
  "deliver d m =
     (case d of
        Delivered \<Rightarrow> map_err (\<lambda>_. ()) (map_ok (\<lambda>_. ()) m)
      | Lost \<Rightarrow> err ()
      | AnswerLost \<Rightarrow> then_res m (\<lambda>_. err ()))"

definition job_request :: "string \<Rightarrow> string option \<Rightarrow> request" where
  "job_request path body = \<lparr>rq_method = Post, rq_path = path, rq_query = None, rq_authorization = Some ''1'',
     rq_timeout = None, rq_stripe_signature = None, rq_sign = None, rq_body = body\<rparr>"

definition job_create_subscriptions ::
  "'d server \<Rightarrow> (new_subscription list \<Rightarrow> string option) \<Rightarrow> delivery \<Rightarrow> new_subscription list \<Rightarrow>
   ('d world, unit, unit) comp" where
  "job_create_subscriptions S encode d xs =
     and_then (ok_or () (encode xs)) (\<lambda>body. deliver d (call S (job_request ''/subscriptions'' (Some body))))"

definition job_pay_subscriptions :: "'d server \<Rightarrow> delivery \<Rightarrow> ('d world, unit, unit) comp" where
  "job_pay_subscriptions S d = deliver d (call S (job_request ''/subscription/payment'' None))"

definition new_subscriptions ::
  "'d server \<Rightarrow> (new_subscription list \<Rightarrow> string option) \<Rightarrow> base_product list option \<Rightarrow> delivery \<Rightarrow>
   ('d world, unit, unit) comp" where
  "new_subscriptions S encode catalog d =
     and_then (ok_or () catalog) (\<lambda>products. job_create_subscriptions S encode d (new_subscriptions_of products))"

text \<open>A tick: a failure of the first request is logged, the second one is made in any case, and its failure
  does not end the stream of ticks.\<close>

definition job_tick ::
  "'d server \<Rightarrow> (new_subscription list \<Rightarrow> string option) \<Rightarrow> base_product list option \<times> delivery \<times> delivery \<Rightarrow>
   ('d world, unit, unit) comp" where
  "job_tick S encode = (\<lambda>(catalog, d1, d2).
     then_res (new_subscriptions S encode catalog d1) (\<lambda>_.
     then_res (job_pay_subscriptions S d2) (\<lambda>_. ok ())))"

section \<open>The counts\<close>

lemma count_product_entries:
  "distinct (map fst m) \<Longrightarrow>
     distinct (map fst (count_product p m)) \<and>
     map_of (count_product p m) =
       (map_of m)(bp_store_id p \<mapsto> (case map_of m (bp_store_id p) of None \<Rightarrow> 1 | Some n \<Rightarrow> n + 1))"
proof (induction p m rule: count_product.induct)
  case (2 p sid n rest)
  have keys: "fst ` set (count_product p rest) = insert (bp_store_id p) (fst ` set rest)"
    by (induction p rest rule: count_product.induct) auto
  show ?case
    using 2 by (cases "sid = bp_store_id p") (auto simp: keys fun_eq_iff)
qed simp

definition products_of :: "int \<Rightarrow> base_product list \<Rightarrow> nat" where
  "products_of sid products = length (filter (\<lambda>p. bp_store_id p = sid) products)"

lemma fold_count_product:
  "distinct (map fst m) \<Longrightarrow>
     distinct (map fst (fold count_product ps m)) \<and>
     map_of (fold count_product ps m) sid =
       (case map_of m sid of
          None \<Rightarrow> if products_of sid ps = 0 then None else Some (of_nat (products_of sid ps))
        | Some n \<Rightarrow> Some (n + of_nat (products_of sid ps)))"
proof (induction ps arbitrary: m)
  case (Cons p ps)
  have "distinct (map fst (count_product p m))"
    and "map_of (count_product p m) =
       (map_of m)(bp_store_id p \<mapsto> (case map_of m (bp_store_id p) of None \<Rightarrow> 1 | Some n \<Rightarrow> n + 1))"
    using count_product_entries [OF Cons.prems, of p] by auto
  with Cons.IH [of "count_product p m"] show ?case
    by (auto simp: products_of_def split: option.splits)
qed (simp add: products_of_def split: option.split)

section \<open>The tables of the job\<close>

text \<open>Everything but the rows, the terms and the payments of the subscriptions stays as it is.\<close>

definition other_tables :: "'d db \<Rightarrow> 'd db" where
  "other_tables d = d\<lparr>subscriptions := [], store_subscriptions := [], subscription_payments := []\<rparr>"

definition same_others :: "'d db \<Rightarrow> 'd db \<Rightarrow> bool" where
  "same_others d e \<longleftrightarrow> other_tables e = other_tables d"

interpretation job_frame: db_relation same_others
  by unfold_locales (simp_all add: same_others_def)

lemma same_others_updates [simp]:
  "same_others d (d\<lparr>subscriptions := x\<rparr>)" "same_others d (d\<lparr>store_subscriptions := y\<rparr>)"
  "same_others d (d\<lparr>subscription_payments := z\<rparr>)"
  by (simp_all add: same_others_def other_tables_def)

abbreviation frames :: "('d world, 'e, 'a) comp \<Rightarrow> bool" where
  "frames m \<equiv> keeps (\<lambda>s t. same_others (w_db s) (w_db t)) m"

lemma frames_statements:
  "frames (subscriptions_create acl n)" "frames (store_subscriptions_create acl m)"
  "frames (subscription_payments_create acl p)" "frames (subscriptions_update_row acl s u)"
  "frames (store_subscriptions_update_row acl ss us)"
proof -
  show "frames (subscriptions_create acl n)"
    unfolding subscriptions_create_def
    by (intro keeps_intros job_frame.keeps_execute_serial)
      (auto simp: insert_subscription_def Let_def split: if_splits)
  show "frames (store_subscriptions_create acl m)"
    unfolding store_subscriptions_create_def
    by (intro keeps_intros job_frame.keeps_execute)
      (auto simp: insert_store_subscription_def Let_def split: if_splits)
  show "frames (subscription_payments_create acl p)"
    unfolding subscription_payments_create_def
    by (intro keeps_intros job_frame.keeps_execute_serial)
      (auto simp: insert_subscription_payment_def Let_def split: if_splits)
  show "frames (subscriptions_update_row acl s u)"
    unfolding subscriptions_update_row_def
    by (intro keeps_intros job_frame.keeps_execute)
      (auto simp: update_subscriptions_where_def Let_def split: if_splits prod.splits)
  show "frames (store_subscriptions_update_row acl ss us)"
    unfolding store_subscriptions_update_row_def
    by (intro keeps_intros job_frame.keeps_update_set) simp
qed

lemma frames_create_all: "frames (create_all scfg user xs)"
  unfolding create_all_def unwrap_def create_subscription_def find_update_or_create_store_subscription_def Let_def
  by (intro keeps_intros frames_statements)

lemma frames_pay_subscriptions: "frames (pay_subscriptions env scfg user)"
proof -
  have "frames (get_main_account env cfg c)" for cfg c
    unfolding get_main_account_def get_account_def internally_def by (intro keeps_intros)
  then have "frames (collect env scfg p)" for p
    unfolding collect_def collect_ture_subscription_def collect_fiat_subscription_def svc_client_def Let_def
    by (cases p) (auto intro!: keeps_intros)
  moreover have "frames (record_payments user fs)" for fs
    unfolding record_payments_def record_payment_def settle_subscription_def
    by (intro keeps_intros frames_statements)
  ultimately show ?thesis
    unfolding pay_subscriptions_def unwrap_def
    by (intro job_frame.keeps_and_then job_frame.keeps_utc_now job_frame.keeps_ok_or job_frame.keeps_if
        job_frame.keeps_err job_frame.keeps_prepare_payments job_frame.keeps_try_map)
qed

section \<open>The job and the server\<close>

lemma job_routes:
  assumes "uuid_texts parse_uuid"
  shows "route_of parse_uuid ''/subscriptions'' = Some Subscriptions"
    and "route_of parse_uuid ''/subscription/payment'' = Some SubscriptionPayment"
proof -
  have patterns: "pattern_of ''^/subscriptions$'' = Some (map Literal ''/subscriptions'')"
    "pattern_of ''^/subscription/payment$'' = Some (map Literal ''/subscription/payment'')"
    by (simp_all add: pattern_of_def)
  show "route_of parse_uuid ''/subscriptions'' = Some Subscriptions"
    by (rule route_of_match [OF assms _ entry_plain [OF patterns(1)]]) (simp add: create_route_parser_def)
  show "route_of parse_uuid ''/subscription/payment'' = Some SubscriptionPayment"
    by (rule route_of_match [OF assms _ entry_plain [OF patterns(2)]]) (simp add: create_route_parser_def)
qed

lemma job_user: "get_user_id (job_request path body) = Some 1"
  by (simp add: get_user_id_def job_request_def parse_i32_def char_digit_def)

lemma job_body: "rq_body (job_request path body) = body"
  by (simp add: job_request_def)

lemma job_calls:
  assumes "uuid_texts (sv_parse_uuid S)"
  shows "call S (job_request ''/subscriptions'' (Some body)) =
      and_then (parse_body (de_create_subscriptions (sv_decoders S)) (job_request ''/subscriptions'' (Some body))) (\<lambda>xs.
        answer classified (\<lambda>_. RespUnit) (create_all (subscription_cfg_of S) (Some 1) xs))"
    and "call S (job_request ''/subscription/payment'' None) =
      answer classified (\<lambda>_. RespUnit) (pay_subscriptions (env_of S) (subscription_cfg_of S) (Some 1))"
  using job_routes [OF assms] job_user
  by (simp_all add: call_def respond_def post_subscriptions_def Let_def job_request_def)

lemma frames_deliver: "frames m \<Longrightarrow> frames (deliver d m)"
  unfolding deliver_def
  by (cases d) (auto intro!: job_frame.keeps_map_err job_frame.keeps_map_ok job_frame.keeps_err
      job_frame.keeps_then_res)

lemma frames_job_tick:
  assumes "uuid_texts (sv_parse_uuid S)"
  shows "frames (job_tick S encode x)"
proof -
  have "frames (call S (job_request ''/subscriptions'' (Some body)))" for body
    unfolding job_calls(1) [OF assms] parse_body_def answer_def
    by (intro job_frame.keeps_and_then job_frame.keeps_ok_or job_frame.keeps_map_err job_frame.keeps_map_ok
        frames_create_all)
  moreover have "frames (call S (job_request ''/subscription/payment'' None))"
    unfolding job_calls(2) [OF assms] answer_def
    by (intro job_frame.keeps_map_err job_frame.keeps_map_ok frames_pay_subscriptions)
  ultimately show ?thesis
    unfolding job_tick_def new_subscriptions_def job_create_subscriptions_def job_pay_subscriptions_def
    by (cases x)
      (auto intro!: job_frame.keeps_then_res job_frame.keeps_and_then job_frame.keeps_ok_or job_frame.keeps_ok
        frames_deliver)
qed

text \<open>C29: A tick of the job whose requests arrive creates the rows of the day and collects what is due, in this
  order and as user 1: the server is told every store with products exactly once, with the number of
  its products.\<close>

theorem job_tick_bills_every_store:
  assumes "uuid_texts (sv_parse_uuid S)" and "encode (new_subscriptions_of products) = Some body"
    and "de_create_subscriptions (sv_decoders S) body = Some (new_subscriptions_of products)"
  shows "job_tick S encode (Some products, Delivered, Delivered) w =
      (Inr (), snd (pay_subscriptions (env_of S) (subscription_cfg_of S) (Some 1)
        (snd (create_all (subscription_cfg_of S) (Some 1) (new_subscriptions_of products) w)))) \<and>
    distinct (map nsub_store_id (new_subscriptions_of products)) \<and>
    (n \<in> set (new_subscriptions_of products) \<longleftrightarrow>
       products_of (nsub_store_id n) products \<noteq> 0 \<and>
       n = \<lparr>nsub_store_id = nsub_store_id n, nsub_quantity = of_nat (products_of (nsub_store_id n) products)\<rparr>)"
proof (intro conjI)
  show "job_tick S encode (Some products, Delivered, Delivered) w =
      (Inr (), snd (pay_subscriptions (env_of S) (subscription_cfg_of S) (Some 1)
        (snd (create_all (subscription_cfg_of S) (Some 1) (new_subscriptions_of products) w))))"
    using assms(2,3)
    by (simp add: job_tick_def new_subscriptions_def job_create_subscriptions_def job_pay_subscriptions_def
        job_calls [OF assms(1)] deliver_def answer_def parse_body_def then_res_def map_ok_def map_err_def
        job_body ok_def split: prod.split)
  note entries = fold_count_product [of "[]" products, folded by_store_quantity_def]
  show "distinct (map nsub_store_id (new_subscriptions_of products))"
    using entries by (simp add: new_subscriptions_of_def comp_def case_prod_beta')
  have "(sid, q) \<in> set (by_store_quantity products) \<longleftrightarrow> products_of sid products \<noteq> 0 \<and> q = of_nat (products_of sid products)" for sid q
    using entries [of sid] by (auto simp: map_of_eq_Some_iff [symmetric] split: if_splits)
  then show "n \<in> set (new_subscriptions_of products) \<longleftrightarrow>
       products_of (nsub_store_id n) products \<noteq> 0 \<and>
       n = \<lparr>nsub_store_id = nsub_store_id n, nsub_quantity = of_nat (products_of (nsub_store_id n) products)\<rparr>"
    by (cases n) (auto simp: new_subscriptions_of_def image_iff split: prod.splits)
qed

text \<open>C28: The job touches nothing but the subscriptions: after any number of ticks, whatever the stores, the gateways
  and Stripe answer, whichever requests and answers get lost and whichever statements fail, every
  other table is as before.\<close>

theorem job_confined:
  assumes "uuid_texts (sv_parse_uuid S)"
  shows "other_tables (w_db (fold (\<lambda>x v. snd (job_tick S encode x v)) ticks w)) = other_tables (w_db w)"
proof (induction ticks arbitrary: w)
  case (Cons x ticks)
  have "same_others (w_db w) (w_db (snd (job_tick S encode x w)))"
    using frames_job_tick [OF assms, of encode x] by (simp add: keeps_def)
  with Cons.IH [of "snd (job_tick S encode x w)"] show ?case by (simp add: same_others_def)
qed simp

text \<open>Two stores, one of them with two products; the server reads every body as the list of both.\<close>

definition some_products :: "base_product list" where
  "some_products = [\<lparr>bp_store_id = 1, bp_status = MsPublished\<rparr>, \<lparr>bp_store_id = 2, bp_status = MsDraft\<rparr>,
     \<lparr>bp_store_id = 1, bp_status = MsPublished\<rparr>]"

definition job_server :: "rat server" where
  "job_server = test_server\<lparr>sv_decoders := no_decoders\<lparr>de_create_subscriptions :=
     (\<lambda>_. Some (new_subscriptions_of some_products))\<rparr>\<rparr>"

lemma job_server_uuids: "uuid_texts (sv_parse_uuid job_server)"
  by (simp add: job_server_def test_server_def no_uuids_law)

theorem job_tick_bills_every_store_witness:
  "\<lparr>nsub_store_id = 1, nsub_quantity = 2\<rparr> \<in> set (new_subscriptions_of some_products) \<and>
   fst (job_tick job_server (\<lambda>_. Some ''x'') (Some some_products, Delivered, Delivered) empty_world) = Inr ()"
proof -
  have "de_create_subscriptions (sv_decoders job_server) ''x'' = Some (new_subscriptions_of some_products)"
    by (simp add: job_server_def)
  from job_tick_bills_every_store [OF job_server_uuids _ this, of "\<lambda>_. Some ''x''" empty_world
      "\<lparr>nsub_store_id = 1, nsub_quantity = 2\<rparr>"]
  show ?thesis by (simp add: products_of_def some_products_def)
qed

theorem job_confined_witness:
  "other_tables (w_db (fold (\<lambda>x v. snd (job_tick job_server (\<lambda>_. Some ''x'') x v))
     [(Some some_products, AnswerLost, Delivered), (None, Lost, Lost)] role_world)) = other_tables (w_db role_world)"
  by (rule job_confined [OF job_server_uuids])

end
