(* ===== verification/Startup.thy ===== *)
theory Startup
  imports Controller EventHandling
begin

text \<open>
  \<open>start_server\<close> of \<open>lib.rs\<close>: the payments client and the accounts are set up, the system accounts and the
  pools are created, then the event loop and the HTTP server run. A panic ends the start. The reactor,
  the connection pools and the socket are libraries.
\<close>

section \<open>Definitions\<close>

text \<open>A payments client that cannot be made from the configuration is a panic here, also when the gateway in
  memory replaces it afterwards.\<close>

definition start_context ::
  "(payments_section \<Rightarrow> bool) \<Rightarrow> server_config \<Rightarrow> unit + (gateway_choice \<times> account_config) option" where
  "start_context client_ok c =
     (case (case conf_payments c of
              None \<Rightarrow> Inr None
            | Some p \<Rightarrow>
                if client_ok p
                then Inr (Some (GatewayClient, account_service_new c (pays_min_pooled_accounts p) (pays_accounts p)))
                else Inl ()) of
        Inl e \<Rightarrow> Inl e
      | Inr ctx \<Rightarrow> Inr
          (if mock_use_mock (conf_payments_mock c)
           then Some (MockClient, account_service_new c (mock_min_pooled_accounts (conf_payments_mock c))
             (mock_accounts (conf_payments_mock c)))
           else ctx))"

definition env_with :: "'d server \<Rightarrow> (gateway_choice \<times> account_config) option \<Rightarrow> 'd env" where
  "env_with S ctx = sv_env S (case ctx of None \<Rightarrow> GatewayClient | Some (k, _) \<Rightarrow> k)"

definition init_accounts ::
  "'d server \<Rightarrow> (gateway_choice \<times> account_config) option \<Rightarrow> ('d world, unit, unit) comp" where
  "init_accounts S ctx =
     (case ctx of
        None \<Rightarrow> ok ()
      | Some (_, a) \<Rightarrow>
          and_then (map_err (\<lambda>_. ()) (init_system_accounts (env_with S ctx) a)) (\<lambda>_.
          map_err (\<lambda>_. ()) (init_account_pools (sv_hyphenated S) (env_with S ctx) a)))"

text \<open>The result is what the event loop runs with.\<close>

definition start_server ::
  "'d server \<Rightarrow> event_store_config \<Rightarrow> (ext_call list \<Rightarrow> bool) \<Rightarrow> ('d world, unit, handler_config) comp" where
  "start_server S es task_first =
     and_then (of_result (start_context (sv_client_ok S) (sv_config S))) (\<lambda>ctx.
     and_then (init_accounts S ctx) (\<lambda>_.
     ok \<lparr>hc_service = service_config_of (sv_config S) ctx, hc_events = es, hc_task_first = task_first\<rparr>))"

section \<open>The start and the requests agree\<close>

text \<open>The requests make the context anew; it is the one of the start.\<close>

lemma start_context_agrees: "start_context client_ok c = Inr ctx \<Longrightarrow> payments_context client_ok c = ctx"
  by (auto simp: start_context_def payments_context_def split: option.splits if_splits bool.splits)

section \<open>Creating accounts\<close>

definition accepts_accounts :: "'d env \<Rightarrow> bool" where
  "accepts_accounts env \<longleftrightarrow> (\<forall>calls q. \<not> isl (payments_create_account env calls q))"

abbreviation account_ids :: "'d world \<Rightarrow> account_id set" where
  "account_ids w \<equiv> acc_id ` set (accounts (w_db w))"

text \<open>The next \<open>n\<close> identifiers that will be drawn are distinct and none of the given ones.\<close>

definition fresh_uuids :: "nat \<Rightarrow> account_id set \<Rightarrow> 'd world \<Rightarrow> bool" where
  "fresh_uuids n ids w \<longleftrightarrow> inj_on (w_uuids w) {..<n} \<and> (\<forall>i\<in>{..<n}. AccountId (w_uuids w i) \<notin> ids)"

lemma fresh_uuids_fewer: "fresh_uuids n ids w \<Longrightarrow> m \<le> n \<Longrightarrow> fresh_uuids m ids w"
  by (auto simp: fresh_uuids_def inj_on_def)

lemma create_account_works:
  assumes "quiet w" and "accepts_accounts env" and "AccountId u \<notin> account_ids w"
  shows "\<exists>a t. internally (create_account env cfg u nm c pooled) w = (Inr a, t) \<and> quiet t \<and>
    w_uuids t = w_uuids w \<and> accounts (w_db t) = accounts (w_db w) @ [a] \<and> acc_id a = AccountId u \<and>
    acc_is_pooled a = pooled \<and> acc_currency a = c"
proof -
  let ?q = "\<lparr>ca_id = u, ca_currency = c, ca_name = nm, ca_callback_url = payments_callback_url cfg\<rparr>"
  have "\<not> isl (payments_create_account env (w_calls w) ?q)"
    using assms(2) by (simp add: accepts_accounts_def)
  then obtain acc where "payments_create_account env (w_calls w) ?q = Inr acc"
    by (cases "payments_create_account env (w_calls w) ?q") auto
  moreover have "\<forall>a\<in>set (accounts (w_db w)). acc_id a \<noteq> AccountId u"
    using assms(3) by (metis imageI)
  ultimately show ?thesis
    using assms(1)
    by (simp add: internally_def create_account_def create_account_happy_def svc_client_def call_client_def svc_def
        accounts_create_def run_defs execute_quiet insert_account_def Let_def)
qed

lemma system_accounts_made:
  assumes "quiet w" and "accepts_accounts env" and "distinct (map sa_id as)" and "sa_id ` set as \<inter> account_ids w = {}"
  shows "\<exists>r t. try_map (\<lambda>a. internally (create_account env cfg (account_uuid (sa_id a)) (system_account_display a)
      (sa_currency a) False)) as w = (Inr r, t) \<and> quiet t \<and> w_uuids t = w_uuids w \<and>
    account_ids t = account_ids w \<union> sa_id ` set as \<and> (\<forall>c. pooled_accounts (w_db t) c = pooled_accounts (w_db w) c)"
  using assms
proof (induction as arbitrary: w)
  case (Cons a as)
  have id: "AccountId (account_uuid (sa_id a)) = sa_id a" by (cases "sa_id a") simp
  then have "AccountId (account_uuid (sa_id a)) \<notin> account_ids w" using Cons.prems(4) by auto
  from create_account_works [OF Cons.prems(1,2) this, of cfg "system_account_display a" "sa_currency a" False]
  obtain x u where x: "internally (create_account env cfg (account_uuid (sa_id a)) (system_account_display a)
      (sa_currency a) False) w = (Inr x, u)" "quiet u" "w_uuids u = w_uuids w"
    "accounts (w_db u) = accounts (w_db w) @ [x]" "acc_id x = sa_id a" "\<not> acc_is_pooled x"
    by (auto simp: id)
  have ids: "account_ids u = insert (sa_id a) (account_ids w)" using x(4,5) by auto
  then have "sa_id ` set as \<inter> account_ids u = {}" using Cons.prems(3,4) by auto
  from Cons.IH [OF x(2) Cons.prems(2) _ this] Cons.prems(3) obtain r t where
    r: "try_map (\<lambda>a. internally (create_account env cfg (account_uuid (sa_id a)) (system_account_display a)
      (sa_currency a) False)) as u = (Inr r, t)" "quiet t" "w_uuids t = w_uuids u"
    "account_ids t = account_ids u \<union> sa_id ` set as" "\<forall>c. pooled_accounts (w_db t) c = pooled_accounts (w_db u) c"
    by auto
  have "pooled_accounts (w_db u) c = pooled_accounts (w_db w) c" for c
    using x(4,6) by (simp add: pooled_accounts_def)
  with r x ids show ?case by auto
qed simp

lemma create_pooled_works:
  assumes "quiet w" and "accepts_accounts env" and "fresh_uuids (Suc n) (account_ids w) w"
  shows "\<exists>a t. internally (create_pooled_account h env cfg c) w = (Inr a, t) \<and> quiet t \<and>
    fresh_uuids n (account_ids t) t \<and> account_ids w \<subseteq> account_ids t"
proof -
  let ?w = "w\<lparr>w_uuids := (\<lambda>n. w_uuids w (Suc n))\<rparr>" and ?u = "w_uuids w 0"
  have "quiet ?w" and "AccountId ?u \<notin> account_ids ?w"
    using assms by (simp_all add: fresh_uuids_def quiet_def)
  from create_account_works [OF this(1) assms(2) this(2), of cfg "h ?u" c True] obtain a t where
    run: "internally (create_account env cfg ?u (h ?u) c True) ?w = (Inr a, t)" "quiet t"
    and t: "w_uuids t = (\<lambda>n. w_uuids w (Suc n))" "accounts (w_db t) = accounts (w_db w) @ [a]" "acc_id a = AccountId ?u"
    by auto
  have "inj_on (w_uuids t) {..<n}"
    using assms(3) t(1) by (auto simp: fresh_uuids_def inj_on_def)
  moreover have "w_uuids w (Suc i) \<noteq> w_uuids w 0" if "i < n" for i
    using assms(3) that inj_onD [of "w_uuids w" "{..<Suc n}" "Suc i" 0] by (auto simp: fresh_uuids_def)
  ultimately have "fresh_uuids n (account_ids t) t"
    using assms(3) t by (simp add: fresh_uuids_def)
  moreover have "internally (create_pooled_account h env cfg c) w = (Inr a, t)"
    using run(1) by (simp add: create_pooled_account_def internally_def map_err_def)
  ultimately show ?thesis using run(2) t(2) by auto
qed

lemma pools_made:
  assumes "quiet w" and "accepts_accounts env" and "fresh_uuids (length cs) (account_ids w) w"
  shows "\<exists>r t. try_map (\<lambda>c. internally (create_pooled_account h env cfg c)) cs w = (Inr r, t) \<and>
    account_ids w \<subseteq> account_ids t"
  using assms
proof (induction cs arbitrary: w)
  case (Cons c cs)
  obtain a u where a: "internally (create_pooled_account h env cfg c) w = (Inr a, u)" "quiet u"
    "fresh_uuids (length cs) (account_ids u) u" "account_ids w \<subseteq> account_ids u"
    using create_pooled_works [OF Cons.prems(1,2), of "length cs" h cfg c] Cons.prems(3) by auto
  from Cons.IH [OF a(2) Cons.prems(2) a(3)] obtain r t where
    "try_map (\<lambda>c. internally (create_pooled_account h env cfg c)) cs u = (Inr r, t)" "account_ids u \<subseteq> account_ids t"
    by auto
  with a show ?case by auto
qed simp

text \<open>At most the minimum is missing in each of the three currencies.\<close>

lemma length_to_create: "length (accounts_to_create m n) \<le> 3 * m"
  by (simp add: accounts_to_create_def)

lemma init_system_accounts_works:
  assumes "quiet w" and "accepts_accounts env" and "distinct (map sa_id (system_accounts cfg))"
  shows "\<exists>t. init_system_accounts env cfg w = (Inr (), t) \<and> quiet t \<and> w_uuids t = w_uuids w \<and>
    account_ids t = account_ids w \<union> sa_id ` set (system_accounts cfg) \<and>
    (\<forall>c. pooled_accounts (w_db t) c = pooled_accounts (w_db w) c)"
proof -
  let ?ids = "map sa_id (system_accounts cfg)"
  let ?found = "filter (\<lambda>a. acc_id a \<in> set ?ids) (accounts (w_db w))"
  let ?rest = "filter (\<lambda>a. \<not> list_ex (\<lambda>x. acc_id x = sa_id a) ?found) (system_accounts cfg)"
  have get: "pool (svc (accounts_get_many SystemACL ?ids)) w = (Inr ?found, w)"
    using assms(1) by (simp add: svc_def accounts_get_many_def run_defs)
  have d: "distinct (map sa_id ?rest)" using assms(3) by (rule distinct_map_filter)
  have n: "sa_id ` set ?rest \<inter> account_ids w = {}" by (force simp: list_ex_iff)
  from system_accounts_made [OF assms(1,2) d n, of cfg] obtain r t where
    r: "try_map (\<lambda>a. internally (create_account env cfg (account_uuid (sa_id a))
      (system_account_display a) (sa_currency a) False)) ?rest w = (Inr r, t)" and t: "quiet t" "w_uuids t = w_uuids w"
    "account_ids t = account_ids w \<union> sa_id ` set ?rest" "\<forall>c. pooled_accounts (w_db t) c = pooled_accounts (w_db w) c"
    by (elim exE conjE) (rule that)
  have ids: "account_ids w \<union> sa_id ` set ?rest = account_ids w \<union> sa_id ` set (system_accounts cfg)"
    by (auto simp: list_ex_iff image_iff) metis
  have "init_system_accounts env cfg w = (Inr (), t)"
    unfolding init_system_accounts_def for_each_def and_then_def get map_ok_def by (simp only: prod.case sum.case r) simp
  with t show ?thesis unfolding ids by (intro exI [of _ t] conjI)
qed

lemma init_account_pools_works:
  assumes "quiet w" and "accepts_accounts env" and "fresh_uuids (3 * min_accounts_in_pool cfg) (account_ids w) w"
  shows "\<exists>t. init_account_pools h env cfg w = (Inr (), t) \<and> account_ids w \<subseteq> account_ids t"
proof -
  have count: "pool (svc (accounts_count SystemACL)) w = (Inr (count_accounts (accounts (w_db w))), w)"
    using assms(1) by (simp add: svc_def accounts_count_def run_defs)
  let ?cs = "accounts_to_create (min_accounts_in_pool cfg) (count_accounts (accounts (w_db w)))"
  have "fresh_uuids (length ?cs) (account_ids w) w"
    using assms(3) length_to_create by (rule fresh_uuids_fewer)
  from pools_made [OF assms(1,2) this, of h cfg] show ?thesis
    unfolding init_account_pools_def for_each_def by (auto simp: count)
qed

section \<open>The property\<close>

text \<open>C26: The server starts when the database, the connections and the gateway work and the identifiers it draws
  are new: afterwards every system account of the configuration is in the table, every currency has
  its minimum of pooled accounts and no more than were there before or are needed, no account has gone, and
  the event loop runs with the accounts the requests will use.\<close>

theorem server_starts_ready:
  assumes "start_context (sv_client_ok S) (sv_config S) = Inr (Some (k, a))"
    and "quiet w" and "accepts_accounts (env_with S (Some (k, a)))" and "distinct (map sa_id (system_accounts a))"
    and "fresh_uuids (3 * min_accounts_in_pool a) (account_ids w \<union> sa_id ` set (system_accounts a)) w"
  shows "\<exists>h t. start_server S es task_first w = (Inr h, t) \<and> hc_service h = cfg_of S \<and>
    cfg_ture (hc_service h) \<and> cfg_accounts (hc_service h) = a \<and>
    account_ids w \<union> sa_id ` set (system_accounts a) \<subseteq> account_ids t \<and>
    (\<forall>c. pooled_accounts (w_db t) c = max (min_accounts_in_pool a) (pooled_accounts (w_db w) c))"
proof -
  let ?env = "env_with S (Some (k, a))"
  obtain u where u: "init_system_accounts ?env a w = (Inr (), u)" "quiet u" "w_uuids u = w_uuids w"
    "account_ids u = account_ids w \<union> sa_id ` set (system_accounts a)"
    "\<forall>c. pooled_accounts (w_db u) c = pooled_accounts (w_db w) c"
    using init_system_accounts_works [OF assms(2-4)] by blast
  have "fresh_uuids (3 * min_accounts_in_pool a) (account_ids u) u"
    using assms(5) u(3,4) by (simp add: fresh_uuids_def)
  then obtain t where t: "init_account_pools (sv_hyphenated S) ?env a u = (Inr (), t)" "account_ids u \<subseteq> account_ids t"
    using init_account_pools_works [OF u(2) assms(3)] by blast
  have "init_accounts S (Some (k, a)) w = (Inr (), t)"
    by (simp add: init_accounts_def map_err_def u(1) t(1))
  then have run: "start_server S es task_first w = (Inr \<lparr>hc_service = service_config_of (sv_config S) (Some (k, a)),
      hc_events = es, hc_task_first = task_first\<rparr>, t)"
    by (simp add: start_server_def assms(1) of_result_def)
  have "cfg_of S = service_config_of (sv_config S) (Some (k, a))"
    using start_context_agrees [OF assms(1)] by (simp add: context_of_def)
  with run t u init_account_pools_fills [OF t(1)] show ?thesis
    by (auto simp: service_config_of_def accounts_of_def)
qed

text \<open>A gateway in memory that creates accounts, and an empty database.\<close>

definition starting_server :: "rat server" where
  "starting_server = test_server\<lparr>sv_env := (\<lambda>_. gateway_env)\<rparr>"

definition starting_world :: "rat world" where
  "starting_world = empty_world\<lparr>w_uuids := (\<lambda>n. of_nat n + 10)\<rparr>"

definition no_timing :: event_store_config where
  "no_timing = \<lparr>max_processing_attempts = 3, stuck_threshold_sec = 60\<rparr>"

theorem server_starts_ready_witness:
  "\<exists>h t. start_server starting_server no_timing (\<lambda>_. True) starting_world = (Inr h, t) \<and>
     AccountId 4 \<in> account_ids t \<and> 1 \<le> pooled_accounts (w_db t) TureEth"
proof -
  let ?a = "account_service_new test_config 1 some_accounts"
  have start: "start_context (sv_client_ok starting_server) (sv_config starting_server) = Inr (Some (MockClient, ?a))"
    by (simp add: starting_server_def test_server_def start_context_def test_config_def)
  have quiet: "quiet starting_world"
    by (simp add: starting_world_def)
  have accepts: "accepts_accounts (env_with starting_server (Some (MockClient, ?a)))"
    by (simp add: accepts_accounts_def env_with_def starting_server_def gateway_env_def)
  have ids: "distinct (map sa_id (system_accounts ?a))"
    by (simp add: account_service_new_def system_accounts_of_config_def some_accounts_def)
  have three: "{..<3 * min_accounts_in_pool ?a} = {0, Suc 0, 2}"
    by (auto simp: account_service_new_def)
  have uuids: "w_uuids starting_world 0 = 10" "w_uuids starting_world (Suc 0) = 11" "w_uuids starting_world 2 = 12"
    by (simp_all add: starting_world_def)
  have old: "account_ids starting_world \<union> sa_id ` set (system_accounts ?a) =
      {AccountId 1, AccountId 2, AccountId 3, AccountId 4}"
    by (simp add: account_service_new_def system_accounts_of_config_def some_accounts_def starting_world_def
        empty_world_def initial_world_def empty_db_def)
  have fresh: "fresh_uuids (3 * min_accounts_in_pool ?a)
      (account_ids starting_world \<union> sa_id ` set (system_accounts ?a)) starting_world"
    unfolding fresh_uuids_def three old lessThan_iff [symmetric] by (simp add: uuids)
  from server_starts_ready [OF start quiet accepts ids fresh, of no_timing "\<lambda>_. True"] obtain h t where
    run: "start_server starting_server no_timing (\<lambda>_. True) starting_world = (Inr h, t)"
    and t: "account_ids starting_world \<union> sa_id ` set (system_accounts ?a) \<subseteq> account_ids t"
      "\<forall>c. pooled_accounts (w_db t) c = max (min_accounts_in_pool ?a) (pooled_accounts (w_db starting_world) c)"
    by (elim exE conjE) (rule that)
  have "AccountId 4 \<in> sa_id ` set (system_accounts ?a)" and "min_accounts_in_pool ?a = 1"
    by (simp_all add: account_service_new_def system_accounts_of_config_def some_accounts_def)
  with t have "AccountId 4 \<in> account_ids t \<and> 1 \<le> pooled_accounts (w_db t) TureEth" by auto
  with run show ?thesis by blast
qed

end
