(* ===== verification/TableFrames.thy ===== *)
theory TableFrames
  imports ReadOnly PayoutService AccountService LegacyInvoices SubscriptionPayments BillingInfoService
    EventHandling
begin

text \<open>
  Which tables an operation touches. A relation that does not depend on some tables is kept by the operations
  that touch only those; the locale states it once for all operations that write.
\<close>

datatype db_table =
    TAccounts | TInvoices | TOrders | TRates | TFees | TIntents | TPayouts | TEvents | TRoles | TCustomers
  | TSubscriptions | TDetails | TLegacy

abbreviation keeps_db :: "('d db \<Rightarrow> 'd db \<Rightarrow> bool) \<Rightarrow> ('d world, 'e, 'a) comp \<Rightarrow> bool" where
  "keeps_db P m \<equiv> keeps (\<lambda>s t. P (w_db s) (w_db t)) m"

locale table_frame = db_relation P for P :: "'d db \<Rightarrow> 'd db \<Rightarrow> bool" +
  fixes ignored :: "db_table set"
  assumes P_accounts: "TAccounts \<in> ignored \<Longrightarrow> P d (d\<lparr>accounts := r1\<rparr>)"
    and P_invoices: "TInvoices \<in> ignored \<Longrightarrow> P d (d\<lparr>invoices_v2 := r2\<rparr>)"
      "TInvoices \<in> ignored \<Longrightarrow> P d (d\<lparr>amounts_received := r3\<rparr>)"
    and P_orders: "TOrders \<in> ignored \<Longrightarrow> P d (d\<lparr>orders := r4\<rparr>)"
    and P_rates: "TRates \<in> ignored \<Longrightarrow> P d (d\<lparr>order_exchange_rates := r5\<rparr>)"
    and P_fees: "TFees \<in> ignored \<Longrightarrow> P d (d\<lparr>fees := r6\<rparr>)"
    and P_intents: "TIntents \<in> ignored \<Longrightarrow> P d (d\<lparr>payment_intents := r7\<rparr>)"
      "TIntents \<in> ignored \<Longrightarrow> P d (d\<lparr>payment_intents_invoices := r8\<rparr>)"
      "TIntents \<in> ignored \<Longrightarrow> P d (d\<lparr>payment_intents_fees := r9\<rparr>)"
    and P_payouts: "TPayouts \<in> ignored \<Longrightarrow> P d (d\<lparr>payouts := r10\<rparr>)"
      "TPayouts \<in> ignored \<Longrightarrow> P d (d\<lparr>order_payouts := r11\<rparr>)"
    and P_events: "TEvents \<in> ignored \<Longrightarrow> P d (d\<lparr>event_store := r12\<rparr>)"
    and P_roles: "TRoles \<in> ignored \<Longrightarrow> P d (d\<lparr>roles := r13\<rparr>)"
    and P_customers: "TCustomers \<in> ignored \<Longrightarrow> P d (set_customers r14 d)"
    and P_subscriptions: "TSubscriptions \<in> ignored \<Longrightarrow> P d (d\<lparr>subscriptions := r15\<rparr>)"
      "TSubscriptions \<in> ignored \<Longrightarrow> P d (d\<lparr>store_subscriptions := r16\<rparr>)"
      "TSubscriptions \<in> ignored \<Longrightarrow> P d (d\<lparr>subscription_payments := r17\<rparr>)"
    and P_details: "TDetails \<in> ignored \<Longrightarrow> P d (d\<lparr>store_billing_types := r18\<rparr>)"
      "TDetails \<in> ignored \<Longrightarrow> P d (d\<lparr>international_billing_infos := r19\<rparr>)"
      "TDetails \<in> ignored \<Longrightarrow> P d (d\<lparr>russia_billing_infos := r20\<rparr>)"
    and P_legacy: "TLegacy \<in> ignored \<Longrightarrow> P d (set_invoices_v1 r21 d)"
      "TLegacy \<in> ignored \<Longrightarrow> P d (set_orders_info r22 d)"

context table_frame
begin

lemmas P_tables = P_accounts P_invoices P_orders P_rates P_fees P_intents P_payouts P_events P_roles
  P_customers P_subscriptions P_details P_legacy

lemma P_two: "P d e \<Longrightarrow> P e f \<Longrightarrow> P d f"
  by (rule P_trans)

section \<open>Accounts and invoices\<close>

lemma frame_accounts_create: "TAccounts \<in> ignored \<Longrightarrow> keeps_db P (accounts_create acl na)"
  unfolding accounts_create_def
  by (intro keeps_intros keeps_execute) (auto simp: insert_account_def Let_def P_tables split: if_splits)

lemma frame_accounts_delete: "TAccounts \<in> ignored \<Longrightarrow> TInvoices \<in> ignored \<Longrightarrow> keeps_db P (accounts_delete acl aid)"
  unfolding accounts_delete_def
  by (intro keeps_intros keeps_execute)
    (auto simp: delete_accounts_where_def Let_def split: prod.splits intro: P_two [OF P_accounts P_invoices(1)])

lemma frame_checked_update: "TInvoices \<in> ignored \<Longrightarrow> keeps_db P (checked_update acl iid g)"
  unfolding checked_update_def update_invoice_def
  by (intro keeps_intros keeps_update_where P_invoices)

lemma frame_invoices:
  assumes "TInvoices \<in> ignored"
  shows "keeps_db P (invoices_create acl ni)" "keeps_db P (increase_amount_captured acl aid tx amount)"
    "keeps_db P (set_amount_paid acl iid paid)" "keeps_db P (set_amount_paid_fiat acl iid paid)"
    "keeps_db P (unlink_account acl iid)"
proof -
  show "keeps_db P (invoices_create acl ni)"
    unfolding invoices_create_def
    by (intro keeps_intros keeps_execute) (auto simp: insert_invoice_def Let_def P_tables assms split: if_splits)
  show "keeps_db P (increase_amount_captured acl aid tx amount)"
    unfolding increase_amount_captured_def increase_read_def increase_write_def update_invoice_def
    by (intro keeps_intros keeps_execute keeps_update_where)
      (auto simp: insert_amount_received_def Let_def P_tables assms split: if_splits)
  show "keeps_db P (set_amount_paid acl iid paid)" "keeps_db P (set_amount_paid_fiat acl iid paid)"
    "keeps_db P (unlink_account acl iid)"
    unfolding set_amount_paid_def set_amount_paid_fiat_def unlink_account_def
    by (rule frame_checked_update [OF assms])+
qed

section \<open>Orders, rates and fees\<close>

lemma frame_orders:
  assumes "TOrders \<in> ignored"
  shows "keeps_db P (orders_create acl no)" "keeps_db P (update_state acl oid st)"
    "keeps_db P (update_stripe_fee acl oid amount)"
proof -
  show "keeps_db P (orders_create acl no)"
    unfolding orders_create_def
    by (intro keeps_intros keeps_execute) (auto simp: insert_order_def Let_def P_tables assms split: if_splits)
  show "keeps_db P (update_state acl oid st)" "keeps_db P (update_stripe_fee acl oid amount)"
    unfolding update_state_def update_stripe_fee_def update_order_def
    by (intro keeps_intros keeps_update_where P_orders assms)+
qed

lemma P_delete_orders:
  assumes "{TOrders, TFees, TRates, TPayouts} \<subseteq> ignored" and "delete_orders_where p now d = Inr (gone, e)"
  shows "P d e"
proof -
  obtain a b c x where e: "e = d\<lparr>orders := a\<rparr>\<lparr>fees := b\<rparr>\<lparr>order_exchange_rates := c\<rparr>\<lparr>order_payouts := x\<rparr>"
    using assms(2) by (auto simp: delete_orders_where_def Let_def split: prod.splits if_splits)
  show ?thesis
    unfolding e using assms(1)
    by (intro P_two [OF P_two [OF P_two [OF P_orders P_fees] P_rates] P_payouts(2)]) simp_all
qed

lemma frame_orders_delete:
  "{TOrders, TFees, TRates, TPayouts} \<subseteq> ignored \<Longrightarrow> keeps_db P (orders_delete_by_invoice_id acl iid)"
  unfolding orders_delete_by_invoice_id_def
  by (intro keeps_intros keeps_execute) (rule P_delete_orders)

lemma frame_invoices_delete:
  assumes "{TInvoices, TOrders, TFees, TRates, TPayouts} \<subseteq> ignored"
  shows "keeps_db P (invoices_delete acl iid)"
proof -
  have "P d e" if del: "delete_invoices_where p now d = Inr (gone, e)" for p now d gone e
  proof -
    obtain q x d' a b where "delete_orders_where q now d = Inr (x, d')"
      and "e = d'\<lparr>invoices_v2 := a\<rparr>\<lparr>amounts_received := b\<rparr>"
      using del by (auto simp: delete_invoices_where_def Let_def split: prod.splits if_splits sum.splits)
    with P_delete_orders [of q now d x d'] assms show ?thesis
      by (auto intro: P_two [OF P_two [OF _ P_invoices(1)] P_invoices(2)])
  qed
  then show ?thesis
    unfolding invoices_delete_def by (intro keeps_intros keeps_execute)
qed

lemma frame_rates:
  assumes "TRates \<in> ignored"
  shows "keeps_db P (add_new_active_rate acl nr)" "keeps_db P (delete_by_order_id acl oid)"
proof -
  show "keeps_db P (add_new_active_rate acl nr)"
    unfolding add_new_active_rate_def
    by (intro keeps_intros keeps_execute_serial keeps_update_where)
      (auto simp: insert_rate_def Let_def P_tables assms split: if_splits)
  show "keeps_db P (delete_by_order_id acl oid)"
    unfolding delete_by_order_id_def by (intro keeps_intros keeps_delete_where P_rates assms)
qed

lemma frame_fees:
  assumes "TFees \<in> ignored"
  shows "keeps_db P (fees_create acl nf)" "keeps_db P (fees_update_row acl fid uf)"
proof -
  show "keeps_db P (fees_create acl nf)"
    unfolding fees_create_def
    by (intro keeps_intros keeps_execute_serial) (auto simp: insert_fee_def Let_def P_tables assms split: if_splits)
  show "keeps_db P (fees_update_row acl fid uf)"
    unfolding fees_update_row_def by (intro keeps_intros keeps_update_where P_fees assms)
qed

lemma frame_intents:
  assumes "TIntents \<in> ignored"
  shows "keeps_db P (pis_create acl npi)" "keeps_db P (pis_update acl pid upi)" "keeps_db P (pis_delete acl pid)"
    "keeps_db P (piis_create acl npii)" "keeps_db P (pifs_create acl npif)"
proof -
  show "keeps_db P (pis_create acl npi)" "keeps_db P (pis_update acl pid upi)" "keeps_db P (pis_delete acl pid)"
    unfolding pis_create_def pis_update_def pis_delete_def
    by ((intro keeps_intros keeps_execute keeps_update_where);
        (auto simp: insert_payment_intent_def delete_payment_intents_where_def Let_def P_tables assms
          split: if_splits prod.splits))+
  show "keeps_db P (piis_create acl npii)" "keeps_db P (pifs_create acl npif)"
    unfolding piis_create_def pifs_create_def
    by ((intro keeps_intros keeps_execute_serial);
        (auto simp: insert_payment_intent_invoice_def insert_payment_intent_fee_def Let_def P_tables assms
          split: if_splits))+
qed

section \<open>Payouts, events and roles\<close>

lemma P_insert_order_payouts:
  "TPayouts \<in> ignored \<Longrightarrow> insert_order_payouts_from ps n d = Inr (rs, e) \<Longrightarrow> P d e"
proof (induction ps n d arbitrary: rs rule: insert_order_payouts_from.induct)
  case (2 p ps n d)
  then show ?case
    by (auto simp: Let_def split: if_splits sum.splits intro: P_two [OF P_payouts(2)])
qed (simp add: P_refl)

lemma frame_payouts:
  assumes "TPayouts \<in> ignored"
  shows "keeps_db P (payouts_create acl p)" "keeps_db P (mark_as_completed acl poid)"
proof -
  have "keeps_db P (insert_order_payouts ps)" for ps
    unfolding insert_order_payouts_def
    by (intro keeps_and_then keeps_get_state keeps_execute)
      (auto simp: keeps_def modify_def P_refl intro: P_insert_order_payouts [OF assms])
  moreover have "keeps_db P (execute (insert_payout raw))" for raw
    by (rule keeps_execute) (auto simp: insert_payout_def P_tables assms split: if_splits)
  ultimately show "keeps_db P (payouts_create acl p)"
    unfolding payouts_create_def Let_def by (intro keeps_intros)
  show "keeps_db P (mark_as_completed acl poid)"
    unfolding mark_as_completed_def complete_payouts_def
    by (intro keeps_intros keeps_update_where P_payouts assms)
qed

lemma frame_event_queue:
  assumes "TEvents \<in> ignored"
  shows "keeps_db P (add_event ev)" "keeps_db P (add_scheduled_event ev t0)"
    "keeps_db P (next_event_entry cfg)" "keeps_db P (settle_event cfg eid r)"
proof -
  have result: "keeps_db P (entry_result row)" for row
    unfolding entry_result_def by (intro keeps_intros)
  show "keeps_db P (add_event ev)" "keeps_db P (add_scheduled_event ev t0)"
    unfolding add_event_def add_scheduled_event_def
    by ((intro keeps_intros keeps_execute_serial result);
        (auto simp: insert_event_def Let_def P_tables assms split: if_splits))+
  have "keeps_db P (reset_stuck_events es)" for es
    unfolding reset_stuck_events_def
    by (intro keeps_intros keeps_update_where result P_events assms)
  moreover have "keeps_db P (get_events_for_processing n)" for n
    unfolding get_events_for_processing_def
    by (intro keeps_intros keeps_execute result)
      (auto simp: claim_events_def Let_def P_tables assms split: if_splits prod.splits)
  ultimately show "keeps_db P (next_event_entry cfg)"
    unfolding next_event_entry_def by (intro keeps_intros)
  have update: "keeps_db P (update_status x st now)" for x st now
    unfolding update_status_def by (intro keeps_intros keeps_update_where result P_events assms)
  then have "keeps_db P (complete_event x)" "keeps_db P (fail_event es x)" for x es
    unfolding complete_event_def fail_event_def by (intro keeps_intros update)+
  then show "keeps_db P (settle_event cfg eid r)"
    unfolding settle_event_def by (auto intro!: keeps_intros split: sum.split handler_error.split)
qed

lemma frame_pay_out_with_event:
  assumes "TPayouts \<in> ignored" and "\<And>ev. keeps_db P (add_event ev)"
  shows "keeps_db P (pay_out_to_seller D user po)"
  unfolding pay_out_to_seller_def PayoutService.pay_out_def payout_checks_def initiate_payout_def orders_get_many_def Let_def
  by (intro keeps_intros frame_payouts assms)

lemma frame_pay_out_to_seller:
  "TPayouts \<in> ignored \<Longrightarrow> TEvents \<in> ignored \<Longrightarrow> keeps_db P (pay_out_to_seller D user po)"
  by (rule frame_pay_out_with_event) (simp_all add: frame_event_queue)

lemma frame_roles:
  assumes "TRoles \<in> ignored"
  shows "keeps_db P (create_user_role user ur)" "keeps_db P (delete_user_role user uid nm)"
    "keeps_db P (delete_user_role_by_user_id user uid)" "keeps_db P (delete_user_role_by_id user rid)"
proof -
  have delete: "keeps_db P (delete_roles p)" for p
    unfolding delete_roles_def
    by (rule keeps_execute) (auto simp: Let_def P_tables assms split: prod.splits)
  have check: "keeps_db P (check acl res act roles_in_scope obj)" for acl res act obj
    by (rule keeps_check) (auto simp: roles_in_scope_def intro!: keeps_ok split: scope.split)
  show "keeps_db P (create_user_role user ur)"
    unfolding create_user_role_def create_role_def
    by (intro keeps_intros keeps_execute check) (auto simp: insert_role_def Let_def P_tables assms split: if_splits)
  show "keeps_db P (delete_user_role user uid nm)" "keeps_db P (delete_user_role_by_user_id user uid)"
    "keeps_db P (delete_user_role_by_id user rid)"
    unfolding delete_user_role_def delete_user_role_by_user_id_def delete_user_role_by_id_def
      delete_role_def delete_roles_by_user_id_def delete_role_by_id_def
    by (intro keeps_intros delete check)+
qed

section \<open>Customers, subscriptions, bank details and version 1\<close>

lemma frame_customers:
  assumes "TCustomers \<in> ignored"
  shows "keeps_db P (customers_create acl ndc)" "keeps_db P (customers_update acl cid udc)"
    "keeps_db P (customers_delete acl cid)"
  unfolding customers_create_def customers_update_def customers_delete_def
  by ((intro keeps_intros keeps_execute keeps_update_where keeps_delete_where);
      (auto simp: insert_customer_def Let_def P_tables assms split: if_splits))+

lemma frame_subscriptions:
  assumes "TSubscriptions \<in> ignored"
  shows "keeps_db P (subscriptions_create acl ns)" "keeps_db P (subscriptions_update_row acl ss us)"
    "keeps_db P (store_subscriptions_create acl nss)" "keeps_db P (store_subscriptions_update_row acl sss uss)"
    "keeps_db P (subscription_payments_create acl nsp)"
proof -
  show "keeps_db P (subscriptions_create acl ns)" "keeps_db P (subscription_payments_create acl nsp)"
    unfolding subscriptions_create_def subscription_payments_create_def
    by ((intro keeps_intros keeps_execute_serial);
        (auto simp: insert_subscription_def insert_subscription_payment_def Let_def P_tables assms
          split: if_splits))+
  show "keeps_db P (subscriptions_update_row acl ss us)" "keeps_db P (store_subscriptions_create acl nss)"
    unfolding subscriptions_update_row_def store_subscriptions_create_def
    by ((intro keeps_intros keeps_execute);
        (auto simp: update_subscriptions_where_def insert_store_subscription_def Let_def P_tables assms
          split: if_splits prod.splits))+
  show "keeps_db P (store_subscriptions_update_row acl sss uss)"
    unfolding store_subscriptions_update_row_def
    by (intro keeps_intros keeps_update_set) (simp add: P_subscriptions assms)
qed

lemma frame_details:
  assumes "TDetails \<in> ignored"
  shows "keeps_db P (create_international_billing_info user ni)" "keeps_db P (create_russia_billing_info user nr)"
    "keeps_db P (update_international_billing user i ui)" "keeps_db P (update_russia_billing user i ur)"
proof -
  have rows: "keeps_db P (billing_types_create acl nbt)" "keeps_db P (billing_types_update_row acl sbt ubt)"
    "keeps_db P (international_create acl nibi)" "keeps_db P (international_update_row acl sibi uibi)"
    "keeps_db P (international_delete acl sibi)" "keeps_db P (russia_create acl nrbi)"
    "keeps_db P (russia_update_row acl srbi urbi)" "keeps_db P (russia_delete acl srbi)"
    for acl nbt sbt ubt nibi sibi uibi nrbi srbi urbi
    unfolding billing_types_create_def billing_types_update_row_def international_create_def
      international_update_row_def international_delete_def russia_create_def russia_update_row_def russia_delete_def
    by ((intro keeps_intros keeps_execute_serial keeps_update_set keeps_delete_where);
        (auto simp: insert_billing_type_def insert_international_def insert_russia_def Let_def P_tables assms
          split: if_splits))+
  have types: "keeps_db P (update_store_billing_type_to_international t_acl r_acl sid)"
    "keeps_db P (update_store_billing_type_to_russia t_acl i_acl sid)" for t_acl r_acl i_acl sid
    unfolding update_store_billing_type_to_international_def update_store_billing_type_to_russia_def
      set_billing_type_def
    by (auto intro!: keeps_intros rows split: option.split billing_type.split)
  show "keeps_db P (create_international_billing_info user ni)" "keeps_db P (create_russia_billing_info user nr)"
    "keeps_db P (update_international_billing user i ui)" "keeps_db P (update_russia_billing user i ur)"
    unfolding create_international_billing_info_def create_russia_billing_info_def update_international_billing_def
      update_russia_billing_def validate_create_international_billing_info_def
      validate_create_russia_billing_info_def
    by (intro keeps_intros rows types)+
qed

lemma frame_legacy:
  assumes "TLegacy \<in> ignored"
  shows "keeps_db P (service_update_invoice L user x)" "keeps_db P (recalc_invoice_v1 L user u)"
    "keeps_db P (delete_invoice_by_saga_id_v1 user u)"
proof -
  have rows: "keeps_db P (invoices_v1_change u ui)" "keeps_db P (invoices_v1_delete acl u)"
    "keeps_db P (order_infos_update_status u st)" "keeps_db P (order_infos_delete_by_saga_id acl u)" for u ui acl st
    unfolding invoices_v1_change_def invoices_v1_delete_def order_infos_update_status_def
      order_infos_delete_by_saga_id_def
    by (intro keeps_intros keeps_update_where keeps_delete_where P_legacy assms)+
  show "keeps_db P (service_update_invoice L user x)" "keeps_db P (recalc_invoice_v1 L user u)"
    "keeps_db P (delete_invoice_by_saga_id_v1 user u)"
    unfolding service_update_invoice_def recalc_invoice_v1_def delete_invoice_by_saga_id_v1_def store_external_def
      legacy_def http_def
    by (intro keeps_intros rows)+
qed

lemmas frames = frame_accounts_create frame_accounts_delete frame_invoices frame_orders frame_orders_delete
  frame_invoices_delete frame_rates frame_fees frame_intents frame_payouts frame_event_queue
  frame_pay_out_to_seller frame_roles frame_customers frame_subscriptions frame_details frame_legacy

end

end
