(* ===== verification/Program.thy ===== *)
theory Program
  imports Controller EventHandling TableFrames
begin

text \<open>
  The whole program: the requests, the ticks of the event loop and the start of the server are made of the
  operations of the repositories. A relation between tables that every operation keeps is kept by the
  program, whatever it is asked, whatever the other services answer and whichever statements fail.
\<close>

section \<open>The payment of a fiat invoice\<close>

context db_relation
begin

lemma keeps_update_order_states [keeps_intros]: "keeps_db P (update_order_states env us)"
  unfolding update_order_states_def by (intro keeps_intros)

lemma keeps_notify_and_set_paid:
  assumes "\<And>paid. keeps_db P (set_amount_paid_fiat SystemACL (inv_id invoice) paid)"
  shows "keeps_db P (notify_and_set_paid env cfg amount invoice os)"
  unfolding notify_and_set_paid_def set_paid_fiat_def Let_def
  by (intro keeps_intros assms)

lemma keeps_payment_succeeded:
  assumes "\<And>pid upi. keeps_db P (pis_update SystemACL pid upi)" and "\<And>nf. keeps_db P (fees_create SystemACL nf)"
    and "\<And>fid uf. keeps_db P (fees_update_row SystemACL fid uf)"
  shows "keeps_db P (payment_intent_succeeded order_percent p)"
  unfolding payment_intent_succeeded_def apply_payment_def paid_invoice_def paid_fee_def Let_def
  by (intro keeps_intros assms)

lemma keeps_paid_fiat_handler:
  assumes "\<And>pid upi. keeps_db P (pis_update SystemACL pid upi)" and "\<And>nf. keeps_db P (fees_create SystemACL nf)"
    and "\<And>fid uf. keeps_db P (fees_update_row SystemACL fid uf)"
    and "\<And>iid paid. keeps_db P (set_amount_paid_fiat SystemACL iid paid)"
  shows "keeps_db P (handle_payment_intent_succeeded env cfg p)"
  unfolding handle_payment_intent_succeeded_def
  by (intro keeps_intros keeps_payment_succeeded keeps_notify_and_set_paid assms)

end

section \<open>The contract of the operations\<close>

text \<open>The endpoints of the roles are left to the operations on roles.\<close>

definition role_route :: "route \<Rightarrow> bool" where
  "role_route r \<longleftrightarrow> (case r of RolesByUserId _ \<Rightarrow> True | Roles \<Rightarrow> True | RoleById _ \<Rightarrow> True | _ \<Rightarrow> False)"

text \<open>What the program writes with. Where the consistency of the tables rests on a whole service, the contract
  is about the service: payouts, the payment of a fiat invoice, bank details and the tables of version 1. The operations on roles come
  with the second locale.\<close>

locale program_relation = db_relation P for P :: "'d db \<Rightarrow> 'd db \<Rightarrow> bool" +
  fixes cfg :: handler_config
  assumes op_accounts_create: "keeps_db P (accounts_create acl na)"
    and op_accounts_delete: "keeps_db P (accounts_delete acl aid)"
    and op_add_event: "keeps_db P (add_event ev)"
    and op_add_scheduled_event: "keeps_db P (add_scheduled_event ev t0)"
    and op_invoices_create: "ni_amount_captured ni = Amount 0 \<Longrightarrow> keeps_db P (invoices_create acl ni)"
    and op_increase: "keeps_db P (increase_amount_captured acl aid tx amount)"
    and op_set_amount_paid: "keeps_db P (set_amount_paid acl iid paid)"
    and op_unlink_account: "keeps_db P (unlink_account acl iid)"
    and op_invoices_delete: "keeps_db P (invoices_delete acl iid)"
    and op_orders_create: "keeps_db P (orders_create acl no)"
    and op_orders_delete: "keeps_db P (orders_delete_by_invoice_id acl iid)"
    and op_update_state: "keeps_db P (update_state acl oid st)"
    and op_update_stripe_fee: "keeps_db P (update_stripe_fee acl oid amount)"
    and op_add_rate: "keeps_db P (add_new_active_rate acl nr)"
    and op_rates_delete: "keeps_db P (delete_by_order_id acl oid)"
    and op_fees_create: "keeps_db P (fees_create acl nf)"
    and op_fees_update: "keeps_db P (fees_update_row acl fid uf)"
    and op_pis_create: "keeps_db P (pis_create acl npi)"
    and op_pis_update: "keeps_db P (pis_update acl pid upi)"
    and op_pis_delete: "keeps_db P (pis_delete acl pid)"
    and op_piis_create: "keeps_db P (piis_create acl npii)"
    and op_pifs_create: "keeps_db P (pifs_create acl npif)"
    and op_pay_out: "keeps_db P (pay_out_to_seller D user po)"
    and op_mark_as_completed: "keeps_db P (mark_as_completed acl poid)"
    and op_customers_create: "keeps_db P (customers_create acl ndc)"
    and op_customers_update: "keeps_db P (customers_update acl cid udc)"
    and op_customers_delete: "keeps_db P (customers_delete acl cid)"
    and op_subscriptions_create: "keeps_db P (subscriptions_create acl ns)"
    and op_subscriptions_update: "keeps_db P (subscriptions_update_row acl ss us)"
    and op_store_subscriptions_create: "keeps_db P (store_subscriptions_create acl nss)"
    and op_store_subscriptions_update: "keeps_db P (store_subscriptions_update_row acl sss uss)"
    and op_subscription_payments_create: "keeps_db P (subscription_payments_create acl nsp)"
    and op_create_international: "keeps_db P (create_international_billing_info user nib)"
    and op_create_russia: "keeps_db P (create_russia_billing_info user nrb)"
    and op_update_international: "keeps_db P (update_international_billing user i uib)"
    and op_update_russia: "keeps_db P (update_russia_billing user i urb)"
    and op_update_invoice_v1: "keeps_db P (service_update_invoice L user x)"
    and op_recalc_invoice_v1: "keeps_db P (recalc_invoice_v1 L user u)"
    and op_handle_paid_fiat: "keeps_db P (handle_payment_intent_succeeded env c p)"
    and op_delete_invoice_v1: "keeps_db P (delete_invoice_by_saga_id_v1 user u)"
    and op_next_event: "keeps_db P (next_event_entry cfg)"
    and op_settle_event: "keeps_db P (settle_event cfg eid r)"

context program_relation
begin

lemmas ops [keeps_intros] = op_accounts_create op_accounts_delete op_add_event op_add_scheduled_event
  op_increase op_set_amount_paid op_unlink_account op_invoices_delete op_orders_create
  op_orders_delete op_update_state op_update_stripe_fee op_add_rate op_rates_delete op_fees_create op_fees_update
  op_pis_create op_pis_update op_pis_delete op_piis_create op_pifs_create op_pay_out op_mark_as_completed
  op_customers_create op_customers_update op_customers_delete op_subscriptions_create op_subscriptions_update
  op_store_subscriptions_create op_store_subscriptions_update op_subscription_payments_create
  op_create_international op_create_russia op_update_international op_update_russia
  op_update_invoice_v1 op_recalc_invoice_v1 op_delete_invoice_v1 op_next_event op_settle_event

lemma kept_internally [keeps_intros]: "keeps_db P m \<Longrightarrow> keeps_db P (internally m)"
  unfolding internally_def by (rule keeps_map_err)

lemma kept_failing [keeps_intros]: "keeps_db P m \<Longrightarrow> keeps_db P (failing m)"
  unfolding failing_def by (rule keeps_map_err)

lemma kept_legacy [keeps_intros]: "keeps_db P m \<Longrightarrow> keeps_db P (legacy m)"
  unfolding legacy_def by (rule keeps_map_err)

lemma kept_both [keeps_intros]: "keeps_db P m \<Longrightarrow> keeps_db P n \<Longrightarrow> keeps_db P (both m n)"
  unfolding both_def by (intro keeps_intros)

section \<open>Accounts and invoices\<close>

lemma kept_create_account [keeps_intros]: "keeps_db P (create_account env a u nm c pooled)"
  unfolding create_account_def create_account_happy_def create_account_revert_def Let_def
  by (intro keeps_intros)

lemma kept_accounts [keeps_intros]:
  "keeps_db P (create_pooled_account hyphenated env a c)" "keeps_db P (get_account env u)"
  "keeps_db P (get_main_account env a c)" "keeps_db P (get_or_create_free_pooled_account hyphenated env a c)"
  unfolding create_pooled_account_def get_account_def get_main_account_def get_or_create_free_pooled_account_def
    repo_get_free_account_def
  by (intro keeps_intros)+

lemma kept_start_accounts:
  "keeps_db P (init_system_accounts env a)" "keeps_db P (init_account_pools hyphenated env a)"
  unfolding init_system_accounts_def init_account_pools_def accounts_get_many_def accounts_count_def
  by (intro keeps_intros)+

lemma kept_insert_invoice [keeps_intros]:
  "keeps_db P (insert_invoice_with_orders D i_acl o_acl r_acl ci os means)"
  unfolding insert_invoice_with_orders_def create_order_with_rate_def
  by (intro keeps_intros op_invoices_create) simp

lemma kept_get_rate [keeps_intros]: "keeps_db P (get_rate D env b s tot)"
  unfolding get_rate_def Let_def by (intro keeps_intros)

lemma kept_price_order [keeps_intros]: "keeps_db P (price_order D env buyer iid co)"
  unfolding price_order_def exchage_rate_crypto_def Let_def
  by (intro keeps_intros) (auto intro!: keeps_intros split: prod.split bool.split)

lemma kept_payment_of_invoice [keeps_intros]: "keeps_db P (payment_of_invoice D hyphenated env c os iid buyer)"
  unfolding payment_of_invoice_def create_payment_intent_def by (intro keeps_intros)

lemma kept_create_invoice [keeps_intros]:
  "keeps_db P (create_invoice_v2 D hyphenated env c user ci)"
  unfolding create_invoice_v2_def save_invoice_def Let_def by (intro keeps_intros)

lemma kept_dump_try_into_v1 [keeps_intros]: "keeps_db P (dump_try_into_v1 D dump)"
  unfolding dump_try_into_v1_def by (intro keeps_intros)

lemma kept_service_create_invoice: "keeps_db P (service_create_invoice D hyphenated env c user i1)"
  unfolding service_create_invoice_def by (intro keeps_intros)

lemma kept_refresh_rates [keeps_intros]: "keeps_db P (refresh_rates D env buyer current)"
  unfolding refresh_rates_def reserve_or_refresh_rate_def by (intro keeps_intros)

lemma kept_save_rates [keeps_intros]: "keeps_db P (save_rates acl rates)"
  unfolding save_rates_def by (intro keeps_intros)

lemma kept_calculate [keeps_intros]:
  "keeps_db P (calculate_invoice_price_and_set_final_price_if_paid D i_acl o_acl r_acl a_acl iid)"
  unfolding calculate_invoice_price_and_set_final_price_if_paid_def price_and_set_paid_def set_paid_def
  by (intro keeps_intros)

lemma kept_recalc_v2 [keeps_intros]: "keeps_db P (recalc_invoice_v2 D env c user iid)"
  unfolding recalc_invoice_v2_def load_invoice_def get_missing_rates_and_refresh_def by (intro keeps_intros)

lemma kept_get_invoice_v2 [keeps_intros]: "keeps_db P (get_invoice_by_order_id_v2 D env c user oid)"
  unfolding get_invoice_by_order_id_v2_def by (intro keeps_intros)

lemma kept_delete_invoice: "keeps_db P (delete_invoice_by_saga_id env c user u)"
  unfolding delete_invoice_by_saga_id_def delete_invoice_by_saga_id_v2_def delete_invoice_body_def
  by (intro keeps_intros)

lemma kept_handle_inbound_tx: "keeps_db P (handle_inbound_tx D C env c signature cb body)"
  unfolding handle_inbound_tx_def credit_invoice_def receive_amount_def account_of_callback_def recalc_received_def
  by (intro keeps_intros) (auto intro!: keeps_intros split: repo_error.split)

lemma kept_recalc_invoice: "keeps_db P (recalc_invoice D env L c user iid)"
  unfolding recalc_invoice_def by (intro keeps_intros)

lemma kept_only_version [keeps_intros]: "keeps_db P (only_version D found)"
  unfolding only_version_def by (auto intro!: keeps_intros split: prod.split option.split)

lemma kept_get_invoice:
  "keeps_db P (get_invoice_by_order_id D env c user u)" "keeps_db P (get_invoice_by_id D env c user u)"
  unfolding get_invoice_by_order_id_def get_invoice_by_id_def get_invoice_by_order_id_v1_def
    get_invoice_by_id_v1_def readable_order_info_def invoices_v1_find_def invoices_v1_find_by_saga_id_def
    order_infos_find_by_order_id_def
  by (intro keeps_intros)+

section \<open>Orders, payments and the bank details\<close>

lemma kept_order_services:
  "keeps_db P (order_capture user oid)" "keeps_db P (order_decline env user oid)"
  "keeps_db P (update_order_state user oid st)"
  unfolding order_capture_def order_decline_def update_order_state_def initial_order_def order_capture_fiat_def
    order_capture_crypto_def order_decline_fiat_def order_decline_crypto_def set_order_state_def
  by (intro keeps_intros)+

lemma kept_create_by_fee: "keeps_db P (create_by_fee D env user fid)"
  unfolding create_by_fee_def create_fee_payment_intent_def store_fee_payment_intent_def fees_get_def
  by (intro keeps_intros)

lemma kept_customers:
  "keeps_db P (create_customer_with_source env user nc)" "keeps_db P (update_customer env user uc)"
  "keeps_db P (delete_customer env user cid)"
  unfolding create_customer_with_source_def update_customer_def delete_customer_def Let_def
  by (intro keeps_intros)+

lemma kept_create_charge_by_fees [keeps_intros]: "keeps_db P (create_charge_by_fees D hyphenated env user sid fs)"
  unfolding create_charge_by_fees_def paying_customer_def charge_fees_def record_charge_def Let_def
  by (intro keeps_intros)

lemma kept_charges:
  "keeps_db P (create_charge D hyphenated env user sf)" "keeps_db P (create_charge_for_several_fees D hyphenated env user ids)"
  unfolding create_charge_def create_charge_for_several_fees_def fees_get_def fees_search_def
  by (intro keeps_intros)+

lemma kept_stripe_event: "keeps_db P (handle_stripe_event ce secret header payload)"
  unfolding handle_stripe_event_def add_new_event_def
  by (intro keeps_intros) (auto intro!: keeps_intros split: stripe_event_type.split stripe_event_object.split)

section \<open>Subscriptions\<close>

lemma kept_create_all: "keeps_db P (create_all scfg user xs)"
  unfolding create_all_def create_subscription_def find_update_or_create_store_subscription_def Let_def
  by (intro keeps_intros)

lemma kept_collect [keeps_intros]: "keeps_db P (collect env scfg p)"
  unfolding collect_def collect_ture_subscription_def collect_fiat_subscription_def Let_def
  by (cases p) (auto intro!: keeps_intros)

lemma kept_pay_subscriptions: "keeps_db P (pay_subscriptions env scfg user)"
  unfolding pay_subscriptions_def record_payments_def record_payment_def settle_subscription_def
  by (intro keeps_intros)

lemma kept_create_store_account [keeps_intros]: "keeps_db P (create_store_account env a sid)"
  unfolding create_store_account_def by (intro keeps_intros)

lemma kept_create_store_subscription: "keeps_db P (create_store_subscription D env scfg user sid c)"
  unfolding create_store_subscription_def new_store_subscription_of_def create_store_subscription_account_def
  by (intro keeps_intros) (auto intro!: keeps_intros split: currency.split)

lemma kept_update_store_terms: "keeps_db P (update_store_terms D env scfg user sid r)"
  unfolding update_store_terms_def complete_update_def
  by (intro keeps_intros) (auto intro!: keeps_intros split: currency.split)

section \<open>Requests\<close>

lemma kept_reads: "reads m \<Longrightarrow> keeps_db P m"
  by (simp add: keeps_def same_db_def P_refl)

lemma kept_answer [keeps_intros]: "keeps_db P m \<Longrightarrow> keeps_db P (answer f g m)"
  unfolding answer_def by (intro keeps_map_err keeps_map_ok)

lemma kept_parse_body [keeps_intros]: "keeps_db P (parse_body decode q)"
  unfolding parse_body_def by (rule keeps_ok_or)

lemmas kept_services = kept_service_create_invoice kept_create_invoice kept_recalc_v2 kept_delete_invoice
  kept_handle_inbound_tx kept_recalc_invoice kept_get_invoice kept_order_services
  kept_create_by_fee kept_customers kept_charges kept_stripe_event kept_create_all
  kept_pay_subscriptions kept_create_store_subscription kept_update_store_terms op_pay_out
  op_create_international op_create_russia op_update_international op_update_russia op_update_invoice_v1

lemmas kept_reading = reading_services [THEN kept_reads] controller_frames(3) [THEN kept_reads]

lemma kept_merchants:
  "keeps_db P (post_merchant decode merchant_create_user q)" "keeps_db P (post_merchant decode merchant_create_store q)"
  "keeps_db P merchant_delete" "keeps_db P merchant_balance_of"
  by (rule kept_reads, rule reads_merchants)+

lemma kept_respond:
  assumes "\<not> role_route r"
  shows "keeps_db P (respond S q r)"
  using assms
  by (cases r)
    (auto simp: respond_def role_route_def Let_def stripe_webhook_def external_billing_callback_def
      payments_inbound_tx_def post_invoice_def post_invoice_v2_def delete_invoice_def set_payment_state_def
      post_customer_def delete_customer_request_def put_customer_def post_order_billing_def post_order_search_def
      search_with_paging_def post_international_def put_international_def post_russia_def put_russia_def
      post_fees_pay_by_orders_def post_payout_def post_payouts_by_order_ids_def post_payouts_calculate_def
      post_subscriptions_def post_subscription_payment_search_def post_store_subscription_def
      put_store_subscription_def
      intro!: keeps_and_then keeps_ok_or kept_answer kept_parse_body kept_merchants kept_services kept_reading)

section \<open>Events\<close>

lemma kept_get_invoice_of_event [keeps_intros]: "keeps_db P (get_invoice iid)"
  unfolding get_invoice_def by (intro keeps_intros)

lemma kept_drain [keeps_intros]: "keeps_db P (drain_and_unlink_account env c iid)"
  unfolding drain_and_unlink_account_def drain_account_def Let_def by (intro keeps_intros)

lemma kept_set_orders_status [keeps_intros]: "keeps_db P (set_orders_status env iid st)"
  unfolding set_orders_status_def by (intro keeps_intros)

lemma kept_fee_for_orders [keeps_intros]: "keeps_db P (create_fee_for_orders D env c iid)"
  unfolding create_fee_for_orders_def create_fees_def by (intro keeps_intros)

lemma kept_cancel_payment_intent [keeps_intros]: "keeps_db P (cancel_payment_intent env iid)"
  unfolding cancel_payment_intent_def by (intro keeps_intros)

lemma kept_get_ture_context [keeps_intros]: "keeps_db P (get_ture_context c)"
  unfolding get_ture_context_def by (intro keeps_intros)

lemma kept_handle_capture: "keeps_db P (handle_payment_intent_capture D env oid)"
  unfolding handle_payment_intent_capture_def order_to_capture_def balance_of_charge_def store_capture_def
  by (intro keeps_intros)

lemma kept_handle_payout: "keeps_db P (handle_payout_initiated env c pid)"
  unfolding handle_payout_initiated_def EventHandling.pay_out_def create_payout_tx_def mark_payout_as_completed_def Let_def
  by (intro keeps_intros)

lemma kept_handle_event [keeps_intros]: "keeps_db P (handle_event D env c payload)"
  by (cases payload)
    (auto simp: handle_invoice_paid_def handle_payment_expired_def process_payment_expired_def
      handle_payment_intent_payment_failed_def
      intro!: keeps_intros op_handle_paid_fiat kept_handle_capture kept_handle_payout split: payment_flow.split)

lemma kept_run_ticks: "keeps_db P (run_ticks D env cfg n)"
proof (induction n)
  case (Suc n)
  have "keeps_db P (process_events D env cfg)"
    unfolding process_events_def by (intro keeps_intros)
  with Suc show ?case by (auto intro!: keeps_intros)
qed (simp add: keeps_ok)

end

section \<open>The operations on roles\<close>

locale program_with_roles = program_relation P cfg for P :: "'d db \<Rightarrow> 'd db \<Rightarrow> bool" and cfg :: handler_config +
  assumes op_create_user_role: "keeps_db P (create_user_role user ur)"
    and op_delete_user_role: "keeps_db P (delete_user_role user uid nm)"
    and op_delete_by_user_id: "keeps_db P (delete_user_role_by_user_id user uid)"
    and op_delete_by_id: "keeps_db P (delete_user_role_by_id user rid)"

context program_with_roles
begin

lemma kept_role_requests:
  assumes "role_route r"
  shows "keeps_db P (respond S q r)"
  using assms
  by (cases r)
    (auto simp: respond_def role_route_def Let_def post_role_def delete_role_request_def
      intro!: keeps_and_then kept_answer kept_parse_body op_create_user_role op_delete_user_role
        op_delete_by_user_id op_delete_by_id kept_reading)

lemma kept_call: "keeps_db P (call S q)"
proof (cases "route_of (sv_parse_uuid S) (rq_path q)")
  case None
  then show ?thesis by (simp add: call_def kept_reads reads_not_found)
next
  case (Some r)
  with kept_respond [of r S q] kept_role_requests [of r S q] show ?thesis
    by (cases "role_route r") (simp_all add: call_def)
qed

end

end
