(* ===== verification/Runs.thy ===== *)
theory Runs
  imports Program Startup SubscriptionJob
begin

text \<open>
  The runs of the whole program as a step relation: the server answers a request, the event loop ticks, the
  server starts anew, the job beside it ticks, or something else happens that is not in the tables. A relation
  between tables that the operations keep is kept by every run.
\<close>

section \<open>Steps\<close>

text \<open>The steps follow each other in any order; none overlaps with another. What is not in the tables, the
  clock, the next identifiers, the caches and which statements will fail, may change between them. The
  requests are those that satisfy \<open>asked\<close>.\<close>

inductive program_step :: "'d server \<Rightarrow> handler_config \<Rightarrow> (request \<Rightarrow> bool) \<Rightarrow> 'd world \<Rightarrow> 'd world \<Rightarrow> bool"
  for S :: "'d server" and cfg :: handler_config and asked :: "request \<Rightarrow> bool" where
  step_request: "asked q \<Longrightarrow> t = snd (call S q w) \<Longrightarrow> program_step S cfg asked w t"
| step_ticks: "t = snd (run_ticks (sv_decimal S) (env_of S) cfg n w) \<Longrightarrow> program_step S cfg asked w t"
| step_start: "t = snd (start_server S es task_first w) \<Longrightarrow> program_step S cfg asked w t"
| step_job: "t = snd (job_tick S encode tick w) \<Longrightarrow> program_step S cfg asked w t"
| step_outside: "w_db t = w_db w \<Longrightarrow> program_step S cfg asked w t"

inductive_cases program_stepE: "program_step S cfg asked w t"

abbreviation program_run :: "'d server \<Rightarrow> handler_config \<Rightarrow> (request \<Rightarrow> bool) \<Rightarrow> 'd world \<Rightarrow> 'd world \<Rightarrow> bool" where
  "program_run S cfg asked \<equiv> (program_step S cfg asked)\<^sup>*\<^sup>*"

section \<open>What a run keeps\<close>

context program_relation
begin

lemma kept_start_server: "keeps_db P (start_server S es task_first)"
  unfolding start_server_def init_accounts_def
  by (intro keeps_intros kept_start_accounts)

end

context program_with_roles
begin

lemma kept_deliver: "keeps_db P m \<Longrightarrow> keeps_db P (deliver d m)"
  unfolding deliver_def by (cases d) (auto intro!: keeps_intros)

lemma kept_job_tick: "keeps_db P (job_tick S encode tick)"
  unfolding job_tick_def new_subscriptions_def job_create_subscriptions_def job_pay_subscriptions_def
  by (auto intro!: keeps_intros kept_deliver kept_call split: prod.split)

lemma kept_step: "program_step S cfg asked w t \<Longrightarrow> P (w_db w) (w_db t)"
  using kept_call kept_run_ticks kept_start_server kept_job_tick
  by (auto simp: keeps_def P_refl elim!: program_stepE)

lemma kept_run: "program_run S cfg asked w t \<Longrightarrow> P (w_db w) (w_db t)"
  by (induction rule: rtranclp_induct) (auto intro: P_refl P_trans kept_step)

end

end
