(* ===== verification/Consistency.thy ===== *)
theory Consistency
  imports Runs
begin

text \<open>
  The tables stay consistent in every run of the program. The invariants of the components become relations
  between tables; the operations that touch other tables keep them by their frames, the few that touch
  their tables by the lemmas of the components.
\<close>

section \<open>Exchange rates\<close>

interpretation active_frame: table_frame keeps_one_active "- {TRates}"
  by unfold_locales (simp_all add: keeps_one_active_def set_invoices_v1_def set_orders_info_def)

lemma keeps_one_active_orders_delete:
  assumes "delete_orders_where p now d = Inr (gone, e)"
  shows "keeps_one_active d e"
proof -
  have "\<exists>q. order_exchange_rates e = filter q (order_exchange_rates d)"
    using assms by (auto simp: delete_orders_where_def Let_def split: prod.splits if_splits)
  then show ?thesis by (auto simp: keeps_one_active_def one_active_filter)
qed

lemma keeps_one_active_invoices_delete:
  "delete_invoices_where p now d = Inr (gone, e) \<Longrightarrow> keeps_one_active d e"
  using keeps_one_active_orders_delete
  by (fastforce simp: delete_invoices_where_def keeps_one_active_def Let_def split: prod.splits if_splits sum.splits)

lemma active_deletions:
  "keeps_db keeps_one_active (orders_delete_by_invoice_id acl iid)"
  "keeps_db keeps_one_active (invoices_delete acl iid)"
  unfolding orders_delete_by_invoice_id_def invoices_delete_def
  by (intro keeps_intros active.keeps_execute keeps_one_active_orders_delete; assumption)
    (intro keeps_intros active.keeps_execute keeps_one_active_invoices_delete; assumption)

lemmas active_operations = active_deletions keeps_add_new_active_rate keeps_delete_by_order_id

lemma active_paid_fiat: "keeps_db keeps_one_active (handle_payment_intent_succeeded env c p)"
  by (rule active.keeps_paid_fiat_handler) (rule active_frame.frames; simp)+

interpretation active_program: program_with_roles keeps_one_active cfg for cfg
  by (unfold_locales; (rule active_operations active_paid_fiat | (rule active_frame.frames; simp)))

section \<open>Payouts\<close>

definition keeps_paid_once :: "'d db \<Rightarrow> 'd db \<Rightarrow> bool" where
  "keeps_paid_once d e \<longleftrightarrow> (paid_once d \<longrightarrow> paid_once e)"

interpretation payout_ledger: db_relation keeps_paid_once
  by unfold_locales (auto simp: keeps_paid_once_def)

interpretation payout_frame: table_frame keeps_paid_once "- {TOrders, TPayouts}"
  by unfold_locales (simp_all add: keeps_paid_once_def paid_once_def set_invoices_v1_def set_orders_info_def)

lemma keeps_paid_once_orders_delete:
  assumes "delete_orders_where p now d = Inr (gone, e)"
  shows "keeps_paid_once d e"
proof -
  have "\<exists>q q'. orders e = filter q (orders d) \<and> order_payouts e = filter q' (order_payouts d) \<and> payouts e = payouts d"
    using assms by (auto simp: delete_orders_where_def delete_rows_def Let_def split: if_splits)
  then show ?thesis by (auto simp: keeps_paid_once_def paid_once_def distinct_map_filter)
qed

lemma keeps_paid_once_invoices_delete:
  "delete_invoices_where p now d = Inr (gone, e) \<Longrightarrow> keeps_paid_once d e"
  using keeps_paid_once_orders_delete
  by (fastforce simp: delete_invoices_where_def keeps_paid_once_def paid_once_def Let_def
      split: prod.splits if_splits sum.splits)

lemma payout_deletions:
  "keeps_db keeps_paid_once (orders_delete_by_invoice_id acl iid)"
  "keeps_db keeps_paid_once (invoices_delete acl iid)"
  unfolding orders_delete_by_invoice_id_def invoices_delete_def
  by (intro keeps_intros payout_ledger.keeps_execute keeps_paid_once_orders_delete; assumption)
    (intro keeps_intros payout_ledger.keeps_execute keeps_paid_once_invoices_delete; assumption)

lemma keeps_paid_once_update_orders:
  assumes "\<And>r. ord_id (g r) = ord_id r"
  shows "keeps_paid_once d (d\<lparr>orders := map (\<lambda>r. if p r then touch_order g now r else r) (orders d)\<rparr>)"
proof -
  have "map ord_id (map (\<lambda>r. if p r then touch_order g now r else r) (orders d)) = map ord_id (orders d)"
    by (rule map_fst_if) (simp add: assms)
  then show ?thesis by (simp add: keeps_paid_once_def paid_once_def del: map_map)
qed

lemma payout_keeps_orders:
  "keeps_db keeps_paid_once (orders_create acl no)" "keeps_db keeps_paid_once (update_state acl oid st)"
  "keeps_db keeps_paid_once (update_stripe_fee acl oid amount)"
proof -
  show "keeps_db keeps_paid_once (orders_create acl no)"
    unfolding orders_create_def
    by (intro keeps_intros payout_ledger.keeps_execute)
      (auto simp: insert_order_def keeps_paid_once_def paid_once_def Let_def split: if_splits)
  show "keeps_db keeps_paid_once (update_state acl oid st)" "keeps_db keeps_paid_once (update_stripe_fee acl oid amount)"
    unfolding update_state_def update_stripe_fee_def update_order_def
    by (intro keeps_intros payout_ledger.keeps_update_where keeps_paid_once_update_orders; simp)+
qed

lemma payout_requests:
  "keeps_db keeps_paid_once (pay_out_to_seller D user po)" "keeps_db keeps_paid_once (mark_as_completed acl poid)"
proof -
  show "keeps_db keeps_paid_once (pay_out_to_seller D user po)"
    by (rule keepsI) (auto simp: keeps_paid_once_def dest: endsD [OF paid_once_pay_out_to_seller])
  show "keeps_db keeps_paid_once (mark_as_completed acl poid)"
    using entries_mark_as_completed [of acl poid] same_entries_paid_once
    by (fastforce simp: keeps_def keeps_paid_once_def)
qed

lemma payout_paid_fiat: "keeps_db keeps_paid_once (handle_payment_intent_succeeded env c p)"
  by (rule payout_ledger.keeps_paid_fiat_handler) (rule payout_frame.frames; simp)+

lemmas payout_operations = payout_deletions payout_keeps_orders payout_requests payout_paid_fiat

interpretation payout_program: program_with_roles keeps_paid_once cfg for cfg
  by (unfold_locales; (rule payout_operations | (rule payout_frame.frames; simp)))

section \<open>Payment intents\<close>

definition keeps_linked :: "'d db \<Rightarrow> 'd db \<Rightarrow> bool" where
  "keeps_linked d e \<longleftrightarrow> (intents_linked d \<longrightarrow> intents_linked e)"

interpretation linked: db_relation keeps_linked
  by unfold_locales (auto simp: keeps_linked_def)

interpretation linked_frame: table_frame keeps_linked "- {TIntents}"
  by unfold_locales (simp_all add: keeps_linked_def intents_linked_def set_invoices_v1_def set_orders_info_def)

lemma keeps_linked_update_intents:
  "keeps_linked d (d\<lparr>payment_intents := map (\<lambda>r. if p r then update_payment_intent_changes u r else r) (payment_intents d)\<rparr>)"
proof -
  have "map pi_id (map (\<lambda>r. if p r then update_payment_intent_changes u r else r) (payment_intents d)) =
      map pi_id (payment_intents d)"
    by (rule map_fst_if) (simp add: update_payment_intent_changes_def)
  then show ?thesis by (simp add: keeps_linked_def intents_linked_def flip: set_map del: map_map)
qed

lemma keeps_linked_delete_intents:
  assumes "delete_payment_intents_where p now d = Inr (gone, e)"
  shows "keeps_linked d e"
  unfolding keeps_linked_def intents_linked_def
proof (intro impI ballI)
  fix x
  assume ok: "\<forall>x\<in>set (payment_intents_invoices d). pii_payment_intent_id x \<in> pi_id ` set (payment_intents d)"
    and x: "x \<in> set (payment_intents_invoices e)"
  have e: "payment_intents e = filter (\<lambda>r. \<not> p r) (payment_intents d)"
    "payment_intents_invoices e = payment_intents_invoices d"
    "\<forall>x\<in>set (payment_intents_invoices d). \<forall>r\<in>set (payment_intents d). p r \<longrightarrow> pii_payment_intent_id x \<noteq> pi_id r"
    using assms by (auto simp: delete_payment_intents_where_def delete_rows_def Let_def split: if_splits)
  with ok x obtain r where "r \<in> set (payment_intents d)" "pii_payment_intent_id x = pi_id r" by auto
  with e x show "pii_payment_intent_id x \<in> pi_id ` set (payment_intents e)" by auto
qed

lemma linked_intents:
  "keeps_db keeps_linked (pis_create acl npi)" "keeps_db keeps_linked (pis_update acl pid upi)"
  "keeps_db keeps_linked (pis_delete acl pid)"
proof -
  show "keeps_db keeps_linked (pis_create acl npi)"
    unfolding pis_create_def
    by (intro keeps_intros linked.keeps_execute)
      (auto simp: insert_payment_intent_def keeps_linked_def intents_linked_def Let_def split: if_splits)
  show "keeps_db keeps_linked (pis_update acl pid upi)"
    unfolding pis_update_def by (intro keeps_intros linked.keeps_update_where keeps_linked_update_intents)
  show "keeps_db keeps_linked (pis_delete acl pid)"
    unfolding pis_delete_def
    by (intro keeps_intros linked.keeps_execute keeps_linked_delete_intents)
qed

lemma linked_links:
  "keeps_db keeps_linked (piis_create acl npii)" "keeps_db keeps_linked (pifs_create acl npif)"
  unfolding piis_create_def pifs_create_def
  by ((intro keeps_intros linked.keeps_execute_serial);
      (auto simp: insert_payment_intent_invoice_def insert_payment_intent_fee_def keeps_linked_def intents_linked_def
        Let_def split: if_splits))+

lemma linked_paid_fiat: "keeps_db keeps_linked (handle_payment_intent_succeeded env c p)"
  by (rule linked.keeps_paid_fiat_handler) (rule linked_intents linked_frame.frames; simp)+

lemmas linked_operations = linked_intents linked_links linked_paid_fiat

interpretation linked_program: program_with_roles keeps_linked cfg for cfg
  by (unfold_locales; (rule linked_operations | (rule linked_frame.frames; simp)))

section \<open>The tables of version 1 and the bank details\<close>

interpretation legacy_frame: table_frame keeps_agree "- {TLegacy}"
  by unfold_locales (simp_all add: keeps_agree_def legacy_agree_def)

lemma legacy_paid_fiat: "keeps_db keeps_agree (handle_payment_intent_succeeded env c p)"
  by (rule agreeing.keeps_paid_fiat_handler) (rule legacy_frame.frames; simp)+

lemmas legacy_operations = agreeing_callback agreeing_recalc agreeing_services(4) legacy_paid_fiat

interpretation legacy_program: program_with_roles keeps_agree cfg for cfg
  by (unfold_locales; (rule legacy_operations | (rule legacy_frame.frames; simp)))

definition keeps_typed :: "'d db \<Rightarrow> 'd db \<Rightarrow> bool" where
  "keeps_typed d e \<longleftrightarrow> (details_typed d \<longrightarrow> details_typed e)"

interpretation typed: db_relation keeps_typed
  by unfold_locales (auto simp: keeps_typed_def)

interpretation typed_frame: table_frame keeps_typed "- {TDetails}"
  by unfold_locales (simp_all add: keeps_typed_def details_typed_def set_invoices_v1_def set_orders_info_def)

lemma typed_services:
  "keeps_db keeps_typed (create_international_billing_info user nib)" "keeps_db keeps_typed (create_russia_billing_info user nrb)"
  "keeps_db keeps_typed (update_international_billing user i uib)" "keeps_db keeps_typed (update_russia_billing user i urb)"
  by (rule keepsI; auto simp: keeps_typed_def dest: typed_requests)+

lemma typed_paid_fiat: "keeps_db keeps_typed (handle_payment_intent_succeeded env c p)"
  by (rule typed.keeps_paid_fiat_handler) (rule typed_frame.frames; simp)+

interpretation typed_program: program_with_roles keeps_typed cfg for cfg
  by (unfold_locales; (rule typed_services typed_paid_fiat | (rule typed_frame.frames; simp)))

section \<open>The event queue\<close>

interpretation queue_frame: table_frame "event_store_evolves es" "- {TEvents}" for es
  by unfold_locales (simp_all add: event_store_evolves_same set_invoices_v1_def set_orders_info_def)

lemma queue_pay_out: "keeps_db (event_store_evolves es) (pay_out_to_seller D user po)"
  by (rule queue_frame.frame_pay_out_with_event) (simp_all add: evolves_add_event)

lemma queue_paid_fiat: "keeps_db (event_store_evolves es) (handle_payment_intent_succeeded env c p)"
  by (rule events.keeps_paid_fiat_handler) (rule queue_frame.frames; simp)+

lemmas queue_operations = queue_pay_out queue_paid_fiat evolves_add_event evolves_add_scheduled_event
  keeps_next_event keeps_settle

interpretation queue_program: program_with_roles "event_store_evolves (hc_events cfg)" cfg for cfg
  by (unfold_locales; (rule queue_operations | (rule queue_frame.frames; simp)))

section \<open>Roles\<close>

definition same_roles :: "'d db \<Rightarrow> 'd db \<Rightarrow> bool" where
  "same_roles d e \<longleftrightarrow> roles e = roles d"

interpretation role_table: db_relation same_roles
  by unfold_locales (auto simp: same_roles_def)

interpretation role_frame: table_frame same_roles "- {TRoles}"
  by unfold_locales (simp_all add: same_roles_def set_invoices_v1_def set_orders_info_def)

lemma roles_paid_fiat: "keeps_db same_roles (handle_payment_intent_succeeded env c p)"
  by (rule role_table.keeps_paid_fiat_handler) (rule role_frame.frames; simp)+

interpretation role_program: program_relation same_roles cfg for cfg
  by (unfold_locales; (rule roles_paid_fiat | (rule role_frame.frames; simp)))

section \<open>The ledger of the invoices\<close>

text \<open>The invoices that are paid with Stripe have no ledger; they are those with a payment intent. Every other
  invoice has captured what its ledger says.\<close>

definition fiat_invoices :: "'d db \<Rightarrow> invoice_id set" where
  "fiat_invoices d = pii_invoice_id ` set (payment_intents_invoices d)"

definition crypto_ledger_ok :: "'d db \<Rightarrow> bool" where
  "crypto_ledger_ok d \<longleftrightarrow> ledger_except (fiat_invoices d) d"

definition keeps_balance :: "'d db \<Rightarrow> 'd db \<Rightarrow> bool" where
  "keeps_balance d e \<longleftrightarrow> (crypto_ledger_ok d \<longrightarrow> crypto_ledger_ok e)"

definition same_links :: "'d db \<Rightarrow> 'd db \<Rightarrow> bool" where
  "same_links d e \<longleftrightarrow> payment_intents_invoices e = payment_intents_invoices d"

interpretation balance: db_relation keeps_balance
  by unfold_locales (auto simp: keeps_balance_def)

interpretation balance_frame: table_frame keeps_balance "- {TInvoices, TIntents}"
  by unfold_locales
    (simp_all add: keeps_balance_def crypto_ledger_ok_def fiat_invoices_def ledger_except_def
      set_invoices_v1_def set_orders_info_def)

interpretation links: db_relation same_links
  by unfold_locales (auto simp: same_links_def)

interpretation links_frame: table_frame same_links "- {TIntents}"
  by unfold_locales (simp_all add: same_links_def set_invoices_v1_def set_orders_info_def)

lemma ledger_except_mono: "ledger_except X d \<Longrightarrow> X \<subseteq> Y \<Longrightarrow> ledger_except Y d"
  by (auto simp: ledger_except_def)

lemma balance_of_ledger:
  assumes "\<And>X. keeps_db (keeps_ledger X) m" and "keeps_db same_links m"
  shows "keeps_db keeps_balance m"
  using assms by (auto simp: keeps_def keeps_balance_def keeps_ledger_def crypto_ledger_ok_def same_links_def fiat_invoices_def)

lemma keeps_ledger_accounts_delete:
  assumes "delete_accounts_where p now d = Inr (gone, e)"
  shows "keeps_ledger X d e"
proof -
  let ?g = "\<lambda>i. if \<exists>a\<in>set gone. inv_account_id i = Some (acc_id a) then i\<lparr>inv_account_id := None\<rparr> else i"
  have e: "invoices_v2 e = map (touch_invoice ?g now) (invoices_v2 d)" "amounts_received e = amounts_received d"
    using assms by (auto simp: delete_accounts_where_def delete_rows_def Let_def)
  have "keeps_ledger X d (d\<lparr>invoices_v2 := map (\<lambda>i. if True then touch_invoice ?g now i else i) (invoices_v2 d)\<rparr>)"
    by (rule ledger_update) auto
  then show ?thesis by (simp add: keeps_ledger_def ledger_except_def e)
qed

lemma ledger_reads: "reads m \<Longrightarrow> keeps_db (keeps_ledger X) m"
  by (simp add: keeps_def same_db_def keeps_ledger_same)

lemma ledger_accounts_delete: "keeps_db (keeps_ledger X) (accounts_delete acl aid)"
  unfolding accounts_delete_def
  by (intro keeps_intros ledger.keeps_execute keeps_ledger_accounts_delete) (rule ledger_reads, intro keeps_intros)

lemma balance_invoices:
  "keeps_db keeps_balance (accounts_delete acl aid)"
  "ni_amount_captured ni = Amount 0 \<Longrightarrow> keeps_db keeps_balance (invoices_create acl ni)"
  "keeps_db keeps_balance (increase_amount_captured acl aid tx amount)"
  "keeps_db keeps_balance (set_amount_paid acl iid paid)" "keeps_db keeps_balance (unlink_account acl iid)"
  "keeps_db keeps_balance (invoices_delete acl iid)"
  by ((rule balance_of_ledger,
      (rule ledger_accounts_delete keeps_invoices_create keeps_increase keeps_set_amount_paid keeps_unlink_account
        keeps_invoices_delete; assumption?)); (rule links_frame.frames; simp))+

lemma balance_intents:
  "keeps_db keeps_balance (pis_create acl npi)" "keeps_db keeps_balance (pis_update acl pid upi)"
  "keeps_db keeps_balance (pis_delete acl pid)" "keeps_db keeps_balance (pifs_create acl npif)"
  unfolding pis_create_def pis_update_def pis_delete_def pifs_create_def
  by ((intro keeps_intros balance.keeps_execute balance.keeps_execute_serial balance.keeps_update_where);
      (auto simp: insert_payment_intent_def delete_payment_intents_where_def insert_payment_intent_fee_def
        keeps_balance_def crypto_ledger_ok_def fiat_invoices_def ledger_except_def Let_def
        split: if_splits prod.splits))+

lemma balance_link: "keeps_db keeps_balance (piis_create acl npii)"
proof -
  have "keeps_balance d e" if "insert_payment_intent_invoice p n now d = Inr (r, e)" for p n now r and d e :: "'a db"
    using that ledger_except_mono [of "fiat_invoices d" d "fiat_invoices e"]
    by (auto simp: insert_payment_intent_invoice_def keeps_balance_def crypto_ledger_ok_def fiat_invoices_def
        ledger_except_def Let_def split: if_splits)
  then show ?thesis
    unfolding piis_create_def by (intro keeps_intros balance.keeps_execute_serial)
qed

text \<open>The payment of an invoice that has a payment intent.\<close>

definition keeps_fiat :: "invoice_id \<Rightarrow> 'd db \<Rightarrow> 'd db \<Rightarrow> bool" where
  "keeps_fiat iid d e \<longleftrightarrow> (iid \<in> fiat_invoices d \<longrightarrow> iid \<in> fiat_invoices e \<and> keeps_balance d e)"

interpretation fiat: db_relation "keeps_fiat iid" for iid
  by unfold_locales (auto simp: keeps_fiat_def keeps_balance_def)

lemma pis_update_links: "keeps_db same_links (pis_update acl pid upi)"
  unfolding pis_update_def by (intro keeps_intros links.keeps_update_where) (simp add: same_links_def)

lemma fiat_set_paid: "keeps_db (keeps_fiat iid) (set_amount_paid_fiat acl iid paid)"
proof (rule keepsI)
  fix w r t
  assume run: "set_amount_paid_fiat acl iid paid w = (r, t)"
  have "keeps_db same_links (set_amount_paid_fiat acl iid paid)" by (rule links_frame.frames) simp
  from keepsD [OF this run] have "fiat_invoices (w_db t) = fiat_invoices (w_db w)"
    by (simp add: same_links_def fiat_invoices_def)
  moreover have "keeps_ledger (fiat_invoices (w_db w)) (w_db w) (w_db t)" if "iid \<in> fiat_invoices (w_db w)"
    using keepsD [OF keeps_set_amount_paid_fiat [OF that] run] .
  ultimately show "keeps_fiat iid (w_db w) (w_db t)"
    by (simp add: keeps_fiat_def keeps_balance_def crypto_ledger_ok_def keeps_ledger_def)
qed

lemma paid_invoice_is_fiat:
  assumes "payment_intent_succeeded pc p w = (Inr (PaymentOfInvoice q invoice os), t)"
  shows "inv_id invoice \<in> fiat_invoices (w_db t)"
proof -
  obtain x where "row_by (\<lambda>x. pii_payment_intent_id x = PaymentIntentId (spi_id p)) (payment_intents_invoices (w_db w)) = Some x"
    and "row_by (\<lambda>i. inv_id i = pii_invoice_id x) (invoices_v2 (w_db w)) = Some invoice"
    using endsD [OF payment_intent_succeeded_records assms] by (auto simp: payment_recorded_def)
  then have "inv_id invoice \<in> fiat_invoices (w_db w)"
    by (auto simp: fiat_invoices_def dest!: row_by_Some)
  moreover have "keeps_db same_links (payment_intent_succeeded pc p)"
    by (rule links.keeps_payment_succeeded) (auto intro!: links_frame.frames simp: pis_update_links)
  from keepsD [OF this assms] have "fiat_invoices (w_db t) = fiat_invoices (w_db w)"
    by (simp add: same_links_def fiat_invoices_def)
  ultimately show ?thesis by simp
qed

lemma balance_paid_fiat: "keeps_db keeps_balance (handle_payment_intent_succeeded env c p)"
proof (rule keepsI)
  fix w r t
  assume run: "handle_payment_intent_succeeded env c p w = (r, t)"
  let ?pay = "hpool (hdl_service (payment_intent_succeeded (cfg_order_percent (hc_service c)) p))"
  show "keeps_balance (w_db w) (w_db t)"
  proof (cases "spi_capture_method p = CaptureManual \<and> spi_amount p \<noteq> spi_amount_capturable p")
    case True
    with run show ?thesis by (simp add: handle_payment_intent_succeeded_def balance.P_refl)
  next
    case False
    obtain x u where pay: "?pay w = (x, u)" by fastforce
    have "keeps_db keeps_balance ?pay"
      by (intro keeps_intros balance.keeps_payment_succeeded balance_intents; rule balance_frame.frames; simp)
    from keepsD [OF this pay] have u: "keeps_balance (w_db w) (w_db u)" .
    show ?thesis
    proof (cases "\<exists>q invoice os. x = Inr (PaymentOfInvoice q invoice os)")
      case True
      then obtain q invoice os where x: "x = Inr (PaymentOfInvoice q invoice os)" by blast
      have "inv_id invoice \<in> fiat_invoices (w_db u)"
        using pay [unfolded x] by (auto simp: hdl_service_def success spawn_success dest: paid_invoice_is_fiat)
      moreover have "keeps_db (keeps_fiat (inv_id invoice)) (notify_and_set_paid env c (spi_amount p) invoice os)"
        by (rule fiat.keeps_notify_and_set_paid) (rule fiat_set_paid)
      moreover have "notify_and_set_paid env c (spi_amount p) invoice os u = (r, t)"
        using run False pay x by (simp add: handle_payment_intent_succeeded_def and_then_def)
      ultimately have "keeps_balance (w_db u) (w_db t)"
        using keepsD by (fastforce simp: keeps_fiat_def)
      with u show ?thesis by (rule balance.P_trans)
    next
      case False
      then have "w_db t = w_db u"
        using run pay \<open>\<not> (spi_capture_method p = CaptureManual \<and> spi_amount p \<noteq> spi_amount_capturable p)\<close>
        by (auto simp: handle_payment_intent_succeeded_def and_then_def split: sum.splits payment_type.splits)
      with u show ?thesis by simp
    qed
  qed
qed

lemmas balance_operations = balance_invoices balance_intents balance_link balance_paid_fiat

interpretation balance_program: program_with_roles keeps_balance cfg for cfg
  by (unfold_locales; ((rule balance_operations; assumption?) | (rule balance_frame.frames; simp)))

section \<open>Properties\<close>

definition consistent :: "'d db \<Rightarrow> bool" where
  "consistent d \<longleftrightarrow>
     crypto_ledger_ok d \<and> one_active (order_exchange_rates d) \<and> paid_once d \<and> intents_linked d \<and>
     legacy_agree d \<and> details_typed d"

text \<open>C1: Every run of the program keeps the tables consistent, whatever requests come in whichever order, between
  ticks of the event loop, restarts and ticks of the job, whatever the other services answer and
  whichever statements fail: an invoice without a payment intent has captured exactly the sum of its
  recorded transactions, of which none is recorded twice; no order has two active rates; no order is in two
  payouts; payment intents of invoices exist; the orders of version 1 have the state of their invoice; and
  the bank details of a store are of the kind of its type.\<close>

theorem tables_stay_consistent:
  assumes "consistent (w_db w)" and "program_run S cfg asked w t"
  shows "consistent (w_db t)"
  using assms(1) active_program.kept_run [OF assms(2)] payout_program.kept_run [OF assms(2)]
    linked_program.kept_run [OF assms(2)] legacy_program.kept_run [OF assms(2)] typed_program.kept_run [OF assms(2)]
    balance_program.kept_run [OF assms(2)]
  by (simp add: consistent_def keeps_one_active_def keeps_paid_once_def keeps_linked_def keeps_agree_def
      keeps_typed_def keeps_balance_def)

text \<open>An invoice, a request with the state of one of its orders, and the event loop afterwards.\<close>

definition some_handlers :: handler_config where
  "some_handlers = \<lparr>hc_service = cfg_of test_server, hc_events = no_timing, hc_task_first = (\<lambda>_. True)\<rparr>"

lemma invoice_world_consistent: "consistent (w_db invoice_world)"
  by (simp add: invoice_world_def initial_world_def consistent_def crypto_ledger_ok_def ledger_except_def
      fiat_invoices_def empty_db_def one_active_def paid_once_def intents_linked_def legacy_agree_def
      details_typed_def stores_typed_def sample_user_invoice_def)

theorem tables_stay_consistent_witness:
  "consistent (w_db (snd (run_ticks rat_bigdecimal (env_of test_server) some_handlers 3
     (snd (call test_server (plain_request Post ''/external_billing_callback'') invoice_world)))))"
proof (rule tables_stay_consistent [OF invoice_world_consistent])
  let ?v = "snd (call test_server (plain_request Post ''/external_billing_callback'') invoice_world)"
  have "program_step test_server some_handlers (\<lambda>_. True) invoice_world ?v"
    by (rule step_request) simp_all
  moreover have "program_step test_server some_handlers (\<lambda>_. True) ?v
      (snd (run_ticks rat_bigdecimal (env_of test_server) some_handlers 3 ?v))"
    by (rule step_ticks [where n = 3]) (simp add: test_server_def)
  ultimately show "program_run test_server some_handlers (\<lambda>_. True) invoice_world
      (snd (run_ticks rat_bigdecimal (env_of test_server) some_handlers 3 ?v))"
    by (rule converse_rtranclp_into_rtranclp [OF _ r_into_rtranclp])
qed

text \<open>C6: The whole program uses the event queue as its state machine allows: in every run the events that were there
  only take steps of the machine, are never removed, and the new ones began as pending and never tried.
  No event is tried more often than configured when none was before.\<close>

theorem queue_follows_machine_in_every_run:
  assumes "event_ids_distinct (w_db w)" and "program_run S cfg asked w t"
    and "\<forall>r\<in>set (event_store (w_db w)). attempts_ok (hc_events cfg) r"
    and "0 < sint (max_processing_attempts (hc_events cfg))"
  shows "events_evolve (hc_events cfg) (event_store (w_db w)) (event_store (w_db t)) \<and>
    event_ids_distinct (w_db t) \<and> (\<forall>r\<in>set (event_store (w_db t)). attempts_ok (hc_events cfg) r)"
  using queue_program.kept_run [OF assms(2)] assms(1) attempts_ok_evolve [OF _ assms(3,4)]
  by (auto simp: event_store_evolves_def)

theorem queue_follows_machine_in_every_run_witness:
  "event_ids_distinct (w_db (snd (call test_server (plain_request Post ''/external_billing_callback'') invoice_world)))"
proof -
  let ?v = "snd (call test_server (plain_request Post ''/external_billing_callback'') invoice_world)"
  have "program_run test_server some_handlers (\<lambda>_. True) invoice_world ?v"
    by (rule r_into_rtranclp) (rule step_request; simp)
  from queue_follows_machine_in_every_run [OF _ this] show ?thesis
    by (simp add: invoice_world_def initial_world_def event_ids_distinct_def empty_db_def some_handlers_def
        no_timing_def)
qed

text \<open>C15: The roles change only on the requests for roles: in a run without a request that is routed there, whoever
  sends the others, every user has the roles it had.\<close>

theorem roles_change_on_request_only:
  assumes "program_run S cfg asked w t" and "uuid_texts (sv_parse_uuid S)"
    and "\<forall>q. asked q \<longrightarrow> (\<forall>r. route_of (sv_parse_uuid S) (rq_path q) = Some r \<longrightarrow> \<not> role_route r)"
  shows "roles (w_db t) = roles (w_db w)"
  using assms(1)
proof (induction rule: rtranclp_induct)
  case (step u v)
  have "same_roles (w_db u) (w_db v)"
    using step.hyps(2)
  proof (rule program_stepE)
    fix q assume q: "asked q" "v = snd (call S q u)"
    have "keeps_db same_roles (call S q)"
    proof (cases "route_of (sv_parse_uuid S) (rq_path q)")
      case None
      then show ?thesis by (simp add: call_def role_program.kept_reads [OF reads_not_found])
    next
      case (Some r)
      with assms(3) q(1) have "\<not> role_route r" by blast
      with Some show ?thesis by (simp add: call_def role_program.kept_respond)
    qed
    with q(2) show ?thesis by (simp add: keeps_def)
  next
    fix encode tick assume v: "v = snd (job_tick S encode tick u)"
    have "same_others (w_db u) (w_db v)"
      using frames_job_tick [OF assms(2), of encode tick] by (simp add: keeps_def v)
    then have "roles (other_tables (w_db v)) = roles (other_tables (w_db u))" by (simp add: same_others_def)
    then show ?thesis by (simp add: same_roles_def other_tables_def)
  qed (simp_all add: same_roles_def role_program.kept_run_ticks [unfolded keeps_def same_roles_def, rule_format]
      role_program.kept_start_server [unfolded keeps_def same_roles_def, rule_format])
  with step.IH show ?case by (simp add: same_roles_def)
qed simp

theorem roles_change_on_request_only_witness:
  "roles (w_db (snd (call test_server (plain_request Post ''/subscriptions'') role_world))) = roles (w_db role_world)"
proof (rule roles_change_on_request_only)
  show "program_run test_server some_handlers (\<lambda>q. rq_path q = ''/subscriptions'') role_world
      (snd (call test_server (plain_request Post ''/subscriptions'') role_world))"
    by (rule r_into_rtranclp) (rule step_request; simp add: plain_request_def)
  show uuids: "uuid_texts (sv_parse_uuid test_server)"
    by (simp add: test_server_def no_uuids_law)
  show "\<forall>q. rq_path q = ''/subscriptions'' \<longrightarrow>
      (\<forall>r. route_of (sv_parse_uuid test_server) (rq_path q) = Some r \<longrightarrow> \<not> role_route r)"
    by (simp add: job_routes [OF uuids] role_route_def)
qed

text \<open>C33: In every run of the program an invoice cannot be deleted: its payment intent is deleted while the row
  that links it to the invoice still refers to it, and an invoice without a payment intent is an error. The
  transaction is rolled back, nothing changes and Stripe is not called.\<close>

theorem deletion_fails_in_every_run:
  assumes "consistent (w_db w)" and "program_run S cfg asked w t"
  shows "ends (delete_invoice_by_saga_id_v2 env user u) t
    (\<lambda>r v. isl r \<and> w_db v = w_db t \<and> w_calls v = w_calls t)"
proof -
  have "intents_linked (w_db t)"
    using assms(1) linked_program.kept_run [OF assms(2)] by (simp add: consistent_def keeps_linked_def)
  then show ?thesis by (rule delete_invoice_never_succeeds)
qed

theorem deletion_fails_in_every_run_witness:
  "let t = snd (call test_server (plain_request Post ''/external_billing_callback'') linked_world)
   in ends (delete_invoice_by_saga_id_v2 offline_env None 1) t
     (\<lambda>r v. isl r \<and> w_db v = w_db t \<and> w_calls v = w_calls t)"
  unfolding Let_def
proof (rule deletion_fails_in_every_run)
  show "consistent (w_db linked_world)"
    by (simp add: linked_world_def initial_world_def consistent_def crypto_ledger_ok_def ledger_except_def
      fiat_invoices_def empty_db_def one_active_def paid_once_def intents_linked_def legacy_agree_def
      details_typed_def stores_typed_def priced_invoice_def)
  show "program_run test_server some_handlers (\<lambda>_. True) linked_world
      (snd (call test_server (plain_request Post ''/external_billing_callback'') linked_world))"
    by (rule r_into_rtranclp) (rule step_request; simp)
qed

end
