(* ===== verification/Spec2Isabelle.thy ===== *)
theory Spec2Isabelle
  imports Prelude Currencies Amounts Models Clients World Authorization Tables Constraints EventStore
    InvoicesRepo OrdersRepo RatesRepo FeesRepo PaymentIntentsRepo AccountsRepo PayoutsRepo
    Services Triples OrderService PayoutService AccountService Customers StripeService
    PaymentIntentService FeeService InvoicePricing InvoiceService
    EventHandling EventLoop EventHandlers SubscriptionModels BillingModels StoreTables SubscriptionsRepo
    SubscriptionService SubscriptionPayments BillingRepos BillingInfoService PaymentsGateway UserRolesService LegacyModels LegacyInvoices Routes
    ReadOnly Anonymous Controller ServiceClients SubscriptionJob Startup TableFrames Program Runs Consistency
begin

text \<open>
  Verification of the billing service (\<open>src/\<close>, Rust, and the job of \<open>subscriptions/src/\<close>).

  \<^bold>\<open>The program.\<close> A server (\<open>lib.rs\<close>) answers HTTP requests (\<open>controller/\<close>) with services
  (\<open>services/\<close>) that combine the operations of repositories (\<open>repos/\<close>) on a PostgreSQL database and calls of
  other services (\<open>client/\<close>): the gateway for crypto payments, Stripe, the saga and the stores. What has to
  happen later is put in a table of events; an event loop (\<open>event_handling/\<close>) takes one event at a time and
  tries it again when it fails. A job beside the server bills the stores once a day through two of its
  requests.

  \<^bold>\<open>Computations.\<close> A service or a repository function is a term of type \<open>('s, 'e, 'a) comp\<close> of
  theory Prelude: a function from a state to an error or a value, and the next state; \<open>and_then\<close>,
  \<open>map_err\<close>, \<open>then_res\<close> and \<open>or_else\<close> are the combinators of the futures of the source, \<open>try_map\<close> and
  \<open>for_each\<close> its loops over collections. A panic is the error \<open>SPanic\<close>, \<open>HPanic\<close> or \<open>Panicked\<close> of its
  layer, or \<open>None\<close> in a pure function. The state is the record \<open>world\<close> of theory World: the tables
  (\<open>w_db\<close>, one field for each table), the clock, the next UUIDs, the sequences, the cache of the
  roles and whether it answers, the log of the calls of other services, and \<open>w_faults\<close>, which decides statement by statement what
  fails for reasons outside the program, so that a theorem about every world covers every failure. A
  transaction restores the tables after an error; a statement that fails inside aborts the rest of it. Amounts
  are 128-bit words with the checked arithmetic of the source, casts and counters keep their width.

  \<^bold>\<open>Parameters.\<close> The other services are functions in the records \<open>env\<close> and \<open>legacy_env\<close>, which see the
  log of the calls; theorems hold for all of them. The crates BigDecimal, uuid, hyper, serde and the Stripe
  library are parameters too (\<open>bigdecimal\<close>, \<open>server\<close>, \<open>stripe_library\<close>), with their documented laws as named
  hypotheses (\<open>uuid_texts\<close>, \<open>bigdecimal_laws\<close>), instantiated in the witnesses (\<open>rat_bigdecimal\<close>,
  \<open>no_uuids\<close>).

  \<^bold>\<open>Theories, from the bottom.\<close>
  \<^item> Vocabulary: Prelude (computations, the named collections \<open>keeps_intros\<close> and \<open>success\<close>, the locale
    \<open>step_relation\<close> of relations that computations keep), World (tables, statements, transactions, the locales
    \<open>world_relation\<close> and \<open>db_relation\<close>), Tables and StoreTables (queries and updates for any table, the locale
    \<open>table\<close>), Constraints (triggers, foreign keys and cascades of \<open>migrations/\<close>), Triples (weakest
    preconditions \<open>ends\<close>).
  \<^item> Data (\<open>models/\<close>): Currencies, Amounts, Models, SubscriptionModels, BillingModels, LegacyModels; the messages
    of the other services in Clients.
  \<^item> Repositories (\<open>repos/\<close>): Authorization (\<open>repos/acl\<close>), EventStore, InvoicesRepo, OrdersRepo, RatesRepo,
    FeesRepo, PaymentIntentsRepo, AccountsRepo, PayoutsRepo, SubscriptionsRepo, BillingRepos, and the repositories
    of customers, roles and version 1 with their services.
  \<^item> Services (\<open>services/\<close>): Services (errors, pool of threads), OrderService, PayoutService, AccountService,
    Customers, StripeService, PaymentIntentService, FeeService, InvoicePricing and InvoiceService (invoices of
    version 2), LegacyInvoices (version 1, the external billing, the merchants), SubscriptionService and
    SubscriptionPayments, BillingInfoService, UserRolesService.
  \<^item> Clients (\<open>client/\<close>): PaymentsGateway (signed requests, and the gateway in memory), ServiceClients (Stripe,
    stores, saga; it instantiates the environment with the clients).
  \<^item> Events: EventHandling (the loop and every handler), EventHandlers (what the handlers do), EventLoop (the
    loop and the queue).
  \<^item> Requests: Routes (the table of paths, with a matcher for the patterns it uses), Controller (every
    endpoint), ReadOnly and Anonymous (which services only read, which are refused to strangers).
  \<^item> Program: Startup (\<open>start_server\<close>), SubscriptionJob (a tick of the job), TableFrames (which tables an
    operation touches), Program (what keeps a relation is kept by every request and every tick), Runs (the step
    relation of the program), Consistency (the invariants of all runs).

  \<^bold>\<open>What is shown.\<close>
  \<^item> Runs: \<open>tables_stay_consistent\<close>, \<open>queue_follows_machine_in_every_run\<close>, \<open>roles_change_on_request_only\<close> and
    \<open>deletion_fails_in_every_run\<close> hold for every sequence of requests, ticks, restarts and job ticks. Their proofs
    go through the locales \<open>program_relation\<close> and \<open>program_with_roles\<close>, whose assumptions are the operations
    that write, interpreted once for each invariant; \<open>table_frame\<close> discharges those on other tables.
  \<^item> Money: the ledger of received amounts, the payment of an invoice exactly when it is covered, no
    order paid out twice and no payout sent twice, callbacks credited once, accounts unlinked only when
    empty, a fiat order declined only after its refund, charges that cover the fees, subscriptions charged once, the bounds of the casts to 64 bits.
  \<^item> Machines: the states of orders and of events as inductive step relations, with invariants by rule
    induction (the decline of a crypto order is a step of its own, which the code's table does not have); every
    run follows the machine of events, and a loop without failures works off any queue.
  \<^item> Requests: reading changes nothing, strangers are confined, the answers and their codes, the routes.
  \<^item> Data: round trips and decoding of amounts, the types of bank details, agreement of the tables of version 1.
  \<^item> Deviations of the code from its purpose are theorems as well (\<open>anybody_deletes_roles_by_request\<close>,
    \<open>fee_routes_unreachable\<close>, \<open>repeated_payment_event_fails\<close>, \<open>completing_one_payout_completes_all\<close> and
    others).

  \<^bold>\<open>Bounds.\<close> The event loop never ends; \<open>run_ticks\<close> runs any given number of its ticks and the theorems hold for
  all numbers; \<open>retries_end\<close> shows that as many as the events have attempts left together
  suffice to work off a queue. No other function needs fuel: the
  loops of the source run over collections. UUIDs are 128-bit words; the theorem on the start asks only that
  the ones drawn are new.

  \<^bold>\<open>Not modelled.\<close> The libraries below the parameters above (HTTP, JSON, the pools of threads and
  connections, Redis, the timer); logs and Sentry, which no result depends on; the contexts of errors, which
  are only logged (of the chain of causes an answer shows only the refused access, \<open>chained\<close>); the second try of
  the HTTP client of the subscription job (\<open>http_client_retries: 1\<close>); \<open>schema.rs\<close> and \<open>macros.rs\<close>, which declare columns and derive conversions; the loading of
  configuration files, and the construction of the gateway's client from keys and tokens. Requests that run at
  the same time are modelled as sequences of whole requests; only the two halves of a credited amount
  (\<open>concurrent_callbacks_lose_amount\<close>) and of a deletion of roles
  (\<open>interleaved_listing_keeps_deleted_roles\<close>) are interleaved. Tests and the mocks of the repositories
  (\<open>repos/repo_factory.rs\<close>) are not part of the program.
\<close>

end
